(* ===== verification/Prelude.thy ===== *)
theory Prelude
  imports Complex_Main "HOL-Library.Word" "HOL-Library.Sublist" "HOL-Library.List_Lexorder"
    "HOL-Library.Char_ord" "HOL-Library.Product_Lexorder"
begin

text \<open>
  Shared vocabulary of the development: the collections of simplification rules, the sorting
  and selection helpers that stand for Python's \<open>sorted\<close>, \<open>max\<close> and \<open>next\<close>, association lists
  as insertion-ordered dictionaries, and the generic facts about them that the component
  theories use. Strings, tuples and lists are compared lexicographically, as Python does
  (List_Lexorder, Char_ord, Product_Lexorder).
\<close>

section \<open>Fact collections\<close>

named_theorems ctor_defs \<open>definitions of the constructors' validations (post_init methods)\<close>
named_theorems lifecycle_defs \<open>transition tables and transition methods\<close>
named_theorems py_simps \<open>facts about the Python primitives\<close>

section \<open>sorted(xs, key=f): stable sorting\<close>

text \<open>
  Python's \<open>sorted\<close> is stable; HOL's \<open>sort_key\<close> is a stable insertion sort, and its result
  is determined by \<open>sort_key_stable\<close>, so it computes the same list.
\<close>

abbreviation sorted_by :: "('a \<Rightarrow> 'k::linorder) \<Rightarrow> 'a list \<Rightarrow> 'a list" where
  "sorted_by f xs \<equiv> sort_key f xs"

section \<open>pairwise(xs)\<close>

fun pairwise :: "'a list \<Rightarrow> ('a \<times> 'a) list" where
  "pairwise [] = []"
| "pairwise [x] = []"
| "pairwise (x # y # zs) = (x, y) # pairwise (y # zs)"

lemma pairwise_sorted_wrt:
  assumes "transp R"
  shows "(\<forall>(a, b) \<in> set (pairwise xs). R a b) \<longleftrightarrow> sorted_wrt R xs"
proof (induction xs rule: pairwise.induct)
  case (3 x y zs)
  then show ?case
    using transpD [OF assms] by (auto; blast)
qed auto

lemma pairwise_member: "(a, b) \<in> set (pairwise xs) \<Longrightarrow> a \<in> set xs \<and> b \<in> set xs"
  by (induction xs rule: pairwise.induct) auto

section \<open>next((x for x in xs if p x), None)\<close>

abbreviation first_where :: "('a \<Rightarrow> bool) \<Rightarrow> 'a list \<Rightarrow> 'a option" where
  "first_where p xs \<equiv> find p xs"

lemma find_SomeD: "find p xs = Some x \<Longrightarrow> p x \<and> x \<in> set xs"
  by (induction xs) (auto split: if_splits)

section \<open>max(xs, key=f): the first element of the largest key\<close>

fun max_by :: "('a \<Rightarrow> 'k::linorder) \<Rightarrow> 'a \<Rightarrow> 'a list \<Rightarrow> 'a" where
  "max_by f best [] = best"
| "max_by f best (x # xs) = (if f best < f x then max_by f x xs else max_by f best xs)"

lemma max_by_in: "max_by f b xs \<in> insert b (set xs)"
  by (induction xs arbitrary: b) (simp, metis insert_iff list.set(2) max_by.simps(2))

lemma max_by_init: "f b \<le> f (max_by f b xs)"
proof (induction xs arbitrary: b)
  case (Cons x xs)
  show ?case using Cons [of x] Cons [of b] by auto
qed simp

lemma max_by_ge: "x \<in> set xs \<Longrightarrow> f x \<le> f (max_by f b xs)"
proof (induction xs arbitrary: b)
  case (Cons y ys)
  show ?case
  proof (cases "x = y")
    case True
    show ?thesis
      using True max_by_init [of f y ys] max_by_init [of f b ys]
      by (auto simp: not_less intro: order_trans)
  next
    case False
    then show ?thesis using Cons by auto
  qed
qed simp

section \<open>Dictionaries\<close>

text \<open>
  A Python \<open>dict\<close> is an association list in insertion order with distinct keys:
  \<open>dict_get\<close> is \<open>d.get(k)\<close>, \<open>dict_set\<close> is \<open>d[k] = v\<close> (an existing key keeps its position),
  \<open>dict_keys\<close> is \<open>set(d)\<close>.
\<close>

type_synonym ('k, 'v) dict = "('k \<times> 'v) list"

abbreviation dict_get :: "('k, 'v) dict \<Rightarrow> 'k \<Rightarrow> 'v option" where
  "dict_get d k \<equiv> map_of d k"

abbreviation dict_keys :: "('k, 'v) dict \<Rightarrow> 'k set" where
  "dict_keys d \<equiv> set (map fst d)"

fun dict_set :: "'k \<Rightarrow> 'v \<Rightarrow> ('k, 'v) dict \<Rightarrow> ('k, 'v) dict" where
  "dict_set k v [] = [(k, v)]"
| "dict_set k v ((k', v') # d) = (if k' = k then (k, v) # d else (k', v') # dict_set k v d)"

lemma dict_get_set [simp]: "dict_get (dict_set k v d) j = (if j = k then Some v else dict_get d j)"
  by (induction d) auto

lemma dict_keys_set [simp]: "fst ` set (dict_set k v d) = insert k (fst ` set d)"
proof (induction d)
  case (Cons p d)
  then show ?case by (cases p) auto
qed simp

lemma distinct_dict_set: "distinct (map fst d) \<Longrightarrow> distinct (map fst (dict_set k v d))"
proof (induction d)
  case (Cons p d)
  then show ?case
    using dict_keys_set [of k v d] by (cases p) (auto simp: image_iff)
qed simp

section \<open>Optional values\<close>

definition is_some :: "'a option \<Rightarrow> bool" where
  "is_some x = (case x of None \<Rightarrow> False | Some _ \<Rightarrow> True)"

lemma is_some_simps [simp]: "is_some None = False" "is_some (Some x) = True"
  by (simp_all add: is_some_def)

lemma is_some_iff: "is_some x \<longleftrightarrow> (\<exists>y. x = Some y)"
  by (cases x) auto

section \<open>Sums over filtered lists\<close>

lemma sum_list_filter_le:
  fixes f :: "'a \<Rightarrow> int"
  assumes "\<And>x. x \<in> set xs \<Longrightarrow> 0 \<le> f x"
    and "\<And>x. x \<in> set xs \<Longrightarrow> p x \<Longrightarrow> q x"
  shows "sum_list (map f (filter p xs)) \<le> sum_list (map f (filter q xs))"
  using assms by (induction xs) (auto, fastforce)

lemma sum_list_filter_nonneg:
  fixes f :: "'a \<Rightarrow> int"
  assumes "\<And>x. x \<in> set xs \<Longrightarrow> 0 \<le> f x"
  shows "0 \<le> sum_list (map f (filter p xs))"
  using assms by (induction xs) auto

end
