(* ===== verification/PyErrors.thy ===== *)
theory PyErrors
  imports Prelude
begin

text \<open>
  The exceptions of the program as values. \<open>exc\<close> has one constructor per exception class of
  \<open>domain/shared/errors.py\<close>, \<open>application/common/errors/persistence.py\<close>,
  \<open>application/common/errors/queries.py\<close> and of the modules that declare their own, with the
  constructor's arguments, and the built-in exceptions the code raises. A fallible function
  returns \<open>exc + 'a\<close>: \<open>Inl e\<close> is "raises e".
\<close>

section \<open>Exception classes\<close>

datatype exc =
    \<comment> \<open>domain/shared/errors.py\<close>
    ValidationError string
  | InvalidStateTransition string string string
  | TenantMismatchError string
    \<comment> \<open>application/common/errors/persistence.py\<close>
  | DuplicateEntityError string
  | EntityNotFoundError string
  | StaleEntityError string
  | IntegrityConflictError string
    \<comment> \<open>application/common/errors/queries.py\<close>
  | TenantNotFoundError
  | PublicProfileNotFoundError
  | ServiceNotFoundError
  | CategoryNotFoundError
  | UnresolvedLocaleError
  | InvalidScheduleError string
  | InvalidDateTimeError string
  | AuthenticationError
  | AuthorizationError
  | TelegramIdentityUnavailableError
  | BookingNotFoundError
  | BookingConflictError string
  | BookingExpiredError string
  | BookingPolicyError string
  | QualificationError string
  | HandoffError string
  | KnowledgeError string
  | PrivacyError string string
    \<comment> \<open>classes declared by single modules\<close>
  | AdministrationError string string
  | InvalidAnswerError string
  | AISchemaValidationError string
  | AIProviderError string bool
  | NotificationDeliveryError string bool
    \<comment> \<open>Python built-ins\<close>
  | ValueError string
  | TypeError string
  | RuntimeError string
  | AssertionError string
  | KeyError string
  | IndexError string
  | ZeroDivisionError
  | InvalidOperation
  | TimeoutError
  | CancelledError
  | OtherException string

type_synonym 'a res = "exc + 'a"

text \<open>\<open>except ValueError\<close> catches the subclasses of ValueError too.\<close>

fun is_ValueError :: "exc \<Rightarrow> bool" where
  "is_ValueError (ValueError _) = True"
| "is_ValueError (InvalidAnswerError _) = True"
| "is_ValueError (AISchemaValidationError _) = True"
| "is_ValueError _ = False"

text \<open>\<open>except Exception\<close> catches everything but CancelledError, a BaseException.\<close>

fun is_Exception :: "exc \<Rightarrow> bool" where
  "is_Exception CancelledError = False"
| "is_Exception _ = True"

fun is_DomainError :: "exc \<Rightarrow> bool" where
  "is_DomainError (ValidationError _) = True"
| "is_DomainError (InvalidStateTransition _ _ _) = True"
| "is_DomainError (TenantMismatchError _) = True"
| "is_DomainError _ = False"

fun is_PersistenceError :: "exc \<Rightarrow> bool" where
  "is_PersistenceError (DuplicateEntityError _) = True"
| "is_PersistenceError (EntityNotFoundError _) = True"
| "is_PersistenceError (StaleEntityError _) = True"
| "is_PersistenceError (IntegrityConflictError _) = True"
| "is_PersistenceError _ = False"

section \<open>Codes and messages\<close>

text \<open>The attributes \<open>code\<close> and \<open>message\<close> of a DomainError.\<close>

fun domain_error_code :: "exc \<Rightarrow> string option" where
  "domain_error_code (ValidationError _) = Some ''domain.validation''"
| "domain_error_code (InvalidStateTransition _ _ _) = Some ''domain.invalid_state_transition''"
| "domain_error_code (TenantMismatchError _) = Some ''domain.tenant_mismatch''"
| "domain_error_code _ = None"

fun domain_error_message :: "exc \<Rightarrow> string option" where
  "domain_error_message (ValidationError m) = Some m"
| "domain_error_message (InvalidStateTransition aggregate current target) =
     Some (aggregate @ '' cannot transition from '' @ current @ '' to '' @ target)"
| "domain_error_message (TenantMismatchError relationship) =
     Some (''Cross-tenant relationship is forbidden: '' @ relationship)"
| "domain_error_message _ = None"

text \<open>The attributes of a PersistenceError.\<close>

fun persistence_error_code :: "exc \<Rightarrow> string option" where
  "persistence_error_code (DuplicateEntityError _) = Some ''persistence.duplicate''"
| "persistence_error_code (EntityNotFoundError _) = Some ''persistence.not_found''"
| "persistence_error_code (StaleEntityError _) = Some ''persistence.stale''"
| "persistence_error_code (IntegrityConflictError _) = Some ''persistence.integrity_conflict''"
| "persistence_error_code _ = None"

fun persistence_error_message :: "exc \<Rightarrow> string option" where
  "persistence_error_message (DuplicateEntityError entity) = Some (entity @ '' already exists'')"
| "persistence_error_message (EntityNotFoundError entity) = Some (entity @ '' was not found'')"
| "persistence_error_message (StaleEntityError entity) =
     Some (entity @ '' was changed by another transaction'')"
| "persistence_error_message (IntegrityConflictError operation) =
     Some (operation @ '' conflicts with persisted business constraints'')"
| "persistence_error_message _ = None"

text \<open>The attributes of an ApplicationError.\<close>

fun application_error :: "exc \<Rightarrow> (string \<times> string) option" where
  "application_error TenantNotFoundError = Some (''tenant.not_found'', ''Tenant was not found'')"
| "application_error PublicProfileNotFoundError =
     Some (''tenant.profile_not_found'', ''Public business profile is unavailable'')"
| "application_error ServiceNotFoundError =
     Some (''catalog.service_not_found'', ''Service was not found'')"
| "application_error CategoryNotFoundError =
     Some (''catalog.category_not_found'', ''Service category was not found'')"
| "application_error UnresolvedLocaleError =
     Some (''locale.unresolved'', ''Localized content is unavailable'')"
| "application_error (InvalidScheduleError m) = Some (''schedule.invalid'', m)"
| "application_error (InvalidDateTimeError m) = Some (''datetime.invalid'', m)"
| "application_error AuthenticationError =
     Some (''auth.authentication_required'', ''Valid authentication is required'')"
| "application_error AuthorizationError =
     Some (''auth.forbidden'', ''This principal is not allowed to perform the action'')"
| "application_error TelegramIdentityUnavailableError =
     Some (''telegram.identity_unavailable'', ''Telegram identity is unavailable'')"
| "application_error BookingNotFoundError =
     Some (''booking.not_found'', ''Appointment was not found'')"
| "application_error (BookingConflictError m) = Some (''booking.conflict'', m)"
| "application_error (BookingExpiredError m) = Some (''booking.expired'', m)"
| "application_error (BookingPolicyError m) = Some (''booking.policy'', m)"
| "application_error (QualificationError m) = Some (''qualification.invalid'', m)"
| "application_error (HandoffError m) = Some (''handoff.invalid'', m)"
| "application_error (KnowledgeError m) = Some (''knowledge.invalid'', m)"
| "application_error (PrivacyError m c) = Some (c, m)"
| "application_error (AdministrationError m c) = Some (c, m)"
| "application_error _ = None"

text \<open>Default messages of the constructors' optional arguments.\<close>

definition schedule_invalid_default :: exc where
  "schedule_invalid_default = InvalidScheduleError ''Business schedule is invalid''"

definition datetime_invalid_default :: exc where
  "datetime_invalid_default = InvalidDateTimeError ''A timezone-aware timestamp is required''"

definition booking_conflict_default :: exc where
  "booking_conflict_default = BookingConflictError ''That appointment time is no longer available''"

definition booking_expired_default :: exc where
  "booking_expired_default = BookingExpiredError ''The booking hold or draft has expired''"

definition qualification_default :: exc where
  "qualification_default = QualificationError ''Qualification request is invalid or unavailable''"

definition handoff_default :: exc where
  "handoff_default = HandoffError ''Human handoff request is invalid or unavailable''"

definition knowledge_default :: exc where
  "knowledge_default = KnowledgeError ''Knowledge request is invalid or unavailable''"

section \<open>Sequencing fallible computations\<close>

definition res_bind :: "'a res \<Rightarrow> ('a \<Rightarrow> 'b res) \<Rightarrow> 'b res" where
  "res_bind m f = (case m of Inl e \<Rightarrow> Inl e | Inr x \<Rightarrow> f x)"

lemma res_bind_simps [simp]:
  "res_bind (Inl e) f = Inl e"
  "res_bind (Inr x) f = f x"
  by (simp_all add: res_bind_def)

lemma res_bind_InrD: "res_bind m f = Inr y \<Longrightarrow> \<exists>x. m = Inr x \<and> f x = Inr y"
  by (cases m) auto

lemma res_bind_Inr_iff: "res_bind m f = Inr y \<longleftrightarrow> (\<exists>x. m = Inr x \<and> f x = Inr y)"
  by (cases m) auto

lemma res_bind_Inl_iff:
  "res_bind m f = Inl e \<longleftrightarrow> m = Inl e \<or> (\<exists>x. m = Inr x \<and> f x = Inl e)"
  by (cases m) auto

definition is_ok :: "'a res \<Rightarrow> bool" where
  "is_ok r = (case r of Inl _ \<Rightarrow> False | Inr _ \<Rightarrow> True)"

lemma is_ok_simps [simp]: "is_ok (Inl e) = False" "is_ok (Inr x) = True"
  by (simp_all add: is_ok_def)

lemma is_ok_iff: "is_ok r \<longleftrightarrow> (\<exists>x. r = Inr x)"
  by (cases r) auto

text \<open>A comprehension whose body may raise stops at the first exception.\<close>

fun res_map :: "('a \<Rightarrow> 'b res) \<Rightarrow> 'a list \<Rightarrow> 'b list res" where
  "res_map f [] = Inr []"
| "res_map f (x # xs) = res_bind (f x) (\<lambda>y. res_bind (res_map f xs) (\<lambda>ys. Inr (y # ys)))"

lemma res_map_Inr: "res_map f xs = Inr ys \<longleftrightarrow> list_all2 (\<lambda>x y. f x = Inr y) xs ys"
proof (induction xs arbitrary: ys)
  case (Cons x xs)
  then show ?case by (cases ys) (auto simp: res_bind_Inr_iff)
qed auto

lemma res_map_length: "res_map f xs = Inr ys \<Longrightarrow> length ys = length xs"
  by (simp add: res_map_Inr list_all2_lengthD)

section \<open>Loops that may raise\<close>

text \<open>\<open>for x in xs: state = body(x, state)\<close>: an exception in the body ends the loop.\<close>

fun res_fold :: "('a \<Rightarrow> 's \<Rightarrow> 's res) \<Rightarrow> 'a list \<Rightarrow> 's \<Rightarrow> 's res" where
  "res_fold f [] s = Inr s"
| "res_fold f (x # xs) s = res_bind (f x s) (res_fold f xs)"

lemma res_bind_assoc: "res_bind (res_bind m f) g = res_bind m (\<lambda>x. res_bind (f x) g)"
  by (cases m) simp_all

lemma res_fold_append: "res_fold f (xs @ ys) s = res_bind (res_fold f xs s) (res_fold f ys)"
  by (induction xs arbitrary: s) (auto simp: res_bind_def split: sum.splits)

lemma res_fold_concat: "res_fold f (concat xss) s = res_fold (res_fold f) xss s"
  by (induction xss arbitrary: s) (auto simp: res_fold_append res_bind_def split: sum.splits)

lemma res_fold_map: "res_fold f (map g xs) s = res_fold (\<lambda>x. f (g x)) xs s"
  by (induction xs arbitrary: s) (simp_all add: res_bind_def split: sum.splits)

lemma res_fold_cong: "(\<And>x s. x \<in> set xs \<Longrightarrow> f x s = g x s) \<Longrightarrow> res_fold f xs s = res_fold g xs s"
  by (induction xs arbitrary: s) (simp_all add: res_bind_def split: sum.splits)

end
