(* ===== verification/PyText.thy ===== *)
theory PyText
  imports PyErrors
begin

text \<open>
  Python's text operations as the program uses them. A \<open>str\<close> is a HOL \<open>string\<close> whose
  characters are read as the code points U+0000 to U+00FF (Latin-1): this is where the ASCII
  and the Latin-1 white space, letters and digits of the validators live. Code points above
  U+00FF are outside the model. The operations follow the Unicode tables for that range.
\<close>

section \<open>Character classes\<close>

definition code :: "char \<Rightarrow> nat" where
  "code c = of_char c"

text \<open>\<open>str.isspace\<close> and the regular-expression class \<open>\s\<close>.\<close>

definition is_space :: "char \<Rightarrow> bool" where
  "is_space c = (let n = code c in 9 \<le> n \<and> n \<le> 13 \<or> 28 \<le> n \<and> n \<le> 32 \<or> n = 133 \<or> n = 160)"

text \<open>\<open>\d\<close> and \<open>str.isdecimal\<close>: in Latin-1 the only decimal digits are 0 to 9.\<close>

definition is_digit :: "char \<Rightarrow> bool" where
  "is_digit c = (48 \<le> code c \<and> code c \<le> 57)"

definition is_upper_az :: "char \<Rightarrow> bool" where
  "is_upper_az c = (65 \<le> code c \<and> code c \<le> 90)"

definition is_lower_az :: "char \<Rightarrow> bool" where
  "is_lower_az c = (97 \<le> code c \<and> code c \<le> 122)"

definition is_hex :: "char \<Rightarrow> bool" where
  "is_hex c = (is_digit c \<or> 65 \<le> code c \<and> code c \<le> 70 \<or> 97 \<le> code c \<and> code c \<le> 102)"

text \<open>\<open>str.isidentifier\<close>: XID\_Start, then XID\_Continue.\<close>

definition is_ident_start :: "char \<Rightarrow> bool" where
  "is_ident_start c = (let n = code c in is_upper_az c \<or> is_lower_az c \<or> n = 95 \<or> n = 170
     \<or> n = 181 \<or> n = 186 \<or> 192 \<le> n \<and> n \<noteq> 215 \<and> n \<noteq> 247)"

definition is_ident_continue :: "char \<Rightarrow> bool" where
  "is_ident_continue c = (is_ident_start c \<or> is_digit c \<or> code c = 183)"

definition isidentifier :: "string \<Rightarrow> bool" where
  "isidentifier s = (case s of [] \<Rightarrow> False | c # cs \<Rightarrow> is_ident_start c \<and> list_all is_ident_continue cs)"

definition isdecimal :: "string \<Rightarrow> bool" where
  "isdecimal s = (s \<noteq> [] \<and> list_all is_digit s)"

definition isascii :: "string \<Rightarrow> bool" where
  "isascii s = list_all (\<lambda>c. code c < 128) s"

section \<open>strip, split, join\<close>

definition lstrip :: "string \<Rightarrow> string" where
  "lstrip s = dropWhile is_space s"

definition rstrip :: "string \<Rightarrow> string" where
  "rstrip s = rev (dropWhile is_space (rev s))"

definition strip :: "string \<Rightarrow> string" where
  "strip s = rstrip (lstrip s)"

text \<open>\<open>not s.strip()\<close>\<close>

definition blank :: "string \<Rightarrow> bool" where
  "blank s = (strip s = [])"

fun split_ws_acc :: "string \<Rightarrow> string \<Rightarrow> string list" where
  "split_ws_acc w [] = (if w = [] then [] else [w])"
| "split_ws_acc w (c # cs) =
     (if is_space c then (if w = [] then split_ws_acc [] cs else w # split_ws_acc [] cs)
      else split_ws_acc (w @ [c]) cs)"

text \<open>\<open>s.split()\<close>: the maximal runs of non-space characters.\<close>

definition split_ws :: "string \<Rightarrow> string list" where
  "split_ws s = split_ws_acc [] s"

text \<open>\<open>s.split(sep)\<close> for a single character.\<close>

fun split_char_acc :: "char \<Rightarrow> string \<Rightarrow> string \<Rightarrow> string list" where
  "split_char_acc sep w [] = [w]"
| "split_char_acc sep w (c # cs) =
     (if c = sep then w # split_char_acc sep [] cs else split_char_acc sep (w @ [c]) cs)"

definition split_char :: "char \<Rightarrow> string \<Rightarrow> string list" where
  "split_char sep s = split_char_acc sep [] s"

text \<open>\<open>sep.join(parts)\<close>\<close>

fun join :: "string \<Rightarrow> string list \<Rightarrow> string" where
  "join sep [] = []"
| "join sep [s] = s"
| "join sep (s # t # ts) = s @ sep @ join sep (t # ts)"

definition newline :: string where
  "newline = [CHR 0x0A]"

section \<open>Case mapping\<close>

definition lower_char :: "char \<Rightarrow> char" where
  "lower_char c = (let n = code c in
     if 65 \<le> n \<and> n \<le> 90 \<or> 192 \<le> n \<and> n \<le> 222 \<and> n \<noteq> 215 then char_of (n + 32) else c)"

text \<open>
  \<open>str.casefold\<close>: lower case, and the sharp s (U+00DF) becomes \<open>ss\<close>. The micro sign folds to
  a character outside Latin-1; it is left alone here, which no comparison within Latin-1 sees.
\<close>

definition casefold :: "string \<Rightarrow> string" where
  "casefold s = concat (map (\<lambda>c. if code c = 223 then ''ss'' else [lower_char c]) s)"

text \<open>
  \<open>str.upper\<close>: the sharp s becomes \<open>SS\<close>; the micro sign and y with diaeresis, whose upper
  case is outside Latin-1, are left alone.
\<close>

definition upper_char :: "char \<Rightarrow> string" where
  "upper_char c = (let n = code c in
     if 97 \<le> n \<and> n \<le> 122 \<or> 224 \<le> n \<and> n \<le> 254 \<and> n \<noteq> 247 then [char_of (n - 32)]
     else if n = 223 then ''SS'' else [c])"

definition upper :: "string \<Rightarrow> string" where
  "upper s = concat (map upper_char s)"

section \<open>Numbers as text\<close>

definition digit_char :: "nat \<Rightarrow> char" where
  "digit_char d = char_of (48 + d)"

fun digits_of :: "nat \<Rightarrow> string" where
  "digits_of n = (if n < 10 then [digit_char n] else digits_of (n div 10) @ [digit_char (n mod 10)])"

declare digits_of.simps [simp del]

text \<open>\<open>str(n)\<close> for an int.\<close>

definition str_int :: "int \<Rightarrow> string" where
  "str_int i = (if i < 0 then ''-'' @ digits_of (nat (- i)) else digits_of (nat i))"

text \<open>\<open>f"{n:0wd}"\<close> for a non-negative int.\<close>

definition zero_pad :: "nat \<Rightarrow> nat \<Rightarrow> string" where
  "zero_pad w n = (let d = digits_of n in replicate (w - length d) CHR ''0'' @ d)"

definition digit_val :: "char \<Rightarrow> nat" where
  "digit_val c = code c - 48"

definition digits_val :: "string \<Rightarrow> nat" where
  "digits_val s = foldl (\<lambda>n c. 10 * n + digit_val c) 0 s"

text \<open>\<open>f"{n:,}"\<close>: groups of three digits.\<close>

fun group_thousands :: "nat \<Rightarrow> string" where
  "group_thousands n = (if n < 1000 then digits_of n
     else group_thousands (n div 1000) @ '','' @ zero_pad 3 (n mod 1000))"

declare group_thousands.simps [simp del]

text \<open>Substring test \<open>needle in s\<close> and \<open>s.startswith\<close>, \<open>s.removeprefix\<close>.\<close>

definition contains :: "string \<Rightarrow> string \<Rightarrow> bool" where
  "contains needle s = sublist needle s"

definition startswith :: "string \<Rightarrow> string \<Rightarrow> bool" where
  "startswith p s = prefix p s"

definition removeprefix :: "string \<Rightarrow> string \<Rightarrow> string" where
  "removeprefix p s = (if prefix p s then drop (length p) s else s)"

section \<open>UUIDs\<close>

text \<open>A \<open>uuid.UUID\<close> is its 128-bit value; \<open>str(u)\<close> is the 8-4-4-4-12 hexadecimal form.\<close>

type_synonym uuid = "128 word"

definition hex_char :: "nat \<Rightarrow> char" where
  "hex_char d = (if d < 10 then char_of (48 + d) else char_of (87 + d))"

definition nibble :: "uuid \<Rightarrow> nat \<Rightarrow> nat" where
  "nibble u i = (unat u div 16 ^ i) mod 16"

definition uuid_hex :: "uuid \<Rightarrow> string" where
  "uuid_hex u = map (\<lambda>i. hex_char (nibble u i)) (rev [0..<32])"

definition uuid_str :: "uuid \<Rightarrow> string" where
  "uuid_str u = (let h = uuid_hex u in
     take 8 h @ ''-'' @ take 4 (drop 8 h) @ ''-'' @ take 4 (drop 12 h) @ ''-''
     @ take 4 (drop 16 h) @ ''-'' @ drop 20 h)"

section \<open>Facts\<close>

lemma strip_Nil [simp]: "strip [] = []"
  by (simp add: strip_def lstrip_def rstrip_def)

lemma dropWhile_rev_nonempty: "\<exists>x \<in> set xs. \<not> p x \<Longrightarrow> dropWhile p (rev xs) \<noteq> []"
  by (auto simp: dropWhile_eq_Nil_conv)

lemma blank_iff: "blank s \<longleftrightarrow> list_all is_space s"
proof -
  have "strip s = [] \<longleftrightarrow> (\<forall>c \<in> set (dropWhile is_space s). is_space c)"
    by (simp add: strip_def lstrip_def rstrip_def dropWhile_eq_Nil_conv)
  also have "\<dots> \<longleftrightarrow> (\<forall>c \<in> set s. is_space c)"
    by (metis dropWhile_eq_Nil_conv hd_dropWhile hd_in_set set_dropWhileD list.set(1) empty_iff)
  finally show ?thesis by (simp add: blank_def list_all_iff)
qed

lemma blank_Nil [simp]: "blank []"
  by (simp add: blank_def)

lemma not_blank_nonempty: "\<not> blank s \<Longrightarrow> s \<noteq> []"
  by auto

lemma split_ws_acc_words:
  "\<lbrakk> t \<in> set (split_ws_acc w cs); list_all (\<lambda>c. \<not> is_space c) w \<rbrakk>
   \<Longrightarrow> t \<noteq> [] \<and> list_all (\<lambda>c. \<not> is_space c) t"
  by (induction w cs rule: split_ws_acc.induct) (auto split: if_splits)

lemma split_ws_words: "t \<in> set (split_ws s) \<Longrightarrow> t \<noteq> [] \<and> list_all (\<lambda>c. \<not> is_space c) t"
  unfolding split_ws_def by (rule split_ws_acc_words) auto

lemma split_ws_acc_word:
  "list_all (\<lambda>c. \<not> is_space c) t \<Longrightarrow> split_ws_acc w (t @ cs) = split_ws_acc (w @ t) cs"
  by (induction t arbitrary: w) auto

lemma space_is_space [simp]: "is_space CHR '' ''"
  by (simp add: is_space_def code_def)

text \<open>Joining words with single spaces and splitting again gives the words back.\<close>

lemma split_ws_join:
  "(\<And>t. t \<in> set ws \<Longrightarrow> t \<noteq> [] \<and> list_all (\<lambda>c. \<not> is_space c) t)
   \<Longrightarrow> split_ws (join '' '' ws) = ws"
proof (induction ws rule: induct_list012)
  case 1
  then show ?case by (simp add: split_ws_def)
next
  case (2 s)
  then show ?case using split_ws_acc_word [of s "[]" "[]"] by (simp add: split_ws_def)
next
  case (3 s t ts)
  have "s \<noteq> []" "list_all (\<lambda>c. \<not> is_space c) s" using "3.prems" [of s] by auto
  moreover have "split_ws_acc [] (join '' '' (t # ts)) = t # ts"
    using 3 by (simp add: split_ws_def)
  ultimately show ?case
    using split_ws_acc_word [of s "[]" "'' '' @ join '' '' (t # ts)"] by (simp add: split_ws_def)
qed

lemma join_split_split [simp]: "split_ws (join '' '' (split_ws s)) = split_ws s"
  by (rule split_ws_join) (rule split_ws_words)

lemma digits_of_nonempty [simp]: "digits_of n \<noteq> []"
  by (subst digits_of.simps) simp

lemma code_digit_char: "d < 10 \<Longrightarrow> code (digit_char d) = 48 + d"
  by (simp add: code_def digit_char_def of_char_of)

lemma is_digit_digit_char: "d < 10 \<Longrightarrow> is_digit (digit_char d)"
  by (simp add: is_digit_def code_digit_char)

lemma digits_of_digits: "list_all is_digit (digits_of n)"
proof (induction n rule: digits_of.induct)
  case (1 n)
  then show ?case
    by (subst digits_of.simps) (auto simp: is_digit_digit_char)
qed

lemma digits_val_append: "digits_val (s @ [c]) = 10 * digits_val s + digit_val c"
  by (simp add: digits_val_def)

text \<open>Reading the decimal text of a number gives the number.\<close>

lemma digits_val_digits_of [simp]: "digits_val (digits_of n) = n"
proof (induction n rule: digits_of.induct)
  case (1 n)
  show ?case
  proof (cases "n < 10")
    case True
    then show ?thesis
      by (subst digits_of.simps) (simp add: digits_val_def digit_val_def code_digit_char)
  next
    case False
    then show ?thesis
      using 1 by (subst digits_of.simps)
        (simp add: digits_val_append digit_val_def code_digit_char)
  qed
qed

lemma hex_char_inj: "\<lbrakk> a < 16; b < 16; hex_char a = hex_char b \<rbrakk> \<Longrightarrow> a = b"
  unfolding hex_char_def
  by (auto split: if_splits dest!: arg_cong [where f = "of_char :: char \<Rightarrow> nat"] simp: of_char_of)

lemma length_uuid_hex [simp]: "length (uuid_hex u) = 32"
  by (simp add: uuid_hex_def)

lemma length_uuid_str [simp]: "length (uuid_str u) = 36"
  by (simp add: uuid_str_def Let_def)

end
