(* ===== verification/PyTime.thy ===== *)
theory PyTime
  imports PyText
begin

text \<open>
  Python's \<open>datetime\<close> and \<open>zoneinfo\<close> as the program uses them. Durations, wall clocks and
  instants are integers in microseconds on one scale whose day 1 is 0001-01-01: a \<open>date\<close> is its
  proleptic ordinal, a \<open>time\<close> the microseconds since midnight, \<open>datetime.combine\<close> an addition.
  The calendar range check (years 1 to 9999) is not modelled.
\<close>

section \<open>Durations, dates and times\<close>

type_synonym timedelta = int
type_synonym date = int
type_synonym time = int
type_synonym instant = int

definition second_us :: int where "second_us = 1000000"
definition minute_us :: int where "minute_us = 60000000"
definition hour_us :: int where "hour_us = 3600000000"
definition day_us :: int where "day_us = 86400000000"

lemmas us_defs = second_us_def minute_us_def hour_us_def day_us_def

definition combine :: "date \<Rightarrow> time \<Rightarrow> int" where
  "combine d t = d * day_us + t"

definition wall_date :: "int \<Rightarrow> date" where
  "wall_date w = w div day_us"

definition wall_time :: "int \<Rightarrow> time" where
  "wall_time w = w mod day_us"

definition valid_time :: "time \<Rightarrow> bool" where
  "valid_time t = (0 \<le> t \<and> t < day_us)"

text \<open>\<open>date.weekday()\<close>: Monday is 0.\<close>

definition weekday :: "date \<Rightarrow> int" where
  "weekday d = (d + 6) mod 7"

lemma weekday_range: "0 \<le> weekday d \<and> weekday d \<le> 6"
proof -
  have "0 \<le> (d + 6) mod 7 \<and> (d + 6) mod 7 < 7" by simp
  then show ?thesis unfolding weekday_def by linarith
qed

lemma wall_combine [simp]:
  assumes "valid_time t"
  shows "wall_date (combine d t) = d" "wall_time (combine d t) = t"
  using assms by (auto simp: wall_date_def wall_time_def combine_def valid_time_def day_us_def)

lemma combine_wall [simp]: "combine (wall_date w) (wall_time w) = w"
  by (simp add: wall_date_def wall_time_def combine_def)

lemma wall_time_valid [simp]: "valid_time (wall_time w)"
  by (simp add: wall_time_def valid_time_def day_us_def)

section \<open>Aware and naive datetimes\<close>

text \<open>
  A \<open>datetime\<close> is its wall clock and its UTC offset; the offset is None for a naive value
  (\<open>tzinfo is None\<close> or \<open>utcoffset()\<close> returns None).
\<close>

datatype datetime = DT (wall: int) (utcoffset: "timedelta option")

definition aware :: "datetime \<Rightarrow> bool" where
  "aware dt = is_some (utcoffset dt)"

text \<open>\<open>dt.astimezone(UTC)\<close> of an aware value, as an instant.\<close>

definition utc :: "datetime \<Rightarrow> instant" where
  "utc dt = wall dt - (case utcoffset dt of None \<Rightarrow> 0 | Some off \<Rightarrow> off)"

definition utc_datetime :: "instant \<Rightarrow> datetime" where
  "utc_datetime t = DT t (Some 0)"

lemma aware_utc_datetime [simp]: "aware (utc_datetime t)" "utc (utc_datetime t) = t"
  by (simp_all add: aware_def utc_def utc_datetime_def)

section \<open>Time zones\<close>

text \<open>
  A \<open>ZoneInfo\<close> is the table the IANA database gives for it: the first UTC offset and the
  transitions (instant, offset from then on) in ascending order. \<open>offset_at\<close> is the offset of an
  instant (\<open>fromutc\<close>); \<open>offset_local\<close> is the offset of a wall clock under PEP 495: a wall clock
  repeated at a transition has \<open>fold = 0\<close> for its first and \<open>fold = 1\<close> for its second reading.
\<close>

record zone =
  z_initial :: timedelta
  z_transitions :: "(instant \<times> timedelta) list"

fun offset_at_from :: "timedelta \<Rightarrow> (instant \<times> timedelta) list \<Rightarrow> instant \<Rightarrow> timedelta" where
  "offset_at_from off [] t = off"
| "offset_at_from off ((u, off') # ts) t = (if u \<le> t then offset_at_from off' ts t else off)"

definition offset_at :: "zone \<Rightarrow> instant \<Rightarrow> timedelta" where
  "offset_at z t = offset_at_from (z_initial z) (z_transitions z) t"

fun offset_local_from :: "bool \<Rightarrow> timedelta \<Rightarrow> (instant \<times> timedelta) list \<Rightarrow> int \<Rightarrow> timedelta" where
  "offset_local_from fold1 off [] w = off"
| "offset_local_from fold1 off ((u, off') # ts) w =
     (if u + (if fold1 then min off off' else max off off') \<le> w
      then offset_local_from fold1 off' ts w else off)"

definition offset_local :: "zone \<Rightarrow> bool \<Rightarrow> int \<Rightarrow> timedelta" where
  "offset_local z fold1 w = offset_local_from fold1 (z_initial z) (z_transitions z) w"

text \<open>\<open>t.astimezone(zone)\<close>\<close>

definition astimezone :: "zone \<Rightarrow> instant \<Rightarrow> datetime" where
  "astimezone z t = (let off = offset_at z t in DT (t + off) (Some off))"

lemma utc_astimezone [simp]: "utc (astimezone z t) = t" "aware (astimezone z t)"
  "wall (astimezone z t) = t + offset_at z t"
  by (simp_all add: utc_def astimezone_def aware_def Let_def)

text \<open>\<open>naive.replace(tzinfo=zone, fold=f).astimezone(UTC)\<close>\<close>

definition local_instant :: "zone \<Rightarrow> bool \<Rightarrow> int \<Rightarrow> instant" where
  "local_instant z fold1 w = w - offset_local z fold1 w"

text \<open>
  The transitions are ascending and further apart than the wall clock moves at them, as in the
  IANA database (its transitions are weeks apart, its jumps at most a day).
\<close>

fun spaced :: "timedelta \<Rightarrow> (instant \<times> timedelta) list \<Rightarrow> bool" where
  "spaced off [] = True"
| "spaced off [(u, off')] = True"
| "spaced off ((u, off') # (v, off'') # ts) =
     (u + max off off' \<le> v + min off' off'' \<and> u < v \<and> spaced off' ((v, off'') # ts))"

definition zone_spaced :: "zone \<Rightarrow> bool" where
  "zone_spaced z = spaced (z_initial z) (z_transitions z)"

section \<open>Calendar text\<close>

definition is_leap :: "int \<Rightarrow> bool" where
  "is_leap y = (y mod 4 = 0 \<and> (y mod 100 \<noteq> 0 \<or> y mod 400 = 0))"

definition days_before_year :: "int \<Rightarrow> int" where
  "days_before_year y = (let p = y - 1 in p * 365 + p div 4 - p div 100 + p div 400)"

definition month_table :: "int list" where
  "month_table = [0, 31, 59, 90, 120, 151, 181, 212, 243, 273, 304, 334]"

definition days_before_month :: "int \<Rightarrow> int \<Rightarrow> int" where
  "days_before_month y m = month_table ! nat (m - 1) + (if 2 < m \<and> is_leap y then 1 else 0)"

definition days_in_month :: "int \<Rightarrow> int \<Rightarrow> int" where
  "days_in_month y m = (if m = 2 then (if is_leap y then 29 else 28)
     else if m \<in> {4, 6, 9, 11} then 30 else 31)"

definition date_of_ymd :: "int \<Rightarrow> int \<Rightarrow> int \<Rightarrow> date" where
  "date_of_ymd y m d = days_before_year y + days_before_month y m + d"

definition valid_ymd :: "int \<Rightarrow> int \<Rightarrow> int \<Rightarrow> bool" where
  "valid_ymd y m d = (1 \<le> y \<and> y \<le> 9999 \<and> 1 \<le> m \<and> m \<le> 12 \<and> 1 \<le> d \<and> d \<le> days_in_month y m)"

definition ymd_of_date :: "date \<Rightarrow> int \<times> int \<times> int" where
  "ymd_of_date ord = (
     let n = ord - 1;
         n400 = n div 146097; n = n mod 146097;
         n100 = n div 36524; n = n mod 36524;
         n4 = n div 1461; n = n mod 1461;
         n1 = n div 365; n = n mod 365;
         year = n400 * 400 + 1 + n100 * 100 + n4 * 4 + n1
     in if n1 = 4 \<or> n100 = 4 then (year - 1, 12, 31)
        else let leap = (n1 = 3 \<and> (n4 \<noteq> 24 \<or> n100 = 3));
                 month = (n + 50) div 32;
                 preceding = month_table ! nat (month - 1) + (if 2 < month \<and> leap then 1 else 0)
             in if preceding > n
                then let month' = month - 1;
                         preceding' = preceding - (if month' = 2 \<and> leap then 29
                           else if month' = 2 then 28
                           else if month' \<in> {4, 6, 9, 11} then 30 else 31)
                     in (year, month', n - preceding' + 1)
                else (year, month, n - preceding + 1))"

text \<open>\<open>date.isoformat()\<close>\<close>

definition date_iso :: "date \<Rightarrow> string" where
  "date_iso d = (case ymd_of_date d of (y, m, dd) \<Rightarrow>
     zero_pad 4 (nat y) @ ''-'' @ zero_pad 2 (nat m) @ ''-'' @ zero_pad 2 (nat dd))"

text \<open>\<open>time.isoformat(timespec="minutes")\<close> and \<open>strftime("%H:%M")\<close>\<close>

definition time_hm :: "time \<Rightarrow> string" where
  "time_hm t = zero_pad 2 (nat (t div hour_us)) @ '':'' @ zero_pad 2 (nat (t mod hour_us div minute_us))"

text \<open>The offset part of \<open>isoformat\<close>: \<open>+HH:MM\<close>, with seconds when there are any.\<close>

definition offset_iso :: "timedelta \<Rightarrow> string" where
  "offset_iso off = (
     let a = \<bar>off\<bar>; s = a mod minute_us div second_us
     in (if off < 0 then ''-'' else ''+'') @ time_hm a
        @ (if s = 0 then [] else '':'' @ zero_pad 2 (nat s)))"

text \<open>\<open>datetime.isoformat(timespec="minutes")\<close>\<close>

definition datetime_iso_minutes :: "datetime \<Rightarrow> string" where
  "datetime_iso_minutes dt = date_iso (wall_date (wall dt)) @ ''T'' @ time_hm (wall_time (wall dt))
     @ (case utcoffset dt of None \<Rightarrow> [] | Some off \<Rightarrow> offset_iso off)"

text \<open>\<open>datetime.isoformat()\<close>\<close>

definition datetime_iso :: "datetime \<Rightarrow> string" where
  "datetime_iso dt = (
     let t = wall_time (wall dt); s = t mod minute_us div second_us; u = t mod second_us
     in date_iso (wall_date (wall dt)) @ ''T'' @ time_hm t @ '':'' @ zero_pad 2 (nat s)
        @ (if u = 0 then [] else ''.'' @ zero_pad 6 (nat u))
        @ (case utcoffset dt of None \<Rightarrow> [] | Some off \<Rightarrow> offset_iso off))"

section \<open>Facts about zones\<close>

lemma offset_at_from_before: "t < u \<Longrightarrow> offset_at_from off ((u, off') # ts) t = off"
  by simp

lemma spaced_Cons: "spaced off ((u, off') # ts) \<Longrightarrow> spaced off' ts"
  by (cases ts) auto

lemma spaced_lower:
  "\<lbrakk> spaced off ((u, off') # ts); u \<le> t \<rbrakk>
   \<Longrightarrow> u + min off off' \<le> t + offset_at_from off' ts t"
proof (induction ts arbitrary: off u off')
  case (Cons p ts)
  obtain v off'' where p: "p = (v, off'')" by (cases p)
  show ?case
  proof (cases "v \<le> t")
    case True
    then have "v + min off' off'' \<le> t + offset_at_from off'' ts t"
      using Cons.IH [of off' v off''] Cons.prems(1) by (simp add: p)
    moreover have "u + max off off' \<le> v + min off' off''" using Cons.prems(1) by (simp add: p)
    moreover have "min off off' \<le> max off off'" by simp
    ultimately show ?thesis using True by (simp add: p)
  qed (use Cons.prems(2) in \<open>simp add: p\<close>)
qed simp

text \<open>
  Every instant is one of the two readings of its own wall clock: PEP 495's lookup loses
  nothing when the transitions are spaced.
\<close>

lemma offset_local_from_complete:
  "spaced off ts \<Longrightarrow>
   \<exists>fold1. offset_local_from fold1 off ts (t + offset_at_from off ts t) = offset_at_from off ts t"
proof (induction off ts rule: spaced.induct)
  case (2 off u off')
  show ?case
  proof (cases "u \<le> t")
    case True
    then have "u + min off off' \<le> t + off'" by simp
    then show ?thesis using True by (intro exI [of _ True]) simp
  next
    case False
    then have "\<not> u + max off off' \<le> t + off" by (simp add: max_def)
    then show ?thesis using False by (intro exI [of _ False]) simp
  qed
next
  case (3 off u off' v off'' ts)
  consider "t < u" | "u \<le> t" "t < v" | "u \<le> t" "v \<le> t" by linarith
  then show ?case
  proof cases
    case 1
    then have "\<not> u + max off off' \<le> t + off" by (simp add: max_def)
    then show ?thesis using 1 by (intro exI [of _ False]) simp
  next
    case 2
    show ?thesis
    proof (cases "u + max off off' \<le> t + off'")
      case True
      moreover have "\<not> v + max off' off'' \<le> t + off'" using 2 by (simp add: max_def)
      ultimately show ?thesis using 2 by (intro exI [of _ False]) simp
    next
      case False
      then have "\<not> v + min off' off'' \<le> t + off'" using "3.prems" by simp
      moreover have "u + min off off' \<le> t + off'" using 2 by simp
      ultimately show ?thesis using 2 by (intro exI [of _ True]) simp
    qed
  next
    case b: 3
    have "v + min off' off'' \<le> t + offset_at_from off'' ts t"
      using spaced_lower [of off' v off'' ts t] b "3.prems" by simp
    then have "u + max off off' \<le> t + offset_at_from off'' ts t" using "3.prems" by simp
    moreover obtain fold1 where
      "offset_local_from fold1 off' ((v, off'') # ts) (t + offset_at_from off'' ts t)
       = offset_at_from off'' ts t"
      using "3.IH" "3.prems" b by auto
    moreover have "min off off' \<le> max off off'" by simp
    ultimately show ?thesis using b by (intro exI [of _ fold1]) simp
  qed
qed simp

lemma offset_local_complete:
  assumes "zone_spaced z"
  shows "\<exists>fold1. local_instant z fold1 (t + offset_at z t) = t"
proof -
  obtain fold1 where "offset_local z fold1 (t + offset_at z t) = offset_at z t"
    using offset_local_from_complete [of "z_initial z" "z_transitions z" t] assms
    by (auto simp: offset_local_def offset_at_def zone_spaced_def)
  then show ?thesis by (intro exI [of _ fold1]) (simp add: local_instant_def)
qed

end
