(* ===== verification/Shared.thy ===== *)
theory Shared
  imports PyTime
begin

text \<open>
  The shared domain primitives of \<open>domain/shared\<close>: identifiers that are not interchangeable,
  localized text, money, phone numbers, confidences, time ranges, citations, idempotency keys
  and price presentations, each with the validation its constructor runs. A constructor of the
  source is a \<open>mk_\<close> function here: it returns the value or the exception it raises.
\<close>

section \<open>Identifiers (domain/shared/identifiers.py)\<close>

datatype tenant_id = TenantId (tenant_uuid: uuid)
datatype customer_id = CustomerId (customer_uuid: uuid)
datatype conversation_id = ConversationId (conversation_uuid: uuid)
datatype service_id = ServiceId (service_uuid: uuid)
datatype category_id = CategoryId (category_uuid: uuid)
datatype schedule_id = ScheduleId (schedule_uuid: uuid)
datatype booking_id = BookingId (booking_uuid: uuid)
datatype booking_draft_id = BookingDraftId (draft_uuid: uuid)
datatype slot_hold_id = SlotHoldId (hold_uuid: uuid)
datatype resource_id = ResourceId (resource_uuid: uuid)
datatype lead_id = LeadId (lead_uuid: uuid)
datatype qualification_schema_id = QualificationSchemaId (qschema_uuid: uuid)
datatype qualification_session_id = QualificationSessionId (qsession_uuid: uuid)
datatype consent_id = ConsentId (consent_uuid: uuid)
datatype handoff_id = HandoffId (handoff_uuid: uuid)
datatype document_id = DocumentId (document_uuid: uuid)

section \<open>Validated value objects (domain/shared/value_objects.py)\<close>

definition ensure_aware :: "datetime \<Rightarrow> string \<Rightarrow> datetime res" where
  "ensure_aware value field_name =
     (if \<not> aware value then Inl (ValidationError (field_name @ '' must be timezone-aware''))
      else Inr value)"

definition ensure_aware_opt :: "datetime option \<Rightarrow> string \<Rightarrow> unit res" where
  "ensure_aware_opt value field_name =
     (case value of None \<Rightarrow> Inr () | Some v \<Rightarrow> res_bind (ensure_aware v field_name) (\<lambda>_. Inr ()))"

datatype locale_t = EN | RU

fun locale_value :: "locale_t \<Rightarrow> string" where
  "locale_value EN = ''en''"
| "locale_value RU = ''ru''"

text \<open>\<open>Locale(text)\<close>: ValueError for a value that is not a member.\<close>

definition locale_of :: "string \<Rightarrow> locale_t option" where
  "locale_of s = (if s = ''en'' then Some EN else if s = ''ru'' then Some RU else None)"

record money =
  amount_minor :: int
  currency :: string

definition is_currency_code :: "string \<Rightarrow> bool" where
  "is_currency_code s = (length s = 3 \<and> list_all is_upper_az s)"

definition mk_money :: "int \<Rightarrow> string \<Rightarrow> money res" where [ctor_defs]:
  "mk_money amount cur =
     (if amount < 0 then Inl (ValidationError ''Money amount cannot be negative'')
      else if \<not> is_currency_code (upper cur)
        then Inl (ValidationError ''Currency must be a three-letter ISO-style code'')
      else Inr \<lparr>amount_minor = amount, currency = upper cur\<rparr>)"

record phone_number =
  raw :: string
  normalized_e164 :: "string option"
  verified :: bool

definition phone_char :: "char \<Rightarrow> bool" where
  "phone_char c = (is_digit c \<or> c \<in> set ''+()-.'' \<or> is_space c)"

definition parse_phone :: "string \<Rightarrow> bool \<Rightarrow> phone_number res" where [ctor_defs]:
  "parse_phone text verif = (
     let value = strip text in
     if value = [] \<or> 32 < length value \<or> \<not> list_all phone_char value
       then Inl (ValidationError ''Phone number contains invalid characters'')
     else
       let digits = filter is_digit value;
           normalized = (if startswith ''+'' value \<and> 8 \<le> length digits \<and> length digits \<le> 15
                         then Some (''+'' @ digits) else None)
       in if length digits < 5 then Inl (ValidationError ''Phone number is too short'')
          else if verif \<and> normalized = None
            then Inl (ValidationError ''Only an E.164-normalized phone number can be verified'')
          else Inr \<lparr>raw = value, normalized_e164 = normalized, verified = verif\<rparr>)"

definition is_e164 :: "phone_number \<Rightarrow> bool" where
  "is_e164 p = is_some (normalized_e164 p)"

text \<open>
  A \<open>float\<close> is NaN, an infinity or a finite value, whose rational value it is; the program
  only compares, clamps and stores these floats.
\<close>

datatype py_float = FNaN | FInf bool | Fin rat

fun float_le :: "py_float \<Rightarrow> py_float \<Rightarrow> bool" where
  "float_le FNaN _ = False"
| "float_le _ FNaN = False"
| "float_le (FInf pos) y = (\<not> pos \<or> y = FInf True)"
| "float_le (Fin a) (FInf pos) = pos"
| "float_le (Fin a) (Fin b) = (a \<le> b)"

definition unit_interval :: "py_float \<Rightarrow> bool" where
  "unit_interval f = (float_le (Fin 0) f \<and> float_le f (Fin 1))"

datatype confidence = Confidence (conf_value: py_float)

definition mk_confidence :: "py_float \<Rightarrow> confidence res" where [ctor_defs]:
  "mk_confidence v =
     (if \<not> unit_interval v then Inl (ValidationError ''Confidence must be between 0 and 1'')
      else Inr (Confidence v))"

record time_range =
  tr_start :: datetime
  tr_end :: datetime

definition mk_time_range :: "datetime \<Rightarrow> datetime \<Rightarrow> time_range res" where [ctor_defs]:
  "mk_time_range s e =
     res_bind (ensure_aware s ''start'') (\<lambda>_.
     res_bind (ensure_aware e ''end'') (\<lambda>_.
     if utc e \<le> utc s then Inl (ValidationError ''Time range start must precede end'')
     else Inr \<lparr>tr_start = s, tr_end = e\<rparr>))"

definition is_checksum :: "string \<Rightarrow> bool" where
  "is_checksum s = (32 \<le> length s \<and> length s \<le> 128 \<and> list_all is_hex s)"

record citation =
  cit_document_id :: document_id
  cit_document_version :: int
  cit_chunk_id :: string
  cit_score :: confidence
  cit_content_checksum :: string

definition mk_citation :: "document_id \<Rightarrow> int \<Rightarrow> string \<Rightarrow> confidence \<Rightarrow> string \<Rightarrow> citation res" where [ctor_defs]:
  "mk_citation doc ver chunk score checksum =
     (if ver < 1 \<or> blank chunk
        then Inl (ValidationError ''Citation lineage must identify a document version and chunk'')
      else if \<not> is_checksum checksum
        then Inl (ValidationError ''Citation checksum must be hexadecimal'')
      else Inr \<lparr>cit_document_id = doc, cit_document_version = ver, cit_chunk_id = chunk,
                cit_score = score, cit_content_checksum = checksum\<rparr>)"

record idempotency_key =
  ik_scope :: string
  ik_value :: string
  ik_expires_at :: "datetime option"

definition mk_idempotency_key :: "string \<Rightarrow> string \<Rightarrow> datetime option \<Rightarrow> idempotency_key res" where [ctor_defs]:
  "mk_idempotency_key scope val expires =
     (if blank scope \<or> blank val \<or> 255 < length val
        then Inl (ValidationError ''Idempotency key scope and value are required'')
      else res_bind (ensure_aware_opt expires ''expires_at'') (\<lambda>_.
        Inr \<lparr>ik_scope = scope, ik_value = val, ik_expires_at = expires\<rparr>))"

datatype price_mode = EXACT | RANGE | STARTING_FROM | QUOTE_REQUIRED | NOT_DISPLAYED

fun price_mode_value :: "price_mode \<Rightarrow> string" where
  "price_mode_value EXACT = ''exact''"
| "price_mode_value RANGE = ''range''"
| "price_mode_value STARTING_FROM = ''starting_from''"
| "price_mode_value QUOTE_REQUIRED = ''quote_required''"
| "price_mode_value NOT_DISPLAYED = ''not_displayed''"

record price_presentation =
  pp_mode :: price_mode
  pp_minimum :: "money option"
  pp_maximum :: "money option"

definition currencies_differ :: "money option \<Rightarrow> money option \<Rightarrow> bool" where
  "currencies_differ mn mx =
     (case (mn, mx) of (Some a, Some b) \<Rightarrow> currency a \<noteq> currency b | _ \<Rightarrow> False)"

definition mk_price :: "price_mode \<Rightarrow> money option \<Rightarrow> money option \<Rightarrow> price_presentation res" where [ctor_defs]:
  "mk_price mode mn mx =
     (if currencies_differ mn mx
        then Inl (ValidationError ''Price range currencies must match'')
      else
        let price = Inr \<lparr>pp_mode = mode, pp_minimum = mn, pp_maximum = mx\<rparr> in
        if mode \<in> {EXACT, STARTING_FROM} then
          (if mn = None \<or> mx \<noteq> None
           then Inl (ValidationError (price_mode_value mode @ '' requires exactly one amount''))
           else price)
        else if mode = RANGE then
          (case (mn, mx) of
             (Some a, Some b) \<Rightarrow>
               if amount_minor b < amount_minor a
               then Inl (ValidationError ''Price range minimum cannot exceed maximum'')
               else price
           | _ \<Rightarrow> Inl (ValidationError ''range requires minimum and maximum amounts''))
        else
          (if mn \<noteq> None \<or> mx \<noteq> None
           then Inl (ValidationError (price_mode_value mode @ '' must not expose an amount''))
           else price))"

section \<open>Untyped values\<close>

text \<open>What a \<open>Mapping[str, Any]\<close> of the program holds: the JSON values it is built from.\<close>

datatype json =
    JNull
  | JBool bool
  | JInt int
  | JFloat py_float
  | JStr string
  | JList "json list"
  | JObj "(string \<times> json) list"

section \<open>Who writes (application/telegram/models.py)\<close>

text \<open>What a Telegram user and chat resolve to: the scope of every customer-facing operation.\<close>

record telegram_identity =
  ti_tenant_id :: tenant_id
  ti_customer_id :: customer_id
  ti_conversation_id :: conversation_id
  ti_locale :: locale_t

section \<open>The domain event envelope (domain/shared/events.py)\<close>

record domain_event =
  ev_event_type :: string
  ev_tenant_id :: tenant_id
  ev_aggregate_type :: string
  ev_aggregate_id :: uuid
  ev_occurred_at :: datetime
  ev_payload :: "(string, json) dict"
  ev_event_id :: uuid
  ev_version :: int

definition domain_event_post_init :: "domain_event \<Rightarrow> domain_event res" where [ctor_defs]:
  "domain_event_post_init e =
     res_bind (ensure_aware (ev_occurred_at e) ''occurred_at'') (\<lambda>_.
       if blank (ev_event_type e) \<or> blank (ev_aggregate_type e)
         then Inl (ValueError ''Event and aggregate types must not be blank'')
       else if ev_version e < 1 then Inl (ValueError ''Event version must be positive'')
       else Inr e)"

section \<open>What a constructed value satisfies\<close>

definition money_ok :: "money \<Rightarrow> bool" where
  "money_ok m = (0 \<le> amount_minor m \<and> is_currency_code (currency m))"

definition price_ok :: "price_presentation \<Rightarrow> bool" where
  "price_ok p = (case (pp_mode p, pp_minimum p, pp_maximum p) of
     (EXACT, Some _, None) \<Rightarrow> True
   | (STARTING_FROM, Some _, None) \<Rightarrow> True
   | (RANGE, Some a, Some b) \<Rightarrow> currency a = currency b \<and> amount_minor a \<le> amount_minor b
   | (QUOTE_REQUIRED, None, None) \<Rightarrow> True
   | (NOT_DISPLAYED, None, None) \<Rightarrow> True
   | _ \<Rightarrow> False)"

definition phone_ok :: "phone_number \<Rightarrow> bool" where
  "phone_ok p = (raw p \<noteq> [] \<and> length (raw p) \<le> 32 \<and> list_all phone_char (raw p)
     \<and> 5 \<le> length (filter is_digit (raw p))
     \<and> (verified p \<longrightarrow> is_e164 p)
     \<and> (case normalized_e164 p of None \<Rightarrow> True
        | Some n \<Rightarrow> \<exists>ds. n = ''+'' @ ds \<and> list_all is_digit ds \<and> 8 \<le> length ds \<and> length ds \<le> 15))"

definition time_range_ok :: "time_range \<Rightarrow> bool" where
  "time_range_ok r = (aware (tr_start r) \<and> aware (tr_end r) \<and> utc (tr_start r) < utc (tr_end r))"

lemma ensure_aware_Inr [simp]: "ensure_aware v f = Inr w \<longleftrightarrow> aware v \<and> w = v"
  by (auto simp: ensure_aware_def)

lemma ensure_aware_opt_Inr [simp]:
  "ensure_aware_opt v f = Inr u \<longleftrightarrow> (case v of None \<Rightarrow> True | Some d \<Rightarrow> aware d)"
  by (auto simp: ensure_aware_opt_def res_bind_Inr_iff split: option.splits)

lemma locale_of_value [simp]: "locale_of (locale_value l) = Some l"
  by (cases l) (simp_all add: locale_of_def)

lemma mk_money_ok: "mk_money a c = Inr m \<Longrightarrow> money_ok m"
  by (auto simp: mk_money_def money_ok_def split: if_splits)

lemma mk_time_range_ok: "mk_time_range s e = Inr r \<Longrightarrow> time_range_ok r \<and> tr_start r = s \<and> tr_end r = e"
  by (auto simp: mk_time_range_def time_range_ok_def res_bind_Inr_iff split: if_splits)

lemma mk_price_iff:
  "mk_price mode mn mx = Inr p \<longleftrightarrow>
     p = \<lparr>pp_mode = mode, pp_minimum = mn, pp_maximum = mx\<rparr> \<and> price_ok p"
  by (cases mode; cases mn; cases mx)
    (auto simp: mk_price_def price_ok_def currencies_differ_def Let_def)

lemma filter_digits_digits: "list_all is_digit (filter is_digit s)"
  by (simp add: list_all_iff)

lemma parse_phone_ok:
  assumes "parse_phone text v = Inr p"
  shows "phone_ok p \<and> raw p = strip text \<and> verified p = v"
  using assms filter_digits_digits [of "strip text"]
  by (auto simp: parse_phone_def phone_ok_def is_e164_def Let_def split: if_splits)

lemma mk_confidence_Inr [simp]: "mk_confidence v = Inr c \<longleftrightarrow> unit_interval v \<and> c = Confidence v"
  by (auto simp: mk_confidence_def)

end
