(* ===== verification/Lifecycle.thy ===== *)
theory Lifecycle
  imports Shared
begin

text \<open>
  What the aggregates of \<open>domain/\<close> have in common: a status, a table of allowed transitions and
  a method \<open>transition_to\<close> that either moves to the target or raises. The locale
  \<open>lifecycle\<close> states that contract; its lemmas say what a run of transitions can do.
  The aggregates interpret it in their own theories.
\<close>

section \<open>Runs of a transition method\<close>

text \<open>
  A caller performs transitions one after the other; the first exception stops it. The extra
  argument is the method's keyword argument (a reason, an assignee, or nothing).
\<close>

fun run_transitions :: "('a \<Rightarrow> 's \<Rightarrow> 'x \<Rightarrow> 'a res) \<Rightarrow> 'a \<Rightarrow> ('s \<times> 'x) list \<Rightarrow> 'a res" where
  "run_transitions tr a [] = Inr a"
| "run_transitions tr a ((t, x) # ts) = res_bind (tr a t x) (\<lambda>b. run_transitions tr b ts)"

fun path :: "('s \<Rightarrow> 's set) \<Rightarrow> 's \<Rightarrow> 's list \<Rightarrow> bool" where
  "path allowed s [] = True"
| "path allowed s (t # ts) = (t \<in> allowed s \<and> path allowed t ts)"

lemma path_append: "path allowed s (ts @ us) \<longleftrightarrow> path allowed s ts \<and> path allowed (last (s # ts)) us"
  by (induction ts arbitrary: s) auto

lemma path_closed:
  assumes "\<And>s t. s \<in> S \<Longrightarrow> t \<in> allowed s \<Longrightarrow> t \<in> S" and "path allowed s ts" and "s \<in> S"
  shows "set ts \<subseteq> S"
  using assms(2,3) by (induction ts arbitrary: s) (auto intro: assms(1))

section \<open>The contract\<close>

locale lifecycle =
  fixes allowed :: "'s \<Rightarrow> 's set"
    and status :: "'a \<Rightarrow> 's"
    and transition :: "'a \<Rightarrow> 's \<Rightarrow> 'x \<Rightarrow> 'a res"
  assumes transition_sound: "transition a t x = Inr b \<Longrightarrow> t \<in> allowed (status a) \<and> status b = t"
    and transition_refused:
      "t \<notin> allowed (status a) \<Longrightarrow> \<exists>agg from to. transition a t x = Inl (InvalidStateTransition agg from to)"
begin

lemma run_path:
  "run_transitions transition a ts = Inr b
   \<Longrightarrow> path allowed (status a) (map fst ts) \<and> status b = last (status a # map fst ts)"
proof (induction ts arbitrary: a)
  case (Cons p ts)
  obtain t x where p: "p = (t, x)" by (cases p)
  with Cons.prems obtain c where c: "transition a t x = Inr c"
      "run_transitions transition c ts = Inr b"
    by (auto simp: res_bind_Inr_iff)
  from transition_sound [OF c(1)] Cons.IH [OF c(2)] show ?case by (auto simp: p)
qed simp

lemma terminal_stuck:
  assumes "allowed (status a) = {}" and "run_transitions transition a ts = Inr b"
  shows "ts = [] \<and> b = a"
proof (cases ts)
  case (Cons p rest)
  then have "path allowed (status a) (fst p # map fst rest)"
    using run_path [OF assms(2)] by simp
  then show ?thesis using assms(1) by simp
qed (use assms in simp)

lemma run_stays:
  assumes "\<And>s t. s \<in> S \<Longrightarrow> t \<in> allowed s \<Longrightarrow> t \<in> S"
    and "status a \<in> S" and "run_transitions transition a ts = Inr b"
  shows "status b \<in> S"
proof -
  from run_path [OF assms(3)] have pth: "path allowed (status a) (map fst ts)"
    and last: "status b = last (status a # map fst ts)" by auto
  have "set (map fst ts) \<subseteq> S" using path_closed [OF assms(1) pth assms(2)] .
  then have "set (status a # map fst ts) \<subseteq> S" using assms(2) by simp
  moreover have "last (status a # map fst ts) \<in> set (status a # map fst ts)"
    by (rule last_in_set) simp
  ultimately show ?thesis unfolding last by blast
qed

lemma refused_outside: "transition a t x = Inr b \<Longrightarrow> t \<notin> allowed (status a) \<Longrightarrow> False"
  using transition_sound by blast

end

section \<open>Runs of a store\<close>

text \<open>
  A store performs operations one after the other, at clock readings that do not go back. An
  invariant that every operation keeps, and that the passing of time keeps, holds after every run.
\<close>

inductive clocked_run :: "('s \<Rightarrow> int \<Rightarrow> 'd \<Rightarrow> 'd) \<Rightarrow> 'd \<Rightarrow> int \<Rightarrow> 'd \<Rightarrow> int \<Rightarrow> bool"
  for step :: "'s \<Rightarrow> int \<Rightarrow> 'd \<Rightarrow> 'd" where
  run_none: "clocked_run step d t d t"
| run_more: "clocked_run step d t d1 t1 \<Longrightarrow> t1 \<le> t2 \<Longrightarrow> clocked_run step d t (step s t2 d1) t2"

locale clocked_invariant =
  fixes step :: "'s \<Rightarrow> int \<Rightarrow> 'd \<Rightarrow> 'd"
    and inv :: "int \<Rightarrow> 'd \<Rightarrow> bool"
  assumes step_keeps: "inv t d \<Longrightarrow> t \<le> t' \<Longrightarrow> inv t' (step s t' d)"
begin

lemma run_keeps: "clocked_run step d t d' t' \<Longrightarrow> inv t d \<Longrightarrow> inv t' d'"
  by (induction rule: clocked_run.induct) (auto intro: step_keeps)

end

end
