(* ===== verification/Aggregates.thy ===== *)
theory Aggregates
  imports Lifecycle
begin

text \<open>
  The aggregates of \<open>domain/bookings\<close>, \<open>domain/conversations\<close>, \<open>domain/handoffs\<close>,
  \<open>domain/knowledge\<close>, \<open>domain/leads\<close> and \<open>domain/tenants\<close>: statuses, transition tables,
  constructors' validations and methods. A mutating method that raises before it assigns is a
  function into \<open>exc + aggregate\<close>; \<open>lead_qualify\<close>, which can raise after assigning, returns
  the object's state beside the result.
\<close>

section \<open>Bookings (domain/bookings/model.py)\<close>

datatype booking_status =
  B_DRAFT | B_HELD | B_CONFIRMED | B_COMPLETED | B_CANCELLED | B_NO_SHOW | B_RESCHEDULE_PENDING | B_EXPIRED

fun booking_status_value :: "booking_status \<Rightarrow> string" where
  "booking_status_value B_DRAFT = ''draft''"
| "booking_status_value B_HELD = ''held''"
| "booking_status_value B_CONFIRMED = ''confirmed''"
| "booking_status_value B_COMPLETED = ''completed''"
| "booking_status_value B_CANCELLED = ''cancelled''"
| "booking_status_value B_NO_SHOW = ''no_show''"
| "booking_status_value B_RESCHEDULE_PENDING = ''reschedule_pending''"
| "booking_status_value B_EXPIRED = ''expired''"

fun booking_transitions :: "booking_status \<Rightarrow> booking_status set" where
  "booking_transitions B_DRAFT = {B_HELD}"
| "booking_transitions B_HELD = {B_CONFIRMED, B_EXPIRED}"
| "booking_transitions B_CONFIRMED = {B_COMPLETED, B_CANCELLED, B_NO_SHOW, B_RESCHEDULE_PENDING}"
| "booking_transitions B_RESCHEDULE_PENDING = {B_CONFIRMED, B_CANCELLED}"
| "booking_transitions B_COMPLETED = {}"
| "booking_transitions B_CANCELLED = {}"
| "booking_transitions B_NO_SHOW = {}"
| "booking_transitions B_EXPIRED = {}"

record booking =
  bk_id :: booking_id
  bk_tenant_id :: tenant_id
  bk_customer_id :: customer_id
  bk_service_id :: service_id
  bk_time_range :: time_range
  bk_idempotency_key :: idempotency_key
  bk_service_snapshot :: "(string, json) dict"
  bk_customer_snapshot :: "(string, json) dict"
  bk_status :: booking_status
  bk_history :: "(booking_status \<times> booking_status \<times> string option) list"

definition booking_post_init :: "booking \<Rightarrow> booking res" where [ctor_defs]:
  "booking_post_init b =
     (if bk_service_snapshot b = [] \<or> bk_customer_snapshot b = []
      then Inl (ValidationError ''Booking requires immutable service and customer snapshots'')
      else Inr b)"

definition assert_same_tenant :: "booking \<Rightarrow> tenant_id \<Rightarrow> string \<Rightarrow> unit res" where
  "assert_same_tenant b related relationship =
     (if related \<noteq> bk_tenant_id b then Inl (TenantMismatchError relationship) else Inr ())"

definition booking_transition_to :: "booking \<Rightarrow> booking_status \<Rightarrow> string option \<Rightarrow> booking res" where [lifecycle_defs]:
  "booking_transition_to b target reason =
     (if target \<notin> booking_transitions (bk_status b)
      then Inl (InvalidStateTransition ''Booking'' (booking_status_value (bk_status b))
                  (booking_status_value target))
      else let previous = bk_status b
           in Inr (b\<lparr>bk_status := target, bk_history := bk_history b @ [(previous, target, reason)]\<rparr>))"

interpretation bookings: lifecycle booking_transitions bk_status booking_transition_to
  by unfold_locales (auto simp: booking_transition_to_def Let_def split: if_splits)

section \<open>Conversations (domain/conversations/model.py)\<close>

datatype conversation_status = ACTIVE_BOT | HANDOFF_QUEUED | HUMAN_ACTIVE | C_CLOSED

fun conversation_status_value :: "conversation_status \<Rightarrow> string" where
  "conversation_status_value ACTIVE_BOT = ''active_bot''"
| "conversation_status_value HANDOFF_QUEUED = ''handoff_queued''"
| "conversation_status_value HUMAN_ACTIVE = ''human_active''"
| "conversation_status_value C_CLOSED = ''closed''"

fun conversation_transitions :: "conversation_status \<Rightarrow> conversation_status set" where
  "conversation_transitions ACTIVE_BOT = {HANDOFF_QUEUED, C_CLOSED}"
| "conversation_transitions HANDOFF_QUEUED = {HUMAN_ACTIVE, ACTIVE_BOT, C_CLOSED}"
| "conversation_transitions HUMAN_ACTIVE = {ACTIVE_BOT, C_CLOSED}"
| "conversation_transitions C_CLOSED = {}"

record conversation =
  cv_id :: conversation_id
  cv_tenant_id :: tenant_id
  cv_customer_id :: customer_id
  cv_locale :: locale_t
  cv_status :: conversation_status
  cv_active_workflow :: "string option"
  cv_last_message_at :: "datetime option"

definition conversation_transition_to :: "conversation \<Rightarrow> conversation_status \<Rightarrow> unit \<Rightarrow> conversation res" where [lifecycle_defs]:
  "conversation_transition_to c target _ =
     (if target \<notin> conversation_transitions (cv_status c)
      then Inl (InvalidStateTransition ''Conversation'' (conversation_status_value (cv_status c))
                  (conversation_status_value target))
      else let c' = c\<lparr>cv_status := target\<rparr>
           in Inr (if target \<noteq> ACTIVE_BOT then c'\<lparr>cv_active_workflow := None\<rparr> else c'))"

definition conversation_touch :: "conversation \<Rightarrow> datetime \<Rightarrow> conversation res" where
  "conversation_touch c at_time =
     res_bind (ensure_aware at_time ''last_message_at'') (\<lambda>v. Inr (c\<lparr>cv_last_message_at := Some v\<rparr>))"

definition generative_replies_allowed :: "conversation \<Rightarrow> bool" where
  "generative_replies_allowed c = (cv_status c = ACTIVE_BOT)"

interpretation conversations: lifecycle conversation_transitions cv_status conversation_transition_to
  by unfold_locales (auto simp: conversation_transition_to_def Let_def split: if_splits)

section \<open>Handoff cases (domain/handoffs/model.py)\<close>

datatype handoff_status = H_QUEUED | H_CLAIMED | H_RESOLVED | H_REOPENED | H_CANCELLED

fun handoff_status_value :: "handoff_status \<Rightarrow> string" where
  "handoff_status_value H_QUEUED = ''queued''"
| "handoff_status_value H_CLAIMED = ''claimed''"
| "handoff_status_value H_RESOLVED = ''resolved''"
| "handoff_status_value H_REOPENED = ''reopened''"
| "handoff_status_value H_CANCELLED = ''cancelled''"

datatype priority = LOW | NORMAL | HIGH | URGENT

fun priority_value :: "priority \<Rightarrow> string" where
  "priority_value LOW = ''low''"
| "priority_value NORMAL = ''normal''"
| "priority_value HIGH = ''high''"
| "priority_value URGENT = ''urgent''"

fun handoff_transitions :: "handoff_status \<Rightarrow> handoff_status set" where
  "handoff_transitions H_QUEUED = {H_CLAIMED, H_CANCELLED}"
| "handoff_transitions H_CLAIMED = {H_RESOLVED, H_CANCELLED}"
| "handoff_transitions H_RESOLVED = {H_REOPENED}"
| "handoff_transitions H_REOPENED = {H_QUEUED}"
| "handoff_transitions H_CANCELLED = {}"

record handoff_case =
  hc_id :: handoff_id
  hc_tenant_id :: tenant_id
  hc_conversation_id :: conversation_id
  hc_reason_code :: string
  hc_priority :: priority
  hc_summary :: string
  hc_response_due_at :: datetime
  hc_status :: handoff_status
  hc_assignee_id :: "string option"

definition handoff_post_init :: "handoff_case \<Rightarrow> handoff_case res" where [ctor_defs]:
  "handoff_post_init h =
     (if blank (hc_reason_code h) \<or> blank (hc_summary h)
      then Inl (ValidationError ''Handoff reason and summary are required'')
      else res_bind (ensure_aware (hc_response_due_at h) ''response_due_at'') (\<lambda>_.
        if hc_status h = H_CLAIMED \<and> hc_assignee_id h \<in> {None, Some []}
        then Inl (ValidationError ''A claimed handoff requires an assignee'')
        else Inr h))"

definition handoff_transition_to :: "handoff_case \<Rightarrow> handoff_status \<Rightarrow> string option \<Rightarrow> handoff_case res" where [lifecycle_defs]:
  "handoff_transition_to h target assignee =
     (if target \<notin> handoff_transitions (hc_status h)
      then Inl (InvalidStateTransition ''Handoff'' (handoff_status_value (hc_status h))
                  (handoff_status_value target))
      else if target = H_CLAIMED then
        (case assignee of
           None \<Rightarrow> Inl (ValidationError ''Claiming a handoff requires an assignee'')
         | Some a \<Rightarrow>
             if blank a then Inl (ValidationError ''Claiming a handoff requires an assignee'')
             else Inr (h\<lparr>hc_assignee_id := Some a, hc_status := target\<rparr>))
      else if target \<in> {H_REOPENED, H_QUEUED}
        then Inr (h\<lparr>hc_assignee_id := None, hc_status := target\<rparr>)
      else Inr (h\<lparr>hc_status := target\<rparr>))"

interpretation handoffs: lifecycle handoff_transitions hc_status handoff_transition_to
  by unfold_locales (auto simp: handoff_transition_to_def split: if_splits option.splits)

section \<open>Knowledge documents (domain/knowledge/model.py)\<close>

datatype knowledge_status =
  K_UPLOADED | K_PARSING | K_CHUNKING | K_EMBEDDING | K_READY | K_FAILED | K_ARCHIVED

fun knowledge_status_value :: "knowledge_status \<Rightarrow> string" where
  "knowledge_status_value K_UPLOADED = ''uploaded''"
| "knowledge_status_value K_PARSING = ''parsing''"
| "knowledge_status_value K_CHUNKING = ''chunking''"
| "knowledge_status_value K_EMBEDDING = ''embedding''"
| "knowledge_status_value K_READY = ''ready''"
| "knowledge_status_value K_FAILED = ''failed''"
| "knowledge_status_value K_ARCHIVED = ''archived''"

fun knowledge_transitions :: "knowledge_status \<Rightarrow> knowledge_status set" where
  "knowledge_transitions K_UPLOADED = {K_PARSING, K_FAILED}"
| "knowledge_transitions K_PARSING = {K_CHUNKING, K_FAILED}"
| "knowledge_transitions K_CHUNKING = {K_EMBEDDING, K_FAILED}"
| "knowledge_transitions K_EMBEDDING = {K_READY, K_FAILED}"
| "knowledge_transitions K_READY = {K_ARCHIVED}"
| "knowledge_transitions K_FAILED = {K_PARSING, K_ARCHIVED}"
| "knowledge_transitions K_ARCHIVED = {}"

record knowledge_document =
  kd_id :: document_id
  kd_tenant_id :: tenant_id
  kd_title :: string
  kd_locale :: locale_t
  kd_source_type :: string
  kd_checksum :: string
  kd_version :: int
  kd_status :: knowledge_status
  kd_published_at :: "datetime option"

definition knowledge_post_init :: "knowledge_document \<Rightarrow> knowledge_document res" where [ctor_defs]:
  "knowledge_post_init k =
     (if blank (kd_title k) \<or> blank (kd_source_type k)
        then Inl (ValidationError ''Knowledge title and source type are required'')
      else if \<not> is_checksum (kd_checksum k)
        then Inl (ValidationError ''Knowledge checksum must be hexadecimal'')
      else if kd_version k < 1 then Inl (ValidationError ''Knowledge version must be positive'')
      else case kd_published_at k of
          None \<Rightarrow> Inr k
        | Some at_time \<Rightarrow> res_bind (ensure_aware at_time ''published_at'') (\<lambda>_.
            if kd_status k \<noteq> K_READY
            then Inl (ValidationError ''Only ready knowledge can be published'')
            else Inr k))"

definition is_searchable :: "knowledge_document \<Rightarrow> bool" where
  "is_searchable k = (kd_status k = K_READY \<and> kd_published_at k \<noteq> None)"

definition knowledge_transition_to :: "knowledge_document \<Rightarrow> knowledge_status \<Rightarrow> unit \<Rightarrow> knowledge_document res" where [lifecycle_defs]:
  "knowledge_transition_to k target _ =
     (if target \<notin> knowledge_transitions (kd_status k)
      then Inl (InvalidStateTransition ''KnowledgeDocument'' (knowledge_status_value (kd_status k))
                  (knowledge_status_value target))
      else let k' = k\<lparr>kd_status := target\<rparr>
           in Inr (if target = K_ARCHIVED then k'\<lparr>kd_published_at := None\<rparr> else k'))"

definition knowledge_publish :: "knowledge_document \<Rightarrow> datetime \<Rightarrow> knowledge_document res" where
  "knowledge_publish k at_time =
     (if kd_status k \<noteq> K_READY
      then Inl (ValidationError ''Only ready knowledge can be published'')
      else res_bind (ensure_aware at_time ''published_at'') (\<lambda>v. Inr (k\<lparr>kd_published_at := Some v\<rparr>)))"

interpretation knowledge: lifecycle knowledge_transitions kd_status knowledge_transition_to
  by unfold_locales (auto simp: knowledge_transition_to_def Let_def split: if_splits)

section \<open>Leads (domain/leads/model.py)\<close>

datatype lead_status =
  L_NEW | L_QUALIFYING | L_QUALIFIED | L_CONTACTED | L_CONVERTED | L_UNQUALIFIED | L_CLOSED

fun lead_status_value :: "lead_status \<Rightarrow> string" where
  "lead_status_value L_NEW = ''new''"
| "lead_status_value L_QUALIFYING = ''qualifying''"
| "lead_status_value L_QUALIFIED = ''qualified''"
| "lead_status_value L_CONTACTED = ''contacted''"
| "lead_status_value L_CONVERTED = ''converted''"
| "lead_status_value L_UNQUALIFIED = ''unqualified''"
| "lead_status_value L_CLOSED = ''closed''"

fun lead_transitions :: "lead_status \<Rightarrow> lead_status set" where
  "lead_transitions L_NEW = {L_QUALIFYING, L_UNQUALIFIED, L_CLOSED}"
| "lead_transitions L_QUALIFYING = {L_QUALIFIED, L_UNQUALIFIED, L_CLOSED}"
| "lead_transitions L_QUALIFIED = {L_CONTACTED, L_CLOSED}"
| "lead_transitions L_CONTACTED = {L_CONVERTED, L_CLOSED}"
| "lead_transitions L_CONVERTED = {L_CLOSED}"
| "lead_transitions L_UNQUALIFIED = {L_QUALIFYING, L_CLOSED}"
| "lead_transitions L_CLOSED = {L_QUALIFYING}"

text \<open>\<open>'a\<close> is the type of an answer (\<open>answers: dict[str, Any]\<close>).\<close>

record 'a lead =
  ld_id :: lead_id
  ld_tenant_id :: tenant_id
  ld_customer_id :: customer_id
  ld_conversation_id :: conversation_id
  ld_schema_code :: string
  ld_schema_version :: int
  ld_source :: string
  ld_answers :: "(string, 'a) dict"
  ld_status :: lead_status
  ld_score :: "int option"
  ld_priority :: "priority option"
  ld_score_explanation :: "(string, json) dict option"
  ld_consent_at :: "datetime option"
  ld_qualification_snapshot :: "(string \<times> int \<times> (string, 'a) dict) option"
  ld_qualified_at :: "datetime option"

definition lead_post_init :: "'a lead \<Rightarrow> 'a lead res" where [ctor_defs]:
  "lead_post_init l =
     (if blank (ld_schema_code l) \<or> ld_schema_version l < 1 \<or> blank (ld_source l)
        then Inl (ValidationError ''Lead schema identity and source are required'')
      else res_bind (ensure_aware_opt (ld_consent_at l) ''consent_at'') (\<lambda>_.
        res_bind (ensure_aware_opt (ld_qualified_at l) ''qualified_at'') (\<lambda>_.
        case ld_score l of
          None \<Rightarrow> Inr l
        | Some s \<Rightarrow>
            if \<not> (0 \<le> s \<and> s \<le> 100)
            then Inl (ValidationError ''Lead score must be between 0 and 100'') else Inr l)))"

definition lead_transition_to :: "'a lead \<Rightarrow> lead_status \<Rightarrow> unit \<Rightarrow> 'a lead res" where [lifecycle_defs]:
  "lead_transition_to l target _ =
     (if target \<notin> lead_transitions (ld_status l)
      then Inl (InvalidStateTransition ''Lead'' (lead_status_value (ld_status l))
                  (lead_status_value target))
      else Inr (l\<lparr>ld_status := target\<rparr>))"

definition lead_record_answer :: "'a lead \<Rightarrow> string \<Rightarrow> 'a \<Rightarrow> 'a lead res" where
  "lead_record_answer l key v =
     (if ld_status l \<notin> {L_NEW, L_QUALIFYING}
        then Inl (ValidationError ''Lead answers can only change while qualifying'')
      else if blank key then Inl (ValidationError ''Lead answer key cannot be blank'')
      else Inr (l\<lparr>ld_answers := dict_set key v (ld_answers l)\<rparr>))"

definition lead_apply_score :: "'a lead \<Rightarrow> int \<Rightarrow> priority \<Rightarrow> (string, json) dict \<Rightarrow> 'a lead res" where
  "lead_apply_score l score prio explanation =
     (if \<not> (0 \<le> score \<and> score \<le> 100)
        then Inl (ValidationError ''Lead score must be between 0 and 100'')
      else if explanation = [] then Inl (ValidationError ''Lead score requires an explanation'')
      else Inr (l\<lparr>ld_score := Some score, ld_priority := Some prio,
                  ld_score_explanation := Some explanation\<rparr>))"

definition lead_grant_consent :: "'a lead \<Rightarrow> datetime \<Rightarrow> 'a lead res" where
  "lead_grant_consent l at_time =
     res_bind (ensure_aware at_time ''consent_at'') (\<lambda>v. Inr (l\<lparr>ld_consent_at := Some v\<rparr>))"

text \<open>
  \<open>qualify\<close> moves to QUALIFIED and stores the snapshot before it checks that \<open>qualified_at\<close> is
  aware: a naive time raises with the lead already qualified.
\<close>

definition lead_qualify ::
  "'a lead \<Rightarrow> (string \<times> int \<times> (string, 'a) dict) option \<Rightarrow> datetime option \<Rightarrow> 'a lead \<times> unit res" where [lifecycle_defs]:
  "lead_qualify l snapshot qualified_at =
     (if ld_consent_at l = None \<or> ld_score l = None \<or> ld_priority l = None
      then (l, Inl (ValidationError ''Lead requires consent and deterministic scoring before qualification''))
      else case lead_transition_to l L_QUALIFIED () of
          Inl e \<Rightarrow> (l, Inl e)
        | Inr l1 \<Rightarrow>
            let l2 = (case snapshot of None \<Rightarrow> l1 | Some s \<Rightarrow> l1\<lparr>ld_qualification_snapshot := Some s\<rparr>)
            in case qualified_at of
                 None \<Rightarrow> (l2, Inr ())
               | Some at_time \<Rightarrow>
                   (case ensure_aware at_time ''qualified_at'' of
                      Inl e \<Rightarrow> (l2, Inl e)
                    | Inr v \<Rightarrow> (l2\<lparr>ld_qualified_at := Some v\<rparr>, Inr ())))"

interpretation leads: lifecycle lead_transitions ld_status lead_transition_to
  by unfold_locales (auto simp: lead_transition_to_def split: if_splits)

section \<open>Tenants (domain/tenants/model.py)\<close>

datatype tenant_status = T_ACTIVE | T_SUSPENDED | T_ARCHIVED

fun tenant_status_value :: "tenant_status \<Rightarrow> string" where
  "tenant_status_value T_ACTIVE = ''active''"
| "tenant_status_value T_SUSPENDED = ''suspended''"
| "tenant_status_value T_ARCHIVED = ''archived''"

record tenant =
  tn_id :: tenant_id
  tn_slug :: string
  tn_name :: string
  tn_timezone :: string
  tn_default_locale :: locale_t
  tn_supported_locales :: "locale_t set"
  tn_status :: tenant_status
  tn_settings_version :: int

definition slug_char :: "char \<Rightarrow> bool" where
  "slug_char c = (is_lower_az c \<or> is_digit c \<or> c = CHR ''-'')"

text \<open>\<open>tzdb\<close> is the IANA database: None where \<open>ZoneInfo(name)\<close> raises.\<close>

type_synonym tzdb = "string \<Rightarrow> zone option"

definition tenant_post_init :: "tzdb \<Rightarrow> tenant \<Rightarrow> tenant res" where [ctor_defs]:
  "tenant_post_init tzdb t =
     (if blank (tn_slug t) \<or> blank (tn_name t)
        then Inl (ValidationError ''Tenant slug and name are required'')
      else if \<not> isascii (tn_slug t) \<or> \<not> list_all slug_char (tn_slug t)
        then Inl (ValidationError ''Tenant slug must use lowercase ASCII letters, digits, or hyphens'')
      else if tzdb (tn_timezone t) = None
        then Inl (ValidationError ''Tenant timezone must be a valid IANA timezone'')
      else if tn_supported_locales t = {} \<or> tn_default_locale t \<notin> tn_supported_locales t
        then Inl (ValidationError ''Default locale must be in the supported locale allowlist'')
      else if tn_settings_version t < 1
        then Inl (ValidationError ''Tenant settings version must be positive'')
      else Inr t)"

definition can_process_new_work :: "tenant \<Rightarrow> bool" where
  "can_process_new_work t = (tn_status t = T_ACTIVE)"

fun tenant_allowed :: "tenant_status \<Rightarrow> tenant_status set" where
  "tenant_allowed T_ACTIVE = {T_SUSPENDED, T_ARCHIVED}"
| "tenant_allowed T_SUSPENDED = {T_ACTIVE, T_ARCHIVED}"
| "tenant_allowed T_ARCHIVED = {}"

definition tenant_transition_to :: "tenant \<Rightarrow> tenant_status \<Rightarrow> unit \<Rightarrow> tenant res" where [lifecycle_defs]:
  "tenant_transition_to t target _ =
     (if target = tn_status t then Inr t
      else if target \<notin> tenant_allowed (tn_status t)
      then Inl (InvalidStateTransition ''Tenant'' (tenant_status_value (tn_status t))
                  (tenant_status_value target))
      else Inr (t\<lparr>tn_status := target\<rparr>))"

definition tenant_deactivate :: "tenant \<Rightarrow> tenant res" where
  "tenant_deactivate t = tenant_transition_to t T_SUSPENDED ()"

definition tenant_activate :: "tenant \<Rightarrow> tenant res" where
  "tenant_activate t = tenant_transition_to t T_ACTIVE ()"

text \<open>A request for the current status succeeds and changes nothing, so it counts as allowed.\<close>

interpretation tenants: lifecycle "\<lambda>s. insert s (tenant_allowed s)" tn_status tenant_transition_to
  by unfold_locales (auto simp: tenant_transition_to_def split: if_splits)

end
