(* ===== verification/Access.thy ===== *)
theory Access
  imports Shared
begin

text \<open>
  The RBAC policy of \<open>application/common/security.py\<close>: roles, permissions, the permissions of
  each role, and the check every use case makes first (\<open>Principal.require\<close>).
\<close>

section \<open>Roles and permissions\<close>

datatype role = OWNER | MANAGER | AGENT | KNOWLEDGE_EDITOR | VIEWER

datatype permission =
    PUBLIC_PROFILE_READ
  | CATALOG_READ
  | SCHEDULE_READ
  | BOOKING_READ
  | LEAD_READ
  | QUALIFICATION_SCHEMA_READ
  | QUALIFICATION_SCHEMA_WRITE
  | HANDOFF_READ
  | HANDOFF_WRITE
  | KNOWLEDGE_READ
  | KNOWLEDGE_WRITE
  | PRIVACY_READ
  | PRIVACY_POLICY_WRITE
  | PRIVACY_EXECUTE
  | NOTIFICATION_READ
  | NOTIFICATION_WRITE
  | WORKER_MONITOR_READ
  | TENANT_ADMIN_READ
  | TENANT_PROFILE_WRITE
  | TENANT_LIFECYCLE_WRITE
  | TENANT_MEMBER_WRITE
  | TENANT_CREDENTIAL_WRITE
  | TENANT_ENTITLEMENT_WRITE

definition read_permissions :: "permission set" where
  "read_permissions = {PUBLIC_PROFILE_READ, CATALOG_READ, SCHEDULE_READ, BOOKING_READ, LEAD_READ,
     QUALIFICATION_SCHEMA_READ, HANDOFF_READ, KNOWLEDGE_READ}"

definition write_permissions :: "permission set" where
  "write_permissions = {QUALIFICATION_SCHEMA_WRITE, HANDOFF_WRITE, KNOWLEDGE_WRITE}"

definition privacy_read_permissions :: "permission set" where
  "privacy_read_permissions = {PRIVACY_READ}"

definition privacy_owner_permissions :: "permission set" where
  "privacy_owner_permissions = {PRIVACY_POLICY_WRITE, PRIVACY_EXECUTE}"

definition operations_permissions :: "permission set" where
  "operations_permissions = {NOTIFICATION_READ, NOTIFICATION_WRITE, WORKER_MONITOR_READ}"

definition tenant_manager_permissions :: "permission set" where
  "tenant_manager_permissions = {TENANT_ADMIN_READ, TENANT_PROFILE_WRITE}"

definition tenant_owner_permissions :: "permission set" where
  "tenant_owner_permissions = {TENANT_LIFECYCLE_WRITE, TENANT_MEMBER_WRITE,
     TENANT_CREDENTIAL_WRITE, TENANT_ENTITLEMENT_WRITE}"

lemmas permission_defs =
  read_permissions_def write_permissions_def privacy_read_permissions_def
  privacy_owner_permissions_def operations_permissions_def tenant_manager_permissions_def
  tenant_owner_permissions_def

fun role_permissions :: "role \<Rightarrow> permission set" where
  "role_permissions OWNER = read_permissions \<union> write_permissions \<union> privacy_read_permissions
     \<union> privacy_owner_permissions \<union> operations_permissions \<union> tenant_manager_permissions
     \<union> tenant_owner_permissions"
| "role_permissions MANAGER = read_permissions \<union> write_permissions \<union> privacy_read_permissions
     \<union> operations_permissions \<union> tenant_manager_permissions"
| "role_permissions AGENT = read_permissions \<union> {HANDOFF_WRITE}"
| "role_permissions VIEWER = read_permissions"
| "role_permissions KNOWLEDGE_EDITOR = {KNOWLEDGE_READ, KNOWLEDGE_WRITE}"

section \<open>Principals\<close>

record principal =
  pr_subject :: string
  pr_tenant_id :: tenant_id
  pr_role :: role

definition require :: "principal \<Rightarrow> permission \<Rightarrow> unit res" where
  "require p perm =
     (if perm \<notin> role_permissions (pr_role p) then Inl AuthorizationError else Inr ())"

lemma require_Inr [simp]: "require p perm = Inr u \<longleftrightarrow> perm \<in> role_permissions (pr_role p)"
  by (simp add: require_def)

lemma require_Inl [simp]:
  "require p perm = Inl e \<longleftrightarrow> perm \<notin> role_permissions (pr_role p) \<and> e = AuthorizationError"
  by (auto simp: require_def)

section \<open>The hierarchy of roles\<close>

text \<open>The permissions that change how a tenant is governed or what is kept of its customers.\<close>

definition governance_permissions :: "permission set" where
  "governance_permissions = privacy_owner_permissions \<union> tenant_owner_permissions"

lemma owner_has_all: "perm \<in> role_permissions OWNER"
  by (cases perm) (simp_all add: permission_defs)

lemma governance_owner_only: "perm \<in> governance_permissions \<Longrightarrow> perm \<in> role_permissions r \<Longrightarrow> r = OWNER"
  by (cases r) (auto simp: governance_permissions_def permission_defs)

end
