(* ===== verification/Catalog.thy ===== *)
theory Catalog
  imports Aggregates Access
begin

text \<open>
  Customer-facing content: the catalogue and customer aggregates of \<open>domain/catalog\<close> and
  \<open>domain/customers\<close>, the public profile of \<open>domain/tenants/profile.py\<close>, the English
  presentation rules of \<open>application/common/localization.py\<close> and the catalogue queries of
  \<open>application/catalog/queries.py\<close>.
\<close>

section \<open>Catalogue aggregates (domain/catalog/model.py)\<close>

type_synonym localized = "(locale_t, string) dict"

definition validate_localized :: "localized \<Rightarrow> string \<Rightarrow> unit res" where
  "validate_localized vals field_name =
     (if vals = [] \<or> list_ex (\<lambda>(_, v). blank v) vals
      then Inl (ValidationError (field_name @ '' requires non-blank localized content''))
      else Inr ())"

record service_category =
  ct_id :: category_id
  ct_tenant_id :: tenant_id
  ct_names :: localized
  ct_sort_order :: int
  ct_active :: bool

definition category_post_init :: "service_category \<Rightarrow> service_category res" where [ctor_defs]:
  "category_post_init c =
     res_bind (validate_localized (ct_names c) ''Category names'') (\<lambda>_.
       if ct_sort_order c < 0
       then Inl (ValidationError ''Category sort order cannot be negative'') else Inr c)"

record service =
  sv_id :: service_id
  sv_tenant_id :: tenant_id
  sv_category_id :: category_id
  sv_code :: string
  sv_names :: localized
  sv_descriptions :: localized
  sv_duration :: timedelta
  sv_price :: price_presentation
  sv_cleanup_buffer :: timedelta
  sv_preparation_notes :: localized
  sv_eligibility_notes :: localized
  sv_active :: bool
  sv_bookable :: bool
  sv_version :: int

definition service_post_init :: "service \<Rightarrow> service res" where [ctor_defs]:
  "service_post_init s =
     (if blank (sv_code s) then Inl (ValidationError ''Service code is required'')
      else res_bind (validate_localized (sv_names s) ''Service names'') (\<lambda>_.
        res_bind (validate_localized (sv_descriptions s) ''Service descriptions'') (\<lambda>_.
        if \<not> dict_keys (sv_descriptions s) \<subseteq> dict_keys (sv_names s)
          then Inl (ValidationError ''Service descriptions require a localized name'')
        else if sv_duration s \<le> 0 then Inl (ValidationError ''Service duration must be positive'')
        else if sv_cleanup_buffer s < 0
          then Inl (ValidationError ''Cleanup buffer cannot be negative'')
        else if sv_version s < 1 then Inl (ValidationError ''Service version must be positive'')
        else Inr s)))"

definition can_be_booked :: "service \<Rightarrow> bool" where
  "can_be_booked s = (sv_active s \<and> sv_bookable s)"

definition service_archive :: "service \<Rightarrow> service" where
  "service_archive s = s\<lparr>sv_active := False, sv_bookable := False\<rparr>"

section \<open>Customers (domain/customers/model.py)\<close>

datatype customer_status = CU_ACTIVE | CU_BLOCKED | CU_ANONYMIZED

record customer =
  cu_id :: customer_id
  cu_tenant_id :: tenant_id
  cu_locale :: locale_t
  cu_display_name :: "string option"
  cu_phone :: "phone_number option"
  cu_email :: "string option"
  cu_privacy_notice_version :: "string option"
  cu_privacy_accepted_at :: "datetime option"
  cu_contact_consent_at :: "datetime option"
  cu_status :: customer_status

definition customer_post_init :: "customer \<Rightarrow> customer res" where [ctor_defs]:
  "customer_post_init c =
     (if (case cu_display_name c of None \<Rightarrow> False | Some n \<Rightarrow> blank n)
        then Inl (ValidationError ''Display name cannot be blank'')
      else if (case cu_email c of None \<Rightarrow> False | Some e \<Rightarrow> CHR ''@'' \<notin> set e \<or> 254 < length e)
        then Inl (ValidationError ''Email address is invalid'')
      else res_bind (ensure_aware_opt (cu_privacy_accepted_at c) ''privacy_accepted_at'') (\<lambda>_.
        res_bind (ensure_aware_opt (cu_contact_consent_at c) ''contact_consent_at'') (\<lambda>_.
        if (cu_privacy_notice_version c = None) \<noteq> (cu_privacy_accepted_at c = None)
        then Inl (ValidationError ''Privacy acceptance requires both version and timestamp'')
        else Inr c)))"

definition accept_privacy_notice :: "customer \<Rightarrow> string \<Rightarrow> datetime \<Rightarrow> customer res" where
  "accept_privacy_notice c ver accepted_at =
     res_bind (ensure_aware accepted_at ''accepted_at'') (\<lambda>_.
       if blank ver then Inl (ValidationError ''Privacy notice version is required'')
       else Inr (c\<lparr>cu_privacy_notice_version := Some ver,
                   cu_privacy_accepted_at := Some accepted_at\<rparr>))"

definition grant_contact_consent :: "customer \<Rightarrow> datetime \<Rightarrow> customer res" where
  "grant_contact_consent c granted_at =
     res_bind (ensure_aware granted_at ''granted_at'') (\<lambda>v. Inr (c\<lparr>cu_contact_consent_at := Some v\<rparr>))"

definition update_phone :: "customer \<Rightarrow> phone_number \<Rightarrow> customer res" where
  "update_phone c phone =
     (if cu_contact_consent_at c = None
      then Inl (ValidationError ''Contact consent is required before storing a phone number'')
      else Inr (c\<lparr>cu_phone := Some phone\<rparr>))"

section \<open>Public profiles (domain/tenants/profile.py)\<close>

record public_profile =
  pf_tenant_id :: tenant_id
  pf_schedule_id :: schedule_id
  pf_descriptions :: localized
  pf_public_phone :: "string option"
  pf_public_email :: "string option"
  pf_website_url :: "string option"
  pf_addresses :: localized
  pf_service_areas :: localized
  pf_parking_guidance :: localized
  pf_payment_methods :: "string list"
  pf_warranty_policy :: localized
  pf_appointment_policy :: localized
  pf_version :: int

definition validate_optional_localized :: "localized \<Rightarrow> string \<Rightarrow> unit res" where
  "validate_optional_localized vals field_name =
     (if list_ex (\<lambda>(_, v). blank v) vals
      then Inl (ValidationError (field_name @ '' cannot contain blank localized content''))
      else Inr ())"

text \<open>
  \<open>urlsplit(url)\<close> of the standard library is a parameter: the scheme and the host name
  (None or empty when there is none).
\<close>

type_synonym urlsplit = "string \<Rightarrow> string \<times> string option"

definition profile_post_init :: "urlsplit \<Rightarrow> public_profile \<Rightarrow> public_profile res" where [ctor_defs]:
  "profile_post_init urlsplit p =
     res_bind (res_map (\<lambda>(vals, name). validate_optional_localized vals name)
       [(pf_descriptions p, ''Descriptions''), (pf_addresses p, ''Addresses''),
        (pf_service_areas p, ''Service areas''), (pf_parking_guidance p, ''Parking guidance''),
        (pf_warranty_policy p, ''Warranty policy''),
        (pf_appointment_policy p, ''Appointment policy'')]) (\<lambda>_.
     if pf_descriptions p = []
       then Inl (ValidationError ''Public profile requires a localized description'')
     else if (case pf_public_phone p of None \<Rightarrow> False | Some ph \<Rightarrow> blank ph \<or> 32 < length ph)
       then Inl (ValidationError ''Public phone number is invalid'')
     else if (case pf_public_email p of None \<Rightarrow> False
              | Some em \<Rightarrow> blank em \<or> CHR ''@'' \<notin> set em \<or> 254 < length em)
       then Inl (ValidationError ''Public email address is invalid'')
     else if (case pf_website_url p of None \<Rightarrow> False
              | Some u \<Rightarrow> (case urlsplit u of (scheme, hostname) \<Rightarrow>
                  500 < length u \<or> scheme \<notin> {''http'', ''https''} \<or> hostname \<in> {None, Some []}))
       then Inl (ValidationError ''Public website URL is invalid'')
     else if list_ex blank (pf_payment_methods p)
       then Inl (ValidationError ''Payment methods cannot contain blank values'')
     else if pf_version p < 1
       then Inl (ValidationError ''Public profile version must be positive'')
     else Inr p)"

section \<open>Localization (application/common/localization.py)\<close>

text \<open>The candidate locales, most wanted first, without repetition and only supported ones.\<close>

fun add_candidates :: "locale_t set \<Rightarrow> locale_t list \<Rightarrow> locale_t list \<Rightarrow> locale_t list" where
  "add_candidates supported cands [] = cands"
| "add_candidates supported cands (l # ls) =
     (if l \<in> supported \<and> l \<notin> set cands then add_candidates supported (cands @ [l]) ls
      else add_candidates supported cands ls)"

text \<open>\<open>sorted(supported, key=lambda item: item.value)\<close>\<close>

definition sorted_locales :: "locale_t set \<Rightarrow> locale_t list" where
  "sorted_locales s = filter (\<lambda>l. l \<in> s) [EN, RU]"

definition locale_candidates :: "string option \<Rightarrow> locale_t \<Rightarrow> locale_t set \<Rightarrow> locale_t list" where
  "locale_candidates requested def_locale supported =
     (let parsed = (case requested of None \<Rightarrow> def_locale
                    | Some r \<Rightarrow> (case locale_of r of None \<Rightarrow> def_locale | Some l \<Rightarrow> l))
      in add_candidates supported [] ([parsed, def_locale, EN] @ sorted_locales supported))"

text \<open>\<open>value = values.get(locale)\<close> and \<open>if value\<close>\<close>

definition get_text :: "localized \<Rightarrow> locale_t \<Rightarrow> string option" where
  "get_text vals l = (case dict_get vals l of None \<Rightarrow> None | Some v \<Rightarrow> if v = [] then None else Some v)"

fun resolve_localized :: "localized \<Rightarrow> locale_t list \<Rightarrow> (string \<times> locale_t) res" where
  "resolve_localized vals [] = Inl UnresolvedLocaleError"
| "resolve_localized vals (l # ls) =
     (case get_text vals l of Some v \<Rightarrow> Inr (v, l) | None \<Rightarrow> resolve_localized vals ls)"

definition resolve_common_locale :: "localized list \<Rightarrow> locale_t list \<Rightarrow> locale_t res" where
  "resolve_common_locale valss cands =
     (case first_where (\<lambda>l. list_all (\<lambda>m. get_text m l \<noteq> None) valss) cands of
        Some l \<Rightarrow> Inr l | None \<Rightarrow> Inl UnresolvedLocaleError)"

definition require_english :: "locale_t \<Rightarrow> unit res" where
  "require_english l = (if l \<noteq> EN then Inl UnresolvedLocaleError else Inr ())"

definition amount_text :: "money \<Rightarrow> string" where
  "amount_text m = (let whole = amount_minor m div 100; fraction = amount_minor m mod 100 in
     group_thousands (nat whole) @ ''.'' @ zero_pad 2 (nat fraction))"

definition format_price :: "price_presentation \<Rightarrow> locale_t \<Rightarrow> string option res" where
  "format_price price l =
     res_bind (require_english l) (\<lambda>_.
       if pp_mode price = NOT_DISPLAYED then Inr None
       else if pp_mode price = QUOTE_REQUIRED then Inr (Some ''Contact us for a quote'')
       else case pp_minimum price of
           None \<Rightarrow> Inl (ValueError ''Validated public price is missing its minimum'')
         | Some mn \<Rightarrow>
             let first = amount_text mn in
             if pp_mode price = RANGE then
               (case pp_maximum price of
                  None \<Rightarrow> Inl (ValueError ''Validated price range is missing its maximum'')
                | Some mx \<Rightarrow> Inr (Some (currency mn @ '' '' @ first @ ''-'' @ amount_text mx)))
             else
               let exact = currency mn @ '' '' @ first in
               if pp_mode price = STARTING_FROM then Inr (Some (''From '' @ exact))
               else Inr (Some exact))"

definition format_duration :: "timedelta \<Rightarrow> locale_t \<Rightarrow> string res" where
  "format_duration duration l =
     res_bind (require_english l) (\<lambda>_.
       let secs = (if duration < 0 then - ((- duration) div second_us) else duration div second_us);
           total_minutes = secs div 60;
           hours = total_minutes div 60; minutes = total_minutes mod 60;
           hour_part = (if hours \<noteq> 0
             then [str_int hours @ '' '' @ (if hours = 1 then ''hour'' else ''hours'')] else []);
           minute_part = (if minutes \<noteq> 0
             then [str_int minutes @ '' '' @ (if minutes = 1 then ''minute'' else ''minutes'')] else [])
       in Inr (join '' '' (hour_part @ minute_part)))"

section \<open>Catalogue queries (application/catalog)\<close>

text \<open>
  The repositories a read unit of work offers (\<open>common/ports/query_uow.py\<close>): what a query
  reads through them, tenant by tenant. Schedules are read in the theory of schedules.
\<close>

record catalog_uow =
  cq_tenant :: "tenant_id \<Rightarrow> tenant option"
  cq_categories :: "tenant_id \<Rightarrow> service_category list"
  cq_category :: "tenant_id \<Rightarrow> category_id \<Rightarrow> service_category option"
  cq_services :: "tenant_id \<Rightarrow> category_id option \<Rightarrow> service list"
  cq_service :: "tenant_id \<Rightarrow> service_id \<Rightarrow> service option"

record service_category_dto =
  cd_id :: string
  cd_name :: string
  cd_locale :: string
  cd_sort_order :: int

record public_price_dto =
  pd_mode :: string
  pd_currency :: "string option"
  pd_minimum_minor :: "int option"
  pd_maximum_minor :: "int option"
  pd_display :: "string option"

record service_dto =
  sd_id :: string
  sd_category_id :: string
  sd_code :: string
  sd_name :: string
  sd_description :: string
  sd_locale :: string
  sd_duration_seconds :: int
  sd_duration_display :: string
  sd_price :: public_price_dto
  sd_preparation_notes :: "string option"
  sd_eligibility_notes :: "string option"
  sd_bookable :: bool

definition tenant_locale_context :: "tenant option \<Rightarrow> string option \<Rightarrow> locale_t list res" where
  "tenant_locale_context t requested =
     (case t of None \<Rightarrow> Inl TenantNotFoundError
      | Some tn \<Rightarrow> if \<not> can_process_new_work tn then Inl TenantNotFoundError
          else Inr (locale_candidates requested (tn_default_locale tn) (tn_supported_locales tn)))"

text \<open>\<open>d[key]\<close>: KeyError when the key is missing.\<close>

definition text_at :: "localized \<Rightarrow> locale_t \<Rightarrow> string res" where
  "text_at vals l = (case dict_get vals l of None \<Rightarrow> Inl (KeyError (locale_value l)) | Some v \<Rightarrow> Inr v)"

definition service_to_dto :: "service \<Rightarrow> locale_t list \<Rightarrow> service_dto res" where
  "service_to_dto s cands =
     res_bind (resolve_common_locale [sv_names s, sv_descriptions s] cands) (\<lambda>resolved.
     let mn = pp_minimum (sv_price s); mx = pp_maximum (sv_price s);
         represented_money = (case mn of Some m \<Rightarrow> Some m | None \<Rightarrow> mx)
     in
     res_bind (text_at (sv_names s) resolved) (\<lambda>name.
     res_bind (text_at (sv_descriptions s) resolved) (\<lambda>description.
     res_bind (format_duration (sv_duration s) resolved) (\<lambda>duration_display.
     res_bind (format_price (sv_price s) resolved) (\<lambda>display.
     Inr \<lparr>sd_id = uuid_str (service_uuid (sv_id s)),
          sd_category_id = uuid_str (category_uuid (sv_category_id s)),
          sd_code = sv_code s, sd_name = name, sd_description = description,
          sd_locale = locale_value resolved,
          sd_duration_seconds = sv_duration s div second_us,
          sd_duration_display = duration_display,
          sd_price = \<lparr>pd_mode = price_mode_value (pp_mode (sv_price s)),
                      pd_currency = map_option currency represented_money,
                      pd_minimum_minor = map_option amount_minor mn,
                      pd_maximum_minor = map_option amount_minor mx,
                      pd_display = display\<rparr>,
          sd_preparation_notes = dict_get (sv_preparation_notes s) resolved,
          sd_eligibility_notes = dict_get (sv_eligibility_notes s) resolved,
          sd_bookable = can_be_booked s\<rparr>)))))"

definition list_service_categories ::
  "catalog_uow \<Rightarrow> principal \<Rightarrow> string option \<Rightarrow> service_category_dto list res" where
  "list_service_categories uow p requested =
     res_bind (require p CATALOG_READ) (\<lambda>_.
     res_bind (tenant_locale_context (cq_tenant uow (pr_tenant_id p)) requested) (\<lambda>cands.
     res_map (\<lambda>c. res_bind (resolve_localized (ct_names c) cands) (\<lambda>(name, resolved).
       Inr \<lparr>cd_id = uuid_str (category_uuid (ct_id c)), cd_name = name,
            cd_locale = locale_value resolved, cd_sort_order = ct_sort_order c\<rparr>))
       (cq_categories uow (pr_tenant_id p))))"

definition list_services ::
  "catalog_uow \<Rightarrow> principal \<Rightarrow> string option \<Rightarrow> category_id option \<Rightarrow> service_dto list res" where
  "list_services uow p requested category =
     res_bind (require p CATALOG_READ) (\<lambda>_.
     if (case category of None \<Rightarrow> False | Some c \<Rightarrow> cq_category uow (pr_tenant_id p) c = None)
     then Inl CategoryNotFoundError
     else
       let services = cq_services uow (pr_tenant_id p) category in
       res_bind (tenant_locale_context (cq_tenant uow (pr_tenant_id p)) requested) (\<lambda>cands.
       res_map (\<lambda>s. service_to_dto s cands) services))"

definition get_service ::
  "catalog_uow \<Rightarrow> principal \<Rightarrow> service_id \<Rightarrow> string option \<Rightarrow> service_dto res" where
  "get_service uow p sid requested =
     res_bind (require p CATALOG_READ) (\<lambda>_.
     let found = cq_service uow (pr_tenant_id p) sid in
     res_bind (tenant_locale_context (cq_tenant uow (pr_tenant_id p)) requested) (\<lambda>cands.
     case found of None \<Rightarrow> Inl ServiceNotFoundError | Some s \<Rightarrow> service_to_dto s cands))"

section \<open>Facts\<close>

lemma validate_localized_Inr:
  "validate_localized vals f = Inr u \<longleftrightarrow> vals \<noteq> [] \<and> (\<forall>(l, v) \<in> set vals. \<not> blank v)"
  by (auto simp: validate_localized_def list_ex_iff)

lemma set_add_candidates:
  "set (add_candidates supported cands ls) = set cands \<union> (set ls \<inter> supported)"
  by (induction supported cands ls rule: add_candidates.induct) auto

lemma distinct_add_candidates:
  "distinct cands \<Longrightarrow> distinct (add_candidates supported cands ls)"
  by (induction supported cands ls rule: add_candidates.induct) auto

lemma add_candidates_prefix: "\<exists>rest. add_candidates supported cands ls = cands @ rest"
  by (induction supported cands ls rule: add_candidates.induct) (auto split: if_splits)

lemma set_locale_candidates: "set (locale_candidates requested d supported) = supported"
proof -
  have "supported \<subseteq> {EN, RU}" using locale_t.exhaust by blast
  then show ?thesis
    by (auto simp: locale_candidates_def Let_def set_add_candidates sorted_locales_def)
qed

lemma resolve_localized_Inr:
  "resolve_localized vals ls = Inr (v, l) \<Longrightarrow> l \<in> set ls \<and> get_text vals l = Some v"
  by (induction vals ls rule: resolve_localized.induct) (auto split: option.splits)

lemma get_text_Some: "get_text vals l = Some v \<longleftrightarrow> dict_get vals l = Some v \<and> v \<noteq> []"
  by (auto simp: get_text_def split: option.splits)

end
