(* ===== verification/Schedule.thy ===== *)
theory Schedule
  imports Catalog
begin

text \<open>
  Business hours: the schedule aggregate of \<open>domain/scheduling/model.py\<close> and the deterministic
  engine of \<open>application/scheduling/engine.py\<close> (effective day, open now, next opening, response
  deadline). \<open>ZoneInfo(schedule.timezone)\<close> is the schedule's own zone, which the constructor
  looked up under the same name.
\<close>

section \<open>Schedules (domain/scheduling/model.py)\<close>

datatype interval_type = OPEN | BREAK

record schedule_interval =
  si_weekday :: int
  si_start_local :: time
  si_end_local :: time
  si_interval_type :: interval_type

definition interval_post_init :: "schedule_interval \<Rightarrow> schedule_interval res" where [ctor_defs]:
  "interval_post_init i =
     (if \<not> (0 \<le> si_weekday i \<and> si_weekday i \<le> 6)
        then Inl (ValidationError ''Weekday must be in the range Monday=0 to Sunday=6'')
      else if si_end_local i \<le> si_start_local i
        then Inl (ValidationError ''Schedule interval start must precede end'')
      else Inr i)"

record schedule_override =
  so_starts_on :: date
  so_ends_on :: date
  so_closed :: bool
  so_intervals :: "schedule_interval list"
  so_reason :: "string option"

definition override_post_init :: "schedule_override \<Rightarrow> schedule_override res" where [ctor_defs]:
  "override_post_init ov =
     (if so_ends_on ov < so_starts_on ov
        then Inl (ValidationError ''Schedule override start date must not follow end date'')
      else if so_closed ov \<and> so_intervals ov \<noteq> []
        then Inl (ValidationError ''A closed override cannot contain opening intervals'')
      else if \<not> so_closed ov \<and> so_intervals ov = []
        then Inl (ValidationError ''An open override requires at least one interval'')
      else Inr ov)"

definition applies_on :: "schedule_override \<Rightarrow> date \<Rightarrow> bool" where
  "applies_on ov d = (so_starts_on ov \<le> d \<and> d \<le> so_ends_on ov)"

record business_schedule =
  bs_id :: schedule_id
  bs_tenant_id :: tenant_id
  bs_name :: string
  bs_timezone :: string
  bs_intervals :: "schedule_interval list"
  bs_overrides :: "schedule_override list"
  bs_active :: bool
  bs_zone :: zone

definition day_openings :: "schedule_interval list \<Rightarrow> int \<Rightarrow> schedule_interval list" where
  "day_openings ivs wd = sorted_by si_start_local
     (filter (\<lambda>i. si_weekday i = wd \<and> si_interval_type i = OPEN) ivs)"

definition validate_weekday :: "schedule_interval list \<Rightarrow> int \<Rightarrow> unit res" where
  "validate_weekday ivs wd = (
     let openings = day_openings ivs wd;
         breaks = filter (\<lambda>i. si_weekday i = wd \<and> si_interval_type i = BREAK) ivs
     in if list_ex (\<lambda>(previous, current). si_start_local current < si_end_local previous) (pairwise openings)
          then Inl (ValidationError ''Opening intervals cannot overlap'')
        else if list_ex (\<lambda>b. \<not> list_ex (\<lambda>o1. si_start_local o1 \<le> si_start_local b
                  \<and> si_end_local b \<le> si_end_local o1) openings) breaks
          then Inl (ValidationError ''Break intervals must be contained within opening hours'')
        else Inr ())"

definition validate_intervals :: "schedule_interval list \<Rightarrow> unit res" where
  "validate_intervals ivs = res_bind (res_map (validate_weekday ivs) [0, 1, 2, 3, 4, 5, 6]) (\<lambda>_. Inr ())"

definition schedule_post_init :: "tzdb \<Rightarrow> business_schedule \<Rightarrow> business_schedule res" where [ctor_defs]:
  "schedule_post_init tzdb s =
     (if blank (bs_name s) then Inl (ValidationError ''Schedule name is required'')
      else case tzdb (bs_timezone s) of
          None \<Rightarrow> Inl (ValidationError ''Schedule timezone must be a valid IANA timezone'')
        | Some z \<Rightarrow> res_bind (validate_intervals (bs_intervals s)) (\<lambda>_. Inr (s\<lparr>bs_zone := z\<rparr>)))"

definition override_for :: "business_schedule \<Rightarrow> date \<Rightarrow> schedule_override option res" where
  "override_for s d =
     (let found = filter (\<lambda>ov. applies_on ov d) (bs_overrides s) in
      case found of
        [] \<Rightarrow> Inr None
      | [ov] \<Rightarrow> Inr (Some ov)
      | _ \<Rightarrow> Inl (ValidationError ''Multiple schedule overrides apply to the same local date''))"

section \<open>Removing the breaks (engine.py, _subtract_breaks)\<close>

type_synonym span = "time \<times> time"

text \<open>One piece against one pause: the part before it and the part after it.\<close>

definition cut_piece :: "schedule_interval \<Rightarrow> span \<Rightarrow> span list" where
  "cut_piece pause piece = (case piece of (s, e) \<Rightarrow>
     if si_end_local pause \<le> s \<or> e \<le> si_start_local pause then [(s, e)]
     else (if s < si_start_local pause then [(s, si_start_local pause)] else [])
        @ (if si_end_local pause < e then [(si_end_local pause, e)] else []))"

fun cut_pieces :: "schedule_interval list \<Rightarrow> span list \<Rightarrow> span list" where
  "cut_pieces [] pieces = pieces"
| "cut_pieces (pause # pauses) pieces = cut_pieces pauses (concat (map (cut_piece pause) pieces))"

definition subtract_breaks :: "schedule_interval list \<Rightarrow> schedule_interval list \<Rightarrow> span list res" where
  "subtract_breaks openings breaks = (
     let pauses = sorted_by si_start_local breaks;
         pieces = concat (map (\<lambda>o1. cut_pieces pauses [(si_start_local o1, si_end_local o1)])
                    (sorted_by si_start_local openings));
         ordered = sort pieces
     in if list_ex (\<lambda>(previous, current). fst current < snd previous) (pairwise ordered)
        then Inl (InvalidScheduleError ''Business intervals overlap'')
        else Inr ordered)"

section \<open>Wall clocks to instants\<close>

text \<open>
  \<open>_valid_local_candidates\<close>: the readings of a wall clock whose own wall clock is the given
  one, keyed by instant and in ascending order. An entry is the aware value at that instant.
\<close>

definition local_readings :: "int \<Rightarrow> zone \<Rightarrow> instant list" where
  "local_readings naive z =
     filter (\<lambda>t. wall (astimezone z t) = naive)
       (map (\<lambda>fold1. local_instant z fold1 naive) [False, True])"

definition valid_local_candidates :: "int \<Rightarrow> zone \<Rightarrow> datetime list" where
  "valid_local_candidates naive z =
     map (\<lambda>t. DT naive (Some (naive - t))) (sort (remdups (local_readings naive z)))"

definition resolve_local_boundary :: "int \<Rightarrow> zone \<Rightarrow> bool \<Rightarrow> datetime res" where
  "resolve_local_boundary naive z opening =
     (case valid_local_candidates naive z of
        [] \<Rightarrow> Inl (InvalidScheduleError ''Schedule boundary falls in a nonexistent local time'')
      | c # cs \<Rightarrow> Inr (if opening then c else last (c # cs)))"

section \<open>The effective day\<close>

record effective_day =
  ed_local_date :: date
  ed_intervals :: "span list"
  ed_source :: string
  ed_reason :: "string option"

definition check_elapsed :: "zone \<Rightarrow> date \<Rightarrow> span \<Rightarrow> unit res" where
  "check_elapsed z d iv =
     res_bind (resolve_local_boundary (combine d (fst iv)) z True) (\<lambda>opening.
     res_bind (resolve_local_boundary (combine d (snd iv)) z False) (\<lambda>closing.
     if utc closing \<le> utc opening
     then Inl (InvalidScheduleError ''Business interval has no positive elapsed duration'')
     else Inr ()))"

definition effective_day_of :: "business_schedule \<Rightarrow> date \<Rightarrow> effective_day res" where
  "effective_day_of sched d =
     (case override_for sched d of
        Inl _ \<Rightarrow> Inl (InvalidScheduleError ''Multiple schedule overrides apply to one date'')
      | Inr ov_opt \<Rightarrow>
          if (case ov_opt of Some ov \<Rightarrow> so_closed ov | None \<Rightarrow> False) then
            Inr \<lparr>ed_local_date = d, ed_intervals = [], ed_source = ''override'',
                 ed_reason = Option.bind ov_opt so_reason\<rparr>
          else
            let candidates = (case ov_opt of Some ov \<Rightarrow> so_intervals ov
                  | None \<Rightarrow> filter (\<lambda>i. si_weekday i = weekday d) (bs_intervals sched));
                source = (case ov_opt of Some _ \<Rightarrow> ''override'' | None \<Rightarrow> ''weekly'');
                openings = filter (\<lambda>i. si_interval_type i = OPEN) candidates;
                breaks = filter (\<lambda>i. si_interval_type i = BREAK) candidates
            in res_bind (subtract_breaks openings breaks) (\<lambda>ivs.
               res_bind (res_map (check_elapsed (bs_zone sched) d) ivs) (\<lambda>_.
               Inr \<lparr>ed_local_date = d, ed_intervals = ivs, ed_source = source,
                    ed_reason = Option.bind ov_opt so_reason\<rparr>)))"

definition require_aware :: "datetime \<Rightarrow> datetime res" where
  "require_aware dt = (if \<not> aware dt then Inl datetime_invalid_default else Inr dt)"

section \<open>Open now, next opening, response deadline\<close>

definition is_open :: "business_schedule \<Rightarrow> datetime \<Rightarrow> (bool \<times> datetime \<times> effective_day) res" where
  "is_open sched at_time =
     res_bind (require_aware at_time) (\<lambda>_.
     let loc = astimezone (bs_zone sched) (utc at_time) in
     res_bind (effective_day_of sched (wall_date (wall loc))) (\<lambda>day.
     let wt = wall_time (wall loc) in
     Inr (list_ex (\<lambda>(s, e). s \<le> wt \<and> wt < e) (ed_intervals day), loc, day)))"

text \<open>The first opening boundary of a day after the given instant.\<close>

fun first_opening_in ::
  "zone \<Rightarrow> date \<Rightarrow> bool \<Rightarrow> time \<Rightarrow> instant \<Rightarrow> span list \<Rightarrow> datetime option res" where
  "first_opening_in z d is_today now_time at_utc [] = Inr None"
| "first_opening_in z d is_today now_time at_utc ((s, e) # ivs) =
     (if is_today \<and> s \<le> now_time then first_opening_in z d is_today now_time at_utc ivs
      else res_bind (resolve_local_boundary (combine d s) z True) (\<lambda>cand.
        if at_utc < utc cand then Inr (Some cand)
        else first_opening_in z d is_today now_time at_utc ivs))"

fun search_openings ::
  "business_schedule \<Rightarrow> datetime \<Rightarrow> instant \<Rightarrow> int list \<Rightarrow> (datetime \<times> int) option res" where
  "search_openings sched loc at_utc [] = Inr None"
| "search_openings sched loc at_utc (offset # offsets) =
     (let d = wall_date (wall loc) + offset in
      res_bind (effective_day_of sched d) (\<lambda>day.
      res_bind (first_opening_in (bs_zone sched) d (offset = 0) (wall_time (wall loc)) at_utc
                  (ed_intervals day)) (\<lambda>found.
      case found of Some cand \<Rightarrow> Inr (Some (cand, offset))
      | None \<Rightarrow> search_openings sched loc at_utc offsets)))"

definition next_opening ::
  "business_schedule \<Rightarrow> datetime \<Rightarrow> int \<Rightarrow> (bool \<times> datetime option \<times> datetime \<times> int) res" where
  "next_opening sched at_time horizon =
     (if \<not> (1 \<le> horizon \<and> horizon \<le> 730)
        then Inl (InvalidScheduleError ''Search horizon must be between 1 and 730 days'')
      else res_bind (is_open sched at_time) (\<lambda>(open_now, loc, _).
        if open_now then Inr (True, None, loc, 0)
        else res_bind (search_openings sched loc (utc at_time) [0..horizon]) (\<lambda>found.
          case found of Some (cand, offset) \<Rightarrow> Inr (False, Some cand, loc, offset)
          | None \<Rightarrow> Inr (False, None, loc, horizon))))"

text \<open>
  The inner loop of \<open>business_due_at\<close> over one day's intervals: either the deadline, or the
  cursor and the time that remains.
\<close>

fun consume_day ::
  "zone \<Rightarrow> date \<Rightarrow> instant \<Rightarrow> timedelta \<Rightarrow> span list \<Rightarrow> (instant + instant \<times> timedelta) res" where
  "consume_day z d cursor remaining [] = Inr (Inr (cursor, remaining))"
| "consume_day z d cursor remaining ((s, e) # ivs) =
     res_bind (resolve_local_boundary (combine d s) z True) (\<lambda>opening.
     res_bind (resolve_local_boundary (combine d e) z False) (\<lambda>closing.
     let interval_start = utc opening; interval_end = utc closing;
         available_from = max cursor interval_start
     in if interval_end \<le> available_from then consume_day z d cursor remaining ivs
        else let available = interval_end - available_from in
          if remaining \<le> available then Inr (Inl (available_from + remaining))
          else consume_day z d interval_end (remaining - available) ivs))"

fun consume_days ::
  "business_schedule \<Rightarrow> date \<Rightarrow> instant \<Rightarrow> timedelta \<Rightarrow> int list \<Rightarrow> instant res" where
  "consume_days sched local_start cursor remaining [] =
     Inl (InvalidScheduleError ''No business-hours response deadline exists within the horizon'')"
| "consume_days sched local_start cursor remaining (offset # offsets) =
     res_bind (effective_day_of sched (local_start + offset)) (\<lambda>day.
     res_bind (consume_day (bs_zone sched) (local_start + offset) cursor remaining (ed_intervals day)) (\<lambda>r.
     case r of Inl due \<Rightarrow> Inr due
     | Inr (cursor', remaining') \<Rightarrow> consume_days sched local_start cursor' remaining' offsets))"

definition business_due_at ::
  "business_schedule \<Rightarrow> datetime \<Rightarrow> timedelta \<Rightarrow> int \<Rightarrow> datetime res" where
  "business_due_at sched at_time service_time horizon =
     res_bind (require_aware at_time) (\<lambda>_.
     if service_time \<le> 0
       then Inl (InvalidScheduleError ''Business response time must be positive'')
     else
       let local_start = wall_date (wall (astimezone (bs_zone sched) (utc at_time))) in
       res_bind (consume_days sched local_start (utc at_time) service_time [0..horizon]) (\<lambda>due.
       Inr (utc_datetime due)))"


section \<open>Facts: breaks are removed exactly\<close>

definition span_has :: "time \<Rightarrow> span \<Rightarrow> bool" where
  "span_has t sp = (fst sp \<le> t \<and> t < snd sp)"

definition spans_cover :: "span list \<Rightarrow> time \<Rightarrow> bool" where
  "spans_cover sps t = list_ex (span_has t) sps"

definition interval_has :: "time \<Rightarrow> schedule_interval \<Rightarrow> bool" where
  "interval_has t i = (si_start_local i \<le> t \<and> t < si_end_local i)"

definition proper_interval :: "schedule_interval \<Rightarrow> bool" where
  "proper_interval i = (si_start_local i < si_end_local i
     \<and> valid_time (si_start_local i) \<and> valid_time (si_end_local i))"

lemma spans_cover_simps [simp]:
  "spans_cover [] t = False"
  "spans_cover (sp # sps) t = (span_has t sp \<or> spans_cover sps t)"
  "spans_cover (sps @ sps') t = (spans_cover sps t \<or> spans_cover sps' t)"
  by (simp_all add: spans_cover_def)

lemma spans_cover_iff: "spans_cover sps t \<longleftrightarrow> (\<exists>sp \<in> set sps. span_has t sp)"
  by (simp add: spans_cover_def list_ex_iff)

lemma cut_piece_covers:
  "spans_cover (cut_piece pause sp) t \<longleftrightarrow> span_has t sp \<and> \<not> interval_has t pause"
  by (cases sp) (auto simp: cut_piece_def span_has_def interval_has_def)

lemma cut_piece_proper:
  "\<lbrakk> fst sp < snd sp; sp' \<in> set (cut_piece pause sp) \<rbrakk>
   \<Longrightarrow> fst sp \<le> fst sp' \<and> fst sp' < snd sp' \<and> snd sp' \<le> snd sp"
  by (cases sp) (auto simp: cut_piece_def split: if_splits)

lemma cut_pieces_covers:
  "spans_cover (cut_pieces pauses pieces) t
   \<longleftrightarrow> spans_cover pieces t \<and> \<not> list_ex (interval_has t) pauses"
proof (induction pauses pieces rule: cut_pieces.induct)
  case (2 pause pauses pieces)
  have "spans_cover (concat (map (cut_piece pause) pieces)) t
        \<longleftrightarrow> spans_cover pieces t \<and> \<not> interval_has t pause"
    by (induction pieces) (auto simp: cut_piece_covers)
  then show ?case using 2 by auto
qed simp

lemma cut_pieces_proper:
  "\<lbrakk> \<And>sp. sp \<in> set pieces \<Longrightarrow> lo \<le> fst sp \<and> fst sp < snd sp \<and> snd sp \<le> hi;
     sp \<in> set (cut_pieces pauses pieces) \<rbrakk>
   \<Longrightarrow> lo \<le> fst sp \<and> fst sp < snd sp \<and> snd sp \<le> hi"
proof (induction pauses pieces rule: cut_pieces.induct)
  case (2 pause pauses pieces)
  show ?case
  proof (rule "2.IH")
    fix sp'
    assume "sp' \<in> set (concat (map (cut_piece pause) pieces))"
    then obtain q where "q \<in> set pieces" "sp' \<in> set (cut_piece pause q)" by auto
    then show "lo \<le> fst sp' \<and> fst sp' < snd sp' \<and> snd sp' \<le> hi"
      using "2.prems"(1) [of q] cut_piece_proper [of q sp' pause] by auto
  qed (use "2.prems"(2) in simp)
qed simp

lemma disjoint_of_pairwise:
  assumes "\<forall>(a, b) \<in> set (pairwise sps). snd a \<le> fst b"
    and "\<forall>sp \<in> set sps. fst sp < snd sp"
  shows "sorted_wrt (\<lambda>a b. snd a \<le> fst b) (sps :: span list)"
  using assms
proof (induction sps rule: pairwise.induct)
  case (3 x y zs)
  then have "sorted_wrt (\<lambda>a b. snd a \<le> fst b) (y # zs)" "snd x \<le> fst y" "fst y < snd y" by auto
  then show ?case by fastforce
qed auto

text \<open>
  The result of \<open>_subtract_breaks\<close>: non-empty pieces within the openings, in order, disjoint,
  and covering a time exactly when an opening covers it and no break does.
\<close>

lemma subtract_breaks_spec:
  assumes "subtract_breaks openings breaks = Inr ivs"
    and "\<forall>o1 \<in> set openings. proper_interval o1"
  shows "sorted_wrt (\<lambda>a b. snd a \<le> fst b) ivs"
    and "sp \<in> set ivs \<Longrightarrow> fst sp < snd sp \<and> valid_time (fst sp) \<and> valid_time (snd sp)"
    and "spans_cover ivs t \<longleftrightarrow> list_ex (interval_has t) openings \<and> \<not> list_ex (interval_has t) breaks"
proof -
  let ?pauses = "sorted_by si_start_local breaks"
  let ?cut = "\<lambda>o1. cut_pieces ?pauses [(si_start_local o1, si_end_local o1)]"
  let ?pieces = "concat (map ?cut (sorted_by si_start_local openings))"
  from assms(1) have ivs: "ivs = sort ?pieces"
    and pw: "\<forall>(a, b) \<in> set (pairwise ivs). snd a \<le> fst b"
    by (auto simp: subtract_breaks_def Let_def list_ex_iff split: if_splits)
  have bounds: "fst sp < snd sp \<and> valid_time (fst sp) \<and> valid_time (snd sp)" if "sp \<in> set ivs" for sp
  proof -
    from that obtain o1 where o1: "o1 \<in> set openings" "sp \<in> set (?cut o1)"
      by (auto simp: ivs)
    have "si_start_local o1 \<le> fst sp \<and> fst sp < snd sp \<and> snd sp \<le> si_end_local o1"
      by (rule cut_pieces_proper [OF _ o1(2)]) (use o1(1) assms(2) in \<open>auto simp: proper_interval_def\<close>)
    then show ?thesis
      using o1(1) assms(2) by (fastforce simp: proper_interval_def valid_time_def)
  qed
  show "sp \<in> set ivs \<Longrightarrow> fst sp < snd sp \<and> valid_time (fst sp) \<and> valid_time (snd sp)" by (rule bounds)
  show "sorted_wrt (\<lambda>a b. snd a \<le> fst b) ivs"
    by (rule disjoint_of_pairwise [OF pw]) (use bounds in blast)
  have "spans_cover ivs t \<longleftrightarrow> (\<exists>o1 \<in> set openings. spans_cover (?cut o1) t)"
    by (auto simp: spans_cover_iff ivs)
  then show "spans_cover ivs t \<longleftrightarrow> list_ex (interval_has t) openings \<and> \<not> list_ex (interval_has t) breaks"
    by (auto simp: cut_pieces_covers span_has_def interval_has_def list_ex_iff)
qed

section \<open>Facts: wall clocks and instants\<close>

definition local_of :: "zone \<Rightarrow> instant \<Rightarrow> int" where
  "local_of z t = wall (astimezone z t)"

lemma local_of_eq: "local_of z t = t + offset_at z t"
  by (simp add: local_of_def)

lemma local_readings_iff:
  assumes "zone_spaced z"
  shows "t \<in> set (local_readings w z) \<longleftrightarrow> local_of z t = w"
proof
  show "t \<in> set (local_readings w z) \<Longrightarrow> local_of z t = w"
    by (auto simp: local_readings_def local_of_def split: if_splits)
next
  assume w: "local_of z t = w"
  then have "w = t + offset_at z t" by (simp add: local_of_eq)
  then obtain fold1 where "local_instant z fold1 w = t"
    using offset_local_complete [OF assms, of t] by blast
  then show "t \<in> set (local_readings w z)"
    using w by (cases fold1) (auto simp: local_readings_def local_of_def)
qed

lemma resolve_boundary_member:
  assumes "resolve_local_boundary w z opening = Inr c"
  shows "local_of z (utc c) = w \<and> wall c = w \<and> aware c"
proof -
  have "c \<in> set (valid_local_candidates w z)"
    using assms last_in_set
    by (fastforce simp: resolve_local_boundary_def split: list.splits if_splits)
  then obtain t where "t \<in> set (local_readings w z)" "c = DT w (Some (w - t))"
    by (auto simp: valid_local_candidates_def)
  then show ?thesis
    by (auto simp: local_readings_def local_of_def utc_def aware_def split: if_splits)
qed

text \<open>An opening boundary is the earliest instant that shows the wall clock.\<close>

lemma resolve_opening_earliest:
  assumes "zone_spaced z" and "resolve_local_boundary w z True = Inr c" and "local_of z t = w"
  shows "utc c \<le> t"
proof -
  let ?ts = "sort (remdups (local_readings w z))"
  have t: "t \<in> set ?ts" using local_readings_iff [OF assms(1)] assms(3) by simp
  then obtain u us where us: "?ts = u # us" by (cases ?ts) auto
  then have "c = DT w (Some (w - u))"
    using assms(2) by (simp add: resolve_local_boundary_def valid_local_candidates_def)
  then have "utc c = u" by (simp add: utc_def)
  moreover have "sorted (u # us)" using us sorted_sort by metis
  ultimately show ?thesis using t us by auto
qed

text \<open>The wall clock never goes back behind the clock at the last transition.\<close>

lemma local_after_transition:
  "\<lbrakk> spaced off ((u, off') # ts); u \<le> t \<rbrakk> \<Longrightarrow> u + off' \<le> t + offset_at_from off' ts t"
proof (cases ts)
  case (Cons q rest)
  assume sp: "spaced off ((u, off') # ts)" and ut: "u \<le> t"
  obtain v off'' where q: "q = (v, off'')" by (cases q)
  show ?thesis
  proof (cases "v \<le> t")
    case True
    have "v + min off' off'' \<le> t + offset_at_from off'' rest t"
      using spaced_lower [of off' v off'' rest t] sp True by (simp add: Cons q)
    moreover have "u + max off off' \<le> v + min off' off''" using sp by (simp add: Cons q)
    moreover have "off' \<le> max off off'" by simp
    ultimately show ?thesis using True by (simp add: Cons q)
  qed (use ut in \<open>simp add: Cons q\<close>)
qed simp

lemma earlier_reading_from:
  "\<lbrakk> spaced off ts; t2 + offset_at_from off ts t2 > t1 + offset_at_from off ts t1; t2 \<le> t1 \<rbrakk>
   \<Longrightarrow> \<exists>t0 < t2. t0 + offset_at_from off ts t0 = t1 + offset_at_from off ts t1"
proof (induction ts arbitrary: off)
  case (Cons p ts)
  obtain u off' where p: "p = (u, off')" by (cases p)
  let ?w1 = "t1 + offset_at_from off (p # ts) t1"
  show ?case
  proof (cases "u \<le> t2")
    case False
    have "?w1 - off < t2" using Cons.prems(2) False by (simp add: p)
    then show ?thesis using False by (intro exI [of _ "?w1 - off"]) (simp add: p)
  next
    case True
    then have u1: "u \<le> t1" using Cons.prems(3) by simp
    obtain t0 where t0: "t0 < t2" "t0 + offset_at_from off' ts t0 = t1 + offset_at_from off' ts t1"
      using Cons.IH [of off'] Cons.prems True u1 spaced_Cons by (auto simp: p)
    have "u \<le> t0"
    proof (rule ccontr)
      assume "\<not> u \<le> t0"
      have "t0 + offset_at_from off' ts t0 < u + off'"
      proof (cases ts)
        case (Cons q rest)
        obtain v off'' where "q = (v, off'')" by (cases q)
        then show ?thesis using Cons \<open>\<not> u \<le> t0\<close> Cons.prems(1) by (simp add: p)
      qed (use \<open>\<not> u \<le> t0\<close> in simp)
      moreover have "u + off' \<le> t1 + offset_at_from off' ts t1"
        using local_after_transition [of off u off' ts t1] Cons.prems(1) u1 by (simp add: p)
      ultimately show False using t0(2) by simp
    qed
    then show ?thesis using t0 True u1 by (intro exI [of _ t0]) (simp add: p)
  qed
qed auto

lemma opening_strict_mono:
  assumes z: "zone_spaced z" and c1: "resolve_local_boundary w1 z True = Inr c1"
    and c2: "resolve_local_boundary w2 z True = Inr c2" and less: "w1 < w2"
  shows "utc c1 < utc c2"
proof (rule ccontr)
  assume "\<not> utc c1 < utc c2"
  moreover have l: "local_of z (utc c1) = w1" "local_of z (utc c2) = w2"
    using resolve_boundary_member [OF c1] resolve_boundary_member [OF c2] by simp_all
  ultimately obtain t0 where "t0 < utc c2" "local_of z t0 = w1"
    using earlier_reading_from [of "z_initial z" "z_transitions z" "utc c1" "utc c2"] z less
    by (auto simp: local_of_eq offset_at_def zone_spaced_def)
  then show False
    using resolve_opening_earliest [OF z c1, of t0] \<open>\<not> utc c1 < utc c2\<close> by simp
qed

section \<open>Facts: the response deadline counts business time\<close>

text \<open>The windows of business time of a day: from the first opening reading to the last closing one.\<close>

definition window_of :: "zone \<Rightarrow> date \<Rightarrow> span \<Rightarrow> instant \<times> instant" where
  "window_of z d sp =
     (case (resolve_local_boundary (combine d (fst sp)) z True,
            resolve_local_boundary (combine d (snd sp)) z False) of
        (Inr a, Inr b) \<Rightarrow> (utc a, utc b)
      | _ \<Rightarrow> (0, 0))"

definition day_windows :: "business_schedule \<Rightarrow> date \<Rightarrow> (instant \<times> instant) list" where
  "day_windows sched d = (case effective_day_of sched d of Inl _ \<Rightarrow> []
     | Inr day \<Rightarrow> map (window_of (bs_zone sched) d) (ed_intervals day))"

text \<open>The business instants from a date on, up to a horizon in days.\<close>

definition business_instants :: "business_schedule \<Rightarrow> date \<Rightarrow> int \<Rightarrow> instant set" where
  "business_instants sched d0 horizon =
     {t. \<exists>k \<in> {0..horizon}. \<exists>(a, b) \<in> set (day_windows sched (d0 + k)). a \<le> t \<and> t < b}"

text \<open>The schedule's times are times of day and its intervals are not empty.\<close>

definition schedule_proper :: "business_schedule \<Rightarrow> bool" where
  "schedule_proper s = (list_all proper_interval (bs_intervals s)
     \<and> list_all (\<lambda>ov. list_all proper_interval (so_intervals ov)) (bs_overrides s)
     \<and> zone_spaced (bs_zone s))"

fun windows_cover :: "(instant \<times> instant) list \<Rightarrow> instant set" where
  "windows_cover [] = {}"
| "windows_cover ((a, b) # ws) = {a..<b} \<union> windows_cover ws"

lemma windows_cover_append [simp]: "windows_cover (ws @ vs) = windows_cover ws \<union> windows_cover vs"
  by (induction ws rule: windows_cover.induct) auto

lemma windows_cover_iff: "t \<in> windows_cover ws \<longleftrightarrow> (\<exists>(a, b) \<in> set ws. a \<le> t \<and> t < b)"
  by (induction ws rule: windows_cover.induct) auto

text \<open>The two loops as one pass over a list of windows.\<close>

fun consume :: "instant \<Rightarrow> timedelta \<Rightarrow> (instant \<times> instant) list \<Rightarrow> instant + instant \<times> timedelta" where
  "consume cursor remaining [] = Inr (cursor, remaining)"
| "consume cursor remaining ((a, b) # ws) =
     (let from = max cursor a in
      if b \<le> from then consume cursor remaining ws
      else if remaining \<le> b - from then Inl (from + remaining)
      else consume b (remaining - (b - from)) ws)"

lemma consume_append:
  "consume c r (ws @ vs) = (case consume c r ws of Inl due \<Rightarrow> Inl due | Inr (c', r') \<Rightarrow> consume c' r' vs)"
  by (induction c r ws rule: consume.induct) (auto simp: Let_def)

lemma card_split_at:
  fixes c m d :: int
  assumes "c \<le> m" and "m \<le> d"
  shows "card ({c..<d} \<inter> S) = card ({c..<m} \<inter> S) + card ({m..<d} \<inter> S)"
proof -
  have "{c..<d} \<inter> S = ({c..<m} \<inter> S) \<union> ({m..<d} \<inter> S)" using assms by auto
  then show ?thesis by (simp add: card_Un_disjoint disjoint_iff)
qed

lemma windows_cover_ge: "\<lbrakk> \<forall>w \<in> set ws. a \<le> fst w; t \<in> windows_cover ws \<rbrakk> \<Longrightarrow> a \<le> t"
  by (auto simp: windows_cover_iff)

lemma covered_prefix:
  assumes "c \<le> b" and "max c a < b" and "\<forall>w \<in> set ws. a \<le> fst w"
  shows "card ({c..<b} \<inter> windows_cover ((a, b) # ws)) = nat (b - max c a)"
proof -
  have "{c..<b} \<inter> windows_cover ((a, b) # ws) = {max c a..<b}"
    using assms windows_cover_ge [of ws a] by (auto simp: max_def split: if_splits)
  then show ?thesis by simp
qed

lemma consume_due:
  "\<lbrakk> consume c r ws = Inl due; sorted (map fst ws); \<forall>w \<in> set ws. fst w < snd w; 0 < r \<rbrakk>
   \<Longrightarrow> c < due \<and> card ({c..<due} \<inter> windows_cover ws) = nat r \<and> due - 1 \<in> windows_cover ws"
proof (induction c r ws rule: consume.induct)
  case (2 c r a b ws)
  let ?from = "max c a"
  have ge: "\<forall>w \<in> set ws. a \<le> fst w" and ab: "a < b" using "2.prems" by auto
  have tail: "sorted (map fst ws)" "\<forall>w \<in> set ws. fst w < snd w" using "2.prems" by auto
  consider (skip) "b \<le> ?from" | (last) "\<not> b \<le> ?from" "r \<le> b - ?from" | (more) "\<not> b \<le> ?from" "\<not> r \<le> b - ?from"
    by blast
  then show ?case
  proof cases
    case skip
    then have "{c..<due} \<inter> windows_cover ((a, b) # ws) = {c..<due} \<inter> windows_cover ws"
      using ab by auto
    then show ?thesis using 2 skip tail by (auto simp: Let_def)
  next
    case last
    then have due: "due = ?from + r" using "2.prems"(1) by (simp add: Let_def)
    have "{c..<due} \<inter> windows_cover ((a, b) # ws) = {?from..<due}"
      using last due windows_cover_ge [OF ge] by (auto simp: max_def split: if_splits)
    moreover have "due - 1 \<in> {a..<b}" using last due "2.prems"(4) by auto
    ultimately show ?thesis using due "2.prems"(4) by simp
  next
    case more
    have rec: "consume b (r - (b - ?from)) ws = Inl due" using "2.prems"(1) more by (simp add: Let_def)
    have IH: "b < due \<and> card ({b..<due} \<inter> windows_cover ws) = nat (r - (b - ?from))
        \<and> due - 1 \<in> windows_cover ws"
      using "2.IH"(2) [OF refl more(1) more(2) rec tail] more by simp
    have "{b..<due} \<inter> windows_cover ((a, b) # ws) = {b..<due} \<inter> windows_cover ws" by auto
    moreover have "c \<le> b" "max c a < b" using more(1) by auto
    ultimately have "card ({c..<due} \<inter> windows_cover ((a, b) # ws))
        = nat (b - ?from) + nat (r - (b - ?from))"
      using card_split_at [of c b due "windows_cover ((a, b) # ws)"]
        covered_prefix [of c b a ws] ge IH by simp
    moreover have "nat (b - ?from) + nat (r - (b - ?from)) = nat r" using more by auto
    ultimately show ?thesis using IH more(1) by auto
  qed
qed simp

lemma consume_rest:
  "\<lbrakk> consume c r ws = Inr (c', r'); sorted (map fst ws); \<forall>w \<in> set ws. fst w < snd w; 0 < r \<rbrakk>
   \<Longrightarrow> 0 < r' \<and> r' \<le> r \<and> card ({c..} \<inter> windows_cover ws) = nat (r - r')"
proof (induction c r ws rule: consume.induct)
  case (2 c r a b ws)
  let ?from = "max c a"
  have ge: "\<forall>w \<in> set ws. a \<le> fst w" and ab: "a < b" using "2.prems" by auto
  have tail: "sorted (map fst ws)" "\<forall>w \<in> set ws. fst w < snd w" using "2.prems" by auto
  have fin: "finite ({b..} \<inter> windows_cover ws)"
  proof -
    have "finite (windows_cover ws)" by (induction ws rule: windows_cover.induct) auto
    then show ?thesis by simp
  qed
  consider (skip) "b \<le> ?from" | (last) "\<not> b \<le> ?from" "r \<le> b - ?from" | (more) "\<not> b \<le> ?from" "\<not> r \<le> b - ?from"
    by blast
  then show ?case
  proof cases
    case skip
    then have "{c..} \<inter> windows_cover ((a, b) # ws) = {c..} \<inter> windows_cover ws"
      using ab by auto
    then show ?thesis using 2 skip tail by (auto simp: Let_def)
  next
    case last
    then show ?thesis using "2.prems"(1) by (simp add: Let_def)
  next
    case more
    have rec: "consume b (r - (b - ?from)) ws = Inr (c', r')" using "2.prems"(1) more by (simp add: Let_def)
    have IH: "0 < r' \<and> r' \<le> r - (b - ?from) \<and>
        card ({b..} \<inter> windows_cover ws) = nat (r - (b - ?from) - r')"
      using "2.IH"(2) [OF refl more(1) more(2) rec tail] more by simp
    have "{c..} \<inter> windows_cover ((a, b) # ws)
        = ({c..<b} \<inter> windows_cover ((a, b) # ws)) \<union> ({b..} \<inter> windows_cover ws)"
      using more(1) by auto
    moreover have "({c..<b} \<inter> windows_cover ((a, b) # ws)) \<inter> ({b..} \<inter> windows_cover ws) = {}"
      by auto
    moreover have "c \<le> b" "max c a < b" using more(1) by auto
    ultimately have "card ({c..} \<inter> windows_cover ((a, b) # ws))
        = nat (b - ?from) + nat (r - (b - ?from) - r')"
      using IH covered_prefix [of c b a ws] ge fin by (simp add: card_Un_disjoint)
    moreover have "nat (b - ?from) + nat (r - (b - ?from) - r') = nat (r - r')"
      using IH more(1) by linarith
    ultimately show ?thesis using IH more(1) by auto
  qed
qed simp

lemma effective_day_cases:
  assumes "effective_day_of sched d = Inr day" and "schedule_proper sched"
  shows "sorted_wrt (\<lambda>a b. snd a \<le> fst b) (ed_intervals day)"
    and "sp \<in> set (ed_intervals day) \<Longrightarrow>
      fst sp < snd sp \<and> valid_time (fst sp) \<and> valid_time (snd sp) \<and> check_elapsed (bs_zone sched) d sp = Inr ()"
proof -
  from assms(1) obtain ov_opt where ov: "override_for sched d = Inr ov_opt"
    by (auto simp: effective_day_of_def split: sum.splits)
  let ?cands = "case ov_opt of Some ov \<Rightarrow> so_intervals ov
    | None \<Rightarrow> filter (\<lambda>i. si_weekday i = weekday d) (bs_intervals sched)"
  have ov_in: "ov \<in> set (bs_overrides sched)" if "ov_opt = Some ov" for ov
  proof -
    have "filter (\<lambda>v. applies_on v d) (bs_overrides sched) = [ov]"
      using ov that by (auto simp: override_for_def Let_def split: list.splits)
    then have "ov \<in> set (filter (\<lambda>v. applies_on v d) (bs_overrides sched))" by simp
    then show ?thesis by simp
  qed
  have proper: "\<forall>i \<in> set ?cands. proper_interval i"
    using assms(2) ov_in by (auto simp: schedule_proper_def list_all_iff split: option.splits)
  consider "ed_intervals day = []"
    | "subtract_breaks (filter (\<lambda>i. si_interval_type i = OPEN) ?cands)
         (filter (\<lambda>i. si_interval_type i = BREAK) ?cands) = Inr (ed_intervals day)"
      "\<exists>us. res_map (check_elapsed (bs_zone sched) d) (ed_intervals day) = Inr us"
    using assms(1) ov
    by (auto simp: effective_day_of_def Let_def res_bind_Inr_iff split: if_splits option.splits)
  note cases = this
  show "sorted_wrt (\<lambda>a b. snd a \<le> fst b) (ed_intervals day)"
    using cases
  proof cases
    case 2
    show ?thesis by (rule subtract_breaks_spec(1) [OF 2(1)]) (use proper in auto)
  qed simp
  show "fst sp < snd sp \<and> valid_time (fst sp) \<and> valid_time (snd sp) \<and> check_elapsed (bs_zone sched) d sp = Inr ()"
    if "sp \<in> set (ed_intervals day)"
    using cases
  proof cases
    case 2
    have "fst sp < snd sp \<and> valid_time (fst sp) \<and> valid_time (snd sp)"
      by (rule subtract_breaks_spec(2) [OF 2(1)]) (use proper that in auto)
    moreover have "check_elapsed (bs_zone sched) d sp = Inr ()"
      using 2(2) that by (auto simp: res_map_Inr list_all2_conv_all_nth in_set_conv_nth)
    ultimately show ?thesis by simp
  qed (use that in simp)
qed

lemma check_elapsed_window:
  assumes "check_elapsed z d sp = Inr ()"
  shows "\<exists>a b. resolve_local_boundary (combine d (fst sp)) z True = Inr a
    \<and> resolve_local_boundary (combine d (snd sp)) z False = Inr b
    \<and> window_of z d sp = (utc a, utc b) \<and> utc a < utc b"
  using assms by (auto simp: check_elapsed_def window_of_def res_bind_Inr_iff split: if_splits)

lemma consume_day_eq:
  assumes "\<forall>sp \<in> set ivs. check_elapsed z d sp = Inr ()"
  shows "consume_day z d c r ivs = Inr (consume c r (map (window_of z d) ivs))"
  using assms
proof (induction ivs arbitrary: c r)
  case (Cons sp ivs)
  obtain a b where "resolve_local_boundary (combine d (fst sp)) z True = Inr a"
    "resolve_local_boundary (combine d (snd sp)) z False = Inr b" "window_of z d sp = (utc a, utc b)"
    using check_elapsed_window [of z d sp] Cons.prems by auto
  then show ?case using Cons by (cases sp) (auto simp: Let_def)
qed simp

lemma consume_days_eq:
  assumes "schedule_proper sched"
    and "\<forall>k \<in> set ks. is_ok (effective_day_of sched (d0 + k))"
  shows "consume_days sched d0 c r ks
    = (case consume c r (concat (map (\<lambda>k. day_windows sched (d0 + k)) ks)) of
         Inl due \<Rightarrow> Inr due
       | Inr _ \<Rightarrow> Inl (InvalidScheduleError ''No business-hours response deadline exists within the horizon''))"
  using assms(2)
proof (induction ks arbitrary: c r)
  case (Cons k ks)
  obtain day where day: "effective_day_of sched (d0 + k) = Inr day"
    using Cons.prems by (auto simp: is_ok_iff)
  have "consume_day (bs_zone sched) (d0 + k) c r (ed_intervals day)
      = Inr (consume c r (day_windows sched (d0 + k)))"
    using consume_day_eq effective_day_cases(2) [OF day assms(1)] day
    by (simp add: day_windows_def)
  then show ?case
    using Cons day by (auto simp: consume_append split: sum.splits)
qed simp

text \<open>A run that finds a deadline may stop before a day the engine cannot evaluate.\<close>

lemma consume_days_prefix:
  assumes "schedule_proper sched" and "consume_days sched d0 c r ks = Inr due"
  shows "\<exists>m. m \<le> length ks \<and> (\<forall>k \<in> set (take m ks). is_ok (effective_day_of sched (d0 + k)))
    \<and> consume c r (concat (map (\<lambda>k. day_windows sched (d0 + k)) (take m ks))) = Inl due"
  using assms(2)
proof (induction ks arbitrary: c r)
  case (Cons k ks)
  obtain day where day: "effective_day_of sched (d0 + k) = Inr day"
    using Cons.prems by (auto simp: res_bind_Inr_iff)
  have eq: "consume_day (bs_zone sched) (d0 + k) c r (ed_intervals day)
      = Inr (consume c r (day_windows sched (d0 + k)))"
    using consume_day_eq effective_day_cases(2) [OF day assms(1)] day
    by (simp add: day_windows_def)
  show ?case
  proof (cases "consume c r (day_windows sched (d0 + k))")
    case (Inl due')
    then show ?thesis using Cons.prems day eq by (intro exI [of _ 1]) simp
  next
    case (Inr p)
    obtain c' r' where p: "p = (c', r')" by (cases p)
    then have "consume_days sched d0 c' r' ks = Inr due"
      using Cons.prems day eq Inr by simp
    then obtain m where m: "m \<le> length ks" "\<forall>k \<in> set (take m ks). is_ok (effective_day_of sched (d0 + k))"
      "consume c' r' (concat (map (\<lambda>k. day_windows sched (d0 + k)) (take m ks))) = Inl due"
      using Cons.IH by blast
    then show ?thesis using day Inr p
      by (intro exI [of _ "Suc m"]) (simp add: consume_append)
  qed
qed simp

lemma day_windows_proper:
  assumes "schedule_proper sched" and "w \<in> set (day_windows sched d)"
  shows "fst w < snd w"
proof -
  obtain day where d: "effective_day_of sched d = Inr day"
    using assms(2) by (cases "effective_day_of sched d") (auto simp: day_windows_def)
  then obtain sp where day: "effective_day_of sched d = Inr day" "sp \<in> set (ed_intervals day)"
    "w = window_of (bs_zone sched) d sp"
    using assms(2) by (auto simp: day_windows_def)
  then show ?thesis
    using check_elapsed_window [of "bs_zone sched" d sp] effective_day_cases(2) [OF day(1) assms(1) day(2)]
    by auto
qed

text \<open>The opening wall clocks of the days from a date on, and that they ascend.\<close>

definition day_openings_at :: "business_schedule \<Rightarrow> date \<Rightarrow> int list" where
  "day_openings_at sched d = (case effective_day_of sched d of Inl _ \<Rightarrow> []
     | Inr day \<Rightarrow> map (\<lambda>sp. combine d (fst sp)) (ed_intervals day))"

lemma day_windows_openings:
  assumes "schedule_proper sched"
  shows "list_all2 (\<lambda>w o1. \<exists>c. resolve_local_boundary o1 (bs_zone sched) True = Inr c \<and> fst w = utc c)
    (day_windows sched d) (day_openings_at sched d)"
proof (cases "effective_day_of sched d")
  case (Inr day)
  have "\<exists>c. resolve_local_boundary (combine d (fst sp)) (bs_zone sched) True = Inr c
      \<and> fst (window_of (bs_zone sched) d sp) = utc c"
    if "sp \<in> set (ed_intervals day)" for sp
    using check_elapsed_window [of "bs_zone sched" d sp] effective_day_cases(2) [OF Inr assms that] by auto
  then show ?thesis
    by (simp add: day_windows_def day_openings_at_def Inr list_all2_map1 list_all2_map2 list.rel_refl_strong)
qed (simp add: day_windows_def day_openings_at_def)

lemma day_openings_sorted:
  assumes "schedule_proper sched"
  shows "sorted_wrt (<) (day_openings_at sched d)"
    and "o1 \<in> set (day_openings_at sched d) \<Longrightarrow> combine d 0 \<le> o1 \<and> o1 < combine (d + 1) 0"
proof -
  show "sorted_wrt (<) (day_openings_at sched d)"
  proof (cases "effective_day_of sched d")
    case (Inr day)
    have "sorted_wrt (\<lambda>a b. fst a < fst b) (ed_intervals day)"
      by (rule sorted_wrt_mono_rel [OF _ effective_day_cases(1) [OF Inr assms]])
        (use effective_day_cases(2) [OF Inr assms] in force)
    then show ?thesis by (simp add: day_openings_at_def Inr sorted_wrt_map combine_def)
  qed (simp add: day_openings_at_def)
  show "combine d 0 \<le> o1 \<and> o1 < combine (d + 1) 0" if o1: "o1 \<in> set (day_openings_at sched d)"
  proof -
    obtain day where d: "effective_day_of sched d = Inr day"
      using o1 by (cases "effective_day_of sched d") (auto simp: day_openings_at_def)
    then obtain sp where sp: "sp \<in> set (ed_intervals day)" "o1 = combine d (fst sp)"
      using o1 by (auto simp: day_openings_at_def)
    then have "valid_time (fst sp)" using effective_day_cases(2) [OF d assms] by blast
    then show ?thesis using sp by (simp add: combine_def valid_time_def algebra_simps)
  qed
qed

lemma days_openings_sorted:
  assumes "schedule_proper sched" and "sorted_wrt (<) (ks :: int list)"
  shows "sorted_wrt (<) (concat (map (\<lambda>k. day_openings_at sched (d0 + k)) ks))"
  using assms(2)
proof (induction ks)
  case (Cons k ks)
  have "a < b" if "a \<in> set (day_openings_at sched (d0 + k))" "j \<in> set ks"
    "b \<in> set (day_openings_at sched (d0 + j))" for a b j
  proof -
    have "a < combine (d0 + k + 1) 0" "combine (d0 + j) 0 \<le> b"
      using day_openings_sorted(2) [OF assms(1)] that by auto
    moreover have "k + 1 \<le> j" using Cons.prems that(2) by auto
    ultimately show ?thesis by (simp add: combine_def day_us_def)
  qed
  then show ?case
    using Cons day_openings_sorted(1) [OF assms(1)] by (auto simp: sorted_wrt_append)
qed simp

lemma list_all2_member: "list_all2 P xs ys \<Longrightarrow> x \<in> set xs \<Longrightarrow> \<exists>y \<in> set ys. P x y"
  by (induction rule: list_all2_induct) auto

lemma days_windows_sorted:
  assumes "schedule_proper sched" and "sorted_wrt (<) ks"
  shows "sorted (map fst (concat (map (\<lambda>k. day_windows sched (d0 + k)) ks)))"
proof -
  let ?ws = "concat (map (\<lambda>k. day_windows sched (d0 + k)) ks)"
  let ?os = "concat (map (\<lambda>k. day_openings_at sched (d0 + k)) ks)"
  let ?P = "\<lambda>w o1. \<exists>c. resolve_local_boundary o1 (bs_zone sched) True = Inr c \<and> fst w = utc c"
  have all2: "list_all2 ?P ?ws ?os"
    by (induction ks) (auto intro: list_all2_appendI day_windows_openings [OF assms(1)])
  have "sorted_wrt (<) ?os" by (rule days_openings_sorted [OF assms])
  with all2 have "sorted_wrt (<) (map fst ?ws)"
  proof (induction rule: list_all2_induct)
    case (Cons w ws o1 os)
    have "fst w < fst v" if v: "v \<in> set ws" for v
    proof -
      obtain o2 where "o2 \<in> set os" "?P v o2"
        using list_all2_member [OF Cons.hyps(2) v] by blast
      then show ?thesis
        using Cons.hyps(1) Cons.prems opening_strict_mono [of "bs_zone sched" o1 _ o2] assms(1)
        by (auto simp: schedule_proper_def)
    qed
    then show ?case using Cons by simp
  qed simp
  then show ?thesis by (rule strict_sorted_imp_sorted)
qed

lemma business_instants_eq:
  "t \<in> business_instants sched d0 h
   \<longleftrightarrow> t \<in> windows_cover (concat (map (\<lambda>k. day_windows sched (d0 + k)) [0..h]))"
  by (force simp: business_instants_def windows_cover_iff)

section \<open>Facts: the next opening is the first\<close>

lemma opening_not_after_now:
  assumes z: "zone_spaced z" and c: "resolve_local_boundary w z True = Inr c" and le: "w \<le> local_of z t"
  shows "utc c \<le> t"
proof (rule ccontr)
  assume late: "\<not> utc c \<le> t"
  have l: "local_of z (utc c) = w" using resolve_boundary_member [OF c] by simp
  show False
  proof (cases "w = local_of z t")
    case True
    then show ?thesis using resolve_opening_earliest [OF z c, of t] late by simp
  next
    case False
    then obtain t0 where "t0 < t" "local_of z t0 = w"
      using earlier_reading_from [of "z_initial z" "z_transitions z" "utc c" t] z l le late
      by (auto simp: local_of_eq offset_at_def zone_spaced_def)
    then show ?thesis using resolve_opening_earliest [OF z c, of t0] late by simp
  qed
qed

lemma first_opening_in_spec:
  assumes "first_opening_in z d today now_time at_utc ivs = Inr r"
    and "\<And>sp. sp \<in> set ivs \<Longrightarrow> check_elapsed z d sp = Inr ()"
    and "\<And>sp c. \<lbrakk> sp \<in> set ivs; today; fst sp \<le> now_time;
           resolve_local_boundary (combine d (fst sp)) z True = Inr c \<rbrakk> \<Longrightarrow> utc c \<le> at_utc"
  shows "case r of None \<Rightarrow> \<forall>sp \<in> set ivs. fst (window_of z d sp) \<le> at_utc
    | Some c \<Rightarrow> at_utc < utc c \<and> (\<exists>pre sp post. ivs = pre @ sp # post \<and> fst (window_of z d sp) = utc c
        \<and> (\<forall>sp' \<in> set pre. fst (window_of z d sp') \<le> at_utc))"
  using assms
proof (induction ivs)
  case (Cons sp ivs)
  obtain a where a: "resolve_local_boundary (combine d (fst sp)) z True = Inr a"
    "fst (window_of z d sp) = utc a"
    using check_elapsed_window [of z d sp] Cons.prems(2) by auto
  have found: "case r of None \<Rightarrow> \<forall>sp \<in> set ivs. fst (window_of z d sp) \<le> at_utc
      | Some c \<Rightarrow> at_utc < utc c \<and> (\<exists>pre sp post. ivs = pre @ sp # post \<and> fst (window_of z d sp) = utc c
          \<and> (\<forall>sp' \<in> set pre. fst (window_of z d sp') \<le> at_utc))"
    if "first_opening_in z d today now_time at_utc ivs = Inr r"
  proof (rule Cons.IH [OF that])
    show "check_elapsed z d q = Inr ()" if "q \<in> set ivs" for q
      using Cons.prems(2) [of q] that by simp
    show "utc c \<le> at_utc" if "q \<in> set ivs" today "fst q \<le> now_time"
      "resolve_local_boundary (combine d (fst q)) z True = Inr c" for q c
      using Cons.prems(3) [of q c] that by simp
  qed
  show ?case
  proof (cases "utc a \<le> at_utc")
    case True
    then have "first_opening_in z d today now_time at_utc ivs = Inr r"
      using Cons.prems(1) a by (cases sp) (auto split: if_splits)
    note f = found [OF this]
    show ?thesis
    proof (cases r)
      case (Some c)
      then obtain pre q post where "ivs = pre @ q # post" "fst (window_of z d q) = utc c"
        "\<forall>sp' \<in> set pre. fst (window_of z d sp') \<le> at_utc" "at_utc < utc c"
        using f by auto
      then show ?thesis
        using True a Some
        by (simp only: option.case, intro conjI, simp, intro exI [of _ "sp # pre"] exI [of _ q] exI [of _ post]) simp
    qed (use f True a in simp)
  next
    case False
    then have "\<not> (today \<and> fst sp \<le> now_time)" using Cons.prems(3) [of sp a] a by auto
    then have "r = Some a" using Cons.prems(1) a False by (cases sp) auto
    then show ?thesis using False a
      by (simp only: option.case, intro conjI, simp, intro exI [of _ "[]"] exI [of _ sp] exI [of _ ivs]) simp
  qed
qed auto

definition opens_within :: "business_schedule \<Rightarrow> date \<Rightarrow> int list \<Rightarrow> instant set" where
  "opens_within sched d0 ks = (\<Union>k \<in> set ks. fst ` set (day_windows sched (d0 + k)))"

lemma search_openings_spec:
  assumes "schedule_proper sched" and "search_openings sched (astimezone (bs_zone sched) t) t ks = Inr r"
    and "sorted_wrt (<) ks" and "\<forall>k \<in> set ks. 0 \<le> k"
  shows "case r of
      None \<Rightarrow> \<forall>u \<in> opens_within sched (wall_date (local_of (bs_zone sched) t)) ks. u \<le> t
    | Some (c, k) \<Rightarrow> k \<in> set ks \<and> t < utc c
        \<and> utc c \<in> opens_within sched (wall_date (local_of (bs_zone sched) t)) [k]
        \<and> (\<forall>u \<in> opens_within sched (wall_date (local_of (bs_zone sched) t)) (filter (\<lambda>j. j \<le> k) ks).
              t < u \<longrightarrow> utc c \<le> u)"
  using assms(2-4)
proof (induction ks)
  case (Cons k ks)
  let ?z = "bs_zone sched" and ?d0 = "wall_date (local_of (bs_zone sched) t)"
  let ?now = "wall_time (local_of (bs_zone sched) t)"
  obtain day where day: "effective_day_of sched (?d0 + k) = Inr day"
    using Cons.prems(1) by (cases "effective_day_of sched (?d0 + k)") (auto simp: Let_def local_of_def)
  obtain fnd where fnd: "first_opening_in ?z (?d0 + k) (k = 0) ?now t (ed_intervals day) = Inr fnd"
    using Cons.prems(1) day by (auto simp: Let_def local_of_def res_bind_Inr_iff)
  have wins: "day_windows sched (?d0 + k) = map (window_of ?z (?d0 + k)) (ed_intervals day)"
    by (simp add: day_windows_def day)
  have skip: "utc c \<le> t" if "sp \<in> set (ed_intervals day)" "k = 0" "fst sp \<le> ?now"
    "resolve_local_boundary (combine (?d0 + k) (fst sp)) ?z True = Inr c" for sp c
  proof (rule opening_not_after_now [OF _ that(4)])
    have "combine (?d0 + k) (fst sp) \<le> combine ?d0 ?now" using that by (simp add: combine_def)
    then show "combine (?d0 + k) (fst sp) \<le> local_of ?z t" by simp
  qed (use assms(1) in \<open>simp add: schedule_proper_def\<close>)
  have spec: "case fnd of None \<Rightarrow> \<forall>sp \<in> set (ed_intervals day). fst (window_of ?z (?d0 + k) sp) \<le> t
    | Some c \<Rightarrow> t < utc c \<and> (\<exists>pre sp post. ed_intervals day = pre @ sp # post
        \<and> fst (window_of ?z (?d0 + k) sp) = utc c \<and> (\<forall>sp' \<in> set pre. fst (window_of ?z (?d0 + k) sp') \<le> t))"
    by (rule first_opening_in_spec [OF fnd]) (use effective_day_cases(2) [OF day assms(1)] skip in auto)
  show ?case
  proof (cases fnd)
    case None
    then have none: "\<forall>u \<in> opens_within sched ?d0 [k]. u \<le> t"
      using spec by (auto simp: opens_within_def wins)
    have "search_openings sched (astimezone ?z t) t ks = Inr r"
      using Cons.prems(1) day fnd None by (simp add: Let_def local_of_def)
    note IH = Cons.IH [OF this]
    have split: "opens_within sched ?d0 (k # js) = opens_within sched ?d0 [k] \<union> opens_within sched ?d0 js" for js
      by (simp add: opens_within_def)
    show ?thesis
    proof (cases r)
      case None
      then show ?thesis using IH Cons.prems(2,3) none split [of ks] by auto
    next
      case (Some p)
      obtain c j where p: "p = (c, j)" by (cases p)
      have j: "j \<in> set ks" "t < utc c" "utc c \<in> opens_within sched ?d0 [j]"
        "\<forall>u \<in> opens_within sched ?d0 (filter (\<lambda>i. i \<le> j) ks). t < u \<longrightarrow> utc c \<le> u"
        using IH Cons.prems(2,3) Some p by auto
      have "k < j" using j(1) Cons.prems(2) by auto
      then have "filter (\<lambda>i. i \<le> j) (k # ks) = k # filter (\<lambda>i. i \<le> j) ks" by simp
      moreover have "utc c \<le> u" if "u \<in> opens_within sched ?d0 (k # filter (\<lambda>i. i \<le> j) ks)" "t < u" for u
      proof (cases "u \<in> opens_within sched ?d0 [k]")
        case True
        then show ?thesis using none that(2) by fastforce
      next
        case False
        then have "u \<in> opens_within sched ?d0 (filter (\<lambda>i. i \<le> j) ks)"
          using that(1) split [of "filter (\<lambda>i. i \<le> j) ks"] by blast
        then show ?thesis using j(4) that(2) by blast
      qed
      ultimately show ?thesis using j(1-3) Some p by simp
    qed
  next
    case (Some c)
    then have r: "r = Some (c, k)" using Cons.prems(1) day fnd by (simp add: Let_def local_of_def)
    from spec Some obtain pre sp post where sp: "ed_intervals day = pre @ sp # post"
      "fst (window_of ?z (?d0 + k) sp) = utc c" "t < utc c"
      "\<forall>sp' \<in> set pre. fst (window_of ?z (?d0 + k) sp') \<le> t" by auto
    have "sorted (map fst (concat (map (\<lambda>k. day_windows sched (?d0 + k)) [k])))"
      by (rule days_windows_sorted [OF assms(1)]) simp
    then have post: "\<forall>sp' \<in> set post. utc c \<le> fst (window_of ?z (?d0 + k) sp')"
      using sp(2) by (auto simp: wins sp(1) sorted_append)
    have "filter (\<lambda>j. j \<le> k) ks = []" using Cons.prems(2) by (auto simp: filter_empty_conv)
    moreover have "\<forall>u \<in> opens_within sched ?d0 [k]. t < u \<longrightarrow> utc c \<le> u"
      using sp(2,4) post by (auto simp: opens_within_def wins sp(1))
    moreover have "utc c \<in> opens_within sched ?d0 [k]"
      using sp(2) by (force simp: opens_within_def wins sp(1))
    ultimately show ?thesis using r sp(3) by simp
  qed
qed (simp add: opens_within_def)

section \<open>Properties\<close>

text \<open>
  An example the witnesses use: a schedule open 09:00 to 17:00 from Monday to Friday with a
  lunch break from 12:00 to 13:00, in a zone one hour ahead of UTC.
\<close>

definition example_zone :: zone where
  "example_zone = \<lparr>z_initial = 3600000000, z_transitions = []\<rparr>"

definition example_schedule :: business_schedule where
  "example_schedule = \<lparr>bs_id = ScheduleId 1, bs_tenant_id = TenantId 1, bs_name = ''Main'',
     bs_timezone = ''Europe/Example'',
     bs_intervals =
       [\<lparr>si_weekday = 0, si_start_local = 32400000000, si_end_local = 61200000000, si_interval_type = OPEN\<rparr>,
        \<lparr>si_weekday = 0, si_start_local = 43200000000, si_end_local = 46800000000, si_interval_type = BREAK\<rparr>,
        \<lparr>si_weekday = 1, si_start_local = 32400000000, si_end_local = 61200000000, si_interval_type = OPEN\<rparr>],
     bs_overrides = [], bs_active = True, bs_zone = example_zone\<rparr>"

lemma example_schedule_proper: "schedule_proper example_schedule"
  by (simp add: schedule_proper_def example_schedule_def example_zone_def zone_spaced_def
      proper_interval_def valid_time_def day_us_def)

text \<open>
  The effective day's intervals cover exactly the wall-clock times that an opening interval
  in force on that date covers and no break does; they are disjoint and in ascending order.
\<close>

theorem subtract_breaks_exact:
  assumes "subtract_breaks openings breaks = Inr ivs"
    and "\<forall>o1 \<in> set openings. proper_interval o1"
  shows "sorted_wrt (\<lambda>a b. snd a \<le> fst b) ivs \<and> (\<forall>sp \<in> set ivs. fst sp < snd sp) \<and>
    (\<forall>t. spans_cover ivs t \<longleftrightarrow> list_ex (interval_has t) openings \<and> \<not> list_ex (interval_has t) breaks)"
  using subtract_breaks_spec [OF assms] by blast

theorem subtract_breaks_exact_witness:
  "\<exists>ivs. subtract_breaks
       [\<lparr>si_weekday = 0, si_start_local = 9, si_end_local = 17, si_interval_type = OPEN\<rparr>]
       [\<lparr>si_weekday = 0, si_start_local = 12, si_end_local = 13, si_interval_type = BREAK\<rparr>] = Inr ivs
     \<and> ivs = [(9, 12), (13, 17)] \<and> sorted_wrt (\<lambda>a b. snd a \<le> fst b) ivs \<and> spans_cover ivs 10
     \<and> \<not> spans_cover ivs 12"
proof -
  let ?o = "[\<lparr>si_weekday = 0, si_start_local = 9, si_end_local = 17, si_interval_type = OPEN\<rparr>]"
  let ?b = "[\<lparr>si_weekday = 0, si_start_local = 12, si_end_local = 13, si_interval_type = BREAK\<rparr>]"
  have ev: "subtract_breaks ?o ?b = Inr [(9, 12), (13, 17)]"
    by (simp add: subtract_breaks_def cut_piece_def less_prod_def)
  have "\<forall>o1 \<in> set ?o. proper_interval o1"
    by (simp add: proper_interval_def valid_time_def day_us_def)
  from subtract_breaks_exact [OF ev this] show ?thesis
    using ev by (auto simp: interval_has_def)
qed

text \<open>
  C29. \<open>business_due_at\<close> returns the instant by which exactly the requested amount of business time
  has passed since the request: that many microseconds between the two are inside a business
  window of some day of the search horizon, and the last one before the deadline is.
\<close>

theorem business_due_at_exact:
  assumes "business_due_at sched at_time service_time horizon = Inr due"
    and "schedule_proper sched"
  shows "utc at_time < utc due \<and>
    card ({utc at_time..<utc due} \<inter> business_instants sched
      (wall_date (local_of (bs_zone sched) (utc at_time))) horizon) = nat service_time \<and>
    utc due - 1 \<in> business_instants sched
      (wall_date (local_of (bs_zone sched) (utc at_time))) horizon"
proof -
  let ?d0 = "wall_date (local_of (bs_zone sched) (utc at_time))"
  let ?win = "\<lambda>ks. concat (map (\<lambda>k. day_windows sched (?d0 + k)) ks)"
  from assms(1) have pos: "0 < service_time"
    and run: "consume_days sched ?d0 (utc at_time) service_time [0..horizon] = Inr (utc due)"
    by (auto simp: business_due_at_def res_bind_Inr_iff Let_def local_of_def split: if_splits)
  then obtain m where "consume (utc at_time) service_time (?win (take m [0..horizon])) = Inl (utc due)"
    using consume_days_prefix [OF assms(2) run] by blast
  then have "consume (utc at_time) service_time (?win (take m [0..horizon] @ drop m [0..horizon]))
      = Inl (utc due)"
    by (simp only: map_append concat_append consume_append) simp
  then have "consume (utc at_time) service_time (?win [0..horizon]) = Inl (utc due)" by simp
  moreover have "sorted (map fst (?win [0..horizon]))"
    by (rule days_windows_sorted [OF assms(2)]) (simp add: sorted_wrt_upto)
  moreover have "\<forall>w \<in> set (?win [0..horizon]). fst w < snd w"
    using day_windows_proper [OF assms(2)] by auto
  moreover have "windows_cover (?win [0..horizon]) = business_instants sched ?d0 horizon"
    using business_instants_eq by blast
  ultimately show ?thesis using consume_due pos by metis
qed

text \<open>Monday 2024-06-03 (ordinal 739040), 10:00 UTC: two business hours end at 13:00 local plus one.\<close>

lemma example_due:
  "business_due_at example_schedule (utc_datetime (739040 * 86400000000 + 36000000000)) 7200000000 5
   = Inr (utc_datetime (739040 * 86400000000 + 46800000000))"
  by code_simp

theorem business_due_at_exact_witness:
  "card ({739040 * 86400000000 + 36000000000..<739040 * 86400000000 + 46800000000}
     \<inter> business_instants example_schedule (wall_date (local_of (bs_zone example_schedule)
         (utc (utc_datetime (739040 * 86400000000 + 36000000000))))) 5) = nat 7200000000"
  using business_due_at_exact [OF example_due example_schedule_proper] by simp


text \<open>
  When a closed business reports a next opening, it is the first one: it lies after the request,
  it is an opening of the day it names, and no opening of that day or of a day searched before lies
  between. When it reports none, no searched day opens after the request.
\<close>

theorem next_opening_first:
  assumes "next_opening sched at_time horizon = Inr (False, found, loc, offset)"
    and "schedule_proper sched"
  shows "let d0 = wall_date (local_of (bs_zone sched) (utc at_time)) in
    0 \<le> offset \<and> offset \<le> horizon \<and>
    (case found of
       None \<Rightarrow> offset = horizon \<and> (\<forall>u \<in> opens_within sched d0 [0..horizon]. u \<le> utc at_time)
     | Some cand \<Rightarrow> utc at_time < utc cand \<and> utc cand \<in> opens_within sched d0 [offset] \<and>
         (\<forall>u \<in> opens_within sched d0 [0..offset]. u \<le> utc at_time \<or> utc cand \<le> u))"
proof -
  let ?loc = "astimezone (bs_zone sched) (utc at_time)"
  have hz: "1 \<le> horizon" using assms(1) by (simp add: next_opening_def split: if_splits)
  from assms(1) obtain r where r: "search_openings sched ?loc (utc at_time) [0..horizon] = Inr r"
    and res: "case r of None \<Rightarrow> found = None \<and> offset = horizon
                | Some (c, k) \<Rightarrow> found = Some c \<and> offset = k"
    by (auto simp: next_opening_def is_open_def res_bind_Inr_iff Let_def split: if_splits option.splits)
  have spec: "case r of
      None \<Rightarrow> \<forall>u \<in> opens_within sched (wall_date (local_of (bs_zone sched) (utc at_time))) [0..horizon]. u \<le> utc at_time
    | Some (c, k) \<Rightarrow> k \<in> set [0..horizon] \<and> utc at_time < utc c
        \<and> utc c \<in> opens_within sched (wall_date (local_of (bs_zone sched) (utc at_time))) [k]
        \<and> (\<forall>u \<in> opens_within sched (wall_date (local_of (bs_zone sched) (utc at_time))) (filter (\<lambda>j. j \<le> k) [0..horizon]).
              utc at_time < u \<longrightarrow> utc c \<le> u)"
    by (rule search_openings_spec [OF assms(2) r]) (auto simp: sorted_wrt_upto)
  show ?thesis
  proof (cases r)
    case None
    then show ?thesis using spec res hz by simp
  next
    case (Some p)
    obtain c k where p: "p = (c, k)" by (cases p)
    have fs: "found = Some c" "offset = k" using res Some p by auto
    have k: "k \<in> set [0..horizon]" using spec Some p by simp
    then have "set (filter (\<lambda>j. j \<le> k) [0..horizon]) = set [0..k]" by auto
    then have "opens_within sched d (filter (\<lambda>j. j \<le> k) [0..horizon]) = opens_within sched d [0..k]" for d
      unfolding opens_within_def by (rule arg_cong)
    then show ?thesis using spec Some p fs k by (auto simp: Let_def not_less)
  qed
qed

text \<open>Monday 2024-06-03, 18:30 local: the business opens on Tuesday at 09:00 local.\<close>

lemma example_next:
  "next_opening example_schedule (utc_datetime (739040 * 86400000000 + 63000000000)) 7
   = Inr (False, Some (DT (739041 * 86400000000 + 32400000000) (Some 3600000000)),
       DT (739040 * 86400000000 + 66600000000) (Some 3600000000), 1)"
  by code_simp

theorem next_opening_first_witness:
  "739041 * 86400000000 + 28800000000 \<in> opens_within example_schedule
     (wall_date (local_of (bs_zone example_schedule) (utc (utc_datetime (739040 * 86400000000 + 63000000000))))) [1]"
  using next_opening_first [OF example_next example_schedule_proper]
  by (simp only: Let_def option.case aware_utc_datetime) (simp add: utc_def)

end
