(* ===== verification/ScheduleQueries.thy ===== *)
theory ScheduleQueries
  imports Schedule
begin

text \<open>
  The queries built on the schedule engine: \<open>application/scheduling/queries.py\<close> (business hours,
  status, next opening) and the public profile of \<open>application/tenants/queries.py\<close>. The
  repositories a read unit of work offers for them are the fields of \<open>schedule_uow\<close>; the clock is
  an argument.
\<close>

section \<open>Transfer objects (application/scheduling/dto.py, application/tenants/dto.py)\<close>

record business_day_dto =
  bd_date :: date
  bd_weekday :: int
  bd_day_label :: string
  bd_closed :: bool
  bd_intervals :: "(string \<times> string) list"
  bd_source :: string
  bd_reason :: "string option"

record business_status =
  st_open_now :: bool
  st_evaluated_at :: datetime
  st_local_date :: date
  st_local_time :: string
  st_timezone :: string

record next_opening_result =
  no_open_now :: bool
  no_next_opening_at :: "datetime option"
  no_next_opening_local :: "string option"
  no_timezone :: string
  no_searched_days :: int

section \<open>Building them\<close>

definition day_labels :: "string \<Rightarrow> string list option" where
  "day_labels locale_text = (if locale_text = ''en''
     then Some [''Monday'', ''Tuesday'', ''Wednesday'', ''Thursday'', ''Friday'', ''Saturday'', ''Sunday'']
     else None)"

definition business_day_of :: "business_schedule \<Rightarrow> string list \<Rightarrow> date \<Rightarrow> business_day_dto res" where
  "business_day_of sched labels d =
     res_bind (effective_day_of sched d) (\<lambda>day.
     Inr \<lparr>bd_date = ed_local_date day, bd_weekday = weekday (ed_local_date day),
          bd_day_label = labels ! nat (weekday (ed_local_date day)),
          bd_closed = (ed_intervals day = []),
          bd_intervals = map (\<lambda>(s, e). (time_hm s, time_hm e)) (ed_intervals day),
          bd_source = ed_source day, bd_reason = ed_reason day\<rparr>)"

definition business_hours_dtos ::
  "business_schedule \<Rightarrow> date \<Rightarrow> int \<Rightarrow> string \<Rightarrow> business_day_dto list res" where
  "business_hours_dtos sched start_date days locale_text =
     (case day_labels locale_text of
        None \<Rightarrow> Inl UnresolvedLocaleError
      | Some labels \<Rightarrow> res_map (\<lambda>offset. business_day_of sched labels (start_date + offset)) [0..days - 1])"

definition business_status_dto :: "business_schedule \<Rightarrow> datetime \<Rightarrow> business_status res" where
  "business_status_dto sched at_time =
     res_bind (is_open sched at_time) (\<lambda>(open_now, loc, _).
     Inr \<lparr>st_open_now = open_now, st_evaluated_at = at_time, st_local_date = wall_date (wall loc),
          st_local_time = datetime_iso_minutes loc, st_timezone = bs_timezone sched\<rparr>)"

definition next_opening_dto :: "business_schedule \<Rightarrow> datetime \<Rightarrow> int \<Rightarrow> next_opening_result res" where
  "next_opening_dto sched at_time horizon =
     res_bind (next_opening sched at_time horizon) (\<lambda>(open_now, next_at, _, searched).
     Inr \<lparr>no_open_now = open_now, no_next_opening_at = next_at,
          no_next_opening_local = map_option datetime_iso_minutes next_at,
          no_timezone = bs_timezone sched, no_searched_days = searched\<rparr>)"

section \<open>The queries\<close>

record schedule_uow =
  su_tenant :: "tenant_id \<Rightarrow> tenant option"
  su_profile :: "tenant_id \<Rightarrow> public_profile option"
  su_schedule :: "tenant_id \<Rightarrow> schedule_id \<Rightarrow> business_schedule option"

definition load_schedule :: "schedule_uow \<Rightarrow> principal \<Rightarrow> (business_schedule \<times> tenant) res" where
  "load_schedule uow p =
     (case su_tenant uow (pr_tenant_id p) of
        None \<Rightarrow> Inl TenantNotFoundError
      | Some tn \<Rightarrow>
          if \<not> can_process_new_work tn then Inl TenantNotFoundError
          else case su_profile uow (pr_tenant_id p) of
              None \<Rightarrow> Inl PublicProfileNotFoundError
            | Some prof \<Rightarrow>
                (case su_schedule uow (pr_tenant_id p) (pf_schedule_id prof) of
                   None \<Rightarrow> Inl PublicProfileNotFoundError
                 | Some sched \<Rightarrow>
                     if \<not> bs_active sched then Inl PublicProfileNotFoundError
                     else if bs_timezone sched \<noteq> tn_timezone tn
                       then Inl (InvalidScheduleError ''Business schedule timezone does not match tenant timezone'')
                     else Inr (sched, tn)))"

text \<open>\<open>candidates[0]\<close>: IndexError when no locale is supported.\<close>

definition first_candidate :: "locale_t list \<Rightarrow> locale_t res" where
  "first_candidate cands = (case cands of [] \<Rightarrow> Inl (IndexError ''tuple index out of range'') | l # _ \<Rightarrow> Inr l)"

definition get_business_hours ::
  "schedule_uow \<Rightarrow> principal \<Rightarrow> date \<Rightarrow> int \<Rightarrow> string option \<Rightarrow> business_day_dto list res" where
  "get_business_hours uow p start_date days requested =
     res_bind (require p SCHEDULE_READ) (\<lambda>_.
     if \<not> (1 \<le> days \<and> days \<le> 31)
       then Inl (InvalidDateTimeError ''Hours range must be between 1 and 31 days'')
     else res_bind (load_schedule uow p) (\<lambda>(sched, tn).
       res_bind (first_candidate (locale_candidates requested (tn_default_locale tn) (tn_supported_locales tn)))
         (\<lambda>resolved. business_hours_dtos sched start_date days (locale_value resolved))))"

definition requested_instant :: "datetime option \<Rightarrow> datetime \<Rightarrow> datetime res" where
  "requested_instant at_opt now = require_aware (case at_opt of None \<Rightarrow> now | Some t \<Rightarrow> t)"

definition get_business_status ::
  "schedule_uow \<Rightarrow> datetime \<Rightarrow> principal \<Rightarrow> datetime option \<Rightarrow> business_status res" where
  "get_business_status uow now p at_opt =
     res_bind (require p SCHEDULE_READ) (\<lambda>_.
     res_bind (requested_instant at_opt now) (\<lambda>at_time.
     res_bind (load_schedule uow p) (\<lambda>(sched, _). business_status_dto sched at_time)))"

definition get_next_opening ::
  "schedule_uow \<Rightarrow> datetime \<Rightarrow> int \<Rightarrow> principal \<Rightarrow> datetime option \<Rightarrow> next_opening_result res" where
  "get_next_opening uow now horizon p at_opt =
     res_bind (require p SCHEDULE_READ) (\<lambda>_.
     res_bind (requested_instant at_opt now) (\<lambda>at_time.
     res_bind (load_schedule uow p) (\<lambda>(sched, _). next_opening_dto sched at_time horizon)))"

section \<open>The public profile (application/tenants/queries.py)\<close>

record public_profile_dto =
  pb_name :: string
  pb_description :: string
  pb_locale :: string
  pb_default_locale :: string
  pb_supported_locales :: "string list"
  pb_timezone :: string
  pb_public_phone :: "string option"
  pb_public_email :: "string option"
  pb_website_url :: "string option"
  pb_address :: "string option"
  pb_service_area :: "string option"
  pb_parking_guidance :: "string option"
  pb_payment_methods :: "string list"
  pb_warranty_policy :: "string option"
  pb_appointment_policy :: "string option"
  pb_business_hours :: "business_day_dto list"
  pb_status :: business_status
  pb_next_opening :: next_opening_result

fun optional_localized :: "localized \<Rightarrow> locale_t list \<Rightarrow> string option" where
  "optional_localized vals [] = None"
| "optional_localized vals (l # ls) =
     (case get_text vals l of Some v \<Rightarrow> Some v | None \<Rightarrow> optional_localized vals ls)"

definition get_tenant_public_profile ::
  "schedule_uow \<Rightarrow> datetime \<Rightarrow> principal \<Rightarrow> string option \<Rightarrow> public_profile_dto res" where
  "get_tenant_public_profile uow now p requested =
     res_bind (require p PUBLIC_PROFILE_READ) (\<lambda>_.
     case su_tenant uow (pr_tenant_id p) of
       None \<Rightarrow> Inl TenantNotFoundError
     | Some tn \<Rightarrow>
     if \<not> can_process_new_work tn then Inl TenantNotFoundError
     else case su_profile uow (pr_tenant_id p) of
       None \<Rightarrow> Inl PublicProfileNotFoundError
     | Some prof \<Rightarrow>
     (case su_schedule uow (pr_tenant_id p) (pf_schedule_id prof) of
       None \<Rightarrow> Inl PublicProfileNotFoundError
     | Some sched \<Rightarrow>
     if \<not> bs_active sched then Inl PublicProfileNotFoundError
     else if bs_timezone sched \<noteq> tn_timezone tn
       then Inl (InvalidScheduleError ''Business schedule timezone does not match tenant timezone'')
     else
       let cands = locale_candidates requested (tn_default_locale tn) (tn_supported_locales tn) in
       res_bind (resolve_localized (pf_descriptions prof) cands) (\<lambda>(description, resolved).
       res_bind (require_aware now) (\<lambda>at_time.
       res_bind (business_status_dto sched at_time) (\<lambda>status.
       res_bind (next_opening_dto sched at_time 370) (\<lambda>opening.
       res_bind (business_hours_dtos sched (st_local_date status) 7 (locale_value resolved)) (\<lambda>hours.
       Inr \<lparr>pb_name = tn_name tn, pb_description = description, pb_locale = locale_value resolved,
            pb_default_locale = locale_value (tn_default_locale tn),
            pb_supported_locales = map locale_value (sorted_locales (tn_supported_locales tn)),
            pb_timezone = tn_timezone tn, pb_public_phone = pf_public_phone prof,
            pb_public_email = pf_public_email prof, pb_website_url = pf_website_url prof,
            pb_address = optional_localized (pf_addresses prof) cands,
            pb_service_area = optional_localized (pf_service_areas prof) cands,
            pb_parking_guidance = optional_localized (pf_parking_guidance prof) cands,
            pb_payment_methods = pf_payment_methods prof,
            pb_warranty_policy = optional_localized (pf_warranty_policy prof) cands,
            pb_appointment_policy = optional_localized (pf_appointment_policy prof) cands,
            pb_business_hours = hours, pb_status = status, pb_next_opening = opening\<rparr>)))))))"

section \<open>Facts\<close>

lemma business_day_of_closed:
  "business_day_of sched labels d = Inr dto \<Longrightarrow> bd_closed dto \<longleftrightarrow> bd_intervals dto = []"
  by (auto simp: business_day_of_def res_bind_Inr_iff)

lemma business_hours_russian: "business_hours_dtos sched d n (locale_value RU) = Inl UnresolvedLocaleError"
  by (simp add: business_hours_dtos_def day_labels_def)

lemma list_all2_map_eq: "list_all2 (\<lambda>x y. f y = g x) xs ys \<Longrightarrow> map f ys = map g xs"
  by (induction rule: list_all2_induct) auto

lemma business_hours_days:
  assumes "business_hours_dtos sched d n t = Inr dtos"
  shows "t = ''en'' \<and> map bd_date dtos = map ((+) d) [0..n - 1]"
proof -
  obtain labels where labels: "day_labels t = Some labels"
    and m: "res_map (\<lambda>k. business_day_of sched labels (d + k)) [0..n - 1] = Inr dtos"
    using assms by (auto simp: business_hours_dtos_def split: option.splits)
  have "bd_date dto = d + k" if "business_day_of sched labels (d + k) = Inr dto" for k dto
    using that
    by (auto simp: business_day_of_def effective_day_of_def res_bind_Inr_iff Let_def
        split: sum.splits if_splits)
  then have "list_all2 (\<lambda>k dto. bd_date dto = d + k) [0..n - 1] dtos"
    using m by (auto simp: res_map_Inr intro: list_all2_mono)
  then have "map bd_date dtos = map ((+) d) [0..n - 1]"
    by (rule list_all2_map_eq)
  then show ?thesis using labels by (simp add: day_labels_def split: if_splits)
qed

end
