(* ===== verification/Availability.thy ===== *)
theory Availability
  imports ScheduleQueries
begin

text \<open>
  Appointment availability: the data contracts of \<open>application/bookings/models.py\<close>, the pure
  calculation of \<open>application/bookings/engine.py\<close> and the date list of
  \<open>BookingApplication.dates\<close>. The nested loops of \<open>calculate_availability\<close> share two mutable
  collections, \<open>candidates\<close> and \<open>seen_starts\<close>; here each loop is a \<open>res_fold\<close> over that pair.
\<close>

section \<open>Data contracts (application/bookings/models.py)\<close>

datatype draft_status = D_ACTIVE | D_CANCELLED | D_EXPIRED | D_CONFIRMED

datatype hold_status = HO_ACTIVE | HO_RELEASED | HO_EXPIRED | HO_CONSUMED

record booking_policy =
  po_slot_interval :: timedelta
  po_booking_horizon :: timedelta
  po_minimum_notice :: timedelta
  po_hold_duration :: timedelta
  po_draft_duration :: timedelta
  po_change_cutoff :: timedelta
  po_customer_name_max_length :: int
  po_customer_phone_max_length :: int
  po_customer_note_max_length :: int

definition policy_post_init :: "booking_policy \<Rightarrow> booking_policy res" where [ctor_defs]:
  "policy_post_init p =
     (if list_ex (\<lambda>v. v \<le> 0) [po_slot_interval p, po_booking_horizon p, po_minimum_notice p,
           po_hold_duration p, po_draft_duration p]
        then Inl (ValueError ''Booking policy durations must be positive'')
      else if po_change_cutoff p < 0
        then Inl (ValueError ''Booking change cutoff cannot be negative'')
      else if \<not> (1 \<le> po_customer_name_max_length p \<and> po_customer_name_max_length p \<le> 200)
        then Inl (ValueError ''Customer name limit is invalid'')
      else if \<not> (8 \<le> po_customer_phone_max_length p \<and> po_customer_phone_max_length p \<le> 32)
        then Inl (ValueError ''Customer phone limit is invalid'')
      else if \<not> (0 \<le> po_customer_note_max_length p \<and> po_customer_note_max_length p \<le> 2000)
        then Inl (ValueError ''Customer note limit is invalid'')
      else Inr p)"

record busy_period =
  bp_time_range :: time_range
  bp_capacity_used :: int

record available_resource =
  ar_id :: resource_id
  ar_schedule :: business_schedule
  ar_capacity :: int
  ar_active :: bool
  ar_busy_periods :: "busy_period list"

record availability_context =
  ac_tenant_id :: tenant_id
  ac_service_id :: service_id
  ac_service_name :: string
  ac_duration :: timedelta
  ac_cleanup_buffer :: timedelta
  ac_active :: bool
  ac_bookable :: bool
  ac_policy :: booking_policy
  ac_resources :: "available_resource list"

record available_slot =
  sl_start_at :: datetime
  sl_end_at :: datetime
  sl_resource_id :: resource_id
  sl_local_date :: date
  sl_local_time :: string
  sl_timezone :: string

section \<open>The calculation (application/bookings/engine.py)\<close>

definition local_candidates :: "int \<Rightarrow> zone \<Rightarrow> datetime list" where
  "local_candidates naive z =
     map (\<lambda>t. DT naive (Some (naive - t))) (sort (remdups (local_readings naive z)))"

definition ranges_overlap :: "time_range \<Rightarrow> time_range \<Rightarrow> bool" where
  "ranges_overlap a b = (utc (tr_start a) < utc (tr_end b) \<and> utc (tr_start b) < utc (tr_end a))"

definition has_capacity :: "available_resource \<Rightarrow> time_range \<Rightarrow> bool" where
  "has_capacity r occupied =
     (let used = sum_list (map bp_capacity_used
           (filter (\<lambda>p. ranges_overlap (bp_time_range p) occupied) (ar_busy_periods r)))
      in ar_active r \<and> used < ar_capacity r)"

text \<open>
  The cursor's first value: the opening, moved up to the next multiple of the slot interval counted
  from midnight in whole seconds. \<open>interval_seconds\<close> is \<open>int(total_seconds())\<close>.
\<close>

definition interval_seconds :: "timedelta \<Rightarrow> int" where
  "interval_seconds step = (if step < 0 then - ((- step) div second_us) else step div second_us)"

definition first_cursor :: "timedelta \<Rightarrow> date \<Rightarrow> time \<Rightarrow> int res" where
  "first_cursor step d opening = (
     let cursor = combine d opening;
         seconds = opening div second_us
     in if interval_seconds step = 0 then Inl ZeroDivisionError
        else let remainder = seconds mod interval_seconds step in
          Inr (if remainder \<noteq> 0 then cursor + (interval_seconds step - remainder) * second_us
               else cursor))"

text \<open>
  The values \<open>cursor\<close> takes while it is before the closing time. \<open>BookingPolicy\<close> refuses a slot
  interval that is not positive, for which the loop would not end.
\<close>

function cursor_values :: "timedelta \<Rightarrow> int \<Rightarrow> int \<Rightarrow> int list" where
  "cursor_values step closing cursor =
     (if 0 < step \<and> cursor < closing then cursor # cursor_values step closing (cursor + step) else [])"
  by pat_completeness auto
termination by (relation "measure (\<lambda>(step, closing, cursor). nat (closing - cursor))") auto

declare cursor_values.simps [simp del]

type_synonym search = "available_slot list \<times> instant set"

text \<open>The body of the innermost loop, for one reading of the cursor's wall clock.\<close>

definition visit_start ::
  "availability_context \<Rightarrow> instant \<Rightarrow> date \<Rightarrow> available_resource \<Rightarrow> int \<Rightarrow> datetime \<Rightarrow> search \<Rightarrow> search res" where
  "visit_start ctx now_utc d r closing_naive local_start state = (case state of (cands, seen) \<Rightarrow>
     let earliest = now_utc + po_minimum_notice (ac_policy ctx);
         latest = now_utc + po_booking_horizon (ac_policy ctx);
         start = utc local_start;
         appointment_end = start + ac_duration ctx;
         occupied_end = appointment_end + ac_cleanup_buffer ctx;
         local_occupied_end = wall (astimezone (bs_zone (ar_schedule r)) occupied_end)
     in if start < earliest \<or> latest < start \<or> wall_date local_occupied_end \<noteq> d
            \<or> closing_naive < local_occupied_end
        then Inr (cands, seen)
        else res_bind (mk_time_range (utc_datetime start) (utc_datetime occupied_end)) (\<lambda>occupied.
          if start \<in> seen \<or> \<not> has_capacity r occupied then Inr (cands, seen)
          else Inr (cands @ [\<lparr>sl_start_at = utc_datetime start, sl_end_at = utc_datetime appointment_end,
                      sl_resource_id = ar_id r, sl_local_date = d,
                      sl_local_time = time_hm (wall_time (wall local_start)),
                      sl_timezone = bs_timezone (ar_schedule r)\<rparr>],
                    insert start seen)))"

definition visit_cursor ::
  "availability_context \<Rightarrow> instant \<Rightarrow> date \<Rightarrow> available_resource \<Rightarrow> int \<Rightarrow> int \<Rightarrow> search \<Rightarrow> search res" where
  "visit_cursor ctx now_utc d r closing_naive cursor state =
     res_fold (visit_start ctx now_utc d r closing_naive)
       (local_candidates cursor (bs_zone (ar_schedule r))) state"

definition visit_interval ::
  "availability_context \<Rightarrow> instant \<Rightarrow> date \<Rightarrow> available_resource \<Rightarrow> span \<Rightarrow> search \<Rightarrow> search res" where
  "visit_interval ctx now_utc d r iv state =
     (let step = po_slot_interval (ac_policy ctx); closing_naive = combine d (snd iv) in
      res_bind (first_cursor step d (fst iv)) (\<lambda>cursor.
      res_fold (visit_cursor ctx now_utc d r closing_naive) (cursor_values step closing_naive cursor) state))"

definition visit_resource ::
  "availability_context \<Rightarrow> instant \<Rightarrow> date \<Rightarrow> available_resource \<Rightarrow> search \<Rightarrow> search res" where
  "visit_resource ctx now_utc d r state =
     (if \<not> ar_active r \<or> \<not> bs_active (ar_schedule r) then Inr state
      else res_bind (effective_day_of (ar_schedule r) d) (\<lambda>day.
        res_fold (visit_interval ctx now_utc d r) (ed_intervals day) state))"

definition calculate_availability ::
  "availability_context \<Rightarrow> date \<Rightarrow> datetime \<Rightarrow> available_slot list res" where
  "calculate_availability ctx d now =
     (if \<not> aware now then Inl (ValueError ''Availability clock must be timezone-aware'')
      else if \<not> ac_active ctx \<or> \<not> ac_bookable ctx \<or> ac_resources ctx = [] then Inr []
      else res_bind (res_fold (visit_resource ctx (utc now) d)
             (sorted_by (\<lambda>r. uuid_str (resource_uuid (ar_id r))) (ac_resources ctx)) ([], {}))
        (\<lambda>(cands, _). Inr (sorted_by (\<lambda>s. (utc (sl_start_at s), uuid_str (resource_uuid (sl_resource_id s)))) cands)))"

section \<open>The dates offered (application/bookings/service.py, BookingApplication.dates)\<close>

text \<open>The \<open>while\<close> loop over candidate dates, which collects at most \<open>days\<close> of them.\<close>

function collect_dates ::
  "availability_context \<Rightarrow> datetime \<Rightarrow> int \<Rightarrow> date \<Rightarrow> date list \<Rightarrow> date \<Rightarrow> date list res" where
  "collect_dates ctx now days horizon_date found candidate =
     (if candidate \<le> horizon_date \<and> int (length found) < days then
        res_bind (calculate_availability ctx candidate now) (\<lambda>slots.
          collect_dates ctx now days horizon_date
            (if slots \<noteq> [] then found @ [candidate] else found) (candidate + 1))
      else Inr found)"
  by pat_completeness auto
termination
  by (relation "measure (\<lambda>(ctx, now, days, horizon_date, found, candidate). nat (horizon_date + 1 - candidate))") auto

declare collect_dates.simps [simp del]

definition service_dates :: "availability_context option \<Rightarrow> datetime \<Rightarrow> int \<Rightarrow> date list res" where
  "service_dates ctx_opt now days =
     (case ctx_opt of
        None \<Rightarrow> Inr []
      | Some ctx \<Rightarrow>
          (case ac_resources ctx of
             [] \<Rightarrow> Inr []
           | r # _ \<Rightarrow>
               let z = bs_zone (ar_schedule r);
                   today = wall_date (wall (astimezone z (utc now)));
                   horizon_date = wall_date (wall (astimezone z (utc now + po_booking_horizon (ac_policy ctx))))
               in collect_dates ctx now days horizon_date [] today))"


section \<open>Facts: the first item of each key\<close>

fun first_per_key :: "('a \<Rightarrow> 'k) \<Rightarrow> 'k set \<Rightarrow> 'a list \<Rightarrow> 'a list" where
  "first_per_key key seen [] = []"
| "first_per_key key seen (x # xs) =
     (if key x \<in> seen then first_per_key key seen xs
      else x # first_per_key key (insert (key x) seen) xs)"

lemma first_per_key_keys: "key ` set (first_per_key key seen xs) = key ` set xs - seen"
  by (induction xs arbitrary: seen) auto

lemma first_per_key_distinct: "distinct (map key (first_per_key key seen xs))"
proof (induction xs arbitrary: seen)
  case (Cons x xs)
  then show ?case using first_per_key_keys [of key "insert (key x) seen" xs] by auto
qed simp

lemma first_per_key_first:
  "x \<in> set (first_per_key key seen xs)
   \<Longrightarrow> \<exists>pre post. xs = pre @ x # post \<and> key x \<notin> key ` set pre \<and> key x \<notin> seen"
proof (induction xs arbitrary: seen)
  case (Cons y ys)
  show ?case
  proof (cases "key y \<in> seen")
    case True
    then obtain pre post where "ys = pre @ x # post" "key x \<notin> key ` set pre" "key x \<notin> seen"
      using Cons.IH [of seen] Cons.prems by auto
    then show ?thesis using True by (intro exI [of _ "y # pre"] exI [of _ post]) auto
  next
    case False
    then consider "x = y" | "x \<in> set (first_per_key key (insert (key y) seen) ys)" using Cons.prems by auto
    then show ?thesis
    proof cases
      case 1
      then show ?thesis using False by (intro exI [of _ "[]"] exI [of _ ys]) simp
    next
      case 2
      then obtain pre post where "ys = pre @ x # post" "key x \<notin> key ` set pre" "key x \<notin> insert (key y) seen"
        using Cons.IH by blast
      then show ?thesis by (intro exI [of _ "y # pre"] exI [of _ post]) auto
    qed
  qed
qed simp

lemma collecting_fold:
  assumes "\<And>x cs seen st. x \<in> set xs \<Longrightarrow> f x (cs, seen) = Inr st \<Longrightarrow>
      st = (if acc x \<and> key x \<notin> seen then (cs @ [mk x], insert (key x) seen) else (cs, seen))"
    and "res_fold f xs (cs, seen) = Inr st"
  shows "fst st = cs @ map mk (first_per_key key seen (filter acc xs))"
  using assms
proof (induction xs arbitrary: cs seen)
  case (Cons x xs)
  from Cons.prems(2) obtain s1 where s1: "f x (cs, seen) = Inr s1" "res_fold f xs s1 = Inr st"
    by (auto simp: res_bind_Inr_iff)
  obtain cs1 seen1 where p: "s1 = (cs1, seen1)" by (cases s1)
  have "fst st = cs1 @ map mk (first_per_key key seen1 (filter acc xs))"
    by (rule Cons.IH [OF Cons.prems(1)]) (use s1 p in auto)
  moreover have "s1 = (if acc x \<and> key x \<notin> seen then (cs @ [mk x], insert (key x) seen) else (cs, seen))"
    using Cons.prems(1) s1(1) by simp
  ultimately show ?case using p by (auto split: if_splits)
qed auto

section \<open>Facts: the loops as one pass over the attempts\<close>

text \<open>An attempt is a resource, the closing wall clock of the interval and a reading of the cursor.\<close>

type_synonym attempt = "available_resource \<times> int \<times> datetime"

definition interval_starts :: "timedelta \<Rightarrow> zone \<Rightarrow> date \<Rightarrow> span \<Rightarrow> datetime list" where
  "interval_starts step z d iv = (case first_cursor step d (fst iv) of Inl _ \<Rightarrow> []
     | Inr c \<Rightarrow> concat (map (\<lambda>w. local_candidates w z) (cursor_values step (combine d (snd iv)) c)))"

definition resource_attempts :: "availability_context \<Rightarrow> date \<Rightarrow> available_resource \<Rightarrow> attempt list" where
  "resource_attempts ctx d r =
     (if \<not> ar_active r \<or> \<not> bs_active (ar_schedule r) then []
      else case effective_day_of (ar_schedule r) d of Inl _ \<Rightarrow> []
        | Inr day \<Rightarrow> concat (map (\<lambda>iv. map (\<lambda>ls. (r, combine d (snd iv), ls))
            (interval_starts (po_slot_interval (ac_policy ctx)) (bs_zone (ar_schedule r)) d iv)) (ed_intervals day)))"

definition visit_attempt :: "availability_context \<Rightarrow> instant \<Rightarrow> date \<Rightarrow> attempt \<Rightarrow> search \<Rightarrow> search res" where
  "visit_attempt ctx n d a = visit_start ctx n d (fst a) (fst (snd a)) (snd (snd a))"

lemma visit_interval_pass:
  assumes "visit_interval ctx n d r iv st = Inr st'"
  shows "res_fold (visit_attempt ctx n d) (map (\<lambda>ls. (r, combine d (snd iv), ls))
      (interval_starts (po_slot_interval (ac_policy ctx)) (bs_zone (ar_schedule r)) d iv)) st = Inr st'"
proof -
  obtain c where c: "first_cursor (po_slot_interval (ac_policy ctx)) d (fst iv) = Inr c"
    and run: "res_fold (visit_cursor ctx n d r (combine d (snd iv)))
      (cursor_values (po_slot_interval (ac_policy ctx)) (combine d (snd iv)) c) st = Inr st'"
    using assms by (auto simp: visit_interval_def Let_def res_bind_Inr_iff)
  have "visit_cursor ctx n d r cl = (\<lambda>w. res_fold (visit_start ctx n d r cl) (local_candidates w (bs_zone (ar_schedule r))))" for cl
    by (simp add: visit_cursor_def fun_eq_iff)
  then have "res_fold (\<lambda>w. res_fold (visit_start ctx n d r (combine d (snd iv))) (local_candidates w (bs_zone (ar_schedule r))))
      (cursor_values (po_slot_interval (ac_policy ctx)) (combine d (snd iv)) c) st = Inr st'"
    using run by simp
  then show ?thesis
    by (simp add: interval_starts_def c res_fold_map visit_attempt_def res_fold_concat
        res_fold_map [of "res_fold (visit_start ctx n d r (combine d (snd iv)))"
          "\<lambda>w. local_candidates w (bs_zone (ar_schedule r))"])
qed

lemma res_fold_sub:
  assumes "\<And>x s s'. x \<in> set xs \<Longrightarrow> f x s = Inr s' \<Longrightarrow> res_fold g (h x) s = Inr s'"
    and "res_fold f xs s = Inr s'"
  shows "res_fold g (concat (map h xs)) s = Inr s'"
  using assms
proof (induction xs arbitrary: s)
  case (Cons x xs)
  then obtain s1 where "f x s = Inr s1" "res_fold f xs s1 = Inr s'"
    by (auto simp: res_bind_Inr_iff)
  then show ?case using Cons by (simp add: res_fold_append)
qed simp

lemma visit_resource_pass:
  assumes "visit_resource ctx n d r st = Inr st'"
  shows "res_fold (visit_attempt ctx n d) (resource_attempts ctx d r) st = Inr st'"
proof (cases "\<not> ar_active r \<or> \<not> bs_active (ar_schedule r)")
  case False
  then obtain day where day: "effective_day_of (ar_schedule r) d = Inr day"
    "res_fold (visit_interval ctx n d r) (ed_intervals day) st = Inr st'"
    using assms by (auto simp: visit_resource_def res_bind_Inr_iff)
  show ?thesis
    using res_fold_sub [OF visit_interval_pass day(2)] False day(1) by (simp add: resource_attempts_def)
qed (use assms in \<open>auto simp: visit_resource_def resource_attempts_def\<close>)

definition occupied_end :: "availability_context \<Rightarrow> instant \<Rightarrow> instant" where
  "occupied_end ctx t = t + ac_duration ctx + ac_cleanup_buffer ctx"

text \<open>The start is in the booking window and the occupied time ends on the date, by closing time.\<close>

definition fits :: "availability_context \<Rightarrow> instant \<Rightarrow> date \<Rightarrow> available_resource \<Rightarrow> int \<Rightarrow> instant \<Rightarrow> bool" where
  "fits ctx n d r closing t =
     (n + po_minimum_notice (ac_policy ctx) \<le> t \<and> t \<le> n + po_booking_horizon (ac_policy ctx)
      \<and> wall_date (local_of (bs_zone (ar_schedule r)) (occupied_end ctx t)) = d
      \<and> local_of (bs_zone (ar_schedule r)) (occupied_end ctx t) \<le> closing)"

definition occupied_range :: "availability_context \<Rightarrow> instant \<Rightarrow> time_range" where
  "occupied_range ctx t = \<lparr>tr_start = utc_datetime t, tr_end = utc_datetime (occupied_end ctx t)\<rparr>"

definition accepts :: "availability_context \<Rightarrow> instant \<Rightarrow> date \<Rightarrow> attempt \<Rightarrow> bool" where
  "accepts ctx n d a = (let t = utc (snd (snd a)) in
     fits ctx n d (fst a) (fst (snd a)) t \<and> has_capacity (fst a) (occupied_range ctx t))"

definition slot_of :: "availability_context \<Rightarrow> date \<Rightarrow> attempt \<Rightarrow> available_slot" where
  "slot_of ctx d a = (let t = utc (snd (snd a)) in
     \<lparr>sl_start_at = utc_datetime t, sl_end_at = utc_datetime (t + ac_duration ctx),
      sl_resource_id = ar_id (fst a), sl_local_date = d,
      sl_local_time = time_hm (wall_time (wall (snd (snd a)))),
      sl_timezone = bs_timezone (ar_schedule (fst a))\<rparr>)"

lemma visit_attempt_step:
  assumes "visit_attempt ctx n d a (cs, seen) = Inr st"
  shows "st = (if accepts ctx n d a \<and> utc (snd (snd a)) \<notin> seen
    then (cs @ [slot_of ctx d a], insert (utc (snd (snd a))) seen) else (cs, seen))"
  using assms
  by (auto simp: visit_attempt_def visit_start_def accepts_def fits_def slot_of_def occupied_end_def
      occupied_range_def local_of_def Let_def res_bind_Inr_iff mk_time_range_def split: if_splits)

definition all_attempts :: "availability_context \<Rightarrow> date \<Rightarrow> attempt list" where
  "all_attempts ctx d = concat (map (resource_attempts ctx d)
     (sorted_by (\<lambda>r. uuid_str (resource_uuid (ar_id r))) (ac_resources ctx)))"

definition slot_key :: "available_slot \<Rightarrow> int \<times> string" where
  "slot_key s = (utc (sl_start_at s), uuid_str (resource_uuid (sl_resource_id s)))"

lemma calculate_availability_pass:
  assumes "calculate_availability ctx d now = Inr slots"
  shows "slots = (if ac_active ctx \<and> ac_bookable ctx
    then sorted_by slot_key (map (slot_of ctx d) (first_per_key (\<lambda>a. utc (snd (snd a))) {}
           (filter (accepts ctx (utc now) d) (all_attempts ctx d))))
    else [])"
proof (cases "ac_active ctx \<and> ac_bookable ctx \<and> ac_resources ctx \<noteq> []")
  case True
  then obtain st where run: "res_fold (visit_resource ctx (utc now) d)
      (sorted_by (\<lambda>r. uuid_str (resource_uuid (ar_id r))) (ac_resources ctx)) ([], {}) = Inr st"
    and slots: "slots = sorted_by slot_key (fst st)"
    using assms
    by (auto simp: calculate_availability_def slot_key_def [abs_def] res_bind_Inr_iff split: if_splits)
  have "res_fold (visit_attempt ctx (utc now) d) (all_attempts ctx d) ([], {}) = Inr st"
    unfolding all_attempts_def by (rule res_fold_sub [OF visit_resource_pass run])
  from collecting_fold [OF visit_attempt_step this] show ?thesis using True slots by simp
qed (use assms in \<open>auto simp: calculate_availability_def all_attempts_def split: if_splits\<close>)

section \<open>Facts: which starts are offered\<close>

definition day_intervals_of :: "business_schedule \<Rightarrow> date \<Rightarrow> span list" where
  "day_intervals_of sched d = (case effective_day_of sched d of Inl _ \<Rightarrow> [] | Inr day \<Rightarrow> ed_intervals day)"

text \<open>Within the interval, and a whole number of slot intervals after midnight.\<close>

definition on_grid :: "timedelta \<Rightarrow> date \<Rightarrow> span \<Rightarrow> int \<Rightarrow> bool" where
  "on_grid step d iv w = (combine d (fst iv) \<le> w \<and> w < combine d (snd iv) \<and> (w - combine d 0) mod step = 0)"

text \<open>
  What it means that a resource can take an appointment at an instant: the service is open for
  booking, the resource works, the wall clock is on the grid of one of its business intervals of the
  date, the appointment and its buffer fit, and the resource has capacity left.
\<close>

definition offers :: "availability_context \<Rightarrow> instant \<Rightarrow> date \<Rightarrow> available_resource \<Rightarrow> instant \<Rightarrow> bool" where
  "offers ctx n d r t = (ac_active ctx \<and> ac_bookable ctx \<and> ar_active r \<and> bs_active (ar_schedule r)
     \<and> has_capacity r (occupied_range ctx t)
     \<and> list_ex (\<lambda>iv. on_grid (po_slot_interval (ac_policy ctx)) d iv (local_of (bs_zone (ar_schedule r)) t)
          \<and> fits ctx n d r (combine d (snd iv)) t) (day_intervals_of (ar_schedule r) d))"

text \<open>The slot interval and the intervals' starts are whole seconds, as the stored policies' and schedules' are.\<close>

definition grid_proper :: "availability_context \<Rightarrow> date \<Rightarrow> bool" where
  "grid_proper ctx d = (0 < po_slot_interval (ac_policy ctx) \<and> po_slot_interval (ac_policy ctx) mod second_us = 0
     \<and> list_all (\<lambda>r. zone_spaced (bs_zone (ar_schedule r))
          \<and> list_all (\<lambda>iv. fst iv mod second_us = 0) (day_intervals_of (ar_schedule r) d)) (ac_resources ctx))"

lemma cursor_values_iff:
  "w \<in> set (cursor_values step cl c) \<longleftrightarrow> 0 < step \<and> c \<le> w \<and> w < cl \<and> (w - c) mod step = 0"
proof (induction step cl c rule: cursor_values.induct)
  case (1 step cl c)
  show ?case
  proof (cases "0 < step \<and> c < cl")
    case True
    have shift: "(w - (c + step)) mod step = (w - c) mod step"
      using mod_diff_right_eq [of "w - c" step step] by (simp add: algebra_simps)
    have "c + step \<le> w" if "c \<le> w" "w \<noteq> c" "(w - c) mod step = 0"
    proof -
      have "0 < w - c" using that by simp
      then have "step \<le> w - c" using that(3) True by (metis zmod_le_nonneg_dividend mod_pos_pos_trivial less_le not_le)
      then show ?thesis by simp
    qed
    then show ?thesis
      using 1 True shift by (subst cursor_values.simps) auto
  qed (subst cursor_values.simps, auto)
qed

lemma least_multiple:
  fixes k q :: int
  assumes "0 < k"
  shows "\<exists>m. q + (if q mod k \<noteq> 0 then k - q mod k else 0) = m * k
    \<and> (\<forall>u. u mod k = 0 \<longrightarrow> q \<le> u \<longrightarrow> m * k \<le> u) \<and> q \<le> m * k"
proof (cases "q mod k = 0")
  case True
  then have "q = q div k * k" using div_mult_mod_eq [of q k] by simp
  then show ?thesis using True by (intro exI [of _ "q div k"]) auto
next
  case False
  have q: "q = q div k * k + q mod k" using div_mult_mod_eq [of q k] by simp
  have r: "0 < q mod k" "q mod k < k"
    using False pos_mod_bound [OF assms, of q] pos_mod_sign [OF assms, of q] by linarith+
  have "(q div k + 1) * k \<le> u" if "u mod k = 0" "q \<le> u" for u
  proof -
    have u: "u = u div k * k" using that(1) div_mult_mod_eq [of u k] by simp
    then have "q div k * k < u div k * k" using q r that(2) by linarith
    then have "q div k < u div k" using assms by simp
    then have "(q div k + 1) * k \<le> u div k * k" using assms by (simp add: mult_right_mono)
    then show ?thesis using u by simp
  qed
  moreover have "q + (k - q mod k) = (q div k + 1) * k" using q by (simp add: algebra_simps)
  ultimately show ?thesis using False r q
    by (intro exI [of _ "q div k + 1"]) auto
qed

lemma first_cursor_grid:
  assumes step: "0 < step" "step mod second_us = 0" and op: "fst iv mod second_us = 0"
  shows "\<exists>c. first_cursor step d (fst iv) = Inr c \<and>
    (\<forall>w. (c \<le> w \<and> w < combine d (snd iv) \<and> (w - c) mod step = 0) \<longleftrightarrow> on_grid step d iv w)"
proof -
  define k q where "k = step div second_us" and "q = fst iv div second_us"
  have sk: "step = k * second_us" and oq: "fst iv = q * second_us"
    using step(2) op div_mult_mod_eq [of step second_us] div_mult_mod_eq [of "fst iv" second_us]
    by (simp_all add: k_def q_def)
  have kpos: "0 < k" using step(1) sk by (simp add: second_us_def)
  have ik: "interval_seconds step = k" using step(1) by (simp add: interval_seconds_def k_def)
  obtain m where m: "q + (if q mod k \<noteq> 0 then k - q mod k else 0) = m * k"
    "\<And>u. u mod k = 0 \<Longrightarrow> q \<le> u \<Longrightarrow> m * k \<le> u" "q \<le> m * k"
    using least_multiple [OF kpos, of q] by blast
  let ?c = "combine d 0 + m * step"
  have fc: "first_cursor step d (fst iv) = Inr ?c"
  proof -
    have "combine d (fst iv) + (if q mod k \<noteq> 0 then k - q mod k else 0) * second_us
        = combine d 0 + (q + (if q mod k \<noteq> 0 then k - q mod k else 0)) * second_us"
      by (simp add: combine_def oq algebra_simps)
    also have "\<dots> = ?c" unfolding m(1) sk by (simp add: algebra_simps)
    finally show ?thesis using kpos
      by (auto simp: first_cursor_def ik Let_def q_def)
  qed
  have "(?c \<le> w \<and> (w - ?c) mod step = 0) \<longleftrightarrow> (combine d (fst iv) \<le> w \<and> (w - combine d 0) mod step = 0)" for w
  proof -
    have "(w - ?c) mod step = (w - combine d 0) mod step"
      using mod_mult_self1 [of "w - ?c" m step] by (simp add: algebra_simps)
    moreover have "?c \<le> w" if "combine d (fst iv) \<le> w" and z: "(w - combine d 0) mod step = 0"
    proof -
      define u where "u = (w - combine d 0) div step * k"
      have w: "w - combine d 0 = u * second_us"
        using z div_mult_mod_eq [of "w - combine d 0" step] by (simp add: u_def sk algebra_simps)
      have "q * second_us \<le> u * second_us" using that(1) w by (simp add: combine_def oq)
      then have "m * k \<le> u" by (intro m(2)) (simp_all add: u_def second_us_def)
      then show ?thesis using w by (simp add: sk second_us_def)
    qed
    moreover have "combine d (fst iv) \<le> ?c"
    proof -
      have "q * second_us \<le> m * k * second_us" using m(3) by (simp add: second_us_def)
      then show ?thesis by (simp add: combine_def oq sk algebra_simps)
    qed
    ultimately show ?thesis by auto
  qed
  note eq = this
  show ?thesis unfolding on_grid_def
  proof (intro exI [of _ ?c] conjI allI)
    show "first_cursor step d (fst iv) = Inr ?c" by (rule fc)
    show "(?c \<le> w \<and> w < combine d (snd iv) \<and> (w - ?c) mod step = 0) \<longleftrightarrow>
        (combine d (fst iv) \<le> w \<and> w < combine d (snd iv) \<and> (w - combine d 0) mod step = 0)" for w
      by (cases "w < combine d (snd iv)") (simp_all only: simp_thms eq [of w])
  qed
qed

lemma interval_starts_iff:
  assumes "0 < step" "step mod second_us = 0" and "fst iv mod second_us = 0" and "zone_spaced z"
  shows "ls \<in> set (interval_starts step z d iv)
    \<longleftrightarrow> (\<exists>t. ls = DT (local_of z t) (Some (local_of z t - t)) \<and> on_grid step d iv (local_of z t))"
proof -
  obtain c where c: "first_cursor step d (fst iv) = Inr c"
    "\<And>w. (c \<le> w \<and> w < combine d (snd iv) \<and> (w - c) mod step = 0) \<longleftrightarrow> on_grid step d iv w"
    using first_cursor_grid [OF assms(1-3), of d] by blast
  have grid: "set (cursor_values step (combine d (snd iv)) c) = {w. on_grid step d iv w}"
  proof (intro set_eqI)
    show "w \<in> set (cursor_values step (combine d (snd iv)) c) \<longleftrightarrow> w \<in> {w. on_grid step d iv w}" for w
      by (simp only: cursor_values_iff mem_Collect_eq c(2) [of w, symmetric] assms(1) simp_thms)
  qed
  have readings: "set (local_readings w z) = {t. local_of z t = w}" for w
    using local_readings_iff [OF assms(4)] by blast
  have "set (interval_starts step z d iv)
      = (\<Union>w \<in> {w. on_grid step d iv w}. (\<lambda>t. DT w (Some (w - t))) ` set (local_readings w z))"
    using c(1) by (simp add: interval_starts_def grid local_candidates_def)
  also have "\<dots> = (\<Union>w \<in> {w. on_grid step d iv w}. (\<lambda>t. DT w (Some (w - t))) ` {t. local_of z t = w})"
    by (simp only: readings)
  finally show ?thesis by blast
qed

lemma utc_reading [simp]: "utc (DT w (Some (w - t))) = t"
  by (simp add: utc_def)

lemma resource_attempts_iff:
  assumes "grid_proper ctx d" and "r \<in> set (ac_resources ctx)"
  shows "a \<in> set (resource_attempts ctx d r) \<longleftrightarrow>
    ar_active r \<and> bs_active (ar_schedule r) \<and> (\<exists>iv \<in> set (day_intervals_of (ar_schedule r) d). \<exists>t.
      a = (r, combine d (snd iv), DT (local_of (bs_zone (ar_schedule r)) t)
            (Some (local_of (bs_zone (ar_schedule r)) t - t)))
      \<and> on_grid (po_slot_interval (ac_policy ctx)) d iv (local_of (bs_zone (ar_schedule r)) t))"
proof -
  have p: "0 < po_slot_interval (ac_policy ctx)" "po_slot_interval (ac_policy ctx) mod second_us = 0"
    "zone_spaced (bs_zone (ar_schedule r))"
    "\<And>iv. iv \<in> set (day_intervals_of (ar_schedule r) d) \<Longrightarrow> fst iv mod second_us = 0"
    using assms by (auto simp: grid_proper_def list_all_iff)
  show ?thesis
  proof (cases "effective_day_of (ar_schedule r) d")
    case (Inr day)
    have iv: "day_intervals_of (ar_schedule r) d = ed_intervals day" by (simp add: day_intervals_of_def Inr)
    have "set (interval_starts (po_slot_interval (ac_policy ctx)) (bs_zone (ar_schedule r)) d iv)
        = {DT (local_of (bs_zone (ar_schedule r)) t) (Some (local_of (bs_zone (ar_schedule r)) t - t)) | t.
            on_grid (po_slot_interval (ac_policy ctx)) d iv (local_of (bs_zone (ar_schedule r)) t)}"
      if "iv \<in> set (ed_intervals day)" for iv
      using interval_starts_iff [OF p(1,2) _ p(3), of iv] p(4) that iv by auto
    then show ?thesis by (auto simp: resource_attempts_def Inr iv)
  qed (simp add: resource_attempts_def day_intervals_of_def)
qed

lemma offers_iff_attempt:
  assumes "grid_proper ctx d" and "r \<in> set (ac_resources ctx)"
  shows "offers ctx n d r t \<longleftrightarrow> ac_active ctx \<and> ac_bookable ctx
    \<and> (\<exists>a \<in> set (resource_attempts ctx d r). utc (snd (snd a)) = t \<and> accepts ctx n d a)"
proof -
  let ?z = "bs_zone (ar_schedule r)"
  let ?a = "\<lambda>iv t. (r, combine d (snd iv), DT (local_of ?z t) (Some (local_of ?z t - t)))"
  have "(\<exists>a \<in> set (resource_attempts ctx d r). utc (snd (snd a)) = t \<and> accepts ctx n d a)
      \<longleftrightarrow> ar_active r \<and> bs_active (ar_schedule r) \<and> (\<exists>iv \<in> set (day_intervals_of (ar_schedule r) d).
          on_grid (po_slot_interval (ac_policy ctx)) d iv (local_of ?z t) \<and> accepts ctx n d (?a iv t))"
    unfolding Bex_def resource_attempts_iff [OF assms]
    by (rule iffI, (elim exE conjE, hypsubst, simp only: snd_conv utc_reading, blast),
        (elim exE conjE, intro exI [of _ "?a _ t"] conjI, assumption+, intro exI conjI, assumption,
          rule refl, assumption, simp only: snd_conv utc_reading, assumption))
  then show ?thesis by (auto simp: offers_def accepts_def list_ex_iff Let_def)
qed

section \<open>Facts: the slots\<close>

abbreviation rid :: "available_resource \<Rightarrow> string" where
  "rid r \<equiv> uuid_str (resource_uuid (ar_id r))"

definition slot_start :: "available_slot \<Rightarrow> instant" where
  "slot_start s = utc (sl_start_at s)"

lemma resource_attempts_fst: "a \<in> set (resource_attempts ctx d r) \<Longrightarrow> fst a = r"
  by (auto simp: resource_attempts_def split: if_splits sum.splits)

lemma attempts_sorted: "sorted (map rid rs) \<Longrightarrow> sorted (map (\<lambda>a. rid (fst a)) (concat (map (resource_attempts ctx d) rs)))"
proof (induction rs)
  case (Cons r rs)
  have "sorted (map (\<lambda>_. rid r) xs)" for xs :: "attempt list" by (induction xs) auto
  moreover have "map (\<lambda>a. rid (fst a)) (resource_attempts ctx d r) = map (\<lambda>_. rid r) (resource_attempts ctx d r)"
    by (rule map_cong [OF refl]) (use resource_attempts_fst in blast)
  ultimately have "sorted (map (\<lambda>a. rid (fst a)) (resource_attempts ctx d r))" by (simp only:)
  moreover have "rid (fst b) \<le> rid (fst a)"
    if "b \<in> set (resource_attempts ctx d r)" "a \<in> set (resource_attempts ctx d r')" "r' \<in> set rs" for a b r'
    using resource_attempts_fst [OF that(1)] resource_attempts_fst [OF that(2)] that(3) Cons.prems by auto
  ultimately show ?case using Cons by (fastforce simp: sorted_append)
qed simp

lemma slots_attempts:
  assumes "calculate_availability ctx d now = Inr slots"
  shows "s \<in> set slots \<longleftrightarrow> ac_active ctx \<and> ac_bookable ctx \<and>
    s \<in> slot_of ctx d ` set (first_per_key (\<lambda>a. utc (snd (snd a))) {}
           (filter (accepts ctx (utc now) d) (all_attempts ctx d)))"
  using calculate_availability_pass [OF assms] by auto

lemma slot_start_of [simp]: "slot_start (slot_of ctx d a) = utc (snd (snd a))"
  by (simp add: slot_start_def slot_of_def Let_def)

lemma all_attempts_set: "set (all_attempts ctx d) = (\<Union>r \<in> set (ac_resources ctx). set (resource_attempts ctx d r))"
  by (simp add: all_attempts_def)

lemma slot_starts_eq:
  assumes "calculate_availability ctx d now = Inr slots" and "grid_proper ctx d"
  shows "slot_start ` set slots = {t. \<exists>r \<in> set (ac_resources ctx). offers ctx (utc now) d r t}"
proof -
  let ?key = "\<lambda>a :: attempt. utc (snd (snd a))"
  let ?ok = "filter (accepts ctx (utc now) d) (all_attempts ctx d)"
  have "slot_start ` set slots = (if ac_active ctx \<and> ac_bookable ctx then ?key ` set ?ok else {})"
  proof (cases "ac_active ctx \<and> ac_bookable ctx")
    case True
    then have "set slots = slot_of ctx d ` set (first_per_key ?key {} ?ok)"
      using slots_attempts [OF assms(1)] by blast
    then have "slot_start ` set slots = ?key ` set (first_per_key ?key {} ?ok)"
      by (simp add: image_image)
    then show ?thesis using True first_per_key_keys [of ?key "{}" ?ok] by simp
  next
    case False
    then have "slots = []" using calculate_availability_pass [OF assms(1)] by (auto split: if_splits)
    then show ?thesis using False by auto
  qed
  also have "\<dots> = {t. ac_active ctx \<and> ac_bookable ctx \<and> (\<exists>r \<in> set (ac_resources ctx).
      \<exists>a \<in> set (resource_attempts ctx d r). ?key a = t \<and> accepts ctx (utc now) d a)}"
    by (auto simp: all_attempts_set)
  also have "\<dots> = {t. \<exists>r \<in> set (ac_resources ctx). offers ctx (utc now) d r t}"
  proof (intro Collect_cong)
    fix t
    have "(\<exists>r \<in> set (ac_resources ctx). offers ctx (utc now) d r t) \<longleftrightarrow>
      (\<exists>r \<in> set (ac_resources ctx). ac_active ctx \<and> ac_bookable ctx
        \<and> (\<exists>a \<in> set (resource_attempts ctx d r). ?key a = t \<and> accepts ctx (utc now) d a))"
      by (intro bex_cong refl offers_iff_attempt [OF assms(2)])
    then show "(ac_active ctx \<and> ac_bookable ctx \<and> (\<exists>r \<in> set (ac_resources ctx).
      \<exists>a \<in> set (resource_attempts ctx d r). ?key a = t \<and> accepts ctx (utc now) d a))
      \<longleftrightarrow> (\<exists>r \<in> set (ac_resources ctx). offers ctx (utc now) d r t)"
      by (simp only: bex_simps)
  qed
  finally show ?thesis .
qed

lemma slot_starts_sorted:
  assumes "calculate_availability ctx d now = Inr slots"
  shows "sorted_wrt (<) (map slot_start slots)"
proof -
  let ?key = "\<lambda>a :: attempt. utc (snd (snd a))"
  let ?L = "map (slot_of ctx d) (first_per_key ?key {} (filter (accepts ctx (utc now) d) (all_attempts ctx d)))"
  have cases: "slots = sorted_by slot_key ?L \<or> slots = []"
    using calculate_availability_pass [OF assms] by auto
  have "distinct (map slot_start ?L)"
    using first_per_key_distinct [of ?key "{}"] by (simp add: comp_def)
  then have "distinct (map slot_start (sorted_by slot_key ?L))"
    by (simp only: distinct_map distinct_sort set_sort)
  moreover have "sorted (map slot_start (sorted_by slot_key ?L))"
  proof -
    have "sorted_wrt (\<lambda>a b. slot_key a \<le> slot_key b) (sorted_by slot_key ?L)"
      using sorted_sort_key [of slot_key ?L] by (simp add: sorted_map)
    then have "sorted_wrt (\<lambda>a b. slot_start a \<le> slot_start b) (sorted_by slot_key ?L)"
      by (rule sorted_wrt_mono_rel [rotated]) (auto simp: slot_key_def slot_start_def less_eq_prod_def less_le)
    then show ?thesis by (simp add: sorted_map)
  qed
  ultimately show ?thesis using cases by (auto simp: strict_sorted_iff)
qed

lemma slot_first_resource:
  assumes "calculate_availability ctx d now = Inr slots" and "grid_proper ctx d" and "s \<in> set slots"
  shows "\<exists>r \<in> set (ac_resources ctx). offers ctx (utc now) d r (slot_start s) \<and> sl_resource_id s = ar_id r
    \<and> sl_end_at s = utc_datetime (slot_start s + ac_duration ctx)
    \<and> (\<forall>r' \<in> set (ac_resources ctx). offers ctx (utc now) d r' (slot_start s) \<longrightarrow> rid r \<le> rid r')"
proof -
  let ?key = "\<lambda>a :: attempt. utc (snd (snd a))"
  let ?ok = "filter (accepts ctx (utc now) d) (all_attempts ctx d)"
  obtain a where open_s: "ac_active ctx" "ac_bookable ctx" and s: "s = slot_of ctx d a"
    and a: "a \<in> set (first_per_key ?key {} ?ok)"
    using slots_attempts [OF assms(1)] assms(3) by auto
  obtain pre post where pp: "?ok = pre @ a # post" "?key a \<notin> ?key ` set pre"
    using first_per_key_first [OF a] by blast
  have "a \<in> set ?ok" using pp(1) by simp
  then obtain r where r: "r \<in> set (ac_resources ctx)" "a \<in> set (resource_attempts ctx d r)"
    and acc: "accepts ctx (utc now) d a" by (auto simp: all_attempts_set)
  have "sorted (map (\<lambda>a. rid (fst a)) (all_attempts ctx d))"
    unfolding all_attempts_def by (rule attempts_sorted) simp
  then have srt: "sorted (map (\<lambda>a. rid (fst a)) ?ok)"
    by (rule sorted_filter)
  have first: "rid r \<le> rid r'" if r': "r' \<in> set (ac_resources ctx)" "offers ctx (utc now) d r' (?key a)" for r'
  proof -
    obtain b where b: "b \<in> set (resource_attempts ctx d r')" "?key b = ?key a" "accepts ctx (utc now) d b"
      using offers_iff_attempt [OF assms(2) r'(1)] r'(2) by auto
    then have "b \<in> set ?ok" using r'(1) by (auto simp: all_attempts_set)
    then have "b \<in> set (a # post)" using pp b(2) by (auto simp: image_iff)
    then have "rid (fst a) \<le> rid (fst b)" using srt unfolding pp(1) by (auto simp: sorted_append)
    then show ?thesis using resource_attempts_fst [OF b(1)] resource_attempts_fst [OF r(2)] by simp
  qed
  have "offers ctx (utc now) d r (?key a)"
    using offers_iff_attempt [OF assms(2) r(1)] open_s r(2) acc by auto
  then show ?thesis
    using r(1) first resource_attempts_fst [OF r(2)]
    by (intro bexI [of _ r] conjI) (simp_all add: s, simp_all add: slot_of_def Let_def)
qed

text \<open>The capacity in use at an instant.\<close>

definition used_at :: "available_resource \<Rightarrow> instant \<Rightarrow> int" where
  "used_at r x = sum_list (map bp_capacity_used (filter (\<lambda>p.
     utc (tr_start (bp_time_range p)) \<le> x \<and> x < utc (tr_end (bp_time_range p))) (ar_busy_periods r)))"

lemma has_capacity_used:
  assumes "has_capacity r occ" and "\<And>p. p \<in> set (ar_busy_periods r) \<Longrightarrow> 0 \<le> bp_capacity_used p"
    and "utc (tr_start occ) \<le> x" and "x < utc (tr_end occ)"
  shows "used_at r x + 1 \<le> ar_capacity r"
proof -
  have "used_at r x \<le> sum_list (map bp_capacity_used
      (filter (\<lambda>p. ranges_overlap (bp_time_range p) occ) (ar_busy_periods r)))"
    unfolding used_at_def
    by (rule sum_list_filter_le [OF assms(2)]) (use assms(3,4) in \<open>auto simp: ranges_overlap_def\<close>)
  then show ?thesis using assms(1) by (simp add: has_capacity_def Let_def)
qed

section \<open>Facts: dates\<close>

definition has_slots :: "availability_context \<Rightarrow> datetime \<Rightarrow> date \<Rightarrow> bool" where
  "has_slots ctx now d = (case calculate_availability ctx d now of Inl _ \<Rightarrow> False | Inr slots \<Rightarrow> slots \<noteq> [])"

lemma collect_dates_spec:
  "\<lbrakk> collect_dates ctx now days horizon_date found candidate = Inr ds; length found \<le> nat days \<rbrakk>
   \<Longrightarrow> ds = take (nat days) (found @ filter (has_slots ctx now) [candidate..horizon_date])"
proof (induction ctx now days horizon_date found candidate rule: collect_dates.induct)
  case (1 ctx now days horizon_date found candidate)
  show ?case
  proof (cases "candidate \<le> horizon_date \<and> int (length found) < days")
    case True
    then obtain slots where slots: "calculate_availability ctx candidate now = Inr slots"
      and rec: "collect_dates ctx now days horizon_date
        (if slots \<noteq> [] then found @ [candidate] else found) (candidate + 1) = Inr ds"
      using "1.prems"(1) by (subst (asm) collect_dates.simps) (auto simp: res_bind_Inr_iff)
    have "ds = take (nat days) ((if slots \<noteq> [] then found @ [candidate] else found)
        @ filter (has_slots ctx now) [candidate + 1..horizon_date])"
      by (rule "1.IH" [OF True rec]) (use True in auto)
    moreover have "[candidate..horizon_date] = candidate # [candidate + 1..horizon_date]"
      using True by (simp add: upto_rec1)
    moreover have "has_slots ctx now candidate \<longleftrightarrow> slots \<noteq> []" by (simp add: has_slots_def slots)
    moreover have "nat days - length found = Suc (nat days - Suc (length found))" using True by linarith
    ultimately show ?thesis by (cases "slots = []") simp_all
  next
    case False
    then have ds: "ds = found" using "1.prems"(1) by (subst (asm) collect_dates.simps) auto
    show ?thesis
    proof (cases "candidate \<le> horizon_date")
      case True
      then show ?thesis using False "1.prems"(2) ds by simp
    next
      case stop: False
      then show ?thesis using "1.prems"(2) ds by simp
    qed
  qed
qed

section \<open>Facts: the calculation returns\<close>

lemma res_fold_is_ok:
  assumes "\<And>x s. x \<in> set xs \<Longrightarrow> is_ok (f x s)"
  shows "is_ok (res_fold f xs s)"
  using assms
proof (induction xs arbitrary: s)
  case (Cons x xs)
  obtain s' where "f x s = Inr s'" using Cons.prems [of x s] by (auto simp: is_ok_iff)
  then show ?case using Cons.IH [of s'] Cons.prems by simp
qed simp

lemma visit_start_ok:
  assumes "0 < ac_duration ctx" and "0 \<le> ac_cleanup_buffer ctx"
  shows "is_ok (visit_start ctx n d r cl ls st)"
proof (cases st)
  case (Pair cs seen)
  have "mk_time_range (utc_datetime t) (utc_datetime (t + ac_duration ctx + ac_cleanup_buffer ctx))
      = Inr \<lparr>tr_start = utc_datetime t, tr_end = utc_datetime (t + ac_duration ctx + ac_cleanup_buffer ctx)\<rparr>" for t
    using assms by (simp add: mk_time_range_def ensure_aware_def)
  then show ?thesis by (simp add: Pair visit_start_def Let_def)
qed

lemma visit_interval_ok:
  assumes "0 < ac_duration ctx" and "0 \<le> ac_cleanup_buffer ctx"
    and "second_us \<le> po_slot_interval (ac_policy ctx)"
  shows "is_ok (visit_interval ctx n d r iv st)"
proof -
  have "second_us div second_us \<le> po_slot_interval (ac_policy ctx) div second_us"
    by (rule zdiv_mono1 [OF assms(3)]) (simp add: second_us_def)
  then have "interval_seconds (po_slot_interval (ac_policy ctx)) \<noteq> 0"
    by (auto simp: interval_seconds_def second_us_def)
  then obtain c where "first_cursor (po_slot_interval (ac_policy ctx)) d (fst iv) = Inr c"
    by (auto simp: first_cursor_def Let_def)
  then show ?thesis
    by (simp add: visit_interval_def Let_def, intro res_fold_is_ok)
      (simp add: visit_cursor_def, intro res_fold_is_ok visit_start_ok assms)
qed

section \<open>Properties\<close>

text \<open>
  C2. The offered start times are exactly the instants at which some resource of the service can take
  the appointment: inside the booking window, on the slot grid of one of its business intervals, with
  the appointment and its buffer ending on the same date by closing time, and with capacity left. Each
  is offered once, in ascending order.
\<close>

theorem availability_exact:
  assumes "calculate_availability ctx d now = Inr slots" and "grid_proper ctx d"
  shows "sorted_wrt (<) (map slot_start slots) \<and>
    slot_start ` set slots = {t. \<exists>r \<in> set (ac_resources ctx). offers ctx (utc now) d r t}"
  using slot_starts_sorted [OF assms(1)] slot_starts_eq [OF assms] by blast

text \<open>A chair that is taken from 09:00 to 10:30 UTC, and a second one that is free.\<close>

definition example_resource :: "uuid \<Rightarrow> busy_period list \<Rightarrow> available_resource" where
  "example_resource u busy = \<lparr>ar_id = ResourceId u, ar_schedule = example_schedule, ar_capacity = 1,
     ar_active = True, ar_busy_periods = busy\<rparr>"

definition example_context :: availability_context where
  "example_context = \<lparr>ac_tenant_id = TenantId 1, ac_service_id = ServiceId 1, ac_service_name = ''Cut'',
     ac_duration = 3600000000, ac_cleanup_buffer = 900000000, ac_active = True, ac_bookable = True,
     ac_policy = \<lparr>po_slot_interval = 3600000000, po_booking_horizon = 30 * 86400000000,
       po_minimum_notice = 3600000000, po_hold_duration = 600000000, po_draft_duration = 1800000000,
       po_change_cutoff = 0, po_customer_name_max_length = 80, po_customer_phone_max_length = 32,
       po_customer_note_max_length = 500\<rparr>,
     ac_resources = [example_resource 2 [],
       example_resource 1 [\<lparr>bp_time_range = \<lparr>tr_start = utc_datetime (739040 * 86400000000 + 32400000000),
           tr_end = utc_datetime (739040 * 86400000000 + 37800000000)\<rparr>, bp_capacity_used = 1\<rparr>]]\<rparr>"

definition example_now :: datetime where
  "example_now = utc_datetime (739040 * 86400000000 + 28800000000)"

lemma example_day:
  "effective_day_of example_schedule 739040 = Inr \<lparr>ed_local_date = 739040,
     ed_intervals = [(32400000000, 43200000000), (46800000000, 61200000000)],
     ed_source = ''weekly'', ed_reason = None\<rparr>"
  by code_simp

lemma calculate_ok:
  assumes "aware now" and "0 < ac_duration ctx" and "0 \<le> ac_cleanup_buffer ctx"
    and "second_us \<le> po_slot_interval (ac_policy ctx)"
    and "\<And>r. r \<in> set (ac_resources ctx) \<Longrightarrow> ar_active r \<Longrightarrow> bs_active (ar_schedule r)
      \<Longrightarrow> is_ok (effective_day_of (ar_schedule r) d)"
  shows "is_ok (calculate_availability ctx d now)"
proof -
  have "is_ok (visit_resource ctx (utc now) d r st)" if r: "r \<in> set (ac_resources ctx)" for r st
  proof (cases "ar_active r \<and> bs_active (ar_schedule r)")
    case True
    then obtain day where "effective_day_of (ar_schedule r) d = Inr day"
      using assms(5) [OF r] unfolding is_ok_iff by blast
    then show ?thesis using True
      by (simp add: visit_resource_def res_fold_is_ok visit_interval_ok assms(2-4))
  qed (auto simp: visit_resource_def)
  then have "is_ok (res_fold (visit_resource ctx (utc now) d)
      (sorted_by (\<lambda>r. uuid_str (resource_uuid (ar_id r))) (ac_resources ctx)) ([], {}))"
    by (intro res_fold_is_ok) simp
  then obtain p where "res_fold (visit_resource ctx (utc now) d)
      (sorted_by (\<lambda>r. uuid_str (resource_uuid (ar_id r))) (ac_resources ctx)) ([], {}) = Inr p"
    by (auto simp: is_ok_iff)
  then show ?thesis using assms(1) by (simp add: calculate_availability_def split: prod.splits)
qed

lemma example_slots: "\<exists>slots. calculate_availability example_context 739040 example_now = Inr slots"
proof -
  have "is_ok (calculate_availability example_context 739040 example_now)"
    by (rule calculate_ok) (auto simp: example_now_def example_context_def example_resource_def
        second_us_def example_day)
  then show ?thesis by (simp add: is_ok_iff)
qed

lemma example_grid: "grid_proper example_context 739040"
  using example_schedule_proper
  by (simp add: grid_proper_def example_context_def example_resource_def day_intervals_of_def
      example_day second_us_def schedule_proper_def)

lemma example_offer:
  "offers example_context (utc example_now) 739040 (example_resource 2 []) (739040 * 86400000000 + 32400000000)"
  by code_simp

theorem availability_exact_witness:
  "\<exists>slots. calculate_availability example_context 739040 example_now = Inr slots
     \<and> sorted_wrt (<) (map slot_start slots) \<and> 739040 * 86400000000 + 32400000000 \<in> slot_start ` set slots"
proof -
  obtain slots where s: "calculate_availability example_context 739040 example_now = Inr slots"
    using example_slots by blast
  have "example_resource 2 [] \<in> set (ac_resources example_context)" by (simp add: example_context_def)
  then show ?thesis using availability_exact [OF s example_grid] s example_offer by auto
qed

text \<open>
  A slot names the first resource, in the order of the identifiers' text, that can take the
  appointment; it ends after the service's duration, and at no instant of the appointment and its
  buffer does it take the resource beyond its capacity.
\<close>

theorem slot_resource_not_overbooked:
  assumes "calculate_availability ctx d now = Inr slots" and "grid_proper ctx d" and "s \<in> set slots"
    and "\<forall>r \<in> set (ac_resources ctx). \<forall>p \<in> set (ar_busy_periods r). 0 \<le> bp_capacity_used p"
  shows "\<exists>r \<in> set (ac_resources ctx). sl_resource_id s = ar_id r
    \<and> sl_end_at s = utc_datetime (slot_start s + ac_duration ctx)
    \<and> offers ctx (utc now) d r (slot_start s)
    \<and> (\<forall>r' \<in> set (ac_resources ctx). offers ctx (utc now) d r' (slot_start s) \<longrightarrow> rid r \<le> rid r')
    \<and> (\<forall>x. slot_start s \<le> x \<and> x < occupied_end ctx (slot_start s) \<longrightarrow> used_at r x + 1 \<le> ar_capacity r)"
proof -
  obtain r where r: "r \<in> set (ac_resources ctx)" "offers ctx (utc now) d r (slot_start s)"
    "sl_resource_id s = ar_id r" "sl_end_at s = utc_datetime (slot_start s + ac_duration ctx)"
    "\<forall>r' \<in> set (ac_resources ctx). offers ctx (utc now) d r' (slot_start s) \<longrightarrow> rid r \<le> rid r'"
    using slot_first_resource [OF assms(1-3)] by blast
  have cap: "has_capacity r (occupied_range ctx (slot_start s))" using r(2) by (simp add: offers_def)
  have "used_at r x + 1 \<le> ar_capacity r" if "slot_start s \<le> x" "x < occupied_end ctx (slot_start s)" for x
    by (rule has_capacity_used [OF cap]) (use that assms(4) r(1) in \<open>simp_all add: occupied_range_def\<close>)
  then show ?thesis using r by blast
qed

theorem slot_resource_not_overbooked_witness:
  "\<exists>slots s r. calculate_availability example_context 739040 example_now = Inr slots \<and> s \<in> set slots
     \<and> slot_start s = 739040 * 86400000000 + 32400000000 \<and> r \<in> set (ac_resources example_context)
     \<and> sl_resource_id s = ar_id r \<and> used_at r (slot_start s) + 1 \<le> ar_capacity r"
proof -
  obtain slots where s: "calculate_availability example_context 739040 example_now = Inr slots"
    using example_slots by blast
  have mem: "example_resource 2 [] \<in> set (ac_resources example_context)" by (simp add: example_context_def)
  have "739040 * 86400000000 + 32400000000 \<in> slot_start ` set slots"
    unfolding slot_starts_eq [OF s example_grid] by (rule CollectI, rule bexI [of _ "example_resource 2 []"], rule example_offer, rule mem)
  then obtain sl where eq: "739040 * 86400000000 + 32400000000 = slot_start sl" and mem_s: "sl \<in> set slots"
    by (rule imageE)
  note sl = mem_s eq [symmetric]
  have busy: "\<forall>r \<in> set (ac_resources example_context). \<forall>p \<in> set (ar_busy_periods r). 0 \<le> bp_capacity_used p"
    by (simp add: example_context_def example_resource_def)
  obtain r where "r \<in> set (ac_resources example_context)" "sl_resource_id sl = ar_id r"
    "\<forall>x. slot_start sl \<le> x \<and> x < occupied_end example_context (slot_start sl) \<longrightarrow> used_at r x + 1 \<le> ar_capacity r"
    using slot_resource_not_overbooked [OF s example_grid sl(1) busy] by (elim bexE conjE)
  moreover have "slot_start sl < occupied_end example_context (slot_start sl)"
    by (simp add: occupied_end_def example_context_def)
  ultimately show ?thesis using s sl by blast
qed

text \<open>
  The dates offered are the first ones, at most as many as asked for, among the days from today to
  the end of the booking horizon that have a slot.
\<close>

theorem service_dates_first:
  assumes "service_dates (Some ctx) now days = Inr ds" and "ac_resources ctx = r # rs"
  shows "ds = take (nat days) (filter (has_slots ctx now)
    [wall_date (local_of (bs_zone (ar_schedule r)) (utc now))..
     wall_date (local_of (bs_zone (ar_schedule r)) (utc now + po_booking_horizon (ac_policy ctx)))])"
  using assms collect_dates_spec [of ctx now days _ "[]" _ ds]
  by (simp add: service_dates_def Let_def local_of_def)

theorem service_dates_first_witness:
  "service_dates (Some example_context) example_now 1 = Inr [739040] \<and>
   [739040] = take 1 (filter (has_slots example_context example_now)
    [wall_date (local_of example_zone (utc example_now))..
     wall_date (local_of example_zone (utc example_now + 30 * 86400000000))])"
proof -
  obtain slots where s: "calculate_availability example_context 739040 example_now = Inr slots"
    using example_slots by blast
  have "example_resource 2 [] \<in> set (ac_resources example_context)" by (simp add: example_context_def)
  then have "slots \<noteq> []" using slot_starts_eq [OF s example_grid] example_offer by auto
  obtain rest where res: "ac_resources example_context = example_resource 2 [] # rest"
    by (simp add: example_context_def)
  have zone: "bs_zone (ar_schedule (example_resource 2 [])) = example_zone"
    by (simp add: example_resource_def example_schedule_def)
  have hor: "po_booking_horizon (ac_policy example_context) = 30 * 86400000000"
    by (simp add: example_context_def)
  have days: "wall_date (local_of example_zone (utc example_now)) = 739040"
    "wall_date (local_of example_zone (utc example_now + 30 * 86400000000)) = 739070"
    by code_simp+
  have "collect_dates example_context example_now 1 739070 [] 739040 = Inr [739040]"
    using s \<open>slots \<noteq> []\<close> by (simp add: collect_dates.simps)
  then have run: "service_dates (Some example_context) example_now 1 = Inr [739040]"
    unfolding service_dates_def option.case res list.case Let_def zone hor
    using days by (simp add: local_of_def)
  show ?thesis using service_dates_first [OF run res] run unfolding zone hor by simp
qed

end
