(* ===== verification/Tables.thy ===== *)
theory Tables
  imports Aggregates
begin

text \<open>
  What the persistence adapters share: a transaction as a function of the tables that either
  returns the new tables and a result or raises, in which case nothing is stored (\<open>run_tx\<close>, the
  source's \<open>session.begin()\<close>), the exception of a violated constraint, and the two tables several
  adapters write: conversations and the outbox (infrastructure/persistence/sqlalchemy/models.py).
\<close>

section \<open>Transactions\<close>

type_synonym ('d, 'a) tx = "'d \<Rightarrow> ('d \<times> 'a) res"

definition run_tx :: "('d, 'a) tx \<Rightarrow> 'd \<Rightarrow> 'd \<times> 'a res" where
  "run_tx op db = (case op db of Inl e \<Rightarrow> (db, Inl e) | Inr (db', x) \<Rightarrow> (db', Inr x))"

lemma run_tx_inv:
  assumes "P db" and "\<And>db' x. op db = Inr (db', x) \<Longrightarrow> P db'"
  shows "P (fst (run_tx op db))"
  using assms by (auto simp: run_tx_def split: sum.splits)

lemma run_tx_simps [simp]:
  "op db = Inr (db', x) \<Longrightarrow> run_tx op db = (db', Inr x)"
  "op db = Inl e \<Longrightarrow> run_tx op db = (db, Inl e)"
  by (simp_all add: run_tx_def)

text \<open>
  A use case runs transactions one after the other; what one has committed stays when a later step
  raises.
\<close>

type_synonym ('d, 'a) act = "'d \<Rightarrow> 'd \<times> 'a res"

definition act_bind :: "('d, 'a) act \<Rightarrow> ('a \<Rightarrow> ('d, 'b) act) \<Rightarrow> ('d, 'b) act" where
  "act_bind m f d = (case m d of (d', Inl e) \<Rightarrow> (d', Inl e) | (d', Inr x) \<Rightarrow> f x d')"

definition act_return :: "'a \<Rightarrow> ('d, 'a) act" where
  "act_return x d = (d, Inr x)"

definition act_res :: "'a res \<Rightarrow> ('d, 'a) act" where
  "act_res r d = (d, r)"

lemma act_simps [simp]:
  "act_return x d = (d, Inr x)" "act_res r d = (d, r)"
  "m d = (d', Inr x) \<Longrightarrow> act_bind m f d = f x d'"
  "m d = (d', Inl e) \<Longrightarrow> act_bind m f d = (d', Inl e)"
  by (simp_all add: act_return_def act_res_def act_bind_def)

text \<open>A use case keeps what each of its transactions keeps.\<close>

definition act_keeps :: "('d \<Rightarrow> bool) \<Rightarrow> ('d, 'a) act \<Rightarrow> bool" where
  "act_keeps P m = (\<forall>d. P d \<longrightarrow> P (fst (m d)))"

lemma act_keeps_intros:
  "act_keeps P (act_return x)" "act_keeps P (act_res r)"
  "act_keeps P m \<Longrightarrow> (\<And>x. act_keeps P (f x)) \<Longrightarrow> act_keeps P (act_bind m f)"
  by (auto simp: act_keeps_def act_bind_def act_return_def act_res_def split: prod.splits sum.splits)

lemma run_tx_keeps:
  assumes "\<And>d d' x. P d \<Longrightarrow> op d = Inr (d', x) \<Longrightarrow> P d'"
  shows "act_keeps P (run_tx op)"
  using assms by (auto simp: act_keeps_def run_tx_def split: sum.splits)

text \<open>\<open>sqlalchemy.exc.IntegrityError\<close>\<close>

definition integrity_error :: exc where
  "integrity_error = OtherException ''IntegrityError''"

section \<open>JSON columns\<close>

definition json_opt :: "('a \<Rightarrow> json) \<Rightarrow> 'a option \<Rightarrow> json" where
  "json_opt f x = (case x of None \<Rightarrow> JNull | Some y \<Rightarrow> f y)"

section \<open>Conversations\<close>

record conversation_row =
  cw_id :: conversation_id
  cw_tenant_id :: tenant_id
  cw_customer_id :: customer_id
  cw_status :: conversation_status
  cw_active_workflow :: "string option"

section \<open>The outbox\<close>

datatype outbox_status = O_PENDING | O_PROCESSING | O_PUBLISHED | O_DEAD_LETTER

text \<open>
  The identifier of an event is \<open>uuid5\<close> of \<open>ob_name\<close>, so two events with the same name violate
  the unique constraint.
\<close>

record outbox_row =
  ob_name :: string
  ob_tenant_id :: tenant_id
  ob_aggregate_type :: string
  ob_aggregate_id :: uuid
  ob_event_type :: string
  ob_payload :: "(string, json) dict"
  ob_status :: outbox_status
  ob_attempts :: int
  ob_available_at :: instant
  ob_locked_at :: "instant option"
  ob_published_at :: "instant option"
  ob_last_error_code :: "string option"
  ob_occurred_at :: instant

definition event_name :: "tenant_id \<Rightarrow> string \<Rightarrow> string" where
  "event_name t key = ''business-assistant:'' @ uuid_str (tenant_uuid t) @ '':'' @ key"

text \<open>A new event is pending, available and has not been tried.\<close>

definition new_event ::
  "tenant_id \<Rightarrow> string \<Rightarrow> uuid \<Rightarrow> string \<Rightarrow> string \<Rightarrow> (string, json) dict \<Rightarrow> instant \<Rightarrow> outbox_row" where
  "new_event t aggregate_type aggregate event_type key payload now =
     \<lparr>ob_name = event_name t key, ob_tenant_id = t, ob_aggregate_type = aggregate_type,
      ob_aggregate_id = aggregate, ob_event_type = event_type, ob_payload = payload,
      ob_status = O_PENDING, ob_attempts = 0, ob_available_at = now, ob_locked_at = None,
      ob_published_at = None, ob_last_error_code = None, ob_occurred_at = now\<rparr>"

definition add_event :: "outbox_row \<Rightarrow> outbox_row list \<Rightarrow> outbox_row list res" where
  "add_event e events = (if list_ex (\<lambda>x. ob_name e = ob_name x) events then Inl integrity_error
     else Inr (events @ [e]))"

lemma add_event_Inr:
  "add_event e events = Inr es \<longleftrightarrow> ob_name e \<notin> ob_name ` set events \<and> es = events @ [e]"
  by (auto simp: add_event_def list_ex_iff image_iff)

end
