(* ===== verification/BookingStore.thy ===== *)
theory BookingStore
  imports Availability Tables
begin

text \<open>
  The transactional booking store, \<open>infrastructure/persistence/booking.py\<close>, over the tables of
  \<open>sqlalchemy/models.py\<close> it reads and writes. A table is the list of its rows in insertion order; a
  \<open>timestamptz\<close> is an instant; the statuses the CHECK constraints list are the domain's enums. An
  operation is a function from the database to an exception or the changed database and the result:
  the session commits on return and rolls back when it raises, so an exception keeps no write
  (\<open>run_tx\<close>). Operations are whole transactions, which the advisory locks of the source make of
  competing ones for one identity or resource. \<open>uuid4()\<close> is an argument. Foreign keys and
  \<open>created_at\<close> are not modelled (rows keep their insertion order); schedules are stored as the
  aggregates \<open>schedule_from_rows\<close> builds.
\<close>

section \<open>Rows (infrastructure/persistence/sqlalchemy/models.py, application/bookings/models.py)\<close>

record service_row =
  sr_tenant_id :: tenant_id
  sr_id :: service_id
  sr_code :: string
  sr_names :: "(string, string) dict"
  sr_duration_seconds :: int
  sr_buffer_seconds :: int
  sr_price_mode :: string
  sr_price_min_minor :: "int option"
  sr_price_max_minor :: "int option"
  sr_currency :: "string option"
  sr_active :: bool
  sr_bookable :: bool

record policy_row =
  pw_tenant_id :: tenant_id
  pw_slot_interval_minutes :: int
  pw_booking_horizon_days :: int
  pw_minimum_notice_minutes :: int
  pw_hold_duration_minutes :: int
  pw_draft_expiry_minutes :: int
  pw_change_cutoff_minutes :: int
  pw_customer_name_max_length :: int
  pw_customer_phone_max_length :: int
  pw_customer_note_max_length :: int

record resource_row =
  rr_id :: resource_id
  rr_tenant_id :: tenant_id
  rr_schedule_id :: schedule_id
  rr_capacity :: int
  rr_active :: bool

record service_resource_row =
  sx_tenant_id :: tenant_id
  sx_service_id :: service_id
  sx_resource_id :: resource_id
  sx_active :: bool

record unavailability_row =
  ur_tenant_id :: tenant_id
  ur_resource_id :: resource_id
  ur_start_at :: instant
  ur_end_at :: instant
  ur_active :: bool

record booking_draft =
  dr_id :: booking_draft_id
  dr_tenant_id :: tenant_id
  dr_customer_id :: customer_id
  dr_conversation_id :: conversation_id
  dr_service_id :: service_id
  dr_selected_date :: "date option"
  dr_hold_id :: "slot_hold_id option"
  dr_customer_name :: "string option"
  dr_customer_phone :: "string option"
  dr_customer_note :: "string option"
  dr_status :: draft_status
  dr_expires_at :: instant
  dr_reschedule_booking_id :: "booking_id option"

record slot_hold_row =
  hr_id :: slot_hold_id
  hr_tenant_id :: tenant_id
  hr_customer_id :: customer_id
  hr_conversation_id :: conversation_id
  hr_draft_id :: booking_draft_id
  hr_service_id :: service_id
  hr_resource_id :: resource_id
  hr_start_at :: instant
  hr_end_at :: instant
  hr_expires_at :: instant
  hr_idempotency_key :: string
  hr_status :: hold_status
  hr_timezone :: string

record booking_row =
  br_id :: booking_id
  br_tenant_id :: tenant_id
  br_customer_id :: customer_id
  br_conversation_id :: "conversation_id option"
  br_service_id :: service_id
  br_resource_id :: "resource_id option"
  br_hold_id :: "slot_hold_id option"
  br_public_reference :: "string option"
  br_start_at :: instant
  br_end_at :: instant
  br_status :: booking_status
  br_idempotency_scope :: string
  br_idempotency_value :: string
  br_service_snapshot :: "(string, json) dict"
  br_customer_snapshot :: "(string, json) dict"
  br_notes :: "string option"
  br_source :: string

record history_row =
  hy_tenant_id :: tenant_id
  hy_booking_id :: booking_id
  hy_sequence :: int
  hy_from_status :: booking_status
  hy_to_status :: booking_status
  hy_actor :: string
  hy_reason :: string

record tenant_row =
  tw_id :: tenant_id
  tw_timezone :: string
  tw_zone :: zone
  tw_status :: tenant_status
  tw_booking_enabled :: bool

record booking_db =
  db_services :: "service_row list"
  db_policies :: "policy_row list"
  db_resources :: "resource_row list"
  db_service_resources :: "service_resource_row list"
  db_schedules :: "business_schedule list"
  db_unavailability :: "unavailability_row list"
  db_tenants :: "tenant_row list"
  db_conversations :: "conversation_row list"
  db_drafts :: "booking_draft list"
  db_holds :: "slot_hold_row list"
  db_bookings :: "booking_row list"
  db_history :: "history_row list"
  db_outbox :: "outbox_row list"

record slot_hold =
  ho_id :: slot_hold_id
  ho_tenant_id :: tenant_id
  ho_customer_id :: customer_id
  ho_conversation_id :: conversation_id
  ho_draft_id :: booking_draft_id
  ho_service_id :: service_id
  ho_resource_id :: resource_id
  ho_time_range :: time_range
  ho_expires_at :: instant
  ho_status :: hold_status
  ho_timezone :: string

record booking_result =
  bt_id :: booking_id
  bt_service_id :: service_id
  bt_public_reference :: string
  bt_service_name :: string
  bt_start_at :: instant
  bt_end_at :: instant
  bt_timezone :: string
  bt_status :: string

type_synonym 'a store_op = "(booking_db, 'a) tx"

section \<open>Mappers\<close>

definition policy_of_row :: "policy_row \<Rightarrow> booking_policy res" where
  "policy_of_row row = policy_post_init
     \<lparr>po_slot_interval = pw_slot_interval_minutes row * minute_us,
      po_booking_horizon = pw_booking_horizon_days row * day_us,
      po_minimum_notice = pw_minimum_notice_minutes row * minute_us,
      po_hold_duration = pw_hold_duration_minutes row * minute_us,
      po_draft_duration = pw_draft_expiry_minutes row * minute_us,
      po_change_cutoff = pw_change_cutoff_minutes row * minute_us,
      po_customer_name_max_length = pw_customer_name_max_length row,
      po_customer_phone_max_length = pw_customer_phone_max_length row,
      po_customer_note_max_length = pw_customer_note_max_length row\<rparr>"

definition hold_of_row :: "slot_hold_row \<Rightarrow> slot_hold res" where
  "hold_of_row h =
     res_bind (mk_time_range (utc_datetime (hr_start_at h)) (utc_datetime (hr_end_at h))) (\<lambda>range.
     Inr \<lparr>ho_id = hr_id h, ho_tenant_id = hr_tenant_id h, ho_customer_id = hr_customer_id h,
          ho_conversation_id = hr_conversation_id h, ho_draft_id = hr_draft_id h,
          ho_service_id = hr_service_id h, ho_resource_id = hr_resource_id h, ho_time_range = range,
          ho_expires_at = hr_expires_at h, ho_status = hr_status h, ho_timezone = hr_timezone h\<rparr>)"

text \<open>\<open>service.names.get("en", service.code)\<close>\<close>

definition service_name :: "service_row \<Rightarrow> string" where
  "service_name s = (case dict_get (sr_names s) ''en'' of Some n \<Rightarrow> n | None \<Rightarrow> sr_code s)"

section \<open>The availability snapshot (_availability_context)\<close>

definition find_service :: "booking_db \<Rightarrow> tenant_id \<Rightarrow> service_id \<Rightarrow> service_row option" where
  "find_service db t s = first_where (\<lambda>r. sr_tenant_id r = t \<and> sr_id r = s) (db_services db)"

definition find_policy :: "booking_db \<Rightarrow> tenant_id \<Rightarrow> policy_row option" where
  "find_policy db t = first_where (\<lambda>r. pw_tenant_id r = t) (db_policies db)"

definition find_tenant :: "booking_db \<Rightarrow> tenant_id \<Rightarrow> tenant_row option" where
  "find_tenant db t = first_where (\<lambda>r. tw_id r = t) (db_tenants db)"

definition find_schedule :: "booking_db \<Rightarrow> tenant_id \<Rightarrow> schedule_id \<Rightarrow> business_schedule option" where
  "find_schedule db t s = first_where (\<lambda>r. bs_tenant_id r = t \<and> bs_id r = s) (db_schedules db)"

definition resource_rows_for :: "booking_db \<Rightarrow> tenant_id \<Rightarrow> service_id \<Rightarrow> resource_row list" where
  "resource_rows_for db t s = sorted_by (\<lambda>r. resource_uuid (rr_id r))
     (filter (\<lambda>r. rr_tenant_id r = t \<and> list_ex (\<lambda>x. sx_tenant_id x = rr_tenant_id r
        \<and> sx_resource_id x = rr_id r \<and> sx_service_id x = s \<and> sx_active x) (db_service_resources db))
      (db_resources db))"

definition blocking_status :: "booking_status \<Rightarrow> bool" where
  "blocking_status st = (st = B_CONFIRMED \<or> st = B_RESCHEDULE_PENDING)"

text \<open>The bookings that block a resource, each with the buffer of its service.\<close>

definition blocking_bookings ::
  "booking_db \<Rightarrow> tenant_id \<Rightarrow> resource_id \<Rightarrow> instant \<Rightarrow> instant \<Rightarrow> (booking_row \<times> int) list" where
  "blocking_bookings db t r now horizon_end =
     concat (map (\<lambda>b. map (\<lambda>s. (b, sr_buffer_seconds s))
         (filter (\<lambda>s. sr_tenant_id s = br_tenant_id b \<and> sr_id s = br_service_id b) (db_services db)))
       (filter (\<lambda>b. br_tenant_id b = t \<and> br_resource_id b = Some r \<and> blocking_status (br_status b)
          \<and> now < br_end_at b \<and> br_start_at b < horizon_end) (db_bookings db)))"

definition blocking_holds ::
  "booking_db \<Rightarrow> tenant_id \<Rightarrow> resource_id \<Rightarrow> instant \<Rightarrow> instant \<Rightarrow> slot_hold_row list" where
  "blocking_holds db t r now horizon_end = filter (\<lambda>h. hr_tenant_id h = t \<and> hr_resource_id h = r
     \<and> hr_status h = HO_ACTIVE \<and> now < hr_expires_at h \<and> now < hr_end_at h
     \<and> hr_start_at h < horizon_end) (db_holds db)"

definition blocking_unavailability ::
  "booking_db \<Rightarrow> tenant_id \<Rightarrow> resource_id \<Rightarrow> instant \<Rightarrow> instant \<Rightarrow> unavailability_row list" where
  "blocking_unavailability db t r now horizon_end = filter (\<lambda>u. ur_tenant_id u = t \<and> ur_resource_id u = r
     \<and> ur_active u \<and> now < ur_end_at u \<and> ur_start_at u < horizon_end) (db_unavailability db)"

definition busy_period_of :: "instant \<Rightarrow> instant \<Rightarrow> int \<Rightarrow> busy_period res" where
  "busy_period_of s e used = res_bind (mk_time_range (utc_datetime s) (utc_datetime e)) (\<lambda>range.
     Inr \<lparr>bp_time_range = range, bp_capacity_used = used\<rparr>)"

definition busy_periods :: "booking_db \<Rightarrow> tenant_id \<Rightarrow> resource_row \<Rightarrow> instant \<Rightarrow> instant \<Rightarrow> busy_period list res" where
  "busy_periods db t r now horizon_end =
     res_bind (res_map (\<lambda>(b, buffer_seconds). busy_period_of (br_start_at b)
                  (br_end_at b + buffer_seconds * second_us) 1)
                (blocking_bookings db t (rr_id r) now horizon_end)) (\<lambda>booked.
     res_bind (res_map (\<lambda>h. busy_period_of (hr_start_at h) (hr_end_at h) 1)
                (blocking_holds db t (rr_id r) now horizon_end)) (\<lambda>held.
     res_bind (res_map (\<lambda>u. busy_period_of (ur_start_at u) (ur_end_at u) (rr_capacity r))
                (blocking_unavailability db t (rr_id r) now horizon_end)) (\<lambda>blocked.
     Inr (sorted_by (\<lambda>p. utc (tr_start (bp_time_range p))) (booked @ held @ blocked)))))"

definition context_resource ::
  "booking_db \<Rightarrow> tenant_id \<Rightarrow> instant \<Rightarrow> instant \<Rightarrow> resource_row \<Rightarrow> available_resource list res" where
  "context_resource db t now horizon_end r =
     res_bind (busy_periods db t r now horizon_end) (\<lambda>busy.
     case find_schedule db t (rr_schedule_id r) of
       None \<Rightarrow> Inr []
     | Some sched \<Rightarrow> Inr [\<lparr>ar_id = rr_id r, ar_schedule = sched, ar_capacity = rr_capacity r,
                          ar_active = rr_active r, ar_busy_periods = busy\<rparr>])"

definition availability_context_of ::
  "booking_db \<Rightarrow> tenant_id \<Rightarrow> service_id \<Rightarrow> instant \<Rightarrow> availability_context option res" where
  "availability_context_of db t s now =
     (case (find_service db t s, find_policy db t) of
        (Some sv, Some pol) \<Rightarrow>
          res_bind (res_map (context_resource db t now (now + (pw_booking_horizon_days pol + 1) * day_us))
                     (resource_rows_for db t s)) (\<lambda>resources.
          res_bind (policy_of_row pol) (\<lambda>policy.
          Inr (Some \<lparr>ac_tenant_id = t, ac_service_id = s, ac_service_name = service_name sv,
                ac_duration = sr_duration_seconds sv * second_us,
                ac_cleanup_buffer = sr_buffer_seconds sv * second_us,
                ac_active = sr_active sv, ac_bookable = sr_bookable sv,
                ac_policy = policy, ac_resources = concat resources\<rparr>)))
      | _ \<Rightarrow> Inr None)"

section \<open>Writing rows\<close>

definition put_draft :: "booking_draft \<Rightarrow> booking_db \<Rightarrow> booking_db" where
  "put_draft d db = db\<lparr>db_drafts := map (\<lambda>x. if dr_id x = dr_id d then d else x) (db_drafts db)\<rparr>"

definition set_holds :: "(slot_hold_row \<Rightarrow> bool) \<Rightarrow> hold_status \<Rightarrow> booking_db \<Rightarrow> booking_db" where
  "set_holds p st db = db\<lparr>db_holds := map (\<lambda>h. if p h then h\<lparr>hr_status := st\<rparr> else h) (db_holds db)\<rparr>"

definition set_drafts :: "(booking_draft \<Rightarrow> bool) \<Rightarrow> draft_status \<Rightarrow> booking_db \<Rightarrow> booking_db" where
  "set_drafts p st db = db\<lparr>db_drafts := map (\<lambda>d. if p d then d\<lparr>dr_status := st\<rparr> else d) (db_drafts db)\<rparr>"

definition set_workflow :: "tenant_id \<Rightarrow> conversation_id \<Rightarrow> string option \<Rightarrow> booking_db \<Rightarrow> booking_db" where
  "set_workflow t c flow db = db\<lparr>db_conversations := map (\<lambda>x. if cw_tenant_id x = t \<and> cw_id x = c
     then x\<lparr>cw_active_workflow := flow\<rparr> else x) (db_conversations db)\<rparr>"

text \<open>
  The constraints of \<open>bookings\<close> for a row among the others: unique identifier, hold, idempotency
  key and reference, positive length, and the exclusion of overlapping active rows of a resource.
\<close>

definition occupies :: "booking_status \<Rightarrow> bool" where
  "occupies st = (st = B_HELD \<or> st = B_CONFIRMED \<or> st = B_RESCHEDULE_PENDING)"

definition rows_overlap :: "booking_row \<Rightarrow> booking_row \<Rightarrow> bool" where
  "rows_overlap a b = (br_tenant_id a = br_tenant_id b \<and> br_resource_id a \<noteq> None
     \<and> br_resource_id a = br_resource_id b \<and> occupies (br_status a) \<and> occupies (br_status b)
     \<and> br_start_at a < br_end_at b \<and> br_start_at b < br_end_at a)"

definition rows_clash :: "booking_row \<Rightarrow> booking_row \<Rightarrow> bool" where
  "rows_clash a b = (rows_overlap a b \<or> (br_tenant_id a = br_tenant_id b \<and>
     ((br_hold_id a \<noteq> None \<and> br_hold_id a = br_hold_id b)
      \<or> (br_idempotency_scope a = br_idempotency_scope b \<and> br_idempotency_value a = br_idempotency_value b)
      \<or> (br_public_reference a \<noteq> None \<and> br_public_reference a = br_public_reference b))))"

definition insert_booking :: "booking_row \<Rightarrow> booking_db \<Rightarrow> booking_db res" where
  "insert_booking b db =
     (if br_end_at b \<le> br_start_at b \<or> list_ex (\<lambda>x. br_id x = br_id b \<or> rows_clash b x) (db_bookings db)
      then Inl integrity_error else Inr (db\<lparr>db_bookings := db_bookings db @ [b]\<rparr>))"

definition update_booking :: "booking_row \<Rightarrow> booking_db \<Rightarrow> booking_db res" where
  "update_booking b db =
     (if br_end_at b \<le> br_start_at b
          \<or> list_ex (\<lambda>x. br_id x \<noteq> br_id b \<and> rows_clash b x) (db_bookings db)
      then Inl integrity_error
      else Inr (db\<lparr>db_bookings := map (\<lambda>x. if br_id x = br_id b then b else x) (db_bookings db)\<rparr>))"

definition insert_history :: "history_row \<Rightarrow> booking_db \<Rightarrow> booking_db res" where
  "insert_history h db =
     (if hy_sequence h < 1 \<or> list_ex (\<lambda>x. hy_booking_id x = hy_booking_id h \<and> hy_sequence x = hy_sequence h)
           (db_history db)
      then Inl integrity_error else Inr (db\<lparr>db_history := db_history db @ [h]\<rparr>))"

definition booking_event :: "tenant_id \<Rightarrow> booking_row \<Rightarrow> string \<Rightarrow> string \<Rightarrow> instant \<Rightarrow> booking_db \<Rightarrow> booking_db res" where
  "booking_event t b event_type key now db =
     res_bind (add_event (new_event t ''booking'' (booking_uuid (br_id b)) event_type key
           [(''booking_id'', JStr (uuid_str (booking_uuid (br_id b)))),
            (''public_reference'', (case br_public_reference b of None \<Rightarrow> JNull | Some r \<Rightarrow> JStr r)),
            (''service_id'', JStr (uuid_str (service_uuid (br_service_id b)))),
            (''start_at'', JStr (datetime_iso (utc_datetime (br_start_at b))))] now) (db_outbox db))
       (\<lambda>events. Inr (db\<lparr>db_outbox := events\<rparr>))"

section \<open>Drafts\<close>

definition start_draft ::
  "tenant_id \<Rightarrow> customer_id \<Rightarrow> conversation_id \<Rightarrow> service_id \<Rightarrow> instant \<Rightarrow> booking_id option
   \<Rightarrow> booking_draft_id \<Rightarrow> booking_draft store_op" where
  "start_draft t c conv s now reschedule new_id db =
     res_bind (availability_context_of db t s now) (\<lambda>ctx_opt.
     case ctx_opt of
       None \<Rightarrow> Inl (BookingPolicyError ''This service is not available for booking'')
     | Some ctx \<Rightarrow>
     if \<not> ac_active ctx \<or> \<not> ac_bookable ctx \<or> ac_resources ctx = []
       then Inl (BookingPolicyError ''This service is not available for booking'')
     else if (case reschedule of None \<Rightarrow> False
         | Some b \<Rightarrow> (case first_where (\<lambda>x. br_tenant_id x = t \<and> br_customer_id x = c \<and> br_id x = b
                       \<and> br_status x = B_CONFIRMED) (db_bookings db) of
                    None \<Rightarrow> True | Some original \<Rightarrow> br_service_id original \<noteq> s))
       then Inl BookingNotFoundError
     else
       let db1 = set_drafts (\<lambda>d. dr_tenant_id d = t \<and> dr_customer_id d = c
                   \<and> dr_conversation_id d = conv \<and> dr_status d = D_ACTIVE) D_CANCELLED db;
           db2 = set_holds (\<lambda>h. hr_tenant_id h = t \<and> hr_customer_id h = c
                   \<and> hr_conversation_id h = conv \<and> hr_status h = HO_ACTIVE) HO_RELEASED db1;
           row = \<lparr>dr_id = new_id, dr_tenant_id = t, dr_customer_id = c, dr_conversation_id = conv,
                  dr_service_id = s, dr_selected_date = None, dr_hold_id = None,
                  dr_customer_name = None, dr_customer_phone = None, dr_customer_note = None,
                  dr_status = D_ACTIVE, dr_expires_at = now + po_draft_duration (ac_policy ctx),
                  dr_reschedule_booking_id = reschedule\<rparr>
       in if \<not> list_ex (\<lambda>x. cw_tenant_id x = t \<and> cw_id x = conv \<and> cw_customer_id x = c) (db_conversations db2)
            then Inl BookingNotFoundError
          else if list_ex (\<lambda>d. dr_id d = new_id) (db_drafts db2) then Inl integrity_error
          else Inr (set_workflow t conv (Some ''booking:date'') (db2\<lparr>db_drafts := db_drafts db2 @ [row]\<rparr>), row))"

text \<open>The newest active draft (\<open>ORDER BY created_at DESC LIMIT 1\<close>) is the last row.\<close>

definition get_active_draft ::
  "tenant_id \<Rightarrow> customer_id \<Rightarrow> conversation_id \<Rightarrow> instant \<Rightarrow> booking_draft option store_op" where
  "get_active_draft t c conv now db =
     (case first_where (\<lambda>d. dr_tenant_id d = t \<and> dr_customer_id d = c \<and> dr_conversation_id d = conv
          \<and> dr_status d = D_ACTIVE) (rev (db_drafts db)) of
        None \<Rightarrow> Inr (db, None)
      | Some d \<Rightarrow>
          if dr_expires_at d \<le> now then
            let db1 = put_draft (d\<lparr>dr_status := D_EXPIRED\<rparr>) db
            in Inr (case dr_hold_id d of None \<Rightarrow> db1
                 | Some hid \<Rightarrow> set_holds (\<lambda>h. hr_tenant_id h = t \<and> hr_id h = hid
                     \<and> hr_status h = HO_ACTIVE) HO_EXPIRED db1, None)
          else Inr (db, Some d))"

text \<open>
  \<open>_owned_draft\<close> marks an overdue draft expired before it raises; the exception rolls that write
  back with the rest of the transaction.
\<close>

definition owned_draft ::
  "booking_db \<Rightarrow> tenant_id \<Rightarrow> customer_id \<Rightarrow> booking_draft_id \<Rightarrow> instant \<Rightarrow> booking_draft res" where
  "owned_draft db t c did now =
     (case first_where (\<lambda>d. dr_tenant_id d = t \<and> dr_customer_id d = c \<and> dr_id d = did) (db_drafts db) of
        None \<Rightarrow> Inl BookingNotFoundError
      | Some d \<Rightarrow>
          if dr_status d \<noteq> D_ACTIVE then Inl BookingNotFoundError
          else if dr_expires_at d \<le> now then Inl booking_expired_default
          else Inr d)"

definition select_date ::
  "tenant_id \<Rightarrow> customer_id \<Rightarrow> booking_draft_id \<Rightarrow> date \<Rightarrow> instant \<Rightarrow> booking_draft store_op" where
  "select_date t c did selected now db =
     res_bind (owned_draft db t c did now) (\<lambda>d.
     res_bind (availability_context_of db t (dr_service_id d) now) (\<lambda>ctx_opt.
     case ctx_opt of None \<Rightarrow> Inl BookingNotFoundError
     | Some ctx \<Rightarrow>
     (case find_tenant db t of None \<Rightarrow> Inl BookingNotFoundError
      | Some tn \<Rightarrow>
          let local_today = wall_date (wall (astimezone (tw_zone tn) now));
              last_day = wall_date (wall (astimezone (tw_zone tn) (now + po_booking_horizon (ac_policy ctx))))
          in if selected < local_today \<or> last_day < selected
             then Inl (BookingPolicyError ''The selected date is outside the booking horizon'')
             else let d' = d\<lparr>dr_selected_date := Some selected\<rparr> in Inr (put_draft d' db, d'))))"

definition conversation_exists :: "booking_db \<Rightarrow> tenant_id \<Rightarrow> conversation_id \<Rightarrow> bool" where
  "conversation_exists db t conv = list_ex (\<lambda>x. cw_tenant_id x = t \<and> cw_id x = conv) (db_conversations db)"

definition normalize_contact :: "policy_row \<Rightarrow> string option \<Rightarrow> string option \<Rightarrow> string option
    \<Rightarrow> booking_draft \<Rightarrow> booking_draft res" where
  "normalize_contact pol name phone note d =
     res_bind (case name of None \<Rightarrow> Inr d
       | Some n \<Rightarrow> let normalized = join '' '' (split_ws n) in
           if normalized = [] \<or> pw_customer_name_max_length pol < int (length normalized)
           then Inl (BookingPolicyError ''Enter a valid customer name'')
           else Inr (d\<lparr>dr_customer_name := Some normalized\<rparr>)) (\<lambda>d1.
     res_bind (case phone of None \<Rightarrow> Inr d1
       | Some p \<Rightarrow>
           if pw_customer_phone_max_length pol < int (length p)
             then Inl (BookingPolicyError ''Enter a valid phone number'')
           else case parse_phone p False of
               Inl (ValidationError _) \<Rightarrow> Inl (BookingPolicyError ''Enter a valid phone number'')
             | Inl e \<Rightarrow> Inl e
             | Inr parsed \<Rightarrow> Inr (d1\<lparr>dr_customer_phone := Some (case normalized_e164 parsed of
                 Some n \<Rightarrow> if n = [] then raw parsed else n | None \<Rightarrow> raw parsed)\<rparr>)) (\<lambda>d2.
     case note of None \<Rightarrow> Inr d2
       | Some n \<Rightarrow> let normalized = strip n in
           if pw_customer_note_max_length pol < int (length normalized)
           then Inl (BookingPolicyError ''The customer note is too long'')
           else Inr (d2\<lparr>dr_customer_note := (if normalized = [] then None else Some normalized)\<rparr>)))"

text \<open>\<open>if draft.customer_name\<close>: present and not empty.\<close>

definition filled :: "string option \<Rightarrow> bool" where
  "filled x = (case x of None \<Rightarrow> False | Some s \<Rightarrow> s \<noteq> [])"

definition update_contact ::
  "tenant_id \<Rightarrow> customer_id \<Rightarrow> booking_draft_id \<Rightarrow> string option \<Rightarrow> string option \<Rightarrow> string option
   \<Rightarrow> instant \<Rightarrow> booking_draft store_op" where
  "update_contact t c did name phone note now db =
     res_bind (owned_draft db t c did now) (\<lambda>d.
     case find_policy db t of
       None \<Rightarrow> Inl (BookingPolicyError ''Booking policy is unavailable'')
     | Some pol \<Rightarrow>
         res_bind (normalize_contact pol name phone note d) (\<lambda>d'.
         Inr (set_workflow t (dr_conversation_id d') (Some
                (if filled (dr_customer_name d') \<and> filled (dr_customer_phone d') then ''booking:review''
                 else if filled (dr_customer_name d') then ''booking:phone'' else ''booking:name''))
               (put_draft d' db), d')))"

definition cancel_draft :: "tenant_id \<Rightarrow> customer_id \<Rightarrow> conversation_id \<Rightarrow> instant \<Rightarrow> bool store_op" where
  "cancel_draft t c conv now db = (
     let mine = (\<lambda>d. dr_tenant_id d = t \<and> dr_customer_id d = c \<and> dr_conversation_id d = conv
                  \<and> dr_status d = D_ACTIVE);
         ids = map dr_id (filter mine (db_drafts db))
     in if ids = [] then Inr (db, False)
        else Inr (set_workflow t conv None (set_drafts mine D_CANCELLED
               (set_holds (\<lambda>h. hr_tenant_id h = t \<and> hr_draft_id h \<in> set ids \<and> hr_status h = HO_ACTIVE)
                  HO_RELEASED db)), True))"

section \<open>Holds\<close>

definition insert_hold :: "slot_hold_row \<Rightarrow> booking_db \<Rightarrow> booking_db res" where
  "insert_hold h db =
     (if hr_end_at h \<le> hr_start_at h \<or> list_ex (\<lambda>x. hr_id x = hr_id h \<or> (hr_tenant_id x = hr_tenant_id h
           \<and> hr_idempotency_key x = hr_idempotency_key h)) (db_holds db)
      then Inl integrity_error else Inr (db\<lparr>db_holds := db_holds db @ [h]\<rparr>))"

text \<open>The draft's previous hold is released before the availability is read again.\<close>

definition release_previous :: "tenant_id \<Rightarrow> booking_draft \<Rightarrow> booking_db \<Rightarrow> booking_draft \<times> booking_db" where
  "release_previous t d db = (case dr_hold_id d of
     None \<Rightarrow> (d, db)
   | Some hid \<Rightarrow> let d' = d\<lparr>dr_hold_id := None\<rparr> in
       (d', put_draft d' (set_holds (\<lambda>h. hr_tenant_id h = t \<and> hr_id h = hid \<and> hr_status h = HO_ACTIVE)
                            HO_RELEASED db)))"

definition create_hold ::
  "tenant_id \<Rightarrow> customer_id \<Rightarrow> booking_draft_id \<Rightarrow> int \<Rightarrow> string \<Rightarrow> instant \<Rightarrow> slot_hold_id
   \<Rightarrow> slot_hold store_op" where
  "create_hold t c did slot_index key now new_id db =
     (if key = [] \<or> 255 < length key \<or> slot_index < 0
        then Inl (BookingPolicyError ''The hold request is invalid'')
      else case first_where (\<lambda>h. hr_tenant_id h = t \<and> hr_idempotency_key h = key) (db_holds db) of
        Some existing \<Rightarrow>
          if hr_customer_id existing \<noteq> c then Inl BookingNotFoundError
          else res_bind (hold_of_row existing) (\<lambda>h. Inr (db, h))
      | None \<Rightarrow>
          res_bind (owned_draft db t c did now) (\<lambda>d.
          case dr_selected_date d of
            None \<Rightarrow> Inl (BookingPolicyError ''Choose a date before choosing a time'')
          | Some selected_date \<Rightarrow>
          res_bind (availability_context_of db t (dr_service_id d) now) (\<lambda>ctx_opt.
          case ctx_opt of None \<Rightarrow> Inl BookingNotFoundError
          | Some ctx \<Rightarrow>
          res_bind (calculate_availability ctx selected_date (utc_datetime now)) (\<lambda>slots.
          if int (length slots) \<le> slot_index then Inl booking_conflict_default
          else
            let selected = slots ! nat slot_index; (d1, db1) = release_previous t d db in
            res_bind (availability_context_of db1 t (dr_service_id d) now) (\<lambda>refreshed_opt.
            case refreshed_opt of None \<Rightarrow> Inl (AssertionError [])
            | Some refreshed \<Rightarrow>
            res_bind (calculate_availability refreshed selected_date (utc_datetime now)) (\<lambda>again.
            case first_where (\<lambda>s. utc (sl_start_at s) = utc (sl_start_at selected)
                   \<and> sl_resource_id s = sl_resource_id selected) again of
              None \<Rightarrow> Inl booking_conflict_default
            | Some matching \<Rightarrow>
                let hold = \<lparr>hr_id = new_id, hr_tenant_id = t, hr_customer_id = c,
                      hr_conversation_id = dr_conversation_id d, hr_draft_id = dr_id d,
                      hr_service_id = dr_service_id d, hr_resource_id = sl_resource_id matching,
                      hr_start_at = utc (sl_start_at matching),
                      hr_end_at = utc (sl_end_at matching) + ac_cleanup_buffer ctx,
                      hr_expires_at = now + po_hold_duration (ac_policy ctx),
                      hr_idempotency_key = key, hr_status = HO_ACTIVE, hr_timezone = sl_timezone matching\<rparr>
                in res_bind (insert_hold hold db1) (\<lambda>db2.
                   res_bind (hold_of_row hold) (\<lambda>h.
                   Inr (set_workflow t (dr_conversation_id d) (Some ''booking:name'')
                          (put_draft (d1\<lparr>dr_hold_id := Some new_id\<rparr>) db2), h)))))))))"

definition get_hold ::
  "tenant_id \<Rightarrow> customer_id \<Rightarrow> booking_draft_id \<Rightarrow> instant \<Rightarrow> slot_hold option store_op" where
  "get_hold t c did now db =
     (case first_where (\<lambda>h. hr_tenant_id h = t \<and> hr_customer_id h = c \<and> hr_draft_id h = did
          \<and> hr_status h = HO_ACTIVE) (db_holds db) of
        None \<Rightarrow> Inr (db, None)
      | Some h \<Rightarrow>
          if hr_expires_at h \<le> now
          then Inr (set_holds (\<lambda>x. hr_id x = hr_id h) HO_EXPIRED db, None)
          else res_bind (hold_of_row h) (\<lambda>x. Inr (db, Some x)))"

text \<open>The worker's clean-up, over the tenants that are active and entitled to bookings.\<close>

definition expirable :: "booking_db \<Rightarrow> instant \<Rightarrow> slot_hold_row \<Rightarrow> bool" where
  "expirable db now h = (hr_status h = HO_ACTIVE \<and> hr_expires_at h \<le> now
     \<and> list_ex (\<lambda>tn. tw_id tn = hr_tenant_id h \<and> tw_status tn = T_ACTIVE \<and> tw_booking_enabled tn) (db_tenants db))"

definition expire_holds :: "instant \<Rightarrow> int \<Rightarrow> int store_op" where
  "expire_holds now limit db =
     (if \<not> (1 \<le> limit \<and> limit \<le> 1000) then Inl (ValueError ''Expiry limit must be between 1 and 1000'')
      else
        let rows = take (nat limit) (sorted_by (\<lambda>h. (hr_expires_at h, hold_uuid (hr_id h)))
              (filter (expirable db now) (db_holds db)))
        in Inr (set_holds (\<lambda>h. hr_id h \<in> set (map hr_id rows)) HO_EXPIRED db, int (length rows)))"

section \<open>Appointments\<close>

definition result_of_row :: "booking_db \<Rightarrow> booking_row \<Rightarrow> booking_result res" where
  "result_of_row db b =
     (case (find_service db (br_tenant_id b) (br_service_id b), find_tenant db (br_tenant_id b),
            br_public_reference b) of
        (Some s, Some tn, Some ref) \<Rightarrow>
          Inr \<lparr>bt_id = br_id b, bt_service_id = br_service_id b, bt_public_reference = ref,
               \<comment> \<open>the name in a snapshot is a string (\<open>service_snapshot\<close>)\<close>
               bt_service_name = (case dict_get (br_service_snapshot b) ''name'' of
                  Some (JStr n) \<Rightarrow> n | _ \<Rightarrow> service_name s),
               bt_start_at = br_start_at b, bt_end_at = br_end_at b, bt_timezone = tw_timezone tn,
               bt_status = booking_status_value (br_status b)\<rparr>
      | _ \<Rightarrow> Inl BookingNotFoundError)"

definition next_history_sequence :: "booking_db \<Rightarrow> booking_id \<Rightarrow> int" where
  "next_history_sequence db b = foldr max (map hy_sequence (filter (\<lambda>h. hy_booking_id h = b) (db_history db))) 0 + 1"

definition service_snapshot :: "service_row \<Rightarrow> (string, json) dict" where
  "service_snapshot s =
     [(''service_id'', JStr (uuid_str (service_uuid (sr_id s)))), (''name'', JStr (service_name s)),
      (''duration_seconds'', JInt (sr_duration_seconds s)), (''buffer_seconds'', JInt (sr_buffer_seconds s)),
      (''price_mode'', JStr (sr_price_mode s)), (''price_min_minor'', json_opt JInt (sr_price_min_minor s)),
      (''price_max_minor'', json_opt JInt (sr_price_max_minor s)), (''currency'', json_opt JStr (sr_currency s))]"

definition history_entry ::
  "tenant_id \<Rightarrow> booking_id \<Rightarrow> int \<Rightarrow> booking_status \<Rightarrow> booking_status \<Rightarrow> string \<Rightarrow> history_row" where
  "history_entry t b n from_status to_status reason =
     \<lparr>hy_tenant_id = t, hy_booking_id = b, hy_sequence = n, hy_from_status = from_status,
      hy_to_status = to_status, hy_actor = ''customer'', hy_reason = reason\<rparr>"

text \<open>\<open>confirm\<close>, the branch that moves an existing appointment to the hold.\<close>

definition confirm_reschedule ::
  "tenant_id \<Rightarrow> customer_id \<Rightarrow> booking_id \<Rightarrow> slot_hold_row \<Rightarrow> service_row \<Rightarrow> instant \<Rightarrow> booking_row store_op" where
  "confirm_reschedule t c bid hold s now db =
     (case first_where (\<lambda>b. br_tenant_id b = t \<and> br_customer_id b = c \<and> br_id b = bid) (db_bookings db) of
        None \<Rightarrow> Inl BookingNotFoundError
      | Some b \<Rightarrow>
          if br_status b \<noteq> B_CONFIRMED then Inl BookingNotFoundError
          else case find_policy db t of
              None \<Rightarrow> Inl (AssertionError [])
            | Some pol \<Rightarrow>
                if br_start_at b - now < pw_change_cutoff_minutes pol * minute_us
                then Inl (BookingPolicyError ''This appointment can no longer be rescheduled'')
                else
                  let n = next_history_sequence db (br_id b);
                      b' = b\<lparr>br_status := B_CONFIRMED, br_resource_id := Some (hr_resource_id hold),
                             br_start_at := hr_start_at hold,
                             br_end_at := hr_start_at hold + sr_duration_seconds s * second_us,
                             br_hold_id := Some (hr_id hold), br_service_snapshot := service_snapshot s\<rparr>
                  in res_bind (insert_history (history_entry t (br_id b) n B_CONFIRMED B_RESCHEDULE_PENDING
                                 ''customer_reschedule'') db) (\<lambda>db1.
                     res_bind (insert_history (history_entry t (br_id b) (n + 1) B_RESCHEDULE_PENDING B_CONFIRMED
                                 ''new_hold_confirmed'') db1) (\<lambda>db2.
                     res_bind (update_booking b' db2) (\<lambda>db3.
                     res_bind (booking_event t b' ''booking.rescheduled''
                       (''booking:rescheduled:'' @ uuid_str (booking_uuid (br_id b)) @ '':'' @ str_int n) now db3) (\<lambda>db4.
                     Inr (db4, b'))))))"

text \<open>\<open>confirm\<close>, the branch that creates the appointment.\<close>

definition confirm_new ::
  "tenant_id \<Rightarrow> customer_id \<Rightarrow> booking_draft \<Rightarrow> slot_hold_row \<Rightarrow> service_row \<Rightarrow> string \<Rightarrow> instant
   \<Rightarrow> booking_id \<Rightarrow> booking_row store_op" where
  "confirm_new t c d hold s key now new_id db = (
     let b = \<lparr>br_id = new_id, br_tenant_id = t, br_customer_id = c,
              br_conversation_id = Some (dr_conversation_id d), br_service_id = sr_id s,
              br_resource_id = Some (hr_resource_id hold), br_hold_id = Some (hr_id hold),
              br_public_reference = Some (''NSA-'' @ upper (take 8 (uuid_hex (booking_uuid new_id)))),
              br_start_at = hr_start_at hold,
              br_end_at = hr_start_at hold + sr_duration_seconds s * second_us,
              br_status = B_CONFIRMED, br_idempotency_scope = ''confirm'', br_idempotency_value = key,
              br_service_snapshot = service_snapshot s,
              br_customer_snapshot = [(''name'', json_opt JStr (dr_customer_name d)),
                (''phone'', json_opt JStr (dr_customer_phone d))],
              br_notes = dr_customer_note d, br_source = ''telegram''\<rparr>
     in res_bind (insert_booking b db) (\<lambda>db1.
        res_bind (insert_history (history_entry t new_id 1 B_DRAFT B_HELD ''slot_hold_created'') db1) (\<lambda>db2.
        res_bind (insert_history (history_entry t new_id 2 B_HELD B_CONFIRMED ''explicit_confirmation'') db2) (\<lambda>db3.
        res_bind (booking_event t b ''booking.confirmed''
          (''booking:confirmed:'' @ uuid_str (booking_uuid new_id)) now db3) (\<lambda>db4.
        Inr (db4, b))))))"

text \<open>
  The rest of the transaction after the draft is found: the hold must be active and unexpired (an
  overdue one is marked before the exception, which rolls the mark back), the service bookable.
\<close>

definition confirm_draft ::
  "tenant_id \<Rightarrow> customer_id \<Rightarrow> booking_draft \<Rightarrow> string \<Rightarrow> instant \<Rightarrow> booking_id \<Rightarrow> booking_result store_op" where
  "confirm_draft t c d key now new_id db =
     (case dr_hold_id d of
        None \<Rightarrow> Inl (BookingPolicyError ''Complete the booking details before confirmation'')
      | Some hid \<Rightarrow>
      if \<not> filled (dr_customer_name d) \<or> \<not> filled (dr_customer_phone d)
        then Inl (BookingPolicyError ''Complete the booking details before confirmation'')
      else case first_where (\<lambda>h. hr_tenant_id h = t \<and> hr_customer_id h = c \<and> hr_id h = hid) (db_holds db) of
        None \<Rightarrow> Inl booking_expired_default
      | Some hold \<Rightarrow>
      if hr_status hold \<noteq> HO_ACTIVE \<or> hr_expires_at hold \<le> now then Inl booking_expired_default
      else case first_where (\<lambda>s. sr_tenant_id s = t \<and> sr_id s = hr_service_id hold \<and> sr_active s
             \<and> sr_bookable s) (db_services db) of
        None \<Rightarrow> Inl (BookingPolicyError ''This service is no longer bookable'')
      | Some s \<Rightarrow>
          res_bind (case dr_reschedule_booking_id d of
              Some bid \<Rightarrow> confirm_reschedule t c bid hold s now db
            | None \<Rightarrow> confirm_new t c d hold s key now new_id db) (\<lambda>(db1, b).
          let db2 = set_holds (\<lambda>h. hr_id h = hr_id hold) HO_CONSUMED db1;
              db3 = put_draft (d\<lparr>dr_status := D_CONFIRMED\<rparr>) db2;
              db4 = set_workflow t (dr_conversation_id d) None db3
          in res_bind (result_of_row db4 b) (\<lambda>r. Inr (db4, r))))"

definition confirm_op ::
  "tenant_id \<Rightarrow> customer_id \<Rightarrow> booking_draft_id \<Rightarrow> string \<Rightarrow> instant \<Rightarrow> booking_id \<Rightarrow> booking_result store_op" where
  "confirm_op t c did key now new_id db =
     (case first_where (\<lambda>b. br_tenant_id b = t \<and> br_idempotency_scope b = ''confirm''
          \<and> br_idempotency_value b = key) (db_bookings db) of
        Some existing \<Rightarrow>
          if br_customer_id existing \<noteq> c then Inl BookingNotFoundError
          else res_bind (result_of_row db existing) (\<lambda>r. Inr (db, r))
      | None \<Rightarrow>
          let confirmed = (case first_where (\<lambda>d. dr_tenant_id d = t \<and> dr_customer_id d = c
                 \<and> dr_id d = did \<and> dr_status d = D_CONFIRMED) (db_drafts db) of
              None \<Rightarrow> None
            | Some d \<Rightarrow> (case dr_hold_id d of None \<Rightarrow> None
                | Some hid \<Rightarrow> first_where (\<lambda>b. br_tenant_id b = t \<and> br_customer_id b = c
                    \<and> br_hold_id b = Some hid) (db_bookings db)))
          in case confirmed of
              Some b \<Rightarrow> res_bind (result_of_row db b) (\<lambda>r. Inr (db, r))
            | None \<Rightarrow> res_bind (owned_draft db t c did now) (\<lambda>d. confirm_draft t c d key now new_id db))"

text \<open>\<open>except IntegrityError\<close> turns a constraint violation into a booking conflict.\<close>

definition confirm ::
  "tenant_id \<Rightarrow> customer_id \<Rightarrow> booking_draft_id \<Rightarrow> string \<Rightarrow> instant \<Rightarrow> booking_id \<Rightarrow> booking_result store_op" where
  "confirm t c did key now new_id db =
     (if key = [] \<or> 255 < length key
        then Inl (BookingPolicyError ''The confirmation request is invalid'')
      else case confirm_op t c did key now new_id db of
          Inl e \<Rightarrow> Inl (if e = integrity_error then booking_conflict_default else e)
        | Inr r \<Rightarrow> Inr r)"

definition latest_booking :: "tenant_id \<Rightarrow> customer_id \<Rightarrow> instant \<Rightarrow> booking_db \<Rightarrow> booking_result option res" where
  "latest_booking t c now db =
     (case sorted_by (\<lambda>b. (br_start_at b, booking_uuid (br_id b))) (filter (\<lambda>b. br_tenant_id b = t
          \<and> br_customer_id b = c \<and> br_status b = B_CONFIRMED \<and> now < br_end_at b) (db_bookings db)) of
        [] \<Rightarrow> Inr None
      | b # _ \<Rightarrow> res_bind (result_of_row db b) (\<lambda>r. Inr (Some r)))"

definition owned_booking :: "booking_db \<Rightarrow> tenant_id \<Rightarrow> customer_id \<Rightarrow> booking_id \<Rightarrow> booking_row option" where
  "owned_booking db t c b =
     first_where (\<lambda>x. br_tenant_id x = t \<and> br_customer_id x = c \<and> br_id x = b) (db_bookings db)"

definition get_booking :: "tenant_id \<Rightarrow> customer_id \<Rightarrow> booking_id \<Rightarrow> booking_db \<Rightarrow> booking_result option res" where
  "get_booking t c bid db =
     (case owned_booking db t c bid of None \<Rightarrow> Inr None
      | Some b \<Rightarrow> res_bind (result_of_row db b) (\<lambda>r. Inr (Some r)))"

definition cancel_booking :: "tenant_id \<Rightarrow> customer_id \<Rightarrow> booking_id \<Rightarrow> instant \<Rightarrow> booking_result store_op" where
  "cancel_booking t c bid now db =
     (case owned_booking db t c bid of
        None \<Rightarrow> Inl BookingNotFoundError
      | Some b \<Rightarrow>
          if br_status b = B_CANCELLED then res_bind (result_of_row db b) (\<lambda>r. Inr (db, r))
          else if br_status b \<noteq> B_CONFIRMED
            then Inl (BookingPolicyError ''This appointment cannot be cancelled'')
          else case find_policy db t of
              None \<Rightarrow> Inl (BookingPolicyError ''Booking policy is unavailable'')
            | Some pol \<Rightarrow>
                if br_start_at b - now < pw_change_cutoff_minutes pol * minute_us
                then Inl (BookingPolicyError ''This appointment can no longer be cancelled'')
                else
                  let b' = b\<lparr>br_status := B_CANCELLED\<rparr> in
                  res_bind (insert_history (history_entry t (br_id b) (next_history_sequence db (br_id b))
                              B_CONFIRMED B_CANCELLED ''customer_cancelled'') db) (\<lambda>db1.
                  res_bind (update_booking b' db1) (\<lambda>db2.
                  res_bind (booking_event t b' ''booking.cancelled''
                    (''booking:cancelled:'' @ uuid_str (booking_uuid (br_id b))) now db2) (\<lambda>db3.
                  res_bind (result_of_row db3 b') (\<lambda>r. Inr (db3, r))))))"

definition booking_history ::
  "tenant_id \<Rightarrow> customer_id \<Rightarrow> booking_id \<Rightarrow> booking_db \<Rightarrow> (booking_status \<times> booking_status) list" where
  "booking_history t c bid db =
     (if owned_booking db t c bid = None then []
      else map (\<lambda>h. (hy_from_status h, hy_to_status h)) (sorted_by hy_sequence
             (filter (\<lambda>h. hy_tenant_id h = t \<and> hy_booking_id h = bid) (db_history db))))"

section \<open>The use cases (application/bookings/service.py)\<close>

definition app_availability ::
  "principal \<Rightarrow> service_id \<Rightarrow> date \<Rightarrow> instant \<Rightarrow> booking_db \<Rightarrow> available_slot list res" where
  "app_availability p s d now db =
     res_bind (require p BOOKING_READ) (\<lambda>_.
     res_bind (availability_context_of db (pr_tenant_id p) s now) (\<lambda>ctx_opt.
     case ctx_opt of None \<Rightarrow> Inr []
     | Some ctx \<Rightarrow> calculate_availability ctx d (utc_datetime now)))"

definition app_dates ::
  "telegram_identity \<Rightarrow> booking_draft \<Rightarrow> int \<Rightarrow> instant \<Rightarrow> booking_db \<Rightarrow> date list res" where
  "app_dates who d days now db =
     res_bind (availability_context_of db (ti_tenant_id who) (dr_service_id d) now) (\<lambda>ctx_opt.
     service_dates ctx_opt (utc_datetime now) days)"

definition app_choose_date ::
  "telegram_identity \<Rightarrow> booking_draft_id \<Rightarrow> date \<Rightarrow> instant
   \<Rightarrow> booking_db \<Rightarrow> booking_db \<times> (booking_draft \<times> available_slot list) res" where
  "app_choose_date who did selected now db =
     (case run_tx (select_date (ti_tenant_id who) (ti_customer_id who) did selected now) db of
        (db', Inl e) \<Rightarrow> (db', Inl e)
      | (db', Inr d) \<Rightarrow> (db',
          res_bind (availability_context_of db' (ti_tenant_id who) (dr_service_id d) now) (\<lambda>ctx_opt.
          case ctx_opt of None \<Rightarrow> Inr (d, [])
          | Some ctx \<Rightarrow> res_bind (calculate_availability ctx selected (utc_datetime now)) (\<lambda>slots.
              Inr (d, slots)))))"

definition app_start_reschedule ::
  "telegram_identity \<Rightarrow> booking_id \<Rightarrow> instant \<Rightarrow> booking_draft_id \<Rightarrow> booking_draft store_op" where
  "app_start_reschedule who bid now new_id db =
     res_bind (get_booking (ti_tenant_id who) (ti_customer_id who) bid db) (\<lambda>found.
     case found of None \<Rightarrow> Inl BookingNotFoundError
     | Some b \<Rightarrow>
         if bt_status b \<noteq> ''confirmed'' then Inl BookingNotFoundError
         else start_draft (ti_tenant_id who) (ti_customer_id who) (ti_conversation_id who)
                (bt_service_id b) now (Some (bt_id b)) new_id db)"

section \<open>The store as a state machine\<close>

datatype booking_step =
    StartDraft telegram_identity service_id "booking_id option" booking_draft_id
  | GetActiveDraft telegram_identity
  | SelectDate telegram_identity booking_draft_id date
  | CreateHold telegram_identity booking_draft_id int string slot_hold_id
  | UpdateContact telegram_identity booking_draft_id "string option" "string option" "string option"
  | GetHold telegram_identity booking_draft_id
  | CancelDraft telegram_identity
  | Confirm telegram_identity booking_draft_id string booking_id
  | CancelBooking telegram_identity booking_id
  | ExpireHolds int

fun step_db :: "booking_step \<Rightarrow> instant \<Rightarrow> booking_db \<Rightarrow> booking_db" where
  "step_db (StartDraft w s r i) now db = fst (run_tx (start_draft (ti_tenant_id w) (ti_customer_id w)
      (ti_conversation_id w) s now r i) db)"
| "step_db (GetActiveDraft w) now db = fst (run_tx (get_active_draft (ti_tenant_id w) (ti_customer_id w)
      (ti_conversation_id w) now) db)"
| "step_db (SelectDate w d day) now db = fst (run_tx (select_date (ti_tenant_id w) (ti_customer_id w) d day now) db)"
| "step_db (CreateHold w d k key i) now db = fst (run_tx (create_hold (ti_tenant_id w) (ti_customer_id w)
      d k key now i) db)"
| "step_db (UpdateContact w d n p x) now db = fst (run_tx (update_contact (ti_tenant_id w) (ti_customer_id w)
      d n p x now) db)"
| "step_db (GetHold w d) now db = fst (run_tx (get_hold (ti_tenant_id w) (ti_customer_id w) d now) db)"
| "step_db (CancelDraft w) now db = fst (run_tx (cancel_draft (ti_tenant_id w) (ti_customer_id w)
      (ti_conversation_id w) now) db)"
| "step_db (Confirm w d key i) now db = fst (run_tx (confirm (ti_tenant_id w) (ti_customer_id w) d key now i) db)"
| "step_db (CancelBooking w b) now db = fst (run_tx (cancel_booking (ti_tenant_id w) (ti_customer_id w) b now) db)"
| "step_db (ExpireHolds n) now db = fst (run_tx (expire_holds now n) db)"

end
