(* ===== verification/BookingFacts.thy ===== *)
theory BookingFacts
  imports BookingStore
begin

text \<open>
  What the booking store guarantees. The first part says which tables each operation changes; the
  invariants follow: appointments never clash, every appointment's history is a run of the domain's
  transition table, and the claims on a one-capacity resource (appointments and unexpired holds)
  never overlap. Each is an interpretation of \<open>clocked_invariant\<close>.
\<close>

section \<open>What an operation changes\<close>

lemma put_draft_simps [simp]:
  "db_bookings (put_draft d db) = db_bookings db" "db_history (put_draft d db) = db_history db"
  "db_holds (put_draft d db) = db_holds db" "db_services (put_draft d db) = db_services db"
  "db_tenants (put_draft d db) = db_tenants db" "db_resources (put_draft d db) = db_resources db"
  "db_policies (put_draft d db) = db_policies db" "db_schedules (put_draft d db) = db_schedules db"
  "db_service_resources (put_draft d db) = db_service_resources db"
  "db_unavailability (put_draft d db) = db_unavailability db"
  by (simp_all add: put_draft_def)

lemma set_drafts_simps [simp]:
  "db_bookings (set_drafts p st db) = db_bookings db" "db_history (set_drafts p st db) = db_history db"
  "db_holds (set_drafts p st db) = db_holds db" "db_services (set_drafts p st db) = db_services db"
  "db_resources (set_drafts p st db) = db_resources db"
  by (simp_all add: set_drafts_def)

lemma set_holds_simps [simp]:
  "db_bookings (set_holds p st db) = db_bookings db" "db_history (set_holds p st db) = db_history db"
  "db_drafts (set_holds p st db) = db_drafts db" "db_services (set_holds p st db) = db_services db"
  "db_tenants (set_holds p st db) = db_tenants db" "db_resources (set_holds p st db) = db_resources db"
  "db_policies (set_holds p st db) = db_policies db" "db_schedules (set_holds p st db) = db_schedules db"
  "db_service_resources (set_holds p st db) = db_service_resources db"
  "db_unavailability (set_holds p st db) = db_unavailability db"
  by (simp_all add: set_holds_def)

lemma set_workflow_simps [simp]:
  "db_bookings (set_workflow t c v db) = db_bookings db" "db_history (set_workflow t c v db) = db_history db"
  "db_holds (set_workflow t c v db) = db_holds db" "db_services (set_workflow t c v db) = db_services db"
  "db_drafts (set_workflow t c v db) = db_drafts db" "db_tenants (set_workflow t c v db) = db_tenants db"
  "db_resources (set_workflow t c v db) = db_resources db"
  by (simp_all add: set_workflow_def)

lemma insert_history_Inr:
  "insert_history h db = Inr db' \<Longrightarrow> db' = db\<lparr>db_history := db_history db @ [h]\<rparr> \<and> 1 \<le> hy_sequence h"
  by (auto simp: insert_history_def split: if_splits)

lemma booking_event_Inr:
  "booking_event t b ty k now db = Inr db' \<Longrightarrow> \<exists>e. db' = db\<lparr>db_outbox := db_outbox db @ [e]\<rparr>"
  by (auto simp: booking_event_def add_event_Inr res_bind_Inr_iff)

lemma insert_hold_Inr:
  "insert_hold h db = Inr db' \<Longrightarrow> db' = db\<lparr>db_holds := db_holds db @ [h]\<rparr> \<and> hr_start_at h < hr_end_at h
    \<and> (\<forall>x \<in> set (db_holds db). hr_id x \<noteq> hr_id h)"
  by (auto simp: insert_hold_def list_ex_iff split: if_splits)

text \<open>The tables of the catalogue are never written.\<close>

definition same_catalog :: "booking_db \<Rightarrow> booking_db \<Rightarrow> bool" where
  "same_catalog db db' = (db_services db' = db_services db \<and> db_resources db' = db_resources db
     \<and> db_tenants db' = db_tenants db)"

text \<open>\<open>touches_drafts\<close>: neither holds nor appointments nor history change.\<close>

definition only_drafts :: "booking_db \<Rightarrow> booking_db \<Rightarrow> bool" where
  "only_drafts db db' = (db_bookings db' = db_bookings db \<and> db_history db' = db_history db
     \<and> db_holds db' = db_holds db \<and> db_services db' = db_services db \<and> db_resources db' = db_resources db)"

text \<open>\<open>fewer_holds\<close>: besides drafts, active holds have become inactive.\<close>

definition fewer_holds :: "booking_db \<Rightarrow> booking_db \<Rightarrow> bool" where
  "fewer_holds db db' = (db_bookings db' = db_bookings db \<and> db_history db' = db_history db
     \<and> db_services db' = db_services db \<and> db_resources db' = db_resources db
     \<and> (\<exists>p st. st \<noteq> HO_ACTIVE \<and> db_holds db' = map (\<lambda>h. if p h then h\<lparr>hr_status := st\<rparr> else h) (db_holds db)))"

lemma fewer_holds_same: "only_drafts db db' \<Longrightarrow> fewer_holds db db'"
  unfolding fewer_holds_def only_drafts_def
  by (auto intro!: exI [of _ "\<lambda>_. False"] exI [of _ HO_EXPIRED])

lemma fewer_holds_set: "st \<noteq> HO_ACTIVE \<Longrightarrow> fewer_holds db (set_holds p st db)"
  by (auto simp: fewer_holds_def set_holds_def)

lemma fewer_holds_drafts: "fewer_holds db db1 \<Longrightarrow> only_drafts db1 db2 \<Longrightarrow> fewer_holds db db2"
  by (auto simp: fewer_holds_def only_drafts_def)

lemma drafts_fewer_holds: "only_drafts db db1 \<Longrightarrow> fewer_holds db1 db2 \<Longrightarrow> fewer_holds db db2"
  by (auto simp: fewer_holds_def only_drafts_def)

lemma only_drafts_intros [intro, simp]:
  "only_drafts db db" "only_drafts db (put_draft d db)" "only_drafts db (set_workflow t c v db)"
  "only_drafts db (set_drafts p st db)" "only_drafts db (db\<lparr>db_drafts := ds\<rparr>)"
  "only_drafts db (set_workflow t c v (put_draft d db))" "only_drafts db (set_workflow t c v (set_drafts p st db))"
  by (simp_all add: only_drafts_def)

lemma only_drafts_trans: "only_drafts a b \<Longrightarrow> only_drafts b c \<Longrightarrow> only_drafts a c"
  by (simp add: only_drafts_def)

lemma start_draft_changes: "start_draft t c v s now r i db = Inr (db', x) \<Longrightarrow> fewer_holds db db'"
proof -
  assume "start_draft t c v s now r i db = Inr (db', x)"
  then obtain row where "db' = set_workflow t v (Some ''booking:date'')
      ((set_holds (\<lambda>h. hr_tenant_id h = t \<and> hr_customer_id h = c \<and> hr_conversation_id h = v
          \<and> hr_status h = HO_ACTIVE) HO_RELEASED
        (set_drafts (\<lambda>d. dr_tenant_id d = t \<and> dr_customer_id d = c \<and> dr_conversation_id d = v
          \<and> dr_status d = D_ACTIVE) D_CANCELLED db))\<lparr>db_drafts := row\<rparr>)"
    by (auto simp: start_draft_def Let_def res_bind_Inr_iff split: option.splits if_splits)
  note db' = this
  have released: "fewer_holds db (set_holds p HO_RELEASED (set_drafts q D_CANCELLED db))" for p q
    by (rule drafts_fewer_holds [OF only_drafts_intros(4) fewer_holds_set]) simp
  show ?thesis unfolding db'
    by (rule fewer_holds_drafts [OF released]) (simp add: only_drafts_def)
qed

lemma get_active_draft_changes: "get_active_draft t c v now db = Inr (db', x) \<Longrightarrow> fewer_holds db db'"
  by (auto simp: get_active_draft_def Let_def split: option.splits if_splits
      intro: fewer_holds_same drafts_fewer_holds fewer_holds_set)

lemma select_date_changes: "select_date t c d day now db = Inr (db', x) \<Longrightarrow> only_drafts db db'"
  by (auto simp: select_date_def Let_def res_bind_def split: sum.splits option.splits if_splits)

lemma update_contact_changes: "update_contact t c d n p x now db = Inr (db', y) \<Longrightarrow> only_drafts db db'"
  by (auto simp: update_contact_def res_bind_def split: sum.splits option.splits)

lemma get_hold_changes: "get_hold t c d now db = Inr (db', x) \<Longrightarrow> fewer_holds db db'"
  by (auto simp: get_hold_def res_bind_Inr_iff split: option.splits if_splits
      intro: fewer_holds_same fewer_holds_set)

lemma cancel_draft_changes: "cancel_draft t c v now db = Inr (db', x) \<Longrightarrow> fewer_holds db db'"
  by (auto simp: cancel_draft_def Let_def split: if_splits
      intro: fewer_holds_same fewer_holds_drafts [OF fewer_holds_set])

lemma expire_holds_changes: "expire_holds now n db = Inr (db', x) \<Longrightarrow> fewer_holds db db'"
  by (auto simp: expire_holds_def Let_def split: if_splits intro: fewer_holds_set)

lemma release_previous_changes: "release_previous t d db = (d', db') \<Longrightarrow> fewer_holds db db'"
  by (auto simp: release_previous_def Let_def split: option.splits
      intro: fewer_holds_same fewer_holds_drafts [OF fewer_holds_set])

text \<open>A successful \<open>create_hold\<close> is a replay, or adds one hold for a slot of the second reading.\<close>

lemma create_hold_changes:
  assumes "create_hold t c did k key now i db = Inr (db', x)"
  shows "(db' = db \<and> first_where (\<lambda>h. hr_tenant_id h = t \<and> hr_idempotency_key h = key) (db_holds db) \<noteq> None)
   \<or> (\<exists>d d1 db1 refreshed slots s hold selected ctx.
     owned_draft db t c did now = Inr d \<and> release_previous t d db = (d1, db1)
     \<and> availability_context_of db t (dr_service_id d) now = Inr (Some ctx)
     \<and> availability_context_of db1 t (dr_service_id d) now = Inr (Some refreshed)
     \<and> calculate_availability refreshed selected (utc_datetime now) = Inr slots \<and> s \<in> set slots
     \<and> hr_tenant_id hold = t \<and> hr_service_id hold = dr_service_id d \<and> hr_resource_id hold = sl_resource_id s
     \<and> hr_start_at hold = utc (sl_start_at s) \<and> hr_end_at hold = utc (sl_end_at s) + ac_cleanup_buffer ctx
     \<and> hr_id hold = i \<and> hr_customer_id hold = c \<and> hr_idempotency_key hold = key \<and> hold_of_row hold = Inr x
     \<and> insert_hold hold db1 = Inr (db1\<lparr>db_holds := db_holds db1 @ [hold]\<rparr>)
     \<and> only_drafts (db1\<lparr>db_holds := db_holds db1 @ [hold]\<rparr>) db')"
proof (cases "first_where (\<lambda>h. hr_tenant_id h = t \<and> hr_idempotency_key h = key) (db_holds db)")
  case (Some existing)
  then show ?thesis using assms by (auto simp: create_hold_def res_bind_Inr_iff split: if_splits)
next
  case None
  then obtain d selected ctx slots0 where d: "owned_draft db t c did now = Inr d"
    and sel: "dr_selected_date d = Some selected"
    and ctx: "availability_context_of db t (dr_service_id d) now = Inr (Some ctx)"
    and slots0: "calculate_availability ctx selected (utc_datetime now) = Inr slots0"
    using assms by (auto simp: create_hold_def res_bind_Inr_iff split: if_splits option.splits)
  obtain d1 db1 where rel: "release_previous t d db = (d1, db1)" by fastforce
  from assms None d sel ctx slots0 rel obtain refreshed slots s hold db2 where
    refreshed: "availability_context_of db1 t (dr_service_id d) now = Inr (Some refreshed)"
    and slots: "calculate_availability refreshed selected (utc_datetime now) = Inr slots"
    and s: "first_where (\<lambda>s. utc (sl_start_at s) = utc (sl_start_at (slots0 ! nat k))
         \<and> sl_resource_id s = sl_resource_id (slots0 ! nat k)) slots = Some s"
    and hold: "hold = \<lparr>hr_id = i, hr_tenant_id = t, hr_customer_id = c,
          hr_conversation_id = dr_conversation_id d, hr_draft_id = dr_id d,
          hr_service_id = dr_service_id d, hr_resource_id = sl_resource_id s,
          hr_start_at = utc (sl_start_at s), hr_end_at = utc (sl_end_at s) + ac_cleanup_buffer ctx,
          hr_expires_at = now + po_hold_duration (ac_policy ctx),
          hr_idempotency_key = key, hr_status = HO_ACTIVE, hr_timezone = sl_timezone s\<rparr>"
    and db2: "insert_hold hold db1 = Inr db2" and x: "hold_of_row hold = Inr x"
    and db': "db' = set_workflow t (dr_conversation_id d) (Some ''booking:name'')
          (put_draft (d1\<lparr>dr_hold_id := Some i\<rparr>) db2)"
    by (auto simp: create_hold_def Let_def res_bind_Inr_iff split: if_splits option.splits)
  have eq: "db2 = db1\<lparr>db_holds := db_holds db1 @ [hold]\<rparr>" using insert_hold_Inr [OF db2] by simp
  have "only_drafts (db1\<lparr>db_holds := db_holds db1 @ [hold]\<rparr>) db'"
    unfolding db' eq by (auto intro: only_drafts_trans)
  then show ?thesis
    using d rel ctx refreshed slots find_SomeD [OF s] db2 eq x
    by (intro disjI2 exI [of _ d] exI [of _ d1] exI [of _ db1] exI [of _ refreshed] exI [of _ slots]
        exI [of _ s] exI [of _ hold] exI [of _ selected] exI [of _ ctx]) (simp add: hold)
qed

text \<open>A successful \<open>confirm\<close> is a replay or one of the two branches over an unexpired hold.\<close>

lemma confirm_draft_changes:
  assumes "confirm_draft t c d key now i db = Inr (db', r)"
  shows "\<exists>hid hold s db1 b. dr_hold_id d = Some hid \<and>
    first_where (\<lambda>h. hr_tenant_id h = t \<and> hr_customer_id h = c \<and> hr_id h = hid) (db_holds db) = Some hold
    \<and> hr_status hold = HO_ACTIVE \<and> now < hr_expires_at hold
    \<and> s \<in> set (db_services db) \<and> sr_tenant_id s = t \<and> sr_id s = hr_service_id hold
    \<and> (case dr_reschedule_booking_id d of
         Some bid \<Rightarrow> confirm_reschedule t c bid hold s now db = Inr (db1, b)
       | None \<Rightarrow> confirm_new t c d hold s key now i db = Inr (db1, b))
    \<and> db' = set_workflow t (dr_conversation_id d) None (put_draft (d\<lparr>dr_status := D_CONFIRMED\<rparr>)
              (set_holds (\<lambda>h. hr_id h = hr_id hold) HO_CONSUMED db1))
    \<and> result_of_row db' b = Inr r"
proof -
  obtain hid where hid: "dr_hold_id d = Some hid" "filled (dr_customer_name d)" "filled (dr_customer_phone d)"
    using assms by (auto simp: confirm_draft_def split: option.splits if_splits)
  obtain hold where hold: "first_where (\<lambda>h. hr_tenant_id h = t \<and> hr_customer_id h = c \<and> hr_id h = hid)
      (db_holds db) = Some hold" "hr_status hold = HO_ACTIVE" "now < hr_expires_at hold"
    using assms hid by (auto simp: confirm_draft_def not_le split: option.splits if_splits)
  obtain s where s: "first_where (\<lambda>s. sr_tenant_id s = t \<and> sr_id s = hr_service_id hold \<and> sr_active s
      \<and> sr_bookable s) (db_services db) = Some s"
    using assms hid hold by (auto simp: confirm_draft_def split: option.splits)
  from assms hid hold s obtain db1 b where b: "(case dr_reschedule_booking_id d of
         Some bid \<Rightarrow> confirm_reschedule t c bid hold s now db
       | None \<Rightarrow> confirm_new t c d hold s key now i db) = Inr (db1, b)"
    "db' = set_workflow t (dr_conversation_id d) None (put_draft (d\<lparr>dr_status := D_CONFIRMED\<rparr>)
              (set_holds (\<lambda>h. hr_id h = hr_id hold) HO_CONSUMED db1))"
    "result_of_row db' b = Inr r"
    by (auto simp: confirm_draft_def Let_def res_bind_Inr_iff)
  then show ?thesis
    using hid hold find_SomeD [OF s]
    by (intro exI [of _ hid] exI [of _ hold] exI [of _ s] exI [of _ db1] exI [of _ b])
      (auto split: option.splits)
qed

lemma confirm_changes:
  assumes "confirm t c did key now i db = Inr (db', r)"
  shows "db' = db \<or> (\<exists>d. owned_draft db t c did now = Inr d \<and> confirm_draft t c d key now i db = Inr (db', r))"
proof -
  have "confirm_op t c did key now i db = Inr (db', r)"
    using assms by (auto simp: confirm_def split: if_splits sum.splits)
  then show ?thesis
    by (auto simp: confirm_op_def Let_def res_bind_def split: option.splits if_splits sum.splits)
qed

lemma confirm_new_changes:
  assumes "confirm_new t c d hold s key now i db = Inr (db', b)"
  shows "br_id b = i \<and> br_tenant_id b = t \<and> br_customer_id b = c \<and> br_status b = B_CONFIRMED
    \<and> br_service_id b = sr_id s \<and> br_resource_id b = Some (hr_resource_id hold) \<and> br_hold_id b = Some (hr_id hold)
    \<and> br_start_at b = hr_start_at hold \<and> br_end_at b = hr_start_at hold + sr_duration_seconds s * second_us
    \<and> br_idempotency_scope b = ''confirm'' \<and> br_idempotency_value b = key
    \<and> (\<exists>e. insert_booking b db = Inr (db\<lparr>db_bookings := db_bookings db @ [b]\<rparr>) \<and>
        db' = db\<lparr>db_bookings := db_bookings db @ [b],
          db_history := db_history db @ [history_entry t i 1 B_DRAFT B_HELD ''slot_hold_created'',
             history_entry t i 2 B_HELD B_CONFIRMED ''explicit_confirmation''],
          db_outbox := db_outbox db @ [e]\<rparr>)"
proof -
  from assms obtain db1 db2 db3 where
    b: "insert_booking b db = Inr db1"
    and h: "insert_history (history_entry t i 1 B_DRAFT B_HELD ''slot_hold_created'') db1 = Inr db2"
      "insert_history (history_entry t i 2 B_HELD B_CONFIRMED ''explicit_confirmation'') db2 = Inr db3"
    and e: "\<exists>k. booking_event t b ''booking.confirmed'' k now db3 = Inr db'"
    and fields: "br_id b = i \<and> br_tenant_id b = t \<and> br_customer_id b = c \<and> br_status b = B_CONFIRMED
      \<and> br_service_id b = sr_id s \<and> br_resource_id b = Some (hr_resource_id hold) \<and> br_hold_id b = Some (hr_id hold)
      \<and> br_start_at b = hr_start_at hold \<and> br_end_at b = hr_start_at hold + sr_duration_seconds s * second_us
      \<and> br_idempotency_scope b = ''confirm'' \<and> br_idempotency_value b = key"
    unfolding confirm_new_def Let_def by (fastforce simp: res_bind_Inr_iff)
  have db1: "db1 = db\<lparr>db_bookings := db_bookings db @ [b]\<rparr>"
    using b by (auto simp: insert_booking_def split: if_splits)
  from e obtain ev where ev: "db' = db3\<lparr>db_outbox := db_outbox db3 @ [ev]\<rparr>"
    using booking_event_Inr by blast
  have "db2 = db1\<lparr>db_history := db_history db1 @ [history_entry t i 1 B_DRAFT B_HELD ''slot_hold_created'']\<rparr>"
    "db3 = db2\<lparr>db_history := db_history db2 @ [history_entry t i 2 B_HELD B_CONFIRMED ''explicit_confirmation'']\<rparr>"
    using insert_history_Inr [OF h(1)] insert_history_Inr [OF h(2)] by simp_all
  then show ?thesis using fields b unfolding ev db1 by (simp add: exI [of _ ev])
qed

lemma confirm_reschedule_changes:
  assumes "confirm_reschedule t c bid hold s now db = Inr (db', b)"
  shows "\<exists>b0 n e. b0 \<in> set (db_bookings db) \<and> br_tenant_id b0 = t \<and> br_customer_id b0 = c \<and> br_id b0 = bid
    \<and> br_status b0 = B_CONFIRMED \<and> n = next_history_sequence db bid
    \<and> b = b0\<lparr>br_status := B_CONFIRMED, br_resource_id := Some (hr_resource_id hold),
             br_start_at := hr_start_at hold,
             br_end_at := hr_start_at hold + sr_duration_seconds s * second_us,
             br_hold_id := Some (hr_id hold), br_service_snapshot := service_snapshot s\<rparr>
    \<and> update_booking b db = Inr (db\<lparr>db_bookings := map (\<lambda>x. if br_id x = bid then b else x) (db_bookings db)\<rparr>)
    \<and> db' = db\<lparr>db_bookings := map (\<lambda>x. if br_id x = bid then b else x) (db_bookings db),
        db_history := db_history db @ [history_entry t bid n B_CONFIRMED B_RESCHEDULE_PENDING ''customer_reschedule'',
          history_entry t bid (n + 1) B_RESCHEDULE_PENDING B_CONFIRMED ''new_hold_confirmed''],
        db_outbox := db_outbox db @ [e]\<rparr>"
proof -
  obtain b0 where b0: "first_where (\<lambda>b. br_tenant_id b = t \<and> br_customer_id b = c \<and> br_id b = bid)
      (db_bookings db) = Some b0" "br_status b0 = B_CONFIRMED"
    using assms by (auto simp: confirm_reschedule_def split: option.splits if_splits)
  then have id: "br_id b0 = bid" using find_SomeD [OF b0(1)] by simp
  let ?n = "next_history_sequence db bid"
  let ?b = "b0\<lparr>br_status := B_CONFIRMED, br_resource_id := Some (hr_resource_id hold),
             br_start_at := hr_start_at hold,
             br_end_at := hr_start_at hold + sr_duration_seconds s * second_us,
             br_hold_id := Some (hr_id hold), br_service_snapshot := service_snapshot s\<rparr>"
  obtain pol where pol: "find_policy db t = Some pol"
    using assms b0 by (auto simp: confirm_reschedule_def split: option.splits)
  from assms b0 pol id obtain db1 db2 db3 where
    h: "insert_history (history_entry t bid ?n B_CONFIRMED B_RESCHEDULE_PENDING ''customer_reschedule'') db = Inr db1"
      "insert_history (history_entry t bid (?n + 1) B_RESCHEDULE_PENDING B_CONFIRMED ''new_hold_confirmed'') db1 = Inr db2"
    and u: "update_booking ?b db2 = Inr db3" and b: "b = ?b"
    and e: "\<exists>k. booking_event t ?b ''booking.rescheduled'' k now db3 = Inr db'"
    by (fastforce simp: confirm_reschedule_def Let_def res_bind_Inr_iff split: if_splits)
  have d2: "db2 = db\<lparr>db_history := db_history db @ [history_entry t bid ?n B_CONFIRMED B_RESCHEDULE_PENDING
      ''customer_reschedule'', history_entry t bid (?n + 1) B_RESCHEDULE_PENDING B_CONFIRMED ''new_hold_confirmed'']\<rparr>"
    using insert_history_Inr [OF h(1)] insert_history_Inr [OF h(2)] by simp
  have d3: "db3 = db2\<lparr>db_bookings := map (\<lambda>x. if br_id x = bid then ?b else x) (db_bookings db2)\<rparr>"
    and up: "update_booking ?b db = Inr (db\<lparr>db_bookings := map (\<lambda>x. if br_id x = bid then ?b else x) (db_bookings db)\<rparr>)"
    using u id unfolding d2 by (auto simp: update_booking_def split: if_splits)
  from e obtain ev where ev: "db' = db3\<lparr>db_outbox := db_outbox db3 @ [ev]\<rparr>"
    using booking_event_Inr by blast
  show ?thesis
    using find_SomeD [OF b0(1)] b0(2) up b unfolding ev d3 d2
    by (intro exI [of _ b0] exI [of _ ?n] exI [of _ ev]) simp
qed

lemma cancel_booking_changes:
  assumes "cancel_booking t c bid now db = Inr (db', r)"
  shows "db' = db \<or> (\<exists>b0 n e. b0 \<in> set (db_bookings db) \<and> br_tenant_id b0 = t \<and> br_id b0 = bid
    \<and> br_status b0 = B_CONFIRMED \<and> n = next_history_sequence db bid
    \<and> update_booking (b0\<lparr>br_status := B_CANCELLED\<rparr>) db = Inr (db\<lparr>db_bookings :=
          map (\<lambda>x. if br_id x = bid then b0\<lparr>br_status := B_CANCELLED\<rparr> else x) (db_bookings db)\<rparr>)
    \<and> db' = db\<lparr>db_bookings := map (\<lambda>x. if br_id x = bid then b0\<lparr>br_status := B_CANCELLED\<rparr> else x) (db_bookings db),
        db_history := db_history db @ [history_entry t bid n B_CONFIRMED B_CANCELLED ''customer_cancelled''],
        db_outbox := db_outbox db @ [e]\<rparr>)"
proof -
  obtain b0 where b0: "owned_booking db t c bid = Some b0"
    using assms by (auto simp: cancel_booking_def split: option.splits)
  then have own: "b0 \<in> set (db_bookings db)" "br_tenant_id b0 = t" "br_id b0 = bid"
    using find_SomeD by (fastforce simp: owned_booking_def)+
  show ?thesis
  proof (cases "br_status b0 = B_CANCELLED")
    case True
    then show ?thesis using assms b0 by (auto simp: cancel_booking_def res_bind_Inr_iff)
  next
    case False
    then have conf: "br_status b0 = B_CONFIRMED"
      using assms b0 by (auto simp: cancel_booking_def split: if_splits)
    obtain pol where pol: "find_policy db t = Some pol"
      using assms b0 False conf by (auto simp: cancel_booking_def split: option.splits)
    let ?n = "next_history_sequence db bid" and ?b = "b0\<lparr>br_status := B_CANCELLED\<rparr>"
    from assms b0 conf pol own obtain db1 db2 where
      h: "insert_history (history_entry t bid ?n B_CONFIRMED B_CANCELLED ''customer_cancelled'') db = Inr db1"
      and u: "update_booking ?b db1 = Inr db2"
      and e: "\<exists>k. booking_event t ?b ''booking.cancelled'' k now db2 = Inr db'"
      by (fastforce simp: cancel_booking_def Let_def res_bind_Inr_iff split: if_splits)
    have d1: "db1 = db\<lparr>db_history := db_history db @ [history_entry t bid ?n B_CONFIRMED B_CANCELLED ''customer_cancelled'']\<rparr>"
      using insert_history_Inr [OF h] by simp
    have d2: "db2 = db1\<lparr>db_bookings := map (\<lambda>x. if br_id x = bid then ?b else x) (db_bookings db1)\<rparr>"
      and up: "update_booking ?b db = Inr (db\<lparr>db_bookings := map (\<lambda>x. if br_id x = bid then ?b else x) (db_bookings db)\<rparr>)"
      using u own(3) unfolding d1 by (auto simp: update_booking_def split: if_splits)
    from e obtain ev where ev: "db' = db2\<lparr>db_outbox := db_outbox db2 @ [ev]\<rparr>"
      using booking_event_Inr by blast
    show ?thesis
      using own conf up unfolding ev d2 d1
      by (intro disjI2 exI [of _ b0] exI [of _ ?n] exI [of _ ev]) simp
  qed
qed

text \<open>The steps, by what they change.\<close>

lemma step_db_cases:
  assumes same: "P db"
    and fewer: "\<And>db'. fewer_holds db db' \<Longrightarrow> P db'"
    and hold: "\<And>t c did k key i db' x. create_hold t c did k key now i db = Inr (db', x) \<Longrightarrow> P db'"
    and conf: "\<And>t c d did key i db' r. owned_draft db t c did now = Inr d
      \<Longrightarrow> confirm_draft t c d key now i db = Inr (db', r) \<Longrightarrow> P db'"
    and cancel: "\<And>t c b db' r. cancel_booking t c b now db = Inr (db', r) \<Longrightarrow> P db'"
  shows "P (step_db s now db)"
proof (cases s)
  case (Confirm w d key i)
  have "P db'" if "confirm (ti_tenant_id w) (ti_customer_id w) d key now i db = Inr (db', r)" for db' r
    using confirm_changes [OF that] same conf by blast
  then show ?thesis using Confirm same by (auto intro: run_tx_inv)
next
  case (StartDraft w sv r i)
  show ?thesis unfolding StartDraft step_db.simps by (rule run_tx_inv [where P = P, OF same]) (rule fewer [OF start_draft_changes])
next
  case (GetActiveDraft w)
  show ?thesis unfolding GetActiveDraft step_db.simps by (rule run_tx_inv [where P = P, OF same]) (rule fewer [OF get_active_draft_changes])
next
  case (SelectDate w d day)
  show ?thesis unfolding SelectDate step_db.simps by (rule run_tx_inv [where P = P, OF same]) (rule fewer [OF fewer_holds_same, OF select_date_changes])
next
  case (CreateHold w d k key i)
  show ?thesis unfolding CreateHold step_db.simps by (rule run_tx_inv [where P = P, OF same]) (rule hold)
next
  case (UpdateContact w d n p x)
  show ?thesis unfolding UpdateContact step_db.simps by (rule run_tx_inv [where P = P, OF same]) (rule fewer [OF fewer_holds_same, OF update_contact_changes])
next
  case (GetHold w d)
  show ?thesis unfolding GetHold step_db.simps by (rule run_tx_inv [where P = P, OF same]) (rule fewer [OF get_hold_changes])
next
  case (CancelDraft w)
  show ?thesis unfolding CancelDraft step_db.simps by (rule run_tx_inv [where P = P, OF same]) (rule fewer [OF cancel_draft_changes])
next
  case (CancelBooking w b)
  show ?thesis unfolding CancelBooking step_db.simps by (rule run_tx_inv [where P = P, OF same]) (rule cancel)
next
  case (ExpireHolds n)
  show ?thesis unfolding ExpireHolds step_db.simps by (rule run_tx_inv [where P = P, OF same]) (rule fewer [OF expire_holds_changes])
qed

lemma create_hold_tables:
  assumes "create_hold t c did k key now i db = Inr (db', x)"
  shows "db_bookings db' = db_bookings db \<and> db_history db' = db_history db \<and> db_services db' = db_services db
    \<and> db_resources db' = db_resources db"
  using create_hold_changes [OF assms] release_previous_changes
  by (fastforce simp: fewer_holds_def only_drafts_def)

section \<open>Appointments never clash\<close>

definition bookings_ok :: "booking_db \<Rightarrow> bool" where
  "bookings_ok db = (distinct (map br_id (db_bookings db))
     \<and> (\<forall>b \<in> set (db_bookings db). br_start_at b < br_end_at b)
     \<and> (\<forall>a \<in> set (db_bookings db). \<forall>b \<in> set (db_bookings db). br_id a \<noteq> br_id b \<longrightarrow> \<not> rows_clash a b))"

lemma rows_clash_sym: "rows_clash a b \<longleftrightarrow> rows_clash b a"
  by (auto simp: rows_clash_def rows_overlap_def)

lemma insert_booking_keeps:
  assumes "bookings_ok db" and "insert_booking b db = Inr db'"
  shows "bookings_ok db'"
proof -
  have new: "\<forall>x \<in> set (db_bookings db). br_id x \<noteq> br_id b \<and> \<not> rows_clash b x"
    and len: "br_start_at b < br_end_at b" and db': "db' = db\<lparr>db_bookings := db_bookings db @ [b]\<rparr>"
    using assms(2) by (auto simp: insert_booking_def list_ex_iff not_le split: if_splits)
  then show ?thesis using assms(1) rows_clash_sym by (auto simp: bookings_ok_def)
qed

lemma update_booking_keeps:
  assumes "bookings_ok db" and "update_booking b db = Inr db'"
  shows "bookings_ok db'"
proof -
  have new: "\<forall>x \<in> set (db_bookings db). br_id x \<noteq> br_id b \<longrightarrow> \<not> rows_clash b x"
    and len: "br_start_at b < br_end_at b"
    and db': "db_bookings db' = map (\<lambda>x. if br_id x = br_id b then b else x) (db_bookings db)"
    using assms(2) by (auto simp: update_booking_def list_ex_iff not_le split: if_splits)
  have "map br_id (db_bookings db') = map br_id (db_bookings db)" by (simp add: db')
  moreover have "\<not> rows_clash x y"
    if "x \<in> set (db_bookings db')" "y \<in> set (db_bookings db')" "br_id x \<noteq> br_id y" for x y
    using that new assms(1) rows_clash_sym by (auto simp: db' bookings_ok_def split: if_splits)
  moreover have "\<forall>x \<in> set (db_bookings db'). br_start_at x < br_end_at x"
    using assms(1) len by (auto simp: bookings_ok_def db')
  moreover have "distinct (map br_id (db_bookings db))" using assms(1) by (simp add: bookings_ok_def)
  ultimately show ?thesis unfolding bookings_ok_def by simp
qed

lemma bookings_ok_same: "db_bookings db' = db_bookings db \<Longrightarrow> bookings_ok db' = bookings_ok db"
  by (simp add: bookings_ok_def)

lemma confirm_draft_bookings:
  assumes "confirm_draft t c d key now i db = Inr (db', r)"
  shows "\<exists>b db1. (insert_booking b db = Inr db1 \<or> update_booking b db = Inr db1)
    \<and> db_bookings db' = db_bookings db1"
proof -
  obtain hid hold s db1 b where
    br: "case dr_reschedule_booking_id d of
         Some bid \<Rightarrow> confirm_reschedule t c bid hold s now db = Inr (db1, b)
       | None \<Rightarrow> confirm_new t c d hold s key now i db = Inr (db1, b)"
    and db': "db' = set_workflow t (dr_conversation_id d) None (put_draft (d\<lparr>dr_status := D_CONFIRMED\<rparr>)
              (set_holds (\<lambda>h. hr_id h = hr_id hold) HO_CONSUMED db1))"
    using confirm_draft_changes [OF assms] by blast
  show ?thesis
  proof (cases "dr_reschedule_booking_id d")
    case None
    then obtain e where "insert_booking b db = Inr (db\<lparr>db_bookings := db_bookings db @ [b]\<rparr>)"
      "db_bookings db1 = db_bookings db @ [b]"
      using confirm_new_changes [of t c d hold s key now i db db1 b] br by auto
    then show ?thesis by (intro exI [of _ b] exI [of _ "db\<lparr>db_bookings := db_bookings db @ [b]\<rparr>"]) (simp add: db')
  next
    case (Some bid)
    let ?bs = "map (\<lambda>x. if br_id x = bid then b else x) (db_bookings db)"
    have "update_booking b db = Inr (db\<lparr>db_bookings := ?bs\<rparr>)" "db_bookings db1 = ?bs"
      using confirm_reschedule_changes [of t c bid hold s now db db1 b] br Some by auto
    then show ?thesis by (intro exI [of _ b] exI [of _ "db\<lparr>db_bookings := ?bs\<rparr>"]) (simp add: db')
  qed
qed

interpretation booking_rows: clocked_invariant step_db "\<lambda>_. bookings_ok"
proof
  fix t t' :: int and d :: booking_db and s
  assume ok: "bookings_ok d"
  show "bookings_ok (step_db s t' d)"
  proof (rule step_db_cases)
    show "bookings_ok db'" if "fewer_holds d db'" for db'
      using that ok by (simp add: fewer_holds_def bookings_ok_def)
    show "bookings_ok db'" if "create_hold t c did k key t' i d = Inr (db', x)" for t c did k key i db' x
      using create_hold_tables [OF that] ok by (simp add: bookings_ok_def)
    show "bookings_ok db'" if run: "confirm_draft t c dd key t' i d = Inr (db', r)" for t c dd key i db' r
    proof -
      obtain b db1 where "insert_booking b d = Inr db1 \<or> update_booking b d = Inr db1"
        and eq: "db_bookings db' = db_bookings db1"
        using confirm_draft_bookings [OF run] by blast
      then have "bookings_ok db1" using insert_booking_keeps [OF ok] update_booking_keeps [OF ok] by blast
      then show ?thesis using bookings_ok_same [OF eq] by simp
    qed
    show "bookings_ok db'" if run: "cancel_booking t c b t' d = Inr (db', r)" for t c b db' r
    proof (cases "db' = d")
      case False
      then obtain b0 where up: "update_booking (b0\<lparr>br_status := B_CANCELLED\<rparr>) d = Inr (d\<lparr>db_bookings :=
          map (\<lambda>x. if br_id x = b then b0\<lparr>br_status := B_CANCELLED\<rparr> else x) (db_bookings d)\<rparr>)"
        and eq: "db_bookings db' = map (\<lambda>x. if br_id x = b then b0\<lparr>br_status := B_CANCELLED\<rparr> else x) (db_bookings d)"
        using cancel_booking_changes [OF run] by auto
      show ?thesis using update_booking_keeps [OF ok up] eq by (simp add: bookings_ok_def)
    qed (use ok in simp)
  qed (rule ok)
qed

section \<open>Histories follow the domain's transition table\<close>

fun status_path :: "booking_status \<Rightarrow> (booking_status \<times> booking_status) list \<Rightarrow> booking_status \<Rightarrow> bool" where
  "status_path s [] t = (s = t)"
| "status_path s ((f, g) # rest) t = (f = s \<and> g \<in> booking_transitions f \<and> status_path g rest t)"

lemma status_path_append: "status_path s (xs @ ys) t \<longleftrightarrow> (\<exists>u. status_path s xs u \<and> status_path u ys t)"
  by (induction s xs t rule: status_path.induct) auto

definition history_of :: "booking_db \<Rightarrow> booking_id \<Rightarrow> history_row list" where
  "history_of db b = filter (\<lambda>h. hy_booking_id h = b) (db_history db)"

abbreviation moves :: "history_row list \<Rightarrow> (booking_status \<times> booking_status) list" where
  "moves hs \<equiv> map (\<lambda>h. (hy_from_status h, hy_to_status h)) hs"

definition booking_history_ok :: "booking_db \<Rightarrow> booking_row \<Rightarrow> bool" where
  "booking_history_ok db b = (let hs = history_of db (br_id b) in
     map hy_sequence hs = [1..int (length hs)] \<and> status_path B_DRAFT (moves hs) (br_status b)
     \<and> (\<forall>h \<in> set hs. hy_tenant_id h = br_tenant_id b))"

definition history_ok :: "booking_db \<Rightarrow> bool" where
  "history_ok db = (distinct (map br_id (db_bookings db))
     \<and> (\<forall>b \<in> set (db_bookings db). booking_history_ok db b)
     \<and> (\<forall>h \<in> set (db_history db). hy_booking_id h \<in> br_id ` set (db_bookings db)))"

lemma foldr_max_upto: "foldr max [1..int n] (0::int) = int n"
proof -
  have "foldr max xs (0::int) = Max (set (0 # xs))" for xs :: "int list"
  proof (induction xs)
    case (Cons a xs)
    have "Max (set (0 # a # xs)) = Max (insert a (set (0 # xs)))" by (simp add: insert_commute)
    also have "\<dots> = max a (Max (set (0 # xs)))" by (rule Max_insert) auto
    finally show ?case using Cons by simp
  qed simp
  also have "set (0 # [1..int n]) = {0..int n}" by auto
  also have "Max {0..int n} = int n" by (rule Max_eqI) auto
  finally show ?thesis .
qed

lemma upto_join: "[1..int n] @ [int n + 1..int n + int m] = [1..int (n + m)]"
proof (cases "n = 0")
  case False
  then show ?thesis using upto_split2 [of 1 "int n" "int n + int m"] by simp
qed simp

lemma next_sequence:
  assumes "booking_history_ok db b"
  shows "next_history_sequence db (br_id b) = int (length (history_of db (br_id b))) + 1"
  using assms foldr_max_upto
  by (simp add: next_history_sequence_def booking_history_ok_def Let_def history_of_def)

lemma history_append:
  assumes "booking_history_ok db b" and "\<forall>h \<in> set new. hy_booking_id h = br_id b \<and> hy_tenant_id h = br_tenant_id b"
    and "map hy_sequence new = [next_history_sequence db (br_id b)..next_history_sequence db (br_id b) + int (length new) - 1]"
    and "status_path (br_status b) (moves new) st"
    and "db_history db' = db_history db @ new" and "br_id b' = br_id b" "br_tenant_id b' = br_tenant_id b" "br_status b' = st"
  shows "booking_history_ok db' b'"
proof -
  let ?hs = "history_of db (br_id b)"
  have hs': "history_of db' (br_id b') = ?hs @ new"
    using assms(2,5,6) by (simp add: history_of_def)
  have "map hy_sequence (?hs @ new) = [1..int (length ?hs)] @ [int (length ?hs) + 1..int (length ?hs) + int (length new)]"
    using assms(1,3) next_sequence [OF assms(1)] by (simp add: booking_history_ok_def Let_def)
  also have "\<dots> = [1..int (length (?hs @ new))]"
    by (simp only: upto_join length_append)
  finally show ?thesis
    using assms(1,2,4,7,8) by (auto simp: booking_history_ok_def Let_def hs' status_path_append)
qed

lemma history_ok_same:
  "db_bookings db' = db_bookings db \<Longrightarrow> db_history db' = db_history db \<Longrightarrow> history_ok db' = history_ok db"
  by (simp add: history_ok_def booking_history_ok_def history_of_def Let_def)

text \<open>New rows for one appointment leave the others' histories alone.\<close>

lemma history_other:
  assumes "booking_history_ok db b" and "db_history db' = db_history db @ new"
    and "\<forall>h \<in> set new. hy_booking_id h \<noteq> br_id b"
  shows "booking_history_ok db' b"
proof -
  have "filter (\<lambda>h. hy_booking_id h = br_id b) new = []" using assms(3) by (simp add: filter_empty_conv)
  then have "history_of db' (br_id b) = history_of db (br_id b)" using assms(2) by (simp add: history_of_def)
  then show ?thesis using assms(1) by (simp add: booking_history_ok_def)
qed

lemma moved_booking_history:
  assumes ok: "history_ok db" and b0: "b0 \<in> set (db_bookings db)" "br_id b0 = bid"
    and bk: "db_bookings db' = map (\<lambda>x. if br_id x = bid then b else x) (db_bookings db)"
    and hist: "db_history db' = db_history db @ new"
    and b: "br_id b = bid" "br_tenant_id b = br_tenant_id b0"
    and new: "\<forall>h \<in> set new. hy_booking_id h = bid \<and> hy_tenant_id h = br_tenant_id b0"
    and seqs: "map hy_sequence new = [next_history_sequence db bid..next_history_sequence db bid + int (length new) - 1]"
    and path: "status_path (br_status b0) (moves new) (br_status b)"
  shows "history_ok db'"
proof -
  have ids: "map br_id (db_bookings db') = map br_id (db_bookings db)"
    by (simp add: bk b(1))
  have ok0: "booking_history_ok db b0" using ok b0 by (simp add: history_ok_def)
  have "booking_history_ok db' b"
    by (rule history_append [OF ok0]) (use b0(2) b new seqs path hist in simp_all)
  moreover have "booking_history_ok db' x" if "x \<in> set (db_bookings db)" "br_id x \<noteq> bid" for x
    by (rule history_other [OF _ hist]) (use that ok new in \<open>auto simp: history_ok_def\<close>)
  ultimately have "\<forall>x \<in> set (db_bookings db'). booking_history_ok db' x"
    by (auto simp: bk)
  moreover have "br_id ` set (db_bookings db') = br_id ` set (db_bookings db)"
    using ids by (metis set_map)
  moreover have "bid \<in> br_id ` set (db_bookings db)" using b0 by auto
  moreover have "distinct (map br_id (db_bookings db))"
    "\<forall>h \<in> set (db_history db). hy_booking_id h \<in> br_id ` set (db_bookings db)"
    using ok by (simp_all add: history_ok_def)
  ultimately show ?thesis
    unfolding history_ok_def using ids hist new by auto
qed

lemma two_entries: "[n..n + int (length [x, y]) - 1] = [n, n + 1]"
  by (simp add: upto_rec1)

lemma confirm_draft_history:
  assumes ok: "history_ok db" and run: "confirm_draft t c d key now i db = Inr (db', r)"
  shows "history_ok db'"
proof -
  obtain hid hold s db1 b where
    br: "case dr_reschedule_booking_id d of
         Some bid \<Rightarrow> confirm_reschedule t c bid hold s now db = Inr (db1, b)
       | None \<Rightarrow> confirm_new t c d hold s key now i db = Inr (db1, b)"
    and db': "db' = set_workflow t (dr_conversation_id d) None (put_draft (d\<lparr>dr_status := D_CONFIRMED\<rparr>)
              (set_holds (\<lambda>h. hr_id h = hr_id hold) HO_CONSUMED db1))"
    using confirm_draft_changes [OF run] by blast
  have same: "history_ok db' = history_ok db1" by (rule history_ok_same) (simp_all add: db')
  show ?thesis
  proof (cases "dr_reschedule_booking_id d")
    case (Some bid)
    then obtain b0 n where b0: "b0 \<in> set (db_bookings db)" "br_tenant_id b0 = t" "br_id b0 = bid"
        "br_status b0 = B_CONFIRMED" "n = next_history_sequence db bid"
      and b: "br_id b = bid" "br_tenant_id b = t" "br_status b = B_CONFIRMED"
      and db1: "db_bookings db1 = map (\<lambda>x. if br_id x = bid then b else x) (db_bookings db)"
        "db_history db1 = db_history db @ [history_entry t bid n B_CONFIRMED B_RESCHEDULE_PENDING ''customer_reschedule'',
          history_entry t bid (n + 1) B_RESCHEDULE_PENDING B_CONFIRMED ''new_hold_confirmed'']"
      using confirm_reschedule_changes [of t c bid hold s now db db1 b] br by fastforce
    have "history_ok db1"
      by (rule moved_booking_history [OF ok b0(1,3) db1])
        (use b0 b in \<open>simp_all only: two_entries, auto simp: history_entry_def\<close>)
    then show ?thesis using same by simp
  next
    case None
    then obtain e where b: "br_id b = i" "br_tenant_id b = t" "br_status b = B_CONFIRMED"
      and ins: "insert_booking b db = Inr (db\<lparr>db_bookings := db_bookings db @ [b]\<rparr>)"
      and db1: "db_bookings db1 = db_bookings db @ [b]" "db_history db1 = db_history db @
          [history_entry t i 1 B_DRAFT B_HELD ''slot_hold_created'', history_entry t i 2 B_HELD B_CONFIRMED ''explicit_confirmation'']"
      using confirm_new_changes [of t c d hold s key now i db db1 b] br by auto
    have fresh: "i \<notin> br_id ` set (db_bookings db)"
      using ins b(1) by (auto simp: insert_booking_def list_ex_iff split: if_splits)
    then have none: "filter (\<lambda>h. hy_booking_id h = i) (db_history db) = []"
      using ok by (auto simp: history_ok_def filter_empty_conv)
    have "booking_history_ok db1 b"
      by (simp add: booking_history_ok_def history_of_def db1(2) b none history_entry_def Let_def upto_rec1)
    moreover have "booking_history_ok db1 x" if "x \<in> set (db_bookings db)" for x
      by (rule history_other [OF _ db1(2)]) (use that ok fresh in \<open>auto simp: history_ok_def history_entry_def\<close>)
    ultimately have "history_ok db1"
      using ok fresh b(1) unfolding history_ok_def db1 by (auto simp: history_entry_def)
    then show ?thesis using same by simp
  qed
qed

lemma cancel_booking_history:
  assumes ok: "history_ok db" and run: "cancel_booking t c bid now db = Inr (db', r)"
  shows "history_ok db'"
proof (cases "db' = db")
  case False
  then obtain b0 n where b0: "b0 \<in> set (db_bookings db)" "br_tenant_id b0 = t" "br_id b0 = bid"
      "br_status b0 = B_CONFIRMED" "n = next_history_sequence db bid"
    and db': "db_bookings db' = map (\<lambda>x. if br_id x = bid then b0\<lparr>br_status := B_CANCELLED\<rparr> else x) (db_bookings db)"
      "db_history db' = db_history db @ [history_entry t bid n B_CONFIRMED B_CANCELLED ''customer_cancelled'']"
    using cancel_booking_changes [OF run] by fastforce
  show ?thesis
    by (rule moved_booking_history [OF ok b0(1,3) db']) (use b0 in \<open>auto simp: history_entry_def\<close>)
qed (use ok in simp)

interpretation booking_histories: clocked_invariant step_db "\<lambda>_. history_ok"
proof
  fix t t' :: int and d :: booking_db and s
  assume ok: "history_ok d"
  show "history_ok (step_db s t' d)"
  proof (rule step_db_cases)
    show "history_ok db'" if "fewer_holds d db'" for db'
      using that ok history_ok_same [of db' d] by (simp add: fewer_holds_def)
    show "history_ok db'" if "create_hold t c did k key t' i d = Inr (db', x)" for t c did k key i db' x
      using create_hold_tables [OF that] ok history_ok_same [of db' d] by simp
    show "history_ok db'" if "confirm_draft t c dd key t' i d = Inr (db', r)" for t c dd key i db' r
      by (rule confirm_draft_history [OF ok that])
    show "history_ok db'" if "cancel_booking t c b t' d = Inr (db', r)" for t c b db' r
      by (rule cancel_booking_history [OF ok that])
  qed (rule ok)
qed

section \<open>Claims on a one-capacity resource never overlap\<close>

type_synonym claim = "(booking_id + slot_hold_id) \<times> instant \<times> instant"

text \<open>At an instant, the appointments and the unexpired active holds of a resource.\<close>

definition claims :: "instant \<Rightarrow> booking_db \<Rightarrow> tenant_id \<Rightarrow> resource_id \<Rightarrow> claim set" where
  "claims now db t r =
     (\<lambda>b. (Inl (br_id b), br_start_at b, br_end_at b)) ` {b \<in> set (db_bookings db).
        br_tenant_id b = t \<and> br_resource_id b = Some r \<and> blocking_status (br_status b)}
     \<union> (\<lambda>h. (Inr (hr_id h), hr_start_at h, hr_end_at h)) ` {h \<in> set (db_holds db).
        hr_tenant_id h = t \<and> hr_resource_id h = r \<and> hr_status h = HO_ACTIVE \<and> now < hr_expires_at h}"

definition apart :: "claim \<Rightarrow> claim \<Rightarrow> bool" where
  "apart x y = (snd (snd x) \<le> fst (snd y) \<or> snd (snd y) \<le> fst (snd x))"

definition claims_apart :: "claim set \<Rightarrow> bool" where
  "claims_apart C = (\<forall>x \<in> C. \<forall>y \<in> C. fst x \<noteq> fst y \<longrightarrow> apart x y)"

definition one_capacity :: "booking_db \<Rightarrow> tenant_id \<Rightarrow> resource_id \<Rightarrow> bool" where
  "one_capacity db t r = (\<forall>row \<in> set (db_resources db). rr_tenant_id row = t \<and> rr_id row = r \<longrightarrow> rr_capacity row = 1)"

text \<open>The services' CHECK constraints, their key, and that an appointment lasts at most a day.\<close>

definition services_ok :: "booking_db \<Rightarrow> bool" where
  "services_ok db = (distinct (map (\<lambda>s. (sr_tenant_id s, sr_id s)) (db_services db))
     \<and> (\<forall>s \<in> set (db_services db). 0 < sr_duration_seconds s \<and> 0 \<le> sr_buffer_seconds s
          \<and> (sr_duration_seconds s + sr_buffer_seconds s) * second_us \<le> day_us))"

definition has_service :: "booking_db \<Rightarrow> tenant_id \<Rightarrow> service_id \<Rightarrow> bool" where
  "has_service db t s = (\<exists>sv \<in> set (db_services db). sr_tenant_id sv = t \<and> sr_id sv = s)"

definition hold_spans :: "booking_db \<Rightarrow> slot_hold_row \<Rightarrow> bool" where
  "hold_spans db h = (\<exists>s \<in> set (db_services db). sr_tenant_id s = hr_tenant_id h \<and> sr_id s = hr_service_id h
     \<and> hr_end_at h = hr_start_at h + (sr_duration_seconds s + sr_buffer_seconds s) * second_us)"

definition claims_ok :: "instant \<Rightarrow> booking_db \<Rightarrow> bool" where
  "claims_ok now db = (services_ok db \<and> distinct (map br_id (db_bookings db))
     \<and> distinct (map hr_id (db_holds db))
     \<and> (\<forall>b \<in> set (db_bookings db). has_service db (br_tenant_id b) (br_service_id b))
     \<and> (\<forall>h \<in> set (db_holds db). hold_spans db h)
     \<and> (\<forall>t r. one_capacity db t r \<longrightarrow> claims_apart (claims now db t r)))"

lemma apart_sym: "apart x y = apart y x"
  by (auto simp: apart_def)

lemma claims_apart_subset: "claims_apart C \<Longrightarrow> C' \<subseteq> C \<Longrightarrow> claims_apart C'"
  by (auto simp: claims_apart_def)

lemma claims_apart_insert:
  "claims_apart C \<Longrightarrow> \<forall>y \<in> C. fst y \<noteq> fst x \<longrightarrow> apart x y \<Longrightarrow> claims_apart (insert x C)"
  using apart_sym by (auto simp: claims_apart_def)

text \<open>A claim may take over a part of another one that goes away.\<close>

lemma claims_apart_replace:
  assumes "claims_apart C" and "(q, s, e) \<in> C" and "s \<le> s'" "e' \<le> e"
    and "\<And>x. x \<in> C' \<Longrightarrow> x = (k, s', e') \<or> (x \<in> C \<and> fst x \<noteq> q)"
  shows "claims_apart C'"
proof -
  have near: "apart (k, s', e') y" if "y \<in> C" "fst y \<noteq> q" for y
  proof -
    have "apart (q, s, e) y" using assms(1,2) that by (auto simp: claims_apart_def)
    then show ?thesis using assms(3,4) by (auto simp: apart_def)
  qed
  have "apart x y" if x: "x \<in> C'" and y: "y \<in> C'" and ne: "fst x \<noteq> fst y" for x y
  proof -
    consider "x = (k, s', e')" "y = (k, s', e')" | "x = (k, s', e')" "y \<in> C" "fst y \<noteq> q"
      | "y = (k, s', e')" "x \<in> C" "fst x \<noteq> q" | "x \<in> C" "y \<in> C"
      using assms(5) [OF x] assms(5) [OF y] by blast
    then show ?thesis
    proof cases
      case 2
      then show ?thesis using near by blast
    next
      case 3
      then show ?thesis using near apart_sym by blast
    next
      case 4
      then show ?thesis using assms(1) ne by (auto simp: claims_apart_def)
    qed (use ne in simp)
  qed
  then show ?thesis by (auto simp: claims_apart_def)
qed

lemma claims_later: "t1 \<le> t2 \<Longrightarrow> claims t2 db t r \<subseteq> claims t1 db t r"
  by (auto simp: claims_def)

lemma claims_ok_later:
  assumes "claims_ok t1 db" and "t1 \<le> t2"
  shows "claims_ok t2 db"
proof -
  have "claims_apart (claims t2 db t r)" if "one_capacity db t r" for t r
    by (rule claims_apart_subset [OF _ claims_later [OF assms(2)]])
      (use assms(1) that in \<open>simp add: claims_ok_def\<close>)
  then show ?thesis using assms(1) by (simp add: claims_ok_def)
qed

lemma claims_ok_fewer:
  assumes "claims_ok now db" and "fewer_holds db db'"
  shows "claims_ok now db'"
proof -
  obtain p st where st: "st \<noteq> HO_ACTIVE"
    and holds: "db_holds db' = map (\<lambda>h. if p h then h\<lparr>hr_status := st\<rparr> else h) (db_holds db)"
    and same: "db_bookings db' = db_bookings db" "db_services db' = db_services db"
      "db_resources db' = db_resources db"
    using assms(2) by (auto simp: fewer_holds_def)
  have "map hr_id (db_holds db') = map hr_id (db_holds db)" by (simp add: holds)
  moreover have "claims now db' t r \<subseteq> claims now db t r" for t r
    using st by (auto simp: claims_def holds same split: if_splits)
  moreover have "\<forall>h \<in> set (db_holds db'). hold_spans db' h"
    using assms(1) by (auto simp: claims_ok_def holds hold_spans_def same)
  moreover have "claims_apart (claims now db' t r)" if "one_capacity db t r" for t r
    by (rule claims_apart_subset [OF _ calculation(2)]) (use assms(1) that in \<open>simp add: claims_ok_def\<close>)
  ultimately show ?thesis
    using assms(1) by (simp add: claims_ok_def services_ok_def has_service_def one_capacity_def same)
qed

text \<open>A slot the calculation offers on a one-capacity resource is apart from every claim.\<close>

lemma sum_ones_small:
  assumes "sum_list (map f xs) < (1 :: int)" and "\<forall>x \<in> set xs. f x = 1"
  shows "xs = []"
proof (cases xs)
  case (Cons y ys)
  have "0 \<le> sum_list (map f ys)" by (rule sum_list_nonneg) (use assms(2) Cons in auto)
  then show ?thesis using assms Cons by simp
qed simp

lemma busy_period_of_Inr:
  "busy_period_of s e n = Inr p \<Longrightarrow> utc (tr_start (bp_time_range p)) = s \<and> utc (tr_end (bp_time_range p)) = e
    \<and> bp_capacity_used p = n"
  by (auto simp: busy_period_of_def mk_time_range_def res_bind_Inr_iff split: if_splits)

lemma res_map_member: "res_map f xs = Inr ys \<Longrightarrow> x \<in> set xs \<Longrightarrow> \<exists>y \<in> set ys. f x = Inr y"
proof (induction xs arbitrary: ys)
  case (Cons a xs)
  then obtain b bs where "ys = b # bs" "f a = Inr b" "res_map f xs = Inr bs" by (auto simp: res_bind_Inr_iff)
  then show ?case using Cons by auto
qed simp

lemma res_map_member_rev: "res_map f xs = Inr ys \<Longrightarrow> y \<in> set ys \<Longrightarrow> \<exists>x \<in> set xs. f x = Inr y"
proof (induction xs arbitrary: ys)
  case (Cons a xs)
  then obtain b bs where "ys = b # bs" "f a = Inr b" "res_map f xs = Inr bs" by (auto simp: res_bind_Inr_iff)
  then show ?case using Cons by auto
qed simp

definition period_is :: "busy_period \<Rightarrow> instant \<Rightarrow> instant \<Rightarrow> bool" where
  "period_is p s e = (utc (tr_start (bp_time_range p)) = s \<and> utc (tr_end (bp_time_range p)) = e)"

lemma busy_periods_cover:
  assumes "busy_periods db t row now H = Inr ps" and "rr_capacity row = 1"
  shows "\<forall>p \<in> set ps. bp_capacity_used p = 1"
    and "(b, buf) \<in> set (blocking_bookings db t (rr_id row) now H)
      \<Longrightarrow> \<exists>p \<in> set ps. period_is p (br_start_at b) (br_end_at b + buf * second_us)"
    and "h \<in> set (blocking_holds db t (rr_id row) now H)
      \<Longrightarrow> \<exists>p \<in> set ps. period_is p (hr_start_at h) (hr_end_at h)"
proof -
  obtain booked held blocked where
    b: "res_map (\<lambda>(b, n). busy_period_of (br_start_at b) (br_end_at b + n * second_us) 1)
        (blocking_bookings db t (rr_id row) now H) = Inr booked"
    and h: "res_map (\<lambda>h. busy_period_of (hr_start_at h) (hr_end_at h) 1)
        (blocking_holds db t (rr_id row) now H) = Inr held"
    and u: "res_map (\<lambda>u. busy_period_of (ur_start_at u) (ur_end_at u) (rr_capacity row))
        (blocking_unavailability db t (rr_id row) now H) = Inr blocked"
    and sorted: "ps = sorted_by (\<lambda>p. utc (tr_start (bp_time_range p))) (booked @ held @ blocked)"
    using assms(1) by (auto simp: busy_periods_def res_bind_Inr_iff)
  have ps: "set ps = set booked \<union> set held \<union> set blocked" by (auto simp: sorted)
  show "\<forall>p \<in> set ps. bp_capacity_used p = 1"
    using ps assms(2) res_map_member_rev [OF b] res_map_member_rev [OF h] res_map_member_rev [OF u]
      busy_period_of_Inr by fastforce
  show "\<exists>p \<in> set ps. period_is p (br_start_at b) (br_end_at b + buf * second_us)"
    if "(b, buf) \<in> set (blocking_bookings db t (rr_id row) now H)"
    using res_map_member [OF b that] ps busy_period_of_Inr by (fastforce simp: period_is_def)
  show "\<exists>p \<in> set ps. period_is p (hr_start_at h) (hr_end_at h)"
    if "h \<in> set (blocking_holds db t (rr_id row) now H)"
    using res_map_member [OF h that] ps busy_period_of_Inr by (fastforce simp: period_is_def)
qed

lemma free_range:
  assumes "has_capacity r occ" and "ar_capacity r = 1" and "\<forall>p \<in> set (ar_busy_periods r). bp_capacity_used p = 1"
    and "p \<in> set (ar_busy_periods r)" and "period_is p s e"
  shows "utc (tr_end occ) \<le> s \<or> e \<le> utc (tr_start occ)"
proof -
  let ?hit = "filter (\<lambda>p. ranges_overlap (bp_time_range p) occ) (ar_busy_periods r)"
  have "sum_list (map bp_capacity_used ?hit) < 1" using assms(1,2) by (simp add: has_capacity_def Let_def)
  then have "?hit = []" by (rule sum_ones_small) (use assms(3) in auto)
  then have "\<not> ranges_overlap (bp_time_range p) occ" using assms(4) by (simp add: filter_empty_conv)
  then show ?thesis using assms(5) by (auto simp: ranges_overlap_def period_is_def)
qed

lemma find_service_unique:
  assumes "services_ok db" and "s \<in> set (db_services db)" "sr_tenant_id s = t" "sr_id s = i"
  shows "find_service db t i = Some s"
proof -
  have "find_service db t i \<noteq> None"
    using assms(2-4) by (auto simp: find_service_def find_None_iff)
  then obtain s' where s': "find_service db t i = Some s'" by blast
  then have "s' \<in> set (db_services db)" "sr_tenant_id s' = t" "sr_id s' = i"
    using find_SomeD unfolding find_service_def by fastforce+
  then have "s' = s"
    using assms inj_onD [of "\<lambda>s. (sr_tenant_id s, sr_id s)" "set (db_services db)" s' s]
    by (auto simp: services_ok_def distinct_map)
  then show ?thesis using s' by simp
qed

lemma availability_context_Some:
  assumes "availability_context_of db t sid now = Inr (Some ctx)"
  shows "\<exists>sv pol policy rss. find_service db t sid = Some sv \<and> find_policy db t = Some pol
    \<and> policy_of_row pol = Inr policy \<and> ac_policy ctx = policy
    \<and> ac_duration ctx = sr_duration_seconds sv * second_us \<and> ac_cleanup_buffer ctx = sr_buffer_seconds sv * second_us
    \<and> res_map (context_resource db t now (now + (pw_booking_horizon_days pol + 1) * day_us))
        (resource_rows_for db t sid) = Inr rss \<and> ac_resources ctx = concat rss"
  using assms by (auto simp: availability_context_of_def res_bind_Inr_iff split: option.splits)

lemma policy_of_row_Inr:
  "policy_of_row pol = Inr policy \<Longrightarrow> 0 < po_minimum_notice policy
    \<and> po_booking_horizon policy = pw_booking_horizon_days pol * day_us"
  by (auto simp: policy_of_row_def policy_post_init_def split: if_splits)

lemma slot_of_attempt:
  assumes "calculate_availability ctx d now = Inr slots" and "s \<in> set slots"
  shows "\<exists>r \<in> set (ac_resources ctx). sl_resource_id s = ar_id r \<and> has_capacity r (occupied_range ctx (slot_start s))
    \<and> utc (sl_end_at s) = slot_start s + ac_duration ctx
    \<and> utc now + po_minimum_notice (ac_policy ctx) \<le> slot_start s
    \<and> slot_start s \<le> utc now + po_booking_horizon (ac_policy ctx)"
proof -
  obtain a where s: "s = slot_of ctx d a" and a: "a \<in> set (first_per_key (\<lambda>a. utc (snd (snd a))) {}
      (filter (accepts ctx (utc now) d) (all_attempts ctx d)))"
    using slots_attempts [OF assms(1)] assms(2) by auto
  then obtain pre post where "filter (accepts ctx (utc now) d) (all_attempts ctx d) = pre @ a # post"
    using first_per_key_first [OF a] by blast
  then have "a \<in> set (filter (accepts ctx (utc now) d) (all_attempts ctx d))" by simp
  then have acc: "accepts ctx (utc now) d a" and "a \<in> set (all_attempts ctx d)" by auto
  then obtain r where r: "r \<in> set (ac_resources ctx)" "a \<in> set (resource_attempts ctx d r)"
    by (auto simp: all_attempts_set)
  then have fst: "fst a = r" using resource_attempts_fst by blast
  show ?thesis
    using acc r(1) fst
    by (intro bexI [OF _ r(1)]) (auto simp: s accepts_def fits_def slot_start_def slot_of_def Let_def)
qed

lemma slot_apart:
  assumes ok: "claims_ok now db" and cap: "one_capacity db t r"
    and ctx: "availability_context_of db t sid now = Inr (Some ctx)"
    and slots: "calculate_availability ctx d (utc_datetime now) = Inr slots" "s \<in> set slots"
    and r: "sl_resource_id s = r" and c: "c \<in> claims now db t r"
  shows "apart (k, slot_start s, occupied_end ctx (slot_start s)) c"
proof -
  obtain sv pol policy rss where sv: "find_service db t sid = Some sv"
    and pol: "policy_of_row pol = Inr policy" "ac_policy ctx = policy"
    and dur: "ac_duration ctx = sr_duration_seconds sv * second_us"
      "ac_cleanup_buffer ctx = sr_buffer_seconds sv * second_us"
    and rss: "res_map (context_resource db t now (now + (pw_booking_horizon_days pol + 1) * day_us))
        (resource_rows_for db t sid) = Inr rss" "ac_resources ctx = concat rss"
    using availability_context_Some [OF ctx] by blast
  let ?H = "now + (pw_booking_horizon_days pol + 1) * day_us"
  obtain ar where ar: "ar \<in> set (ac_resources ctx)" "ar_id ar = r"
    and room: "has_capacity ar (occupied_range ctx (slot_start s))"
    and window: "now + po_minimum_notice policy \<le> slot_start s" "slot_start s \<le> now + po_booking_horizon policy"
    using slot_of_attempt [OF slots] r pol(2) by auto
  obtain row where row: "row \<in> set (resource_rows_for db t sid)"
    and "ar \<in> set (case context_resource db t now ?H row of Inr rs \<Rightarrow> rs | Inl _ \<Rightarrow> [])"
    using ar(1) rss res_map_member_rev [OF rss(1)] by fastforce
  then obtain ps where ps: "busy_periods db t row now ?H = Inr ps"
    and ar': "ar_capacity ar = rr_capacity row" "rr_id row = r" "ar_busy_periods ar = ps"
    using ar(2) by (auto simp: context_resource_def res_bind_def split: sum.splits option.splits)
  have "row \<in> set (db_resources db)" "rr_tenant_id row = t" using row by (auto simp: resource_rows_for_def)
  then have one: "rr_capacity row = 1" using cap ar'(2) by (auto simp: one_capacity_def)
  have sv_ok: "0 \<le> sr_buffer_seconds sv" "(sr_duration_seconds sv + sr_buffer_seconds sv) * second_us \<le> day_us"
    using ok find_SomeD [of _ "db_services db" sv] sv by (auto simp: claims_ok_def services_ok_def find_service_def)
  have e1: "occupied_end ctx (slot_start s) \<le> ?H"
    using window(2) policy_of_row_Inr [OF pol(1)] sv_ok dur
    by (simp add: occupied_end_def algebra_simps)
  have e2: "now < slot_start s" using window(1) policy_of_row_Inr [OF pol(1)] by simp
  have e3: "occupied_end ctx (slot_start s) \<le> x \<or> y \<le> slot_start s"
    if "p \<in> set ps" "period_is p x y" for p x y
    using free_range [OF room _ _ _ that(2)] that(1) busy_periods_cover(1) [OF ps one] ar' one
    by (auto simp: occupied_range_def)
  from c consider
    (booking) b where "b \<in> set (db_bookings db)" "br_tenant_id b = t" "br_resource_id b = Some r"
        "blocking_status (br_status b)" "c = (Inl (br_id b), br_start_at b, br_end_at b)"
    | (hold) h where "h \<in> set (db_holds db)" "hr_tenant_id h = t" "hr_resource_id h = r"
        "hr_status h = HO_ACTIVE" "now < hr_expires_at h" "c = (Inr (hr_id h), hr_start_at h, hr_end_at h)"
    by (auto simp: claims_def)
  then show ?thesis
  proof cases
    case booking
    obtain sb where sb: "sb \<in> set (db_services db)" "sr_tenant_id sb = t" "sr_id sb = br_service_id b"
      using ok booking(1,2) by (auto simp: claims_ok_def has_service_def)
    then have buf: "0 \<le> sr_buffer_seconds sb" using ok by (auto simp: claims_ok_def services_ok_def)
    show ?thesis
    proof (cases "now < br_end_at b \<and> br_start_at b < ?H")
      case True
      then have "(b, sr_buffer_seconds sb) \<in> set (blocking_bookings db t (rr_id row) now ?H)"
        using booking sb ar'(2) by (auto simp: blocking_bookings_def)
      then obtain p where "p \<in> set ps" "period_is p (br_start_at b) (br_end_at b + sr_buffer_seconds sb * second_us)"
        using busy_periods_cover(2) [OF ps one] by blast
      then have "occupied_end ctx (slot_start s) \<le> br_start_at b
          \<or> br_end_at b + sr_buffer_seconds sb * second_us \<le> slot_start s"
        using e3 by blast
      moreover have "0 \<le> sr_buffer_seconds sb * second_us" using buf by (simp add: second_us_def)
      ultimately show ?thesis using booking(5) by (auto simp: apart_def)
    next
      case False
      then show ?thesis using e1 e2 booking(5) by (auto simp: apart_def)
    qed
  next
    case hold
    show ?thesis
    proof (cases "now < hr_end_at h \<and> hr_start_at h < ?H")
      case True
      then have "h \<in> set (blocking_holds db t (rr_id row) now ?H)"
        using hold ar'(2) by (auto simp: blocking_holds_def)
      then obtain p where "p \<in> set ps" "period_is p (hr_start_at h) (hr_end_at h)"
        using busy_periods_cover(3) [OF ps one] by blast
      then show ?thesis using e3 hold(6) by (auto simp: apart_def)
    next
      case False
      then show ?thesis using e1 e2 hold(6) by (auto simp: apart_def)
    qed
  qed
qed

lemma claims_ok_same:
  assumes "db_bookings db' = db_bookings db" "db_holds db' = db_holds db" "db_services db' = db_services db"
    "db_resources db' = db_resources db"
  shows "claims_ok now db' = claims_ok now db"
  using assms by (simp add: claims_ok_def services_ok_def has_service_def hold_spans_def one_capacity_def claims_def)

lemma create_hold_claims:
  assumes ok: "claims_ok now db" and run: "create_hold t c did k key now i db = Inr (db', x)"
  shows "claims_ok now db'"
proof (cases "db' = db")
  case False
  then obtain d d1 db1 refreshed slots s hold selected ctx where
    rel: "release_previous t d db = (d1, db1)"
    and ctx: "availability_context_of db t (dr_service_id d) now = Inr (Some ctx)"
    and ctx1: "availability_context_of db1 t (dr_service_id d) now = Inr (Some refreshed)"
    and slots: "calculate_availability refreshed selected (utc_datetime now) = Inr slots" "s \<in> set slots"
    and hold: "hr_tenant_id hold = t" "hr_service_id hold = dr_service_id d" "hr_resource_id hold = sl_resource_id s"
      "hr_start_at hold = utc (sl_start_at s)" "hr_end_at hold = utc (sl_end_at s) + ac_cleanup_buffer ctx"
    and ins: "insert_hold hold db1 = Inr (db1\<lparr>db_holds := db_holds db1 @ [hold]\<rparr>)"
    and only: "only_drafts (db1\<lparr>db_holds := db_holds db1 @ [hold]\<rparr>) db'"
    using create_hold_changes [OF run] by blast
  have few: "fewer_holds db db1" by (rule release_previous_changes [OF rel])
  have ok1: "claims_ok now db1" by (rule claims_ok_fewer [OF ok few])
  have serv: "db_services db1 = db_services db" using few by (simp add: fewer_holds_def)
  obtain sv where sv: "find_service db t (dr_service_id d) = Some sv"
      "ac_cleanup_buffer ctx = sr_buffer_seconds sv * second_us"
    using availability_context_Some [OF ctx] by blast
  have sv1: "find_service db1 t (dr_service_id d) = Some sv" using sv(1) serv by (simp add: find_service_def)
  then have dur: "ac_duration refreshed = sr_duration_seconds sv * second_us"
      "ac_cleanup_buffer refreshed = sr_buffer_seconds sv * second_us"
    using availability_context_Some [OF ctx1] by auto
  have ends: "hr_end_at hold = occupied_end refreshed (slot_start s)" "hr_start_at hold = slot_start s"
    using slot_of_attempt [OF slots] hold(4,5) sv(2) dur by (auto simp: occupied_end_def slot_start_def)
  have "sv \<in> set (db_services db1)" "sr_tenant_id sv = t" "sr_id sv = dr_service_id d"
    using find_SomeD [of _ "db_services db1" sv] sv1 by (auto simp: find_service_def)
  then have spans: "hold_spans db1 hold"
    using hold ends dur by (auto simp: hold_spans_def occupied_end_def algebra_simps)
  let ?new = "(Inr (hr_id hold), hr_start_at hold, hr_end_at hold) :: claim"
  have fresh: "\<forall>h \<in> set (db_holds db1). hr_id h \<noteq> hr_id hold" using insert_hold_Inr [OF ins] by simp
  let ?db2 = "db1\<lparr>db_holds := db_holds db1 @ [hold]\<rparr>"
  have "claims_apart (claims now ?db2 t' r)" if cap: "one_capacity db1 t' r" for t' r
  proof -
    have old: "claims_apart (claims now db1 t' r)" using ok1 cap by (simp add: claims_ok_def)
    have sub: "claims now ?db2 t' r \<subseteq> (if t' = t \<and> r = sl_resource_id s
        then insert ?new (claims now db1 t' r) else claims now db1 t' r)"
      using hold(1,3) by (auto simp: claims_def)
    show ?thesis
    proof (cases "t' = t \<and> r = sl_resource_id s")
      case True
      have "apart ?new y" if "y \<in> claims now db1 t' r" for y
        using slot_apart [OF ok1 _ ctx1 slots] cap True that ends by auto
      then have "claims_apart (insert ?new (claims now db1 t' r))"
        by (intro claims_apart_insert [OF old]) blast
      then show ?thesis by (rule claims_apart_subset) (use sub True in simp)
    next
      case False
      then show ?thesis by (intro claims_apart_subset [OF old]) (use sub False in auto)
    qed
  qed
  then have "\<forall>t' r. one_capacity ?db2 t' r \<longrightarrow> claims_apart (claims now ?db2 t' r)"
    by (simp add: one_capacity_def)
  moreover have "\<forall>h \<in> set (db_holds ?db2). hold_spans ?db2 h"
    using ok1 spans by (auto simp: claims_ok_def hold_spans_def)
  moreover have "distinct (map hr_id (db_holds ?db2))" using ok1 fresh by (auto simp: claims_ok_def)
  ultimately have "claims_ok now ?db2"
    using ok1 unfolding claims_ok_def by (simp add: services_ok_def has_service_def)
  then show ?thesis using claims_ok_same [of db' ?db2] only by (simp add: only_drafts_def)
qed (use ok in simp)

text \<open>
  The confirmed appointment takes over the front part of its hold's claim: the hold spans the
  appointment and its buffer.
\<close>

lemma confirmed_within_hold:
  assumes ok: "claims_ok now db" and hold: "hold \<in> set (db_holds db)"
    and s: "s \<in> set (db_services db)" "sr_tenant_id s = hr_tenant_id hold" "sr_id s = hr_service_id hold"
  shows "hr_start_at hold + sr_duration_seconds s * second_us \<le> hr_end_at hold"
proof -
  obtain s' where s': "s' \<in> set (db_services db)" "sr_tenant_id s' = hr_tenant_id hold" "sr_id s' = hr_service_id hold"
    "hr_end_at hold = hr_start_at hold + (sr_duration_seconds s' + sr_buffer_seconds s') * second_us"
    using ok hold by (auto simp: claims_ok_def hold_spans_def)
  have serv: "services_ok db" using ok by (simp add: claims_ok_def)
  have "s' = s" using find_service_unique [OF serv s] find_service_unique [OF serv s'(1-3)] by simp
  moreover have "0 \<le> sr_buffer_seconds s * second_us"
    using serv s(1) by (simp add: services_ok_def second_us_def)
  ultimately show ?thesis using s'(4) by (simp add: algebra_simps)
qed

lemma hold_becomes_booking:
  assumes ok: "claims_ok now db"
    and hold: "hold \<in> set (db_holds db)" "hr_status hold = HO_ACTIVE" "now < hr_expires_at hold" "hr_tenant_id hold = t"
    and s: "s \<in> set (db_services db)" "sr_tenant_id s = t" "sr_id s = hr_service_id hold"
    and b: "br_id b = bid" "br_tenant_id b = t" "br_resource_id b = Some (hr_resource_id hold)"
      "br_start_at b = hr_start_at hold" "br_end_at b = hr_start_at hold + sr_duration_seconds s * second_us"
      "has_service db t (br_service_id b)"
    and bs: "\<And>x. x \<in> set bs \<Longrightarrow> x = b \<or> (x \<in> set (db_bookings db) \<and> br_id x \<noteq> bid)"
      "distinct (map br_id bs)"
    and db': "db_bookings db' = bs" "db_services db' = db_services db" "db_resources db' = db_resources db"
      "db_holds db' = map (\<lambda>h. if hr_id h = hr_id hold then h\<lparr>hr_status := HO_CONSUMED\<rparr> else h) (db_holds db)"
  shows "claims_ok now db'"
proof -
  have within: "br_end_at b \<le> hr_end_at hold"
    using confirmed_within_hold [OF ok hold(1) s(1)] s hold(4) b(5) by simp
  have "claims_apart (claims now db' t' r)" if cap: "one_capacity db t' r" for t' r
  proof -
    have old: "claims_apart (claims now db t' r)" using ok cap by (simp add: claims_ok_def)
    have sub: "x = (Inl bid, br_start_at b, br_end_at b) \<or> x \<in> claims now db t' r \<and> fst x \<noteq> Inr (hr_id hold)"
      if "x \<in> claims now db' t' r" for x
      using that bs(1) b(1) by (auto simp: claims_def db' split: if_splits)
    show ?thesis
    proof (cases "t' = t \<and> r = hr_resource_id hold")
      case True
      then have "(Inr (hr_id hold), hr_start_at hold, hr_end_at hold) \<in> claims now db t' r"
        using hold by (auto simp: claims_def)
      then show ?thesis
        by (rule claims_apart_replace [OF old]) (use sub within b(4) in auto)
    next
      case False
      have "claims now db' t' r \<subseteq> claims now db t' r"
        using bs(1) b(2,3) False by (fastforce simp: claims_def db')
      then show ?thesis by (rule claims_apart_subset [OF old])
    qed
  qed
  then have "\<forall>t' r. one_capacity db' t' r \<longrightarrow> claims_apart (claims now db' t' r)"
    by (simp add: one_capacity_def db')
  moreover have "map hr_id (db_holds db') = map hr_id (db_holds db)" by (simp add: db'(4))
  then have "distinct (map hr_id (db_holds db'))" using ok by (simp only: claims_ok_def)
  moreover have "\<forall>h \<in> set (db_holds db'). hold_spans db' h"
    using ok by (auto simp: claims_ok_def hold_spans_def db')
  moreover have "\<forall>x \<in> set (db_bookings db'). has_service db' (br_tenant_id x) (br_service_id x)"
    using ok bs(1) b(2,6) by (auto simp: claims_ok_def has_service_def db')
  moreover have "distinct (map br_id (db_bookings db'))" using bs(2) by (simp only: db'(1))
  moreover have "services_ok db'" using ok by (simp add: claims_ok_def services_ok_def db'(2))
  ultimately show ?thesis unfolding claims_ok_def by blast
qed

lemma confirm_draft_claims:
  assumes ok: "claims_ok now db" and run: "confirm_draft t c d key now i db = Inr (db', r)"
  shows "claims_ok now db'"
proof -
  obtain hid hold s db1 b where
    found: "first_where (\<lambda>h. hr_tenant_id h = t \<and> hr_customer_id h = c \<and> hr_id h = hid) (db_holds db) = Some hold"
    and live: "hr_status hold = HO_ACTIVE" "now < hr_expires_at hold"
    and s: "s \<in> set (db_services db)" "sr_tenant_id s = t" "sr_id s = hr_service_id hold"
    and br: "case dr_reschedule_booking_id d of
         Some bid \<Rightarrow> confirm_reschedule t c bid hold s now db = Inr (db1, b)
       | None \<Rightarrow> confirm_new t c d hold s key now i db = Inr (db1, b)"
    and db': "db' = set_workflow t (dr_conversation_id d) None (put_draft (d\<lparr>dr_status := D_CONFIRMED\<rparr>)
              (set_holds (\<lambda>h. hr_id h = hr_id hold) HO_CONSUMED db1))"
    using confirm_draft_changes [OF run] by blast
  have hold: "hold \<in> set (db_holds db)" "hr_tenant_id hold = t" using find_SomeD [OF found] by simp_all
  have ids: "distinct (map br_id (db_bookings db))" using ok by (simp add: claims_ok_def)
  show ?thesis
  proof (cases "dr_reschedule_booking_id d")
    case None
    then obtain e where b: "br_id b = i" "br_tenant_id b = t" "br_service_id b = sr_id s"
        "br_resource_id b = Some (hr_resource_id hold)" "br_start_at b = hr_start_at hold"
        "br_end_at b = hr_start_at hold + sr_duration_seconds s * second_us"
      and ins: "insert_booking b db = Inr (db\<lparr>db_bookings := db_bookings db @ [b]\<rparr>)"
      and db1: "db1 = db\<lparr>db_bookings := db_bookings db @ [b],
          db_history := db_history db @ [history_entry t i 1 B_DRAFT B_HELD ''slot_hold_created'',
             history_entry t i 2 B_HELD B_CONFIRMED ''explicit_confirmation''],
          db_outbox := db_outbox db @ [e]\<rparr>"
      using confirm_new_changes [of t c d hold s key now i db db1 b] br by auto
    have fresh: "\<forall>x \<in> set (db_bookings db). br_id x \<noteq> i"
      using ins b(1) by (auto simp: insert_booking_def list_ex_iff split: if_splits)
    show ?thesis
      by (rule hold_becomes_booking [OF ok hold(1) live hold(2) s b(1,2,4,5,6), of "db_bookings db @ [b]"])
        (use fresh ids b s in \<open>auto simp: db' db1 set_holds_def put_draft_def set_workflow_def has_service_def\<close>)
  next
    case (Some bid)
    then obtain b0 where b0: "b0 \<in> set (db_bookings db)" "br_tenant_id b0 = t" "br_id b0 = bid"
      and b: "br_id b = bid" "br_tenant_id b = t" "br_service_id b = br_service_id b0"
        "br_resource_id b = Some (hr_resource_id hold)" "br_start_at b = hr_start_at hold"
        "br_end_at b = hr_start_at hold + sr_duration_seconds s * second_us"
      and db1: "db_bookings db1 = map (\<lambda>x. if br_id x = bid then b else x) (db_bookings db)"
        "db_services db1 = db_services db" "db_resources db1 = db_resources db" "db_holds db1 = db_holds db"
      using confirm_reschedule_changes [of t c bid hold s now db db1 b] br by fastforce
    have serv: "has_service db t (br_service_id b)" using ok b0 b(3) by (auto simp: claims_ok_def)
    have "map br_id (map (\<lambda>x. if br_id x = bid then b else x) (db_bookings db)) = map br_id (db_bookings db)"
      using b(1) by simp
    then have dist: "distinct (map br_id (map (\<lambda>x. if br_id x = bid then b else x) (db_bookings db)))"
      using ids by (simp only:)
    show ?thesis
      by (rule hold_becomes_booking [OF ok hold(1) live hold(2) s b(1,2,4,5,6) serv _ dist])
        (auto simp: db' db1 set_holds_def put_draft_def set_workflow_def split: if_splits)
  qed
qed

lemma cancel_booking_claims:
  assumes ok: "claims_ok now db" and run: "cancel_booking t c bid now db = Inr (db', r)"
  shows "claims_ok now db'"
proof (cases "db' = db")
  case False
  then obtain b0 where b0: "b0 \<in> set (db_bookings db)" "br_id b0 = bid"
    and db': "db_bookings db' = map (\<lambda>x. if br_id x = bid then b0\<lparr>br_status := B_CANCELLED\<rparr> else x) (db_bookings db)"
      "db_holds db' = db_holds db" "db_services db' = db_services db" "db_resources db' = db_resources db"
    using cancel_booking_changes [OF run] by fastforce
  have "map br_id (db_bookings db') = map br_id (db_bookings db)" using b0(2) by (simp add: db')
  moreover have "claims now db' t r \<subseteq> claims now db t r" for t r
    by (auto simp: claims_def db' blocking_status_def split: if_splits)
  moreover have "claims_apart (claims now db' t r)" if "one_capacity db t r" for t r
    by (rule claims_apart_subset [OF _ calculation(2)]) (use ok that in \<open>simp add: claims_ok_def\<close>)
  moreover have "\<forall>x \<in> set (db_bookings db'). has_service db' (br_tenant_id x) (br_service_id x)"
    using ok b0 by (auto simp: claims_ok_def has_service_def db')
  ultimately show ?thesis
    using ok unfolding claims_ok_def
    by (simp add: services_ok_def hold_spans_def one_capacity_def db'(2-4))
qed (use ok in simp)

interpretation resource_claims: clocked_invariant step_db claims_ok
proof
  fix t t' :: int and d :: booking_db and s
  assume "claims_ok t d" and "t \<le> t'"
  then have ok: "claims_ok t' d" by (rule claims_ok_later)
  show "claims_ok t' (step_db s t' d)"
  proof (rule step_db_cases)
    show "claims_ok t' db'" if "fewer_holds d db'" for db' by (rule claims_ok_fewer [OF ok that])
    show "claims_ok t' db'" if "create_hold tn c did k key t' i d = Inr (db', x)" for tn c did k key i db' x
      by (rule create_hold_claims [OF ok that])
    show "claims_ok t' db'" if "confirm_draft tn c dd key t' i d = Inr (db', r)" for tn c dd key i db' r
      by (rule confirm_draft_claims [OF ok that])
    show "claims_ok t' db'" if "cancel_booking tn c b t' d = Inr (db', r)" for tn c b db' r
      by (rule cancel_booking_claims [OF ok that])
  qed (rule ok)
qed

section \<open>Retries\<close>

lemma find_map_all:
  assumes "\<And>y. y \<in> set ys \<Longrightarrow> p y \<Longrightarrow> y = z" and "z \<in> set ys" and "p z"
  shows "find p ys = Some z"
proof -
  have "find p ys \<noteq> None" using assms(2,3) by (auto simp: find_None_iff)
  then obtain y where "find p ys = Some y" by blast
  then show ?thesis using find_SomeD assms(1) by metis
qed

lemma find_append_new: "find p xs = None \<Longrightarrow> p y \<Longrightarrow> find p (xs @ [y]) = Some y"
  by (induction xs) (auto split: if_splits)

lemma confirm_draft_retry:
  assumes none: "first_where (\<lambda>b. br_tenant_id b = t \<and> br_idempotency_scope b = ''confirm''
          \<and> br_idempotency_value b = key) (db_bookings db) = None"
    and own: "owned_draft db t c did now = Inr d"
    and run: "confirm_draft t c d key now i db = Inr (db', r)"
  shows "confirm_op t c did key now2 i2 db' = Inr (db', r)"
proof -
  obtain hid hold s db1 b where
    hid: "dr_hold_id d = Some hid"
    and found: "first_where (\<lambda>h. hr_tenant_id h = t \<and> hr_customer_id h = c \<and> hr_id h = hid) (db_holds db) = Some hold"
    and br: "case dr_reschedule_booking_id d of
         Some bid \<Rightarrow> confirm_reschedule t c bid hold s now db = Inr (db1, b)
       | None \<Rightarrow> confirm_new t c d hold s key now i db = Inr (db1, b)"
    and db': "db' = set_workflow t (dr_conversation_id d) None (put_draft (d\<lparr>dr_status := D_CONFIRMED\<rparr>)
              (set_holds (\<lambda>h. hr_id h = hr_id hold) HO_CONSUMED db1))"
    and r: "result_of_row db' b = Inr r"
    using confirm_draft_changes [OF run] by blast
  have d: "d \<in> set (db_drafts db)" "dr_tenant_id d = t" "dr_customer_id d = c" "dr_id d = did"
    using own find_SomeD unfolding owned_draft_def by (fastforce split: option.splits if_splits)+
  have hold: "hr_id hold = hid" using find_SomeD [OF found] by simp
  show ?thesis
  proof (cases "dr_reschedule_booking_id d")
    case None
    then have "br_tenant_id b = t" "br_customer_id b = c" "br_idempotency_scope b = ''confirm''"
      "br_idempotency_value b = key" "db_bookings db1 = db_bookings db @ [b]"
      using confirm_new_changes [of t c d hold s key now i db db1 b] br by auto
    then have "first_where (\<lambda>b. br_tenant_id b = t \<and> br_idempotency_scope b = ''confirm''
        \<and> br_idempotency_value b = key) (db_bookings db') = Some b" "br_customer_id b = c"
      using find_append_new [OF none, of b] by (simp_all add: db')
    then show ?thesis using r by (simp add: confirm_op_def)
  next
    case (Some bid)
    then obtain b0 where b0: "b0 \<in> set (db_bookings db)" "br_id b0 = bid" "br_tenant_id b0 = t"
        "br_customer_id b0 = c"
      and b: "br_id b = bid" "br_tenant_id b = t" "br_customer_id b = c" "br_hold_id b = Some hid"
        "br_idempotency_scope b = br_idempotency_scope b0" "br_idempotency_value b = br_idempotency_value b0"
      and up: "update_booking b db = Inr (db\<lparr>db_bookings := map (\<lambda>x. if br_id x = bid then b else x) (db_bookings db)\<rparr>)"
      and db1: "db_bookings db1 = map (\<lambda>x. if br_id x = bid then b else x) (db_bookings db)"
        "db_drafts db1 = db_drafts db"
      using confirm_reschedule_changes [of t c bid hold s now db db1 b] br hold by fastforce
    have key: "first_where (\<lambda>b. br_tenant_id b = t \<and> br_idempotency_scope b = ''confirm''
        \<and> br_idempotency_value b = key) (db_bookings db') = None"
      using none b0 b by (auto simp: db' db1 find_None_iff split: if_splits)
    have draft: "first_where (\<lambda>x. dr_tenant_id x = t \<and> dr_customer_id x = c \<and> dr_id x = did
        \<and> dr_status x = D_CONFIRMED) (db_drafts db') = Some (d\<lparr>dr_status := D_CONFIRMED\<rparr>)"
      by (rule find_map_all) (use d in \<open>auto simp: db' put_draft_def db1 split: if_splits\<close>)
    have clash: "\<forall>x \<in> set (db_bookings db). br_id x \<noteq> bid \<longrightarrow> \<not> rows_clash b x"
      using up b(1) by (auto simp: update_booking_def list_ex_iff split: if_splits)
    have bk: "first_where (\<lambda>x. br_tenant_id x = t \<and> br_customer_id x = c \<and> br_hold_id x = Some hid)
        (db_bookings db') = Some b"
      by (rule find_map_all)
        (use clash b0 b in \<open>auto simp: db' db1 rows_clash_def split: if_splits\<close>)
    show ?thesis using key draft bk r hid by (simp add: confirm_op_def)
  qed
qed

lemma confirm_repeat:
  assumes "confirm t c did key now i db = Inr (db', r)"
  shows "confirm t c did key now2 i2 db' = Inr (db', r)"
proof -
  have op: "confirm_op t c did key now i db = Inr (db', r)" and key: "\<not> (key = [] \<or> 255 < length key)"
    using assms by (auto simp: confirm_def split: if_splits sum.splits)
  have "confirm_op t c did key now2 i2 db' = Inr (db', r)"
  proof (cases "first_where (\<lambda>b. br_tenant_id b = t \<and> br_idempotency_scope b = ''confirm''
          \<and> br_idempotency_value b = key) (db_bookings db)")
    case (Some existing)
    then show ?thesis using op by (auto simp: confirm_op_def res_bind_Inr_iff split: if_splits)
  next
    case None
    define confirmed where "confirmed = (case first_where (\<lambda>d. dr_tenant_id d = t \<and> dr_customer_id d = c
                 \<and> dr_id d = did \<and> dr_status d = D_CONFIRMED) (db_drafts db) of
              None \<Rightarrow> None
            | Some d \<Rightarrow> (case dr_hold_id d of None \<Rightarrow> None
                | Some hid \<Rightarrow> first_where (\<lambda>b. br_tenant_id b = t \<and> br_customer_id b = c
                    \<and> br_hold_id b = Some hid) (db_bookings db)))"
    have step: "confirm_op t c did key nw j db = (case confirmed of
        Some b \<Rightarrow> res_bind (result_of_row db b) (\<lambda>r. Inr (db, r))
      | None \<Rightarrow> res_bind (owned_draft db t c did nw) (\<lambda>d. confirm_draft t c d key nw j db))" for nw j
      by (simp add: confirm_op_def None confirmed_def Let_def)
    show ?thesis
    proof (cases confirmed)
      case (Some b)
      then show ?thesis using op step by (auto simp: res_bind_Inr_iff)
    next
      case no: None
      then obtain d where "owned_draft db t c did now = Inr d" "confirm_draft t c d key now i db = Inr (db', r)"
        using op step by (auto simp: res_bind_Inr_iff)
      then show ?thesis by (rule confirm_draft_retry [OF None])
    qed
  qed
  then show ?thesis using key by (simp add: confirm_def)
qed

lemma create_hold_repeat:
  assumes "create_hold t c did k key now i db = Inr (db', h)"
  shows "create_hold t c did k key now2 i2 db' = Inr (db', h)"
proof (cases "first_where (\<lambda>x. hr_tenant_id x = t \<and> hr_idempotency_key x = key) (db_holds db)")
  case (Some existing)
  then show ?thesis using assms by (auto simp: create_hold_def res_bind_Inr_iff split: if_splits)
next
  case None
  have key: "\<not> (key = [] \<or> 255 < length key \<or> k < 0)"
    using assms by (auto simp: create_hold_def split: if_splits)
  obtain hold db1 where
    hold: "hr_tenant_id hold = t" "hr_customer_id hold = c" "hr_idempotency_key hold = key" "hold_of_row hold = Inr h"
    and ins: "insert_hold hold db1 = Inr (db1\<lparr>db_holds := db_holds db1 @ [hold]\<rparr>)"
    and only: "only_drafts (db1\<lparr>db_holds := db_holds db1 @ [hold]\<rparr>) db'"
    using create_hold_changes [OF assms] None by blast
  have "first_where (\<lambda>x. hr_tenant_id x = t \<and> hr_idempotency_key x = key) (db_holds db1) = None"
    using ins hold by (auto simp: insert_hold_def list_ex_iff find_None_iff split: if_splits)
  moreover have "db_holds db' = db_holds db1 @ [hold]" using only by (simp add: only_drafts_def)
  ultimately have "first_where (\<lambda>x. hr_tenant_id x = t \<and> hr_idempotency_key x = key) (db_holds db') = Some hold"
    using hold by (simp add: find_append_new)
  then show ?thesis using key hold by (simp add: create_hold_def)
qed

section \<open>Properties\<close>

text \<open>
  An example: one service of an hour with a quarter of an hour of clean-up, one chair, and a draft
  with its contact details and an active hold from 09:00 UTC.
\<close>

definition example_service :: service_row where
  "example_service = \<lparr>sr_tenant_id = TenantId 1, sr_id = ServiceId 1, sr_code = ''cut'', sr_names = [(''en'', ''Cut'')],
     sr_duration_seconds = 3600, sr_buffer_seconds = 900, sr_price_mode = ''quote_required'',
     sr_price_min_minor = None, sr_price_max_minor = None, sr_currency = None, sr_active = True, sr_bookable = True\<rparr>"

definition example_hold :: slot_hold_row where
  "example_hold = \<lparr>hr_id = SlotHoldId 5, hr_tenant_id = TenantId 1, hr_customer_id = CustomerId 1,
     hr_conversation_id = ConversationId 1, hr_draft_id = BookingDraftId 4, hr_service_id = ServiceId 1,
     hr_resource_id = ResourceId 2, hr_start_at = 32400000000, hr_end_at = 36900000000,
     hr_expires_at = 600000000, hr_idempotency_key = ''h1'', hr_status = HO_ACTIVE,
     hr_timezone = ''Europe/Example''\<rparr>"

definition example_draft :: booking_draft where
  "example_draft = \<lparr>dr_id = BookingDraftId 4, dr_tenant_id = TenantId 1, dr_customer_id = CustomerId 1,
     dr_conversation_id = ConversationId 1, dr_service_id = ServiceId 1, dr_selected_date = Some 0,
     dr_hold_id = Some (SlotHoldId 5), dr_customer_name = Some ''Ann'', dr_customer_phone = Some ''+441234567890'',
     dr_customer_note = None, dr_status = D_ACTIVE, dr_expires_at = 1800000000, dr_reschedule_booking_id = None\<rparr>"

definition example_db :: booking_db where
  "example_db = \<lparr>db_services = [example_service], db_policies = [],
     db_resources = [\<lparr>rr_id = ResourceId 2, rr_tenant_id = TenantId 1, rr_schedule_id = ScheduleId 1,
       rr_capacity = 1, rr_active = True\<rparr>],
     db_service_resources = [], db_schedules = [], db_unavailability = [],
     db_tenants = [\<lparr>tw_id = TenantId 1, tw_timezone = ''Europe/Example'', tw_zone = example_zone,
       tw_status = T_ACTIVE, tw_booking_enabled = True\<rparr>],
     db_conversations = [], db_drafts = [example_draft], db_holds = [example_hold], db_bookings = [],
     db_history = [], db_outbox = []\<rparr>"

definition example_who :: telegram_identity where
  "example_who = \<lparr>ti_tenant_id = TenantId 1, ti_customer_id = CustomerId 1,
     ti_conversation_id = ConversationId 1, ti_locale = EN\<rparr>"

lemmas example_defs = example_db_def example_draft_def example_hold_def example_service_def

lemma example_confirm:
  "\<exists>db' r. confirm (TenantId 1) (CustomerId 1) (BookingDraftId 4) ''k1'' 0 (BookingId 9) example_db = Inr (db', r)
     \<and> map br_id (db_bookings db') = [BookingId 9] \<and> map br_start_at (db_bookings db') = [32400000000]"
  by (simp add: confirm_def confirm_op_def owned_draft_def confirm_draft_def confirm_new_def insert_booking_def
      insert_history_def booking_event_def add_event_def history_entry_def result_of_row_def find_service_def find_tenant_def
      filled_def Let_def example_defs second_us_def put_draft_def set_holds_def set_workflow_def)

lemma example_ok: "claims_ok 0 example_db" "history_ok example_db"
  by (auto simp: claims_ok_def services_ok_def hold_spans_def claims_apart_def claims_def history_ok_def
      example_defs second_us_def day_us_def)

text \<open>
  C1. Whatever operations run, at clock readings that do not go back: on a
  resource of capacity one, no two claims (appointments and active, unexpired holds) overlap, so a
  customer who holds a time cannot lose it to another one, nor can two appointments meet.
\<close>

theorem claims_never_overlap:
  assumes "clocked_run step_db db t db' t'" and "claims_ok t db" and "one_capacity db' tn r"
    and "x \<in> claims t' db' tn r" and "y \<in> claims t' db' tn r" and "fst x \<noteq> fst y"
  shows "snd (snd x) \<le> fst (snd y) \<or> snd (snd y) \<le> fst (snd x)"
  using resource_claims.run_keeps [OF assms(1,2)] assms(3-6)
  by (auto simp: claims_ok_def claims_apart_def apart_def)

theorem claims_never_overlap_witness:
  "\<exists>db' x. clocked_run step_db (example_db\<lparr>db_holds := [example_hold,
        example_hold\<lparr>hr_id := SlotHoldId 6, hr_start_at := 36900000000, hr_end_at := 41400000000, hr_idempotency_key := ''h2''\<rparr>]\<rparr>)
      0 db' 0 \<and> x \<in> claims 0 db' (TenantId 1) (ResourceId 2) \<and> fst x = Inl (BookingId 9) \<and>
     (snd (snd x) \<le> 36900000000 \<or> 41400000000 \<le> fst (snd x))"
proof -
  let ?h2 = "example_hold\<lparr>hr_id := SlotHoldId 6, hr_start_at := 36900000000, hr_end_at := 41400000000,
    hr_idempotency_key := ''h2''\<rparr>"
  let ?db = "example_db\<lparr>db_holds := [example_hold, ?h2]\<rparr>"
  obtain db' r where run: "confirm (TenantId 1) (CustomerId 1) (BookingDraftId 4) ''k1'' 0 (BookingId 9) ?db = Inr (db', r)"
    and bk: "\<exists>b. b \<in> set (db_bookings db') \<and> br_id b = BookingId 9 \<and> br_tenant_id b = TenantId 1
       \<and> br_resource_id b = Some (ResourceId 2) \<and> br_status b = B_CONFIRMED"
    and h2: "?h2 \<in> set (db_holds db')" and cap: "db_resources db' = db_resources ?db"
    by (simp add: confirm_def confirm_op_def owned_draft_def confirm_draft_def confirm_new_def insert_booking_def
      insert_history_def booking_event_def add_event_def history_entry_def result_of_row_def find_service_def find_tenant_def
      filled_def Let_def example_defs second_us_def put_draft_def set_holds_def set_workflow_def)
  have step: "step_db (Confirm example_who (BookingDraftId 4) ''k1'' (BookingId 9)) 0 ?db = db'"
    by (simp add: run_tx_def run example_who_def)
  have steps: "clocked_run step_db ?db 0 db' 0"
    using run_more [OF run_none order_refl, where step = step_db and t = 0 and
      s = "Confirm example_who (BookingDraftId 4) ''k1'' (BookingId 9)" and d = ?db] unfolding step .
  have ok: "claims_ok 0 ?db"
    by (auto simp: claims_ok_def services_ok_def hold_spans_def claims_apart_def claims_def apart_def
        example_defs second_us_def day_us_def)
  obtain b where b: "b \<in> set (db_bookings db')" "br_id b = BookingId 9" "br_tenant_id b = TenantId 1"
    "br_resource_id b = Some (ResourceId 2)" "br_status b = B_CONFIRMED" using bk by blast
  let ?x = "(Inl (br_id b), br_start_at b, br_end_at b) :: claim"
  let ?y = "(Inr (hr_id ?h2), hr_start_at ?h2, hr_end_at ?h2) :: claim"
  have x: "?x \<in> claims 0 db' (TenantId 1) (ResourceId 2)"
    unfolding claims_def by (intro UnI1 image_eqI [of _ _ b] refl) (use b in \<open>simp add: blocking_status_def\<close>)
  have y: "?y \<in> claims 0 db' (TenantId 1) (ResourceId 2)"
    unfolding claims_def by (intro UnI2 image_eqI [of _ _ ?h2] refl) (use h2 in \<open>simp add: example_hold_def\<close>)
  have one: "one_capacity db' (TenantId 1) (ResourceId 2)" by (simp add: one_capacity_def cap example_db_def)
  have "snd (snd ?x) \<le> fst (snd ?y) \<or> snd (snd ?y) \<le> fst (snd ?x)"
    by (rule claims_never_overlap [OF steps ok one x y]) simp
  then show ?thesis using steps x b(2) by (intro exI [of _ db'] exI [of _ ?x]) simp
qed

text \<open>
  C3. After any operations, the history a customer reads for an appointment is
  a run of the domain's booking transition table from draft to the appointment's current status.
\<close>

theorem history_is_lifecycle_run:
  assumes "clocked_run step_db db t db' t'" and "history_ok db"
    and "owned_booking db' tn c bid = Some b"
  shows "status_path B_DRAFT (booking_history tn c bid db') (br_status b)"
proof -
  have ok: "history_ok db'" by (rule booking_histories.run_keeps [OF assms(1,2)])
  have b: "b \<in> set (db_bookings db')" "br_tenant_id b = tn" "br_id b = bid"
    using find_SomeD assms(3) unfolding owned_booking_def by fastforce+
  then have hb: "booking_history_ok db' b" using ok by (simp add: history_ok_def)
  let ?hs = "history_of db' bid"
  have same: "filter (\<lambda>h. hy_tenant_id h = tn \<and> hy_booking_id h = bid) (db_history db') = ?hs"
    using hb b unfolding history_of_def booking_history_ok_def Let_def
    by (intro filter_cong) auto
  have "sorted (map hy_sequence ?hs)" using hb b by (simp add: booking_history_ok_def Let_def)
  then have "sorted_by hy_sequence ?hs = ?hs" by (rule sort_key_id_if_sorted)
  then have "booking_history tn c bid db' = moves ?hs"
    using assms(3) same by (simp add: booking_history_def)
  then show ?thesis using hb b by (simp add: booking_history_ok_def Let_def)
qed

theorem history_is_lifecycle_run_witness:
  "\<exists>db' b. clocked_run step_db example_db 0 db' 0 \<and>
     owned_booking db' (TenantId 1) (CustomerId 1) (BookingId 9) = Some b \<and>
     status_path B_DRAFT (booking_history (TenantId 1) (CustomerId 1) (BookingId 9) db') (br_status b)"
proof -
  obtain db' r where run: "confirm (TenantId 1) (CustomerId 1) (BookingDraftId 4) ''k1'' 0 (BookingId 9) example_db = Inr (db', r)"
    and bk: "\<exists>b. owned_booking db' (TenantId 1) (CustomerId 1) (BookingId 9) = Some b"
    by (simp add: confirm_def confirm_op_def owned_draft_def confirm_draft_def confirm_new_def insert_booking_def
      insert_history_def booking_event_def add_event_def history_entry_def result_of_row_def find_service_def find_tenant_def
      filled_def Let_def example_defs second_us_def put_draft_def set_holds_def set_workflow_def owned_booking_def)
  have step: "step_db (Confirm example_who (BookingDraftId 4) ''k1'' (BookingId 9)) 0 example_db = db'"
    by (simp add: run_tx_def run example_who_def)
  have steps: "clocked_run step_db example_db 0 db' 0"
    using run_more [OF run_none order_refl, where step = step_db and t = 0 and
      s = "Confirm example_who (BookingDraftId 4) ''k1'' (BookingId 9)" and d = example_db] unfolding step .
  obtain b where "owned_booking db' (TenantId 1) (CustomerId 1) (BookingId 9) = Some b" using bk by blast
  then show ?thesis using history_is_lifecycle_run [OF steps example_ok(2)] steps by blast
qed

text \<open>
  C30. A confirmation that succeeded and is sent again, at any time, returns the same
  appointment and changes nothing.
\<close>

theorem confirm_retry_same:
  assumes "run_tx (confirm t c did key now i) db = (db', Inr r)"
  shows "run_tx (confirm t c did key now2 i2) db' = (db', Inr r)"
proof -
  have "confirm t c did key now i db = Inr (db', r)"
    using assms by (auto simp: run_tx_def split: sum.splits)
  from confirm_repeat [OF this] show ?thesis by (simp add: run_tx_def)
qed

theorem confirm_retry_same_witness:
  "\<exists>db' r. db_bookings db' \<noteq> [] \<and>
     run_tx (confirm (TenantId 1) (CustomerId 1) (BookingDraftId 4) ''k1'' 700000000 (BookingId 10)) db' = (db', Inr r)"
proof -
  obtain db' r where run: "confirm (TenantId 1) (CustomerId 1) (BookingDraftId 4) ''k1'' 0 (BookingId 9) example_db = Inr (db', r)"
    and bk: "map br_id (db_bookings db') = [BookingId 9]" using example_confirm by auto
  have "run_tx (confirm (TenantId 1) (CustomerId 1) (BookingDraftId 4) ''k1'' 0 (BookingId 9)) example_db = (db', Inr r)"
    by (simp add: run_tx_def run)
  from confirm_retry_same [OF this] show ?thesis
    by (intro exI [of _ db'] exI [of _ r] conjI) (use bk in auto)
qed

end
