(* ===== verification/PyParse.thy ===== *)
theory PyParse
  imports PyTime
begin

text \<open>
  Reading numbers and dates from text: Python's \<open>decimal.Decimal\<close> (construction from a string,
  \<open>str\<close>, comparison) and \<open>date.fromisoformat\<close>, each with the round trip through its text.
  A finite \<open>Decimal\<close> is kept as the library keeps it, sign, coefficient and exponent, so that
  \<open>1.0\<close> and \<open>1.00\<close> differ as texts and agree as numbers. Exponents beyond the eighteen digits of
  libmpdec, which the constructor refuses, are outside the model.
\<close>

section \<open>decimal.Decimal\<close>

datatype decimal = Dec bool nat int | DecInf bool | DecNaN bool

text \<open>Signs, and the integer after an exponent mark.\<close>

fun split_sign :: "string \<Rightarrow> bool \<times> string" where
  "split_sign (c # cs) = (if c = CHR ''-'' then (True, cs) else if c = CHR ''+'' then (False, cs) else (False, c # cs))"
| "split_sign [] = (False, [])"

definition parse_digits :: "string \<Rightarrow> nat option" where
  "parse_digits s = (if s \<noteq> [] \<and> list_all is_digit s then Some (digits_val s) else None)"

definition parse_int :: "string \<Rightarrow> int option" where
  "parse_int s = (case split_sign s of (neg, ds) \<Rightarrow>
     (case parse_digits ds of None \<Rightarrow> None | Some n \<Rightarrow> Some (if neg then - int n else int n)))"

text \<open>The fraction: what follows a decimal point, and the rest of the text.\<close>

definition split_fraction :: "string \<Rightarrow> string \<times> string" where
  "split_fraction s = (case s of
     c # cs \<Rightarrow> if c = CHR ''.'' then (takeWhile is_digit cs, dropWhile is_digit cs) else ([], s)
   | [] \<Rightarrow> ([], []))"

definition parse_exponent :: "string \<Rightarrow> int option" where
  "parse_exponent s = (case s of [] \<Rightarrow> Some 0
     | c # cs \<Rightarrow> if lower_char c = CHR ''e'' then parse_int cs else None)"

text \<open>
  \<open>Decimal(text)\<close>: white space around the text and underscores are ignored; None where
  InvalidOperation is raised. \<open>DecNaN True\<close> is a signalling NaN; signs and payloads of NaN are not kept.
\<close>

definition parse_decimal :: "string \<Rightarrow> decimal option" where
  "parse_decimal text = (case split_sign (filter (\<lambda>c. c \<noteq> CHR ''_'') (strip text)) of (neg, s) \<Rightarrow>
     let low = map lower_char s in
     if low = ''inf'' \<or> low = ''infinity'' then Some (DecInf neg)
     else if prefix ''nan'' low \<and> list_all is_digit (drop 3 s) then Some (DecNaN False)
     else if prefix ''snan'' low \<and> list_all is_digit (drop 4 s) then Some (DecNaN True)
     else
       let whole = takeWhile is_digit s; (frac, rest) = split_fraction (dropWhile is_digit s)
       in if whole @ frac = [] then None
          else case parse_exponent rest of None \<Rightarrow> None
            | Some e \<Rightarrow> Some (Dec neg (digits_val (whole @ frac)) (e - int (length frac))))"

text \<open>\<open>str(d)\<close>: scientific notation only for large exponents.\<close>

definition str_decimal :: "decimal \<Rightarrow> string" where
  "str_decimal d = (case d of
     DecInf neg \<Rightarrow> (if neg then ''-Infinity'' else ''Infinity'')
   | DecNaN signalling \<Rightarrow> (if signalling then ''sNaN'' else ''NaN'')
   | Dec neg c e \<Rightarrow>
       let ds = digits_of c; n = int (length ds); leftdigits = e + n;
           dotplace = (if e \<le> 0 \<and> - 6 < leftdigits then leftdigits else 1);
           (intpart, fracpart) =
             (if dotplace \<le> 0 then (''0'', ''.'' @ replicate (nat (- dotplace)) CHR ''0'' @ ds)
              else if n \<le> dotplace then (ds @ replicate (nat (dotplace - n)) CHR ''0'', [])
              else (take (nat dotplace) ds, ''.'' @ drop (nat dotplace) ds));
           ex = (if leftdigits = dotplace then []
             else ''E'' @ (if leftdigits < dotplace then [] else ''+'') @ str_int (leftdigits - dotplace))
       in (if neg then ''-'' else []) @ intpart @ fracpart @ ex)"

definition is_finite :: "decimal \<Rightarrow> bool" where
  "is_finite d = (case d of Dec _ _ _ \<Rightarrow> True | _ \<Rightarrow> False)"

definition is_nan :: "decimal \<Rightarrow> bool" where
  "is_nan d = (case d of DecNaN _ \<Rightarrow> True | _ \<Rightarrow> False)"

definition decimal_of_int :: "int \<Rightarrow> decimal" where
  "decimal_of_int i = Dec (i < 0) (nat \<bar>i\<bar>) 0"

text \<open>The number a finite decimal stands for.\<close>

definition dec_val :: "bool \<Rightarrow> nat \<Rightarrow> int \<Rightarrow> rat" where
  "dec_val neg c e = (if neg then - 1 else 1) * of_nat c * (if 0 \<le> e then 10 ^ nat e else 1 / 10 ^ nat (- e))"

text \<open>The order of decimals that are not NaN.\<close>

fun dec_le_num :: "decimal \<Rightarrow> decimal \<Rightarrow> bool" where
  "dec_le_num (DecInf neg) d = (neg \<or> d = DecInf False)"
| "dec_le_num (Dec n c e) (DecInf neg) = (\<not> neg)"
| "dec_le_num (Dec n c e) (Dec n' c' e') = (dec_val n c e \<le> dec_val n' c' e')"
| "dec_le_num _ _ = False"

text \<open>Two finite decimals compare as the integers they are at a common exponent, which computes.\<close>

definition dec_scaled :: "bool \<Rightarrow> nat \<Rightarrow> int \<Rightarrow> int \<Rightarrow> int" where
  "dec_scaled neg c e m = (if neg then - 1 else 1) * int c * 10 ^ nat (e - m)"

lemma dec_val_scaled: "m \<le> e \<Longrightarrow> dec_val neg c e = of_int (dec_scaled neg c e m) * 10 powi m"
proof -
  assume "m \<le> e"
  then have "(10::rat) powi e = 10 ^ nat (e - m) * 10 powi m"
    by (metis (no_types, opaque_lifting) add_diff_cancel_left' diff_ge_0_iff_ge int_nat_eq le_add_diff_inverse mult.commute power_int_add power_int_of_nat zero_neq_numeral)
  moreover have "dec_val neg c e = (if neg then - 1 else 1) * of_nat c * 10 powi e"
    by (auto simp: dec_val_def power_int_def divide_simps)
  ultimately show ?thesis by (simp add: dec_scaled_def)
qed

lemma dec_le_num_code [code]:
  "dec_le_num (Dec n c e) (Dec n' c' e') = (dec_scaled n c e (min e e') \<le> dec_scaled n' c' e' (min e e'))"
proof -
  have "(0::rat) < 10 powi (min e e')" by simp
  then show ?thesis
    using dec_val_scaled [of "min e e'" e n c] dec_val_scaled [of "min e e'" e' n' c']
    by (simp only: dec_le_num.simps min.cobounded1 min.cobounded2 mult_le_cancel_right_pos of_int_le_iff)
qed
text \<open>\<open>a <= b\<close>; \<open>a < b\<close>; \<open>a == b\<close>. Ordering a NaN raises InvalidOperation, comparing a signalling NaN for equality does.\<close>

definition dec_le :: "decimal \<Rightarrow> decimal \<Rightarrow> bool res" where
  "dec_le a b = (if is_nan a \<or> is_nan b then Inl InvalidOperation else Inr (dec_le_num a b))"

definition dec_less :: "decimal \<Rightarrow> decimal \<Rightarrow> bool res" where
  "dec_less a b = (if is_nan a \<or> is_nan b then Inl InvalidOperation else Inr (\<not> dec_le_num b a))"

definition dec_eq :: "decimal \<Rightarrow> decimal \<Rightarrow> bool res" where
  "dec_eq a b = (if a = DecNaN True \<or> b = DecNaN True then Inl InvalidOperation
     else Inr (\<not> is_nan a \<and> \<not> is_nan b \<and> dec_le_num a b \<and> dec_le_num b a))"

text \<open>\<open>number == number.to_integral()\<close> and \<open>int(number)\<close> of a finite decimal.\<close>

definition dec_integral :: "decimal \<Rightarrow> bool" where
  "dec_integral d = (case d of Dec _ c e \<Rightarrow> 0 \<le> e \<or> c mod 10 ^ nat (- e) = 0 | _ \<Rightarrow> False)"

definition int_of_decimal :: "decimal \<Rightarrow> int" where
  "int_of_decimal d = (case d of
     Dec neg c e \<Rightarrow> (let n = int (if 0 \<le> e then c * 10 ^ nat e else c div 10 ^ nat (- e))
                     in if neg then - n else n)
   | _ \<Rightarrow> 0)"

section \<open>date.fromisoformat\<close>

text \<open>The Monday of an ISO week is counted from the week of the fourth of January.\<close>

definition date_of_week :: "int \<Rightarrow> int \<Rightarrow> int \<Rightarrow> date option" where
  "date_of_week y w d = (
     let first = date_of_ymd y 1 1; fourth = date_of_ymd y 1 4;
         weeks = (if weekday first = 3 \<or> weekday first = 2 \<and> is_leap y then 53 else 52);
         result = fourth - weekday fourth + 7 * (w - 1) + (d - 1)
     in if 1 \<le> y \<and> y \<le> 9999 \<and> 1 \<le> w \<and> w \<le> weeks \<and> 1 \<le> d \<and> d \<le> 7
           \<and> 1 \<le> result \<and> result \<le> date_of_ymd 9999 12 31
        then Some result else None)"

definition parse_exact :: "nat \<Rightarrow> string \<Rightarrow> int option" where
  "parse_exact n s = (if length s \<noteq> n then None else map_option int (parse_digits s))"

definition week_tail :: "bool \<Rightarrow> string \<Rightarrow> int option" where
  "week_tail sep s =
     (if s = [] then Some 1
      else if (hd s = CHR ''-'') \<noteq> sep then None
      else parse_exact 1 (if sep then tl s else s))"

text \<open>
  \<open>YYYY-MM-DD\<close>, \<open>YYYYMMDD\<close> and the ISO week forms; None where ValueError is raised.
\<close>

definition date_fromisoformat :: "string \<Rightarrow> date option" where
  "date_fromisoformat s =
     (if length s \<notin> {7, 8, 10} then None
      else case parse_exact 4 (take 4 s) of None \<Rightarrow> None
      | Some y \<Rightarrow>
          let sep = (s ! 4 = CHR ''-''); r = drop (if sep then 5 else 4) s in
          if take 1 r = ''W'' then
            (case (parse_exact 2 (take 2 (drop 1 r)), week_tail sep (drop 3 r)) of
               (Some w, Some d) \<Rightarrow> date_of_week y w d | _ \<Rightarrow> None)
          else let r2 = drop 2 r in
            if (take 1 r2 = ''-'') \<noteq> sep then None
            else case (parse_exact 2 (take 2 r), parse_exact 2 (if sep then tl r2 else r2)) of
                (Some m, Some d) \<Rightarrow> if valid_ymd y m d then Some (date_of_ymd y m d) else None
              | _ \<Rightarrow> None)"

section \<open>Reading back what was written\<close>

lemma parse_digits_of [simp]: "parse_digits (digits_of n) = Some n"
  using digits_of_digits by (simp add: parse_digits_def)

lemma is_digit_not_sign: "is_digit c \<Longrightarrow> c \<noteq> CHR ''-'' \<and> c \<noteq> CHR ''+'' \<and> c \<noteq> CHR ''.'' \<and> c \<noteq> CHR ''E''"
  by (auto simp: is_digit_def code_def)

lemma digits_of_Cons: "\<exists>c cs. digits_of n = c # cs \<and> is_digit c"
  using digits_of_digits [of n] digits_of_nonempty [of n] by (cases "digits_of n") auto

lemma parse_int_str_int [simp]: "parse_int (str_int i) = Some i"
proof (cases "i < 0")
  case True
  then show ?thesis by (simp add: parse_int_def str_int_def)
next
  case False
  obtain c cs where c: "digits_of (nat i) = c # cs" "is_digit c" using digits_of_Cons by blast
  then have "split_sign (digits_of (nat i)) = (False, digits_of (nat i))"
    using is_digit_not_sign [OF c(2)] by simp
  then show ?thesis using False by (simp add: parse_int_def str_int_def)
qed

lemma parse_int_plus [simp]: "0 \<le> i \<Longrightarrow> parse_int (CHR ''+'' # str_int i) = Some i"
  by (simp add: parse_int_def str_int_def)

definition num_char :: "char \<Rightarrow> bool" where
  "num_char c = (is_digit c \<or> c \<in> set ''+-.E'')"

lemma num_char_plain: "num_char c \<Longrightarrow> \<not> is_space c \<and> c \<noteq> CHR ''_''"
  by (auto simp: num_char_def is_digit_def is_space_def code_def)

lemma digits_num: "list_all is_digit s \<Longrightarrow> list_all num_char s"
  by (auto simp: list_all_iff num_char_def)

lemma strip_plain: "list_all (\<lambda>c. \<not> is_space c) s \<Longrightarrow> strip s = s"
proof -
  assume plain: "list_all (\<lambda>c. \<not> is_space c) s"
  have "dropWhile is_space t = t" if "list_all (\<lambda>c. \<not> is_space c) t" for t
    using that by (cases t) auto
  then show ?thesis using plain by (simp add: strip_def lstrip_def rstrip_def)
qed

lemma plain_number:
  assumes "list_all num_char s"
  shows "filter (\<lambda>c. c \<noteq> CHR ''_'') (strip s) = s"
proof -
  have "list_all (\<lambda>c. \<not> is_space c) s" using assms num_char_plain by (auto simp: list_all_iff)
  then have "strip s = s" by (rule strip_plain)
  moreover have "filter (\<lambda>c. c \<noteq> CHR ''_'') s = s"
    using assms num_char_plain by (intro filter_True) (auto simp: list_all_iff)
  ultimately show ?thesis by simp
qed

lemma str_int_num: "list_all num_char (str_int i)"
  using digits_num [OF digits_of_digits] by (simp add: str_int_def num_char_def)

lemma takeWhile_digits:
  "list_all is_digit s \<Longrightarrow> rest = [] \<or> \<not> is_digit (hd rest) \<Longrightarrow> takeWhile is_digit (s @ rest) = s"
  "list_all is_digit s \<Longrightarrow> rest = [] \<or> \<not> is_digit (hd rest) \<Longrightarrow> dropWhile is_digit (s @ rest) = rest"
  by (induction s) (cases rest; simp)+

lemma lower_digit: "is_digit c \<Longrightarrow> lower_char c = c"
  by (simp add: is_digit_def lower_char_def Let_def)

text \<open>The parser reads a sign, digits, an optional fraction and an optional exponent.\<close>

lemma parse_decimal_parts:
  assumes ip: "list_all is_digit ip" "ip \<noteq> []" and fp: "list_all is_digit fp"
    and fr: "fr = (if fp = [] then [] else CHR ''.'' # fp)"
    and ex: "ex = [] \<and> k = 0 \<or> (\<exists>t. ex = CHR ''E'' # t \<and> list_all num_char t \<and> parse_int t = Some k)"
  shows "parse_decimal ((if neg then ''-'' else []) @ ip @ fr @ ex)
    = Some (Dec neg (digits_val (ip @ fp)) (k - int (length fp)))"
proof -
  obtain c cs where c: "ip = c # cs" "is_digit c" using ip by (cases ip) auto
  let ?s = "ip @ fr @ ex"
  have num: "list_all num_char ((if neg then ''-'' else []) @ ?s)"
    using digits_num [OF ip(1)] digits_num [OF fp] fr ex by (auto simp: num_char_def)
  have sign: "split_sign ((if neg then ''-'' else []) @ ?s) = (neg, ?s)"
    using c is_digit_not_sign [OF c(2)] by auto
  have word: "map lower_char ?s \<noteq> ''inf'' \<and> map lower_char ?s \<noteq> ''infinity''
      \<and> \<not> prefix ''nan'' (map lower_char ?s) \<and> \<not> prefix ''snan'' (map lower_char ?s)"
    using c lower_digit [OF c(2)] by (auto simp: is_digit_def code_def)
  have dots: "\<not> is_digit CHR ''.''" "\<not> is_digit CHR ''E''" by (simp_all add: is_digit_def code_def)
  have ends: "ex = [] \<or> \<not> is_digit (hd ex)" "fr @ ex = [] \<or> \<not> is_digit (hd (fr @ ex))"
    using ex fr dots by auto
  have whole: "takeWhile is_digit ?s = ip" "dropWhile is_digit ?s = fr @ ex"
    by (rule takeWhile_digits [OF ip(1) ends(2)])+
  have frac: "split_fraction (fr @ ex) = (fp, ex)"
    using takeWhile_digits [OF fp ends(1)] fr ex by (auto simp: split_fraction_def)
  have "lower_char CHR ''E'' = CHR ''e''" by code_simp
  then have "parse_exponent ex = Some k" using ex by (auto simp: parse_exponent_def)
  then show ?thesis
    unfolding parse_decimal_def plain_number [OF num] sign
    using word ip(2) by (simp add: whole frac Let_def)
qed

lemma digits_val_zeros [simp]: "digits_val (replicate n CHR ''0'' @ s) = digits_val s"
  "digits_val (CHR ''0'' # s) = digits_val s"
proof -
  show zero: "digits_val (CHR ''0'' # s) = digits_val s" for s
    by (simp add: digits_val_def digit_val_def code_def)
  show "digits_val (replicate n CHR ''0'' @ s) = digits_val s"
    by (induction n) (simp_all add: zero)
qed

lemma zero_digits: "list_all is_digit (replicate n CHR ''0'')"
  by (simp add: list_all_iff is_digit_def code_def)

lemma parse_str_decimal: "parse_decimal (str_decimal (Dec neg c e)) = Some (Dec neg c e)"
proof -
  let ?ds = "digits_of c" let ?n = "int (length ?ds)" let ?left = "e + ?n"
  let ?dot = "if e \<le> 0 \<and> - 6 < ?left then ?left else 1"
  let ?ex = "if ?left = ?dot then [] else ''E'' @ (if ?left < ?dot then [] else ''+'') @ str_int (?left - ?dot)"
  have pos: "0 < ?n" "length ?ds \<noteq> 0" by simp_all
  have ex: "?ex = [] \<and> ?left - ?dot = 0 \<or> (\<exists>t. ?ex = CHR ''E'' # t \<and> list_all num_char t \<and> parse_int t = Some (?left - ?dot))"
    using str_int_num [of "?left - ?dot"] by (auto simp: num_char_def)
  note parts = parse_decimal_parts [OF _ _ _ _ ex]
  consider "?dot \<le> 0" | "0 < ?dot" "?n \<le> ?dot" | "0 < ?dot" "?dot < ?n" by linarith
  then show ?thesis
  proof cases
    case 1
    let ?fp = "replicate (nat (- ?dot)) CHR ''0'' @ ?ds"
    have "list_all is_digit ''0''" "list_all is_digit ?fp"
      using zero_digits digits_of_digits by (simp_all add: is_digit_def code_def)
    from parts [OF this(1) _ this(2), of "''.'' @ ?fp" neg] 1 show ?thesis
      by (simp add: str_decimal_def Let_def split: if_splits)
  next
    case 2
    then have "?dot = ?n" using pos by (auto split: if_splits simp del: length_0_conv digits_of_nonempty; arith)
    then show ?thesis using parts [OF digits_of_digits, of c "[]" "[]" neg] pos
      by (simp add: str_decimal_def Let_def split: if_splits)
  next
    case 3
    let ?ip = "take (nat ?dot) ?ds" let ?fp = "drop (nat ?dot) ?ds"
    have d: "list_all is_digit ?ip" "list_all is_digit ?fp"
      using digits_of_digits [of c] by (auto simp: list_all_iff dest: in_set_takeD in_set_dropD)
    have "?ip \<noteq> []" "?fp \<noteq> []" using 3 by auto
    then show ?thesis using parts [OF d(1) _ d(2), of "''.'' @ ?fp" neg] 3
      by (simp add: str_decimal_def Let_def split: if_splits)
  qed
qed


section \<open>The calendar\<close>

text \<open>The month and day of a day counted from the start of its year, as \<open>ymd_of_date\<close> computes them.\<close>

definition month_day :: "bool \<Rightarrow> int \<Rightarrow> int \<times> int" where
  "month_day leap n = (
     let month = (n + 50) div 32;
         preceding = month_table ! nat (month - 1) + (if 2 < month \<and> leap then 1 else 0)
     in if preceding > n
        then let month' = month - 1;
                 preceding' = preceding - (if month' = 2 \<and> leap then 29
                   else if month' = 2 then 28
                   else if month' \<in> {4, 6, 9, 11} then 30 else 31)
             in (month', n - preceding' + 1)
        else (month, n - preceding + 1))"

definition month_day_right :: "bool \<Rightarrow> int \<Rightarrow> bool" where
  "month_day_right leap n = (case month_day leap n of (m, d) \<Rightarrow>
     1 \<le> m \<and> m \<le> 12 \<and> 1 \<le> d
     \<and> d \<le> (if m = 2 then (if leap then 29 else 28) else if m \<in> {4, 6, 9, 11} then 30 else 31)
     \<and> month_table ! nat (m - 1) + (if 2 < m \<and> leap then 1 else 0) + d = n + 1)"

lemma month_day_valid:
  assumes "0 \<le> n" "n < (if leap then 366 else 365)"
  shows "month_day_right leap n"
proof -
  define m where "m = (n + 50) div 32"
  have "32 * m \<le> n + 50" "n + 50 < 32 * m + 32" unfolding m_def by presburger+
  moreover from this assms have "1 \<le> m" "m \<le> 12" by (simp_all split: if_splits)
  then have "m \<in> {1, 2, 3, 4, 5, 6, 7, 8, 9, 10, 11, 12}" unfolding insert_iff empty_iff by presburger
  ultimately show ?thesis using assms unfolding month_day_right_def month_day_def m_def [symmetric] Let_def
    by (elim insertE; cases leap) (simp_all add: month_table_def)
qed

lemma div_mod_plus:
  fixes k q s :: int
  assumes "0 \<le> s" "s < k"
  shows "(k * q + s) div k = q" "(k * q + s) mod k = s"
  using assms by (simp_all add: div_add1_eq div_pos_pos_trivial)

lemma last_of_block:
  fixes k q s :: int
  assumes "0 \<le> s" "s < k"
  shows "(k * q + s + 1) mod k = 0 \<longleftrightarrow> s = k - 1"
proof (cases "s = k - 1")
  case True
  then have "k * q + s + 1 = k * (q + 1)" by (simp add: distrib_left)
  then show ?thesis using True by simp
next
  case False
  then show ?thesis using assms div_mod_plus(2) [of "s + 1" k q] by (simp add: add.assoc)
qed

text \<open>The last day of a leap year.\<close>

lemma month_day_last: "month_day True 365 = (12, 31)"
  by (simp add: month_day_def month_table_def)

lemma ymd_split:
  assumes b: "0 \<le> b" "b \<le> 3" and c: "0 \<le> c" "c \<le> 24" and e: "0 \<le> e" "e \<le> 3"
    and r: "0 \<le> r" "r < (if e = 3 \<and> (c \<noteq> 24 \<or> b = 3) then 366 else 365)"
  shows "ymd_of_date (146097 * a + (36524 * b + (1461 * c + (365 * e + r))) + 1)
    = (400 * a + 100 * b + 4 * c + e + 1, month_day (e = 3 \<and> (c \<noteq> 24 \<or> b = 3)) r)"
proof (cases "r = 365")
  case False
  then have r4: "r < 365" using r by (auto split: if_splits)
  have e4: "365 * e + r < 1461" "0 \<le> 365 * e + r" using e r r4 by linarith+
  have c4: "1461 * c + (365 * e + r) < 36524" "0 \<le> 1461 * c + (365 * e + r)"
    using c e r r4 by linarith+
  have b4: "36524 * b + (1461 * c + (365 * e + r)) < 146097" "0 \<le> 36524 * b + (1461 * c + (365 * e + r))"
    using b c4 by linarith+
  show ?thesis
    unfolding ymd_of_date_def Let_def add_diff_cancel_right'
      div_mod_plus [OF b4(2,1)] div_mod_plus [OF c4(2,1)] div_mod_plus [OF e4(2,1)] div_mod_plus [OF r(1) r4]
    using b(2) e(2) by (auto simp: month_day_def Let_def)
next
  case True
  then have leap: "e = 3" "c \<noteq> 24 \<or> b = 3" using r by (auto split: if_splits)
  show ?thesis
  proof (cases "c = 24")
    case True
    then have "b = 3" using leap by simp
    then have "146097 * a + (36524 * b + (1461 * c + (365 * e + r))) + 1 = 146097 * a + 146096 + 1"
      using True \<open>r = 365\<close> leap by simp
    then show ?thesis using div_mod_plus [of 146096 146097 a] True \<open>r = 365\<close> leap \<open>b = 3\<close> month_day_last
      by (simp add: ymd_of_date_def Let_def)
  next
    case False
    have c4: "1461 * c + 1460 < 36524" "0 \<le> 1461 * c + 1460" using c False by linarith+
    have b4: "36524 * b + (1461 * c + 1460) < 146097" "0 \<le> 36524 * b + (1461 * c + 1460)" using b c4 by linarith+
    have n: "365 * e + r = 1460" using \<open>r = 365\<close> leap by simp
    show ?thesis
      unfolding n ymd_of_date_def Let_def add_diff_cancel_right'
        div_mod_plus [OF b4(2,1)] div_mod_plus [OF c4(2,1)]
      using div_mod_plus [of 1460 1461 c] leap \<open>r = 365\<close> False month_day_last by simp
  qed
qed

lemma year_start:
  assumes "0 \<le> b" "b \<le> 3" "0 \<le> c" "c \<le> 24" "0 \<le> e" "e \<le> (3 :: int)"
  shows "days_before_year (400 * a + 100 * b + 4 * c + e + 1) = 146097 * a + 36524 * b + 1461 * c + 365 * e"
    and "is_leap (400 * a + 100 * b + 4 * c + e + 1) \<longleftrightarrow> e = 3 \<and> (c \<noteq> 24 \<or> b = 3)"
proof -
  let ?p = "400 * a + 100 * b + 4 * c + e"
  have p: "?p = 4 * (100 * a + 25 * b + c) + e" "?p = 100 * (4 * a + b) + (4 * c + e)"
    "?p = 400 * a + (100 * b + 4 * c + e)" by simp_all
  have s: "0 \<le> e" "e < 4" "0 \<le> 4 * c + e" "4 * c + e < 100" "0 \<le> 100 * b + 4 * c + e"
    "100 * b + 4 * c + e < 400" using assms by linarith+
  have q: "?p div 4 = 100 * a + 25 * b + c" "?p div 100 = 4 * a + b" "?p div 400 = a"
    by (simp only: p(1) div_mod_plus [OF s(1,2)], simp only: p(2) div_mod_plus [OF s(3,4)],
      simp only: p(3) div_mod_plus [OF s(5,6)])
  show "days_before_year (?p + 1) = 146097 * a + 36524 * b + 1461 * c + 365 * e"
    unfolding days_before_year_def Let_def add_diff_cancel_right' q by simp
  have "(?p + 1) mod 4 = 0 \<longleftrightarrow> e = 3" "(?p + 1) mod 100 = 0 \<longleftrightarrow> 4 * c + e = 99"
    "(?p + 1) mod 400 = 0 \<longleftrightarrow> 100 * b + 4 * c + e = 399"
    by (simp only: p(1) last_of_block [OF s(1,2)], simp, simp only: p(2) last_of_block [OF s(3,4)], simp,
      simp only: p(3) last_of_block [OF s(5,6)], simp)
  moreover have "4 * c + e = 99 \<longleftrightarrow> c = 24 \<and> e = 3" "100 * b + 4 * c + e = 399 \<longleftrightarrow> b = 3 \<and> c = 24 \<and> e = 3"
    using assms by (intro iffI conjI; linarith)+
  ultimately show "is_leap (?p + 1) \<longleftrightarrow> e = 3 \<and> (c \<noteq> 24 \<or> b = 3)" unfolding is_leap_def by auto
qed

lemma capped_div:
  fixes k n :: int
  assumes "0 < k" "0 \<le> n" "n \<le> 4 * k" and q: "q = min 3 (n div k)"
  shows "0 \<le> q" "q \<le> 3" "0 \<le> n - k * q" "n - k * q < k \<or> q = 3 \<and> n - k * q \<le> k"
proof -
  have nk: "n = k * (n div k) + n mod k" "0 \<le> n mod k" "n mod k < k" using assms by simp_all
  have "0 \<le> n div k" using assms by (simp add: pos_imp_zdiv_nonneg_iff)
  then show "0 \<le> q" "q \<le> 3" using q by simp_all
  have "0 \<le> n - k * q \<and> (n - k * q < k \<or> q = 3 \<and> n - k * q \<le> k)"
  proof (cases "n div k \<le> 3")
    case True
    then have "n - k * q = n mod k" using nk(1) q by (simp add: algebra_simps)
    then show ?thesis using nk by linarith
  next
    case False
    then have "k * 4 \<le> k * (n div k)" and q3: "q = 3" using assms(1) q by simp_all
    then show ?thesis unfolding q3 using nk assms(1,3) by linarith
  qed
  then show "0 \<le> n - k * q" "n - k * q < k \<or> q = 3 \<and> n - k * q \<le> k" by blast+
qed

lemma day_decomposition:
  fixes d :: int
  assumes "1 \<le> d"
  obtains a b c e r where "d = 146097 * a + (36524 * b + (1461 * c + (365 * e + r))) + 1" "0 \<le> a"
    and "0 \<le> b" "b \<le> 3" "0 \<le> c" "c \<le> 24" "0 \<le> e" "e \<le> 3" "0 \<le> r"
    and "r < (if e = 3 \<and> (c \<noteq> 24 \<or> b = 3) then 366 else 365)"
proof -
  define a n1 where "a = (d - 1) div 146097" and "n1 = (d - 1) mod 146097"
  define b where "b = min 3 (n1 div 36524)"
  define n2 where "n2 = n1 - 36524 * b"
  define c n3 where "c = n2 div 1461" and "n3 = n2 mod 1461"
  define e where "e = min 3 (n3 div 365)"
  define r where "r = n3 - 365 * e"
  have n1: "0 \<le> n1" "n1 < 146097" "d - 1 = 146097 * a + n1" "0 \<le> a"
    using assms by (simp_all add: n1_def a_def pos_imp_zdiv_nonneg_iff)
  have "n1 \<le> 4 * 36524" using n1(2) by simp
  note b1 = capped_div [OF _ n1(1) this b_def, folded n2_def]
  have b: "0 \<le> b" "b \<le> 3" "0 \<le> n2" "n2 < 36524 \<or> b = 3 \<and> n2 \<le> 36524"
    using b1 by simp_all
  have n3: "0 \<le> n3" "n3 < 1461" "n2 = 1461 * c + n3" by (simp_all add: n3_def c_def)
  have c: "0 \<le> c" "c \<le> 24" using b(3,4) n3 by linarith+
  have "n3 \<le> 4 * 365" using n3(2) by simp
  note e1 = capped_div [OF _ n3(1) this e_def, folded r_def]
  have e: "0 \<le> e" "e \<le> 3" "0 \<le> r" "r < 365 \<or> e = 3 \<and> r \<le> 365"
    using e1 by simp_all
  have "r = 365 \<Longrightarrow> c \<noteq> 24 \<or> b = 3" using b(4) n3 e r_def by linarith
  then have r: "r < (if e = 3 \<and> (c \<noteq> 24 \<or> b = 3) then 366 else 365)" using e(4) by (cases "r = 365") auto
  have "d = 146097 * a + (36524 * b + (1461 * c + (365 * e + r))) + 1"
    using n1(3) n3(3) unfolding r_def n2_def by linarith
  from that [OF this n1(4) b(1,2) c e(1-3) r] show ?thesis .
qed

definition max_date :: date where "max_date = 3652059"

text \<open>The calendar date of a day is valid and stands for that day.\<close>

lemma ymd_of_date_right:
  assumes "1 \<le> d" "d \<le> max_date" "ymd_of_date d = (y, m, dd)"
  shows "valid_ymd y m dd \<and> date_of_ymd y m dd = d"
proof -
  obtain a b c e r where d: "d = 146097 * a + (36524 * b + (1461 * c + (365 * e + r))) + 1" "0 \<le> a"
    and bce: "0 \<le> b" "b \<le> 3" "0 \<le> c" "c \<le> 24" "0 \<le> e" "e \<le> 3" "0 \<le> r"
    and r: "r < (if e = 3 \<and> (c \<noteq> 24 \<or> b = 3) then 366 else 365)"
    using day_decomposition [OF assms(1)] by metis
  let ?leap = "e = 3 \<and> (c \<noteq> 24 \<or> b = 3)" let ?y = "400 * a + 100 * b + 4 * c + e + 1"
  have y: "y = ?y" and md: "month_day ?leap r = (m, dd)"
    using ymd_split [OF bce r, of a] assms(3) unfolding d(1) by simp_all
  have right: "1 \<le> m" "m \<le> 12" "1 \<le> dd"
    "dd \<le> (if m = 2 then (if ?leap then 29 else 28) else if m \<in> {4, 6, 9, 11} then 30 else 31)"
    "month_table ! nat (m - 1) + (if 2 < m \<and> ?leap then 1 else 0) + dd = r + 1"
    using month_day_valid [OF bce(7) r] unfolding month_day_right_def md by simp_all
  have start: "days_before_year y = 146097 * a + 36524 * b + 1461 * c + 365 * e" "is_leap y = ?leap"
    using year_start [OF bce(1-6), of a] unfolding y by simp_all
  have "y \<le> 9999"
  proof (rule ccontr)
    assume "\<not> y \<le> 9999"
    then have p: "9999 \<le> 400 * a + 100 * b + 4 * c + e" unfolding y by simp
    show False
    proof (cases "25 \<le> a")
      case False
      then have a: "a = 24" using p bce by linarith
      then have "b = 3" using p bce by linarith
      moreover from this a have "c = 24" using p bce by linarith
      moreover from this a have "e = 3" using p bce by linarith
      ultimately show False using a assms(2) bce d unfolding max_date_def by simp
    qed (use assms(2) bce d in \<open>simp add: max_date_def\<close>)
  qed
  moreover have "1 \<le> y" using bce d(2) unfolding y by linarith
  moreover have "dd \<le> days_in_month y m" using right(4) unfolding days_in_month_def start(2) .
  ultimately have "valid_ymd y m dd" using right(1-3) by (simp add: valid_ymd_def)
  moreover have "date_of_ymd y m dd = d"
    using right(5) start d(1) unfolding date_of_ymd_def days_before_month_def by simp
  ultimately show ?thesis by blast
qed

lemma digits_of_length: "n < 10 ^ k \<Longrightarrow> 0 < k \<Longrightarrow> length (digits_of n) \<le> k"
proof (induction n arbitrary: k rule: digits_of.induct)
  case (1 n)
  show ?case
  proof (cases "n < 10")
    case True
    then show ?thesis using "1.prems" by (subst digits_of.simps) simp
  next
    case False
    then obtain k' where k: "k = Suc k'" "0 < k'" using "1.prems" by (cases k; cases "k - 1") auto
    then have "n div 10 < 10 ^ k'" using "1.prems" by (auto simp: less_mult_imp_div_less mult.commute)
    then show ?thesis using "1.IH" [OF False] k False by (subst digits_of.simps) simp
  qed
qed

lemma parse_zero_pad:
  assumes "n < 10 ^ w" "0 < w"
  shows "parse_exact w (zero_pad w n) = Some (int n)" "length (zero_pad w n) = w"
proof -
  show len: "length (zero_pad w n) = w"
    using digits_of_length [OF assms] by (simp add: zero_pad_def Let_def)
  have "list_all is_digit (zero_pad w n)" "zero_pad w n \<noteq> []" "digits_val (zero_pad w n) = n"
    using zero_digits digits_of_digits by (simp_all add: zero_pad_def Let_def)
  then show "parse_exact w (zero_pad w n) = Some (int n)"
    by (simp add: parse_exact_def parse_digits_def len)
qed

text \<open>A date written with \<open>isoformat\<close> is read back by \<open>fromisoformat\<close>.\<close>

lemma date_iso_roundtrip:
  assumes "1 \<le> d" "d \<le> max_date"
  shows "date_fromisoformat (date_iso d) = Some d"
proof -
  obtain y m dd where ymd: "ymd_of_date d = (y, m, dd)" by (cases "ymd_of_date d")
  then have v: "valid_ymd y m dd" "date_of_ymd y m dd = d" using ymd_of_date_right [OF assms] by blast+
  then have r: "1 \<le> y" "y \<le> 9999" "1 \<le> m" "m \<le> 12" "1 \<le> dd" "dd \<le> 31"
    by (auto simp: valid_ymd_def days_in_month_def split: if_splits)
  let ?Y = "zero_pad 4 (nat y)" let ?M = "zero_pad 2 (nat m)" let ?D = "zero_pad 2 (nat dd)"
  have n: "nat y < 10 ^ 4" "nat m < 10 ^ 2" "nat dd < 10 ^ 2" using r by auto
  have Y: "parse_exact 4 ?Y = Some y" "length ?Y = 4" and M: "parse_exact 2 ?M = Some m" "length ?M = 2"
    and D: "parse_exact 2 ?D = Some dd" "length ?D = 2"
    using parse_zero_pad [OF n(1)] parse_zero_pad [OF n(2)] parse_zero_pad [OF n(3)] r by simp_all
  have "list_all is_digit ?M" "?M \<noteq> []" using M by (auto simp: parse_exact_def parse_digits_def split: if_splits)
  then obtain c cs where "?M = c # cs" "is_digit c" by (cases ?M) auto
  then have "take 1 ?M \<noteq> ''W''" by (auto simp: is_digit_def code_def)
  moreover have "date_iso d = ?Y @ ''-'' @ ?M @ ''-'' @ ?D" by (simp add: date_iso_def ymd)
  ultimately show ?thesis using Y M D v
    by (simp add: date_fromisoformat_def Let_def nth_append)
qed

end
