(* ===== verification/Qualification.thy ===== *)
theory Qualification
  imports Aggregates PyParse
begin

text \<open>
  Lead qualification: the contracts of \<open>application/leads/models.py\<close> with the validation each
  constructor runs, and the engine of \<open>application/leads/engine.py\<close>, which validates an answer,
  scores the answers, detects an escalation and finds the next missing field. The regular
  expression engine behind a field's own pattern is the parameter \<open>fullmatch\<close> (a pattern that
  does not compile raises); the fixed expression for e-mail addresses is modelled.
\<close>

section \<open>Contracts (application/leads/models.py)\<close>

datatype field_type = SHORT_TEXT | LONG_TEXT | SINGLE_CHOICE | MULTI_CHOICE | PHONE | EMAIL
  | INTEGER | DECIMAL | BOOLEAN | DATE

fun field_type_value :: "field_type \<Rightarrow> string" where
  "field_type_value SHORT_TEXT = ''short_text''"
| "field_type_value LONG_TEXT = ''long_text''"
| "field_type_value SINGLE_CHOICE = ''single_choice''"
| "field_type_value MULTI_CHOICE = ''multi_choice''"
| "field_type_value PHONE = ''phone''"
| "field_type_value EMAIL = ''email''"
| "field_type_value INTEGER = ''integer''"
| "field_type_value DECIMAL = ''decimal''"
| "field_type_value BOOLEAN = ''boolean''"
| "field_type_value DATE = ''date''"

datatype sensitivity = PUBLIC | PERSONAL | SENSITIVE

fun sensitivity_value :: "sensitivity \<Rightarrow> string" where
  "sensitivity_value PUBLIC = ''public''"
| "sensitivity_value PERSONAL = ''personal''"
| "sensitivity_value SENSITIVE = ''sensitive''"

datatype match_operator = EQUALS | CONTAINS | GTE | LTE

fun match_operator_value :: "match_operator \<Rightarrow> string" where
  "match_operator_value EQUALS = ''equals''"
| "match_operator_value CONTAINS = ''contains''"
| "match_operator_value GTE = ''gte''"
| "match_operator_value LTE = ''lte''"

datatype session_status = S_AWAITING_CONSENT | S_IN_PROGRESS | S_REVIEWING | S_COMPLETED
  | S_DECLINED | S_CANCELLED | S_EXPIRED

datatype consent_decision = ACCEPTED | DECLINED

text \<open>\<open>Answer = str | int | Decimal | bool | date | tuple[str, ...]\<close>; rules expect one of the first four.\<close>

datatype answer = AStr string | AInt int | ADec decimal | ABool bool | ADate date | ATuple "string list"

datatype expected = EStr string | EInt int | EDec decimal | EBool bool

record field_validation =
  fv_min_length :: "int option"
  fv_max_length :: "int option"
  fv_minimum :: "decimal option"
  fv_maximum :: "decimal option"
  fv_options :: "string list"
  fv_pattern :: "string option"

definition validation_post_init :: "field_validation \<Rightarrow> field_validation res" where [ctor_defs]:
  "validation_post_init v =
     (if (case fv_min_length v of None \<Rightarrow> False | Some n \<Rightarrow> n < 0)
        then Inl (ValueError ''Minimum length cannot be negative'')
      else if (case fv_max_length v of None \<Rightarrow> False | Some n \<Rightarrow> n < 1)
        then Inl (ValueError ''Maximum length must be positive'')
      else if (case (fv_min_length v, fv_max_length v) of (Some a, Some b) \<Rightarrow> b < a | _ \<Rightarrow> False)
        then Inl (ValueError ''Minimum length cannot exceed maximum length'')
      else res_bind (case (fv_minimum v, fv_maximum v) of
             (Some a, Some b) \<Rightarrow> dec_less b a | _ \<Rightarrow> Inr False) (\<lambda>exceeds.
        if exceeds then Inl (ValueError ''Minimum value cannot exceed maximum value'')
        else if \<not> distinct (fv_options v) \<or> list_ex blank (fv_options v)
          then Inl (ValueError ''Field options must be unique and non-blank'')
        else Inr v))"

record score_rule =
  sc_code :: string
  sc_operator :: match_operator
  sc_expected :: expected
  sc_points :: int

definition score_rule_post_init :: "score_rule \<Rightarrow> score_rule res" where [ctor_defs]:
  "score_rule_post_init r =
     (if blank (sc_code r) \<or> \<not> (- 100 \<le> sc_points r \<and> sc_points r \<le> 100)
      then Inl (ValueError ''Score rule code and points are invalid'') else Inr r)"

record handoff_trigger =
  ht_code :: string
  ht_operator :: match_operator
  ht_expected :: expected
  ht_reason_code :: string
  ht_priority :: string

definition trigger_priorities :: "string list" where
  "trigger_priorities = [''low'', ''normal'', ''high'', ''urgent'']"

definition handoff_trigger_post_init :: "handoff_trigger \<Rightarrow> handoff_trigger res" where [ctor_defs]:
  "handoff_trigger_post_init r =
     (if blank (ht_code r) \<or> blank (ht_reason_code r)
        then Inl (ValueError ''Handoff trigger identity is required'')
      else if ht_priority r \<notin> set trigger_priorities
        then Inl (ValueError ''Handoff trigger priority is invalid'')
      else Inr r)"

record qualification_field =
  qf_key :: string
  qf_label :: string
  qf_prompt :: string
  qf_field_type :: field_type
  qf_validation :: field_validation
  qf_required :: bool
  qf_order :: int
  qf_sensitivity :: sensitivity
  qf_score_rules :: "score_rule list"
  qf_handoff_triggers :: "handoff_trigger list"

definition field_post_init :: "qualification_field \<Rightarrow> qualification_field res" where [ctor_defs]:
  "field_post_init f =
     (if \<not> isidentifier (qf_key f) \<or> blank (qf_label f) \<or> blank (qf_prompt f)
        then Inl (ValueError ''Qualification field identity and copy are invalid'')
      else if qf_order f < 0 then Inl (ValueError ''Qualification field order cannot be negative'')
      else if (qf_field_type f \<in> {SINGLE_CHOICE, MULTI_CHOICE}) \<noteq> (fv_options (qf_validation f) \<noteq> [])
        then Inl (ValueError ''Only choice fields require options'')
      else Inr f)"

record grade_band =
  gb_minimum_score :: int
  gb_grade :: string

definition grade_band_post_init :: "grade_band \<Rightarrow> grade_band res" where [ctor_defs]:
  "grade_band_post_init b =
     (if \<not> (0 \<le> gb_minimum_score b \<and> gb_minimum_score b \<le> 100) \<or> blank (gb_grade b)
      then Inl (ValueError ''Grade band is invalid'') else Inr b)"

record qualification_schema =
  qs_id :: qualification_schema_id
  qs_tenant_id :: tenant_id
  qs_code :: string
  qs_version :: int
  qs_title :: string
  qs_consent_version :: string
  qs_consent_purpose :: string
  qs_fields :: "qualification_field list"
  qs_grade_bands :: "grade_band list"
  qs_session_ttl :: timedelta
  qs_handoff_response_minutes :: int
  qs_published :: bool
  qs_active :: bool

definition schema_post_init :: "qualification_schema \<Rightarrow> qualification_schema res" where [ctor_defs]:
  "schema_post_init s =
     (if blank (qs_code s) \<or> qs_version s < 1 \<or> blank (qs_title s)
        then Inl (ValueError ''Qualification schema identity is invalid'')
      else if blank (qs_consent_version s) \<or> blank (qs_consent_purpose s)
        then Inl (ValueError ''Qualification consent policy is required'')
      else if qs_fields s = [] \<or> qs_session_ttl s \<le> 0
        then Inl (ValueError ''Qualification fields and a positive session TTL are required'')
      else if \<not> distinct (map qf_key (qs_fields s)) \<or> \<not> distinct (map qf_order (qs_fields s))
        then Inl (ValueError ''Qualification field keys and order must be unique'')
      else if sorted_by qf_order (qs_fields s) \<noteq> qs_fields s
        then Inl (ValueError ''Qualification fields must be stored in order'')
      else if (case qs_grade_bands s of [] \<Rightarrow> True | b # _ \<Rightarrow> gb_minimum_score b \<noteq> 0)
        then Inl (ValueError ''Qualification grades must start at score zero'')
      else if sorted_by gb_minimum_score (qs_grade_bands s) \<noteq> qs_grade_bands s
        then Inl (ValueError ''Qualification grade bands must be ordered'')
      else if \<not> (1 \<le> qs_handoff_response_minutes s \<and> qs_handoff_response_minutes s \<le> 10080)
        then Inl (ValueError ''Handoff response time is invalid'')
      else Inr s)"

record qualification_session =
  qn_id :: qualification_session_id
  qn_tenant_id :: tenant_id
  qn_customer_id :: customer_id
  qn_conversation_id :: conversation_id
  qn_schema_id :: qualification_schema_id
  qn_schema_code :: string
  qn_schema_version :: int
  qn_status :: session_status
  qn_answers :: "(string, answer) dict"
  qn_current_field_key :: "string option"
  qn_expires_at :: instant
  qn_consent_decision :: "consent_decision option"
  qn_consent_at :: "instant option"
  qn_lead_id :: "lead_id option"

record score_result =
  so_score :: int
  so_grade :: string
  so_matched_rules :: "string list"

record trigger_result =
  tg_reason_code :: string
  tg_priority :: string
  tg_matched_rules :: "string list"

section \<open>Validating an answer (application/leads/engine.py)\<close>

type_synonym regex = "string \<Rightarrow> string \<Rightarrow> bool res"

definition no_error :: "unit res" where
  "no_error = Inr ()"

definition text_answer :: "regex \<Rightarrow> string \<Rightarrow> qualification_field \<Rightarrow> string res" where
  "text_answer fullmatch value f = (
     let normalized = join '' '' (split_ws (strip value)); v = qf_validation f; n = int (length normalized) in
     if normalized = [] \<and> qf_required f then Inl (InvalidAnswerError (qf_label f @ '' is required.''))
     else
       res_bind (case fv_min_length v of None \<Rightarrow> no_error | Some k \<Rightarrow>
           if n < k then Inl (InvalidAnswerError (qf_label f @ '' must contain at least '' @ str_int k @ '' characters.''))
           else no_error) (\<lambda>_.
       res_bind (case fv_max_length v of None \<Rightarrow> no_error | Some k \<Rightarrow>
           if k < n then Inl (InvalidAnswerError (qf_label f @ '' must contain at most '' @ str_int k @ '' characters.''))
           else no_error) (\<lambda>_.
       res_bind (case fv_pattern v of None \<Rightarrow> no_error | Some p \<Rightarrow>
           res_bind (fullmatch p normalized) (\<lambda>m.
             if \<not> m then Inl (InvalidAnswerError (''Enter a valid value for '' @ qf_label f @ ''.'')) else no_error)) (\<lambda>_.
       Inr normalized))))"

definition choice_answer :: "string \<Rightarrow> string list \<Rightarrow> string res" where
  "choice_answer value options =
     (case first_where (\<lambda>item. casefold item = casefold value) options of
        None \<Rightarrow> Inl (InvalidAnswerError (''Choose one of: '' @ join '', '' options @ ''.''))
      | Some m \<Rightarrow> Inr m)"

text \<open>The comma-separated items of an answer, stripped and folded, without the blank ones.\<close>

definition supplied_choices :: "string \<Rightarrow> string set" where
  "supplied_choices value =
     set (map (\<lambda>item. casefold (strip item)) (filter (\<lambda>item. strip item \<noteq> []) (split_char CHR '','' value)))"

definition choices_answer :: "string \<Rightarrow> string list \<Rightarrow> string list res" where
  "choices_answer value options = (
     let supplied = supplied_choices value;
         selected = filter (\<lambda>item. casefold item \<in> supplied) options
     in if selected = [] \<or> length selected \<noteq> card supplied
        then Inl (InvalidAnswerError (''Choose one or more comma-separated values from: '' @ join '', '' options @ ''.''))
        else Inr selected)"

text \<open>\<open>re.fullmatch\<close> of one at sign, no white space, and a dot inside the right-hand side.\<close>

definition is_email :: "string \<Rightarrow> bool" where
  "is_email s = (list_all (\<lambda>c. \<not> is_space c) s \<and> (case split_char CHR ''@'' s of
     [l, r] \<Rightarrow> l \<noteq> [] \<and> CHR ''.'' \<in> set (butlast (drop 1 r)) | _ \<Rightarrow> False))"

definition number_answer :: "string \<Rightarrow> qualification_field \<Rightarrow> answer res" where
  "number_answer value f = (
     let v = qf_validation f; whole = (qf_field_type f = INTEGER) in
     case parse_decimal value of
       None \<Rightarrow> Inl (InvalidAnswerError (''Enter a valid number for '' @ qf_label f @ ''.''))
     | Some number \<Rightarrow>
         if \<not> is_finite number \<or> (whole \<and> \<not> dec_integral number)
           then Inl (InvalidAnswerError (''Enter a whole number for '' @ qf_label f @ ''.''))
         else
           res_bind (case fv_minimum v of None \<Rightarrow> no_error | Some m \<Rightarrow> res_bind (dec_less number m) (\<lambda>low.
             if low then Inl (InvalidAnswerError (qf_label f @ '' must be at least '' @ str_decimal m @ ''.''))
             else no_error)) (\<lambda>_.
           res_bind (case fv_maximum v of None \<Rightarrow> no_error | Some m \<Rightarrow> res_bind (dec_less m number) (\<lambda>high.
             if high then Inl (InvalidAnswerError (qf_label f @ '' must be at most '' @ str_decimal m @ ''.''))
             else no_error)) (\<lambda>_.
           Inr (if whole then AInt (int_of_decimal number) else ADec number))))"

definition validate_answer :: "regex \<Rightarrow> qualification_field \<Rightarrow> string \<Rightarrow> answer res" where
  "validate_answer fullmatch f raw_text = (
     let value = strip raw_text; kind = qf_field_type f; options = fv_options (qf_validation f) in
     if kind \<in> {SHORT_TEXT, LONG_TEXT} then res_bind (text_answer fullmatch value f) (\<lambda>t. Inr (AStr t))
     else if kind = SINGLE_CHOICE then res_bind (choice_answer value options) (\<lambda>c. Inr (AStr c))
     else if kind = MULTI_CHOICE then res_bind (choices_answer value options) (\<lambda>cs. Inr (ATuple cs))
     else if kind = PHONE then
       (case parse_phone value False of
          Inl (ValidationError _) \<Rightarrow>
            Inl (InvalidAnswerError ''Enter a valid phone number using digits and an optional + prefix.'')
        | Inl e \<Rightarrow> Inl e
        | Inr p \<Rightarrow> Inr (AStr (raw p)))
     else if kind = EMAIL then
       (if 254 < length value \<or> \<not> is_email value
        then Inl (InvalidAnswerError ''Enter a valid email address, such as name@example.com.'')
        else Inr (AStr (casefold value)))
     else if kind \<in> {INTEGER, DECIMAL} then number_answer value f
     else if kind = BOOLEAN then
       (if casefold value \<in> {''yes'', ''true'', ''1''} then Inr (ABool True)
        else if casefold value \<in> {''no'', ''false'', ''0''} then Inr (ABool False)
        else Inl (InvalidAnswerError ''Answer yes or no.''))
     else
       (case date_fromisoformat value of
          None \<Rightarrow> Inl (InvalidAnswerError ''Enter a date in YYYY-MM-DD format.'')
        | Some d \<Rightarrow> Inr (ADate d)))"

section \<open>Rules\<close>

text \<open>The number an answer or an expected value is, for the types that compare as numbers.\<close>

definition bool_decimal :: "bool \<Rightarrow> decimal" where
  "bool_decimal b = decimal_of_int (if b then 1 else 0)"

fun answer_number :: "answer \<Rightarrow> decimal option" where
  "answer_number (AInt i) = Some (decimal_of_int i)"
| "answer_number (ADec d) = Some d"
| "answer_number (ABool b) = Some (bool_decimal b)"
| "answer_number _ = None"

fun expected_number :: "expected \<Rightarrow> decimal option" where
  "expected_number (EInt i) = Some (decimal_of_int i)"
| "expected_number (EDec d) = Some d"
| "expected_number (EBool b) = Some (bool_decimal b)"
| "expected_number (EStr _) = None"

text \<open>\<open>actual == expected\<close>\<close>

definition answer_eq :: "answer \<Rightarrow> expected \<Rightarrow> bool res" where
  "answer_eq a x = (case (answer_number a, expected_number x) of
     (Some m, Some n) \<Rightarrow> dec_eq m n
   | _ \<Rightarrow> Inr (case (a, x) of (AStr s, EStr t) \<Rightarrow> s = t | _ \<Rightarrow> False))"

definition str_bool :: "bool \<Rightarrow> string" where
  "str_bool b = (if b then ''True'' else ''False'')"

fun str_expected :: "expected \<Rightarrow> string" where
  "str_expected (EStr s) = s"
| "str_expected (EInt i) = str_int i"
| "str_expected (EDec d) = str_decimal d"
| "str_expected (EBool b) = str_bool b"

text \<open>\<open>str(answer)\<close>; a tuple is printed in parentheses, so it is never read as a number.\<close>

fun str_answer :: "answer \<Rightarrow> string" where
  "str_answer (AStr s) = s"
| "str_answer (AInt i) = str_int i"
| "str_answer (ADec d) = str_decimal d"
| "str_answer (ABool b) = str_bool b"
| "str_answer (ADate d) = date_iso d"
| "str_answer (ATuple ss) = ''('' @ join '', '' ss @ '')''"

definition decimal_of :: "string \<Rightarrow> decimal res" where
  "decimal_of s = (case parse_decimal s of None \<Rightarrow> Inl InvalidOperation | Some d \<Rightarrow> Inr d)"

definition matches :: "answer \<Rightarrow> match_operator \<Rightarrow> expected \<Rightarrow> bool res" where
  "matches actual operator expected_value =
     (case operator of
        EQUALS \<Rightarrow> answer_eq actual expected_value
      | CONTAINS \<Rightarrow>
          let needle = casefold (str_expected expected_value) in
          Inr (case actual of
             ATuple items \<Rightarrow> list_ex (\<lambda>item. needle = casefold item) items
           | _ \<Rightarrow> contains needle (casefold (str_answer actual)))
      | _ \<Rightarrow>
          res_bind (decimal_of (str_answer actual)) (\<lambda>left.
          res_bind (decimal_of (str_expected expected_value)) (\<lambda>right.
          if operator = GTE then dec_le right left else dec_le left right)))"

text \<open>The rules of a field whose condition the answer meets, in order; a condition may raise.\<close>

fun matching :: "('r \<Rightarrow> match_operator) \<Rightarrow> ('r \<Rightarrow> expected) \<Rightarrow> answer \<Rightarrow> 'r list \<Rightarrow> 'r list res" where
  "matching oper want a [] = Inr []"
| "matching oper want a (r # rs) =
     res_bind (matches a (oper r) (want r)) (\<lambda>m.
     res_bind (matching oper want a rs) (\<lambda>ms. Inr (if m then r # ms else ms)))"

definition field_matches ::
  "('r \<Rightarrow> match_operator) \<Rightarrow> ('r \<Rightarrow> expected) \<Rightarrow> (qualification_field \<Rightarrow> 'r list)
   \<Rightarrow> (string, answer) dict \<Rightarrow> qualification_field \<Rightarrow> 'r list res" where
  "field_matches oper want rules answers f =
     (case dict_get answers (qf_key f) of None \<Rightarrow> Inr [] | Some a \<Rightarrow> matching oper want a (rules f))"

definition matched_rules :: "qualification_schema \<Rightarrow> (string, answer) dict \<Rightarrow> score_rule list res" where
  "matched_rules schema answers =
     res_bind (res_map (field_matches sc_operator sc_expected qf_score_rules answers) (qs_fields schema))
       (\<lambda>ms. Inr (concat ms))"

definition matched_triggers :: "qualification_schema \<Rightarrow> (string, answer) dict \<Rightarrow> handoff_trigger list res" where
  "matched_triggers schema answers =
     res_bind (res_map (field_matches ht_operator ht_expected qf_handoff_triggers answers) (qs_fields schema))
       (\<lambda>ms. Inr (concat ms))"

definition grade_of :: "grade_band list \<Rightarrow> int \<Rightarrow> string res" where
  "grade_of bands score = (case filter (\<lambda>b. gb_minimum_score b \<le> score) bands of
     [] \<Rightarrow> Inl (ValueError ''max() iterable argument is empty'')
   | b # bs \<Rightarrow> Inr (gb_grade (max_by gb_minimum_score b bs)))"

definition score_answers :: "qualification_schema \<Rightarrow> (string, answer) dict \<Rightarrow> score_result res" where
  "score_answers schema answers =
     res_bind (matched_rules schema answers) (\<lambda>ms.
     let total = sum_list (map sc_points ms); score = max 0 (min 100 total) in
     res_bind (grade_of (qs_grade_bands schema) score) (\<lambda>grade.
     Inr \<lparr>so_score = score, so_grade = grade, so_matched_rules = map sc_code ms\<rparr>))"

text \<open>\<open>rank[item.priority]\<close>: the constructor admits the four priorities only.\<close>

definition priority_rank :: "string \<Rightarrow> nat" where
  "priority_rank p = length (takeWhile (\<lambda>q. q \<noteq> p) trigger_priorities)"

definition detect_handoff :: "qualification_schema \<Rightarrow> (string, answer) dict \<Rightarrow> trigger_result option res" where
  "detect_handoff schema answers =
     res_bind (matched_triggers schema answers) (\<lambda>ms.
     case ms of [] \<Rightarrow> Inr None
     | t # ts \<Rightarrow>
         let winner = max_by (\<lambda>x. (priority_rank (ht_priority x), ht_code x)) t ts in
         Inr (Some \<lparr>tg_reason_code = ht_reason_code winner, tg_priority = ht_priority winner,
                    tg_matched_rules = sorted_by id (map ht_code ms)\<rparr>))"

definition next_missing_field :: "qualification_schema \<Rightarrow> (string, answer) dict \<Rightarrow> qualification_field option" where
  "next_missing_field schema answers =
     first_where (\<lambda>f. qf_required f \<and> dict_get answers (qf_key f) = None) (qs_fields schema)"

end
