(* ===== verification/QualificationStore.thy ===== *)
theory QualificationStore
  imports Qualification Tables Access Schedule
begin

text \<open>
  The qualification and handoff stores of \<open>infrastructure/persistence/qualification.py\<close> and the use
  cases on top of them (\<open>application/leads/service.py\<close>, \<open>application/handoffs/service.py\<close>).
  A store method is one transaction (\<open>tx\<close>); a use case runs several, each committed before the
  next (\<open>act\<close>). Row locks and the advisory lock on a conversation make the transactions of one
  conversation follow each other. \<open>uuid4()\<close> is an argument; \<open>revision\<close> and \<open>config_version\<close>
  (optimistic locking, never in conflict under the row lock) and correlation identifiers are not
  modelled. \<open>updated_at\<close>, which the database sets, is the time of the operation.
\<close>

section \<open>Rows (infrastructure/persistence/sqlalchemy/models.py)\<close>

record schema_row =
  qx_id :: qualification_schema_id
  qx_tenant_id :: tenant_id
  qx_code :: string
  qx_version :: int
  qx_title :: string
  qx_consent_version :: string
  qx_consent_purpose :: string
  qx_definition :: "json list"
  qx_grade_bands :: "json list"
  qx_session_ttl_minutes :: int
  qx_handoff_response_minutes :: int
  qx_published :: bool
  qx_active :: bool

record session_row =
  qw_id :: qualification_session_id
  qw_tenant_id :: tenant_id
  qw_customer_id :: customer_id
  qw_conversation_id :: conversation_id
  qw_schema_id :: qualification_schema_id
  qw_schema_code :: string
  qw_schema_version :: int
  qw_status :: session_status
  qw_answers :: "(string, json) dict"
  qw_current_field_key :: "string option"
  qw_expires_at :: instant
  qw_consent_decision :: "consent_decision option"
  qw_consent_at :: "instant option"
  qw_lead_id :: "lead_id option"

record update_row =
  up_tenant_id :: tenant_id
  up_session_id :: qualification_session_id
  up_key :: string
  up_operation :: string
  up_processed_at :: instant

record consent_row =
  cn_tenant_id :: tenant_id
  cn_session_id :: qualification_session_id
  cn_customer_id :: customer_id
  cn_decision :: consent_decision
  cn_consent_version :: string
  cn_purpose :: string
  cn_decided_at :: instant

record lead_row =
  lw_id :: lead_id
  lw_tenant_id :: tenant_id
  lw_customer_id :: customer_id
  lw_conversation_id :: conversation_id
  lw_schema_code :: string
  lw_schema_version :: int
  lw_source :: string
  lw_answers :: "(string, json) dict"
  lw_status :: lead_status
  lw_score :: "int option"
  lw_priority :: "priority option"
  lw_score_explanation :: "(string, json) dict option"
  lw_consent_at :: "datetime option"
  lw_qualification_snapshot :: "json option"
  lw_qualified_at :: "datetime option"
  lw_updated_at :: instant

text \<open>A handoff row; \<open>HandoffView\<close> has the same fields but the idempotency key.\<close>

record handoff_row =
  hw_id :: handoff_id
  hw_tenant_id :: tenant_id
  hw_customer_id :: "customer_id option"
  hw_conversation_id :: conversation_id
  hw_lead_id :: "lead_id option"
  hw_reason_code :: string
  hw_priority :: string
  hw_status :: handoff_status
  hw_assignee_id :: "string option"
  hw_summary :: string
  hw_context :: "(string, json) dict"
  hw_idempotency_key :: "string option"
  hw_response_due_at :: datetime

record audit_row =
  au_tenant_id :: tenant_id
  au_actor_type :: string
  au_actor_id :: string
  au_action :: string
  au_target_type :: string
  au_target_id :: string
  au_safe_diff :: "(string, json) dict"
  au_occurred_at :: instant

record qualification_db =
  qd_schemas :: "schema_row list"
  qd_sessions :: "session_row list"
  qd_updates :: "update_row list"
  qd_consents :: "consent_row list"
  qd_leads :: "lead_row list"
  qd_handoffs :: "handoff_row list"
  qd_conversations :: "conversation_row list"
  qd_profiles :: "(tenant_id \<times> schedule_id) list"
  qd_schedules :: "business_schedule list"
  qd_events :: "outbox_row list"
  qd_audit :: "audit_row list"

type_synonym 'a store_op = "(qualification_db, 'a) tx"

section \<open>Reading JSON\<close>

text \<open>\<open>item[key]\<close> and \<open>item.get(key)\<close> of a stored object.\<close>

definition json_item :: "json \<Rightarrow> string \<Rightarrow> json res" where
  "json_item j key = (case j of
     JObj d \<Rightarrow> (case dict_get d key of None \<Rightarrow> Inl (KeyError key) | Some v \<Rightarrow> Inr v)
   | _ \<Rightarrow> Inl (TypeError ''not a mapping''))"

definition json_get :: "json \<Rightarrow> string \<Rightarrow> json" where
  "json_get j key = (case j of JObj d \<Rightarrow> (case dict_get d key of None \<Rightarrow> JNull | Some v \<Rightarrow> v) | _ \<Rightarrow> JNull)"

text \<open>
  A definition is written by \<open>schema_definition\<close>, which gives each key a value of one type; a value
  of another type is refused here, where Python would carry it on.
\<close>

definition json_str :: "json \<Rightarrow> string res" where
  "json_str j = (case j of JStr s \<Rightarrow> Inr s | _ \<Rightarrow> Inl (TypeError ''not a string''))"

definition json_int :: "json \<Rightarrow> int res" where
  "json_int j = (case j of JInt i \<Rightarrow> Inr i | _ \<Rightarrow> Inl (TypeError ''not an integer''))"

definition json_bool :: "json \<Rightarrow> bool res" where
  "json_bool j = (case j of JBool b \<Rightarrow> Inr b | _ \<Rightarrow> Inl (TypeError ''not a boolean''))"

definition json_list :: "json \<Rightarrow> json list res" where
  "json_list j = (case j of JList js \<Rightarrow> Inr js | _ \<Rightarrow> Inl (TypeError ''not a list''))"

definition json_opt_of :: "(json \<Rightarrow> 'a res) \<Rightarrow> json \<Rightarrow> 'a option res" where
  "json_opt_of f j = (if j = JNull then Inr None else res_bind (f j) (\<lambda>x. Inr (Some x)))"

text \<open>\<open>str(value)\<close>, \<open>int(value)\<close> and \<open>bool(value)\<close> of a stored scalar.\<close>

definition py_str :: "json \<Rightarrow> string res" where
  "py_str j = (case j of JStr s \<Rightarrow> Inr s | JInt i \<Rightarrow> Inr (str_int i) | JBool b \<Rightarrow> Inr (str_bool b)
     | JNull \<Rightarrow> Inr ''None'' | _ \<Rightarrow> Inl (TypeError ''not a scalar''))"

definition int_of_text :: "string \<Rightarrow> int res" where
  "int_of_text s = (case parse_int (strip s) of None \<Rightarrow> Inl (ValueError ''invalid literal for int()'')
     | Some i \<Rightarrow> Inr i)"

definition py_int :: "json \<Rightarrow> int res" where
  "py_int j = (case j of JInt i \<Rightarrow> Inr i | JBool b \<Rightarrow> Inr (if b then 1 else 0) | JStr s \<Rightarrow> int_of_text s
     | _ \<Rightarrow> Inl (TypeError ''not a number''))"

definition py_bool :: "json \<Rightarrow> bool" where
  "py_bool j = (case j of JNull \<Rightarrow> False | JBool b \<Rightarrow> b | JInt i \<Rightarrow> i \<noteq> 0 | JStr s \<Rightarrow> s \<noteq> []
     | JFloat f \<Rightarrow> f \<noteq> Fin 0 | JList js \<Rightarrow> js \<noteq> [] | JObj d \<Rightarrow> d \<noteq> [])"

text \<open>\<open>EnumClass(value)\<close>: the member with this value.\<close>

definition member_of :: "('e \<Rightarrow> string) \<Rightarrow> 'e list \<Rightarrow> string \<Rightarrow> 'e res" where
  "member_of val members s = (case first_where (\<lambda>m. val m = s) members of
     None \<Rightarrow> Inl (ValueError ''not a valid member'') | Some m \<Rightarrow> Inr m)"

definition field_types :: "field_type list" where
  "field_types = [SHORT_TEXT, LONG_TEXT, SINGLE_CHOICE, MULTI_CHOICE, PHONE, EMAIL, INTEGER, DECIMAL, BOOLEAN, DATE]"

definition operators :: "match_operator list" where
  "operators = [EQUALS, CONTAINS, GTE, LTE]"

definition sensitivities :: "sensitivity list" where
  "sensitivities = [PUBLIC, PERSONAL, SENSITIVE]"

section \<open>Mappers\<close>

definition validation_of_json :: "json \<Rightarrow> field_validation res" where
  "validation_of_json j =
     res_bind (json_opt_of json_int (json_get j ''min_length'')) (\<lambda>mn.
     res_bind (json_opt_of json_int (json_get j ''max_length'')) (\<lambda>mx.
     res_bind (json_opt_of (\<lambda>v. res_bind (json_str v) decimal_of) (json_get j ''minimum'')) (\<lambda>lo.
     res_bind (json_opt_of (\<lambda>v. res_bind (json_str v) decimal_of) (json_get j ''maximum'')) (\<lambda>hi.
     res_bind (if json_get j ''options'' = JNull then Inr [] else json_list (json_get j ''options'')) (\<lambda>os.
     res_bind (res_map json_str os) (\<lambda>opts.
     res_bind (json_opt_of json_str (json_get j ''pattern'')) (\<lambda>pat.
     validation_post_init \<lparr>fv_min_length = mn, fv_max_length = mx, fv_minimum = lo, fv_maximum = hi,
       fv_options = opts, fv_pattern = pat\<rparr>)))))))"

definition rule_expected :: "json \<Rightarrow> field_type \<Rightarrow> expected res" where
  "rule_expected j kind =
     (if kind = DECIMAL then res_bind (py_str j) (\<lambda>s. res_bind (decimal_of s) (\<lambda>d. Inr (EDec d)))
      else if kind = INTEGER then res_bind (py_str j) (\<lambda>s. res_bind (int_of_text s) (\<lambda>i. Inr (EInt i)))
      else if kind = BOOLEAN then Inr (EBool (py_bool j))
      else res_bind (py_str j) (\<lambda>s. Inr (EStr s)))"

definition score_rule_of_json :: "field_type \<Rightarrow> json \<Rightarrow> score_rule res" where
  "score_rule_of_json kind j =
     res_bind (res_bind (json_item j ''code'') json_str) (\<lambda>c.
     res_bind (res_bind (res_bind (json_item j ''operator'') json_str) (member_of match_operator_value operators)) (\<lambda>oper.
     res_bind (res_bind (json_item j ''expected'') (\<lambda>v. rule_expected v kind)) (\<lambda>want.
     res_bind (res_bind (json_item j ''points'') json_int) (\<lambda>points.
     score_rule_post_init \<lparr>sc_code = c, sc_operator = oper, sc_expected = want, sc_points = points\<rparr>))))"

definition trigger_of_json :: "field_type \<Rightarrow> json \<Rightarrow> handoff_trigger res" where
  "trigger_of_json kind j =
     res_bind (res_bind (json_item j ''code'') json_str) (\<lambda>c.
     res_bind (res_bind (res_bind (json_item j ''operator'') json_str) (member_of match_operator_value operators)) (\<lambda>oper.
     res_bind (res_bind (json_item j ''expected'') (\<lambda>v. rule_expected v kind)) (\<lambda>want.
     res_bind (res_bind (json_item j ''reason_code'') json_str) (\<lambda>reason.
     res_bind (res_bind (json_item j ''priority'') json_str) (\<lambda>prio.
     handoff_trigger_post_init \<lparr>ht_code = c, ht_operator = oper, ht_expected = want,
       ht_reason_code = reason, ht_priority = prio\<rparr>)))))"

definition optional_list :: "json \<Rightarrow> string \<Rightarrow> json list res" where
  "optional_list j key = (if json_get j key = JNull then Inr [] else json_list (json_get j key))"

definition field_of_json :: "json \<Rightarrow> qualification_field res" where
  "field_of_json j =
     res_bind (res_bind (res_bind (json_item j ''field_type'') json_str) (member_of field_type_value field_types)) (\<lambda>kind.
     res_bind (res_bind (json_item j ''key'') json_str) (\<lambda>key.
     res_bind (res_bind (json_item j ''label'') json_str) (\<lambda>label.
     res_bind (res_bind (json_item j ''prompt'') json_str) (\<lambda>prompt.
     res_bind (res_bind (json_item j ''validation'') validation_of_json) (\<lambda>validation.
     res_bind (res_bind (json_item j ''required'') json_bool) (\<lambda>required.
     res_bind (res_bind (json_item j ''order'') json_int) (\<lambda>order.
     res_bind (res_bind (res_bind (json_item j ''sensitivity'') json_str)
       (member_of sensitivity_value sensitivities)) (\<lambda>sens.
     res_bind (res_bind (optional_list j ''score_rules'') (res_map (score_rule_of_json kind))) (\<lambda>rules.
     res_bind (res_bind (optional_list j ''handoff_triggers'') (res_map (trigger_of_json kind))) (\<lambda>triggers.
     field_post_init \<lparr>qf_key = key, qf_label = label, qf_prompt = prompt, qf_field_type = kind,
       qf_validation = validation, qf_required = required, qf_order = order, qf_sensitivity = sens,
       qf_score_rules = rules, qf_handoff_triggers = triggers\<rparr>))))))))))"

definition grade_band_of_json :: "json \<Rightarrow> grade_band res" where
  "grade_band_of_json j =
     res_bind (res_bind (json_item j ''minimum_score'') json_int) (\<lambda>m.
     res_bind (res_bind (json_item j ''grade'') json_str) (\<lambda>g.
     grade_band_post_init \<lparr>gb_minimum_score = m, gb_grade = g\<rparr>))"

definition schema_of_row :: "schema_row \<Rightarrow> qualification_schema res" where
  "schema_of_row row =
     res_bind (res_map field_of_json (qx_definition row)) (\<lambda>fields.
     res_bind (res_map grade_band_of_json (qx_grade_bands row)) (\<lambda>bands.
     schema_post_init \<lparr>qs_id = qx_id row, qs_tenant_id = qx_tenant_id row, qs_code = qx_code row,
       qs_version = qx_version row, qs_title = qx_title row, qs_consent_version = qx_consent_version row,
       qs_consent_purpose = qx_consent_purpose row, qs_fields = fields, qs_grade_bands = bands,
       qs_session_ttl = qx_session_ttl_minutes row * minute_us,
       qs_handoff_response_minutes = qx_handoff_response_minutes row,
       qs_published = qx_published row, qs_active = qx_active row\<rparr>))"

text \<open>\<open>schema_definition\<close>: a schema's fields as the JSON that is stored.\<close>

fun json_of_expected :: "expected \<Rightarrow> json" where
  "json_of_expected (EStr s) = JStr s"
| "json_of_expected (EInt i) = JInt i"
| "json_of_expected (EDec d) = JStr (str_decimal d)"
| "json_of_expected (EBool b) = JBool b"

definition json_of_validation :: "field_validation \<Rightarrow> json" where
  "json_of_validation v = JObj
     [(''min_length'', json_opt JInt (fv_min_length v)), (''max_length'', json_opt JInt (fv_max_length v)),
      (''minimum'', json_opt (\<lambda>d. JStr (str_decimal d)) (fv_minimum v)),
      (''maximum'', json_opt (\<lambda>d. JStr (str_decimal d)) (fv_maximum v)),
      (''options'', JList (map JStr (fv_options v))), (''pattern'', json_opt JStr (fv_pattern v))]"

definition json_of_score_rule :: "score_rule \<Rightarrow> json" where
  "json_of_score_rule r = JObj
     [(''code'', JStr (sc_code r)), (''operator'', JStr (match_operator_value (sc_operator r))),
      (''expected'', json_of_expected (sc_expected r)), (''points'', JInt (sc_points r))]"

definition json_of_trigger :: "handoff_trigger \<Rightarrow> json" where
  "json_of_trigger r = JObj
     [(''code'', JStr (ht_code r)), (''operator'', JStr (match_operator_value (ht_operator r))),
      (''expected'', json_of_expected (ht_expected r)), (''reason_code'', JStr (ht_reason_code r)),
      (''priority'', JStr (ht_priority r))]"

definition json_of_field :: "qualification_field \<Rightarrow> json" where
  "json_of_field f = JObj
     [(''key'', JStr (qf_key f)), (''label'', JStr (qf_label f)), (''prompt'', JStr (qf_prompt f)),
      (''field_type'', JStr (field_type_value (qf_field_type f))),
      (''validation'', json_of_validation (qf_validation f)),
      (''required'', JBool (qf_required f)), (''order'', JInt (qf_order f)),
      (''sensitivity'', JStr (sensitivity_value (qf_sensitivity f))),
      (''score_rules'', JList (map json_of_score_rule (qf_score_rules f))),
      (''handoff_triggers'', JList (map json_of_trigger (qf_handoff_triggers f)))]"

definition schema_definition :: "qualification_schema \<Rightarrow> json list" where
  "schema_definition s = map json_of_field (qs_fields s)"

section \<open>Answers as JSON\<close>

definition stored_answer :: "answer \<Rightarrow> json" where
  "stored_answer a = (case a of AStr s \<Rightarrow> JStr s | AInt i \<Rightarrow> JInt i | ADec d \<Rightarrow> JStr (str_decimal d)
     | ABool b \<Rightarrow> JBool b | ADate d \<Rightarrow> JStr (date_iso d) | ATuple ss \<Rightarrow> JList (map JStr ss))"

definition answer_of_json :: "json \<Rightarrow> field_type \<Rightarrow> answer res" where
  "answer_of_json j kind =
     (if kind = DECIMAL then res_bind (py_str j) (\<lambda>s. res_bind (decimal_of s) (\<lambda>d. Inr (ADec d)))
      else if kind = DATE then res_bind (py_str j) (\<lambda>s. case date_fromisoformat s of
          None \<Rightarrow> Inl (ValueError ''Invalid isoformat string'') | Some d \<Rightarrow> Inr (ADate d))
      else if kind = MULTI_CHOICE then res_bind (json_list j) (\<lambda>js. res_bind (res_map py_str js) (\<lambda>ss. Inr (ATuple ss)))
      else if kind = INTEGER then res_bind (py_int j) (\<lambda>i. Inr (AInt i))
      else if kind = BOOLEAN then Inr (ABool (py_bool j))
      else res_bind (py_str j) (\<lambda>s. Inr (AStr s)))"

text \<open>
  What the JSON serializer of a JSONB column makes of a value: a \<open>Decimal\<close> or a \<open>date\<close> is a
  TypeError, which SQLAlchemy raises as a StatementError when it flushes the row.
\<close>

definition statement_error :: exc where
  "statement_error = OtherException ''StatementError''"

definition serialized_answer :: "answer \<Rightarrow> json res" where
  "serialized_answer a = (case a of ADec _ \<Rightarrow> Inl statement_error | ADate _ \<Rightarrow> Inl statement_error
     | _ \<Rightarrow> Inr (stored_answer a))"

definition serialized_answers :: "(string, answer) dict \<Rightarrow> (string, json) dict res" where
  "serialized_answers answers =
     res_map (\<lambda>(k, a). res_bind (serialized_answer a) (\<lambda>j. Inr (k, j))) answers"

text \<open>The answers of a session row, typed by the schema; keys the schema does not have are dropped.\<close>

definition field_type_of :: "qualification_schema \<Rightarrow> string \<Rightarrow> field_type option" where
  "field_type_of schema key = map_option qf_field_type (first_where (\<lambda>f. qf_key f = key) (qs_fields schema))"

definition typed_answers :: "qualification_schema \<Rightarrow> (string, json) dict \<Rightarrow> (string, answer) dict res" where
  "typed_answers schema stored =
     res_map (\<lambda>(k, j). res_bind (answer_of_json j (the (field_type_of schema k))) (\<lambda>a. Inr (k, a)))
       (filter (\<lambda>(k, _). field_type_of schema k \<noteq> None) stored)"

definition session_of_row :: "session_row \<Rightarrow> qualification_schema \<Rightarrow> qualification_session res" where
  "session_of_row row schema =
     res_bind (typed_answers schema (qw_answers row)) (\<lambda>answers.
     Inr \<lparr>qn_id = qw_id row, qn_tenant_id = qw_tenant_id row, qn_customer_id = qw_customer_id row,
       qn_conversation_id = qw_conversation_id row, qn_schema_id = qw_schema_id row,
       qn_schema_code = qw_schema_code row, qn_schema_version = qw_schema_version row,
       qn_status = qw_status row, qn_answers = answers, qn_current_field_key = qw_current_field_key row,
       qn_expires_at = qw_expires_at row, qn_consent_decision = qw_consent_decision row,
       qn_consent_at = qw_consent_at row, qn_lead_id = qw_lead_id row\<rparr>)"

section \<open>Finding and writing rows\<close>

definition active_status :: "session_status \<Rightarrow> bool" where
  "active_status st = (st \<in> {S_AWAITING_CONSENT, S_IN_PROGRESS, S_REVIEWING})"

definition schema_row_of :: "qualification_db \<Rightarrow> tenant_id \<Rightarrow> qualification_schema_id \<Rightarrow> qualification_schema res" where
  "schema_row_of db t sid =
     (case first_where (\<lambda>r. qx_tenant_id r = t \<and> qx_id r = sid) (qd_schemas db) of
        None \<Rightarrow> Inl (ValueError ''Qualification schema is unavailable'')
      | Some r \<Rightarrow> schema_of_row r)"

definition owned_by :: "telegram_identity \<Rightarrow> session_row \<Rightarrow> bool" where
  "owned_by who r = (qw_tenant_id r = ti_tenant_id who \<and> qw_customer_id r = ti_customer_id who
     \<and> qw_conversation_id r = ti_conversation_id who)"

definition locked_session ::
  "qualification_db \<Rightarrow> telegram_identity \<Rightarrow> qualification_session_id \<Rightarrow> (session_row \<times> qualification_schema) res" where
  "locked_session db who sid =
     (case first_where (\<lambda>r. owned_by who r \<and> qw_id r = sid) (qd_sessions db) of
        None \<Rightarrow> Inl (ValueError ''Qualification session is unavailable'')
      | Some r \<Rightarrow> res_bind (schema_row_of db (ti_tenant_id who) (qw_schema_id r)) (\<lambda>schema. Inr (r, schema)))"

definition is_duplicate :: "qualification_db \<Rightarrow> tenant_id \<Rightarrow> qualification_session_id \<Rightarrow> string \<Rightarrow> bool res" where
  "is_duplicate db t sid key =
     (case first_where (\<lambda>u. up_tenant_id u = t \<and> up_key u = key) (qd_updates db) of
        None \<Rightarrow> Inr False
      | Some u \<Rightarrow> if up_session_id u \<noteq> sid
                then Inl (ValueError ''Qualification update belongs to another session'') else Inr True)"

definition record_update ::
  "tenant_id \<Rightarrow> qualification_session_id \<Rightarrow> string \<Rightarrow> string \<Rightarrow> instant \<Rightarrow> qualification_db \<Rightarrow> qualification_db res" where
  "record_update t sid key operation now db =
     (if list_ex (\<lambda>u. up_tenant_id u = t \<and> up_key u = key) (qd_updates db) then Inl integrity_error
      else Inr (db\<lparr>qd_updates := qd_updates db @
        [\<lparr>up_tenant_id = t, up_session_id = sid, up_key = key, up_operation = operation, up_processed_at = now\<rparr>]\<rparr>))"

definition put_session :: "session_row \<Rightarrow> qualification_db \<Rightarrow> qualification_db" where
  "put_session r db = db\<lparr>qd_sessions := map (\<lambda>x. if qw_id x = qw_id r then r else x) (qd_sessions db)\<rparr>"

text \<open>
  The primary key, and the unique index on a customer's active session in a conversation. Only a
  row that becomes active can violate the index: a new one, or an ended one that \<open>review\<close> takes up.
\<close>

definition sessions_clash :: "session_row \<Rightarrow> session_row \<Rightarrow> bool" where
  "sessions_clash a b = (active_status (qw_status a) \<and> active_status (qw_status b)
     \<and> qw_tenant_id a = qw_tenant_id b \<and> qw_customer_id a = qw_customer_id b
     \<and> qw_conversation_id a = qw_conversation_id b)"

definition insert_session :: "session_row \<Rightarrow> qualification_db \<Rightarrow> qualification_db res" where
  "insert_session r db =
     (if list_ex (\<lambda>x. qw_id x = qw_id r \<or> sessions_clash r x) (qd_sessions db)
      then Inl integrity_error else Inr (db\<lparr>qd_sessions := qd_sessions db @ [r]\<rparr>))"

definition replace_session :: "session_row \<Rightarrow> qualification_db \<Rightarrow> qualification_db res" where
  "replace_session r db =
     (if list_ex (\<lambda>x. qw_id x \<noteq> qw_id r \<and> sessions_clash r x) (qd_sessions db)
      then Inl integrity_error else Inr (put_session r db))"

text \<open>\<open>session.get(ConversationRow, id)\<close>: by primary key, whatever the tenant.\<close>

definition conversation_of :: "qualification_db \<Rightarrow> conversation_id \<Rightarrow> conversation_row option" where
  "conversation_of db c = first_where (\<lambda>x. cw_id x = c) (qd_conversations db)"

definition set_conversation ::
  "conversation_id \<Rightarrow> (conversation_row \<Rightarrow> conversation_row) \<Rightarrow> qualification_db \<Rightarrow> qualification_db" where
  "set_conversation c f db = db\<lparr>qd_conversations := map (\<lambda>x. if cw_id x = c then f x else x) (qd_conversations db)\<rparr>"

definition clear_workflow :: "conversation_id \<Rightarrow> qualification_db \<Rightarrow> qualification_db" where
  "clear_workflow c = set_conversation c (\<lambda>x. x\<lparr>cw_active_workflow := None\<rparr>)"

definition emit ::
  "tenant_id \<Rightarrow> string \<Rightarrow> uuid \<Rightarrow> string \<Rightarrow> string \<Rightarrow> (string, json) dict \<Rightarrow> instant
   \<Rightarrow> qualification_db \<Rightarrow> qualification_db res" where
  "emit t aggregate_type aggregate event_type key payload now db =
     res_bind (add_event (new_event t aggregate_type aggregate event_type key payload now) (qd_events db))
       (\<lambda>events. Inr (db\<lparr>qd_events := events\<rparr>))"

section \<open>The qualification store\<close>

definition published_schema :: "tenant_id \<Rightarrow> string \<Rightarrow> qualification_schema option store_op" where
  "published_schema t schema_code db =
     (case first_where (\<lambda>r. qx_tenant_id r = t \<and> qx_code r = schema_code \<and> qx_published r \<and> qx_active r)
             (qd_schemas db) of
        None \<Rightarrow> Inr (db, None)
      | Some r \<Rightarrow> res_bind (schema_of_row r) (\<lambda>s. Inr (db, Some s)))"

definition get_schema :: "tenant_id \<Rightarrow> qualification_schema_id \<Rightarrow> qualification_schema option store_op" where
  "get_schema t sid db =
     (case first_where (\<lambda>r. qx_tenant_id r = t \<and> qx_id r = sid) (qd_schemas db) of
        None \<Rightarrow> Inr (db, None)
      | Some r \<Rightarrow> res_bind (schema_of_row r) (\<lambda>s. Inr (db, Some s)))"

definition active_row :: "qualification_db \<Rightarrow> telegram_identity \<Rightarrow> session_row option" where
  "active_row db who = first_where (\<lambda>r. owned_by who r \<and> active_status (qw_status r)) (qd_sessions db)"

definition expire_row :: "session_row \<Rightarrow> session_row" where
  "expire_row r = r\<lparr>qw_status := S_EXPIRED, qw_current_field_key := None\<rparr>"

definition active_session :: "telegram_identity \<Rightarrow> instant \<Rightarrow> qualification_session option store_op" where
  "active_session who now db =
     (case active_row db who of
        None \<Rightarrow> Inr (db, None)
      | Some r \<Rightarrow>
          res_bind (schema_row_of db (ti_tenant_id who) (qw_schema_id r)) (\<lambda>schema.
          if qw_expires_at r \<le> now
          then Inr (clear_workflow (ti_conversation_id who) (put_session (expire_row r) db), None)
          else res_bind (session_of_row r schema) (\<lambda>s. Inr (db, Some s))))"

definition new_session_row ::
  "telegram_identity \<Rightarrow> qualification_schema \<Rightarrow> instant \<Rightarrow> qualification_session_id \<Rightarrow> session_row" where
  "new_session_row who schema now new_id =
     \<lparr>qw_id = new_id, qw_tenant_id = ti_tenant_id who, qw_customer_id = ti_customer_id who,
      qw_conversation_id = ti_conversation_id who, qw_schema_id = qs_id schema, qw_schema_code = qs_code schema,
      qw_schema_version = qs_version schema, qw_status = S_AWAITING_CONSENT, qw_answers = [],
      qw_current_field_key = None, qw_expires_at = now + qs_session_ttl schema,
      qw_consent_decision = None, qw_consent_at = None, qw_lead_id = None\<rparr>"

definition start_new ::
  "telegram_identity \<Rightarrow> qualification_schema \<Rightarrow> instant \<Rightarrow> qualification_session_id
   \<Rightarrow> qualification_session store_op" where
  "start_new who schema now new_id db = (
     let row = new_session_row who schema now new_id
     in res_bind (insert_session row db) (\<lambda>db1.
        case conversation_of db1 (ti_conversation_id who) of
          None \<Rightarrow> Inl (ValueError ''Qualification conversation is unavailable'')
        | Some c \<Rightarrow>
            if cw_tenant_id c \<noteq> ti_tenant_id who \<or> cw_status c \<noteq> ACTIVE_BOT
            then Inl (ValueError ''Qualification conversation is unavailable'')
            else res_bind (session_of_row row schema) (\<lambda>s.
              Inr (set_conversation (ti_conversation_id who) (\<lambda>x. x\<lparr>cw_active_workflow :=
                Some (''qualification:'' @ uuid_str (qsession_uuid new_id))\<rparr>) db1, s))))"

definition start_session ::
  "telegram_identity \<Rightarrow> qualification_schema \<Rightarrow> instant \<Rightarrow> qualification_session_id
   \<Rightarrow> qualification_session store_op" where
  "start_session who schema now new_id db =
     (case active_row db who of
        Some e \<Rightarrow>
          if now < qw_expires_at e
          then res_bind (schema_row_of db (ti_tenant_id who) (qw_schema_id e)) (\<lambda>existing_schema.
               res_bind (session_of_row e existing_schema) (\<lambda>s. Inr (db, s)))
          else start_new who schema now new_id (put_session (expire_row e) db)
      | None \<Rightarrow> start_new who schema now new_id db)"

text \<open>The rows a decision writes: the session's new state and the consent record.\<close>

definition decided_row :: "qualification_schema \<Rightarrow> consent_decision \<Rightarrow> instant \<Rightarrow> session_row \<Rightarrow> session_row" where
  "decided_row schema decision now r = (
     let first_required = next_missing_field schema [] in
     r\<lparr>qw_consent_decision := Some decision, qw_consent_at := Some now,
       qw_status := (if decision \<noteq> ACCEPTED then S_DECLINED
         else if first_required = None then S_REVIEWING else S_IN_PROGRESS),
       qw_current_field_key := (if decision = ACCEPTED then map_option qf_key first_required else None)\<rparr>)"

definition insert_consent :: "consent_row \<Rightarrow> qualification_db \<Rightarrow> qualification_db res" where
  "insert_consent c db =
     (if list_ex (\<lambda>x. cn_tenant_id x = cn_tenant_id c \<and> cn_session_id x = cn_session_id c) (qd_consents db)
      then Inl integrity_error else Inr (db\<lparr>qd_consents := qd_consents db @ [c]\<rparr>))"

definition decide_consent ::
  "telegram_identity \<Rightarrow> qualification_session_id \<Rightarrow> consent_decision \<Rightarrow> instant \<Rightarrow> string
   \<Rightarrow> qualification_session store_op" where
  "decide_consent who sid decision now key db =
     res_bind (locked_session db who sid) (\<lambda>(r, schema).
     res_bind (is_duplicate db (ti_tenant_id who) (qw_id r) key) (\<lambda>duplicate.
     if duplicate then res_bind (session_of_row r schema) (\<lambda>s. Inr (db, s))
     else if qw_status r \<noteq> S_AWAITING_CONSENT
       then Inl (ValueError ''Qualification consent was already decided'')
     else
       let r' = decided_row schema decision now r in
       res_bind (insert_consent \<lparr>cn_tenant_id = ti_tenant_id who, cn_session_id = qw_id r,
           cn_customer_id = ti_customer_id who, cn_decision = decision,
           cn_consent_version = qs_consent_version schema, cn_purpose = qs_consent_purpose schema,
           cn_decided_at = now\<rparr> (put_session r' db)) (\<lambda>db1.
       let db2 = (if decision = DECLINED then clear_workflow (ti_conversation_id who) db1 else db1) in
       res_bind (record_update (ti_tenant_id who) (qw_id r) key ''consent'' now db2) (\<lambda>db3.
       res_bind (session_of_row r' schema) (\<lambda>s. Inr (db3, s))))))"

definition answered_row ::
  "qualification_schema \<Rightarrow> (string, json) dict \<Rightarrow> (string, answer) dict \<Rightarrow> session_row \<Rightarrow> session_row" where
  "answered_row schema answers typed r = (let missing = next_missing_field schema typed in
     r\<lparr>qw_answers := answers, qw_current_field_key := map_option qf_key missing,
       qw_status := (if missing = None then S_REVIEWING else S_IN_PROGRESS)\<rparr>)"

definition record_answer ::
  "telegram_identity \<Rightarrow> qualification_session_id \<Rightarrow> string \<Rightarrow> answer \<Rightarrow> instant \<Rightarrow> string
   \<Rightarrow> qualification_session store_op" where
  "record_answer who sid field_key a now key db =
     res_bind (locked_session db who sid) (\<lambda>(r, schema).
     res_bind (is_duplicate db (ti_tenant_id who) (qw_id r) key) (\<lambda>duplicate.
     if duplicate then res_bind (session_of_row r schema) (\<lambda>s. Inr (db, s))
     else if qw_status r \<noteq> S_IN_PROGRESS \<or> qw_current_field_key r \<noteq> Some field_key
       then Inl (ValueError ''Qualification answer is not expected'')
     else
       let answers = dict_set field_key (stored_answer a) (qw_answers r) in
       res_bind (typed_answers schema answers) (\<lambda>typed.
       let r' = answered_row schema answers typed r
       in res_bind (record_update (ti_tenant_id who) (qw_id r) key ''answer'' now (put_session r' db)) (\<lambda>db1.
          res_bind (session_of_row r' schema) (\<lambda>s. Inr (db1, s))))))"

definition reviewed_row :: "qualification_schema \<Rightarrow> string option \<Rightarrow> session_row \<Rightarrow> session_row res" where
  "reviewed_row schema edit_field_key r = (case edit_field_key of
       Some k \<Rightarrow>
         if k \<notin> set (map qf_key (qs_fields schema))
         then Inl (ValueError ''Qualification field is unavailable'')
         else Inr (r\<lparr>qw_status := S_IN_PROGRESS, qw_current_field_key := Some k\<rparr>)
     | None \<Rightarrow>
         res_bind (typed_answers schema (qw_answers r)) (\<lambda>typed.
         Inr (if next_missing_field schema typed = None
              then r\<lparr>qw_status := S_REVIEWING, qw_current_field_key := None\<rparr> else r)))"

definition review ::
  "telegram_identity \<Rightarrow> qualification_session_id \<Rightarrow> string option \<Rightarrow> qualification_session store_op" where
  "review who sid edit_field_key db =
     res_bind (locked_session db who sid) (\<lambda>(r, schema).
     res_bind (reviewed_row schema edit_field_key r) (\<lambda>r'.
     res_bind (replace_session r' db) (\<lambda>db1.
     res_bind (session_of_row r' schema) (\<lambda>s. Inr (db1, s)))))"

section \<open>Leads and escalation\<close>

text \<open>\<open>lead_to_row\<close>: the answers and the snapshot go to JSONB columns.\<close>

definition lead_to_row :: "answer lead \<Rightarrow> instant \<Rightarrow> lead_row res" where
  "lead_to_row l now =
     res_bind (serialized_answers (ld_answers l)) (\<lambda>answers.
     res_bind (case ld_qualification_snapshot l of
         None \<Rightarrow> Inr None
       | Some (c, v, as) \<Rightarrow> res_bind (serialized_answers as) (\<lambda>js.
           Inr (Some (JObj [(''schema_code'', JStr c), (''schema_version'', JInt v), (''answers'', JObj js)])))) (\<lambda>snapshot.
     Inr \<lparr>lw_id = ld_id l, lw_tenant_id = ld_tenant_id l, lw_customer_id = ld_customer_id l,
       lw_conversation_id = ld_conversation_id l, lw_schema_code = ld_schema_code l,
       lw_schema_version = ld_schema_version l, lw_source = ld_source l, lw_answers = answers,
       lw_status = ld_status l, lw_score = ld_score l, lw_priority = ld_priority l,
       lw_score_explanation = ld_score_explanation l, lw_consent_at = ld_consent_at l,
       lw_qualification_snapshot = snapshot, lw_qualified_at = ld_qualified_at l, lw_updated_at = now\<rparr>))"

definition open_lead_status :: "lead_status \<Rightarrow> bool" where
  "open_lead_status st = (st \<in> {L_NEW, L_QUALIFYING, L_QUALIFIED, L_UNQUALIFIED})"

text \<open>The customer's latest open lead for the schema, which a new qualification overwrites.\<close>

definition open_lead :: "qualification_db \<Rightarrow> telegram_identity \<Rightarrow> string \<Rightarrow> lead_row option" where
  "open_lead db who schema_code =
     (case filter (\<lambda>l. lw_tenant_id l = ti_tenant_id who \<and> lw_customer_id l = ti_customer_id who
         \<and> lw_conversation_id l = ti_conversation_id who \<and> lw_schema_code l = schema_code
         \<and> open_lead_status (lw_status l)) (qd_leads db) of
        [] \<Rightarrow> None
      | l # ls \<Rightarrow> Some (max_by lw_updated_at l ls))"

definition save_lead :: "telegram_identity \<Rightarrow> string \<Rightarrow> lead_row \<Rightarrow> qualification_db \<Rightarrow> (qualification_db \<times> lead_id) res" where
  "save_lead who schema_code l db =
     (case open_lead db who schema_code of
        None \<Rightarrow>
          if list_ex (\<lambda>x. lw_id x = lw_id l) (qd_leads db) then Inl integrity_error
          else Inr (db\<lparr>qd_leads := qd_leads db @ [l]\<rparr>, lw_id l)
      | Some old \<Rightarrow>
          Inr (db\<lparr>qd_leads := map (\<lambda>x. if lw_id x = lw_id old
                 then l\<lparr>lw_id := lw_id x, lw_tenant_id := lw_tenant_id x, lw_customer_id := lw_customer_id x,
                        lw_conversation_id := lw_conversation_id x, lw_schema_code := lw_schema_code x\<rparr>
                 else x) (qd_leads db)\<rparr>, lw_id old))"

definition load_handoff_schedule :: "qualification_db \<Rightarrow> tenant_id \<Rightarrow> business_schedule res" where
  "load_handoff_schedule db t =
     (case map_of (qd_profiles db) t of
        None \<Rightarrow> Inl (ValueError ''Handoff schedule is unavailable'')
      | Some sid \<Rightarrow>
          (case first_where (\<lambda>s. bs_tenant_id s = t \<and> bs_id s = sid) (qd_schedules db) of
             None \<Rightarrow> Inl (ValueError ''Handoff schedule is unavailable'') | Some s \<Rightarrow> Inr s))"

text \<open>\<open>search_horizon_days\<close> of \<open>business_due_at\<close>, left at its default.\<close>

definition due_horizon_days :: int where
  "due_horizon_days = 370"

definition insert_handoff :: "handoff_row \<Rightarrow> qualification_db \<Rightarrow> qualification_db res" where
  "insert_handoff h db =
     (if list_ex (\<lambda>x. hw_id x = hw_id h \<or> (hw_tenant_id x = hw_tenant_id h
           \<and> hw_idempotency_key h \<noteq> None \<and> hw_idempotency_key x = hw_idempotency_key h)) (qd_handoffs db)
      then Inl integrity_error else Inr (db\<lparr>qd_handoffs := qd_handoffs db @ [h]\<rparr>))"

definition handoff_payload :: "handoff_id \<Rightarrow> string \<Rightarrow> string \<Rightarrow> (string, json) dict" where
  "handoff_payload h reason prio = [(''handoff_id'', JStr (uuid_str (handoff_uuid h))),
     (''reason_code'', JStr reason), (''priority'', JStr prio)]"

text \<open>The escalation a trigger asks for.\<close>

definition triggered_handoff ::
  "telegram_identity \<Rightarrow> qualification_session_id \<Rightarrow> lead_id \<Rightarrow> trigger_result \<Rightarrow> handoff_id \<Rightarrow> datetime \<Rightarrow> string
   \<Rightarrow> handoff_row" where
  "triggered_handoff who sid lead trigger hid due timezone =
     \<lparr>hw_id = hid, hw_tenant_id = ti_tenant_id who, hw_customer_id = Some (ti_customer_id who),
      hw_conversation_id = ti_conversation_id who, hw_lead_id = Some lead,
      hw_reason_code = tg_reason_code trigger, hw_priority = tg_priority trigger,
      hw_status = H_QUEUED, hw_assignee_id = None,
      hw_summary = ''Qualification triggered escalation: '' @ tg_reason_code trigger @ ''.'',
      hw_context = [(''matched_rules'', JList (map JStr (tg_matched_rules trigger))), (''timezone'', JStr timezone)],
      hw_idempotency_key = Some (''qualification:'' @ uuid_str (qsession_uuid sid) @ '':'' @ tg_reason_code trigger),
      hw_response_due_at = due\<rparr>"

definition escalate ::
  "telegram_identity \<Rightarrow> qualification_session_id \<Rightarrow> lead_id \<Rightarrow> qualification_schema \<Rightarrow> trigger_result
   \<Rightarrow> instant \<Rightarrow> handoff_id \<Rightarrow> qualification_db \<Rightarrow> qualification_db res" where
  "escalate who sid lead schema trigger now hid db =
     res_bind (load_handoff_schedule db (ti_tenant_id who)) (\<lambda>sched.
     res_bind (business_due_at sched (utc_datetime now) (qs_handoff_response_minutes schema * minute_us)
         due_horizon_days) (\<lambda>due.
     res_bind (insert_handoff (triggered_handoff who sid lead trigger hid due (bs_timezone sched)) db) (\<lambda>db1.
     emit (ti_tenant_id who) ''handoff'' (handoff_uuid hid) ''handoff.queued''
       (''handoff-qualified:'' @ uuid_str (qsession_uuid sid))
       (handoff_payload hid (tg_reason_code trigger) (tg_priority trigger)) now
       (set_conversation (ti_conversation_id who) (\<lambda>x. x\<lparr>cw_status := HANDOFF_QUEUED\<rparr>) db1))))"

definition complete ::
  "telegram_identity \<Rightarrow> qualification_session_id \<Rightarrow> answer lead \<Rightarrow> score_result \<Rightarrow> trigger_result option
   \<Rightarrow> instant \<Rightarrow> string \<Rightarrow> handoff_id \<Rightarrow> qualification_session store_op" where
  "complete who sid lead score trigger now key hid db =
     res_bind (locked_session db who sid) (\<lambda>(r, schema).
     res_bind (is_duplicate db (ti_tenant_id who) (qw_id r) key) (\<lambda>duplicate.
     if duplicate \<or> qw_status r = S_COMPLETED then res_bind (session_of_row r schema) (\<lambda>s. Inr (db, s))
     else if qw_status r \<noteq> S_REVIEWING then Inl (ValueError ''Qualification is not ready for submission'')
     else
       res_bind (lead_to_row lead now) (\<lambda>replacement.
       res_bind (save_lead who (qs_code schema) replacement db) (\<lambda>(db1, lid).
       let r' = r\<lparr>qw_status := S_COMPLETED, qw_lead_id := Some lid\<rparr>; db2 = put_session r' db1 in
       if conversation_of db2 (ti_conversation_id who) = None
         then Inl (ValueError ''Qualification conversation is unavailable'')
       else
         res_bind (emit (ti_tenant_id who) ''lead'' (lead_uuid lid) ''lead.qualified''
           (''lead-qualified:'' @ uuid_str (qsession_uuid (qw_id r)))
           [(''lead_id'', JStr (uuid_str (lead_uuid lid))), (''score'', JInt (so_score score)),
            (''grade'', JStr (so_grade score))] now (clear_workflow (ti_conversation_id who) db2)) (\<lambda>db3.
         res_bind (case trigger of None \<Rightarrow> Inr db3
           | Some tg \<Rightarrow> escalate who (qw_id r) lid schema tg now hid db3) (\<lambda>db4.
         res_bind (record_update (ti_tenant_id who) (qw_id r) key ''complete'' now db4) (\<lambda>db5.
         res_bind (session_of_row r' schema) (\<lambda>s. Inr (db5, s)))))))))"

definition cancel_session :: "telegram_identity \<Rightarrow> bool store_op" where
  "cancel_session who db =
     (case active_row db who of
        None \<Rightarrow> Inr (db, False)
      | Some r \<Rightarrow> Inr (clear_workflow (ti_conversation_id who)
          (put_session (r\<lparr>qw_status := S_CANCELLED, qw_current_field_key := None\<rparr>) db), True))"

section \<open>Schemas\<close>

definition list_schemas :: "tenant_id \<Rightarrow> qualification_schema list store_op" where
  "list_schemas t db =
     res_bind (res_map schema_of_row (sorted_by (\<lambda>r. (qx_code r, qx_version r))
       (filter (\<lambda>r. qx_tenant_id r = t) (qd_schemas db)))) (\<lambda>ss. Inr (db, ss))"

definition row_of_schema :: "qualification_schema \<Rightarrow> schema_row" where
  "row_of_schema s = \<lparr>qx_id = qs_id s, qx_tenant_id = qs_tenant_id s, qx_code = qs_code s,
     qx_version = qs_version s, qx_title = qs_title s, qx_consent_version = qs_consent_version s,
     qx_consent_purpose = qs_consent_purpose s, qx_definition = schema_definition s,
     qx_grade_bands = map (\<lambda>b. JObj [(''minimum_score'', JInt (gb_minimum_score b)), (''grade'', JStr (gb_grade b))])
       (qs_grade_bands s),
     qx_session_ttl_minutes = qs_session_ttl s div minute_us,
     qx_handoff_response_minutes = qs_handoff_response_minutes s, qx_published = False, qx_active = qs_active s\<rparr>"

text \<open>The constraints of \<open>qualification_schemas\<close> on one row and among rows.\<close>

definition schema_rows_clash :: "schema_row \<Rightarrow> schema_row \<Rightarrow> bool" where
  "schema_rows_clash a b = (qx_tenant_id a = qx_tenant_id b \<and> qx_code a = qx_code b
     \<and> (qx_version a = qx_version b \<or> (qx_published a \<and> qx_active a \<and> qx_published b \<and> qx_active b)))"

definition schema_row_ok :: "schema_row \<Rightarrow> bool" where
  "schema_row_ok r = (1 \<le> qx_version r \<and> 5 \<le> qx_session_ttl_minutes r \<and> qx_session_ttl_minutes r \<le> 10080
     \<and> 1 \<le> qx_handoff_response_minutes r \<and> qx_handoff_response_minutes r \<le> 10080)"

definition add_schema :: "qualification_schema \<Rightarrow> qualification_schema store_op" where
  "add_schema s db = (
     let row = row_of_schema s in
     if \<not> schema_row_ok row \<or> list_ex (\<lambda>x. qx_id x = qx_id row \<or> schema_rows_clash row x) (qd_schemas db)
     then Inl integrity_error
     else res_bind (schema_of_row row) (\<lambda>stored. Inr (db\<lparr>qd_schemas := qd_schemas db @ [row]\<rparr>, stored)))"

text \<open>The versions of the target's code are unpublished before the target is published.\<close>

definition publish_schema :: "tenant_id \<Rightarrow> qualification_schema_id \<Rightarrow> qualification_schema store_op" where
  "publish_schema t sid db =
     (case first_where (\<lambda>r. qx_tenant_id r = t \<and> qx_id r = sid) (qd_schemas db) of
        None \<Rightarrow> Inl (ValueError ''Qualification schema is unavailable'')
      | Some target \<Rightarrow>
          if \<not> qx_active target then Inl (ValueError ''Qualification schema is unavailable'')
          else
            let unpublished = map (\<lambda>r. if qx_tenant_id r = t \<and> qx_code r = qx_code target \<and> qx_published r
                    then r\<lparr>qx_published := False\<rparr> else r) (qd_schemas db);
                published = map (\<lambda>r. if qx_id r = sid then r\<lparr>qx_published := True\<rparr> else r) unpublished
            in res_bind (schema_of_row (target\<lparr>qx_published := True\<rparr>)) (\<lambda>s.
               Inr (db\<lparr>qd_schemas := published\<rparr>, s)))"

section \<open>The handoff store\<close>

definition open_handoff_status :: "handoff_status \<Rightarrow> bool" where
  "open_handoff_status st = (st \<in> {H_QUEUED, H_CLAIMED, H_REOPENED})"

text \<open>The latest open case of a conversation; rows are kept in the order of their creation.\<close>

definition active_handoff :: "telegram_identity \<Rightarrow> handoff_row option store_op" where
  "active_handoff who db = Inr (db, first_where (\<lambda>h. hw_tenant_id h = ti_tenant_id who
     \<and> hw_conversation_id h = ti_conversation_id who \<and> open_handoff_status (hw_status h)) (rev (qd_handoffs db)))"

definition handoff_schedule :: "tenant_id \<Rightarrow> business_schedule store_op" where
  "handoff_schedule t db = res_bind (load_handoff_schedule db t) (\<lambda>s. Inr (db, s))"

definition create_or_get ::
  "telegram_identity \<Rightarrow> string \<Rightarrow> string \<Rightarrow> string \<Rightarrow> (string, json) dict \<Rightarrow> lead_id option \<Rightarrow> datetime
   \<Rightarrow> string \<Rightarrow> instant \<Rightarrow> handoff_id \<Rightarrow> handoff_row store_op" where
  "create_or_get who reason prio summary context lead due key now hid db =
     (case first_where (\<lambda>h. hw_tenant_id h = ti_tenant_id who \<and> hw_idempotency_key h = Some key) (qd_handoffs db) of
        Some h \<Rightarrow> Inr (db, h)
      | None \<Rightarrow>
     case first_where (\<lambda>h. hw_tenant_id h = ti_tenant_id who \<and> hw_conversation_id h = ti_conversation_id who
         \<and> open_handoff_status (hw_status h)) (qd_handoffs db) of
        Some h \<Rightarrow> Inr (db, h)
      | None \<Rightarrow>
        let h = \<lparr>hw_id = hid, hw_tenant_id = ti_tenant_id who, hw_customer_id = Some (ti_customer_id who),
              hw_conversation_id = ti_conversation_id who, hw_lead_id = lead, hw_reason_code = reason,
              hw_priority = prio, hw_status = H_QUEUED, hw_assignee_id = None, hw_summary = summary,
              hw_context = context, hw_idempotency_key = Some key, hw_response_due_at = due\<rparr>
        in res_bind (insert_handoff h db) (\<lambda>db1.
           case conversation_of db1 (ti_conversation_id who) of
             None \<Rightarrow> Inl (ValueError ''Handoff conversation is unavailable'')
           | Some c \<Rightarrow>
               if cw_tenant_id c \<noteq> ti_tenant_id who
               then Inl (ValueError ''Handoff conversation is unavailable'')
               else res_bind (emit (ti_tenant_id who) ''handoff'' (handoff_uuid hid) ''handoff.queued''
                   (''handoff:'' @ key) (handoff_payload hid reason prio) now
                   (set_conversation (ti_conversation_id who)
                     (\<lambda>x. x\<lparr>cw_status := HANDOFF_QUEUED, cw_active_workflow := None\<rparr>) db1)) (\<lambda>db2.
                 Inr (db2, h))))"

definition list_open :: "tenant_id \<Rightarrow> int \<Rightarrow> handoff_row list store_op" where
  "list_open t limit db = Inr (db, take (nat limit) (sorted_by (\<lambda>h. (utc (hw_response_due_at h), handoff_uuid (hw_id h)))
     (filter (\<lambda>h. hw_tenant_id h = t \<and> open_handoff_status (hw_status h)) (qd_handoffs db))))"

text \<open>\<open>handoff_from_row\<close>: the row as the domain's case, through its constructor.\<close>

definition priorities :: "priority list" where
  "priorities = [LOW, NORMAL, HIGH, URGENT]"

definition handoff_from_row :: "handoff_row \<Rightarrow> handoff_case res" where
  "handoff_from_row h =
     res_bind (member_of priority_value priorities (hw_priority h)) (\<lambda>prio.
     handoff_post_init \<lparr>hc_id = hw_id h, hc_tenant_id = hw_tenant_id h, hc_conversation_id = hw_conversation_id h,
       hc_reason_code = hw_reason_code h, hc_priority = prio, hc_summary = hw_summary h,
       hc_response_due_at = hw_response_due_at h, hc_status = hw_status h, hc_assignee_id = hw_assignee_id h\<rparr>)"

datatype handoff_action = CLAIM | RESOLVE | REOPEN | RETURN_TO_BOT

fun action_value :: "handoff_action \<Rightarrow> string" where
  "action_value CLAIM = ''claim''"
| "action_value RESOLVE = ''resolve''"
| "action_value REOPEN = ''reopen''"
| "action_value RETURN_TO_BOT = ''return_to_bot''"

definition handoff_actions :: "handoff_action list" where
  "handoff_actions = [CLAIM, RESOLVE, REOPEN, RETURN_TO_BOT]"

text \<open>What an action makes of the case, and of the conversation's status where it sets one.\<close>

definition act_on_case :: "handoff_action \<Rightarrow> string \<Rightarrow> handoff_case \<Rightarrow> (handoff_case \<times> conversation_status option) res" where
  "act_on_case action actor h = (case action of
     CLAIM \<Rightarrow>
       res_bind (if hc_status h = H_REOPENED then handoff_transition_to h H_QUEUED None else Inr h) (\<lambda>h1.
       res_bind (handoff_transition_to h1 H_CLAIMED (Some actor)) (\<lambda>h2. Inr (h2, Some HUMAN_ACTIVE)))
   | RESOLVE \<Rightarrow> res_bind (handoff_transition_to h H_RESOLVED None) (\<lambda>h1. Inr (h1, None))
   | REOPEN \<Rightarrow> res_bind (handoff_transition_to h H_REOPENED None) (\<lambda>h1. Inr (h1, Some HANDOFF_QUEUED))
   | RETURN_TO_BOT \<Rightarrow>
       if hc_status h \<noteq> H_RESOLVED then Inl (ValueError ''Only a resolved handoff can return control'')
       else Inr (h, Some ACTIVE_BOT))"

definition transition_handoff ::
  "tenant_id \<Rightarrow> handoff_id \<Rightarrow> handoff_action \<Rightarrow> string \<Rightarrow> instant \<Rightarrow> handoff_row store_op" where
  "transition_handoff t hid action actor now db =
     (case first_where (\<lambda>h. hw_tenant_id h = t \<and> hw_id h = hid) (qd_handoffs db) of
        None \<Rightarrow> Inl (ValueError ''Handoff was not found'')
      | Some row \<Rightarrow>
          res_bind (handoff_from_row row) (\<lambda>h.
          case conversation_of db (hw_conversation_id row) of
            None \<Rightarrow> Inl (ValueError ''Handoff conversation is unavailable'')
          | Some c \<Rightarrow>
              if cw_tenant_id c \<noteq> t then Inl (ValueError ''Handoff conversation is unavailable'')
              else res_bind (act_on_case action actor h) (\<lambda>(h', status).
                let row' = row\<lparr>hw_status := hc_status h', hw_assignee_id := hc_assignee_id h'\<rparr>;
                    db1 = db\<lparr>qd_handoffs := map (\<lambda>x. if hw_id x = hw_id row then row' else x) (qd_handoffs db)\<rparr>;
                    db2 = (case status of None \<Rightarrow> db1
                      | Some st \<Rightarrow> set_conversation (hw_conversation_id row) (\<lambda>x. x\<lparr>cw_status := st\<rparr>) db1);
                    audit = \<lparr>au_tenant_id = t, au_actor_type = ''staff'', au_actor_id = actor,
                      au_action = ''handoff.'' @ action_value action, au_target_type = ''handoff'',
                      au_target_id = uuid_str (handoff_uuid hid),
                      au_safe_diff = [(''status'', JStr (handoff_status_value (hw_status row')))],
                      au_occurred_at = now\<rparr>
                in Inr (db2\<lparr>qd_audit := qd_audit db2 @ [audit]\<rparr>, row'))))"

section \<open>Qualification use cases (application/leads/service.py)\<close>

type_synonym 'a use_case = "(qualification_db, 'a) act"

definition app_start ::
  "string \<Rightarrow> telegram_identity \<Rightarrow> instant \<Rightarrow> qualification_session_id
   \<Rightarrow> (qualification_session \<times> qualification_schema) use_case" where
  "app_start schema_code who now new_id =
     act_bind (run_tx (active_session who now)) (\<lambda>existing.
     act_bind (run_tx (published_schema (ti_tenant_id who) schema_code)) (\<lambda>schema_opt.
     case schema_opt of
       None \<Rightarrow> act_res (Inl (QualificationError ''Qualification is not configured''))
     | Some schema \<Rightarrow> (case existing of
         Some s \<Rightarrow> act_return (s, schema)
       | None \<Rightarrow> act_bind (run_tx (start_session who schema now new_id)) (\<lambda>s. act_return (s, schema)))))"

definition app_active ::
  "telegram_identity \<Rightarrow> instant \<Rightarrow> (qualification_session \<times> qualification_schema) option use_case" where
  "app_active who now =
     act_bind (run_tx (active_session who now)) (\<lambda>s_opt. case s_opt of
       None \<Rightarrow> act_return None
     | Some s \<Rightarrow> act_bind (run_tx (get_schema (ti_tenant_id who) (qn_schema_id s))) (\<lambda>schema_opt.
         act_return (case schema_opt of
           None \<Rightarrow> None
         | Some schema \<Rightarrow> if qs_version schema \<noteq> qn_schema_version s then None else Some (s, schema))))"

definition app_consent ::
  "telegram_identity \<Rightarrow> qualification_session_id \<Rightarrow> bool \<Rightarrow> instant \<Rightarrow> string
   \<Rightarrow> (qualification_session \<times> qualification_field option) use_case" where
  "app_consent who sid accepted now key =
     act_bind (run_tx (decide_consent who sid (if accepted then ACCEPTED else DECLINED) now key)) (\<lambda>s.
     act_bind (app_active who now) (\<lambda>active.
     act_return (s, case active of
       Some (_, schema) \<Rightarrow> if accepted then next_missing_field schema (qn_answers s) else None
     | None \<Rightarrow> None)))"

definition no_qualification :: exc where
  "no_qualification = ValueError ''No active qualification''"

definition app_answer ::
  "regex \<Rightarrow> telegram_identity \<Rightarrow> string \<Rightarrow> instant \<Rightarrow> string
   \<Rightarrow> (qualification_session \<times> qualification_field option) use_case" where
  "app_answer fullmatch who text now key =
     act_bind (app_active who now) (\<lambda>active. case active of
       None \<Rightarrow> act_res (Inl no_qualification)
     | Some (s, schema) \<Rightarrow>
         (case first_where (\<lambda>f. Some (qf_key f) = qn_current_field_key s) (qs_fields schema) of
            None \<Rightarrow> act_res (Inl (ValueError ''Qualification is not accepting an answer''))
          | Some f \<Rightarrow>
              act_bind (act_res (validate_answer fullmatch f text)) (\<lambda>a.
              act_bind (run_tx (record_answer who (qn_id s) (qf_key f) a now key)) (\<lambda>s'.
              act_return (s', next_missing_field schema (qn_answers s'))))))"

definition app_edit ::
  "telegram_identity \<Rightarrow> qualification_session_id \<Rightarrow> string \<Rightarrow> instant \<Rightarrow> qualification_field use_case" where
  "app_edit who sid field_key now =
     act_bind (app_active who now) (\<lambda>active. case active of
       None \<Rightarrow> act_res (Inl no_qualification)
     | Some (s, schema) \<Rightarrow>
         (case first_where (\<lambda>f. qf_key f = field_key) (qs_fields schema) of
            None \<Rightarrow> act_res (Inl (ValueError ''Qualification field is unavailable''))
          | Some f \<Rightarrow>
              if qn_id s \<noteq> sid then act_res (Inl (ValueError ''Qualification field is unavailable''))
              else act_bind (run_tx (review who (qn_id s) (Some (qf_key f)))) (\<lambda>_. act_return f)))"

text \<open>The lead \<open>submit\<close> builds, scores and qualifies.\<close>

definition grade_priority :: "string \<Rightarrow> priority" where
  "grade_priority g = (if g = ''A'' then HIGH else if g = ''B'' then NORMAL else LOW)"

definition build_lead ::
  "telegram_identity \<Rightarrow> qualification_schema \<Rightarrow> qualification_session \<Rightarrow> score_result \<Rightarrow> instant
   \<Rightarrow> lead_id \<Rightarrow> answer lead res" where
  "build_lead who schema s score now lid =
     res_bind (lead_post_init \<lparr>ld_id = lid, ld_tenant_id = ti_tenant_id who, ld_customer_id = ti_customer_id who,
         ld_conversation_id = ti_conversation_id who, ld_schema_code = qs_code schema,
         ld_schema_version = qs_version schema, ld_source = ''telegram'', ld_answers = qn_answers s,
         ld_status = L_QUALIFYING, ld_score = None, ld_priority = None, ld_score_explanation = None,
         ld_consent_at = None, ld_qualification_snapshot = None, ld_qualified_at = None\<rparr>) (\<lambda>l0.
     case qn_consent_at s of
       None \<Rightarrow> Inl (AssertionError [])
     | Some at_time \<Rightarrow>
         res_bind (lead_grant_consent l0 (utc_datetime at_time)) (\<lambda>l1.
         res_bind (lead_apply_score l1 (so_score score) (grade_priority (so_grade score))
           [(''grade'', JStr (so_grade score)), (''matched_rules'', JList (map JStr (so_matched_rules score)))]) (\<lambda>l2.
         case lead_qualify l2 (Some (qs_code schema, qs_version schema, qn_answers s)) (Some (utc_datetime now)) of
           (l3, Inl e) \<Rightarrow> Inl e
         | (l3, Inr _) \<Rightarrow> Inr l3)))"

definition app_submit ::
  "telegram_identity \<Rightarrow> qualification_session_id \<Rightarrow> instant \<Rightarrow> string \<Rightarrow> lead_id \<Rightarrow> handoff_id
   \<Rightarrow> qualification_session use_case" where
  "app_submit who sid now key lid hid =
     act_bind (app_active who now) (\<lambda>active. case active of
       None \<Rightarrow> act_res (Inl no_qualification)
     | Some (s, schema) \<Rightarrow>
         if qn_id s \<noteq> sid \<or> next_missing_field schema (qn_answers s) \<noteq> None
         then act_res (Inl (ValueError ''Qualification is incomplete''))
         else
           act_bind (act_res (score_answers schema (qn_answers s))) (\<lambda>score.
           act_bind (act_res (build_lead who schema s score now lid)) (\<lambda>lead.
           act_bind (act_res (detect_handoff schema (qn_answers s))) (\<lambda>trigger.
           run_tx (complete who (qn_id s) lead score trigger now key hid)))))"

definition app_cancel :: "telegram_identity \<Rightarrow> bool use_case" where
  "app_cancel who = run_tx (cancel_session who)"

definition admin_list_schemas :: "principal \<Rightarrow> qualification_schema list use_case" where
  "admin_list_schemas p = act_bind (act_res (require p QUALIFICATION_SCHEMA_READ)) (\<lambda>_.
     run_tx (list_schemas (pr_tenant_id p)))"

definition admin_add_schema :: "principal \<Rightarrow> qualification_schema \<Rightarrow> qualification_schema use_case" where
  "admin_add_schema p s = act_bind (act_res (require p QUALIFICATION_SCHEMA_WRITE)) (\<lambda>_.
     if qs_tenant_id s \<noteq> pr_tenant_id p \<or> qs_published s
     then act_res (Inl (QualificationError ''New qualification schema versions must be tenant-owned drafts''))
     else run_tx (add_schema s))"

definition admin_publish :: "principal \<Rightarrow> qualification_schema_id \<Rightarrow> qualification_schema use_case" where
  "admin_publish p sid = act_bind (act_res (require p QUALIFICATION_SCHEMA_WRITE)) (\<lambda>_.
     run_tx (publish_schema (pr_tenant_id p) sid))"

section \<open>Handoff use cases (application/handoffs/service.py)\<close>

text \<open>\<open>except ValueError as exc: raise HandoffError() from exc\<close>\<close>

definition as_handoff_error :: "'a use_case \<Rightarrow> 'a use_case" where
  "as_handoff_error m db = (case m db of
     (db', Inl e) \<Rightarrow> (db', Inl (if is_ValueError e then handoff_default else e))
   | (db', Inr x) \<Rightarrow> (db', Inr x))"

definition request_handoff ::
  "int \<Rightarrow> telegram_identity \<Rightarrow> string \<Rightarrow> string \<Rightarrow> string \<Rightarrow> string \<Rightarrow> (string, json) dict \<Rightarrow> lead_id option
   \<Rightarrow> instant \<Rightarrow> handoff_id \<Rightarrow> handoff_row use_case" where
  "request_handoff response_minutes who reason prio summary key context lead now hid =
     act_bind (run_tx (handoff_schedule (ti_tenant_id who))) (\<lambda>sched.
     act_bind (act_res (business_due_at sched (utc_datetime now) (response_minutes * minute_us) due_horizon_days)) (\<lambda>due.
     as_handoff_error (run_tx (create_or_get who reason prio summary
       (fold (\<lambda>(k, v) d. dict_set k v d) context [(''timezone'', JStr (bs_timezone sched))]) lead due key now hid))))"

definition list_open_handoffs :: "principal \<Rightarrow> int \<Rightarrow> handoff_row list use_case" where
  "list_open_handoffs p limit = act_bind (act_res (require p HANDOFF_READ)) (\<lambda>_.
     if \<not> (1 \<le> limit \<and> limit \<le> 100) then act_res (Inl (ValueError ''Handoff list limit is invalid''))
     else run_tx (list_open (pr_tenant_id p) limit))"

definition staff_transition :: "principal \<Rightarrow> handoff_id \<Rightarrow> string \<Rightarrow> instant \<Rightarrow> handoff_row use_case" where
  "staff_transition p hid action now = act_bind (act_res (require p HANDOFF_WRITE)) (\<lambda>_.
     case first_where (\<lambda>a. action_value a = action) handoff_actions of
       None \<Rightarrow> act_res (Inl (ValueError ''Handoff action is unsupported''))
     | Some a \<Rightarrow> as_handoff_error (run_tx (transition_handoff (pr_tenant_id p) hid a (pr_subject p) now)))"

end
