(* ===== verification/QualificationFacts.thy ===== *)
theory QualificationFacts
  imports QualificationStore
begin

text \<open>
  What the qualification engine and the stored form of its data guarantee: an accepted answer
  meets its field's rules (\<open>answer_fits\<close>) and is the same when it is read back from the session's
  JSON; a published schema is read back as it was added; the score, the grade and the escalation
  are those of the rules whose conditions hold (\<open>met\<close>).
\<close>

section \<open>Accepted answers\<close>

lemma date_of_ymd_range:
  assumes "valid_ymd y m d"
  shows "1 \<le> date_of_ymd y m d \<and> date_of_ymd y m d \<le> max_date"
proof -
  define p where "p = y - 1"
  have y: "0 \<le> p" "p \<le> 9998" using assms by (simp_all add: valid_ymd_def p_def)
  have m: "m \<in> {1, 2, 3, 4, 5, 6, 7, 8, 9, 10, 11, 12}" using assms unfolding valid_ymd_def insert_iff empty_iff by presburger
  have day: "0 \<le> days_before_month y m" "1 \<le> d" "days_before_month y m + d \<le> (if is_leap y then 366 else 365)"
    using m assms by (auto simp: valid_ymd_def days_before_month_def days_in_month_def month_table_def)
  have dy: "days_before_year y = p * 365 + p div 4 - p div 100 + p div 400"
    by (simp add: days_before_year_def p_def Let_def)
  have q: "p = 4 * (p div 4) + p mod 4" "p mod 4 < 4" "0 \<le> p mod 4" "p = 100 * (p div 100) + p mod 100"
    "p mod 100 < 100" "0 \<le> p mod 100" "p = 400 * (p div 400) + p mod 400" "p mod 400 < 400" "0 \<le> p mod 400"
    "0 \<le> p div 400" "0 \<le> p div 4" using y by (simp_all add: pos_imp_zdiv_nonneg_iff)
  have "0 \<le> days_before_year y" unfolding dy using q y by linarith
  moreover have "days_before_year y + (if is_leap y then 366 else 365) \<le> max_date"
  proof (cases "p = 9998")
    case True
    then have "y = 9999" by (simp add: p_def)
    then show ?thesis unfolding dy True by (simp add: max_date_def is_leap_def)
  next
    case False
    then have "p \<le> 9997" using y by simp
    then have "days_before_year y + 366 \<le> max_date" unfolding dy max_date_def using q by linarith
    then show ?thesis by (auto split: if_splits)
  qed
  ultimately show ?thesis using day unfolding date_of_ymd_def by linarith
qed

lemma date_fromisoformat_range:
  assumes "date_fromisoformat s = Some d"
  shows "1 \<le> d \<and> d \<le> max_date"
proof -
  have max: "date_of_ymd 9999 12 31 = max_date"
    by (simp add: date_of_ymd_def days_before_year_def days_before_month_def month_table_def max_date_def is_leap_def)
  from assms show ?thesis
    using date_of_ymd_range
    by (auto simp: date_fromisoformat_def date_of_week_def max Let_def split: if_splits option.splits)
qed

text \<open>What an accepted answer of a field satisfies.\<close>

definition in_bounds :: "field_validation \<Rightarrow> decimal \<Rightarrow> bool" where
  "in_bounds v d = ((case fv_minimum v of None \<Rightarrow> True | Some m \<Rightarrow> dec_le_num m d)
     \<and> (case fv_maximum v of None \<Rightarrow> True | Some m \<Rightarrow> dec_le_num d m))"

definition text_fits :: "regex \<Rightarrow> qualification_field \<Rightarrow> string \<Rightarrow> bool" where
  "text_fits fullmatch f t = (let v = qf_validation f in
     t = join '' '' (split_ws t) \<and> (t = [] \<longrightarrow> \<not> qf_required f)
     \<and> (case fv_min_length v of None \<Rightarrow> True | Some k \<Rightarrow> k \<le> int (length t))
     \<and> (case fv_max_length v of None \<Rightarrow> True | Some k \<Rightarrow> int (length t) \<le> k)
     \<and> (case fv_pattern v of None \<Rightarrow> True | Some p \<Rightarrow> fullmatch p t = Inr True))"

definition answer_fits :: "regex \<Rightarrow> qualification_field \<Rightarrow> answer \<Rightarrow> bool" where
  "answer_fits fullmatch f a = (let v = qf_validation f; kind = qf_field_type f in case a of
     AStr t \<Rightarrow> (if kind \<in> {SHORT_TEXT, LONG_TEXT} then text_fits fullmatch f t
       else if kind = SINGLE_CHOICE then t \<in> set (fv_options v)
       else if kind = PHONE then \<exists>p. phone_ok p \<and> raw p = t
       else if kind = EMAIL then \<exists>e. is_email e \<and> length e \<le> 254 \<and> t = casefold e
       else False)
   | ATuple ts \<Rightarrow> kind = MULTI_CHOICE \<and> ts \<noteq> [] \<and> subseq ts (fv_options v)
   | AInt i \<Rightarrow> kind = INTEGER \<and> in_bounds v (decimal_of_int i)
   | ADec d \<Rightarrow> kind = DECIMAL \<and> is_finite d \<and> in_bounds v d
   | ABool _ \<Rightarrow> kind = BOOLEAN
   | ADate d \<Rightarrow> kind = DATE \<and> 1 \<le> d \<and> d \<le> max_date)"

lemma dec_val_int [simp]: "dec_val (i < 0) (nat \<bar>i\<bar>) 0 = of_int i"
  by (auto simp: dec_val_def)

lemma dec_integral_val:
  assumes "dec_integral (Dec n c e)"
  shows "dec_val n c e = of_int (int_of_decimal (Dec n c e))"
proof (cases "0 \<le> e")
  case True
  then show ?thesis by (simp add: dec_val_def int_of_decimal_def Let_def)
next
  case False
  let ?k = "10 ^ nat (- e) :: nat"
  have "c mod ?k = 0" using assms False by (simp add: dec_integral_def)
  then have "c = (c div ?k) * ?k" by (metis add.right_neutral div_mult_mod_eq)
  then have "(of_nat c :: rat) = of_nat (c div ?k) * 10 ^ nat (- e)" by (metis of_nat_mult of_nat_numeral of_nat_power)
  then have "dec_val n c e = (if n then - 1 else 1) * of_nat (c div ?k)" using False by (simp add: dec_val_def)
  then show ?thesis using False by (simp add: int_of_decimal_def Let_def)
qed

lemma dec_le_num_same:
  assumes "dec_val n c e = dec_val n' c' e'"
  shows "dec_le_num m (Dec n c e) = dec_le_num m (Dec n' c' e')" "dec_le_num (Dec n c e) m = dec_le_num (Dec n' c' e') m"
  using assms by (cases m; simp)+

lemma integral_le:
  assumes "dec_integral d"
  shows "dec_le_num m (decimal_of_int (int_of_decimal d)) = dec_le_num m d"
    "dec_le_num (decimal_of_int (int_of_decimal d)) m = dec_le_num d m"
proof -
  obtain n c e where d: "d = Dec n c e" using assms by (cases d) (auto simp: dec_integral_def)
  have "dec_val (int_of_decimal d < 0) (nat \<bar>int_of_decimal d\<bar>) 0 = dec_val n c e"
    using dec_integral_val assms unfolding d by (simp only: dec_val_int)
  from dec_le_num_same [OF this] show "dec_le_num m (decimal_of_int (int_of_decimal d)) = dec_le_num m d"
    "dec_le_num (decimal_of_int (int_of_decimal d)) m = dec_le_num d m"
    unfolding decimal_of_int_def d by auto
qed

lemma dec_less_False [simp]: "dec_less a b = Inr False \<longleftrightarrow> \<not> is_nan a \<and> \<not> is_nan b \<and> dec_le_num b a"
  by (auto simp: dec_less_def)

lemma text_answer_fits:
  assumes "text_answer fullmatch value f = Inr t"
  shows "text_fits fullmatch f t"
proof -
  have "t = join '' '' (split_ws (strip value))"
    using assms by (auto simp: text_answer_def Let_def no_error_def res_bind_Inr_iff split: if_splits option.splits)
  then show ?thesis using assms
    by (auto simp: text_answer_def text_fits_def Let_def no_error_def res_bind_Inr_iff split: if_splits option.splits)
qed

lemma number_answer_fits:
  assumes "number_answer value f = Inr a" "qf_field_type f \<in> {INTEGER, DECIMAL}"
  shows "answer_fits fullmatch f a"
proof -
  let ?v = "qf_validation f"
  obtain d where d: "parse_decimal value = Some d" "is_finite d" "qf_field_type f = INTEGER \<longrightarrow> dec_integral d"
    and lo: "case fv_minimum ?v of None \<Rightarrow> True | Some m \<Rightarrow> dec_less d m = Inr False"
    and hi: "case fv_maximum ?v of None \<Rightarrow> True | Some m \<Rightarrow> dec_less m d = Inr False"
    and a: "a = (if qf_field_type f = INTEGER then AInt (int_of_decimal d) else ADec d)"
    using assms(1) by (auto simp: number_answer_def Let_def no_error_def res_bind_Inr_iff split: if_splits option.splits)
  have "in_bounds ?v d" using lo hi by (auto simp: in_bounds_def split: option.splits)
  moreover have "qf_field_type f = INTEGER \<Longrightarrow> in_bounds ?v (decimal_of_int (int_of_decimal d)) = in_bounds ?v d"
    using d(3) by (simp add: in_bounds_def integral_le split: option.splits)
  ultimately show ?thesis using assms(2) d(2) by (auto simp: a answer_fits_def Let_def)
qed

lemma validate_answer_fits:
  assumes "validate_answer fullmatch f text = Inr a"
  shows "answer_fits fullmatch f a"
proof (cases "qf_field_type f")
  case PHONE
  then obtain p where "parse_phone (strip text) False = Inr p" "a = AStr (raw p)"
    using assms by (auto simp: validate_answer_def Let_def split: sum.splits exc.splits)
  then show ?thesis using PHONE parse_phone_ok by (auto simp: answer_fits_def Let_def)
next
  case DATE
  then show ?thesis using assms date_fromisoformat_range
    by (auto simp: validate_answer_def answer_fits_def Let_def split: option.splits)
next
  case INTEGER
  then show ?thesis using assms number_answer_fits [of "strip text" f a] by (simp add: validate_answer_def Let_def)
next
  case DECIMAL
  then show ?thesis using assms number_answer_fits [of "strip text" f a] by (simp add: validate_answer_def Let_def)
next
  case EMAIL
  then have "is_email (strip text)" "length (strip text) \<le> 254" "a = AStr (casefold (strip text))"
    using assms by (auto simp: validate_answer_def Let_def split: if_splits)
  then show ?thesis using EMAIL by (auto simp: answer_fits_def Let_def intro!: exI [of _ "strip text"])
next
  case SINGLE_CHOICE
  then show ?thesis using assms
    by (auto simp: validate_answer_def answer_fits_def choice_answer_def res_bind_Inr_iff Let_def
        dest: find_SomeD split: option.splits)
next
  case MULTI_CHOICE
  then show ?thesis using assms
    by (auto simp: validate_answer_def answer_fits_def choices_answer_def res_bind_Inr_iff Let_def
        intro: subseq_filter_left split: if_splits)
qed (use assms in \<open>auto simp: validate_answer_def answer_fits_def res_bind_Inr_iff Let_def
       intro: text_answer_fits split: if_splits\<close>)

text \<open>An answer that is stored as JSON and read back for the same field is the same answer.\<close>

lemma strings_of_json [simp]: "res_map py_str (map JStr ss) = Inr ss"
  by (induction ss) (simp_all add: py_str_def)

lemma answer_roundtrip:
  assumes "answer_fits fullmatch f a"
  shows "answer_of_json (stored_answer a) (qf_field_type f) = Inr a"
proof (cases a)
  case (ADec d)
  then obtain n c e where "d = Dec n c e" using assms by (cases d) (auto simp: answer_fits_def is_finite_def Let_def)
  then show ?thesis using ADec assms parse_str_decimal
    by (simp add: answer_fits_def answer_of_json_def stored_answer_def py_str_def decimal_of_def Let_def)
qed (use assms date_iso_roundtrip in \<open>auto simp: answer_fits_def answer_of_json_def stored_answer_def
      py_str_def py_int_def py_bool_def json_list_def Let_def split: if_splits\<close>)

section \<open>Scores and escalation\<close>

lemma schema_bands:
  assumes "schema_post_init s = Inr s'"
  shows "s' = s" "\<exists>b bs. qs_grade_bands s = b # bs \<and> gb_minimum_score b = 0"
  using assms by (auto simp: schema_post_init_def split: if_splits list.splits)

lemma grade_of_spec:
  assumes "b0 \<in> set bands" "gb_minimum_score b0 \<le> score"
  shows "\<exists>b \<in> set bands. grade_of bands score = Inr (gb_grade b) \<and> gb_minimum_score b \<le> score
    \<and> (\<forall>c \<in> set bands. gb_minimum_score c \<le> score \<longrightarrow> gb_minimum_score c \<le> gb_minimum_score b)"
proof -
  obtain c cs where f: "filter (\<lambda>b. gb_minimum_score b \<le> score) bands = c # cs"
    using assms by (cases "filter (\<lambda>b. gb_minimum_score b \<le> score) bands") (auto simp: filter_empty_conv)
  then have sets: "set (c # cs) = {b \<in> set bands. gb_minimum_score b \<le> score}" by (metis set_filter)
  let ?b = "max_by gb_minimum_score c cs"
  have b: "?b \<in> set (c # cs)" using max_by_in [of gb_minimum_score c cs] by simp
  have best: "gb_minimum_score x \<le> gb_minimum_score ?b" if "x \<in> set (c # cs)" for x
    using that max_by_ge [of x cs gb_minimum_score c] max_by_init [of gb_minimum_score c cs] by auto
  show ?thesis
  proof (intro bexI [of _ ?b] conjI ballI impI)
    show "grade_of bands score = Inr (gb_grade ?b)" by (simp add: grade_of_def f)
    show "?b \<in> set bands" "gb_minimum_score ?b \<le> score" using b unfolding sets by simp_all
    show "gb_minimum_score x \<le> gb_minimum_score ?b" if "x \<in> set bands" "gb_minimum_score x \<le> score" for x
      using best that unfolding sets by simp
  qed
qed

lemma score_answers_spec:
  assumes "schema_post_init schema = Inr schema'" and "matched_rules schema answers = Inr ms"
  defines "score \<equiv> max 0 (min 100 (sum_list (map sc_points ms)))"
  shows "\<exists>b \<in> set (qs_grade_bands schema).
      score_answers schema answers = Inr \<lparr>so_score = score, so_grade = gb_grade b, so_matched_rules = map sc_code ms\<rparr>
      \<and> gb_minimum_score b \<le> score
      \<and> (\<forall>c \<in> set (qs_grade_bands schema). gb_minimum_score c \<le> score \<longrightarrow> gb_minimum_score c \<le> gb_minimum_score b)"
proof -
  obtain b bs where b: "qs_grade_bands schema = b # bs" "gb_minimum_score b = 0"
    using schema_bands(2) [OF assms(1)] by blast
  have "0 \<le> score" unfolding score_def by simp
  then show ?thesis using grade_of_spec [of b "qs_grade_bands schema" score] b
    by (auto simp: score_answers_def assms(2) score_def Let_def)
qed

text \<open>The rules that match, field by field: exactly those whose condition the field's answer meets.\<close>

lemma matching_spec:
  "matching oper want a rs = Inr ms \<Longrightarrow> ms = filter (\<lambda>r. matches a (oper r) (want r) = Inr True) rs"
proof (induction rs arbitrary: ms)
  case (Cons r rs)
  then show ?case by (cases "matches a (oper r) (want r)") (auto simp: res_bind_Inr_iff)
qed simp

lemma field_matches_spec:
  assumes "field_matches oper want rules answers f = Inr ms"
  shows "ms = filter (\<lambda>r. \<exists>a. dict_get answers (qf_key f) = Some a \<and> matches a (oper r) (want r) = Inr True) (rules f)"
  using assms by (auto simp: field_matches_def dest: matching_spec split: option.splits)

lemma matches_spec:
  assumes "res_map (field_matches oper want rules answers) fs = Inr mss"
  shows "concat mss = concat (map (\<lambda>f. filter (\<lambda>r. \<exists>a. dict_get answers (qf_key f) = Some a
    \<and> matches a (oper r) (want r) = Inr True) (rules f)) fs)"
  using assms by (induction fs arbitrary: mss) (auto simp: res_bind_Inr_iff dest: field_matches_spec)

definition met :: "(string, answer) dict \<Rightarrow> qualification_field \<Rightarrow> match_operator \<Rightarrow> expected \<Rightarrow> bool" where
  "met answers f oper want = (\<exists>a. dict_get answers (qf_key f) = Some a \<and> matches a oper want = Inr True)"

text \<open>The rules and the triggers whose condition holds, field by field.\<close>

definition met_rules :: "qualification_schema \<Rightarrow> (string, answer) dict \<Rightarrow> score_rule list" where
  "met_rules schema answers =
     concat (map (\<lambda>f. filter (\<lambda>r. met answers f (sc_operator r) (sc_expected r)) (qf_score_rules f)) (qs_fields schema))"

definition met_triggers :: "qualification_schema \<Rightarrow> (string, answer) dict \<Rightarrow> handoff_trigger list" where
  "met_triggers schema answers =
     concat (map (\<lambda>f. filter (\<lambda>r. met answers f (ht_operator r) (ht_expected r)) (qf_handoff_triggers f)) (qs_fields schema))"

lemma matched_rules_spec: "matched_rules schema answers = Inr ms \<Longrightarrow> ms = met_rules schema answers"
  by (auto simp: matched_rules_def met_rules_def met_def res_bind_Inr_iff dest: matches_spec)

lemma matched_triggers_spec: "matched_triggers schema answers = Inr ms \<Longrightarrow> ms = met_triggers schema answers"
  by (auto simp: matched_triggers_def met_triggers_def met_def res_bind_Inr_iff dest: matches_spec)

section \<open>A schema stored and read back\<close>

lemma parse_str_decimal_all [simp]: "decimal_of (str_decimal d) = Inr d"
proof (cases d)
  case (Dec n c e)
  then show ?thesis by (simp add: decimal_of_def parse_str_decimal)
next
  case (DecInf n)
  have "parse_decimal ''Infinity'' = Some (DecInf False)" "parse_decimal ''-Infinity'' = Some (DecInf True)"
    by code_simp+
  then show ?thesis using DecInf by (simp add: decimal_of_def str_decimal_def)
next
  case (DecNaN sg)
  have "parse_decimal ''NaN'' = Some (DecNaN False)" "parse_decimal ''sNaN'' = Some (DecNaN True)"
    by code_simp+
  then show ?thesis using DecNaN by (simp add: decimal_of_def str_decimal_def)
qed

lemma int_of_text_str [simp]: "int_of_text (str_int i) = Inr i"
proof -
  have "list_all (\<lambda>c. \<not> is_space c) (str_int i)"
    using str_int_num [of i] num_char_plain by (auto simp: list_all_iff)
  then show ?thesis by (simp add: int_of_text_def strip_plain)
qed

lemma json_opt_back [simp]:
  "json_opt_of json_int (json_opt JInt x) = Inr x" "json_opt_of json_str (json_opt JStr y) = Inr y"
  "json_opt_of (\<lambda>v. res_bind (json_str v) decimal_of) (json_opt (\<lambda>d. JStr (str_decimal d)) z) = Inr z"
  by (auto simp: json_opt_of_def json_opt_def json_int_def json_str_def split: option.splits)

lemma member_back [simp]:
  "member_of field_type_value field_types (field_type_value k) = Inr k"
  "member_of match_operator_value operators (match_operator_value oper) = Inr oper"
  "member_of sensitivity_value sensitivities (sensitivity_value sens) = Inr sens"
  "member_of priority_value priorities (priority_value p) = Inr p"
     apply (cases k; simp add: member_of_def field_types_def)
    apply (cases oper; simp add: member_of_def operators_def)
   apply (cases sens; simp add: member_of_def sensitivities_def)
  apply (cases p; simp add: member_of_def priorities_def)
  done

lemma res_map_back: "(\<And>x. x \<in> set xs \<Longrightarrow> f (g x) = Inr x) \<Longrightarrow> res_map f (map g xs) = Inr xs"
  by (induction xs) simp_all

lemma json_list_back [simp]: "res_map json_str (map JStr ss) = Inr ss"
  by (rule res_map_back) (simp add: json_str_def)

lemma validation_back:
  "validation_post_init v = Inr v \<Longrightarrow> validation_of_json (json_of_validation v) = Inr v"
  by (cases v) (simp add: validation_of_json_def json_of_validation_def json_get_def json_list_def)

definition expected_typed :: "field_type \<Rightarrow> expected \<Rightarrow> bool" where
  "expected_typed kind want = (case want of EDec _ \<Rightarrow> kind = DECIMAL | EInt _ \<Rightarrow> kind = INTEGER
     | EBool _ \<Rightarrow> kind = BOOLEAN | EStr _ \<Rightarrow> kind \<notin> {DECIMAL, INTEGER, BOOLEAN})"

lemma expected_back: "expected_typed kind want \<Longrightarrow> rule_expected (json_of_expected want) kind = Inr want"
  by (cases want) (auto simp: expected_typed_def rule_expected_def py_str_def py_bool_def)

lemma score_rule_back:
  "score_rule_post_init r = Inr r \<Longrightarrow> expected_typed kind (sc_expected r) \<Longrightarrow>
     score_rule_of_json kind (json_of_score_rule r) = Inr r"
  by (cases r) (simp add: score_rule_of_json_def json_of_score_rule_def json_item_def json_str_def json_int_def expected_back)

lemma trigger_back:
  "handoff_trigger_post_init r = Inr r \<Longrightarrow> expected_typed kind (ht_expected r) \<Longrightarrow>
     trigger_of_json kind (json_of_trigger r) = Inr r"
  by (cases r) (simp add: trigger_of_json_def json_of_trigger_def json_item_def json_str_def expected_back)

text \<open>A field as its constructors admit it, its rules expecting values of the field's type.\<close>

definition field_proper :: "qualification_field \<Rightarrow> bool" where
  "field_proper f = (field_post_init f = Inr f \<and> validation_post_init (qf_validation f) = Inr (qf_validation f)
     \<and> list_all (\<lambda>r. score_rule_post_init r = Inr r \<and> expected_typed (qf_field_type f) (sc_expected r)) (qf_score_rules f)
     \<and> list_all (\<lambda>r. handoff_trigger_post_init r = Inr r \<and> expected_typed (qf_field_type f) (ht_expected r)) (qf_handoff_triggers f))"

lemma field_back:
  assumes "field_proper f"
  shows "field_of_json (json_of_field f) = Inr f"
proof -
  have "res_map (score_rule_of_json (qf_field_type f)) (map json_of_score_rule (qf_score_rules f)) = Inr (qf_score_rules f)"
    "res_map (trigger_of_json (qf_field_type f)) (map json_of_trigger (qf_handoff_triggers f)) = Inr (qf_handoff_triggers f)"
    using assms by (auto intro!: res_map_back simp: field_proper_def list_all_iff score_rule_back trigger_back)
  then show ?thesis using assms
    by (cases f) (simp add: field_of_json_def json_of_field_def field_proper_def json_item_def json_str_def json_bool_def
        json_int_def json_get_def optional_list_def json_list_def validation_back)
qed

lemma band_back:
  "grade_band_post_init b = Inr b \<Longrightarrow>
     grade_band_of_json (JObj [(''minimum_score'', JInt (gb_minimum_score b)), (''grade'', JStr (gb_grade b))]) = Inr b"
  by (cases b) (simp add: grade_band_of_json_def json_item_def json_int_def json_str_def)

definition schema_proper :: "qualification_schema \<Rightarrow> bool" where
  "schema_proper s = (schema_post_init s = Inr s \<and> list_all field_proper (qs_fields s)
     \<and> list_all (\<lambda>b. grade_band_post_init b = Inr b) (qs_grade_bands s) \<and> minute_us dvd qs_session_ttl s)"

lemma schema_post_init_published:
  "schema_post_init s = Inr s \<Longrightarrow> schema_post_init (s\<lparr>qs_published := b\<rparr>) = Inr (s\<lparr>qs_published := b\<rparr>)"
  by (auto simp: schema_post_init_def split: if_splits list.splits)

lemma schema_back:
  assumes "schema_proper s"
  shows "schema_of_row (row_of_schema s) = Inr (s\<lparr>qs_published := False\<rparr>)"
proof -
  have fields: "res_map field_of_json (schema_definition s) = Inr (qs_fields s)"
    unfolding schema_definition_def using assms
    by (intro res_map_back) (auto simp: schema_proper_def list_all_iff field_back)
  have bands: "res_map grade_band_of_json (map (\<lambda>b. JObj [(''minimum_score'', JInt (gb_minimum_score b)),
      (''grade'', JStr (gb_grade b))]) (qs_grade_bands s)) = Inr (qs_grade_bands s)"
    using assms by (intro res_map_back)
      (auto simp: schema_proper_def list_all_iff band_back)
  have ttl: "qs_session_ttl s div minute_us * minute_us = qs_session_ttl s"
    using assms by (simp add: schema_proper_def)
  have "schema_post_init (s\<lparr>qs_published := False\<rparr>) = Inr (s\<lparr>qs_published := False\<rparr>)"
    using assms by (intro schema_post_init_published) (simp add: schema_proper_def)
  moreover have "s\<lparr>qs_published := False\<rparr> = \<lparr>qs_id = qs_id s, qs_tenant_id = qs_tenant_id s, qs_code = qs_code s,
      qs_version = qs_version s, qs_title = qs_title s, qs_consent_version = qs_consent_version s,
      qs_consent_purpose = qs_consent_purpose s, qs_fields = qs_fields s, qs_grade_bands = qs_grade_bands s,
      qs_session_ttl = qs_session_ttl s, qs_handoff_response_minutes = qs_handoff_response_minutes s,
      qs_published = False, qs_active = qs_active s\<rparr>" by (cases s) simp
  ultimately show ?thesis by (simp add: schema_of_row_def row_of_schema_def fields bands ttl)
qed

section \<open>Properties\<close>

text \<open>
  C38. An answer \<open>validate_answer\<close> accepts meets every rule of its field: the lengths and the
  pattern of a text, the options of a choice, a phone number in normal form, an e-mail address of
  at most 254 characters, the numeric bounds (after the conversion to an integer too), a calendar date.
\<close>

theorem validate_answer_sound:
  "validate_answer fullmatch f text = Inr a \<Longrightarrow> answer_fits fullmatch f a"
  by (rule validate_answer_fits)

definition urgent_field :: qualification_field where
  "urgent_field = \<lparr>qf_key = ''urgent'', qf_label = ''Urgent'', qf_prompt = ''Is it?'', qf_field_type = SINGLE_CHOICE,
     qf_validation = \<lparr>fv_min_length = None, fv_max_length = None, fv_minimum = None, fv_maximum = None,
       fv_options = [''yes'', ''no''], fv_pattern = None\<rparr>,
     qf_required = True, qf_order = 0, qf_sensitivity = PUBLIC,
     qf_score_rules = [\<lparr>sc_code = ''hot'', sc_operator = EQUALS, sc_expected = EStr ''yes'', sc_points = 60\<rparr>,
       \<lparr>sc_code = ''cold'', sc_operator = EQUALS, sc_expected = EStr ''no'', sc_points = - 10\<rparr>],
     qf_handoff_triggers = [\<lparr>ht_code = ''now'', ht_operator = EQUALS, ht_expected = EStr ''yes'',
       ht_reason_code = ''urgent'', ht_priority = ''high''\<rparr>]\<rparr>"

definition any_pattern :: regex where
  "any_pattern p s = Inr True"

theorem validate_answer_sound_witness: "answer_fits any_pattern urgent_field (AStr ''yes'')"
  by (rule validate_answer_sound [of _ _ "'' YES ''"]) code_simp

text \<open>
  An accepted answer, stored as JSON in the session row and read back with the field's
  type, is the answer that was accepted.
\<close>

theorem answer_store_roundtrip:
  assumes "validate_answer fullmatch f text = Inr a"
  shows "answer_of_json (stored_answer a) (qf_field_type f) = Inr a"
  using assms by (intro answer_roundtrip validate_answer_fits)

theorem answer_store_roundtrip_witness:
  "answer_of_json (JStr ''yes'') SINGLE_CHOICE = Inr (AStr ''yes'')"
  using answer_store_roundtrip [of any_pattern urgent_field "''Yes''" "AStr ''yes''"]
  by (simp add: stored_answer_def urgent_field_def) code_simp

text \<open>
  C39. A schema added as a draft is read back as it was given: every field, rule, trigger, bound
  and grade band survives the JSON definition, provided its rules expect values of their field's type
  and its time to live is a whole number of minutes.
\<close>

theorem schema_store_roundtrip:
  assumes "schema_proper s" and "\<not> qs_published s"
  shows "schema_of_row (row_of_schema s) = Inr s"
proof -
  have "s\<lparr>qs_published := False\<rparr> = s" using assms(2) by (cases s) simp
  then show ?thesis using schema_back [OF assms(1)] by simp
qed

definition urgent_schema :: qualification_schema where
  "urgent_schema = \<lparr>qs_id = QualificationSchemaId 7, qs_tenant_id = TenantId 1, qs_code = ''lead'', qs_version = 1,
     qs_title = ''Lead'', qs_consent_version = ''1'', qs_consent_purpose = ''Contact'', qs_fields = [urgent_field],
     qs_grade_bands = [\<lparr>gb_minimum_score = 0, gb_grade = ''C''\<rparr>, \<lparr>gb_minimum_score = 50, gb_grade = ''A''\<rparr>],
     qs_session_ttl = 30 * minute_us, qs_handoff_response_minutes = 60, qs_published = False, qs_active = True\<rparr>"

lemma urgent_proper: "schema_proper urgent_schema" "\<not> qs_published urgent_schema"
  by (code_simp, simp add: urgent_schema_def)

theorem schema_store_roundtrip_witness: "schema_of_row (row_of_schema urgent_schema) = Inr urgent_schema"
  by (rule schema_store_roundtrip [OF urgent_proper])

text \<open>
  C33. The score is the sum of the points of exactly the rules whose condition the answers meet, brought
  into 0..100; the grade is that of the highest band the score reaches.
\<close>

theorem score_exact:
  assumes "schema_post_init schema = Inr schema" and "score_answers schema answers = Inr r"
  shows "so_matched_rules r = map sc_code (met_rules schema answers)
    \<and> so_score r = max 0 (min 100 (sum_list (map sc_points (met_rules schema answers))))
    \<and> (\<exists>b \<in> set (qs_grade_bands schema). so_grade r = gb_grade b \<and> gb_minimum_score b \<le> so_score r
        \<and> (\<forall>c \<in> set (qs_grade_bands schema). gb_minimum_score c \<le> so_score r \<longrightarrow> gb_minimum_score c \<le> gb_minimum_score b))"
proof -
  obtain ms where ms: "matched_rules schema answers = Inr ms"
    using assms(2) by (cases "matched_rules schema answers") (simp_all add: score_answers_def)
  show ?thesis
    using score_answers_spec [OF assms(1) ms] assms(2) matched_rules_spec [OF ms] by auto
qed

theorem score_exact_witness:
  "map sc_code (met_rules urgent_schema [(''urgent'', AStr ''yes'')]) = [''hot'']"
proof -
  have ok: "schema_post_init urgent_schema = Inr urgent_schema" by code_simp
  have r: "score_answers urgent_schema [(''urgent'', AStr ''yes'')] = Inr \<lparr>so_score = 60, so_grade = ''A'', so_matched_rules = [''hot'']\<rparr>"
    by code_simp
  from score_exact [OF ok r] have "[''hot''] = map sc_code (met_rules urgent_schema [(''urgent'', AStr ''yes'')])"
    unfolding score_result.simps by (rule conjunct1)
  then show ?thesis by (rule sym)
qed

text \<open>
  C34. An escalation is asked for exactly when the condition of some trigger is met; it carries the
  reason and the priority of a trigger of the highest priority (ties broken by the code) and the
  codes of all triggers that were met, in order.
\<close>

theorem escalation_exact:
  assumes "detect_handoff schema answers = Inr r"
  shows "case r of None \<Rightarrow> met_triggers schema answers = []
       | Some g \<Rightarrow> (\<exists>t \<in> set (met_triggers schema answers). tg_reason_code g = ht_reason_code t \<and> tg_priority g = ht_priority t
            \<and> (\<forall>u \<in> set (met_triggers schema answers).
                 (priority_rank (ht_priority u), ht_code u) \<le> (priority_rank (ht_priority t), ht_code t)))
          \<and> tg_matched_rules g = sorted_by id (map ht_code (met_triggers schema answers))"
proof -
  obtain ts where ts: "matched_triggers schema answers = Inr ts"
    using assms by (cases "matched_triggers schema answers") (simp_all add: detect_handoff_def)
  note spec = matched_triggers_spec [OF ts, symmetric]
  show ?thesis unfolding spec
  proof (cases ts)
    case Nil
    then show "case r of None \<Rightarrow> ts = [] | Some g \<Rightarrow> (\<exists>t \<in> set ts. tg_reason_code g = ht_reason_code t \<and> tg_priority g = ht_priority t
        \<and> (\<forall>u \<in> set ts. (priority_rank (ht_priority u), ht_code u) \<le> (priority_rank (ht_priority t), ht_code t)))
      \<and> tg_matched_rules g = sorted_by id (map ht_code ts)" using assms ts by (simp add: detect_handoff_def)
  next
    case (Cons t us)
    let ?key = "\<lambda>x. (priority_rank (ht_priority x), ht_code x)" and ?w = "max_by (\<lambda>x. (priority_rank (ht_priority x), ht_code x)) t us"
    have "?w \<in> set ts" using max_by_in [of ?key t us] by (simp add: Cons)
    moreover have "\<forall>u \<in> set ts. ?key u \<le> ?key ?w"
      using max_by_ge [of _ us ?key t] max_by_init [of ?key t us] by (auto simp: Cons)
    moreover have "r = Some \<lparr>tg_reason_code = ht_reason_code ?w, tg_priority = ht_priority ?w,
        tg_matched_rules = sorted_by id (map ht_code ts)\<rparr>"
      using assms by (simp add: detect_handoff_def ts Cons Let_def)
    ultimately show "case r of None \<Rightarrow> ts = [] | Some g \<Rightarrow> (\<exists>t \<in> set ts. tg_reason_code g = ht_reason_code t \<and> tg_priority g = ht_priority t
        \<and> (\<forall>u \<in> set ts. (priority_rank (ht_priority u), ht_code u) \<le> (priority_rank (ht_priority t), ht_code t)))
      \<and> tg_matched_rules g = sorted_by id (map ht_code ts)" by auto
  qed
qed

theorem escalation_exact_witness:
  "sorted_by id (map ht_code (met_triggers urgent_schema [(''urgent'', AStr ''yes'')])) = [''now'']"
proof -
  have r: "detect_handoff urgent_schema [(''urgent'', AStr ''yes'')]
      = Inr (Some \<lparr>tg_reason_code = ''urgent'', tg_priority = ''high'', tg_matched_rules = [''now'']\<rparr>)" by code_simp
  from escalation_exact [OF r] show ?thesis
    unfolding option.case trigger_result.simps by (elim conjE) (rule sym)
qed

end
