(* ===== verification/QualificationRuns.thy ===== *)
theory QualificationRuns
  imports QualificationFacts
begin

text \<open>
  Runs of the qualification and handoff stores: transactions (\<open>store_call\<close>) in any order, so in any
  interleaving of the use cases, at clock readings that do not go back. The lemmas follow what a
  transaction may do to each table; the invariants are interpretations of \<open>clocked_invariant\<close>.
\<close>

section \<open>What the primitives write\<close>

lemma emit_Inr:
  "emit t kind g ev key payload now db = Inr db' \<longleftrightarrow> event_name t key \<notin> ob_name ` set (qd_events db)
     \<and> db' = db\<lparr>qd_events := qd_events db @ [new_event t kind g ev key payload now]\<rparr>"
  by (auto simp: emit_def res_bind_Inr_iff add_event_Inr new_event_def)

lemma new_event_name [simp]: "ob_name (new_event t kind g ev key payload now) = event_name t key"
  by (simp add: new_event_def)

lemma record_update_Inr:
  "record_update t sid key operation now db = Inr db' \<longleftrightarrow>
     (t, key) \<notin> (\<lambda>u. (up_tenant_id u, up_key u)) ` set (qd_updates db)
     \<and> db' = db\<lparr>qd_updates := qd_updates db @
         [\<lparr>up_tenant_id = t, up_session_id = sid, up_key = key, up_operation = operation, up_processed_at = now\<rparr>]\<rparr>"
  by (auto simp: record_update_def list_ex_iff image_iff)

lemma insert_consent_Inr:
  "insert_consent c db = Inr db' \<longleftrightarrow>
     (cn_tenant_id c, cn_session_id c) \<notin> (\<lambda>x. (cn_tenant_id x, cn_session_id x)) ` set (qd_consents db)
     \<and> db' = db\<lparr>qd_consents := qd_consents db @ [c]\<rparr>"
  by (auto simp: insert_consent_def list_ex_iff image_iff) metis

lemma insert_handoff_Inr:
  "insert_handoff h db = Inr db' \<longleftrightarrow>
     (\<forall>x \<in> set (qd_handoffs db). hw_id x \<noteq> hw_id h \<and> \<not> (hw_tenant_id x = hw_tenant_id h
        \<and> hw_idempotency_key h \<noteq> None \<and> hw_idempotency_key x = hw_idempotency_key h))
     \<and> db' = db\<lparr>qd_handoffs := qd_handoffs db @ [h]\<rparr>"
  by (auto simp: insert_handoff_def list_ex_iff)

lemma insert_session_Inr:
  "insert_session r db = Inr db' \<longleftrightarrow>
     (\<forall>x \<in> set (qd_sessions db). qw_id x \<noteq> qw_id r \<and> \<not> sessions_clash r x)
     \<and> db' = db\<lparr>qd_sessions := qd_sessions db @ [r]\<rparr>"
  by (auto simp: insert_session_def list_ex_iff)

lemma replace_session_Inr:
  "replace_session r db = Inr db' \<longleftrightarrow>
     (\<forall>x \<in> set (qd_sessions db). qw_id x \<noteq> qw_id r \<longrightarrow> \<not> sessions_clash r x) \<and> db' = put_session r db"
  by (auto simp: replace_session_def list_ex_iff)

lemma save_lead_Inr:
  "save_lead who c l db = Inr (db', lid) \<Longrightarrow> \<exists>ls. db' = db\<lparr>qd_leads := ls\<rparr>"
  by (auto simp: save_lead_def split: option.splits if_splits)

lemmas written = emit_Inr record_update_Inr insert_consent_Inr insert_handoff_Inr insert_session_Inr replace_session_Inr

lemma put_session_frame [simp]:
  "qd_sessions (put_session r db) = map (\<lambda>x. if qw_id x = qw_id r then r else x) (qd_sessions db)"
  "qd_schemas (put_session r db) = qd_schemas db" "qd_updates (put_session r db) = qd_updates db"
  "qd_consents (put_session r db) = qd_consents db" "qd_leads (put_session r db) = qd_leads db"
  "qd_handoffs (put_session r db) = qd_handoffs db" "qd_conversations (put_session r db) = qd_conversations db"
  "qd_events (put_session r db) = qd_events db" "qd_audit (put_session r db) = qd_audit db"
  by (simp_all add: put_session_def)

lemma set_conversation_frame [simp]:
  "qd_sessions (set_conversation c f db) = qd_sessions db" "qd_schemas (set_conversation c f db) = qd_schemas db"
  "qd_updates (set_conversation c f db) = qd_updates db" "qd_consents (set_conversation c f db) = qd_consents db"
  "qd_leads (set_conversation c f db) = qd_leads db" "qd_handoffs (set_conversation c f db) = qd_handoffs db"
  "qd_events (set_conversation c f db) = qd_events db" "qd_audit (set_conversation c f db) = qd_audit db"
  by (simp_all add: set_conversation_def)

lemma clear_workflow_frame [simp]:
  "qd_sessions (clear_workflow c db) = qd_sessions db" "qd_schemas (clear_workflow c db) = qd_schemas db"
  "qd_updates (clear_workflow c db) = qd_updates db" "qd_consents (clear_workflow c db) = qd_consents db"
  "qd_leads (clear_workflow c db) = qd_leads db" "qd_handoffs (clear_workflow c db) = qd_handoffs db"
  "qd_events (clear_workflow c db) = qd_events db" "qd_audit (clear_workflow c db) = qd_audit db"
  by (simp_all add: clear_workflow_def)

lemma locked_sessionD:
  assumes "locked_session db who sid = Inr (r, schema)"
  shows "r \<in> set (qd_sessions db)" "qw_id r = sid" "owned_by who r"
    "schema_row_of db (ti_tenant_id who) (qw_schema_id r) = Inr schema"
  using assms by (auto simp: locked_session_def res_bind_Inr_iff dest: find_SomeD split: option.splits)

lemma active_rowD:
  "active_row db who = Some r \<Longrightarrow> r \<in> set (qd_sessions db) \<and> owned_by who r \<and> active_status (qw_status r)"
  by (auto simp: active_row_def dest: find_SomeD)

section \<open>Transactions\<close>

datatype store_call =
    T_Active telegram_identity
  | T_Start telegram_identity qualification_schema qualification_session_id
  | T_Decide telegram_identity qualification_session_id consent_decision string
  | T_Answer telegram_identity qualification_session_id string answer string
  | T_Review telegram_identity qualification_session_id "string option"
  | T_Complete telegram_identity qualification_session_id "answer lead" score_result "trigger_result option" string handoff_id
  | T_Cancel telegram_identity
  | T_Add_Schema qualification_schema
  | T_Publish tenant_id qualification_schema_id
  | T_Request telegram_identity string string string "(string, json) dict" "lead_id option" datetime string handoff_id
  | T_Transition tenant_id handoff_id handoff_action string

fun exec_call :: "store_call \<Rightarrow> instant \<Rightarrow> qualification_db \<Rightarrow> qualification_db" where
  "exec_call (T_Active who) now db = fst (run_tx (active_session who now) db)"
| "exec_call (T_Start who s i) now db = fst (run_tx (start_session who s now i) db)"
| "exec_call (T_Decide who sid d key) now db = fst (run_tx (decide_consent who sid d now key) db)"
| "exec_call (T_Answer who sid f a key) now db = fst (run_tx (record_answer who sid f a now key) db)"
| "exec_call (T_Review who sid f) now db = fst (run_tx (review who sid f) db)"
| "exec_call (T_Complete who sid l sc tg key hid) now db = fst (run_tx (complete who sid l sc tg now key hid) db)"
| "exec_call (T_Cancel who) now db = fst (run_tx (cancel_session who) db)"
| "exec_call (T_Add_Schema s) now db = fst (run_tx (add_schema s) db)"
| "exec_call (T_Publish t sid) now db = fst (run_tx (publish_schema t sid) db)"
| "exec_call (T_Request who reason prio summary context lead due key hid) now db =
     fst (run_tx (create_or_get who reason prio summary context lead due key now hid) db)"
| "exec_call (T_Transition t hid action actor) now db = fst (run_tx (transition_handoff t hid action actor now) db)"

text \<open>An invariant of every transaction, from what each does when it succeeds.\<close>

lemma exec_call_keeps:
  assumes "P db"
    and "\<And>db' x who. active_session who now db = Inr (db', x) \<Longrightarrow> P db'"
    and "\<And>db' x who s i. start_session who s now i db = Inr (db', x) \<Longrightarrow> P db'"
    and "\<And>db' x who sid d key. decide_consent who sid d now key db = Inr (db', x) \<Longrightarrow> P db'"
    and "\<And>db' x who sid f a key. record_answer who sid f a now key db = Inr (db', x) \<Longrightarrow> P db'"
    and "\<And>db' x who sid f. review who sid f db = Inr (db', x) \<Longrightarrow> P db'"
    and "\<And>db' x who sid l sc tg key hid. complete who sid l sc tg now key hid db = Inr (db', x) \<Longrightarrow> P db'"
    and "\<And>db' x who. cancel_session who db = Inr (db', x) \<Longrightarrow> P db'"
    and "\<And>db' x s. add_schema s db = Inr (db', x) \<Longrightarrow> P db'"
    and "\<And>db' x t sid. publish_schema t sid db = Inr (db', x) \<Longrightarrow> P db'"
    and "\<And>db' x who reason prio summary context lead due key hid.
      create_or_get who reason prio summary context lead due key now hid db = Inr (db', x) \<Longrightarrow> P db'"
    and "\<And>db' x t hid action actor. transition_handoff t hid action actor now db = Inr (db', x) \<Longrightarrow> P db'"
  shows "P (exec_call c now db)"
  by (cases c) (simp_all, (rule run_tx_inv; (rule assms(1) | erule assms(2-)))+)

section \<open>One active session for each customer in a conversation\<close>

definition sessions_ok :: "session_row list \<Rightarrow> bool" where
  "sessions_ok ss = sorted_wrt (\<lambda>a b. qw_id a \<noteq> qw_id b \<and> \<not> sessions_clash a b) ss"

lemma sessions_clash_sym: "sessions_clash a b = sessions_clash b a"
  by (auto simp: sessions_clash_def)

lemma sessions_ok_same:
  assumes "sessions_ok ss" "a \<in> set ss" "b \<in> set ss" "qw_id a = qw_id b \<or> sessions_clash a b"
  shows "a = b"
proof -
  obtain i j where i: "i < length ss" "a = ss ! i" and j: "j < length ss" "b = ss ! j"
    using assms(2,3) by (metis in_set_conv_nth)
  have "sorted_wrt (\<lambda>a b. qw_id a \<noteq> qw_id b \<and> \<not> sessions_clash a b) ss"
    using assms(1) by (simp add: sessions_ok_def)
  from sorted_wrt_nth_less [OF this] have "\<not> i < j" "\<not> j < i"
    using i j assms(4) sessions_clash_sym by metis+
  then show ?thesis using i j by (metis linorder_neqE_nat)
qed

lemma sessions_ok_put:
  assumes ok: "sessions_ok ss" and r: "r0 \<in> set ss" "qw_id r = qw_id r0"
    and free: "\<And>x. x \<in> set ss \<Longrightarrow> qw_id x \<noteq> qw_id r \<Longrightarrow> \<not> sessions_clash r x"
  shows "sessions_ok (map (\<lambda>x. if qw_id x = qw_id r then r else x) ss)"
proof -
  have "sorted_wrt (\<lambda>a b. qw_id a \<noteq> qw_id b \<and> \<not> sessions_clash a b) ss" using ok by (simp add: sessions_ok_def)
  then show ?thesis unfolding sessions_ok_def sorted_wrt_map
  proof (rule sorted_wrt_mono_rel [rotated])
    fix x y assume "x \<in> set ss" "y \<in> set ss" "qw_id x \<noteq> qw_id y \<and> \<not> sessions_clash x y"
    then show "qw_id (if qw_id x = qw_id r then r else x) \<noteq> qw_id (if qw_id y = qw_id r then r else y)
        \<and> \<not> sessions_clash (if qw_id x = qw_id r then r else x) (if qw_id y = qw_id r then r else y)"
      using free sessions_clash_sym by auto
  qed
qed

lemma sessions_ok_update:
  assumes ok: "sessions_ok ss" and r0: "r0 \<in> set ss" "qw_id r = qw_id r0" "qw_tenant_id r = qw_tenant_id r0"
      "qw_customer_id r = qw_customer_id r0" "qw_conversation_id r = qw_conversation_id r0"
    and act: "active_status (qw_status r) \<Longrightarrow> active_status (qw_status r0)"
  shows "sessions_ok (map (\<lambda>x. if qw_id x = qw_id r then r else x) ss)"
proof (rule sessions_ok_put [OF ok r0(1,2)])
  fix x assume x: "x \<in> set ss" "qw_id x \<noteq> qw_id r"
  show "\<not> sessions_clash r x"
  proof
    assume "sessions_clash r x"
    then have "sessions_clash r0 x" using r0 act by (auto simp: sessions_clash_def)
    then have "r0 = x" using sessions_ok_same [OF ok r0(1) x(1)] by simp
    then show False using x r0 by simp
  qed
qed

lemma sessions_ok_insert:
  assumes "sessions_ok ss" "\<forall>x \<in> set ss. qw_id x \<noteq> qw_id r \<and> \<not> sessions_clash r x"
  shows "sessions_ok (ss @ [r])"
  using assms sessions_clash_sym by (auto simp: sessions_ok_def sorted_wrt_append)

section \<open>What each transaction changes\<close>

abbreviation put_rows :: "session_row \<Rightarrow> session_row list \<Rightarrow> session_row list" where
  "put_rows r ss \<equiv> map (\<lambda>x. if qw_id x = qw_id r then r else x) ss"

abbreviation owner_of :: "session_row \<Rightarrow> tenant_id \<times> customer_id \<times> conversation_id" where
  "owner_of r \<equiv> (qw_tenant_id r, qw_customer_id r, qw_conversation_id r)"

text \<open>No operation changes whose session a row is.\<close>

lemma row_same [simp]:
  "qw_tenant_id (expire_row r) = qw_tenant_id r" "qw_tenant_id (decided_row schema d now r) = qw_tenant_id r" "qw_tenant_id (answered_row schema js typed r) = qw_tenant_id r"
  "qw_customer_id (expire_row r) = qw_customer_id r" "qw_customer_id (decided_row schema d now r) = qw_customer_id r" "qw_customer_id (answered_row schema js typed r) = qw_customer_id r"
  "qw_conversation_id (expire_row r) = qw_conversation_id r" "qw_conversation_id (decided_row schema d now r) = qw_conversation_id r" "qw_conversation_id (answered_row schema js typed r) = qw_conversation_id r"
  "qw_id (expire_row r) = qw_id r" "qw_id (decided_row schema d now r) = qw_id r" "qw_id (answered_row schema js typed r) = qw_id r"
  "qw_schema_id (expire_row r) = qw_schema_id r" "qw_schema_id (decided_row schema d now r) = qw_schema_id r" "qw_schema_id (answered_row schema js typed r) = qw_schema_id r"
  "qw_expires_at (expire_row r) = qw_expires_at r" "qw_expires_at (decided_row schema d now r) = qw_expires_at r" "qw_expires_at (answered_row schema js typed r) = qw_expires_at r"
  "qw_status (expire_row r) = S_EXPIRED"
  by (simp_all add: expire_row_def decided_row_def answered_row_def Let_def)

text \<open>Only the sessions and the conversation change.\<close>

definition only_sessions :: "qualification_db \<Rightarrow> qualification_db \<Rightarrow> bool" where
  "only_sessions db db' = (qd_schemas db' = qd_schemas db \<and> qd_updates db' = qd_updates db
     \<and> qd_consents db' = qd_consents db \<and> qd_leads db' = qd_leads db \<and> qd_handoffs db' = qd_handoffs db
     \<and> qd_events db' = qd_events db)"

lemma active_session_changes:
  assumes "active_session who now db = Inr (db', s)"
  shows "db' = db \<and> (s = None \<or> (\<exists>r schema. active_row db who = Some r \<and> now < qw_expires_at r
        \<and> schema_row_of db (ti_tenant_id who) (qw_schema_id r) = Inr schema \<and> s \<noteq> None \<and> session_of_row r schema = Inr (the s)))
    \<or> (\<exists>r. active_row db who = Some r \<and> qw_expires_at r \<le> now \<and> s = None
        \<and> qd_sessions db' = put_rows (expire_row r) (qd_sessions db) \<and> only_sessions db db')"
  using assms by (auto simp: active_session_def only_sessions_def res_bind_Inr_iff split: option.splits if_splits)

lemma start_new_changes:
  assumes "start_new who schema now i db = Inr (db', s)"
  defines "r \<equiv> new_session_row who schema now i"
  shows "(\<forall>x \<in> set (qd_sessions db). qw_id x \<noteq> i \<and> \<not> sessions_clash r x)
    \<and> qd_sessions db' = qd_sessions db @ [r] \<and> only_sessions db db'"
  using assms by (auto simp: start_new_def Let_def r_def new_session_row_def only_sessions_def res_bind_Inr_iff
      insert_session_Inr split: option.splits if_splits)

lemma start_session_changes:
  assumes "start_session who schema now i db = Inr (db', s)"
  defines "r \<equiv> new_session_row who schema now i"
  shows "db' = db \<or> (\<exists>ss. (ss = qd_sessions db \<or> (\<exists>e. active_row db who = Some e \<and> qw_expires_at e \<le> now
           \<and> ss = put_rows (expire_row e) (qd_sessions db)))
         \<and> (\<forall>x \<in> set ss. qw_id x \<noteq> i \<and> \<not> sessions_clash r x) \<and> qd_sessions db' = ss @ [r] \<and> only_sessions db db')"
  using assms(1) by (auto simp: start_session_def r_def only_sessions_def res_bind_Inr_iff
      dest: start_new_changes split: option.splits if_splits)

lemma decide_consent_changes:
  assumes "decide_consent who sid decision now key db = Inr (db', s)"
  shows "db' = db \<or> (\<exists>r schema c. locked_session db who sid = Inr (r, schema) \<and> qw_status r = S_AWAITING_CONSENT
    \<and> qd_sessions db' = put_rows (decided_row schema decision now r) (qd_sessions db)
    \<and> cn_tenant_id c = ti_tenant_id who \<and> cn_session_id c = sid \<and> cn_decision c = decision \<and> cn_decided_at c = now
    \<and> (ti_tenant_id who, sid) \<notin> (\<lambda>x. (cn_tenant_id x, cn_session_id x)) ` set (qd_consents db)
    \<and> qd_consents db' = qd_consents db @ [c]
    \<and> (ti_tenant_id who, key) \<notin> (\<lambda>u. (up_tenant_id u, up_key u)) ` set (qd_updates db)
    \<and> (\<exists>u. up_tenant_id u = ti_tenant_id who \<and> up_key u = key \<and> up_session_id u = sid \<and> qd_updates db' = qd_updates db @ [u])
    \<and> qd_schemas db' = qd_schemas db \<and> qd_leads db' = qd_leads db \<and> qd_handoffs db' = qd_handoffs db
    \<and> qd_events db' = qd_events db)"
proof -
  show ?thesis using assms
    by (auto simp: decide_consent_def Let_def res_bind_Inr_iff written dest: locked_sessionD split: if_splits)
qed

lemma record_answer_changes:
  assumes "record_answer who sid k a now key db = Inr (db', s)"
  shows "db' = db \<or> (\<exists>r schema typed. locked_session db who sid = Inr (r, schema) \<and> qw_status r = S_IN_PROGRESS
    \<and> qw_current_field_key r = Some k
    \<and> typed_answers schema (dict_set k (stored_answer a) (qw_answers r)) = Inr typed
    \<and> qd_sessions db' = put_rows (answered_row schema (dict_set k (stored_answer a) (qw_answers r)) typed r) (qd_sessions db)
    \<and> (ti_tenant_id who, key) \<notin> (\<lambda>u. (up_tenant_id u, up_key u)) ` set (qd_updates db)
    \<and> (\<exists>u. up_tenant_id u = ti_tenant_id who \<and> up_key u = key \<and> up_session_id u = sid \<and> qd_updates db' = qd_updates db @ [u])
    \<and> qd_consents db' = qd_consents db
    \<and> qd_schemas db' = qd_schemas db \<and> qd_leads db' = qd_leads db \<and> qd_handoffs db' = qd_handoffs db
    \<and> qd_events db' = qd_events db)"
proof (cases "db' = db")
  case False
  obtain r schema typed where l: "locked_session db who sid = Inr (r, schema)" "qw_status r = S_IN_PROGRESS"
      "qw_current_field_key r = Some k" "typed_answers schema (dict_set k (stored_answer a) (qw_answers r)) = Inr typed"
    and u: "record_update (ti_tenant_id who) (qw_id r) key ''answer'' now
      (put_session (answered_row schema (dict_set k (stored_answer a) (qw_answers r)) typed r) db) = Inr db'"
    using assms False
    by (auto simp: record_answer_def Let_def res_bind_Inr_iff split: if_splits)
  show ?thesis
    using u l locked_sessionD(2) [OF l(1)]
    by (intro disjI2 exI [of _ r] exI [of _ schema] exI [of _ typed]) (auto simp: record_update_Inr)
qed simp

lemma review_changes:
  assumes "review who sid f db = Inr (db', s)"
  shows "\<exists>r schema r'. locked_session db who sid = Inr (r, schema)
    \<and> (r' = r \<or> (\<exists>k. r' = r\<lparr>qw_status := S_IN_PROGRESS, qw_current_field_key := Some k\<rparr>)
       \<or> r' = r\<lparr>qw_status := S_REVIEWING, qw_current_field_key := None\<rparr>)
    \<and> (\<forall>x \<in> set (qd_sessions db). qw_id x \<noteq> qw_id r' \<longrightarrow> \<not> sessions_clash r' x)
    \<and> qd_sessions db' = put_rows r' (qd_sessions db) \<and> only_sessions db db'"
proof -
  obtain r schema r' where l: "locked_session db who sid = Inr (r, schema)"
    and rev: "reviewed_row schema f r = Inr r'" and db': "replace_session r' db = Inr db'"
    using assms by (auto simp: review_def res_bind_Inr_iff)
  have r': "r' = r \<or> (\<exists>k. r' = r\<lparr>qw_status := S_IN_PROGRESS, qw_current_field_key := Some k\<rparr>)
       \<or> r' = r\<lparr>qw_status := S_REVIEWING, qw_current_field_key := None\<rparr>"
    using rev by (cases f) (auto simp: reviewed_row_def res_bind_Inr_iff split: if_splits)
  from db' have "(\<forall>x \<in> set (qd_sessions db). qw_id x \<noteq> qw_id r' \<longrightarrow> \<not> sessions_clash r' x) \<and> db' = put_session r' db"
    unfolding replace_session_Inr .
  then show ?thesis using l r' by (intro exI [of _ r] exI [of _ schema] exI [of _ r']) (simp add: only_sessions_def)
qed

lemma cancel_session_changes:
  assumes "cancel_session who db = Inr (db', x)"
  shows "db' = db \<or> (\<exists>r. active_row db who = Some r
    \<and> qd_sessions db' = put_rows (r\<lparr>qw_status := S_CANCELLED, qw_current_field_key := None\<rparr>) (qd_sessions db)
    \<and> only_sessions db db')"
  using assms by (auto simp: cancel_session_def only_sessions_def split: option.splits)

lemma escalate_changes:
  assumes "escalate who sid lid schema trigger now hid db = Inr db'"
  shows "\<exists>h e. hw_id h = hid \<and> hw_tenant_id h = ti_tenant_id who \<and> hw_status h = H_QUEUED \<and> hw_assignee_id h = None
    \<and> (\<forall>x \<in> set (qd_handoffs db). hw_id x \<noteq> hw_id h \<and> \<not> (hw_tenant_id x = hw_tenant_id h
        \<and> hw_idempotency_key h \<noteq> None \<and> hw_idempotency_key x = hw_idempotency_key h))
    \<and> qd_handoffs db' = qd_handoffs db @ [h]
    \<and> ob_name e \<notin> ob_name ` set (qd_events db) \<and> qd_events db' = qd_events db @ [e]
    \<and> qd_sessions db' = qd_sessions db \<and> qd_schemas db' = qd_schemas db \<and> qd_updates db' = qd_updates db
    \<and> qd_consents db' = qd_consents db \<and> qd_leads db' = qd_leads db"
proof -
  obtain due tz key payload where
    ins: "insert_handoff (triggered_handoff who sid lid trigger hid due tz) db =
      Inr (db\<lparr>qd_handoffs := qd_handoffs db @ [triggered_handoff who sid lid trigger hid due tz]\<rparr>)"
    and e: "emit (ti_tenant_id who) ''handoff'' (handoff_uuid hid) ''handoff.queued'' key payload now
      (set_conversation (ti_conversation_id who) (\<lambda>x. x\<lparr>cw_status := HANDOFF_QUEUED\<rparr>)
        (db\<lparr>qd_handoffs := qd_handoffs db @ [triggered_handoff who sid lid trigger hid due tz]\<rparr>)) = Inr db'"
    using assms by (auto simp: escalate_def res_bind_Inr_iff insert_handoff_Inr)
  let ?h = "triggered_handoff who sid lid trigger hid due tz"
  have h: "hw_id ?h = hid" "hw_tenant_id ?h = ti_tenant_id who" "hw_status ?h = H_QUEUED" "hw_assignee_id ?h = None"
    by (simp_all add: triggered_handoff_def)
  let ?e = "new_event (ti_tenant_id who) ''handoff'' (handoff_uuid hid) ''handoff.queued'' key payload now"
  show ?thesis using ins h e by (intro exI [of _ ?h] exI [of _ ?e]) (auto simp: insert_handoff_Inr emit_Inr)
qed

lemma complete_changes:
  assumes "complete who sid lead score trigger now key hid db = Inr (db', s)"
  shows "db' = db \<or> (\<exists>r schema replacement db1 lid es hs. locked_session db who sid = Inr (r, schema)
    \<and> qw_status r = S_REVIEWING \<and> lead_to_row lead now = Inr replacement
    \<and> save_lead who (qs_code schema) replacement db = Inr (db1, lid)
    \<and> qd_sessions db' = put_rows (r\<lparr>qw_status := S_COMPLETED, qw_lead_id := Some lid\<rparr>) (qd_sessions db)
    \<and> qd_leads db' = qd_leads db1
    \<and> qd_events db' = qd_events db @ es \<and> distinct (map ob_name es) \<and> ob_name ` set (qd_events db) \<inter> ob_name ` set es = {}
    \<and> qd_handoffs db' = qd_handoffs db @ hs \<and> length hs \<le> 1
    \<and> (\<forall>h \<in> set hs. hw_status h = H_QUEUED \<and> hw_assignee_id h = None
        \<and> (\<forall>x \<in> set (qd_handoffs db). hw_id x \<noteq> hw_id h \<and> \<not> (hw_tenant_id x = hw_tenant_id h
           \<and> hw_idempotency_key h \<noteq> None \<and> hw_idempotency_key x = hw_idempotency_key h)))
    \<and> (ti_tenant_id who, key) \<notin> (\<lambda>u. (up_tenant_id u, up_key u)) ` set (qd_updates db)
    \<and> (\<exists>u. up_tenant_id u = ti_tenant_id who \<and> up_key u = key \<and> up_session_id u = sid \<and> qd_updates db' = qd_updates db @ [u])
    \<and> qd_consents db' = qd_consents db \<and> qd_schemas db' = qd_schemas db)"
proof (cases "db' = db")
  case False
  let ?w = "\<lambda>c. clear_workflow (ti_conversation_id who) c"
  obtain r schema replacement db1 lid db3 db4 name where
    l: "locked_session db who sid = Inr (r, schema)" "qw_status r = S_REVIEWING"
    and rep: "lead_to_row lead now = Inr replacement" "save_lead who (qs_code schema) replacement db = Inr (db1, lid)"
    and e: "emit (ti_tenant_id who) ''lead'' (lead_uuid lid) ''lead.qualified'' name
        [(''lead_id'', JStr (uuid_str (lead_uuid lid))), (''score'', JInt (so_score score)), (''grade'', JStr (so_grade score))]
        now (?w (put_session (r\<lparr>qw_status := S_COMPLETED, qw_lead_id := Some lid\<rparr>) db1)) = Inr db3"
    and t: "(case trigger of None \<Rightarrow> Inr db3 | Some tg \<Rightarrow> escalate who (qw_id r) lid schema tg now hid db3) = Inr db4"
    and u: "record_update (ti_tenant_id who) (qw_id r) key ''complete'' now db4 = Inr db'"
    using assms False by (auto simp: complete_def Let_def res_bind_Inr_iff split: if_splits)
  obtain ls where db1: "db1 = db\<lparr>qd_leads := ls\<rparr>" using save_lead_Inr [OF rep(2)] by blast
  define e1 where "e1 = new_event (ti_tenant_id who) ''lead'' (lead_uuid lid) ''lead.qualified'' name
    [(''lead_id'', JStr (uuid_str (lead_uuid lid))), (''score'', JInt (so_score score)), (''grade'', JStr (so_grade score))] now"
  have e1: "ob_name e1 \<notin> ob_name ` set (qd_events db)" "qd_events db3 = qd_events db @ [e1]"
    and db3: "qd_sessions db3 = put_rows (r\<lparr>qw_status := S_COMPLETED, qw_lead_id := Some lid\<rparr>) (qd_sessions db)"
      "qd_handoffs db3 = qd_handoffs db" "qd_leads db3 = ls" "qd_updates db3 = qd_updates db"
      "qd_consents db3 = qd_consents db" "qd_schemas db3 = qd_schemas db"
    using e e1_def by (auto simp: emit_Inr db1)
  have "\<exists>es hs. qd_events db4 = qd_events db @ e1 # es \<and> distinct (map ob_name (e1 # es))
      \<and> ob_name ` set (qd_events db) \<inter> ob_name ` set (e1 # es) = {}
      \<and> qd_handoffs db4 = qd_handoffs db @ hs \<and> length hs \<le> 1
      \<and> (\<forall>h \<in> set hs. hw_status h = H_QUEUED \<and> hw_assignee_id h = None
        \<and> (\<forall>x \<in> set (qd_handoffs db). hw_id x \<noteq> hw_id h \<and> \<not> (hw_tenant_id x = hw_tenant_id h
           \<and> hw_idempotency_key h \<noteq> None \<and> hw_idempotency_key x = hw_idempotency_key h)))
      \<and> qd_sessions db4 = qd_sessions db3 \<and> qd_leads db4 = ls \<and> qd_updates db4 = qd_updates db
      \<and> qd_consents db4 = qd_consents db \<and> qd_schemas db4 = qd_schemas db"
  proof (cases trigger)
    case None
    then show ?thesis using t e1 db3 by (intro exI [of _ "[]"]) auto
  next
    case (Some tg)
    then have "escalate who (qw_id r) lid schema tg now hid db3 = Inr db4" using t by simp
    from escalate_changes [OF this] obtain h e2 where
      "hw_status h = H_QUEUED" "hw_assignee_id h = None"
      "\<forall>x \<in> set (qd_handoffs db). hw_id x \<noteq> hw_id h \<and> \<not> (hw_tenant_id x = hw_tenant_id h
           \<and> hw_idempotency_key h \<noteq> None \<and> hw_idempotency_key x = hw_idempotency_key h)"
      "qd_handoffs db4 = qd_handoffs db @ [h]"
      "ob_name e2 \<notin> insert (ob_name e1) (ob_name ` set (qd_events db))" "qd_events db4 = qd_events db @ [e1, e2]"
      "qd_sessions db4 = qd_sessions db3" "qd_leads db4 = ls" "qd_updates db4 = qd_updates db"
      "qd_consents db4 = qd_consents db" "qd_schemas db4 = qd_schemas db"
      unfolding db3 e1(2) by auto
    then show ?thesis using e1(1) by (intro exI [of _ "[e2]"] exI [of _ "[h]"]) auto
  qed
  then obtain es hs where es: "qd_events db4 = qd_events db @ e1 # es" "distinct (map ob_name (e1 # es))"
      "ob_name ` set (qd_events db) \<inter> ob_name ` set (e1 # es) = {}"
      "qd_handoffs db4 = qd_handoffs db @ hs" "length hs \<le> 1"
      "\<forall>h \<in> set hs. hw_status h = H_QUEUED \<and> hw_assignee_id h = None
        \<and> (\<forall>x \<in> set (qd_handoffs db). hw_id x \<noteq> hw_id h \<and> \<not> (hw_tenant_id x = hw_tenant_id h
           \<and> hw_idempotency_key h \<noteq> None \<and> hw_idempotency_key x = hw_idempotency_key h))"
    and db4: "qd_sessions db4 = qd_sessions db3" "qd_leads db4 = ls" "qd_updates db4 = qd_updates db"
      "qd_consents db4 = qd_consents db" "qd_schemas db4 = qd_schemas db" by blast
  have sid: "qw_id r = sid" using locked_sessionD(2) [OF l(1)] .
  show ?thesis
    apply (rule disjI2, rule exI [of _ r], rule exI [of _ schema], rule exI [of _ replacement], rule exI [of _ db1],
        rule exI [of _ lid], rule exI [of _ "e1 # es"], rule exI [of _ hs])
    using u l rep es db4 by (auto simp: record_update_Inr db3 db1 sid)
qed simp

lemma create_or_get_changes:
  assumes "create_or_get who reason prio summary context lead due key now hid db = Inr (db', x)"
  shows "db' = db \<or> (\<exists>e. x \<notin> set (qd_handoffs db) \<and> hw_id x = hid \<and> hw_status x = H_QUEUED \<and> hw_assignee_id x = None
    \<and> hw_idempotency_key x = Some key \<and> hw_tenant_id x = ti_tenant_id who \<and> hw_conversation_id x = ti_conversation_id who
    \<and> (\<forall>h \<in> set (qd_handoffs db). hw_id h \<noteq> hid \<and> \<not> (hw_tenant_id h = ti_tenant_id who \<and> hw_idempotency_key h = Some key)
        \<and> \<not> (hw_tenant_id h = ti_tenant_id who \<and> hw_conversation_id h = ti_conversation_id who \<and> open_handoff_status (hw_status h)))
    \<and> qd_handoffs db' = qd_handoffs db @ [x]
    \<and> ob_name e \<notin> ob_name ` set (qd_events db) \<and> qd_events db' = qd_events db @ [e]
    \<and> qd_sessions db' = qd_sessions db \<and> qd_schemas db' = qd_schemas db \<and> qd_updates db' = qd_updates db
    \<and> qd_consents db' = qd_consents db \<and> qd_leads db' = qd_leads db)"
  using assms
  by (auto simp: create_or_get_def Let_def res_bind_Inr_iff written find_None_iff split: option.splits if_splits)

lemma handoff_from_rowD:
  assumes "handoff_from_row row = Inr h"
  shows "hc_status h = hw_status row \<and> hc_assignee_id h = hw_assignee_id row"
  using assms by (auto simp: handoff_from_row_def handoff_post_init_def res_bind_Inr_iff split: if_splits)

lemma transition_handoff_changes:
  assumes "transition_handoff t hid action actor now db = Inr (db', x)"
  shows "\<exists>row h h' st. row \<in> set (qd_handoffs db) \<and> hw_tenant_id row = t \<and> hw_id row = hid
    \<and> handoff_from_row row = Inr h \<and> act_on_case action actor h = Inr (h', st)
    \<and> x = row\<lparr>hw_status := hc_status h', hw_assignee_id := hc_assignee_id h'\<rparr>
    \<and> qd_handoffs db' = map (\<lambda>y. if hw_id y = hid then x else y) (qd_handoffs db)
    \<and> qd_sessions db' = qd_sessions db \<and> qd_schemas db' = qd_schemas db \<and> qd_updates db' = qd_updates db
    \<and> qd_consents db' = qd_consents db \<and> qd_leads db' = qd_leads db \<and> qd_events db' = qd_events db"
  using assms
  by (fastforce simp: transition_handoff_def Let_def res_bind_Inr_iff dest!: find_SomeD split: option.splits if_splits prod.splits)

lemma add_schema_changes:
  assumes "add_schema s db = Inr (db', x)"
  shows "(\<forall>y \<in> set (qd_schemas db). qx_id y \<noteq> qs_id s \<and> \<not> schema_rows_clash (row_of_schema s) y)
    \<and> schema_of_row (row_of_schema s) = Inr x
    \<and> db' = db\<lparr>qd_schemas := qd_schemas db @ [row_of_schema s]\<rparr>"
proof -
  have "qx_id (row_of_schema s) = qs_id s" by (simp add: row_of_schema_def)
  then show ?thesis using assms by (auto simp: add_schema_def Let_def res_bind_Inr_iff list_ex_iff split: if_splits)
qed

text \<open>Publishing a schema withdraws the published version of its code.\<close>

definition published_row :: "tenant_id \<Rightarrow> schema_row \<Rightarrow> schema_row \<Rightarrow> schema_row" where
  "published_row t target r = r\<lparr>qx_published := (qx_id r = qx_id target
     \<or> (qx_published r \<and> \<not> (qx_tenant_id r = t \<and> qx_code r = qx_code target)))\<rparr>"

lemma published_row_code:
  "(let r' = if qx_tenant_id r = t \<and> qx_code r = qx_code target \<and> qx_published r then r\<lparr>qx_published := False\<rparr> else r
    in if qx_id r' = qx_id target then r'\<lparr>qx_published := True\<rparr> else r') = published_row t target r"
  by (cases r) (auto simp: published_row_def Let_def)

lemma publish_schema_changes:
  assumes "publish_schema t sid db = Inr (db', x)"
  shows "\<exists>target. target \<in> set (qd_schemas db) \<and> qx_tenant_id target = t \<and> qx_id target = sid \<and> qx_active target
    \<and> schema_of_row (target\<lparr>qx_published := True\<rparr>) = Inr x
    \<and> db' = db\<lparr>qd_schemas := map (published_row t target) (qd_schemas db)\<rparr>"
proof -
  obtain target where f: "target \<in> set (qd_schemas db)" "qx_tenant_id target = t" "qx_id target = sid" "qx_active target"
    and x: "schema_of_row (target\<lparr>qx_published := True\<rparr>) = Inr x"
    and db': "db' = db\<lparr>qd_schemas := map (\<lambda>r. if qx_id r = sid then r\<lparr>qx_published := True\<rparr> else r)
      (map (\<lambda>r. if qx_tenant_id r = t \<and> qx_code r = qx_code target \<and> qx_published r
        then r\<lparr>qx_published := False\<rparr> else r) (qd_schemas db))\<rparr>"
    using assms unfolding publish_schema_def
    by (auto simp: Let_def res_bind_Inr_iff dest: find_SomeD split: option.splits if_splits)
  have "map (\<lambda>r. if qx_id r = sid then r\<lparr>qx_published := True\<rparr> else r)
      (map (\<lambda>r. if qx_tenant_id r = t \<and> qx_code r = qx_code target \<and> qx_published r
        then r\<lparr>qx_published := False\<rparr> else r) (qd_schemas db)) = map (published_row t target) (qd_schemas db)"
    using published_row_code [of _ t target] f(3) by (simp add: Let_def)
  then show ?thesis using f x db' by (intro exI [of _ target]) simp
qed

section \<open>Sessions\<close>

lemma sessions_ok_move:
  assumes "sessions_ok ss" "r0 \<in> set ss" "qw_id r = qw_id r0" "owner_of r = owner_of r0"
    and "active_status (qw_status r) \<Longrightarrow> active_status (qw_status r0)"
  shows "sessions_ok (map (\<lambda>x. if qw_id x = qw_id r0 then r else x) ss)"
  using sessions_ok_update [OF assms(1-3) _ _ _ assms(5)] assms(3,4) by simp

interpretation session_rows: clocked_invariant exec_call "\<lambda>_ d. sessions_ok (qd_sessions d)"
proof
  fix t t' :: int and d :: qualification_db and c
  assume ok: "sessions_ok (qd_sessions d)"
  have ended: "sessions_ok (map (\<lambda>x. if qw_id x = qw_id r then r' else x) (qd_sessions d))"
    if "active_row d who = Some r" "qw_id r' = qw_id r" "owner_of r' = owner_of r" "\<not> active_status (qw_status r')" for who r r'
    using that active_rowD [OF that(1)] by (intro sessions_ok_move [OF ok, of r]) auto
  show "sessions_ok (qd_sessions (exec_call c t' d))"
  proof (rule exec_call_keeps [of "\<lambda>d. sessions_ok (qd_sessions d)"], rule ok)
    show "sessions_ok (qd_sessions db')" if run: "active_session who t' d = Inr (db', x)" for db' x who
      using active_session_changes [OF run] ok by (auto intro!: ended simp: active_status_def)
    show "sessions_ok (qd_sessions db')" if run: "start_session who s t' i d = Inr (db', x)" for db' x who s i
    proof -
      let ?r = "new_session_row who s t' i"
      have "qw_id ?r = i" by (simp add: new_session_row_def)
      then have new: "sessions_ok (ss @ [?r])" if "sessions_ok ss" "\<forall>x \<in> set ss. qw_id x \<noteq> i \<and> \<not> sessions_clash ?r x" for ss
        using sessions_ok_insert that by simp
      have "sessions_ok (put_rows (expire_row e) (qd_sessions d))" if "active_row d who = Some e" for e
        using ended [OF that, of "expire_row e"] by (simp add: active_status_def)
      with start_session_changes [OF run] show ?thesis using ok new by (elim disjE exE conjE) simp_all
    qed
    show "sessions_ok (qd_sessions db')" if run: "decide_consent who sid dd t' key d = Inr (db', x)" for db' x who sid dd key
      using decide_consent_changes [OF run] ok
      by (auto dest!: locked_sessionD(1) intro!: sessions_ok_move [OF ok] simp: active_status_def)
    show "sessions_ok (qd_sessions db')" if run: "record_answer who sid f a t' key d = Inr (db', x)" for db' x who sid f a key
      using record_answer_changes [OF run] ok
      by (auto dest!: locked_sessionD(1) intro!: sessions_ok_move [OF ok] simp: active_status_def)
    show "sessions_ok (qd_sessions db')" if run: "review who sid f d = Inr (db', x)" for db' x who sid f
    proof -
      obtain r schema r' where l: "locked_session d who sid = Inr (r, schema)"
        and kind: "r' = r \<or> (\<exists>k. r' = r\<lparr>qw_status := S_IN_PROGRESS, qw_current_field_key := Some k\<rparr>)
          \<or> r' = r\<lparr>qw_status := S_REVIEWING, qw_current_field_key := None\<rparr>"
        and free: "\<forall>x \<in> set (qd_sessions d). qw_id x \<noteq> qw_id r' \<longrightarrow> \<not> sessions_clash r' x"
        and rows: "qd_sessions db' = put_rows r' (qd_sessions d)"
        using review_changes [OF run] by (elim exE conjE) (rule that; assumption)
      have r': "qw_id r' = qw_id r" using kind by auto
      show ?thesis unfolding rows using free locked_sessionD(1) [OF l] r'
        by (intro sessions_ok_put [OF ok, of r]) auto
    qed
    show "sessions_ok (qd_sessions db')" if run: "complete who sid l sc tg t' key hid d = Inr (db', x)" for db' x who sid l sc tg key hid
      using complete_changes [OF run] ok
      by (auto dest!: locked_sessionD(1) intro!: sessions_ok_move [OF ok] simp: active_status_def)
    show "sessions_ok (qd_sessions db')" if run: "cancel_session who d = Inr (db', x)" for db' x who
      using cancel_session_changes [OF run] ok by (auto intro!: ended simp: active_status_def)
  qed (use ok in \<open>auto dest!: add_schema_changes publish_schema_changes create_or_get_changes transition_handoff_changes\<close>)
qed

section \<open>Schemas\<close>

definition schemas_ok :: "schema_row list \<Rightarrow> bool" where
  "schemas_ok rows = sorted_wrt (\<lambda>a b. qx_id a \<noteq> qx_id b \<and> \<not> schema_rows_clash a b) rows"

lemma schema_rows_clash_sym: "schema_rows_clash a b = schema_rows_clash b a"
  by (auto simp: schema_rows_clash_def)

lemma schemas_ok_same:
  assumes "schemas_ok rows" "a \<in> set rows" "b \<in> set rows" "qx_id a = qx_id b \<or> schema_rows_clash a b"
  shows "a = b"
proof -
  obtain i j where i: "i < length rows" "a = rows ! i" and j: "j < length rows" "b = rows ! j"
    using assms(2,3) by (metis in_set_conv_nth)
  have "sorted_wrt (\<lambda>a b. qx_id a \<noteq> qx_id b \<and> \<not> schema_rows_clash a b) rows"
    using assms(1) by (simp add: schemas_ok_def)
  from sorted_wrt_nth_less [OF this] have "\<not> i < j" "\<not> j < i"
    using i j assms(4) schema_rows_clash_sym by metis+
  then show ?thesis using i j by (metis linorder_neqE_nat)
qed

lemma published_rows_ok:
  assumes ok: "schemas_ok rows" and target: "target \<in> set rows" "qx_tenant_id target = t"
  shows "schemas_ok (map (published_row t target) rows)"
proof -
  have "sorted_wrt (\<lambda>a b. qx_id a \<noteq> qx_id b \<and> \<not> schema_rows_clash a b) rows" using ok by (simp add: schemas_ok_def)
  then show ?thesis unfolding schemas_ok_def sorted_wrt_map
  proof (rule sorted_wrt_mono_rel [rotated])
    fix x y assume xy: "x \<in> set rows" "y \<in> set rows" "qx_id x \<noteq> qx_id y \<and> \<not> schema_rows_clash x y"
    have "z = target" if "z \<in> set rows" "qx_id z = qx_id target" for z
      using schemas_ok_same [OF ok that(1) target(1)] that(2) by simp
    then have "qx_id x = qx_id target \<Longrightarrow> x = target" "qx_id y = qx_id target \<Longrightarrow> y = target" using xy by auto
    then show "qx_id (published_row t target x) \<noteq> qx_id (published_row t target y)
        \<and> \<not> schema_rows_clash (published_row t target x) (published_row t target y)"
      using xy target(2) by (auto simp: schema_rows_clash_def published_row_def)
  qed
qed

interpretation schema_rows: clocked_invariant exec_call "\<lambda>_ d. schemas_ok (qd_schemas d)"
proof
  fix t t' :: int and d :: qualification_db and c
  assume ok: "schemas_ok (qd_schemas d)"
  show "schemas_ok (qd_schemas (exec_call c t' d))"
  proof (rule exec_call_keeps [of "\<lambda>d. schemas_ok (qd_schemas d)"], rule ok)
    show "schemas_ok (qd_schemas db')" if run: "add_schema s d = Inr (db', x)" for db' x s
    proof -
      have "qx_id (row_of_schema s) = qs_id s" by (simp add: row_of_schema_def)
      then show ?thesis using add_schema_changes [OF run] ok schema_rows_clash_sym
        by (auto simp: schemas_ok_def sorted_wrt_append)
    qed
    show "schemas_ok (qd_schemas db')" if run: "publish_schema t s d = Inr (db', x)" for db' x t s
      using publish_schema_changes [OF run] published_rows_ok [OF ok] by auto
  qed (use ok in \<open>auto dest!: active_session_changes start_session_changes decide_consent_changes record_answer_changes
         review_changes complete_changes cancel_session_changes create_or_get_changes transition_handoff_changes
         simp: only_sessions_def\<close>)
qed

section \<open>Every request takes effect once\<close>

definition keys_ok :: "qualification_db \<Rightarrow> bool" where
  "keys_ok d = (distinct (map (\<lambda>u. (up_tenant_id u, up_key u)) (qd_updates d))
     \<and> distinct (map (\<lambda>c. (cn_tenant_id c, cn_session_id c)) (qd_consents d))
     \<and> distinct (map ob_name (qd_events d)))"

interpretation request_keys: clocked_invariant exec_call "\<lambda>_. keys_ok"
proof
  fix t t' :: int and d :: qualification_db and c
  assume ok: "keys_ok d"
  show "keys_ok (exec_call c t' d)"
    by (rule exec_call_keeps, rule ok)
      (use ok in \<open>auto dest!: active_session_changes start_session_changes decide_consent_changes record_answer_changes
         review_changes complete_changes cancel_session_changes create_or_get_changes transition_handoff_changes
         add_schema_changes publish_schema_changes simp: keys_ok_def only_sessions_def\<close>)
qed

section \<open>Cases follow the domain's transition table\<close>

text \<open>A case has an assignee exactly while it is claimed or resolved.\<close>

definition handoff_ok :: "handoff_row \<Rightarrow> bool" where
  "handoff_ok h = (if hw_status h \<in> {H_CLAIMED, H_RESOLVED} then \<exists>a. hw_assignee_id h = Some a \<and> \<not> blank a
     else hw_status h = H_CANCELLED \<or> hw_assignee_id h = None)"

definition handoffs_ok :: "handoff_row list \<Rightarrow> bool" where
  "handoffs_ok hs = (sorted_wrt (\<lambda>a b. hw_id a \<noteq> hw_id b \<and> \<not> (hw_tenant_id a = hw_tenant_id b
       \<and> hw_idempotency_key a \<noteq> None \<and> hw_idempotency_key a = hw_idempotency_key b)) hs
     \<and> (\<forall>h \<in> set hs. handoff_ok h))"

definition handoff_moves :: "(handoff_status \<times> handoff_status) set" where
  "handoff_moves = {(a, b). b \<in> handoff_transitions a}"

lemma act_on_case_moves:
  assumes "act_on_case action actor h = Inr (h', st)"
  shows "(hc_status h, hc_status h') \<in> handoff_moves\<^sup>*"
    and "handoff_ok row \<Longrightarrow> hw_status row = hc_status h \<Longrightarrow> hw_assignee_id row = hc_assignee_id h \<Longrightarrow>
      handoff_ok (row\<lparr>hw_status := hc_status h', hw_assignee_id := hc_assignee_id h'\<rparr>)"
proof -
  have step: "(a, b) \<in> handoff_moves\<^sup>*" if "b \<in> handoff_transitions a" for a b
    using that by (auto simp: handoff_moves_def)
  have two: "(H_REOPENED, H_CLAIMED) \<in> handoff_moves\<^sup>*"
    using step [of H_QUEUED H_REOPENED] step [of H_CLAIMED H_QUEUED] by (auto intro: rtrancl_trans)
  show "(hc_status h, hc_status h') \<in> handoff_moves\<^sup>*"
    using assms step two
    by (auto simp: act_on_case_def handoff_transition_to_def res_bind_Inr_iff
        split: handoff_action.splits if_splits option.splits)
  show "handoff_ok (row\<lparr>hw_status := hc_status h', hw_assignee_id := hc_assignee_id h'\<rparr>)"
    if "handoff_ok row" "hw_status row = hc_status h" "hw_assignee_id row = hc_assignee_id h"
    using assms that
    by (cases "hc_status h") (auto simp: act_on_case_def handoff_transition_to_def handoff_ok_def res_bind_Inr_iff
        split: handoff_action.splits if_splits option.splits)
qed

text \<open>Where a case can have got to: its status has moved along the table, its assignee may differ.\<close>

definition follows :: "handoff_row \<Rightarrow> handoff_row list \<Rightarrow> bool" where
  "follows h hs = (\<exists>h' \<in> set hs. (hw_status h, hw_status h') \<in> handoff_moves\<^sup>*
     \<and> h' = h\<lparr>hw_status := hw_status h', hw_assignee_id := hw_assignee_id h'\<rparr>)"

lemma follows_refl: "h \<in> set hs \<Longrightarrow> follows h hs"
  by (auto simp: follows_def intro: bexI [of _ h])

lemma handoffs_ok_append:
  assumes "handoffs_ok hs" "handoff_ok h" "\<forall>x \<in> set hs. hw_id x \<noteq> hw_id h \<and> \<not> (hw_tenant_id x = hw_tenant_id h
      \<and> hw_idempotency_key h \<noteq> None \<and> hw_idempotency_key x = hw_idempotency_key h)"
  shows "handoffs_ok (hs @ [h])"
  using assms by (auto simp: handoffs_ok_def sorted_wrt_append)

lemma handoffs_ok_same:
  assumes "handoffs_ok hs" "a \<in> set hs" "b \<in> set hs" "hw_id a = hw_id b"
  shows "a = b"
proof -
  have "distinct (map hw_id hs)"
    using assms(1) unfolding handoffs_ok_def distinct_conv_nth sorted_wrt_iff_nth_less
    by (metis (mono_tags, lifting) length_map linorder_neqE_nat nth_map)
  then show ?thesis using assms(2-4) by (metis distinct_map inj_onD)
qed

lemma transition_handoff_keeps:
  assumes ok: "handoffs_ok (qd_handoffs d)" and run: "transition_handoff t hid action actor now d = Inr (db', x)"
  shows "handoffs_ok (qd_handoffs db')" and "follows h0 (qd_handoffs d) \<Longrightarrow> follows h0 (qd_handoffs db')"
proof -
  obtain row h h' st where row: "row \<in> set (qd_handoffs d)" "hw_tenant_id row = t" "hw_id row = hid"
    and h: "handoff_from_row row = Inr h" "act_on_case action actor h = Inr (h', st)"
    and x: "x = row\<lparr>hw_status := hc_status h', hw_assignee_id := hc_assignee_id h'\<rparr>"
    and rows: "qd_handoffs db' = map (\<lambda>y. if hw_id y = hid then x else y) (qd_handoffs d)"
    using transition_handoff_changes [OF run] by (elim exE conjE) (rule that; assumption)
  have same: "hw_id x = hw_id row" "hw_tenant_id x = hw_tenant_id row" "hw_idempotency_key x = hw_idempotency_key row"
    by (simp_all add: x)
  have only: "y = row" if "y \<in> set (qd_handoffs d)" "hw_id y = hid" for y
    using handoffs_ok_same [OF ok that(1) row(1)] that(2) row(3) by simp
  have "handoff_ok x" unfolding x
    by (rule act_on_case_moves(2) [OF h(2)]) (use ok row handoff_from_rowD [OF h(1)] in \<open>auto simp: handoffs_ok_def\<close>)
  moreover have "sorted_wrt (\<lambda>a b. hw_id a \<noteq> hw_id b \<and> \<not> (hw_tenant_id a = hw_tenant_id b
       \<and> hw_idempotency_key a \<noteq> None \<and> hw_idempotency_key a = hw_idempotency_key b)) (qd_handoffs db')"
    unfolding rows sorted_wrt_map
  proof (rule sorted_wrt_mono_rel [rotated])
    show "sorted_wrt (\<lambda>a b. hw_id a \<noteq> hw_id b \<and> \<not> (hw_tenant_id a = hw_tenant_id b
       \<and> hw_idempotency_key a \<noteq> None \<and> hw_idempotency_key a = hw_idempotency_key b)) (qd_handoffs d)"
      using ok by (simp add: handoffs_ok_def)
    have keep: "hw_id (if hw_id y = hid then x else y) = hw_id y" "hw_tenant_id (if hw_id y = hid then x else y) = hw_tenant_id y"
      "hw_idempotency_key (if hw_id y = hid then x else y) = hw_idempotency_key y" if "y \<in> set (qd_handoffs d)" for y
      using only [OF that] same by simp_all
    fix a b assume "a \<in> set (qd_handoffs d)" "b \<in> set (qd_handoffs d)"
      and "hw_id a \<noteq> hw_id b \<and> \<not> (hw_tenant_id a = hw_tenant_id b \<and> hw_idempotency_key a \<noteq> None
        \<and> hw_idempotency_key a = hw_idempotency_key b)"
    then show "hw_id (if hw_id a = hid then x else a) \<noteq> hw_id (if hw_id b = hid then x else b)
      \<and> \<not> (hw_tenant_id (if hw_id a = hid then x else a) = hw_tenant_id (if hw_id b = hid then x else b)
        \<and> hw_idempotency_key (if hw_id a = hid then x else a) \<noteq> None
        \<and> hw_idempotency_key (if hw_id a = hid then x else a) = hw_idempotency_key (if hw_id b = hid then x else b))"
      by (simp only: keep) simp
  qed
  ultimately show "handoffs_ok (qd_handoffs db')" using ok by (auto simp: handoffs_ok_def rows)
  show "follows h0 (qd_handoffs db')" if old: "follows h0 (qd_handoffs d)"
  proof -
    obtain g where g: "g \<in> set (qd_handoffs d)" "(hw_status h0, hw_status g) \<in> handoff_moves\<^sup>*"
      "g = h0\<lparr>hw_status := hw_status g, hw_assignee_id := hw_assignee_id g\<rparr>"
      using old unfolding follows_def by blast
    show ?thesis
    proof (cases "hw_id g = hid")
      case True
      then have "g = row" using only g(1) by simp
      then have "(hw_status h0, hw_status x) \<in> handoff_moves\<^sup>*"
        using g(2) act_on_case_moves(1) [OF h(2)] handoff_from_rowD [OF h(1)] by (auto simp: x intro: rtrancl_trans)
      moreover have "x = h0\<lparr>hw_status := hw_status x, hw_assignee_id := hw_assignee_id x\<rparr>"
        using g(3) \<open>g = row\<close> unfolding x by (cases row; cases h0) simp
      moreover have "x \<in> set (qd_handoffs db')" using True g(1) by (auto simp: rows)
      ultimately show ?thesis unfolding follows_def by blast
    next
      case False
      then have "g \<in> set (qd_handoffs db')" using g(1) by (auto simp: rows)
      then show ?thesis using g unfolding follows_def by blast
    qed
  qed
qed

interpretation handoff_rows: clocked_invariant exec_call
  "\<lambda>_ d. handoffs_ok (qd_handoffs d) \<and> (\<forall>h \<in> set hs0. follows h (qd_handoffs d))" for hs0
proof
  fix t t' :: int and d :: qualification_db and c
  let ?P = "\<lambda>d. handoffs_ok (qd_handoffs d) \<and> (\<forall>h \<in> set hs0. follows h (qd_handoffs d))"
  assume ok: "?P d"
  have added: "?P db'" if "qd_handoffs db' = qd_handoffs d @ hs" "length hs \<le> 1"
      "\<forall>h \<in> set hs. hw_status h = H_QUEUED \<and> hw_assignee_id h = None
        \<and> (\<forall>x \<in> set (qd_handoffs d). hw_id x \<noteq> hw_id h \<and> \<not> (hw_tenant_id x = hw_tenant_id h
           \<and> hw_idempotency_key h \<noteq> None \<and> hw_idempotency_key x = hw_idempotency_key h))" for db' hs
  proof (cases hs)
    case (Cons h rest)
    then have "hs = [h]" using that(2) by simp
    moreover have "handoff_ok h" using that(3) Cons by (simp add: handoff_ok_def)
    ultimately show ?thesis
      using ok that(1,3) handoffs_ok_append [of "qd_handoffs d" h] by (auto simp: follows_def)
  qed (use that ok in simp)
  show "?P (exec_call c t' d)"
  proof (rule exec_call_keeps [of ?P], rule ok)
    show "?P db'" if "complete who sid l sc tg t' key hid d = Inr (db', x)" for db' x who sid l sc tg key hid
      using complete_changes [OF that]
      by (elim disjE exE conjE) (use ok in simp, rule added, assumption, assumption, assumption)
    show "?P db'" if run: "create_or_get who reason prio summary ctx lead due key t' hid d = Inr (db', x)"
      for db' x who reason prio summary ctx lead due key hid
      using create_or_get_changes [OF run] ok by (elim disjE exE conjE) (simp, rule added [of _ "[x]"], auto)
    show "?P db'" if run: "transition_handoff t hid action actor t' d = Inr (db', x)" for db' x t hid action actor
      using transition_handoff_keeps [OF _ run] ok by blast
  qed (use ok in \<open>auto dest!: active_session_changes start_session_changes decide_consent_changes record_answer_changes
         review_changes cancel_session_changes add_schema_changes publish_schema_changes simp: only_sessions_def\<close>)
qed

lemma find_append: "find p (xs @ ys) = (case find p xs of None \<Rightarrow> find p ys | Some x \<Rightarrow> Some x)"
  by (induction xs) auto

section \<open>Examples\<close>

definition lead_who :: telegram_identity where
  "lead_who = \<lparr>ti_tenant_id = TenantId 1, ti_customer_id = CustomerId 1,
     ti_conversation_id = ConversationId 1, ti_locale = EN\<rparr>"

definition lead_conversation :: conversation_row where
  "lead_conversation = \<lparr>cw_id = ConversationId 1, cw_tenant_id = TenantId 1, cw_customer_id = CustomerId 1,
     cw_status = ACTIVE_BOT, cw_active_workflow = None\<rparr>"

definition lead_db :: qualification_db where
  "lead_db = \<lparr>qd_schemas = [row_of_schema urgent_schema], qd_sessions = [], qd_updates = [],
     qd_consents = [], qd_leads = [], qd_handoffs = [], qd_conversations = [lead_conversation],
     qd_profiles = [], qd_schedules = [], qd_events = [], qd_audit = []\<rparr>"

abbreviation session_id :: "uuid \<Rightarrow> qualification_session_id" where
  "session_id n \<equiv> QualificationSessionId n"

lemma urgent_row [simp]:
  "qx_id (row_of_schema urgent_schema) = QualificationSchemaId 7" "qx_tenant_id (row_of_schema urgent_schema) = TenantId 1"
  "qx_code (row_of_schema urgent_schema) = ''lead''" "qx_active (row_of_schema urgent_schema)"
  "qs_id urgent_schema = QualificationSchemaId 7" "qs_session_ttl urgent_schema = 1800000000"
  "qx_version (row_of_schema urgent_schema) = 1" "\<not> qx_published (row_of_schema urgent_schema)"
  by (simp_all add: row_of_schema_def urgent_schema_def minute_us_def)

lemma urgent_back [simp]: "schema_of_row (row_of_schema urgent_schema) = Inr urgent_schema"
  using schema_back [OF urgent_proper(1)] urgent_proper(2) by (cases urgent_schema) simp

lemma start_example:
  "exec_call (T_Start lead_who urgent_schema (session_id 1)) 0 lead_db =
     lead_db\<lparr>qd_sessions := [new_session_row lead_who urgent_schema 0 (session_id 1)],
       qd_conversations := [lead_conversation\<lparr>cw_active_workflow := Some (''qualification:'' @ uuid_str 1)\<rparr>]\<rparr>"
  by (simp add: start_session_def active_row_def start_new_def insert_session_def conversation_of_def
      session_of_row_def typed_answers_def set_conversation_def lead_db_def lead_who_def lead_conversation_def run_tx_def Let_def
      new_session_row_def)

lemma start_again_example:
  "exec_call (T_Start lead_who urgent_schema (session_id 2)) 60 (exec_call (T_Start lead_who urgent_schema (session_id 1)) 0 lead_db)
     = exec_call (T_Start lead_who urgent_schema (session_id 1)) 0 lead_db"
  unfolding start_example
  by (simp add: start_session_def active_row_def owned_by_def active_status_def new_session_row_def lead_who_def run_tx_def
      schema_row_of_def lead_db_def session_of_row_def typed_answers_def)

lemma run_two:
  "clocked_run exec_call d t1 (exec_call c2 t2 (exec_call c1 t1 d)) t2" if "t1 \<le> t2"
  using run_more [OF run_more [OF run_none order_refl] that] .

lemma run_one: "clocked_run exec_call d t (exec_call c t d) t"
  using run_more [OF run_none order_refl] .

lemma schema_of_row_published:
  assumes "schema_of_row r = Inr s"
  shows "schema_of_row (r\<lparr>qx_published := b\<rparr>) = Inr (s\<lparr>qs_published := b\<rparr>)"
proof -
  obtain fields bands x where x: "res_map field_of_json (qx_definition r) = Inr fields"
      "res_map grade_band_of_json (qx_grade_bands r) = Inr bands"
      "x = \<lparr>qs_id = qx_id r, qs_tenant_id = qx_tenant_id r, qs_code = qx_code r,
       qs_version = qx_version r, qs_title = qx_title r, qs_consent_version = qx_consent_version r,
       qs_consent_purpose = qx_consent_purpose r, qs_fields = fields, qs_grade_bands = bands,
       qs_session_ttl = qx_session_ttl_minutes r * minute_us,
       qs_handoff_response_minutes = qx_handoff_response_minutes r,
       qs_published = qx_published r, qs_active = qx_active r\<rparr>" "schema_post_init x = Inr s"
    using assms by (auto simp: schema_of_row_def res_bind_Inr_iff)
  have "s = x" using schema_bands(1) [OF x(4)] .
  then show ?thesis
    using schema_post_init_published [of x b] x(4) unfolding x(3)
    by (simp add: schema_of_row_def x(1,2))
qed

section \<open>Properties\<close>

text \<open>
  C32. Whatever the stores do, in any order and interleaving, a customer never has two active
  qualification sessions in a conversation.
\<close>

theorem one_active_session:
  assumes "clocked_run exec_call d t d' t'" and "sessions_ok (qd_sessions d)"
    and "a \<in> set (qd_sessions d')" and "b \<in> set (qd_sessions d')" and "owner_of a = owner_of b"
    and "active_status (qw_status a)" and "active_status (qw_status b)"
  shows "a = b"
  using sessions_ok_same [OF session_rows.run_keeps [OF assms(1,2)] assms(3,4)] assms(5-7)
  by (simp add: sessions_clash_def)

theorem one_active_session_witness:
  "let d' = exec_call (T_Start lead_who urgent_schema (session_id 2)) 60 (exec_call (T_Start lead_who urgent_schema (session_id 1)) 0 lead_db)
   in hd (qd_sessions d') = last (qd_sessions d') \<and> map qw_id (qd_sessions d') = [session_id 1]"
proof -
  let ?d = "exec_call (T_Start lead_who urgent_schema (session_id 2)) 60 (exec_call (T_Start lead_who urgent_schema (session_id 1)) 0 lead_db)"
  have s: "qd_sessions ?d = [new_session_row lead_who urgent_schema 0 (session_id 1)]"
    by (subst start_again_example, subst start_example) simp
  have "hd (qd_sessions ?d) = last (qd_sessions ?d)"
    by (rule one_active_session [OF run_two [of 0 60 lead_db "T_Start lead_who urgent_schema (session_id 2)" "T_Start lead_who urgent_schema (session_id 1)"]])
      (simp_all only: s, simp_all add: lead_db_def sessions_ok_def active_status_def new_session_row_def)
  then show ?thesis using s by (simp add: Let_def new_session_row_def)
qed

text \<open>
  Whatever the stores do, a tenant never has two published active versions of one
  qualification schema, so the one a customer is asked about is determined.
\<close>

theorem one_published_schema:
  assumes "clocked_run exec_call d t d' t'" and "schemas_ok (qd_schemas d)"
    and "a \<in> set (qd_schemas d')" and "b \<in> set (qd_schemas d')"
    and "qx_tenant_id a = qx_tenant_id b" and "qx_code a = qx_code b"
    and "qx_published a" "qx_active a" "qx_published b" "qx_active b"
  shows "a = b"
  using schemas_ok_same [OF schema_rows.run_keeps [OF assms(1,2)] assms(3,4)] assms(5-10)
  by (simp add: schema_rows_clash_def)

definition old_version :: schema_row where
  "old_version = (row_of_schema urgent_schema)\<lparr>qx_id := QualificationSchemaId 6, qx_version := 0, qx_published := True\<rparr>"

lemma publish_example:
  "qd_schemas (exec_call (T_Publish (TenantId 1) (QualificationSchemaId 7)) 1 (lead_db\<lparr>qd_schemas := [old_version, row_of_schema urgent_schema]\<rparr>))
     = [old_version\<lparr>qx_published := False\<rparr>, (row_of_schema urgent_schema)\<lparr>qx_published := True\<rparr>]"
proof -
  have "schema_of_row ((row_of_schema urgent_schema)\<lparr>qx_published := True\<rparr>) = Inr (urgent_schema\<lparr>qs_published := True\<rparr>)"
    using urgent_back by (rule schema_of_row_published)
  then show ?thesis by (simp add: publish_schema_def run_tx_def Let_def old_version_def)
qed

theorem one_published_schema_witness:
  "let d' = exec_call (T_Publish (TenantId 1) (QualificationSchemaId 7)) 1 (lead_db\<lparr>qd_schemas := [old_version, row_of_schema urgent_schema]\<rparr>)
   in last (qd_schemas d') = hd (rev (qd_schemas d')) \<and> map qx_published (qd_schemas d') = [False, True]"
proof -
  let ?d = "exec_call (T_Publish (TenantId 1) (QualificationSchemaId 7)) 1 (lead_db\<lparr>qd_schemas := [old_version, row_of_schema urgent_schema]\<rparr>)"
  have "last (qd_schemas ?d) = hd (rev (qd_schemas ?d))"
    by (rule one_published_schema [OF run_one [of "lead_db\<lparr>qd_schemas := [old_version, row_of_schema urgent_schema]\<rparr>" 1 "T_Publish (TenantId 1) (QualificationSchemaId 7)"]])
      (simp_all only: publish_example, simp_all add: schemas_ok_def old_version_def schema_rows_clash_def)
  then show ?thesis by (simp only: Let_def publish_example) simp
qed

text \<open>
  An update key is processed once for a tenant, a session has one consent decision, an
  escalation key one case, and an event is published under its name once.
\<close>

theorem requests_once:
  assumes "clocked_run exec_call d t d' t'" and "keys_ok d" and "handoffs_ok (qd_handoffs d)"
  shows "distinct (map (\<lambda>u. (up_tenant_id u, up_key u)) (qd_updates d'))
    \<and> distinct (map (\<lambda>c. (cn_tenant_id c, cn_session_id c)) (qd_consents d'))
    \<and> distinct (map ob_name (qd_events d'))
    \<and> sorted_wrt (\<lambda>a b. \<not> (hw_tenant_id a = hw_tenant_id b \<and> hw_idempotency_key a \<noteq> None
          \<and> hw_idempotency_key a = hw_idempotency_key b)) (qd_handoffs d')"
  using request_keys.run_keeps [OF assms(1,2)] handoff_rows.run_keeps [OF assms(1), of "[]"] assms(3)
  by (auto simp: keys_ok_def handoffs_ok_def elim: sorted_wrt_mono_rel [rotated])

definition request_example :: "string \<Rightarrow> uuid \<Rightarrow> store_call" where
  "request_example key n = T_Request lead_who ''help'' ''normal'' ''Needs a person'' [] None (utc_datetime 0) key (HandoffId n)"

lemma request_example_twice:
  "map hw_idempotency_key (qd_handoffs (exec_call (request_example ''b'' 2) 60 (exec_call (request_example ''a'' 1) 0 lead_db))) = [Some ''a'']"
  by (simp add: request_example_def create_or_get_def run_tx_def lead_db_def lead_who_def insert_handoff_def conversation_of_def
      lead_conversation_def emit_def add_event_def set_conversation_def open_handoff_status_def Let_def)

theorem requests_once_witness:
  "let d' = exec_call (request_example ''b'' 2) 60 (exec_call (request_example ''a'' 1) 0 lead_db)
   in distinct (map ob_name (qd_events d')) \<and> map hw_idempotency_key (qd_handoffs d') = [Some ''a'']"
proof -
  let ?d = "exec_call (request_example ''b'' 2) 60 (exec_call (request_example ''a'' 1) 0 lead_db)"
  have "distinct (map ob_name (qd_events ?d))"
    using requests_once [OF run_two, of 0 60 lead_db] by (simp add: lead_db_def keys_ok_def handoffs_ok_def)
  then show ?thesis using request_example_twice by (simp add: Let_def)
qed


definition open_case :: handoff_row where
  "open_case = \<lparr>hw_id = HandoffId 5, hw_tenant_id = TenantId 1, hw_customer_id = Some (CustomerId 1),
     hw_conversation_id = ConversationId 1, hw_lead_id = None, hw_reason_code = ''help'', hw_priority = ''normal'',
     hw_status = H_QUEUED, hw_assignee_id = None, hw_summary = ''Needs a person'', hw_context = [],
     hw_idempotency_key = Some ''k'', hw_response_due_at = utc_datetime 0\<rparr>"

lemma claim_example:
  "qd_handoffs (exec_call (T_Transition (TenantId 1) (HandoffId 5) CLAIM ''ann'') 0 (lead_db\<lparr>qd_handoffs := [open_case]\<rparr>))
     = [open_case\<lparr>hw_status := H_CLAIMED, hw_assignee_id := Some ''ann''\<rparr>]"
proof -
  have "\<not> blank ''help''" "\<not> blank ''Needs a person''" "\<not> blank ''ann''" by code_simp+
  then show ?thesis
    by (simp add: transition_handoff_def run_tx_def lead_db_def open_case_def handoff_from_row_def member_of_def priorities_def
        handoff_post_init_def ensure_aware_def aware_def utc_datetime_def conversation_of_def lead_conversation_def act_on_case_def
        handoff_transition_to_def set_conversation_def Let_def)
qed


lemma locked_put:
  assumes "locked_session db who sid = Inr (r, schema)" and "qw_id r' = qw_id r" "owner_of r' = owner_of r"
    and "qw_schema_id r' = qw_schema_id r" and "qd_sessions db' = put_rows r' (qd_sessions db)"
    and "qd_schemas db' = qd_schemas db"
  shows "locked_session db' who sid = Inr (r', schema)"
proof -
  have f: "first_where (\<lambda>x. owned_by who x \<and> qw_id x = sid) (qd_sessions db) = Some r"
    using assms(1) by (auto simp: locked_session_def res_bind_Inr_iff split: option.splits)
  have own: "owned_by who r'" "qw_id r' = sid"
    using locked_sessionD [OF assms(1)] assms(2,3) by (auto simp: owned_by_def)
  have "first_where (\<lambda>x. owned_by who x \<and> qw_id x = sid) (put_rows r' ss) = Some r'"
    if "first_where (\<lambda>x. owned_by who x \<and> qw_id x = sid) ss = Some r" for ss
    using that own by (induction ss) (auto split: if_splits)
  then show ?thesis
    using locked_sessionD(4) [OF assms(1)] f assms(4-6)
    by (simp add: locked_session_def schema_row_of_def)
qed

text \<open>
  Repeating a recorded answer with the same update key, whatever answer it carries, returns
  the same session and changes nothing.
\<close>

theorem answer_retry_same:
  assumes "record_answer who sid k a now key db = Inr (db', s)"
  shows "record_answer who sid k' a' now' key db' = Inr (db', s)"
proof -
  obtain r schema dup where l: "locked_session db who sid = Inr (r, schema)"
    and dup: "is_duplicate db (ti_tenant_id who) (qw_id r) key = Inr dup"
    using assms by (auto simp: record_answer_def res_bind_Inr_iff)
  show ?thesis
  proof (cases dup)
    case True
    then show ?thesis using assms l dup by (auto simp: record_answer_def res_bind_Inr_iff)
  next
    case False
    then obtain typed where
      u: "record_update (ti_tenant_id who) (qw_id r) key ''answer'' now
        (put_session (answered_row schema (dict_set k (stored_answer a) (qw_answers r)) typed r) db) = Inr db'"
      and s: "session_of_row (answered_row schema (dict_set k (stored_answer a) (qw_answers r)) typed r) schema = Inr s"
      using assms l dup by (auto simp: record_answer_def Let_def res_bind_Inr_iff split: if_splits)
    let ?r = "answered_row schema (dict_set k (stored_answer a) (qw_answers r)) typed r"
    have l': "locked_session db' who sid = Inr (?r, schema)"
      by (rule locked_put [OF l]) (use u in \<open>auto simp: record_update_Inr\<close>)
    have "is_duplicate db' (ti_tenant_id who) (qw_id ?r) key = Inr True"
      using u by (auto simp: record_update_Inr is_duplicate_def find_append image_iff split: option.splits dest!: find_SomeD)
    then show ?thesis using l' s by (simp add: record_answer_def)
  qed
qed

definition answer_db :: qualification_db where
  "answer_db = lead_db\<lparr>qd_sessions := [(new_session_row lead_who urgent_schema 0 (session_id 1))
     \<lparr>qw_status := S_IN_PROGRESS, qw_current_field_key := Some ''urgent'', qw_consent_decision := Some ACCEPTED,
      qw_consent_at := Some 0\<rparr>],
     qd_consents := [\<lparr>cn_tenant_id = TenantId 1, cn_session_id = session_id 1, cn_customer_id = CustomerId 1,
       cn_decision = ACCEPTED, cn_consent_version = ''1'', cn_purpose = ''Contact'', cn_decided_at = 0\<rparr>]\<rparr>"

lemma urgent_typed [simp]:
  "typed_answers urgent_schema [] = Inr []"
  "typed_answers urgent_schema [(''urgent'', JStr t)] = Inr [(''urgent'', AStr t)]"
  by (simp_all add: typed_answers_def field_type_of_def urgent_schema_def urgent_field_def answer_of_json_def py_str_def)

lemma answer_example:
  "\<exists>db' s. record_answer lead_who (session_id 1) ''urgent'' (AStr ''yes'') 5 ''u'' answer_db = Inr (db', s)"
  by (simp add: record_answer_def locked_session_def answer_db_def lead_db_def owned_by_def lead_who_def new_session_row_def
      schema_row_of_def is_duplicate_def stored_answer_def record_update_def session_of_row_def answered_row_def Let_def)

theorem answer_retry_same_witness:
  "\<exists>db' s. record_answer lead_who (session_id 1) ''urgent'' (AStr ''yes'') 5 ''u'' answer_db = Inr (db', s)
     \<and> record_answer lead_who (session_id 1) ''urgent'' (AStr ''no'') 9 ''u'' db' = Inr (db', s)"
proof -
  obtain db' s where r: "record_answer lead_who (session_id 1) ''urgent'' (AStr ''yes'') 5 ''u'' answer_db = Inr (db', s)"
    using answer_example by blast
  show ?thesis using r answer_retry_same [OF r] by blast
qed

text \<open>
  Repeating an escalation request returns the same case and changes nothing; a request
  adds a case only when the conversation has none open.
\<close>

theorem handoff_request_same:
  assumes "create_or_get who reason prio summary ctx lead due key now hid db = Inr (db', h)"
  shows "create_or_get who reason' prio' summary' ctx' lead' due' key now' hid' db' = Inr (db', h)
    \<and> (db' \<noteq> db \<longrightarrow> (\<forall>x \<in> set (qd_handoffs db). \<not> (hw_tenant_id x = ti_tenant_id who
          \<and> hw_conversation_id x = ti_conversation_id who \<and> open_handoff_status (hw_status x))))"
proof (cases "first_where (\<lambda>h. hw_tenant_id h = ti_tenant_id who \<and> hw_idempotency_key h = Some key) (qd_handoffs db)")
  case (Some g)
  then show ?thesis using assms by (simp add: create_or_get_def)
next
  case none: None
  show ?thesis
  proof (cases "first_where (\<lambda>h. hw_tenant_id h = ti_tenant_id who \<and> hw_conversation_id h = ti_conversation_id who
      \<and> open_handoff_status (hw_status h)) (qd_handoffs db)")
    case (Some g)
    then show ?thesis using assms none by (simp add: create_or_get_def)
  next
    case None
    obtain e where "qd_events db' = qd_events db @ [e]"
      using assms none None by (auto simp: create_or_get_def Let_def res_bind_Inr_iff written split: option.splits if_splits)
    then have "db' \<noteq> db" by auto
    then have h: "hw_idempotency_key h = Some key" "hw_tenant_id h = ti_tenant_id who" and new: "qd_handoffs db' = qd_handoffs db @ [h]"
      using create_or_get_changes [OF assms] by auto
    have "first_where (\<lambda>x. hw_tenant_id x = ti_tenant_id who \<and> hw_idempotency_key x = Some key) (qd_handoffs db') = Some h"
      using h none by (simp add: new find_append)
    then show ?thesis using None by (auto simp: create_or_get_def find_None_iff)
  qed
qed

theorem handoff_request_same_witness:
  "\<exists>db' h. create_or_get lead_who ''help'' ''normal'' ''Needs a person'' [] None (utc_datetime 0) ''a'' 0 (HandoffId 1) lead_db = Inr (db', h)
     \<and> create_or_get lead_who ''other'' ''high'' ''Still waiting'' [] None (utc_datetime 9) ''a'' 9 (HandoffId 2) db' = Inr (db', h)"
proof -
  obtain db' h where r: "create_or_get lead_who ''help'' ''normal'' ''Needs a person'' [] None (utc_datetime 0) ''a'' 0 (HandoffId 1) lead_db = Inr (db', h)"
    by (simp add: create_or_get_def lead_db_def lead_who_def insert_handoff_def conversation_of_def
        lead_conversation_def emit_def add_event_def set_conversation_def open_handoff_status_def Let_def)
  show ?thesis using r handoff_request_same [OF r] by blast
qed

end
