(* ===== verification/QualificationUse.thy ===== *)
theory QualificationUse
  imports QualificationRuns
begin

text \<open>
  Runs of the use cases of \<open>application/leads/service.py\<close> and \<open>application/handoffs/service.py\<close>, one
  after the other. The locale \<open>session_invariant\<close> states what an invariant of the sessions has to
  survive; its interpretations give the consent and the end of a session.
\<close>

section \<open>Use cases\<close>

datatype app_call =
    A_Start string telegram_identity qualification_session_id
  | A_Active telegram_identity
  | A_Consent telegram_identity qualification_session_id bool string
  | A_Answer telegram_identity string string
  | A_Edit telegram_identity qualification_session_id string
  | A_Submit telegram_identity qualification_session_id string lead_id handoff_id
  | A_Cancel telegram_identity
  | A_Add_Schema principal qualification_schema
  | A_Publish principal qualification_schema_id
  | A_Request int telegram_identity string string string string "(string, json) dict" "lead_id option" handoff_id
  | A_Staff principal handoff_id string

fun exec_app :: "regex \<Rightarrow> app_call \<Rightarrow> instant \<Rightarrow> qualification_db \<Rightarrow> qualification_db" where
  "exec_app rx (A_Start c who i) now db = fst (app_start c who now i db)"
| "exec_app rx (A_Active who) now db = fst (app_active who now db)"
| "exec_app rx (A_Consent who sid accepted key) now db = fst (app_consent who sid accepted now key db)"
| "exec_app rx (A_Answer who text key) now db = fst (app_answer rx who text now key db)"
| "exec_app rx (A_Edit who sid field_key) now db = fst (app_edit who sid field_key now db)"
| "exec_app rx (A_Submit who sid key lid hid) now db = fst (app_submit who sid now key lid hid db)"
| "exec_app rx (A_Cancel who) now db = fst (app_cancel who db)"
| "exec_app rx (A_Add_Schema p s) now db = fst (admin_add_schema p s db)"
| "exec_app rx (A_Publish p sid) now db = fst (admin_publish p sid db)"
| "exec_app rx (A_Request minutes who reason prio summary key context lead hid) now db =
     fst (request_handoff minutes who reason prio summary key context lead now hid db)"
| "exec_app rx (A_Staff p hid action) now db = fst (staff_transition p hid action now db)"

lemma session_of_row_same:
  "session_of_row r schema = Inr s \<Longrightarrow> qn_id s = qw_id r \<and> qn_consent_at s = qw_consent_at r
     \<and> qn_consent_decision s = qw_consent_decision r \<and> qn_status s = qw_status r
     \<and> qn_current_field_key s = qw_current_field_key r"
  by (auto simp: session_of_row_def res_bind_Inr_iff)

lemma app_active_Some:
  assumes "app_active who now db = (db', Inr (Some (s, schema)))"
  shows "db' = db \<and> (\<exists>r sch. active_row db who = Some r \<and> now < qw_expires_at r \<and> session_of_row r sch = Inr s)"
proof -
  obtain d1 where a: "active_session who now db = Inr (d1, Some s)"
    and g: "run_tx (get_schema (ti_tenant_id who) (qn_schema_id s)) d1 = (db', Inr (Some schema))"
    using assms unfolding app_active_def
    by (auto simp: act_bind_def act_return_def run_tx_def split: sum.splits option.splits if_splits prod.splits)
  have "d1 = db" using active_session_changes [OF a] by auto
  moreover have "db' = d1"
    using g by (auto simp: run_tx_def get_schema_def res_bind_Inr_iff split: sum.splits option.splits)
  ultimately show ?thesis using active_session_changes [OF a] by auto
qed

lemma act_keeps_fst: "act_keeps P m \<Longrightarrow> P d \<Longrightarrow> P (fst (m d))"
  by (simp add: act_keeps_def)

lemma as_handoff_error_keeps: "act_keeps P m \<Longrightarrow> act_keeps P (as_handoff_error m)"
  by (auto simp: act_keeps_def as_handoff_error_def split: prod.splits sum.splits)

lemma read_keeps:
  "act_keeps P (run_tx (published_schema t c))" "act_keeps P (run_tx (get_schema t sid))"
  "act_keeps P (run_tx (handoff_schedule t))"
  by (auto intro!: run_tx_keeps simp: published_schema_def get_schema_def handoff_schedule_def res_bind_Inr_iff
      split: option.splits)

text \<open>
  What an invariant of the sessions has to survive, one use case after the other: the transactions
  as the use cases call them, an edit and a submission only of a session that is still active, a
  submission only after consent.
\<close>

locale session_invariant =
  fixes P :: "qualification_db \<Rightarrow> bool"
  assumes when_read: "P d \<Longrightarrow> active_session who now d = Inr (d', s) \<Longrightarrow> P d'"
    and when_started: "P d \<Longrightarrow> start_session who schema now i d = Inr (d', s1) \<Longrightarrow> P d'"
    and when_decided: "P d \<Longrightarrow> decide_consent who sid decision now key d = Inr (d', s1) \<Longrightarrow> P d'"
    and when_answered: "P d \<Longrightarrow> record_answer who sid k a now key d = Inr (d', s1) \<Longrightarrow> P d'"
    and when_edited: "P d \<Longrightarrow> active_row d who = Some r \<Longrightarrow> review who (qw_id r) f d = Inr (d', s1) \<Longrightarrow> P d'"
    and when_submitted: "P d \<Longrightarrow> active_row d who = Some r \<Longrightarrow> qw_consent_at r \<noteq> None
      \<Longrightarrow> complete who (qw_id r) lead score trigger now key hid d = Inr (d', s1) \<Longrightarrow> P d'"
    and when_cancelled: "P d \<Longrightarrow> cancel_session who d = Inr (d', b) \<Longrightarrow> P d'"
    and elsewhere: "P d \<Longrightarrow> qd_sessions d' = qd_sessions d \<Longrightarrow> qd_consents d' = qd_consents d \<Longrightarrow> P d'"
begin

lemma app_active_keeps: "act_keeps P (app_active who now)"
  unfolding app_active_def
  by (rule act_keeps_intros(3) [OF run_tx_keeps [OF when_read]], assumption, assumption)
    (auto intro: act_keeps_intros read_keeps split: option.splits)

lemma app_edit_keeps: "P d \<Longrightarrow> P (fst (app_edit who sid k now d))"
proof -
  assume P: "P d"
  obtain d1 res where a: "app_active who now d = (d1, res)" by (cases "app_active who now d")
  have P1: "P d1" using act_keeps_fst [OF app_active_keeps P, of who now] a by simp
  show ?thesis
  proof (cases "\<exists>s schema. res = Inr (Some (s, schema))")
    case True
    then obtain s schema where res: "res = Inr (Some (s, schema))" by blast
    then obtain r where r: "d1 = d" "active_row d who = Some r" "qn_id s = qw_id r"
      using app_active_Some [OF a [unfolded res]] session_of_row_same by blast
    have "P (fst (run_tx (review who (qw_id r) f) d))" for f
      by (rule run_tx_inv [of P]) (rule P, rule when_edited [OF P r(2)])
    then show ?thesis using a res r P
      by (auto simp: app_edit_def act_bind_def act_return_def split: option.splits prod.splits sum.splits) (metis fst_conv)+
  next
    case False
    then show ?thesis using a P1
      by (auto simp: app_edit_def act_bind_def split: option.splits sum.splits)
  qed
qed

lemma build_lead_consent: "build_lead who schema s score now lid = Inr lead \<Longrightarrow> qn_consent_at s \<noteq> None"
  by (auto simp: build_lead_def res_bind_Inr_iff split: option.splits)

lemma app_submit_keeps: "P d \<Longrightarrow> P (fst (app_submit who sid now key lid hid d))"
proof -
  assume P: "P d"
  obtain d1 res where a: "app_active who now d = (d1, res)" by (cases "app_active who now d")
  have P1: "P d1" using act_keeps_fst [OF app_active_keeps P, of who now] a by simp
  show ?thesis
  proof (cases "\<exists>s schema. res = Inr (Some (s, schema))")
    case True
    then obtain s schema where res: "res = Inr (Some (s, schema))" by blast
    then obtain r where r: "d1 = d" "active_row d who = Some r" "qn_id s = qw_id r" "qn_consent_at s = qw_consent_at r"
      using app_active_Some [OF a [unfolded res]] session_of_row_same by blast
    have kept: "P (fst (run_tx (complete who (qw_id r) lead sc trigger now key hid) d))"
      if "qw_consent_at r \<noteq> None" for lead sc trigger
      by (rule run_tx_inv [of P]) (rule P, rule when_submitted [OF P r(2) that])
    show ?thesis
      using a res r P kept build_lead_consent
      by (auto simp: app_submit_def act_bind_def act_res_def split: prod.splits sum.splits if_splits) (metis fst_conv)+
  next
    case False
    then show ?thesis using a P1
      by (auto simp: app_submit_def act_bind_def split: option.splits sum.splits)
  qed
qed

lemma other_tables:
  "P d \<Longrightarrow> add_schema s d = Inr (d', x1) \<Longrightarrow> P d'"
  "P d \<Longrightarrow> publish_schema t sid d = Inr (d', x2) \<Longrightarrow> P d'"
  "P d \<Longrightarrow> create_or_get who reason prio summary ctx lead due key now hid d = Inr (d', x3) \<Longrightarrow> P d'"
  "P d \<Longrightarrow> transition_handoff t hid action actor now d = Inr (d', x4) \<Longrightarrow> P d'"
  using elsewhere [of d d'] by (auto dest!: add_schema_changes publish_schema_changes create_or_get_changes transition_handoff_changes)

lemma exec_app_keeps: "P d \<Longrightarrow> P (exec_app rx c now d)"
proof (cases c)
  case (A_Start sc who i)
  have "act_keeps P (app_start sc who now i)" unfolding app_start_def
    by (intro act_keeps_intros(3) run_tx_keeps [OF when_read] read_keeps)
      (auto intro!: act_keeps_intros run_tx_keeps [OF when_started] split: option.splits)
  then show "P d \<Longrightarrow> ?thesis" by (simp add: A_Start act_keeps_fst)
next
  case (A_Active who)
  then show "P d \<Longrightarrow> ?thesis" by (simp add: act_keeps_fst [OF app_active_keeps])
next
  case (A_Consent who sid accepted key)
  have "act_keeps P (app_consent who sid accepted now key)" unfolding app_consent_def
    by (intro act_keeps_intros run_tx_keeps [OF when_decided] app_active_keeps)
  then show "P d \<Longrightarrow> ?thesis" by (simp add: A_Consent act_keeps_fst)
next
  case (A_Answer who words key)
  have "act_keeps P (app_answer rx who words now key)" unfolding app_answer_def
    by (intro act_keeps_intros(3) app_active_keeps)
      (auto intro!: act_keeps_intros run_tx_keeps [OF when_answered] split: option.splits)
  then show "P d \<Longrightarrow> ?thesis" by (simp add: A_Answer act_keeps_fst)
next
  case (A_Edit who sid k)
  then show "P d \<Longrightarrow> ?thesis" by (simp add: app_edit_keeps)
next
  case (A_Submit who sid key lid hid)
  then show "P d \<Longrightarrow> ?thesis" by (simp add: app_submit_keeps)
next
  case (A_Cancel who)
  have "act_keeps P (app_cancel who)" unfolding app_cancel_def by (rule run_tx_keeps [OF when_cancelled])
  then show "P d \<Longrightarrow> ?thesis" by (simp add: A_Cancel act_keeps_fst)
next
  case (A_Add_Schema p s)
  have "act_keeps P (admin_add_schema p s)" unfolding admin_add_schema_def
    by (auto intro!: act_keeps_intros run_tx_keeps [OF other_tables(1)])
  then show "P d \<Longrightarrow> ?thesis" by (simp add: A_Add_Schema act_keeps_fst)
next
  case (A_Publish p s)
  have "act_keeps P (admin_publish p s)" unfolding admin_publish_def
    by (intro act_keeps_intros run_tx_keeps [OF other_tables(2)])
  then show "P d \<Longrightarrow> ?thesis" by (simp add: A_Publish act_keeps_fst)
next
  case (A_Request minutes who reason prio summary key ctx lead hid)
  have "act_keeps P (request_handoff minutes who reason prio summary key ctx lead now hid)"
    unfolding request_handoff_def
    by (intro act_keeps_intros(2,3) read_keeps as_handoff_error_keeps run_tx_keeps [OF other_tables(3)])
  then show "P d \<Longrightarrow> ?thesis" by (simp add: A_Request act_keeps_fst)
next
  case (A_Staff p hid action)
  have "act_keeps P (staff_transition p hid action now)" unfolding staff_transition_def
    by (intro act_keeps_intros(2,3))
      (auto intro!: act_keeps_intros(2) as_handoff_error_keeps run_tx_keeps [OF other_tables(4)] split: option.splits)
  then show "P d \<Longrightarrow> ?thesis" by (simp add: A_Staff act_keeps_fst)
qed

end

lemma complete_session:
  assumes "complete who sid lead score trigger now key hid db = Inr (db', s)"
  shows "db' = db \<or> (\<exists>r schema lid. locked_session db who sid = Inr (r, schema) \<and> qw_status r = S_REVIEWING
    \<and> qd_sessions db' = put_rows (r\<lparr>qw_status := S_COMPLETED, qw_lead_id := Some lid\<rparr>) (qd_sessions db)
    \<and> qd_consents db' = qd_consents db)"
  using complete_changes [OF assms]
  by (elim disjE exE conjE) (simp, intro disjI2 exI conjI, assumption+)

section \<open>Consent\<close>

text \<open>
  A decision is recorded with the session and in the consent table; a declined session stays
  declined, and only a decided one is completed.
\<close>

definition session_consent :: "consent_row list \<Rightarrow> session_row \<Rightarrow> bool" where
  "session_consent cs r =
     ((qw_consent_decision r = None \<longleftrightarrow> qw_consent_at r = None)
      \<and> (qw_consent_decision r = Some DECLINED \<longrightarrow> qw_status r = S_DECLINED)
      \<and> (qw_status r = S_COMPLETED \<longrightarrow> qw_consent_decision r \<noteq> None)
      \<and> (\<forall>dec at_time. qw_consent_decision r = Some dec \<and> qw_consent_at r = Some at_time \<longrightarrow>
           (\<exists>c \<in> set cs. cn_tenant_id c = qw_tenant_id r \<and> cn_session_id c = qw_id r
              \<and> cn_decision c = dec \<and> cn_decided_at c = at_time)))"

definition consent_ok :: "qualification_db \<Rightarrow> bool" where
  "consent_ok d = (sessions_ok (qd_sessions d) \<and> (\<forall>r \<in> set (qd_sessions d). session_consent (qd_consents d) r))"

lemma consent_ok_put:
  assumes "consent_ok d" "r0 \<in> set (qd_sessions d)" "qw_id r = qw_id r0" "owner_of r = owner_of r0"
    and "active_status (qw_status r) \<Longrightarrow> active_status (qw_status r0)" "session_consent (qd_consents d') r"
    and "qd_sessions d' = map (\<lambda>x. if qw_id x = qw_id r0 then r else x) (qd_sessions d)"
    and "set (qd_consents d) \<subseteq> set (qd_consents d')"
  shows "consent_ok d'"
proof -
  have "session_consent (qd_consents d') x" if "session_consent (qd_consents d) x" for x
    using that assms(8) by (fastforce simp: session_consent_def)
  moreover have "sessions_ok (qd_sessions d')"
    using sessions_ok_move [of "qd_sessions d" r0 r] assms(1-5,7) by (simp add: consent_ok_def)
  ultimately show ?thesis using assms(1,6,7) by (auto simp: consent_ok_def)
qed

lemma active_consent:
  assumes "session_consent cs r" "active_status (qw_status r)"
  shows "qw_consent_decision r \<noteq> Some DECLINED"
  using assms by (auto simp: session_consent_def active_status_def)

lemma active_row_consent:
  assumes "consent_ok d" "active_row d who = Some r"
  shows "r \<in> set (qd_sessions d)" "session_consent (qd_consents d) r" "active_status (qw_status r)"
    "qw_consent_decision r \<noteq> Some DECLINED"
  using assms active_rowD [OF assms(2)] active_consent by (auto simp: consent_ok_def)

text \<open>Ending an active session, and any change that keeps the decision, keeps \<open>session_consent\<close>.\<close>

lemma session_consent_change:
  assumes "session_consent cs r" "qw_consent_decision r \<noteq> Some DECLINED" "qw_id r' = qw_id r" "qw_tenant_id r' = qw_tenant_id r"
    "qw_consent_decision r' = qw_consent_decision r" "qw_consent_at r' = qw_consent_at r"
    "qw_status r' = S_COMPLETED \<Longrightarrow> qw_consent_decision r \<noteq> None"
  shows "session_consent cs r'"
  using assms unfolding session_consent_def by simp

lemma row_same_consent [simp]:
  "qw_consent_decision (expire_row r) = qw_consent_decision r" "qw_consent_at (expire_row r) = qw_consent_at r"
  "qw_consent_decision (answered_row schema js typed r) = qw_consent_decision r"
  "qw_consent_at (answered_row schema js typed r) = qw_consent_at r"
  by (simp_all add: expire_row_def answered_row_def Let_def)

interpretation consent: session_invariant consent_ok
proof
  fix d d' :: qualification_db and who :: telegram_identity and now
  show "consent_ok d'" if ok: "consent_ok d" and run: "active_session who now d = Inr (d', s)" for s
    using active_session_changes [OF run]
  proof (elim disjE exE conjE)
    fix r assume r: "active_row d who = Some r" "qd_sessions d' = put_rows (expire_row r) (qd_sessions d)"
      and o: "only_sessions d d'"
    note a = active_row_consent [OF ok r(1)]
    have "session_consent (qd_consents d') (expire_row r)"
      by (rule session_consent_change [of _ r]) (use a o in \<open>simp_all add: only_sessions_def\<close>)
    then show ?thesis
      by (rule consent_ok_put [OF ok a(1), rotated 3]) (use a o r in \<open>simp_all add: only_sessions_def active_status_def\<close>)
  qed (use ok in simp_all)
  show "consent_ok d'" if ok: "consent_ok d" and run: "start_session who schema now i d = Inr (d', s)" for schema i s
  proof (cases "d' = d")
    case False
    let ?r = "new_session_row who schema now i"
    obtain ss where ss: "ss = qd_sessions d \<or> (\<exists>e. active_row d who = Some e \<and> ss = put_rows (expire_row e) (qd_sessions d))"
      and new: "\<forall>x \<in> set ss. qw_id x \<noteq> i \<and> \<not> sessions_clash ?r x" "qd_sessions d' = ss @ [?r]"
      and o: "only_sessions d d'"
      using start_session_changes [OF run] False by blast
    have "consent_ok (d\<lparr>qd_sessions := ss\<rparr>)" using ss
    proof (elim disjE exE conjE)
      fix e assume e: "active_row d who = Some e" "ss = put_rows (expire_row e) (qd_sessions d)"
      note a = active_row_consent [OF ok e(1)]
      have "session_consent (qd_consents d) (expire_row e)"
        by (rule session_consent_change [of _ e]) (use a in simp_all)
      then show ?thesis
        by (intro consent_ok_put [OF ok a(1), of "expire_row e"]) (use e in \<open>simp_all add: active_status_def\<close>)
    qed (use ok in simp)
    moreover have "session_consent cs ?r" "qw_id ?r = i" for cs by (simp_all add: session_consent_def new_session_row_def)
    ultimately show ?thesis using new o sessions_ok_insert [of ss ?r]
      by (auto simp: consent_ok_def only_sessions_def)
  qed (use ok in simp)
  show "consent_ok d'" if ok: "consent_ok d" and run: "decide_consent who sid dec now key d = Inr (d', s)" for sid dec key s
    using decide_consent_changes [OF run]
  proof (elim disjE exE conjE)
    fix r schema c
    assume l: "locked_session d who sid = Inr (r, schema)" and st: "qw_status r = S_AWAITING_CONSENT"
      and rows: "qd_sessions d' = put_rows (decided_row schema dec now r) (qd_sessions d)"
      and c: "cn_tenant_id c = ti_tenant_id who" "cn_session_id c = sid" "cn_decision c = dec" "cn_decided_at c = now"
        "qd_consents d' = qd_consents d @ [c]"
    note r = locked_sessionD [OF l]
    have "qw_tenant_id r = ti_tenant_id who" using r(3) by (simp add: owned_by_def)
    then have "session_consent (qd_consents d') (decided_row schema dec now r)"
      using c r(2) by (cases dec) (auto simp: session_consent_def decided_row_def Let_def)
    then show ?thesis
      by (intro consent_ok_put [OF ok r(1), of "decided_row schema dec now r"])
        (use st rows c in \<open>auto simp: active_status_def\<close>)
  qed (use ok in simp)
  show "consent_ok d'" if ok: "consent_ok d" and run: "record_answer who sid k a now key d = Inr (d', s)" for sid k a key s
    using record_answer_changes [OF run]
  proof (elim disjE exE conjE)
    fix r schema typed
    let ?r = "answered_row schema (dict_set k (stored_answer a) (qw_answers r)) typed r"
    assume l: "locked_session d who sid = Inr (r, schema)" and st: "qw_status r = S_IN_PROGRESS"
      and rows: "qd_sessions d' = put_rows ?r (qd_sessions d)" and c: "qd_consents d' = qd_consents d"
    note r = locked_sessionD [OF l]
    have cr: "session_consent (qd_consents d) r" using ok r(1) by (auto simp: consent_ok_def)
    moreover have "qw_consent_decision r \<noteq> Some DECLINED"
      using active_consent [OF cr] by (simp add: st active_status_def)
    moreover have "qw_status ?r \<noteq> S_COMPLETED" by (simp add: answered_row_def Let_def)
    ultimately have "session_consent (qd_consents d) ?r"
      by - (rule session_consent_change [of _ r], simp_all)
    then show ?thesis
      by (intro consent_ok_put [OF ok r(1), of ?r]) (use st rows c in \<open>simp_all add: active_status_def\<close>)
  qed (use ok in simp)
  show "consent_ok d'" if ok: "consent_ok d" and act: "active_row d who = Some r"
    and run: "review who (qw_id r) f d = Inr (d', s)" for r f s
  proof -
    obtain r0 schema r' where l: "locked_session d who (qw_id r) = Inr (r0, schema)"
      and kind: "r' = r0 \<or> (\<exists>k. r' = r0\<lparr>qw_status := S_IN_PROGRESS, qw_current_field_key := Some k\<rparr>)
        \<or> r' = r0\<lparr>qw_status := S_REVIEWING, qw_current_field_key := None\<rparr>"
      and rows: "qd_sessions d' = put_rows r' (qd_sessions d)" and o: "only_sessions d d'"
      using review_changes [OF run] by (elim exE conjE) (rule that; assumption)
    note a = active_row_consent [OF ok act]
    have "r0 = r"
      using sessions_ok_same [of "qd_sessions d" r0 r] locked_sessionD [OF l] a(1) ok by (simp add: consent_ok_def)
    then have same: "qw_id r' = qw_id r" "owner_of r' = owner_of r" "qw_consent_decision r' = qw_consent_decision r"
      "qw_consent_at r' = qw_consent_at r" "qw_status r' \<noteq> S_COMPLETED"
      using kind a(3) by (auto simp: active_status_def)
    then have "session_consent (qd_consents d') r'"
      using a o by - (rule session_consent_change [of _ r], simp_all add: only_sessions_def)
    then show ?thesis
      by (intro consent_ok_put [OF ok a(1), of r']) (use same rows o a in \<open>simp_all add: only_sessions_def\<close>)
  qed
  show "consent_ok d'" if ok: "consent_ok d" and act: "active_row d who = Some r" and at_time: "qw_consent_at r \<noteq> None"
    and run: "complete who (qw_id r) lead score trigger now key hid d = Inr (d', s)" for r lead score trigger key hid s
  proof (cases "d' = d")
    case False
    obtain r0 schema lid where l: "locked_session d who (qw_id r) = Inr (r0, schema)"
      and rows: "qd_sessions d' = put_rows (r0\<lparr>qw_status := S_COMPLETED, qw_lead_id := Some lid\<rparr>) (qd_sessions d)"
      and c: "qd_consents d' = qd_consents d"
      using complete_session [OF run] False by (elim disjE exE conjE) (simp, (rule that; assumption))
    note a = active_row_consent [OF ok act]
    have "r0 = r"
      using sessions_ok_same [of "qd_sessions d" r0 r] locked_sessionD [OF l] a(1) ok by (simp add: consent_ok_def)
    moreover have "session_consent (qd_consents d) (r\<lparr>qw_status := S_COMPLETED, qw_lead_id := Some lid\<rparr>)"
      by (rule session_consent_change [OF a(2,4)]) (use a(2) at_time in \<open>simp_all add: session_consent_def\<close>)
    ultimately show ?thesis
      by (intro consent_ok_put [OF ok a(1), of "r\<lparr>qw_status := S_COMPLETED, qw_lead_id := Some lid\<rparr>"])
        (use rows c in \<open>simp_all add: active_status_def\<close>)
  qed (use ok in simp)
  show "consent_ok d'" if ok: "consent_ok d" and run: "cancel_session who d = Inr (d', b)" for b
    using cancel_session_changes [OF run]
  proof (elim disjE exE conjE)
    fix r :: session_row
    let ?r = "r\<lparr>qw_status := S_CANCELLED, qw_current_field_key := None\<rparr>"
    assume r: "active_row d who = Some r" and rows: "qd_sessions d' = put_rows ?r (qd_sessions d)"
      and o: "only_sessions d d'"
    note a = active_row_consent [OF ok r]
    have "session_consent (qd_consents d') ?r"
      by (rule session_consent_change [of _ r]) (use a o in \<open>simp_all add: only_sessions_def\<close>)
    then show ?thesis
      by (intro consent_ok_put [OF ok a(1), of ?r]) (use a o rows in \<open>simp_all add: only_sessions_def active_status_def\<close>)
  qed (use ok in simp)
  show "consent_ok d'" if "consent_ok d" "qd_sessions d' = qd_sessions d" "qd_consents d' = qd_consents d"
    using that by (simp add: consent_ok_def)
qed

interpretation consent_runs: clocked_invariant "exec_app rx" "\<lambda>_. consent_ok" for rx
  by unfold_locales (rule consent.exec_app_keeps)

section \<open>An ended session is never changed\<close>

lemma ended_kept:
  assumes "sessions_ok ss" "r \<in> set ss" "\<not> active_status (qw_status r)" "r0 \<in> set ss" "active_status (qw_status r0)"
  shows "r \<in> set (map (\<lambda>x. if qw_id x = qw_id r0 then r1 else x) ss)"
proof -
  have "qw_id r \<noteq> qw_id r0" using sessions_ok_same [of ss r r0] assms by auto
  then show ?thesis using assms(2) by (auto intro: image_eqI [of _ _ r])
qed

interpretation ended: session_invariant "\<lambda>d. consent_ok d \<and> r \<in> set (qd_sessions d) \<and> \<not> active_status (qw_status r)" for r
proof
  fix d d' :: qualification_db and who :: telegram_identity and now
  let ?P = "\<lambda>d. consent_ok d \<and> r \<in> set (qd_sessions d) \<and> \<not> active_status (qw_status r)"
  have kept: "r \<in> set (map (\<lambda>x. if qw_id x = qw_id r0 then r1 else x) (qd_sessions d))"
    if "?P d" "r0 \<in> set (qd_sessions d)" "active_status (qw_status r0)" for r0 r1
    using that ended_kept [of "qd_sessions d" r r0 r1] by (simp add: consent_ok_def)
  show "?P d'" if P: "?P d" and run: "active_session who now d = Inr (d', s)" for s
    using P consent.when_read [OF _ run] active_session_changes [OF run] kept [OF P]
    by (auto simp del: set_map dest!: active_rowD)
  show "?P d'" if P: "?P d" and run: "start_session who schema now i d = Inr (d', s)" for schema i s
    using P consent.when_started [OF _ run] start_session_changes [OF run] kept [OF P]
    by (auto simp del: set_map dest!: active_rowD)
  show "?P d'" if P: "?P d" and run: "decide_consent who sid dec now key d = Inr (d', s)" for sid dec key s
    using P consent.when_decided [OF _ run] decide_consent_changes [OF run] kept [OF P]
    by (auto simp: active_status_def simp del: set_map dest!: locked_sessionD(1))
  show "?P d'" if P: "?P d" and run: "record_answer who sid k a now key d = Inr (d', s)" for sid k a key s
    using P consent.when_answered [OF _ run] record_answer_changes [OF run] kept [OF P]
    by (auto simp: active_status_def simp del: set_map dest!: locked_sessionD(1))
  show "?P d'" if P: "?P d" and act: "active_row d who = Some r0" and run: "review who (qw_id r0) f d = Inr (d', s)" for r0 f s
  proof -
    obtain r1 schema r' where l: "locked_session d who (qw_id r0) = Inr (r1, schema)"
      and kind: "r' = r1 \<or> (\<exists>k. r' = r1\<lparr>qw_status := S_IN_PROGRESS, qw_current_field_key := Some k\<rparr>)
        \<or> r' = r1\<lparr>qw_status := S_REVIEWING, qw_current_field_key := None\<rparr>"
      and rows: "qd_sessions d' = put_rows r' (qd_sessions d)"
      using review_changes [OF run] by (elim exE conjE) (rule that; assumption)
    have "qw_id r' = qw_id r0" using kind locked_sessionD(2) [OF l] by auto
    then show ?thesis
      using P consent.when_edited [OF _ act run] kept [OF P, of r0 r'] active_rowD [OF act] rows by simp
  qed
  show "?P d'" if P: "?P d" and act: "active_row d who = Some r0" and at_time: "qw_consent_at r0 \<noteq> None"
    and run: "complete who (qw_id r0) lead score trigger now key hid d = Inr (d', s)" for r0 lead score trigger key hid s
  proof (cases "d' = d")
    case False
    obtain r1 schema lid where l: "locked_session d who (qw_id r0) = Inr (r1, schema)"
      and rows: "qd_sessions d' = put_rows (r1\<lparr>qw_status := S_COMPLETED, qw_lead_id := Some lid\<rparr>) (qd_sessions d)"
      using complete_session [OF run] False by (elim disjE exE conjE) (simp, (rule that; assumption))
    show ?thesis
      using P consent.when_submitted [OF _ act at_time run] active_rowD [OF act] locked_sessionD(2) [OF l] rows
        kept [OF P, of r0 "r1\<lparr>qw_status := S_COMPLETED, qw_lead_id := Some lid\<rparr>"] by simp
  qed (use P in simp)
  show "?P d'" if P: "?P d" and run: "cancel_session who d = Inr (d', b)" for b
    using P consent.when_cancelled [OF _ run] cancel_session_changes [OF run] kept [OF P]
    by (auto simp del: set_map dest!: active_rowD)
  show "?P d'" if "?P d" "qd_sessions d' = qd_sessions d" "qd_consents d' = qd_consents d"
    using that by (simp add: consent_ok_def)
qed

interpretation ended_runs: clocked_invariant "exec_app rx"
  "\<lambda>_ d. consent_ok d \<and> r \<in> set (qd_sessions d) \<and> \<not> active_status (qw_status r)" for rx r
  by unfold_locales (rule ended.exec_app_keeps)

section \<open>Staff actions\<close>

text \<open>What each action of the staff asks for, makes of the case and of the conversation, or raises.\<close>

fun staff_allowed :: "handoff_action \<Rightarrow> handoff_status \<Rightarrow> bool" where
  "staff_allowed CLAIM st = (st \<in> {H_QUEUED, H_REOPENED})"
| "staff_allowed RESOLVE st = (st = H_CLAIMED)"
| "staff_allowed REOPEN st = (st = H_RESOLVED)"
| "staff_allowed RETURN_TO_BOT st = (st = H_RESOLVED)"

fun staff_result :: "handoff_action \<Rightarrow> string \<Rightarrow> handoff_row \<Rightarrow> handoff_row" where
  "staff_result CLAIM actor h = h\<lparr>hw_status := H_CLAIMED, hw_assignee_id := Some actor\<rparr>"
| "staff_result RESOLVE actor h = h\<lparr>hw_status := H_RESOLVED\<rparr>"
| "staff_result REOPEN actor h = h\<lparr>hw_status := H_REOPENED, hw_assignee_id := None\<rparr>"
| "staff_result RETURN_TO_BOT actor h = h"

fun staff_conversation :: "handoff_action \<Rightarrow> conversation_status \<Rightarrow> conversation_status" where
  "staff_conversation CLAIM st = HUMAN_ACTIVE"
| "staff_conversation RESOLVE st = st"
| "staff_conversation REOPEN st = HANDOFF_QUEUED"
| "staff_conversation RETURN_TO_BOT st = ACTIVE_BOT"

fun staff_error :: "handoff_action \<Rightarrow> handoff_status \<Rightarrow> exc" where
  "staff_error CLAIM st = InvalidStateTransition ''Handoff'' (handoff_status_value st) ''claimed''"
| "staff_error RESOLVE st = InvalidStateTransition ''Handoff'' (handoff_status_value st) ''resolved''"
| "staff_error REOPEN st = InvalidStateTransition ''Handoff'' (handoff_status_value st) ''reopened''"
| "staff_error RETURN_TO_BOT st = handoff_default"

lemma find_action: "first_where (\<lambda>b. action_value b = action_value a) handoff_actions = Some a"
  by (cases a) (simp_all add: handoff_actions_def)

lemma row_update_same: "hc_status h = hw_status row \<Longrightarrow> hc_assignee_id h = hw_assignee_id row \<Longrightarrow>
    row\<lparr>hw_status := hc_status h, hw_assignee_id := hc_assignee_id h\<rparr> = row"
  by (cases row) simp

lemma act_on_case_table:
  assumes "hc_status h = hw_status row" "hc_assignee_id h = hw_assignee_id row" "\<not> blank actor"
  shows "if staff_allowed a (hw_status row)
    then \<exists>h' st. act_on_case a actor h = Inr (h', st)
      \<and> row\<lparr>hw_status := hc_status h', hw_assignee_id := hc_assignee_id h'\<rparr> = staff_result a actor row
      \<and> (\<forall>c. (case st of None \<Rightarrow> c | Some s \<Rightarrow> s) = staff_conversation a c)
    else act_on_case a actor h = Inl (staff_error a (hw_status row)) \<or> a = RETURN_TO_BOT
      \<and> act_on_case a actor h = Inl (ValueError ''Only a resolved handoff can return control'')"
  using assms
  by (cases a; cases "hw_status row"; cases row)
    (simp_all add: act_on_case_def handoff_transition_to_def)

text \<open>
  C35. What a staff member's action does, in every status: an allowed one changes the case and the
  conversation and leaves an audit record; any other changes nothing and raises. A transition the
  domain refuses is raised as the domain's own error, which \<open>except ValueError\<close> does not turn into a
  \<open>HandoffError\<close>.
\<close>

theorem staff_action_exact:
  assumes row: "first_where (\<lambda>h. hw_tenant_id h = pr_tenant_id p \<and> hw_id h = hid) (qd_handoffs db) = Some row"
    and h: "handoff_from_row row = Inr h"
    and c: "conversation_of db (hw_conversation_id row) = Some c" "cw_tenant_id c = pr_tenant_id p"
    and p: "HANDOFF_WRITE \<in> role_permissions (pr_role p)" "\<not> blank (pr_subject p)"
  shows "if staff_allowed a (hw_status row)
    then \<exists>db' audit. staff_transition p hid (action_value a) now db = (db', Inr (staff_result a (pr_subject p) row))
      \<and> qd_handoffs db' = map (\<lambda>x. if hw_id x = hid then staff_result a (pr_subject p) row else x) (qd_handoffs db)
      \<and> qd_conversations db' = map (\<lambda>x. if cw_id x = hw_conversation_id row
          then x\<lparr>cw_status := staff_conversation a (cw_status x)\<rparr> else x) (qd_conversations db)
      \<and> qd_audit db' = qd_audit db @ [audit] \<and> au_actor_id audit = pr_subject p
    else staff_transition p hid (action_value a) now db = (db, Inl (staff_error a (hw_status row)))"
proof -
  have hid: "hw_id row = hid" "hw_tenant_id row = pr_tenant_id p" using find_SomeD [OF row] by simp_all
  have same: "hc_status h = hw_status row" "hc_assignee_id h = hw_assignee_id row"
    using handoff_from_rowD [OF h] by simp_all
  have req: "require p HANDOFF_WRITE = Inr ()" using p(1) by simp
  note table = act_on_case_table [OF same p(2), of a]
  show ?thesis
  proof (cases "staff_allowed a (hw_status row)")
    case True
    then obtain h' st where act: "act_on_case a (pr_subject p) h = Inr (h', st)"
      and res: "row\<lparr>hw_status := hc_status h', hw_assignee_id := hc_assignee_id h'\<rparr> = staff_result a (pr_subject p) row"
      and conv: "\<And>c. (case st of None \<Rightarrow> c | Some s \<Rightarrow> s) = staff_conversation a c" using table by auto
    note unfolded = staff_transition_def act_bind_def act_res_def req find_action as_handoff_error_def run_tx_def
      transition_handoff_def row h c act res hid Let_def
    show ?thesis
    proof (cases st)
      case None
      then have "staff_conversation a x = x" for x using conv [of x] by simp
      then have "map (\<lambda>x. if cw_id x = hw_conversation_id row then x\<lparr>cw_status := staff_conversation a (cw_status x)\<rparr> else x)
          (qd_conversations db) = qd_conversations db" by (simp add: map_idI)
      then show ?thesis using True None by (simp add: unfolded)
    next
      case (Some s)
      then have "staff_conversation a x = s" for x using conv [of x] by simp
      then show ?thesis using True Some by (simp add: unfolded set_conversation_def)
    qed
  next
    case False
    then have "act_on_case a (pr_subject p) h = Inl (staff_error a (hw_status row)) \<or> a = RETURN_TO_BOT
      \<and> act_on_case a (pr_subject p) h = Inl (ValueError ''Only a resolved handoff can return control'')"
      using table by simp
    moreover have "\<not> is_ValueError (staff_error a (hw_status row)) \<or> a = RETURN_TO_BOT"
      by (cases a) simp_all
    ultimately show ?thesis using False
      by (auto simp: staff_transition_def act_bind_def act_res_def req find_action as_handoff_error_def run_tx_def
          transition_handoff_def row h c hid handoff_default_def)
  qed
qed

definition staff_member :: principal where
  "staff_member = \<lparr>pr_subject = ''ann'', pr_tenant_id = TenantId 1, pr_role = AGENT\<rparr>"

theorem staff_action_exact_witness:
  "staff_transition staff_member (HandoffId 5) ''resolve'' 0 (lead_db\<lparr>qd_handoffs := [open_case]\<rparr>)
     = (lead_db\<lparr>qd_handoffs := [open_case]\<rparr>, Inl (InvalidStateTransition ''Handoff'' ''queued'' ''resolved''))"
proof -
  have blanks: "\<not> blank ''help''" "\<not> blank ''Needs a person''" "\<not> blank ''ann''" by code_simp+
  have "\<exists>h. handoff_from_row open_case = Inr h"
    using blanks by (simp add: open_case_def handoff_from_row_def member_of_def priorities_def handoff_post_init_def
        ensure_aware_def aware_def utc_datetime_def)
  then obtain h where h: "handoff_from_row open_case = Inr h" by blast
  show ?thesis
    using staff_action_exact [of staff_member "HandoffId 5" "lead_db\<lparr>qd_handoffs := [open_case]\<rparr>" open_case h lead_conversation RESOLVE 0]
      h blanks by (simp add: staff_member_def permission_defs lead_db_def lead_conversation_def conversation_of_def open_case_def)
qed

section \<open>Properties of the sessions\<close>


definition completed_db :: qualification_db where
  "completed_db = answer_db\<lparr>qd_sessions := map (\<lambda>r. r\<lparr>qw_status := S_COMPLETED\<rparr>) (qd_sessions answer_db)\<rparr>"

lemma completed_run: "clocked_run (exec_app any_pattern) completed_db 0 (exec_app any_pattern (A_Cancel lead_who) 9 completed_db) 9"
  by (rule run_more [OF run_none]) simp

lemma completed_same: "exec_app any_pattern (A_Cancel lead_who) 9 completed_db = completed_db"
  by (simp add: completed_db_def answer_db_def app_cancel_def run_tx_def cancel_session_def active_row_def active_status_def)

lemma completed_ok: "consent_ok completed_db"
  by (simp add: completed_db_def answer_db_def consent_ok_def sessions_ok_def session_consent_def new_session_row_def lead_who_def)


text \<open>
  A session that has been completed, declined, cancelled or has expired is never changed or
  removed by a later use case.
\<close>

theorem ended_session_fixed:
  assumes "clocked_run (exec_app rx) d t d' t'" and "consent_ok d"
    and "r \<in> set (qd_sessions d)" and "qw_status r \<in> {S_COMPLETED, S_DECLINED, S_CANCELLED, S_EXPIRED}"
  shows "r \<in> set (qd_sessions d')"
  using ended_runs.run_keeps [OF assms(1), of r] assms(2-4) by (auto simp: active_status_def)

theorem ended_session_fixed_witness:
  "set (qd_sessions completed_db) \<inter> set (qd_sessions (exec_app any_pattern (A_Cancel lead_who) 9 completed_db)) \<noteq> {}"
proof -
  obtain r where r: "r \<in> set (qd_sessions completed_db)" "qw_status r = S_COMPLETED"
    by (auto simp: completed_db_def answer_db_def)
  then have "r \<in> set (qd_sessions (exec_app any_pattern (A_Cancel lead_who) 9 completed_db))"
    by (intro ended_session_fixed [OF completed_run completed_ok]) simp_all
  then show ?thesis using r by blast
qed

section \<open>Answers a submission cannot store\<close>

text \<open>
  The answers of the lead and its snapshot go to JSONB columns as they are; the session's own answers
  were converted before.
\<close>

definition unserializable :: "answer \<Rightarrow> bool" where
  "unserializable a = (case a of ADec _ \<Rightarrow> True | ADate _ \<Rightarrow> True | _ \<Rightarrow> False)"

lemma serialized_answers_fails:
  assumes "(k, a) \<in> set answers" "unserializable a"
  shows "\<exists>e. serialized_answers answers = Inl e"
  using assms
proof (induction answers)
  case (Cons x xs)
  obtain k0 a0 where x: "x = (k0, a0)" by (cases x)
  show ?case
  proof (cases "serialized_answer a0")
    case (Inr j)
    then have "(k, a) \<in> set xs" using Cons.prems x by (auto simp: serialized_answer_def unserializable_def split: answer.splits)
    then show ?thesis using Cons.IH Cons.prems(2) Inr by (auto simp: serialized_answers_def x)
  qed (simp add: serialized_answers_def x)
qed simp

lemma build_lead_answers: "build_lead who schema s score now lid = Inr lead \<Longrightarrow> ld_answers lead = qn_answers s"
  by (auto simp: build_lead_def lead_post_init_def lead_grant_consent_def lead_apply_score_def lead_qualify_def
      lead_transition_to_def res_bind_Inr_iff Let_def split: option.splits if_splits sum.splits prod.splits)

text \<open>
  A session with a decimal or a date among its answers can never be submitted: the lead
  cannot be stored, the submission raises and nothing is changed, however often it is repeated with
  a new update key.
\<close>

theorem typed_answer_never_submitted:
  assumes act: "app_active who now db = (db, Inr (Some (s, schema)))"
    and a: "(k, a) \<in> set (qn_answers s)" "unserializable a"
    and new: "(ti_tenant_id who, key) \<notin> (\<lambda>u. (up_tenant_id u, up_key u)) ` set (qd_updates db)"
    and ok: "sessions_ok (qd_sessions db)"
  shows "\<exists>e. app_submit who sid now key lid hid db = (db, Inl e)"
proof -
  obtain r sch where r: "active_row db who = Some r" "session_of_row r sch = Inr s"
    using app_active_Some [OF act] by auto
  have fail: "\<exists>e. complete who (qn_id s) lead score trigger now key hid db = Inl e"
    if lead: "build_lead who schema s score now lid = Inr lead" for lead score trigger
  proof (cases "locked_session db who (qn_id s)")
    case (Inr b)
    obtain r0 sch0 where b: "b = (r0, sch0)" by (cases b)
    note l = Inr [unfolded b]
    have "r0 = r"
      using sessions_ok_same [OF ok, of r0 r] locked_sessionD [OF l] active_rowD [OF r(1)] session_of_row_same [OF r(2)] by simp
    then have "qw_status r0 \<noteq> S_COMPLETED" using active_rowD [OF r(1)] by (auto simp: active_status_def)
    moreover have "is_duplicate db (ti_tenant_id who) (qw_id r0) key = Inr False"
      using new by (fastforce simp: is_duplicate_def image_iff split: option.splits dest!: find_SomeD)
    moreover obtain e where "lead_to_row lead now = Inl e"
      using serialized_answers_fails [OF a] build_lead_answers [OF lead] by (auto simp: lead_to_row_def)
    ultimately show ?thesis using l by (simp add: complete_def)
  qed (simp add: complete_def)
  then have "\<exists>e. run_tx (complete who (qn_id s) lead score trigger now key hid) db = (db, Inl e)"
    if "build_lead who schema s score now lid = Inr lead" for lead score trigger
    using fail [OF that] by (metis run_tx_simps(2))
  then show ?thesis using act
    by (auto simp: app_submit_def act_bind_def act_res_def split: sum.splits)
qed

definition decimal_schema :: qualification_schema where
  "decimal_schema = urgent_schema\<lparr>qs_fields := [urgent_field\<lparr>qf_field_type := DECIMAL,
     qf_validation := (qf_validation urgent_field)\<lparr>fv_options := []\<rparr>, qf_score_rules := [], qf_handoff_triggers := []\<rparr>]\<rparr>"

definition decimal_db :: qualification_db where
  "decimal_db = lead_db\<lparr>qd_schemas := [row_of_schema decimal_schema],
     qd_sessions := [(new_session_row lead_who decimal_schema 0 (session_id 1))
       \<lparr>qw_status := S_REVIEWING, qw_answers := [(''urgent'', JStr ''1.5'')],
        qw_consent_decision := Some ACCEPTED, qw_consent_at := Some 0\<rparr>]\<rparr>"

lemma decimal_row:
  "schema_of_row (row_of_schema decimal_schema) = Inr decimal_schema"
  "qx_id (row_of_schema decimal_schema) = QualificationSchemaId 7" "qx_tenant_id (row_of_schema decimal_schema) = TenantId 1"
  "typed_answers decimal_schema [(''urgent'', JStr ''1.5'')] = Inr [(''urgent'', ADec (Dec False 15 (- 1)))]"
proof -
  have "schema_proper decimal_schema" by code_simp
  moreover have "decimal_schema\<lparr>qs_published := False\<rparr> = decimal_schema"
    by (simp add: decimal_schema_def urgent_schema_def)
  ultimately show "schema_of_row (row_of_schema decimal_schema) = Inr decimal_schema" using schema_back by metis
  have "decimal_of ''1.5'' = Inr (Dec False 15 (- 1))" by code_simp
  then show "typed_answers decimal_schema [(''urgent'', JStr ''1.5'')] = Inr [(''urgent'', ADec (Dec False 15 (- 1)))]"
    by (simp add: typed_answers_def field_type_of_def decimal_schema_def urgent_field_def answer_of_json_def py_str_def)
qed (simp_all add: row_of_schema_def decimal_schema_def urgent_schema_def)

theorem typed_answer_never_submitted_witness:
  "\<exists>e. app_submit lead_who (session_id 1) 5 ''u'' (LeadId 3) (HandoffId 4) decimal_db = (decimal_db, Inl e)"
proof -
  have "\<exists>s. app_active lead_who 5 decimal_db = (decimal_db, Inr (Some (s, decimal_schema)))
      \<and> qn_answers s = [(''urgent'', ADec (Dec False 15 (- 1)))]"
    by (simp add: app_active_def act_bind_def act_return_def run_tx_def active_session_def active_row_def decimal_db_def
        lead_db_def new_session_row_def owned_by_def lead_who_def active_status_def schema_row_of_def decimal_row
        session_of_row_def get_schema_def) (simp add: decimal_schema_def urgent_schema_def minute_us_def decimal_row)
  then show ?thesis
    by (elim exE conjE) (rule typed_answer_never_submitted, assumption, simp, simp_all add: unserializable_def decimal_db_def
        lead_db_def sessions_ok_def)
qed

text \<open>
  Editing a field puts the active session in progress at that field whatever its status was:
  also one that still waits for consent, whose decision stays open.
\<close>

theorem edit_needs_no_consent:
  assumes "app_edit who sid k now db = (db', Inr f)" and "sessions_ok (qd_sessions db)"
  shows "\<exists>r. active_row db who = Some r \<and> qw_id r = sid \<and> qf_key f = k
    \<and> qd_sessions db' = put_rows (r\<lparr>qw_status := S_IN_PROGRESS, qw_current_field_key := Some k\<rparr>) (qd_sessions db)"
proof -
  obtain d1 s schema where act: "app_active who now db = (d1, Inr (Some (s, schema)))"
    using assms(1) by (auto simp: app_edit_def act_bind_def act_res_def split: sum.splits prod.splits option.splits)
  obtain r sch where r: "d1 = db" "active_row db who = Some r" "session_of_row r sch = Inr s"
    using app_active_Some [OF act] by auto
  obtain f0 x where f: "first_where (\<lambda>f. qf_key f = k) (qs_fields schema) = Some f0" "qn_id s = sid"
    and rev: "review who sid (Some k) db = Inr (db', x)" and f0: "f = f0"
    using assms(1) act r(1) find_SomeD
    by (fastforce simp: app_edit_def act_bind_def act_res_def act_return_def run_tx_def split: sum.splits prod.splits option.splits if_splits)
  have k: "qf_key f0 = k" using find_SomeD [OF f(1)] by simp
  obtain r0 sch0 where l: "locked_session db who sid = Inr (r0, sch0)"
    and rows: "qd_sessions db' = put_rows (r0\<lparr>qw_status := S_IN_PROGRESS, qw_current_field_key := Some k\<rparr>) (qd_sessions db)"
    using rev by (auto simp: review_def reviewed_row_def res_bind_Inr_iff replace_session_Inr split: if_splits)
  have "r0 = r"
    using sessions_ok_same [OF assms(2), of r0 r] locked_sessionD [OF l] active_rowD [OF r(2)] session_of_row_same [OF r(3)] f(2) by simp
  then show ?thesis using r(2) rows session_of_row_same [OF r(3)] f(2) f0 k by auto
qed

theorem edit_needs_no_consent_witness:
  "\<exists>db' f. app_edit lead_who (session_id 1) ''urgent'' 5 (exec_call (T_Start lead_who urgent_schema (session_id 1)) 0 lead_db)
       = (db', Inr f)
     \<and> map qw_status (qd_sessions db') = [S_IN_PROGRESS] \<and> map qw_consent_decision (qd_sessions db') = [None]"
proof -
  let ?d = "exec_call (T_Start lead_who urgent_schema (session_id 1)) 0 lead_db"
  have rows: "qd_sessions ?d = [new_session_row lead_who urgent_schema 0 (session_id 1)]" by (subst start_example) simp
  have fields: "qs_fields urgent_schema = [urgent_field]" "qf_key urgent_field = ''urgent''" "qs_version urgent_schema = 1"
    by (simp_all add: urgent_schema_def urgent_field_def)
  have "\<exists>db' f. app_edit lead_who (session_id 1) ''urgent'' 5 ?d = (db', Inr f)"
    unfolding start_example
    by (simp add: app_edit_def app_active_def act_bind_def act_return_def act_res_def run_tx_def active_session_def active_row_def
        lead_db_def new_session_row_def owned_by_def lead_who_def active_status_def schema_row_of_def session_of_row_def
        get_schema_def fields review_def reviewed_row_def locked_session_def replace_session_def)
  then obtain db' f where run: "app_edit lead_who (session_id 1) ''urgent'' 5 ?d = (db', Inr f)" by blast
  have "sessions_ok (qd_sessions ?d)" unfolding rows by (simp add: sessions_ok_def)
  then obtain r where r: "active_row ?d lead_who = Some r"
    and db': "qd_sessions db' = put_rows (r\<lparr>qw_status := S_IN_PROGRESS, qw_current_field_key := Some ''urgent''\<rparr>) (qd_sessions ?d)"
    using edit_needs_no_consent [OF run] by blast
  have "r = new_session_row lead_who urgent_schema 0 (session_id 1)"
    using active_rowD [OF r] unfolding rows by simp
  then have "map qw_status (qd_sessions db') = [S_IN_PROGRESS] \<and> map qw_consent_decision (qd_sessions db') = [None]"
    unfolding db' rows by (simp add: new_session_row_def)
  then show ?thesis by (intro exI [of _ db'] exI [of _ f] conjI) (rule run, elim conjE, assumption, elim conjE, assumption)
qed

end
