(* ===== verification/Background.thy ===== *)
theory Background
  imports Tables Access
begin

text \<open>
  Reliable background delivery: the models of \<open>application/background/models.py\<close>, the store of
  \<open>infrastructure/persistence/background.py\<close>, the application of
  \<open>application/background/service.py\<close>, the Telegram adapter of \<open>infrastructure/notifications.py\<close>
  and the run record of \<open>bootstrap/worker.py\<close>. A store method is one transaction on
  \<open>background_db\<close>. \<open>FOR UPDATE SKIP LOCKED\<close> leaves out the rows other workers hold: they are the
  argument \<open>held\<close>. The primary key of an event row (\<open>uuid4()\<close>, only used to break ties of the
  order) is \<open>event_pk\<close> of the event's name; the keys given to new delivery rows are \<open>fresh\<close> of the
  event and the subscription. Metrics and correlation identifiers are not modelled.
\<close>

section \<open>Models (application/background/models.py)\<close>

datatype notification_channel = CH_TELEGRAM

record notification_subscription =
  ns_id :: uuid
  ns_tenant_id :: tenant_id
  ns_channel :: notification_channel
  ns_recipient_id :: string
  ns_event_types :: "string set"
  ns_enabled :: bool

definition subscription_post_init :: "notification_subscription \<Rightarrow> notification_subscription res" where [ctor_defs]:
  "subscription_post_init s =
     (if \<not> isdecimal (ns_recipient_id s) \<or> ns_event_types s = {}
      then Inl (ValueError ''Notification subscription is invalid'')
      else if \<exists>item \<in> ns_event_types s. item = [] \<or> length item > 100
      then Inl (ValueError ''Notification event type is invalid'')
      else Inr s)"

record delivery_claim =
  dc_id :: uuid
  dc_tenant_id :: tenant_id
  dc_event_type :: string
  dc_channel :: notification_channel
  dc_recipient_id :: string
  dc_payload :: "(string, json) dict"
  dc_attempts :: int

record delivery_outcome =
  do_claimed :: int
  do_succeeded :: int
  do_retried :: int
  do_dead_lettered :: int

record retry_policy =
  rp_max_attempts :: int
  rp_base_delay_seconds :: int
  rp_maximum_delay_seconds :: int

definition retry_policy_post_init :: "retry_policy \<Rightarrow> retry_policy res" where [ctor_defs]:
  "retry_policy_post_init p =
     (if \<not> (1 \<le> rp_max_attempts p \<and> rp_max_attempts p \<le> 20)
      then Inl (ValueError ''Maximum attempts must be between 1 and 20'')
      else if \<not> (1 \<le> rp_base_delay_seconds p \<and> rp_base_delay_seconds p \<le> rp_maximum_delay_seconds p)
      then Inl (ValueError ''Retry delay policy is invalid'')
      else Inr p)"

definition next_attempt_at :: "retry_policy \<Rightarrow> uuid \<Rightarrow> int \<Rightarrow> instant \<Rightarrow> instant" where
  "next_attempt_at p claim_id attempts now = (
     let exponent = nat (max 0 (attempts - 1));
         delay = min (rp_maximum_delay_seconds p) (rp_base_delay_seconds p * 2 ^ exponent);
         jitter = uint claim_id mod max 1 (min delay 17)
     in now + min (rp_maximum_delay_seconds p) (delay + jitter) * second_us)"

record worker_health =
  wh_pending_outbox :: int
  wh_pending_notifications :: int
  wh_processing_notifications :: int
  wh_dead_letters :: int
  wh_oldest_due_at :: "instant option"
  wh_last_success_at :: "instant option"

section \<open>Rows (infrastructure/persistence/sqlalchemy/models.py)\<close>

record subscription_row =
  sb_id :: uuid
  sb_tenant_id :: tenant_id
  sb_channel :: notification_channel
  sb_recipient_id :: string
  sb_event_types :: "string list"
  sb_enabled :: bool

datatype delivery_status = D_PENDING | D_PROCESSING | D_SENT | D_DEAD_LETTER

text \<open>The event of a delivery is identified by its name, as in the outbox.\<close>

record delivery_row =
  nd_id :: uuid
  nd_tenant_id :: tenant_id
  nd_event :: string
  nd_subscription_id :: uuid
  nd_event_type :: string
  nd_channel :: notification_channel
  nd_recipient_id :: string
  nd_payload :: "(string, json) dict"
  nd_status :: delivery_status
  nd_attempts :: int
  nd_available_at :: instant
  nd_locked_at :: "instant option"
  nd_sent_at :: "instant option"
  nd_last_error_code :: "string option"

record worker_run_row =
  wr_task_name :: string
  wr_succeeded :: bool
  wr_processed_count :: int
  wr_error_code :: "string option"
  wr_started_at :: instant
  wr_finished_at :: instant

text \<open>The tables; tenants and entitlements (keyed by tenant and capability) are dictionaries.\<close>

record background_db =
  bd_tenants :: "(tenant_id, tenant_status) dict"
  bd_entitlements :: "(tenant_id \<times> string, bool) dict"
  bd_events :: "outbox_row list"
  bd_subscriptions :: "subscription_row list"
  bd_deliveries :: "delivery_row list"
  bd_runs :: "worker_run_row list"

type_synonym 'a bg_op = "(background_db, 'a) tx"

section \<open>Subscriptions (infrastructure/persistence/background.py)\<close>

text \<open>\<open>_subscription\<close>\<close>

definition subscription_of_row :: "subscription_row \<Rightarrow> notification_subscription res" where
  "subscription_of_row r = subscription_post_init
     \<lparr>ns_id = sb_id r, ns_tenant_id = sb_tenant_id r, ns_channel = sb_channel r,
      ns_recipient_id = sb_recipient_id r, ns_event_types = set (sb_event_types r),
      ns_enabled = sb_enabled r\<rparr>"

definition same_recipient :: "notification_subscription \<Rightarrow> subscription_row \<Rightarrow> bool" where
  "same_recipient s r = (sb_tenant_id r = ns_tenant_id s \<and> sb_channel r = ns_channel s
     \<and> sb_recipient_id r = ns_recipient_id s)"

definition row_of_subscription :: "notification_subscription \<Rightarrow> subscription_row" where
  "row_of_subscription s =
     \<lparr>sb_id = ns_id s, sb_tenant_id = ns_tenant_id s, sb_channel = ns_channel s,
      sb_recipient_id = ns_recipient_id s, sb_event_types = sorted_list_of_set (ns_event_types s),
      sb_enabled = ns_enabled s\<rparr>"

text \<open>\<open>INSERT ... ON CONFLICT (tenant_id, channel, recipient_id) DO UPDATE ... RETURNING\<close>\<close>

definition save_subscription :: "notification_subscription \<Rightarrow> notification_subscription bg_op" where
  "save_subscription s db =
     (let updated = (\<lambda>r. r\<lparr>sb_event_types := sorted_list_of_set (ns_event_types s), sb_enabled := ns_enabled s\<rparr>) in
      case find (same_recipient s) (bd_subscriptions db) of
        Some r \<Rightarrow>
          res_bind (subscription_of_row (updated r)) (\<lambda>result.
          Inr (db\<lparr>bd_subscriptions := map (\<lambda>x. if same_recipient s x then updated x else x) (bd_subscriptions db)\<rparr>,
               result))
      | None \<Rightarrow>
          if list_ex (\<lambda>r. sb_id r = ns_id s) (bd_subscriptions db) then Inl integrity_error
          else res_bind (subscription_of_row (row_of_subscription s)) (\<lambda>result.
            Inr (db\<lparr>bd_subscriptions := bd_subscriptions db @ [row_of_subscription s]\<rparr>, result)))"

definition list_subscriptions :: "tenant_id \<Rightarrow> background_db \<Rightarrow> notification_subscription list res" where
  "list_subscriptions t db =
     res_map subscription_of_row (sorted_by sb_id (filter (\<lambda>r. sb_tenant_id r = t) (bd_subscriptions db)))"

section \<open>The outbox projection\<close>

text \<open>The joins with the active tenant and its enabled entitlement.\<close>

definition delivery_entitled :: "background_db \<Rightarrow> tenant_id \<Rightarrow> bool" where
  "delivery_entitled db t = (dict_get (bd_tenants db) t = Some T_ACTIVE
     \<and> dict_get (bd_entitlements db) (t, ''background_notifications'') = Some True)"

definition stale_lock :: "instant option \<Rightarrow> instant \<Rightarrow> bool" where
  "stale_lock locked stale_before = (case locked of None \<Rightarrow> False | Some l \<Rightarrow> l \<le> stale_before)"

definition event_due :: "background_db \<Rightarrow> instant \<Rightarrow> instant \<Rightarrow> outbox_row \<Rightarrow> bool" where
  "event_due db now stale_before e = (delivery_entitled db (ob_tenant_id e)
     \<and> (ob_status e = O_PENDING \<and> ob_available_at e \<le> now
        \<or> ob_status e = O_PROCESSING \<and> stale_lock (ob_locked_at e) stale_before))"

definition due_events ::
  "(string \<Rightarrow> uuid) \<Rightarrow> (string \<Rightarrow> bool) \<Rightarrow> instant \<Rightarrow> instant \<Rightarrow> int \<Rightarrow> background_db \<Rightarrow> outbox_row list" where
  "due_events event_pk held now stale_before limit db =
     take (nat limit) (sorted_by (\<lambda>e. (ob_available_at e, event_pk (ob_name e)))
       (filter (\<lambda>e. event_due db now stale_before e \<and> \<not> held (ob_name e)) (bd_events db)))"

definition subscribed :: "outbox_row \<Rightarrow> subscription_row \<Rightarrow> bool" where
  "subscribed e s = (sb_tenant_id s = ob_tenant_id e \<and> sb_enabled s
     \<and> ob_event_type e \<in> set (sb_event_types s))"

definition new_delivery :: "(string \<Rightarrow> uuid \<Rightarrow> uuid) \<Rightarrow> outbox_row \<Rightarrow> instant \<Rightarrow> subscription_row \<Rightarrow> delivery_row" where
  "new_delivery fresh e now s =
     \<lparr>nd_id = fresh (ob_name e) (sb_id s), nd_tenant_id = ob_tenant_id e, nd_event = ob_name e,
      nd_subscription_id = sb_id s, nd_event_type = ob_event_type e, nd_channel = sb_channel s,
      nd_recipient_id = sb_recipient_id s, nd_payload = ob_payload e, nd_status = D_PENDING,
      nd_attempts = 0, nd_available_at = now, nd_locked_at = None, nd_sent_at = None,
      nd_last_error_code = None\<rparr>"

definition delivery_key :: "delivery_row \<Rightarrow> tenant_id \<times> string \<times> uuid" where
  "delivery_key d = (nd_tenant_id d, nd_event d, nd_subscription_id d)"

text \<open>
  \<open>INSERT ... ON CONFLICT (tenant_id, event_id, subscription_id) DO NOTHING\<close>: the second component
  counts the inserted rows; another row with the same primary key is an \<open>IntegrityError\<close>.
\<close>

definition insert_delivery :: "delivery_row \<Rightarrow> delivery_row list \<times> int \<Rightarrow> (delivery_row list \<times> int) res" where
  "insert_delivery d st = (case st of (rows, projected) \<Rightarrow>
     if list_ex (\<lambda>x. delivery_key x = delivery_key d) rows then Inr (rows, projected)
     else if list_ex (\<lambda>x. nd_id x = nd_id d) rows then Inl integrity_error
     else Inr (rows @ [d], projected + 1))"

definition put_event :: "outbox_row \<Rightarrow> outbox_row list \<Rightarrow> outbox_row list" where
  "put_event e es = map (\<lambda>x. if ob_name x = ob_name e then e else x) es"

definition exhausted_event :: "instant \<Rightarrow> outbox_row \<Rightarrow> outbox_row" where
  "exhausted_event now e = e\<lparr>ob_status := O_DEAD_LETTER, ob_locked_at := Some now,
     ob_attempts := ob_attempts e + 1, ob_last_error_code := Some ''outbox.attempts_exhausted''\<rparr>"

definition published_event :: "instant \<Rightarrow> outbox_row \<Rightarrow> outbox_row" where
  "published_event now e = e\<lparr>ob_status := O_PUBLISHED, ob_locked_at := None,
     ob_attempts := ob_attempts e + 1, ob_published_at := Some now, ob_last_error_code := None\<rparr>"

definition dispatch_event ::
  "(string \<Rightarrow> uuid \<Rightarrow> uuid) \<Rightarrow> instant \<Rightarrow> int \<Rightarrow> outbox_row \<Rightarrow> background_db \<times> int \<times> int
   \<Rightarrow> (background_db \<times> int \<times> int) res" where
  "dispatch_event fresh now max_attempts e st = (case st of (db, projected, dead) \<Rightarrow>
     if ob_attempts e + 1 > max_attempts
     then Inr (db\<lparr>bd_events := put_event (exhausted_event now e) (bd_events db)\<rparr>, projected, dead + 1)
     else res_bind (res_fold (\<lambda>s. insert_delivery (new_delivery fresh e now s))
                      (filter (subscribed e) (bd_subscriptions db)) (bd_deliveries db, projected))
       (\<lambda>(rows, projected').
         Inr (db\<lparr>bd_deliveries := rows, bd_events := put_event (published_event now e) (bd_events db)\<rparr>,
              projected', dead)))"

definition dispatch_outbox ::
  "(string \<Rightarrow> uuid) \<Rightarrow> (string \<Rightarrow> uuid \<Rightarrow> uuid) \<Rightarrow> (string \<Rightarrow> bool) \<Rightarrow> instant \<Rightarrow> int \<Rightarrow> int \<Rightarrow> int
   \<Rightarrow> (int \<times> int \<times> int) bg_op" where
  "dispatch_outbox event_pk fresh held now limit lease_seconds max_attempts db =
     (let events = due_events event_pk held now (now - lease_seconds * second_us) limit db in
      res_bind (res_fold (dispatch_event fresh now max_attempts) events (db, 0, 0))
        (\<lambda>(db', projected, dead). Inr (db', int (length events), projected, dead)))"

section \<open>Notification deliveries\<close>

definition delivery_due :: "background_db \<Rightarrow> instant \<Rightarrow> instant \<Rightarrow> delivery_row \<Rightarrow> bool" where
  "delivery_due db now stale_before d = (delivery_entitled db (nd_tenant_id d)
     \<and> (nd_status d = D_PENDING \<and> nd_available_at d \<le> now
        \<or> nd_status d = D_PROCESSING \<and> stale_lock (nd_locked_at d) stale_before))"

definition due_deliveries :: "(uuid \<Rightarrow> bool) \<Rightarrow> instant \<Rightarrow> instant \<Rightarrow> int \<Rightarrow> background_db \<Rightarrow> delivery_row list" where
  "due_deliveries held now stale_before limit db =
     take (nat limit) (sorted_by (\<lambda>d. (nd_available_at d, nd_id d))
       (filter (\<lambda>d. delivery_due db now stale_before d \<and> \<not> held (nd_id d)) (bd_deliveries db)))"

definition claimed_delivery :: "instant \<Rightarrow> delivery_row \<Rightarrow> delivery_row" where
  "claimed_delivery now d = d\<lparr>nd_status := D_PROCESSING, nd_locked_at := Some now, nd_attempts := nd_attempts d + 1\<rparr>"

text \<open>\<open>_claim\<close>\<close>

definition claim_of_row :: "delivery_row \<Rightarrow> delivery_claim" where
  "claim_of_row d =
     \<lparr>dc_id = nd_id d, dc_tenant_id = nd_tenant_id d, dc_event_type = nd_event_type d,
      dc_channel = nd_channel d, dc_recipient_id = nd_recipient_id d, dc_payload = nd_payload d,
      dc_attempts = nd_attempts d\<rparr>"

definition claim_notifications :: "(uuid \<Rightarrow> bool) \<Rightarrow> instant \<Rightarrow> int \<Rightarrow> int \<Rightarrow> delivery_claim list bg_op" where
  "claim_notifications held now limit lease_seconds db =
     (let rows = due_deliveries held now (now - lease_seconds * second_us) limit db;
          ids = map nd_id rows in
      Inr (db\<lparr>bd_deliveries := map (\<lambda>d. if nd_id d \<in> set ids then claimed_delivery now d else d) (bd_deliveries db)\<rparr>,
           map (\<lambda>d. claim_of_row (claimed_delivery now d)) rows))"

text \<open>\<open>_finish\<close>: the update of the claimed row, if it is still being processed.\<close>

definition finished_row :: "delivery_status \<Rightarrow> instant \<Rightarrow> string option \<Rightarrow> delivery_row \<Rightarrow> delivery_row" where
  "finished_row status time error_code d = (
     let d' = d\<lparr>nd_status := status, nd_locked_at := None, nd_last_error_code := error_code\<rparr> in
     if status = D_PENDING then d'\<lparr>nd_available_at := time\<rparr>
     else if status = D_SENT then d'\<lparr>nd_sent_at := Some time\<rparr>
     else d')"

definition finish :: "delivery_claim \<Rightarrow> delivery_status \<Rightarrow> instant \<Rightarrow> string option \<Rightarrow> background_db \<Rightarrow> background_db" where
  "finish c status time error_code db = db\<lparr>bd_deliveries := map (\<lambda>d.
     if nd_tenant_id d = dc_tenant_id c \<and> nd_id d = dc_id c \<and> nd_status d = D_PROCESSING
     then finished_row status time error_code d else d) (bd_deliveries db)\<rparr>"

definition mark_delivered :: "delivery_claim \<Rightarrow> instant \<Rightarrow> background_db \<Rightarrow> background_db" where
  "mark_delivered c time = finish c D_SENT time None"

definition retry_delivery :: "delivery_claim \<Rightarrow> instant \<Rightarrow> string \<Rightarrow> background_db \<Rightarrow> background_db" where
  "retry_delivery c time error_code = finish c D_PENDING time (Some error_code)"

definition dead_letter :: "delivery_claim \<Rightarrow> instant \<Rightarrow> string \<Rightarrow> background_db \<Rightarrow> background_db" where
  "dead_letter c time error_code = finish c D_DEAD_LETTER time (Some error_code)"

text \<open>\<open>SELECT min(...)\<close> and \<open>SELECT max(...)\<close> are NULL when there is no row.\<close>

definition sql_fold :: "('a \<Rightarrow> 'a \<Rightarrow> 'a) \<Rightarrow> 'a list \<Rightarrow> 'a option" where
  "sql_fold f xs = (case xs of [] \<Rightarrow> None | x # ys \<Rightarrow> Some (foldl f x ys))"

definition health :: "tenant_id \<Rightarrow> background_db \<Rightarrow> worker_health" where
  "health t db = (
     let mine = filter (\<lambda>d. nd_tenant_id d = t) (bd_deliveries db);
         with_status = (\<lambda>s. filter (\<lambda>d. nd_status d = s) mine);
         count = (\<lambda>s. int (length (with_status s))) in
     \<lparr>wh_pending_outbox = int (length (filter (\<lambda>e. ob_tenant_id e = t \<and> ob_status e = O_PENDING) (bd_events db))),
      wh_pending_notifications = count D_PENDING, wh_processing_notifications = count D_PROCESSING,
      wh_dead_letters = count D_DEAD_LETTER,
      wh_oldest_due_at = sql_fold min (map nd_available_at (with_status D_PENDING)),
      wh_last_success_at = sql_fold max (List.map_filter nd_sent_at (with_status D_SENT))\<rparr>)"

section \<open>The application (application/background/service.py)\<close>

definition supported_events :: "string set" where
  "supported_events = {''booking.confirmed'', ''booking.cancelled'', ''booking.rescheduled'',
     ''lead.qualified'', ''handoff.queued''}"

definition create_subscription ::
  "principal \<Rightarrow> string \<Rightarrow> string set \<Rightarrow> uuid \<Rightarrow> background_db \<Rightarrow> background_db \<times> notification_subscription res" where
  "create_subscription p recipient_id event_types new_id =
     act_bind (act_res (require p NOTIFICATION_WRITE)) (\<lambda>_.
     if \<not> event_types \<subseteq> supported_events
     then act_res (Inl (ValueError ''Notification event type is unsupported''))
     else act_bind (act_res (subscription_post_init
         \<lparr>ns_id = new_id, ns_tenant_id = pr_tenant_id p, ns_channel = CH_TELEGRAM,
          ns_recipient_id = recipient_id, ns_event_types = event_types, ns_enabled = True\<rparr>))
       (\<lambda>s. run_tx (save_subscription s)))"

definition app_list_subscriptions :: "principal \<Rightarrow> background_db \<Rightarrow> notification_subscription list res" where
  "app_list_subscriptions p db =
     res_bind (require p NOTIFICATION_READ) (\<lambda>_. list_subscriptions (pr_tenant_id p) db)"

definition app_worker_health :: "principal \<Rightarrow> background_db \<Rightarrow> worker_health res" where
  "app_worker_health p db =
     res_bind (require p WORKER_MONITOR_READ) (\<lambda>_. Inr (health (pr_tenant_id p) db))"

text \<open>\<open>_identifier\<close>, \<open>_choice\<close>, \<open>_render\<close>\<close>

definition identifier_of :: "(string, json) dict \<Rightarrow> string \<Rightarrow> string res" where
  "identifier_of payload key = (case dict_get payload key of
     Some (JStr value) \<Rightarrow>
       if value = [] \<or> length value > 100 then Inl (NotificationDeliveryError ''delivery.invalid_payload'' False)
       else Inr value
   | _ \<Rightarrow> Inl (NotificationDeliveryError ''delivery.invalid_payload'' False))"

definition choice_of :: "(string, json) dict \<Rightarrow> string \<Rightarrow> string list \<Rightarrow> string" where
  "choice_of payload key choices = (case dict_get payload key of
     Some (JStr value) \<Rightarrow> if value \<in> set choices then value else ''normal''
   | _ \<Rightarrow> ''normal'')"

definition priority_choices :: "string list" where
  "priority_choices = [''low'', ''normal'', ''high'', ''urgent'']"

definition render :: "delivery_claim \<Rightarrow> string res" where
  "render c = (
     let payload = dc_payload c in
     if dc_event_type c = ''lead.qualified'' then
       res_bind (identifier_of payload ''lead_id'') (\<lambda>lead.
       Inr (''A lead has qualified. '' @ ''Lead ID: '' @ lead @ ''. ''
            @ ''Priority: '' @ choice_of payload ''priority'' priority_choices @ ''.''))
     else if dc_event_type c = ''handoff.queued'' then
       res_bind (identifier_of payload ''handoff_id'') (\<lambda>handoff.
       Inr (''A staff handoff is queued. '' @ ''Case ID: '' @ handoff @ ''. ''
            @ ''Priority: '' @ choice_of payload ''priority'' priority_choices @ ''.''))
     else if dc_event_type c \<in> {''booking.confirmed'', ''booking.cancelled'', ''booking.rescheduled''} then
       res_bind (identifier_of payload ''public_reference'') (\<lambda>reference.
       res_bind (identifier_of payload ''start_at'') (\<lambda>start.
       Inr (''An appointment was '' @ removeprefix ''booking.'' (dc_event_type c) @ ''. ''
            @ ''Reference: '' @ reference @ ''. '' @ ''Start: '' @ start @ ''.'')))
     else Inl (NotificationDeliveryError ''delivery.unsupported_event'' False))"

text \<open>What happens to a claim whose sending raised.\<close>

definition failed_delivery ::
  "retry_policy \<Rightarrow> instant \<Rightarrow> delivery_claim \<Rightarrow> string \<Rightarrow> bool \<Rightarrow> delivery_outcome \<Rightarrow> background_db
   \<Rightarrow> background_db \<times> delivery_outcome" where
  "failed_delivery p now c error_code retryable out db =
     (if retryable \<and> dc_attempts c < rp_max_attempts p
      then (retry_delivery c (next_attempt_at p (dc_id c) (dc_attempts c) now) error_code db,
            out\<lparr>do_retried := do_retried out + 1\<rparr>)
      else (dead_letter c now error_code db, out\<lparr>do_dead_lettered := do_dead_lettered out + 1\<rparr>))"

definition deliver_claim ::
  "(delivery_claim \<Rightarrow> string \<Rightarrow> unit res) \<Rightarrow> retry_policy \<Rightarrow> instant \<Rightarrow> delivery_claim \<Rightarrow> delivery_outcome
   \<Rightarrow> (background_db, delivery_outcome) act" where
  "deliver_claim send p now c out db =
     (case res_bind (render c) (send c) of
        Inr _ \<Rightarrow> (mark_delivered c now db, Inr (out\<lparr>do_succeeded := do_succeeded out + 1\<rparr>))
      | Inl (NotificationDeliveryError error_code retryable) \<Rightarrow>
          (case failed_delivery p now c error_code retryable out db of (db', out') \<Rightarrow> (db', Inr out'))
      | Inl e \<Rightarrow>
          if is_Exception e
          then (case failed_delivery p now c ''delivery.unexpected'' True out db of (db', out') \<Rightarrow> (db', Inr out'))
          else (db, Inl e))"

fun deliver_claims ::
  "(delivery_claim \<Rightarrow> string \<Rightarrow> unit res) \<Rightarrow> retry_policy \<Rightarrow> instant \<Rightarrow> delivery_claim list \<Rightarrow> delivery_outcome
   \<Rightarrow> (background_db, delivery_outcome) act" where
  "deliver_claims send p now [] out = act_return out"
| "deliver_claims send p now (c # cs) out =
     act_bind (deliver_claim send p now c out) (deliver_claims send p now cs)"

definition deliver_notifications ::
  "(delivery_claim \<Rightarrow> string \<Rightarrow> unit res) option \<Rightarrow> retry_policy \<Rightarrow> (uuid \<Rightarrow> bool) \<Rightarrow> instant \<Rightarrow> int \<Rightarrow> int
   \<Rightarrow> (background_db, delivery_outcome) act" where
  "deliver_notifications gateway p held now limit lease_seconds =
     (case gateway of
        None \<Rightarrow> act_res (Inl (RuntimeError ''Notification gateway is not configured''))
      | Some send \<Rightarrow>
          act_bind (run_tx (claim_notifications held now limit lease_seconds)) (\<lambda>claims.
          deliver_claims send p now claims
            \<lparr>do_claimed = int (length claims), do_succeeded = 0, do_retried = 0, do_dead_lettered = 0\<rparr>))"

definition app_dispatch_outbox ::
  "(string \<Rightarrow> uuid) \<Rightarrow> (string \<Rightarrow> uuid \<Rightarrow> uuid) \<Rightarrow> retry_policy \<Rightarrow> (string \<Rightarrow> bool) \<Rightarrow> instant \<Rightarrow> int \<Rightarrow> int
   \<Rightarrow> (background_db, int \<times> int \<times> int) act" where
  "app_dispatch_outbox event_pk fresh p held now limit lease_seconds =
     run_tx (dispatch_outbox event_pk fresh held now limit lease_seconds (rp_max_attempts p))"

section \<open>The Telegram gateway (infrastructure/notifications.py)\<close>

text \<open>What the bot's \<open>send_message\<close> does: aiogram's exception classes, or another exception.\<close>

datatype bot_reply = BotSent | TelegramRetryAfter | TelegramNetworkError | TelegramForbiddenError
  | TelegramBadRequest | BotRaised exc

text \<open>\<open>int(text)\<close> of the recipient, which is decimal.\<close>

definition telegram_send :: "(int \<Rightarrow> string \<Rightarrow> bot_reply) \<Rightarrow> delivery_claim \<Rightarrow> string \<Rightarrow> unit res" where
  "telegram_send send_message c message =
     (case send_message (int (digits_val (dc_recipient_id c))) message of
        BotSent \<Rightarrow> Inr ()
      | TelegramRetryAfter \<Rightarrow> Inl (NotificationDeliveryError ''telegram.rate_limited'' True)
      | TelegramNetworkError \<Rightarrow> Inl (NotificationDeliveryError ''telegram.network'' True)
      | TelegramForbiddenError \<Rightarrow> Inl (NotificationDeliveryError ''telegram.forbidden'' False)
      | TelegramBadRequest \<Rightarrow> Inl (NotificationDeliveryError ''telegram.bad_request'' False)
      | BotRaised e \<Rightarrow> Inl e)"

section \<open>Worker runs (bootstrap/worker.py)\<close>

definition record_run ::
  "string \<Rightarrow> bool \<Rightarrow> int \<Rightarrow> string option \<Rightarrow> instant \<Rightarrow> instant \<Rightarrow> background_db \<Rightarrow> background_db" where
  "record_run task_name succeeded processed error_code started finished db =
     db\<lparr>bd_runs := bd_runs db @ [\<lparr>wr_task_name = task_name, wr_succeeded = succeeded,
       wr_processed_count = processed, wr_error_code = error_code, wr_started_at = started,
       wr_finished_at = finished\<rparr>]\<rparr>"

definition execute_task ::
  "string \<Rightarrow> (background_db, int) act \<Rightarrow> instant \<Rightarrow> instant \<Rightarrow> (background_db, int) act" where
  "execute_task task_name operation started finished db =
     (case operation db of
        (db', Inr processed) \<Rightarrow> (record_run task_name True processed None started finished db', Inr processed)
      | (db', Inl e) \<Rightarrow>
          if is_Exception e
          then (record_run task_name False 0 (Some ''worker.unexpected'') started finished db', Inl e)
          else (db', Inl e))"

definition dispatch_task ::
  "(string \<Rightarrow> uuid) \<Rightarrow> (string \<Rightarrow> uuid \<Rightarrow> uuid) \<Rightarrow> retry_policy \<Rightarrow> (string \<Rightarrow> bool) \<Rightarrow> instant \<Rightarrow> int \<Rightarrow> int
   \<Rightarrow> (background_db, int) act" where
  "dispatch_task event_pk fresh p held now batch_size lease_seconds =
     act_bind (app_dispatch_outbox event_pk fresh p held now batch_size lease_seconds)
       (\<lambda>(claimed, projected, dead). act_return claimed)"

definition deliver_task ::
  "(int \<Rightarrow> string \<Rightarrow> bot_reply) option \<Rightarrow> retry_policy \<Rightarrow> (uuid \<Rightarrow> bool) \<Rightarrow> instant \<Rightarrow> int \<Rightarrow> int
   \<Rightarrow> (background_db, int) act" where
  "deliver_task token_bot p held now batch_size lease_seconds =
     (case token_bot of
        None \<Rightarrow> act_res (Inl (RuntimeError ''Enabled notification delivery requires a Telegram token''))
      | Some b \<Rightarrow> act_bind (deliver_notifications (Some (telegram_send b)) p held now batch_size lease_seconds)
                   (\<lambda>out. act_return (do_claimed out)))"

end
