(* ===== verification/BackgroundFacts.thy ===== *)
theory BackgroundFacts
  imports Background Lifecycle
begin

text \<open>
  Background delivery: the delay of a retry, the outbox projection as a refinement of an operation
  on sets, what a delivery round does to every row, and what no interleaving of workers can break:
  one delivery for an event and a subscription, final outcomes, exclusive leases. A queue that is
  polled drains.
\<close>

section \<open>The delay of a retry\<close>

lemma retry_delay_bounds_upper:
  assumes "retry_policy_post_init p = Inr p"
  shows "next_attempt_at p i n now \<le> now + rp_maximum_delay_seconds p * second_us"
  unfolding next_attempt_at_def Let_def
  by (intro add_left_mono mult_right_mono min.cobounded1) (simp add: second_us_def)



section \<open>The projection of the outbox\<close>

lemma list_ex_key: "list_ex (\<lambda>x. f x = k) xs \<longleftrightarrow> k \<in> f ` set xs"
  by (auto simp: list_ex_iff)

lemma insert_delivery_Inr:
  "insert_delivery d (rows, n) = Inr (rows', n') \<longleftrightarrow>
     (if delivery_key d \<in> delivery_key ` set rows then rows' = rows \<and> n' = n
      else nd_id d \<notin> nd_id ` set rows \<and> rows' = rows @ [d] \<and> n' = n + 1)"
  by (auto simp: insert_delivery_def list_ex_key)

lemma insert_deliveries:
  assumes "res_fold (\<lambda>s. insert_delivery (f s)) ss (rows, n) = Inr (rows', n')"
  shows "\<exists>new. rows' = rows @ new \<and> n' = n + int (length new) \<and> set new \<subseteq> f ` set ss
    \<and> delivery_key ` set rows' = delivery_key ` set rows \<union> (\<lambda>s. delivery_key (f s)) ` set ss
    \<and> (distinct (map delivery_key rows) \<longrightarrow> distinct (map delivery_key rows'))
    \<and> (distinct (map nd_id rows) \<longrightarrow> distinct (map nd_id rows'))"
  using assms
proof (induction ss arbitrary: rows n)
  case (Cons s ss)
  obtain rows1 n1 where 1: "insert_delivery (f s) (rows, n) = Inr (rows1, n1)"
    and 2: "res_fold (\<lambda>s. insert_delivery (f s)) ss (rows1, n1) = Inr (rows', n')"
    using Cons.prems by (auto simp: res_bind_Inr_iff)
  obtain new where new: "rows' = rows1 @ new" "n' = n1 + int (length new)" "set new \<subseteq> f ` set ss"
      "delivery_key ` set rows' = delivery_key ` set rows1 \<union> (\<lambda>s. delivery_key (f s)) ` set ss"
      "distinct (map delivery_key rows1) \<longrightarrow> distinct (map delivery_key rows')"
      "distinct (map nd_id rows1) \<longrightarrow> distinct (map nd_id rows')"
    using Cons.IH [OF 2] by blast
  show ?case
  proof (cases "delivery_key (f s) \<in> delivery_key ` set rows")
    case True
    then have "rows1 = rows" "n1 = n" using 1 by (simp_all add: insert_delivery_Inr)
    then show ?thesis using new True by (intro exI [of _ new]) auto
  next
    case False
    then have "nd_id (f s) \<notin> nd_id ` set rows" "rows1 = rows @ [f s]" "n1 = n + 1"
      using 1 by (simp_all add: insert_delivery_Inr)
    then show ?thesis using new False by (intro exI [of _ "f s # new"]) auto
  qed
qed (auto intro: exI [of _ "[]"])

definition after_dispatch :: "instant \<Rightarrow> int \<Rightarrow> outbox_row \<Rightarrow> outbox_row" where
  "after_dispatch now max_attempts e =
     (if ob_attempts e + 1 > max_attempts then exhausted_event now e else published_event now e)"

lemma after_dispatch_name [simp]: "ob_name (after_dispatch now m e) = ob_name e"
  by (simp add: after_dispatch_def exhausted_event_def published_event_def)

text \<open>The keys of the deliveries an event gives rise to.\<close>

definition event_keys :: "subscription_row list \<Rightarrow> outbox_row \<Rightarrow> (tenant_id \<times> string \<times> uuid) set" where
  "event_keys subs e = {(ob_tenant_id e, ob_name e, sb_id s) |s. s \<in> set subs \<and> subscribed e s}"

lemma event_keys_image:
  "(\<lambda>s. delivery_key (new_delivery fresh e now s)) ` set (filter (subscribed e) subs) = event_keys subs e"
  by (auto simp: event_keys_def delivery_key_def new_delivery_def)

definition exhausted :: "int \<Rightarrow> outbox_row \<Rightarrow> bool" where
  "exhausted max_attempts e = (ob_attempts e + 1 > max_attempts)"

lemma dispatch_event_Inr:
  assumes "dispatch_event fresh now m e (db, p, k) = Inr (db', p', k')"
  shows "\<exists>new. db' = db\<lparr>bd_deliveries := bd_deliveries db @ new, bd_events := put_event (after_dispatch now m e) (bd_events db)\<rparr>
    \<and> p' = p + int (length new) \<and> k' = (if exhausted m e then k + 1 else k)
    \<and> set new \<subseteq> (if exhausted m e then {} else new_delivery fresh e now ` {s \<in> set (bd_subscriptions db). subscribed e s})
    \<and> delivery_key ` set (bd_deliveries db') = delivery_key ` set (bd_deliveries db)
        \<union> (if exhausted m e then {} else event_keys (bd_subscriptions db) e)
    \<and> (distinct (map delivery_key (bd_deliveries db)) \<longrightarrow> distinct (map delivery_key (bd_deliveries db')))
    \<and> (distinct (map nd_id (bd_deliveries db)) \<longrightarrow> distinct (map nd_id (bd_deliveries db')))"
proof (cases "exhausted m e")
  case True
  then show ?thesis using assms
    by (intro exI [of _ "[]"]) (auto simp: dispatch_event_def exhausted_def after_dispatch_def)
next
  case False
  then obtain rows where f: "res_fold (\<lambda>s. insert_delivery (new_delivery fresh e now s))
        (filter (subscribed e) (bd_subscriptions db)) (bd_deliveries db, p) = Inr (rows, p')"
    and db': "db' = db\<lparr>bd_deliveries := rows, bd_events := put_event (published_event now e) (bd_events db)\<rparr>" "k' = k"
    using assms by (auto simp: dispatch_event_def exhausted_def res_bind_Inr_iff)
  show ?thesis using insert_deliveries [OF f] False
    unfolding event_keys_image by (auto simp: db' after_dispatch_def exhausted_def)
qed

lemma put_events_map:
  assumes "distinct (map ob_name xs)" and "distinct (map ob_name es)" and "set es \<subseteq> set xs"
    and "\<And>e. ob_name (g e) = ob_name e"
  shows "fold (\<lambda>e. put_event (g e)) es xs = map (\<lambda>x. if x \<in> set es then g x else x) xs"
proof -
  have "fold (\<lambda>e. put_event (g e)) es ys = map (\<lambda>y. case find (\<lambda>e. ob_name e = ob_name y) es of Some e \<Rightarrow> g e | None \<Rightarrow> y) ys"
    if "distinct (map ob_name es)" for ys es
    using that
  proof (induction es arbitrary: ys)
    case (Cons e es)
    have n: "find (\<lambda>x. ob_name x = ob_name e) es = None" using Cons.prems by (auto simp: find_None_iff image_iff)
    show ?case using Cons n
      by (auto simp: put_event_def assms(4) split: option.splits)
  qed simp
  note this [OF assms(2), of xs]
  moreover have "(case find (\<lambda>e. ob_name e = ob_name x) es of Some e \<Rightarrow> g e | None \<Rightarrow> x) = (if x \<in> set es then g x else x)"
    if "x \<in> set xs" for x
  proof (cases "find (\<lambda>e. ob_name e = ob_name x) es")
    case None
    then have "x \<notin> set es" by (auto simp: find_None_iff)
    then show ?thesis using None by simp
  next
    case (Some e)
    then have "e \<in> set es" "ob_name e = ob_name x" by (auto dest: find_SomeD)
    then have "e = x" using that assms(1,3) by (auto simp: distinct_map inj_on_def)
    then show ?thesis using Some \<open>e \<in> set es\<close> by simp
  qed
  ultimately show ?thesis by (simp cong: map_cong)
qed

text \<open>The deliveries that some events can give rise to.\<close>

definition deliveries_from ::
  "(string \<Rightarrow> uuid \<Rightarrow> uuid) \<Rightarrow> instant \<Rightarrow> int \<Rightarrow> subscription_row list \<Rightarrow> outbox_row list \<Rightarrow> delivery_row set" where
  "deliveries_from fresh now m subs es =
     (\<Union>e \<in> {e \<in> set es. \<not> exhausted m e}. new_delivery fresh e now ` {s \<in> set subs. subscribed e s})"

lemma deliveries_from_Cons: "deliveries_from fresh now m subs (e # es) =
    (if exhausted m e then {} else new_delivery fresh e now ` {s \<in> set subs. subscribed e s})
    \<union> deliveries_from fresh now m subs es"
  by (auto simp: deliveries_from_def)

lemma dispatch_events_Inr:
  assumes "res_fold (dispatch_event fresh now m) es (db, p, k) = Inr (db', p', k')"
  shows "\<exists>new. db' = db\<lparr>bd_deliveries := bd_deliveries db @ new,
        bd_events := fold (\<lambda>e. put_event (after_dispatch now m e)) es (bd_events db)\<rparr>
    \<and> p' = p + int (length new) \<and> k' = k + int (length (filter (exhausted m) es))
    \<and> set new \<subseteq> deliveries_from fresh now m (bd_subscriptions db) es
    \<and> delivery_key ` set (bd_deliveries db') = delivery_key ` set (bd_deliveries db)
        \<union> (\<Union>e \<in> set (filter (\<lambda>e. \<not> exhausted m e) es). event_keys (bd_subscriptions db) e)
    \<and> (distinct (map delivery_key (bd_deliveries db)) \<longrightarrow> distinct (map delivery_key (bd_deliveries db')))
    \<and> (distinct (map nd_id (bd_deliveries db)) \<longrightarrow> distinct (map nd_id (bd_deliveries db')))"
  using assms
proof (induction es arbitrary: db p k)
  case Nil
  then show ?case by (intro exI [of _ "[]"]) simp
next
  case (Cons e es)
  obtain db1 p1 k1 where 1: "dispatch_event fresh now m e (db, p, k) = Inr (db1, p1, k1)"
    and 2: "res_fold (dispatch_event fresh now m) es (db1, p1, k1) = Inr (db', p', k')"
    using Cons.prems by (auto simp: res_bind_Inr_iff)
  obtain new1 where n1: "db1 = db\<lparr>bd_deliveries := bd_deliveries db @ new1, bd_events := put_event (after_dispatch now m e) (bd_events db)\<rparr>"
      "p1 = p + int (length new1)" "k1 = (if exhausted m e then k + 1 else k)"
      "set new1 \<subseteq> (if exhausted m e then {} else new_delivery fresh e now ` {s \<in> set (bd_subscriptions db). subscribed e s})"
      "delivery_key ` set (bd_deliveries db1) = delivery_key ` set (bd_deliveries db)
        \<union> (if exhausted m e then {} else event_keys (bd_subscriptions db) e)"
      "distinct (map delivery_key (bd_deliveries db)) \<longrightarrow> distinct (map delivery_key (bd_deliveries db1))"
      "distinct (map nd_id (bd_deliveries db)) \<longrightarrow> distinct (map nd_id (bd_deliveries db1))"
    using dispatch_event_Inr [OF 1] by (elim exE conjE) (rule that; assumption)
  obtain new2 where n2: "db' = db1\<lparr>bd_deliveries := bd_deliveries db1 @ new2,
        bd_events := fold (\<lambda>e. put_event (after_dispatch now m e)) es (bd_events db1)\<rparr>"
      "p' = p1 + int (length new2)" "k' = k1 + int (length (filter (exhausted m) es))"
      "set new2 \<subseteq> deliveries_from fresh now m (bd_subscriptions db1) es"
      "delivery_key ` set (bd_deliveries db') = delivery_key ` set (bd_deliveries db1)
        \<union> (\<Union>e \<in> set (filter (\<lambda>e. \<not> exhausted m e) es). event_keys (bd_subscriptions db1) e)"
      "distinct (map delivery_key (bd_deliveries db1)) \<longrightarrow> distinct (map delivery_key (bd_deliveries db'))"
      "distinct (map nd_id (bd_deliveries db1)) \<longrightarrow> distinct (map nd_id (bd_deliveries db'))"
    using Cons.IH [OF 2] by (elim exE conjE) (rule that; assumption)
  have subs: "bd_subscriptions db1 = bd_subscriptions db" using n1(1) by simp
  show ?case
  proof (intro exI [of _ "new1 @ new2"] conjI)
    show "db' = db\<lparr>bd_deliveries := bd_deliveries db @ new1 @ new2,
        bd_events := fold (\<lambda>e. put_event (after_dispatch now m e)) (e # es) (bd_events db)\<rparr>"
      using n1(1) n2(1) by simp
    show "set (new1 @ new2) \<subseteq> deliveries_from fresh now m (bd_subscriptions db) (e # es)"
      using n1(4) n2(4) unfolding subs deliveries_from_Cons by (auto split: if_splits)
    show "delivery_key ` set (bd_deliveries db') = delivery_key ` set (bd_deliveries db)
        \<union> (\<Union>e \<in> set (filter (\<lambda>e. \<not> exhausted m e) (e # es)). event_keys (bd_subscriptions db) e)"
      unfolding n2(5) n1(5) subs by auto
  qed (use n1 n2 in simp_all)
qed

text \<open>
  The abstract projection: the set of (event, subscription) pairs that have a delivery, the names
  of the published and of the abandoned events.
\<close>

record projection =
  pj_pairs :: "(tenant_id \<times> string \<times> uuid) set"
  pj_published :: "string set"
  pj_dead :: "string set"

definition projection_of :: "background_db \<Rightarrow> projection" where
  "projection_of db =
     \<lparr>pj_pairs = delivery_key ` set (bd_deliveries db),
      pj_published = ob_name ` {e \<in> set (bd_events db). ob_status e = O_PUBLISHED},
      pj_dead = ob_name ` {e \<in> set (bd_events db). ob_status e = O_DEAD_LETTER}\<rparr>"

definition project :: "subscription_row list \<Rightarrow> outbox_row set \<Rightarrow> outbox_row set \<Rightarrow> projection \<Rightarrow> projection" where
  "project subs ready worn_out pj =
     \<lparr>pj_pairs = pj_pairs pj \<union> (\<Union>e \<in> ready. event_keys subs e),
      pj_published = pj_published pj \<union> ob_name ` ready, pj_dead = pj_dead pj \<union> ob_name ` worn_out\<rparr>"

lemma due_events_mem:
  "e \<in> set (due_events event_pk held now stale limit db) \<Longrightarrow> e \<in> set (bd_events db) \<and> event_due db now stale e"
  by (auto simp: due_events_def dest: in_set_takeD)

lemma due_events_distinct:
  assumes "distinct (map ob_name (bd_events db))"
  shows "distinct (map ob_name (due_events event_pk held now stale limit db))"
proof -
  let ?xs = "filter (\<lambda>e. event_due db now stale e \<and> \<not> held (ob_name e)) (bd_events db)"
  have "distinct (map ob_name ?xs)" using assms by (rule distinct_map_filter)
  then have "distinct (map ob_name (sort_key (\<lambda>e. (ob_available_at e, event_pk (ob_name e))) ?xs))"
    by (simp add: distinct_map)
  then show ?thesis unfolding due_events_def take_map [symmetric] by (rule distinct_take)
qed

lemma dispatch_outbox_Inr:
  assumes "dispatch_outbox event_pk fresh held now limit lease m db = Inr (db', claimed, projected, dead)"
    and "distinct (map ob_name (bd_events db))"
  shows "\<exists>new es. es = due_events event_pk held now (now - lease * second_us) limit db
    \<and> db' = db\<lparr>bd_deliveries := bd_deliveries db @ new,
        bd_events := map (\<lambda>x. if x \<in> set es then after_dispatch now m x else x) (bd_events db)\<rparr>
    \<and> claimed = int (length es) \<and> projected = int (length new) \<and> dead = int (length (filter (exhausted m) es))
    \<and> set new \<subseteq> deliveries_from fresh now m (bd_subscriptions db) es
    \<and> delivery_key ` set (bd_deliveries db') = delivery_key ` set (bd_deliveries db)
        \<union> (\<Union>e \<in> set (filter (\<lambda>e. \<not> exhausted m e) es). event_keys (bd_subscriptions db) e)
    \<and> (distinct (map delivery_key (bd_deliveries db)) \<longrightarrow> distinct (map delivery_key (bd_deliveries db')))
    \<and> (distinct (map nd_id (bd_deliveries db)) \<longrightarrow> distinct (map nd_id (bd_deliveries db')))"
proof -
  define es where "es = due_events event_pk held now (now - lease * second_us) limit db"
  have f: "res_fold (dispatch_event fresh now m) es (db, 0, 0) = Inr (db', projected, dead)" and c: "claimed = int (length es)"
    using assms(1) by (auto simp: dispatch_outbox_def Let_def es_def res_bind_Inr_iff)
  have "fold (\<lambda>e. put_event (after_dispatch now m e)) es (bd_events db)
      = map (\<lambda>x. if x \<in> set es then after_dispatch now m x else x) (bd_events db)"
    using assms(2) due_events_distinct [OF assms(2)] due_events_mem unfolding es_def
    by (intro put_events_map) (auto simp: subset_iff)
  note g = this
  show ?thesis
    using dispatch_events_Inr [OF f] c unfolding g es_def [symmetric]
    by (elim exE conjE) (intro exI [of _ es] exI conjI; (assumption | simp))
qed

lemma event_due_open: "event_due db now stale e \<Longrightarrow> ob_status e = O_PENDING \<or> ob_status e = O_PROCESSING"
  by (auto simp: event_due_def)

lemma after_dispatch_status:
  "ob_status (after_dispatch now m e) = (if exhausted m e then O_DEAD_LETTER else O_PUBLISHED)"
  by (simp add: after_dispatch_def exhausted_def exhausted_event_def published_event_def)

lemma projection_after:
  assumes "\<And>e. e \<in> set es \<Longrightarrow> e \<in> set xs \<and> (ob_status e = O_PENDING \<or> ob_status e = O_PROCESSING)"
  shows "ob_name ` {x \<in> set (map (\<lambda>x. if x \<in> set es then after_dispatch now m x else x) xs). ob_status x = st}
    = ob_name ` {x \<in> set xs. ob_status x = st \<and> x \<notin> set es}
      \<union> ob_name ` {e \<in> set es. ob_status (after_dispatch now m e) = st}"
proof -
  let ?g = "\<lambda>x. if x \<in> set es then after_dispatch now m x else x"
  have "{x \<in> set (map ?g xs). ob_status x = st}
      = {x \<in> set xs. ob_status x = st \<and> x \<notin> set es}
        \<union> after_dispatch now m ` {e \<in> set es. ob_status (after_dispatch now m e) = st}"
    using assms by (auto split: if_splits)
  then show ?thesis by (simp add: image_Un image_image)
qed

text \<open>
  C5. Dispatching the outbox is an operation on sets: every due event that has attempts left
  is paired with exactly the enabled subscriptions of its tenant that ask for its type and is
  published, every other due event is abandoned, and nothing else changes; the three numbers
  returned count the events taken, the new pairs and the abandoned events.
\<close>

theorem dispatch_refines_projection:
  assumes "dispatch_outbox event_pk fresh held now limit lease m db = Inr (db', claimed, projected, dead)"
    and "distinct (map ob_name (bd_events db))" and "distinct (map delivery_key (bd_deliveries db))"
  shows "let es = due_events event_pk held now (now - lease * second_us) limit db;
             ready = {e \<in> set es. ob_attempts e < m}; worn_out = {e \<in> set es. m \<le> ob_attempts e} in
     projection_of db' = project (bd_subscriptions db) ready worn_out (projection_of db)
     \<and> claimed = int (length es) \<and> dead = int (card worn_out)
     \<and> projected = int (card (pj_pairs (projection_of db') - pj_pairs (projection_of db)))"
proof -
  define es where "es = due_events event_pk held now (now - lease * second_us) limit db"
  obtain new where db': "db' = db\<lparr>bd_deliveries := bd_deliveries db @ new,
        bd_events := map (\<lambda>x. if x \<in> set es then after_dispatch now m x else x) (bd_events db)\<rparr>"
    and counts: "claimed = int (length es)" "projected = int (length new)" "dead = int (length (filter (exhausted m) es))"
    and keys: "delivery_key ` set (bd_deliveries db') = delivery_key ` set (bd_deliveries db)
        \<union> (\<Union>e \<in> set (filter (\<lambda>e. \<not> exhausted m e) es). event_keys (bd_subscriptions db) e)"
    and dk: "distinct (map delivery_key (bd_deliveries db'))"
    using dispatch_outbox_Inr [OF assms(1,2)] assms(3) unfolding es_def [symmetric]
    by (elim exE conjE) (rule that; (assumption | simp only: simp_thms))
  have ready: "{e \<in> set es. ob_attempts e < m} = set (filter (\<lambda>e. \<not> exhausted m e) es)"
    and worn: "{e \<in> set es. m \<le> ob_attempts e} = set (filter (exhausted m) es)"
    by (auto simp: exhausted_def)
  have due: "e \<in> set es \<Longrightarrow> e \<in> set (bd_events db) \<and> (ob_status e = O_PENDING \<or> ob_status e = O_PROCESSING)" for e
    using due_events_mem event_due_open unfolding es_def by blast
  have pub: "ob_name ` {x \<in> set (bd_events db). ob_status x = st \<and> x \<notin> set es} = ob_name ` {x \<in> set (bd_events db). ob_status x = st}"
    if "st = O_PUBLISHED \<or> st = O_DEAD_LETTER" for st
    using that by (intro arg_cong [where f = "image ob_name"]) (auto dest: due)
  have st: "ob_name ` {x \<in> set (bd_events db'). ob_status x = st}
      = ob_name ` {x \<in> set (bd_events db). ob_status x = st} \<union> ob_name ` {e \<in> set es. ob_status (after_dispatch now m e) = st}"
    if "st = O_PUBLISHED \<or> st = O_DEAD_LETTER" for st
    using projection_after [OF due, of es now m st] pub [OF that] by (simp add: db' del: set_map)
  have "projection_of db' = project (bd_subscriptions db) {e \<in> set es. ob_attempts e < m}
      {e \<in> set es. m \<le> ob_attempts e} (projection_of db)"
    unfolding project_def projection_of_def keys ready worn
    by (simp add: st after_dispatch_status) (auto simp: image_iff)
  moreover have "card {e \<in> set es. m \<le> ob_attempts e} = length (filter (exhausted m) es)"
    unfolding worn using due_events_distinct [OF assms(2)]
    by (intro distinct_card distinct_filter) (auto simp: es_def distinct_map)
  moreover have "card (pj_pairs (projection_of db') - pj_pairs (projection_of db)) = length new"
  proof -
    have "pj_pairs (projection_of db') - pj_pairs (projection_of db) = set (map delivery_key new)"
      using dk by (auto simp: projection_of_def db')
    moreover have "distinct (map delivery_key new)" using dk by (simp add: db')
    ultimately show ?thesis by (metis distinct_card length_map)
  qed
  ultimately show ?thesis using counts by (simp add: Let_def es_def)
qed

definition notice_event :: outbox_row where
  "notice_event = \<lparr>ob_name = ''e'', ob_tenant_id = TenantId 1, ob_aggregate_type = ''lead'', ob_aggregate_id = 3,
     ob_event_type = ''lead.qualified'', ob_payload = [(''lead_id'', JStr ''L1'')], ob_status = O_PENDING,
     ob_attempts = 0, ob_available_at = 0, ob_locked_at = None, ob_published_at = None,
     ob_last_error_code = None, ob_occurred_at = 0\<rparr>"

definition notice_subscription :: subscription_row where
  "notice_subscription = \<lparr>sb_id = 7, sb_tenant_id = TenantId 1, sb_channel = CH_TELEGRAM,
     sb_recipient_id = ''42'', sb_event_types = [''lead.qualified''], sb_enabled = True\<rparr>"

definition notice_db :: background_db where
  "notice_db = \<lparr>bd_tenants = [(TenantId 1, T_ACTIVE)],
     bd_entitlements = [((TenantId 1, ''background_notifications''), True)], bd_events = [notice_event],
     bd_subscriptions = [notice_subscription], bd_deliveries = [], bd_runs = []\<rparr>"

definition notice_delivery :: delivery_row where
  "notice_delivery = new_delivery (\<lambda>_ _. 9) notice_event 0 notice_subscription"

lemma notice_entitled [simp]: "bd_tenants db = bd_tenants notice_db \<Longrightarrow> bd_entitlements db = bd_entitlements notice_db
    \<Longrightarrow> delivery_entitled db (TenantId 1)"
  by (simp add: delivery_entitled_def notice_db_def)

lemma notice_due: "due_events (\<lambda>_. 0) (\<lambda>_. False) 0 stale 100 notice_db = [notice_event]"
  by (simp add: due_events_def event_due_def notice_db_def delivery_entitled_def notice_event_def)

lemma notice_dispatch:
  "dispatch_outbox (\<lambda>_. 0) (\<lambda>_ _. 9) (\<lambda>_. False) 0 100 60 6 notice_db
     = Inr (notice_db\<lparr>bd_deliveries := [notice_delivery], bd_events := [published_event 0 notice_event]\<rparr>, 1, 1, 0)"
  unfolding dispatch_outbox_def notice_due Let_def
  by (simp add: dispatch_event_def insert_delivery_def notice_db_def subscribed_def notice_delivery_def put_event_def)
     (simp add: notice_event_def notice_subscription_def published_event_def)

lemma notice_fields [simp]:
  "bd_events notice_db = [notice_event]" "bd_subscriptions notice_db = [notice_subscription]"
  "bd_deliveries notice_db = []" "ob_attempts notice_event = 0" "ob_name notice_event = ''e''"
  by (simp_all add: notice_db_def notice_event_def)

theorem dispatch_refines_projection_witness:
  "\<exists>db' claimed projected dead.
     dispatch_outbox (\<lambda>_. 0) (\<lambda>_ _. 9) (\<lambda>_. False) 0 100 60 6 notice_db = Inr (db', claimed, projected, dead)
     \<and> projection_of db' = project [notice_subscription] {notice_event} {} (projection_of notice_db)"
proof -
  have "{e \<in> set [notice_event]. ob_attempts e < 6} = {notice_event}" "{e \<in> set [notice_event]. 6 \<le> ob_attempts e} = {}"
    by auto
  then show ?thesis
    using dispatch_refines_projection [OF notice_dispatch] unfolding notice_due Let_def
    by (simp only: notice_dispatch notice_fields) auto
qed

section \<open>A delivery round\<close>

definition failure_of :: "exc \<Rightarrow> string \<times> bool" where
  "failure_of e = (case e of NotificationDeliveryError c r \<Rightarrow> (c, r) | _ \<Rightarrow> (''delivery.unexpected'', True))"

lemma deliver_claim_failed:
  assumes "res_bind (render c) (send c) = Inl e" and "e \<noteq> CancelledError"
  shows "deliver_claim send p now c out db = (case failure_of e of (error_code, retryable) \<Rightarrow>
    (case failed_delivery p now c error_code retryable out db of (db', out') \<Rightarrow> (db', Inr out')))"
  using assms(2) unfolding deliver_claim_def assms(1) by (cases e) (simp_all add: failure_of_def)

text \<open>What a round makes of a row it has claimed.\<close>

definition settled :: "(delivery_claim \<Rightarrow> string \<Rightarrow> unit res) \<Rightarrow> retry_policy \<Rightarrow> instant \<Rightarrow> delivery_row \<Rightarrow> delivery_row" where
  "settled send p now d =
     (case res_bind (render (claim_of_row d)) (send (claim_of_row d)) of
        Inr _ \<Rightarrow> finished_row D_SENT now None d
      | Inl e \<Rightarrow>
          (case failure_of e of (error_code, retryable) \<Rightarrow>
               if retryable \<and> nd_attempts d < rp_max_attempts p
               then finished_row D_PENDING (next_attempt_at p (nd_id d) (nd_attempts d) now) (Some error_code) d
               else finished_row D_DEAD_LETTER now (Some error_code) d))"

lemma finished_row_fields [simp]:
  "nd_status (finished_row st time err d) = st" "nd_id (finished_row st time err d) = nd_id d"
  "nd_attempts (finished_row st time err d) = nd_attempts d"
  "nd_tenant_id (finished_row st time err d) = nd_tenant_id d"
  "nd_event (finished_row st time err d) = nd_event d"
  "nd_subscription_id (finished_row st time err d) = nd_subscription_id d"
  "nd_payload (finished_row st time err d) = nd_payload d"
  "nd_event_type (finished_row st time err d) = nd_event_type d"
  "nd_locked_at (finished_row st time err d) = None"
  "nd_available_at (finished_row st time err d) = (if st = D_PENDING then time else nd_available_at d)"
  "nd_sent_at (finished_row st time err d) = (if st = D_SENT then Some time else nd_sent_at d)"
  by (cases st; simp add: finished_row_def)+

lemma claimed_delivery_fields [simp]:
  "nd_status (claimed_delivery now d) = D_PROCESSING" "nd_id (claimed_delivery now d) = nd_id d"
  "nd_attempts (claimed_delivery now d) = nd_attempts d + 1"
  "nd_tenant_id (claimed_delivery now d) = nd_tenant_id d" "nd_event (claimed_delivery now d) = nd_event d"
  "nd_subscription_id (claimed_delivery now d) = nd_subscription_id d"
  "nd_payload (claimed_delivery now d) = nd_payload d"
  "nd_event_type (claimed_delivery now d) = nd_event_type d"
  "nd_locked_at (claimed_delivery now d) = Some now" "nd_sent_at (claimed_delivery now d) = nd_sent_at d"
  "nd_available_at (claimed_delivery now d) = nd_available_at d"
  by (simp_all add: claimed_delivery_def)

lemma claim_of_row_fields [simp]:
  "dc_id (claim_of_row d) = nd_id d" "dc_tenant_id (claim_of_row d) = nd_tenant_id d"
  "dc_attempts (claim_of_row d) = nd_attempts d" "dc_payload (claim_of_row d) = nd_payload d"
  "dc_event_type (claim_of_row d) = nd_event_type d"
  by (simp_all add: claim_of_row_def)

lemma settled_cases:
  "settled send p now d = finished_row D_SENT now None d
   \<or> (\<exists>err. settled send p now d
        = finished_row D_PENDING (next_attempt_at p (nd_id d) (nd_attempts d) now) (Some err) d
        \<and> nd_attempts d < rp_max_attempts p)
   \<or> (\<exists>err. settled send p now d = finished_row D_DEAD_LETTER now (Some err) d)"
proof (cases "res_bind (render (claim_of_row d)) (send (claim_of_row d))")
  case (Inl e)
  obtain c r where f: "failure_of e = (c, r)" by (cases "failure_of e")
  show ?thesis
  proof (cases "r \<and> nd_attempts d < rp_max_attempts p")
    case True
    then show ?thesis using Inl f by (intro disjI2 disjI1 exI [of _ c]) (simp add: settled_def)
  next
    case False
    show ?thesis using Inl f by (intro disjI2 exI [of _ c]) (simp only: settled_def sum.case prod.case if_not_P [OF False])
  qed
qed (simp add: settled_def)

lemma settled_id [simp]: "nd_id (settled send p now d) = nd_id d"
  using settled_cases [of send p now d] by auto

lemma finish_row:
  assumes "distinct (map nd_id (bd_deliveries db))" and "d \<in> set (bd_deliveries db)" and "nd_status d = D_PROCESSING"
  shows "finish (claim_of_row d) st time err db
    = db\<lparr>bd_deliveries := map (\<lambda>x. if x = d then finished_row st time err d else x) (bd_deliveries db)\<rparr>"
  using assms unfolding finish_def
  by (auto simp: distinct_map inj_on_def intro!: background_db.fold_congs(5))

definition delivery_result :: "(delivery_claim \<Rightarrow> string \<Rightarrow> unit res) \<Rightarrow> delivery_row \<Rightarrow> unit res" where
  "delivery_result send d = res_bind (render (claim_of_row d)) (send (claim_of_row d))"

definition add_outcome :: "delivery_status \<Rightarrow> delivery_outcome \<Rightarrow> delivery_outcome" where
  "add_outcome st out = (case st of
     D_SENT \<Rightarrow> out\<lparr>do_succeeded := do_succeeded out + 1\<rparr>
   | D_PENDING \<Rightarrow> out\<lparr>do_retried := do_retried out + 1\<rparr>
   | _ \<Rightarrow> out\<lparr>do_dead_lettered := do_dead_lettered out + 1\<rparr>)"

lemma not_Exception_iff: "\<not> is_Exception e \<longleftrightarrow> e = CancelledError"
  by (cases e) auto

lemma deliver_claim_row:
  assumes "distinct (map nd_id (bd_deliveries db))" and "d \<in> set (bd_deliveries db)" and "nd_status d = D_PROCESSING"
    and "delivery_result send d \<noteq> Inl CancelledError"
  shows "deliver_claim send p now (claim_of_row d) out db
    = (db\<lparr>bd_deliveries := map (\<lambda>x. if x = d then settled send p now d else x) (bd_deliveries db)\<rparr>,
       Inr (add_outcome (nd_status (settled send p now d)) out))"
proof (cases "delivery_result send d")
  case (Inr u)
  then show ?thesis using finish_row [OF assms(1-3)]
    by (simp add: deliver_claim_def delivery_result_def settled_def mark_delivered_def add_outcome_def)
next
  case (Inl e)
  have c: "deliver_claim send p now (claim_of_row d) out db = (case failure_of e of (error_code, retryable) \<Rightarrow>
      (case failed_delivery p now (claim_of_row d) error_code retryable out db of (db', out') \<Rightarrow> (db', Inr out')))"
    using Inl assms(4) by (intro deliver_claim_failed) (auto simp: delivery_result_def)
  obtain code r where f: "failure_of e = (code, r)" by (cases "failure_of e")
  let ?st = "if r \<and> nd_attempts d < rp_max_attempts p then D_PENDING else D_DEAD_LETTER"
  have s: "settled send p now d = finished_row ?st (if ?st = D_PENDING then next_attempt_at p (nd_id d) (nd_attempts d) now else now)
      (Some code) d"
    using Inl f by (simp add: settled_def delivery_result_def)
  show ?thesis
    unfolding c f s failed_delivery_def retry_delivery_def dead_letter_def finish_row [OF assms(1-3)] prod.case
      claim_of_row_fields finished_row_fields add_outcome_def
    by (cases "r \<and> nd_attempts d < rp_max_attempts p") (simp_all only: if_True if_False delivery_status.case prod.case simp_thms
        delivery_status.distinct)
qed

lemma deliver_claim_cancelled:
  "delivery_result send d = Inl CancelledError \<Longrightarrow> deliver_claim send p now (claim_of_row d) out db = (db, Inl CancelledError)"
  by (simp add: deliver_claim_def delivery_result_def)

lemma deliver_claims_rows:
  assumes "distinct (map nd_id (bd_deliveries db))" and "distinct (map nd_id rs)"
    and "\<And>r. r \<in> set rs \<Longrightarrow> r \<in> set (bd_deliveries db) \<and> nd_status r = D_PROCESSING"
    and "\<And>r. r \<in> set rs \<Longrightarrow> delivery_result send r \<noteq> Inl CancelledError"
  shows "deliver_claims send p now (map claim_of_row rs) out db
    = (db\<lparr>bd_deliveries := map (\<lambda>x. if x \<in> set rs then settled send p now x else x) (bd_deliveries db)\<rparr>,
       Inr (fold (\<lambda>r. add_outcome (nd_status (settled send p now r))) rs out))"
  using assms
proof (induction rs arbitrary: db out)
  case (Cons r rs)
  let ?f = "\<lambda>x. if x = r then settled send p now r else x"
  let ?db = "db\<lparr>bd_deliveries := map ?f (bd_deliveries db)\<rparr>"
  have step: "deliver_claim send p now (claim_of_row r) out db
      = (?db, Inr (add_outcome (nd_status (settled send p now r)) out))"
    by (rule deliver_claim_row) (use Cons.prems in auto)
  have ids: "map nd_id (bd_deliveries ?db) = map nd_id (bd_deliveries db)" by simp
  have other: "x \<in> set (bd_deliveries ?db)" if "x \<in> set rs" for x
    using that Cons.prems(2,3) by (auto simp: image_iff)
  have not: "settled send p now r \<notin> set rs" using Cons.prems(2) by (auto simp: image_iff dest: arg_cong [of _ _ nd_id])
  have "map (\<lambda>x. if x \<in> set rs then settled send p now x else x) (map ?f xs)
      = map (\<lambda>x. if x \<in> set (r # rs) then settled send p now x else x) xs" for xs
    using not Cons.prems(2) by auto
  note merged = this
  have "deliver_claims send p now (map claim_of_row (r # rs)) out db
      = deliver_claims send p now (map claim_of_row rs) (add_outcome (nd_status (settled send p now r)) out) ?db"
    by (simp add: act_bind_def step)
  also have "\<dots> = (?db\<lparr>bd_deliveries := map (\<lambda>x. if x \<in> set rs then settled send p now x else x) (bd_deliveries ?db)\<rparr>,
         Inr (fold (\<lambda>r. add_outcome (nd_status (settled send p now r))) rs (add_outcome (nd_status (settled send p now r)) out)))"
  proof (rule Cons.IH)
    show "distinct (map nd_id (bd_deliveries ?db))" by (subst ids) (rule Cons.prems(1))
    show "distinct (map nd_id rs)" using Cons.prems(2) by simp
    show "x \<in> set (bd_deliveries ?db) \<and> nd_status x = D_PROCESSING" if "x \<in> set rs" for x
      using other [OF that] Cons.prems(3) [of x] that by simp
    show "delivery_result send x \<noteq> Inl CancelledError" if "x \<in> set rs" for x
      using Cons.prems(4) [of x] that by simp
  qed
  also have "?db\<lparr>bd_deliveries := map (\<lambda>x. if x \<in> set rs then settled send p now x else x) (bd_deliveries ?db)\<rparr>
      = db\<lparr>bd_deliveries := map (\<lambda>x. if x \<in> set (r # rs) then settled send p now x else x) (bd_deliveries db)\<rparr>"
    using merged [of "bd_deliveries db"] by (simp del: map_map list.set)
  finally show ?case by simp
qed simp

lemma due_deliveries_mem:
  "d \<in> set (due_deliveries held now stale limit db) \<Longrightarrow> d \<in> set (bd_deliveries db) \<and> delivery_due db now stale d"
  by (auto simp: due_deliveries_def dest: in_set_takeD)

lemma due_deliveries_distinct:
  assumes "distinct (map nd_id (bd_deliveries db))"
  shows "distinct (map nd_id (due_deliveries held now stale limit db))"
proof -
  let ?xs = "filter (\<lambda>d. delivery_due db now stale d \<and> \<not> held (nd_id d)) (bd_deliveries db)"
  have "distinct (map nd_id ?xs)" using assms by (rule distinct_map_filter)
  then have "distinct (map nd_id (sort_key (\<lambda>d. (nd_available_at d, nd_id d)) ?xs))" by (simp add: distinct_map)
  then show ?thesis unfolding due_deliveries_def take_map [symmetric] by (rule distinct_take)
qed

lemma row_by_id:
  assumes "distinct (map nd_id rows)" and "set ds \<subseteq> set rows" and "x \<in> set rows"
  shows "nd_id x \<in> nd_id ` set ds \<longleftrightarrow> x \<in> set ds"
  using assms by (auto simp: distinct_map inj_on_def)

lemma claim_notifications_rows:
  assumes "distinct (map nd_id (bd_deliveries db))"
  shows "claim_notifications held now limit lease db =
    (let rows = due_deliveries held now (now - lease * second_us) limit db in
     Inr (db\<lparr>bd_deliveries := map (\<lambda>d. if d \<in> set rows then claimed_delivery now d else d) (bd_deliveries db)\<rparr>,
          map (\<lambda>d. claim_of_row (claimed_delivery now d)) rows))"
proof -
  have "x \<in> set (bd_deliveries db) \<Longrightarrow>
      nd_id x \<in> nd_id ` set (due_deliveries held now (now - lease * second_us) limit db)
      \<longleftrightarrow> x \<in> set (due_deliveries held now (now - lease * second_us) limit db)" for x
    by (rule row_by_id [OF assms]) (auto dest: due_deliveries_mem)
  then show ?thesis by (simp add: claim_notifications_def Let_def cong: map_cong)
qed

lemma outcome_counts:
  "do_claimed (fold (\<lambda>r. add_outcome (f r)) rs out) = do_claimed out
   \<and> do_succeeded (fold (\<lambda>r. add_outcome (f r)) rs out) = do_succeeded out + int (length (filter (\<lambda>r. f r = D_SENT) rs))
   \<and> do_retried (fold (\<lambda>r. add_outcome (f r)) rs out) = do_retried out + int (length (filter (\<lambda>r. f r = D_PENDING) rs))
   \<and> do_dead_lettered (fold (\<lambda>r. add_outcome (f r)) rs out)
      = do_dead_lettered out + int (length (filter (\<lambda>r. f r \<noteq> D_SENT \<and> f r \<noteq> D_PENDING) rs))"
  by (induction rs arbitrary: out) (auto simp: add_outcome_def split: delivery_status.splits)

text \<open>
  C27. A delivery round that is not cancelled returns, and it settles exactly the rows it claims, the
  first due ones in the order of their due time: a message that was sent is marked sent, a failure
  that can be repeated waits for its next attempt, any other failure ends the delivery; no claimed
  row stays in processing, no other row is touched, and the numbers reported add up.
\<close>

theorem delivery_round_exact:
  assumes "distinct (map nd_id (bd_deliveries db))"
    and "\<forall>c message. send c message \<noteq> Inl CancelledError"
  shows "let rows = due_deliveries held now (now - lease * second_us) limit db;
             after = (\<lambda>d. settled send p now (claimed_delivery now d)) in
    \<exists>out. deliver_notifications (Some send) p held now limit lease db =
        (db\<lparr>bd_deliveries := map (\<lambda>d. if d \<in> set rows then after d else d) (bd_deliveries db)\<rparr>, Inr out)
      \<and> do_claimed out = int (length rows)
      \<and> do_succeeded out = int (length (filter (\<lambda>d. nd_status (after d) = D_SENT) rows))
      \<and> do_retried out = int (length (filter (\<lambda>d. nd_status (after d) = D_PENDING) rows))
      \<and> do_dead_lettered out = int (length (filter (\<lambda>d. nd_status (after d) = D_DEAD_LETTER) rows))
      \<and> do_claimed out = do_succeeded out + do_retried out + do_dead_lettered out"
proof -
  define rows where "rows = due_deliveries held now (now - lease * second_us) limit db"
  let ?g = "\<lambda>d. if d \<in> set rows then claimed_delivery now d else d"
  let ?db = "db\<lparr>bd_deliveries := map ?g (bd_deliveries db)\<rparr>"
  let ?out = "\<lparr>do_claimed = int (length rows), do_succeeded = 0, do_retried = 0, do_dead_lettered = 0\<rparr>"
  have sub: "set rows \<subseteq> set (bd_deliveries db)" by (auto simp: rows_def dest: due_deliveries_mem)
  have dist: "distinct (map nd_id rows)" unfolding rows_def by (rule due_deliveries_distinct [OF assms(1)])
  have ids: "map nd_id (bd_deliveries ?db) = map nd_id (bd_deliveries db)" by simp
  have res: "delivery_result send r \<noteq> Inl CancelledError" for r
  proof (cases "render (claim_of_row r)")
    case (Inl e)
    then have "e \<noteq> CancelledError"
      by (auto simp: render_def identifier_of_def Let_def res_bind_Inl_iff split: if_splits option.splits json.splits)
    then show ?thesis using Inl by (simp add: delivery_result_def)
  qed (use assms(2) in \<open>simp add: delivery_result_def\<close>)
  have "deliver_notifications (Some send) p held now limit lease db
      = deliver_claims send p now (map claim_of_row (map (claimed_delivery now) rows)) ?out ?db"
    using claim_notifications_rows [OF assms(1), of held now limit lease]
    by (simp add: deliver_notifications_def rows_def [symmetric] Let_def comp_def)
  also have "\<dots> = (?db\<lparr>bd_deliveries := map (\<lambda>x. if x \<in> set (map (claimed_delivery now) rows) then settled send p now x else x)
          (bd_deliveries ?db)\<rparr>,
       Inr (fold (\<lambda>r. add_outcome (nd_status (settled send p now r))) (map (claimed_delivery now) rows) ?out))"
  proof (rule deliver_claims_rows)
    show "distinct (map nd_id (bd_deliveries ?db))" by (subst ids) (rule assms(1))
    show "distinct (map nd_id (map (claimed_delivery now) rows))" using dist by (simp add: comp_def)
  qed (use sub res in auto)
  also have "map (\<lambda>x. if x \<in> set (map (claimed_delivery now) rows) then settled send p now x else x) (bd_deliveries ?db)
      = map (\<lambda>d. if d \<in> set rows then settled send p now (claimed_delivery now d) else d) (bd_deliveries db)"
  proof -
    have "d \<in> set rows" if "d \<in> set (bd_deliveries db)" "d = claimed_delivery now r" "r \<in> set rows" for d r
      using that row_by_id [OF assms(1) sub that(1)] by auto
    then show ?thesis by auto
  qed
  finally have run: "deliver_notifications (Some send) p held now limit lease db
      = (db\<lparr>bd_deliveries := map (\<lambda>d. if d \<in> set rows then settled send p now (claimed_delivery now d) else d) (bd_deliveries db)\<rparr>,
         Inr (fold (\<lambda>r. add_outcome (nd_status (settled send p now (claimed_delivery now r)))) rows ?out))"
    by (simp add: fold_map comp_def)
  have dead: "nd_status (settled send p now d) \<noteq> D_SENT \<and> nd_status (settled send p now d) \<noteq> D_PENDING
      \<longleftrightarrow> nd_status (settled send p now d) = D_DEAD_LETTER" for d
    using settled_cases [of send p now d] by (elim disjE exE conjE) simp_all
  have total: "length (filter (\<lambda>x. f x = D_SENT) xs) + length (filter (\<lambda>x. f x = D_PENDING) xs)
      + length (filter (\<lambda>x. f x \<noteq> D_SENT \<and> f x \<noteq> D_PENDING) xs) = length xs" for f :: "delivery_row \<Rightarrow> delivery_status" and xs
    by (induction xs) auto
  show ?thesis
    unfolding rows_def [symmetric] Let_def run
    using outcome_counts [of "\<lambda>r. nd_status (settled send p now (claimed_delivery now r))" rows ?out]
      total [of "\<lambda>r. nd_status (settled send p now (claimed_delivery now r))" rows]
    by (simp add: dead)
qed

definition sent_db :: background_db where
  "sent_db = notice_db\<lparr>bd_deliveries := [notice_delivery]\<rparr>"

definition retries :: retry_policy where
  "retries = \<lparr>rp_max_attempts = 2, rp_base_delay_seconds = 5, rp_maximum_delay_seconds = 10\<rparr>"

lemma sent_db_fields [simp]: "bd_deliveries sent_db = [notice_delivery]" "delivery_entitled sent_db (TenantId 1)"
  "bd_events sent_db = [notice_event]" "bd_subscriptions sent_db = [notice_subscription]"
  by (simp_all add: sent_db_def delivery_entitled_def notice_db_def)

lemma notice_delivery_fields [simp]:
  "nd_id notice_delivery = 9" "nd_tenant_id notice_delivery = TenantId 1" "nd_status notice_delivery = D_PENDING"
  "nd_available_at notice_delivery = 0" "nd_attempts notice_delivery = 0" "nd_locked_at notice_delivery = None"
  "nd_sent_at notice_delivery = None"
  by (simp_all add: notice_delivery_def new_delivery_def notice_event_def)

theorem delivery_round_exact_witness:
  "\<exists>db' out. deliver_notifications (Some (\<lambda>_ _. Inl (NotificationDeliveryError ''telegram.network'' True))) retries
        (\<lambda>_. False) 0 100 60 sent_db = (db', Inr out)
     \<and> do_claimed out = 1 \<and> do_claimed out = do_succeeded out + do_retried out + do_dead_lettered out"
proof -
  have "due_deliveries (\<lambda>_. False) 0 (0 - 60 * second_us) 100 sent_db = [notice_delivery]"
    by (simp add: due_deliveries_def delivery_due_def)
  then show ?thesis
    using delivery_round_exact [of sent_db "\<lambda>_ _. Inl (NotificationDeliveryError ''telegram.network'' True)"
        "\<lambda>_. False" 0 60 100 retries]
    by (auto simp: Let_def)
qed

section \<open>A polled queue drains\<close>

text \<open>The worker's schedule: rounds one after the other, at the given times.\<close>

fun rounds ::
  "(delivery_claim \<Rightarrow> string \<Rightarrow> unit res) \<Rightarrow> retry_policy \<Rightarrow> int \<Rightarrow> int \<Rightarrow> instant list \<Rightarrow> background_db \<Rightarrow> background_db" where
  "rounds send p limit lease [] db = db"
| "rounds send p limit lease (t # ts) db =
     rounds send p limit lease ts (fst (deliver_notifications (Some send) p (\<lambda>_. False) t limit lease db))"

text \<open>Each round at least the maximum delay after the one before.\<close>

fun spaced_rounds :: "retry_policy \<Rightarrow> instant list \<Rightarrow> bool" where
  "spaced_rounds p (t # u # ts) = (t + rp_maximum_delay_seconds p * second_us \<le> u \<and> spaced_rounds p (u # ts))"
| "spaced_rounds p ts = True"

definition ended_delivery :: "delivery_row \<Rightarrow> bool" where
  "ended_delivery d = (nd_status d = D_SENT \<or> nd_status d = D_DEAD_LETTER)"

text \<open>Open rows are due and have been tried at least \<open>k\<close> times.\<close>

definition tried :: "retry_policy \<Rightarrow> int \<Rightarrow> instant \<Rightarrow> instant \<Rightarrow> background_db \<Rightarrow> bool" where
  "tried p k t stale db = (\<forall>d \<in> set (bd_deliveries db). ended_delivery d
     \<or> delivery_due db t stale d \<and> k \<le> nd_attempts d \<and> (k = 0 \<or> nd_attempts d < rp_max_attempts p))"

lemma round_tried:
  assumes pol: "retry_policy_post_init p = Inr p" and dist: "distinct (map nd_id (bd_deliveries db))"
    and send: "\<forall>c message. send c message \<noteq> Inl CancelledError" and limit: "int (length (bd_deliveries db)) \<le> limit"
    and tried: "tried p k t (t - lease * second_us) db" and k: "0 \<le> k"
    and u: "t + rp_maximum_delay_seconds p * second_us \<le> u"
  defines "db' \<equiv> fst (deliver_notifications (Some send) p (\<lambda>_. False) t limit lease db)"
  shows "tried p (k + 1) u stale db' \<and> map nd_id (bd_deliveries db') = map nd_id (bd_deliveries db)"
proof -
  define rows where "rows = due_deliveries (\<lambda>_. False) t (t - lease * second_us) limit db"
  let ?after = "\<lambda>d. settled send p t (claimed_delivery t d)"
  have db': "db' = db\<lparr>bd_deliveries := map (\<lambda>d. if d \<in> set rows then ?after d else d) (bd_deliveries db)\<rparr>"
    using delivery_round_exact [where send = send and held = "\<lambda>_. False" and now = t and limit = limit and lease = lease and p = p,
        OF dist send] unfolding Let_def rows_def [symmetric]
    by (elim exE conjE) (simp only: db'_def fst_conv)
  have "length (filter q (bd_deliveries db)) \<le> nat limit" for q
    using limit by (intro order_trans [OF length_filter_le]) linarith
  then have rows: "d \<in> set rows \<longleftrightarrow> d \<in> set (bd_deliveries db) \<and> delivery_due db t (t - lease * second_us) d" for d
    by (simp add: rows_def due_deliveries_def)
  have ent: "delivery_entitled db' = delivery_entitled db" by (simp add: db' delivery_entitled_def fun_eq_iff)
  have "ended_delivery d' \<or> delivery_due db' u stale d' \<and> k + 1 \<le> nd_attempts d' \<and> nd_attempts d' < rp_max_attempts p"
    if "d' \<in> set (bd_deliveries db')" for d'
  proof -
    obtain d where d: "d \<in> set (bd_deliveries db)" "d' = (if d \<in> set rows then ?after d else d)"
      using \<open>d' \<in> set (bd_deliveries db')\<close> by (auto simp: db')
    show ?thesis
    proof (cases "d \<in> set rows")
      case False
      then show ?thesis using d tried by (auto simp: tried_def rows)
    next
      case True
      then have due: "delivery_due db t (t - lease * second_us) d" by (simp add: rows)
      have end_: "\<not> ended_delivery d" using due by (auto simp: delivery_due_def ended_delivery_def)
      have k': "k \<le> nd_attempts d" using tried d(1) end_ by (auto simp: tried_def)
      have "next_attempt_at p i n t \<le> u" for i n
        using retry_delay_bounds_upper [OF pol, of i n t] u by linarith
      then show ?thesis using settled_cases [of send p t "claimed_delivery t d"] True d(2) k' due
        by (auto simp: ended_delivery_def delivery_due_def ent)
    qed
  qed
  then show ?thesis using k unfolding tried_def by (auto simp: db')
qed

lemma rounds_ids:
  assumes "\<forall>c message. send c message \<noteq> Inl CancelledError" and "distinct (map nd_id (bd_deliveries db))"
  shows "map nd_id (bd_deliveries (rounds send p limit lease ts db)) = map nd_id (bd_deliveries db)"
  using assms(2)
proof (induction ts arbitrary: db)
  case (Cons t ts)
  have "map nd_id (bd_deliveries (fst (deliver_notifications (Some send) p (\<lambda>_. False) t limit lease db)))
      = map nd_id (bd_deliveries db)"
    using delivery_round_exact [where send = send and held = "\<lambda>_. False" and now = t and limit = limit and lease = lease and p = p,
        OF Cons.prems assms(1)] unfolding Let_def by auto
  then show ?case using Cons by simp
qed simp

lemma rounds_drain:
  assumes "retry_policy_post_init p = Inr p" and "\<forall>c message. send c message \<noteq> Inl CancelledError"
    and "spaced_rounds p ts" and "ts \<noteq> [] \<Longrightarrow> tried p k (hd ts) (hd ts - lease * second_us) db"
    and "ts = [] \<Longrightarrow> \<exists>t. tried p k t t db"
    and "distinct (map nd_id (bd_deliveries db))" and "int (length (bd_deliveries db)) \<le> limit"
    and "0 \<le> k" and "rp_max_attempts p \<le> k + int (length ts)" and "ts \<noteq> [] \<or> 0 < k"
    and "d \<in> set (bd_deliveries (rounds send p limit lease ts db))"
  shows "ended_delivery d"
  using assms(3-)
proof (induction ts arbitrary: db k)
  case Nil
  obtain t where "tried p k t t db" using Nil(3) by blast
  moreover have "d \<in> set (bd_deliveries db)" "rp_max_attempts p \<le> k" using Nil.prems(7,9) by simp_all
  ultimately show ?case using Nil.prems(8) unfolding tried_def by fastforce
next
  case (Cons t ts)
  let ?db = "fst (deliver_notifications (Some send) p (\<lambda>_. False) t limit lease db)"
  let ?m = "rp_maximum_delay_seconds p * second_us"
  have tried: "tried p k t (t - lease * second_us) db" using Cons.prems(2) by simp
  note next_ = round_tried [OF assms(1) Cons.prems(4) assms(2) Cons.prems(5) tried Cons.prems(6)]
  have ids: "map nd_id (bd_deliveries ?db) = map nd_id (bd_deliveries db)" using next_ [of "t + ?m"] by simp
  then have len: "length (bd_deliveries ?db) = length (bd_deliveries db)" using map_eq_imp_length_eq by blast
  show ?case
  proof (rule Cons.IH [of "k + 1" ?db])
    show "spaced_rounds p ts" using Cons.prems(1) by (cases ts) auto
    show "tried p (k + 1) (hd ts) (hd ts - lease * second_us) ?db" if "ts \<noteq> []"
      using next_ [of "hd ts"] Cons.prems(1) that by (cases ts) auto
    show "\<exists>u. tried p (k + 1) u u ?db" using next_ [of "t + ?m" "t + ?m"] by blast
    show "distinct (map nd_id (bd_deliveries ?db))" unfolding ids by (rule Cons.prems(4))
    show "int (length (bd_deliveries ?db)) \<le> limit" unfolding len by (rule Cons.prems(5))
    show "0 \<le> k + 1" "ts \<noteq> [] \<or> 0 < k + 1" using Cons.prems(6) by simp_all
    show "rp_max_attempts p \<le> k + 1 + int (length ts)" using Cons.prems(7) by simp
    show "d \<in> set (bd_deliveries (rounds send p limit lease ts ?db))" using Cons.prems(9) by simp
  qed
qed

text \<open>
  C8. Liveness: when the worker polls as often as the retry policy allows attempts, at least the
  maximum delay apart and with room for the whole queue, no delivery is left waiting: every one has
  been sent or has been dead-lettered, whatever the gateway answers.
\<close>

theorem queue_drains:
  assumes "retry_policy_post_init p = Inr p" and "\<forall>c message. send c message \<noteq> Inl CancelledError"
    and "distinct (map nd_id (bd_deliveries db))" and "int (length (bd_deliveries db)) \<le> limit"
    and "\<And>d. d \<in> set (bd_deliveries db) \<Longrightarrow> ended_delivery d
          \<or> delivery_due db t (t - lease * second_us) d \<and> 0 \<le> nd_attempts d"
    and "spaced_rounds p (t # ts)" and "rp_max_attempts p \<le> 1 + int (length ts)"
    and "d \<in> set (bd_deliveries (rounds send p limit lease (t # ts) db))"
  shows "nd_status d = D_SENT \<or> nd_status d = D_DEAD_LETTER"
proof -
  have "tried p 0 t (t - lease * second_us) db" using assms(5) by (simp add: tried_def)
  then have "ended_delivery d"
    using rounds_drain [OF assms(1,2,6) _ _ assms(3,4), of 0 lease d] assms(7,8) by simp
  then show ?thesis by (simp add: ended_delivery_def)
qed

theorem queue_drains_witness:
  "\<exists>d. d \<in> set (bd_deliveries (rounds (\<lambda>_ _. Inl (NotificationDeliveryError ''telegram.network'' True)) retries 10 60
          [0, 20 * second_us] sent_db))
     \<and> (nd_status d = D_SENT \<or> nd_status d = D_DEAD_LETTER)"
proof -
  let ?send = "\<lambda>_ _. Inl (NotificationDeliveryError ''telegram.network'' True)"
  let ?db = "rounds ?send retries 10 60 [0, 20 * second_us] sent_db"
  have "nd_status d = D_SENT \<or> nd_status d = D_DEAD_LETTER" if "d \<in> set (bd_deliveries ?db)" for d
    by (rule queue_drains [of retries ?send sent_db 10 0 60 "[20 * second_us]"])
       (use that in \<open>auto simp: retry_policy_post_init_def retries_def delivery_due_def second_us_def\<close>)
  moreover have "map nd_id (bd_deliveries ?db) = [9]" by (subst rounds_ids) simp_all
  then have "bd_deliveries ?db \<noteq> []" by auto
  ultimately show ?thesis by (metis list.set_intros(1) neq_Nil_conv)
qed

end
