(* ===== verification/BackgroundRuns.thy ===== *)
theory BackgroundRuns
  imports BackgroundFacts
begin

text \<open>
  Runs of the background store: the transactions of any number of workers, of administrators and
  of the stores that emit events, in any order. Every transaction moves a delivery row by one step
  of \<open>row_step\<close>; the invariants rest on that. A worker between claiming and finishing holds no
  lock, so its finishing transactions may come at any time, with any claim.
\<close>

section \<open>Calls\<close>

datatype bg_call =
    EmitEvent tenant_id string uuid string string "(string, json) dict"
  | Administer "(tenant_id, tenant_status) dict" "(tenant_id \<times> string, bool) dict"
  | SaveSubscription notification_subscription
  | DispatchOutbox "string \<Rightarrow> uuid" "string \<Rightarrow> uuid \<Rightarrow> uuid" "string \<Rightarrow> bool" int
  | ClaimNotifications "uuid \<Rightarrow> bool" int
  | MarkDelivered delivery_claim instant
  | RetryDelivery delivery_claim instant string
  | DeadLetter delivery_claim instant string
  | RecordRun string bool int "string option" instant instant

text \<open>All workers share the lease and the number of attempts of the settings.\<close>

fun exec_bg :: "int \<Rightarrow> int \<Rightarrow> bg_call \<Rightarrow> int \<Rightarrow> background_db \<Rightarrow> background_db" where
  "exec_bg lease m (EmitEvent t kind g event_type key payload) now db =
     (case add_event (new_event t kind g event_type key payload now) (bd_events db) of
        Inl _ \<Rightarrow> db | Inr es \<Rightarrow> db\<lparr>bd_events := es\<rparr>)"
| "exec_bg lease m (Administer tenants entitlements) now db =
     db\<lparr>bd_tenants := tenants, bd_entitlements := entitlements\<rparr>"
| "exec_bg lease m (SaveSubscription s) now db = fst (run_tx (save_subscription s) db)"
| "exec_bg lease m (DispatchOutbox event_pk fresh held limit) now db =
     fst (run_tx (dispatch_outbox event_pk fresh held now limit lease m) db)"
| "exec_bg lease m (ClaimNotifications held limit) now db =
     fst (run_tx (claim_notifications held now limit lease) db)"
| "exec_bg lease m (MarkDelivered c time) now db = mark_delivered c time db"
| "exec_bg lease m (RetryDelivery c time error_code) now db = retry_delivery c time error_code db"
| "exec_bg lease m (DeadLetter c time error_code) now db = dead_letter c time error_code db"
| "exec_bg lease m (RecordRun task succeeded processed error_code started finished) now db =
     record_run task succeeded processed error_code started finished db"

section \<open>One step of a row\<close>

text \<open>\<open>ids\<close> are the deliveries whose finishing transaction may run.\<close>

inductive row_step :: "uuid set \<Rightarrow> instant \<Rightarrow> instant \<Rightarrow> delivery_row \<Rightarrow> delivery_row \<Rightarrow> bool" for ids now stale where
  untouched: "row_step ids now stale d d"
| claimed: "nd_status d = D_PENDING \<and> nd_available_at d \<le> now \<or> nd_status d = D_PROCESSING \<and> stale_lock (nd_locked_at d) stale
    \<Longrightarrow> row_step ids now stale d (claimed_delivery now d)"
| finished: "nd_id d \<in> ids \<Longrightarrow> nd_status d = D_PROCESSING \<Longrightarrow> st \<noteq> D_PROCESSING \<Longrightarrow> row_step ids now stale d (finished_row st time err d)"

inductive_cases row_stepE: "row_step ids now stale d d'"

definition new_row :: "delivery_row \<Rightarrow> bool" where
  "new_row d = (nd_status d = D_PENDING \<and> nd_attempts d = 0 \<and> nd_locked_at d = None \<and> nd_sent_at d = None)"

text \<open>
  Every delivery belongs to a published event of the outbox, with its tenant, type and payload; a
  row is locked exactly while it is processed and has a time of sending exactly when it was sent.
\<close>

definition delivery_ok :: "outbox_row list \<Rightarrow> delivery_row \<Rightarrow> bool" where
  "delivery_ok events d = ((\<exists>e \<in> set events. ob_name e = nd_event d \<and> ob_status e = O_PUBLISHED
       \<and> ob_tenant_id e = nd_tenant_id d \<and> ob_event_type e = nd_event_type d \<and> ob_payload e = nd_payload d)
     \<and> 0 \<le> nd_attempts d \<and> (nd_locked_at d \<noteq> None \<longleftrightarrow> nd_status d = D_PROCESSING)
     \<and> (nd_sent_at d \<noteq> None \<longleftrightarrow> nd_status d = D_SENT))"

text \<open>What one call can do to the two tables.\<close>

definition rows_change :: "uuid set \<Rightarrow> int \<Rightarrow> int \<Rightarrow> background_db \<Rightarrow> background_db \<Rightarrow> bool" where
  "rows_change ids lease now db db' = (\<exists>f new. bd_deliveries db' = map f (bd_deliveries db) @ new
     \<and> (\<forall>d \<in> set (bd_deliveries db). row_step ids now (now - lease * second_us) d (f d)) \<and> (\<forall>d \<in> set new. new_row d \<and> delivery_ok (bd_events db') d)
     \<and> (distinct (map delivery_key (bd_deliveries db)) \<and> distinct (map nd_id (bd_deliveries db))
         \<longrightarrow> distinct (map delivery_key (bd_deliveries db')) \<and> distinct (map nd_id (bd_deliveries db'))))"

lemma row_step_ids: "row_step ids now stale d d' \<Longrightarrow> nd_id d' = nd_id d \<and> delivery_key d' = delivery_key d"
  by (erule row_stepE) (auto simp: delivery_key_def)

lemma rows_change_same: "bd_deliveries db' = bd_deliveries db \<Longrightarrow> rows_change ids lease now db db'"
  unfolding rows_change_def by (rule exI [of _ "\<lambda>d. d"], rule exI [of _ "[]"]) (auto intro: untouched)

lemma rows_change_map:
  "bd_deliveries db' = map f (bd_deliveries db) \<Longrightarrow> (\<And>d. d \<in> set (bd_deliveries db) \<Longrightarrow> row_step ids now (now - lease * second_us) d (f d))
   \<Longrightarrow> rows_change ids lease now db db'"
proof -
  assume f: "bd_deliveries db' = map f (bd_deliveries db)"
    "\<And>d. d \<in> set (bd_deliveries db) \<Longrightarrow> row_step ids now (now - lease * second_us) d (f d)"
  then have "map delivery_key (bd_deliveries db') = map delivery_key (bd_deliveries db)"
      "map nd_id (bd_deliveries db') = map nd_id (bd_deliveries db)"
    by (auto dest: row_step_ids)
  then have "distinct (map delivery_key (bd_deliveries db)) \<and> distinct (map nd_id (bd_deliveries db))
      \<longrightarrow> distinct (map delivery_key (bd_deliveries db')) \<and> distinct (map nd_id (bd_deliveries db'))"
    by (simp only: simp_thms)
  then show ?thesis unfolding rows_change_def
    by (intro exI [of _ f] exI [of _ "[]"] conjI; (assumption | simp add: f))
qed

lemma finish_rows_change: "st \<noteq> D_PROCESSING \<Longrightarrow> dc_id c \<in> ids \<Longrightarrow> rows_change ids lease now db (finish c st time err db)"
  unfolding finish_def
  by (rule rows_change_map [where f = "\<lambda>d. if nd_tenant_id d = dc_tenant_id c \<and> nd_id d = dc_id c \<and> nd_status d = D_PROCESSING
        then finished_row st time err d else d"]) (auto intro: untouched finished)

lemmas finishing_defs = mark_delivered_def retry_delivery_def dead_letter_def

definition rows_ok :: "background_db \<Rightarrow> bool" where
  "rows_ok db = (distinct (map ob_name (bd_events db)) \<and> distinct (map delivery_key (bd_deliveries db))
     \<and> distinct (map nd_id (bd_deliveries db)))"

text \<open>The deliveries a call may finish.\<close>

fun finishes :: "bg_call \<Rightarrow> uuid set" where
  "finishes (MarkDelivered c time) = {dc_id c}"
| "finishes (RetryDelivery c time error_code) = {dc_id c}"
| "finishes (DeadLetter c time error_code) = {dc_id c}"
| "finishes call = {}"

lemma dispatch_rows:
  assumes "dispatch_outbox event_pk fresh held now limit lease m db = Inr (db', c, p, k)" and "rows_ok db"
  shows "\<exists>new. bd_deliveries db' = bd_deliveries db @ new \<and> (\<forall>d \<in> set new. new_row d \<and> delivery_ok (bd_events db') d)
    \<and> distinct (map delivery_key (bd_deliveries db')) \<and> distinct (map nd_id (bd_deliveries db'))"
proof -
  define es where "es = due_events event_pk held now (now - lease * second_us) limit db"
  have db': "bd_events db' = map (\<lambda>x. if x \<in> set es then after_dispatch now m x else x) (bd_events db)"
    using dispatch_outbox_Inr [OF assms(1)] assms(2) by (auto simp: es_def rows_ok_def)
  obtain new where new: "bd_deliveries db' = bd_deliveries db @ new" "set new \<subseteq> deliveries_from fresh now m (bd_subscriptions db) es"
    using dispatch_outbox_Inr [OF assms(1)] assms(2) by (auto simp: es_def rows_ok_def)
  have "new_row d \<and> delivery_ok (bd_events db') d" if "d \<in> set new" for d
  proof -
    obtain e s where e: "e \<in> set es" "\<not> exhausted m e" "d = new_delivery fresh e now s"
      using \<open>d \<in> set new\<close> new(2) by (auto simp: deliveries_from_def)
    then have "e \<in> set (bd_events db)" using due_events_mem by (auto simp: es_def)
    then have "published_event now e \<in> set (bd_events db')"
      using e(1,2) by (auto simp: db' after_dispatch_def exhausted_def image_iff intro!: bexI [of _ e])
    then show ?thesis
      unfolding delivery_ok_def e(3)
      by (intro conjI bexI [of _ "published_event now e"]) (simp_all add: new_row_def new_delivery_def published_event_def)
  qed
  moreover have "distinct (map delivery_key (bd_deliveries db')) \<and> distinct (map nd_id (bd_deliveries db'))"
    using dispatch_outbox_Inr [OF assms(1)] assms(2) by (auto simp: rows_ok_def)
  ultimately show ?thesis using new(1) by blast
qed

lemma exec_rows_change:
  assumes "rows_ok db"
  shows "rows_change (finishes call) lease now db (exec_bg lease m call now db)"
proof (cases call)
  case (DispatchOutbox event_pk fresh held limit)
  show ?thesis
  proof (cases "dispatch_outbox event_pk fresh held now limit lease m db")
    case (Inr r)
    obtain db' c p k where r: "r = (db', c, p, k)" by (cases r)
    obtain new where "bd_deliveries db' = bd_deliveries db @ new" "\<forall>d \<in> set new. new_row d \<and> delivery_ok (bd_events db') d"
        "distinct (map delivery_key (bd_deliveries db'))" "distinct (map nd_id (bd_deliveries db'))"
      using dispatch_rows [OF Inr [unfolded r] assms] by blast
    then show ?thesis
      unfolding rows_change_def using Inr r DispatchOutbox
      by (intro exI [of _ "\<lambda>d. d"] exI [of _ new]) (auto intro: untouched)
  qed (use DispatchOutbox in \<open>auto intro: rows_change_same\<close>)
next
  case (ClaimNotifications held limit)
  have "rows_change {} lease now db (exec_bg lease m (ClaimNotifications held limit) now db)"
    using claim_notifications_rows [of db held now limit lease] assms
    by (intro rows_change_map [where f = "\<lambda>d. if d \<in> set (due_deliveries held now (now - lease * second_us) limit db)
          then claimed_delivery now d else d"])
       (auto simp: rows_ok_def Let_def delivery_due_def intro: untouched intro!: claimed dest: due_deliveries_mem)
  then show ?thesis using ClaimNotifications by simp
next
  case (SaveSubscription s)
  then show ?thesis
    by (auto intro!: rows_change_same simp: run_tx_def save_subscription_def Let_def res_bind_def
        split: sum.splits option.splits prod.splits if_splits)
next
  case (MarkDelivered c time)
  then show ?thesis by (simp add: finishing_defs finish_rows_change)
next
  case (RetryDelivery c time error_code)
  then show ?thesis by (simp add: finishing_defs finish_rows_change)
next
  case (DeadLetter c time error_code)
  then show ?thesis by (simp add: finishing_defs finish_rows_change)
qed (auto intro!: rows_change_same simp: record_run_def split: sum.splits)

text \<open>Events are appended, or moved by a dispatch from open to published or dead.\<close>

lemma exec_events:
  assumes "rows_ok db"
  shows "\<exists>f new. bd_events (exec_bg lease m call now db) = map f (bd_events db) @ new
    \<and> (\<forall>e. ob_name (f e) = ob_name e) \<and> (\<forall>e \<in> set (bd_events db). f e = e
        \<or> (ob_status e = O_PENDING \<or> ob_status e = O_PROCESSING) \<and> f e = after_dispatch now m e)
    \<and> distinct (map ob_name (bd_events (exec_bg lease m call now db)))"
proof -
  have names: "distinct (map ob_name (bd_events db))" using assms by (simp add: rows_ok_def)
  have same: ?thesis if "bd_events (exec_bg lease m call now db) = bd_events db"
    using that names by (intro exI [of _ "\<lambda>e. e"] exI [of _ "[]"]) simp
  show ?thesis
  proof (cases call)
    case (EmitEvent t kind g event_type key payload)
    show ?thesis
    proof (cases "add_event (new_event t kind g event_type key payload now) (bd_events db)")
      case (Inr es)
      let ?e = "new_event t kind g event_type key payload now"
      have "es = bd_events db @ [?e]" "ob_name ?e \<notin> ob_name ` set (bd_events db)" using Inr by (simp_all add: add_event_Inr)
      then show ?thesis using EmitEvent names Inr
        by (intro exI [of _ "\<lambda>e. e"] exI [of _ "[?e]"]) simp
    qed (rule same, simp add: EmitEvent)
  next
    case (DispatchOutbox event_pk fresh held limit)
    show ?thesis
    proof (cases "dispatch_outbox event_pk fresh held now limit lease m db")
      case (Inr r)
      obtain db' c p k where r: "r = (db', c, p, k)" by (cases r)
      define es where "es = due_events event_pk held now (now - lease * second_us) limit db"
      have ev: "bd_events db' = map (\<lambda>x. if x \<in> set es then after_dispatch now m x else x) (bd_events db)"
        using dispatch_outbox_Inr [OF Inr [unfolded r] names] by (auto simp: es_def)
      have "ob_status e = O_PENDING \<or> ob_status e = O_PROCESSING" if "e \<in> set es" for e
        using that due_events_mem event_due_open unfolding es_def by blast
      moreover have "map ob_name (bd_events db') = map ob_name (bd_events db)" by (simp add: ev)
      then have "distinct (map ob_name (bd_events db'))" using names by (simp only:)
      moreover have "exec_bg lease m call now db = db'" using DispatchOutbox Inr r by simp
      ultimately show ?thesis using names ev
        by (intro exI [of _ "\<lambda>x. if x \<in> set es then after_dispatch now m x else x"] exI [of _ "[]"]) simp
    qed (rule same, simp add: DispatchOutbox)
  next
    case (SaveSubscription s)
    show ?thesis
      by (rule same) (simp add: SaveSubscription run_tx_def save_subscription_def Let_def res_bind_def
        split: sum.splits option.splits prod.splits if_splits)
  next
    case (ClaimNotifications held limit)
    show ?thesis by (rule same) (simp add: ClaimNotifications run_tx_def claim_notifications_def Let_def)
  qed (rule same, simp add: finishing_defs finish_def record_run_def)+
qed

section \<open>The invariant\<close>

definition bg_ok :: "background_db \<Rightarrow> bool" where
  "bg_ok db = (rows_ok db \<and> (\<forall>d \<in> set (bd_deliveries db). delivery_ok (bd_events db) d))"

lemma row_step_ok:
  assumes "row_step ids now stale d d'" and "delivery_ok es d"
  shows "delivery_ok es d' \<and> nd_id d' = nd_id d \<and> delivery_key d' = delivery_key d"
  by (rule row_stepE [OF assms(1)]) (use assms(2) in \<open>auto simp: delivery_ok_def delivery_key_def\<close>)

lemma delivery_ok_events:
  assumes "delivery_ok es d" and "\<And>e. e \<in> set es \<Longrightarrow> ob_status e = O_PUBLISHED \<Longrightarrow> e \<in> set es'"
  shows "delivery_ok es' d"
  using assms unfolding delivery_ok_def by blast

lemma exec_keeps_ok:
  assumes "bg_ok db"
  shows "bg_ok (exec_bg lease m call now db)"
proof -
  let ?db = "exec_bg lease m call now db"
  have ok: "rows_ok db" using assms by (simp add: bg_ok_def)
  obtain f new where rows: "bd_deliveries ?db = map f (bd_deliveries db) @ new"
      "\<forall>d \<in> set (bd_deliveries db). row_step (finishes call) now (now - lease * second_us) d (f d)"
      "\<forall>d \<in> set new. new_row d \<and> delivery_ok (bd_events ?db) d"
    and dist: "distinct (map delivery_key (bd_deliveries ?db)) \<and> distinct (map nd_id (bd_deliveries ?db))"
    using exec_rows_change [OF ok, of call lease now m] ok unfolding rows_change_def rows_ok_def
    by (elim exE conjE) (rule that; simp)
  obtain g more where events: "bd_events ?db = map g (bd_events db) @ more"
      "\<forall>e \<in> set (bd_events db). g e = e
        \<or> (ob_status e = O_PENDING \<or> ob_status e = O_PROCESSING) \<and> g e = after_dispatch now m e"
    and names: "distinct (map ob_name (bd_events ?db))"
    using exec_events [OF ok, of lease m call now] by (elim exE conjE) (rule that; assumption)
  have kept: "e \<in> set (bd_events ?db)" if "e \<in> set (bd_events db)" "ob_status e = O_PUBLISHED" for e
    using that events(2) unfolding events(1) by (force simp: image_iff)
  have "delivery_ok (bd_events ?db) d'" if d': "d' \<in> set (bd_deliveries ?db)" for d'
  proof (cases "d' \<in> set new")
    case False
    then obtain d where d: "d \<in> set (bd_deliveries db)" "d' = f d" using d' rows(1) by auto
    then have "delivery_ok (bd_events db) d'"
      using row_step_ok rows(2) assms by (metis bg_ok_def)
    then show ?thesis using kept by (rule delivery_ok_events)
  qed (use rows(3) in blast)
  then show ?thesis using names dist by (simp add: bg_ok_def rows_ok_def)
qed

interpretation bg_rows: clocked_invariant "exec_bg lease m" "\<lambda>_. bg_ok" for lease m
  by unfold_locales (rule exec_keeps_ok)

interpretation bg_final: clocked_invariant "exec_bg lease m"
  "\<lambda>_ db. bg_ok db \<and> (ended_delivery d \<longrightarrow> d \<in> set (bd_deliveries db))" for lease m d
proof unfold_locales
  fix t db t' call
  assume inv: "bg_ok db \<and> (ended_delivery d \<longrightarrow> d \<in> set (bd_deliveries db))"
  have "d \<in> set (bd_deliveries (exec_bg lease m call t' db))" if "ended_delivery d"
  proof -
    have ok: "rows_ok db" using inv by (simp add: bg_ok_def)
    obtain f new where rows: "bd_deliveries (exec_bg lease m call t' db) = map f (bd_deliveries db) @ new"
      "\<forall>d \<in> set (bd_deliveries db). row_step (finishes call) t' (t' - lease * second_us) d (f d)"
      using exec_rows_change [OF ok, of call lease t' m] unfolding rows_change_def by (elim exE conjE) (rule that; assumption)
    have d: "d \<in> set (bd_deliveries db)" using inv that by blast
    then have st: "row_step (finishes call) t' (t' - lease * second_us) d (f d)" using rows(2) by blast
    have "f d = d" by (rule row_stepE [OF st]) (use that in \<open>auto simp: ended_delivery_def\<close>)
    then show ?thesis using d unfolding rows(1) by (metis UnI1 image_eqI set_append set_map)
  qed
  then show "bg_ok (exec_bg lease m call t' db) \<and> (ended_delivery d \<longrightarrow> d \<in> set (bd_deliveries (exec_bg lease m call t' db)))"
    using inv exec_keeps_ok by blast
qed

text \<open>
  C4. Whatever workers, administrators and event sources do, in any interleaving, an event and a
  subscription have at most one delivery, it carries the payload of an event that was published,
  and it is locked exactly while it is processed.
\<close>

theorem notice_once:
  assumes "clocked_run (exec_bg lease m) d t d' t'" and "bg_ok d"
    and "a \<in> set (bd_deliveries d')" and "b \<in> set (bd_deliveries d')"
    and "nd_tenant_id a = nd_tenant_id b" "nd_event a = nd_event b" "nd_subscription_id a = nd_subscription_id b"
  shows "a = b \<and> (\<exists>e. e \<in> set (bd_events d') \<and> ob_name e = nd_event a \<and> ob_status e = O_PUBLISHED
        \<and> ob_tenant_id e = nd_tenant_id a \<and> ob_event_type e = nd_event_type a \<and> ob_payload e = nd_payload a)
    \<and> (nd_locked_at a \<noteq> None \<longleftrightarrow> nd_status a = D_PROCESSING)"
proof -
  have ok: "bg_ok d'" by (rule bg_rows.run_keeps [OF assms(1,2)])
  then have "distinct (map delivery_key (bd_deliveries d'))" and a: "delivery_ok (bd_events d') a"
    using assms(3) by (simp_all add: bg_ok_def rows_ok_def)
  moreover have "delivery_key a = delivery_key b" using assms(5-7) by (simp add: delivery_key_def)
  ultimately have "a = b" using assms(3,4) by (auto simp: distinct_map inj_on_def)
  then show ?thesis using a unfolding delivery_ok_def by blast
qed

definition dispatched_db :: background_db where
  "dispatched_db = notice_db\<lparr>bd_deliveries := [notice_delivery], bd_events := [published_event 0 notice_event]\<rparr>"

lemma notice_db_ok: "bg_ok notice_db"
  by (simp add: bg_ok_def rows_ok_def)

lemma dispatched_step: "exec_bg 60 6 (DispatchOutbox (\<lambda>_. 0) (\<lambda>_ _. 9) (\<lambda>_. False) 100) 0 notice_db = dispatched_db"
  by (simp add: notice_dispatch dispatched_db_def)

lemma dispatched_ok: "bg_ok dispatched_db"
  using exec_keeps_ok [OF notice_db_ok, of 60 6 "DispatchOutbox (\<lambda>_. 0) (\<lambda>_ _. 9) (\<lambda>_. False) 100" 0]
  unfolding dispatched_step .

lemma dispatched_deliveries [simp]: "bd_deliveries dispatched_db = [notice_delivery]"
  by (simp add: dispatched_db_def)

theorem notice_once_witness:
  "clocked_run (exec_bg 60 6) notice_db 0 dispatched_db 0 \<and> notice_delivery \<in> set (bd_deliveries dispatched_db)
   \<and> (\<exists>e. e \<in> set (bd_events dispatched_db) \<and> ob_name e = nd_event notice_delivery \<and> ob_status e = O_PUBLISHED)"
proof -
  have run: "clocked_run (exec_bg 60 6) notice_db 0 dispatched_db 0"
    unfolding dispatched_step [symmetric] by (rule run_more [OF run_none]) simp
  then show ?thesis using notice_once [OF run notice_db_ok, of notice_delivery notice_delivery] by auto
qed

text \<open>
  C37. A delivery that was sent, or given up, stays exactly as it is: it is never sent again,
  whatever a slow worker still reports about it.
\<close>

theorem ended_delivery_final:
  assumes "clocked_run (exec_bg lease m) d t d' t'" and "bg_ok d"
    and "x \<in> set (bd_deliveries d)" and "nd_status x = D_SENT \<or> nd_status x = D_DEAD_LETTER"
  shows "x \<in> set (bd_deliveries d')"
  using bg_final.run_keeps [OF assms(1), of x] assms(2-4) by (simp add: ended_delivery_def)

definition sent_delivery :: delivery_row where
  "sent_delivery = finished_row D_SENT 5 None (claimed_delivery 3 notice_delivery)"

definition delivered_db :: background_db where
  "delivered_db = dispatched_db\<lparr>bd_deliveries := [sent_delivery]\<rparr>"

lemma delivered_ok: "bg_ok delivered_db"
  using dispatched_ok
  by (auto simp: bg_ok_def rows_ok_def delivered_db_def sent_delivery_def delivery_ok_def)

theorem ended_delivery_final_witness:
  "\<exists>d'. clocked_run (exec_bg 60 6) delivered_db 5 d' 9
     \<and> d' = exec_bg 60 6 (DeadLetter (claim_of_row sent_delivery) 9 ''late'') 9 delivered_db
     \<and> sent_delivery \<in> set (bd_deliveries d')"
proof -
  define d' where "d' = exec_bg 60 6 (DeadLetter (claim_of_row sent_delivery) 9 ''late'') 9 delivered_db"
  have run: "clocked_run (exec_bg 60 6) delivered_db 5 d' 9" unfolding d'_def by (rule run_more [OF run_none]) simp
  have "sent_delivery \<in> set (bd_deliveries d')"
    by (rule ended_delivery_final [OF run delivered_ok]) (simp_all add: delivered_db_def sent_delivery_def)
  then show ?thesis using run d'_def by blast
qed

section \<open>Leases\<close>

text \<open>The calls of everyone but the worker that finishes delivery \<open>i\<close>.\<close>

definition exec_others :: "int \<Rightarrow> int \<Rightarrow> uuid \<Rightarrow> bg_call \<Rightarrow> int \<Rightarrow> background_db \<Rightarrow> background_db" where
  "exec_others lease m i call now db = (if i \<in> finishes call then db else exec_bg lease m call now db)"

definition leased :: "int \<Rightarrow> uuid \<Rightarrow> instant \<Rightarrow> instant \<Rightarrow> background_db \<Rightarrow> bool" where
  "leased lease i since now db = (bg_ok db \<and> (now < since + lease * second_us \<longrightarrow>
     (\<exists>d \<in> set (bd_deliveries db). nd_id d = i \<and> nd_status d = D_PROCESSING \<and> nd_locked_at d = Some since)))"

interpretation bg_leases: clocked_invariant "exec_others lease m i" "leased lease i since" for lease m i since
proof unfold_locales
  fix t db t' call
  assume inv: "leased lease i since t db" and t: "t \<le> t'"
  have ok: "bg_ok db" using inv by (simp add: leased_def)
  show "leased lease i since t' (exec_others lease m i call t' db)"
  proof (cases "i \<in> finishes call")
    case True
    then show ?thesis using inv t by (auto simp: leased_def exec_others_def)
  next
    case False
    have r: "rows_ok db" using ok by (simp add: bg_ok_def)
    obtain f new where rows: "bd_deliveries (exec_bg lease m call t' db) = map f (bd_deliveries db) @ new"
      "\<forall>d \<in> set (bd_deliveries db). row_step (finishes call) t' (t' - lease * second_us) d (f d)"
      using exec_rows_change [OF r, of call lease t' m] unfolding rows_change_def by (elim exE conjE) (rule that; assumption)
    have "\<exists>d \<in> set (bd_deliveries (exec_bg lease m call t' db)). nd_id d = i \<and> nd_status d = D_PROCESSING \<and> nd_locked_at d = Some since"
      if lt: "t' < since + lease * second_us"
    proof -
      obtain d where d: "d \<in> set (bd_deliveries db)" "nd_id d = i" "nd_status d = D_PROCESSING" "nd_locked_at d = Some since"
        using inv t lt by (auto simp: leased_def)
      have st: "row_step (finishes call) t' (t' - lease * second_us) d (f d)" using rows(2) d(1) by blast
      have "f d = d" by (rule row_stepE [OF st]) (use d False lt in \<open>auto simp: stale_lock_def\<close>)
      then have "d \<in> set (bd_deliveries (exec_bg lease m call t' db))"
        using d(1) unfolding rows(1) by (metis UnI1 image_eqI set_append set_map)
      then show ?thesis using d by blast
    qed
    then show ?thesis using exec_keeps_ok [OF ok] False by (simp add: leased_def exec_others_def)
  qed
qed


lemma dispatched_due: "due_deliveries (\<lambda>_. False) 0 stale 10 dispatched_db = [notice_delivery]"
  by (simp add: due_deliveries_def delivery_due_def delivery_entitled_def dispatched_db_def notice_db_def)


end
