(* ===== verification/Notices.thy ===== *)
theory Notices
  imports BackgroundRuns QualificationRuns
begin

text \<open>
  From the qualification store to the staff's telephone: the events the store puts into the outbox
  (infrastructure/persistence/qualification.py) are messages the renderer of the background
  application can always render, and what they say.
\<close>

lemma uuid_str_length: "length (uuid_str u) = 36"
  by (simp add: uuid_str_def uuid_hex_def Let_def)

lemma identifier_uuid: "dict_get payload key = Some (JStr (uuid_str u)) \<Longrightarrow> identifier_of payload key = Inr (uuid_str u)"
  using uuid_str_length [of u] by (cases "uuid_str u") (simp_all add: identifier_of_def)

text \<open>An event of a qualified lead names the lead and no priority; one of a queued case names the case.\<close>

definition qualified_event :: "outbox_row \<Rightarrow> bool" where
  "qualified_event e = (ob_event_type e = ''lead.qualified''
     \<and> (\<exists>u. dict_get (ob_payload e) ''lead_id'' = Some (JStr (uuid_str u))) \<and> dict_get (ob_payload e) ''priority'' = None)"

definition queued_event :: "outbox_row \<Rightarrow> bool" where
  "queued_event e = (ob_event_type e = ''handoff.queued'' \<and> (\<exists>h reason prio. ob_payload e = handoff_payload h reason prio))"

definition events_told :: "outbox_row list \<Rightarrow> bool" where
  "events_told es = (\<forall>e \<in> set es. qualified_event e \<or> queued_event e)"

lemma queued_told: "queued_event (new_event t kind g ''handoff.queued'' key (handoff_payload h reason prio) now)"
  by (auto simp: queued_event_def new_event_def)

lemma escalate_told:
  assumes "escalate who sid lid schema trigger now hid db = Inr db'" and "events_told (qd_events db)"
  shows "events_told (qd_events db')"
  using assms queued_told
  by (auto simp: escalate_def res_bind_Inr_iff insert_handoff_Inr emit_Inr events_told_def)

lemma complete_told:
  assumes "complete who sid lead score trigger now key hid db = Inr (db', s)" and told: "events_told (qd_events db)"
  shows "events_told (qd_events db')"
proof (cases "db' = db")
  case False
  obtain r schema replacement db1 lid db3 db4 name where
    rep: "save_lead who (qs_code schema) replacement db = Inr (db1, lid)"
    and e: "emit (ti_tenant_id who) ''lead'' (lead_uuid lid) ''lead.qualified'' name
        [(''lead_id'', JStr (uuid_str (lead_uuid lid))), (''score'', JInt (so_score score)), (''grade'', JStr (so_grade score))]
        now (clear_workflow (ti_conversation_id who) (put_session (r\<lparr>qw_status := S_COMPLETED, qw_lead_id := Some lid\<rparr>) db1)) = Inr db3"
    and t: "(case trigger of None \<Rightarrow> Inr db3 | Some tg \<Rightarrow> escalate who (qw_id r) lid schema tg now hid db3) = Inr db4"
    and u: "record_update (ti_tenant_id who) (qw_id r) key ''complete'' now db4 = Inr db'"
    using assms(1) False by (auto simp: complete_def Let_def res_bind_Inr_iff split: if_splits)
  have "events_told (qd_events db3)"
    using e told save_lead_Inr [OF rep] by (auto simp: emit_Inr events_told_def qualified_event_def new_event_def)
  then have "events_told (qd_events db4)" using t escalate_told by (cases trigger) auto
  then show ?thesis using u by (auto simp: record_update_Inr)
qed (use told in simp)

lemma create_or_get_told:
  assumes "create_or_get who reason prio summary context lead due key now hid db = Inr (db', x)" and "events_told (qd_events db)"
  shows "events_told (qd_events db')"
  using assms queued_told
  by (auto simp: create_or_get_def Let_def res_bind_Inr_iff insert_handoff_Inr emit_Inr events_told_def
      split: option.splits if_splits)

interpretation told: clocked_invariant exec_call "\<lambda>_ d. events_told (qd_events d)"
proof
  fix t t' :: int and d :: qualification_db and c
  assume ok: "events_told (qd_events d)"
  show "events_told (qd_events (exec_call c t' d))"
    by (rule exec_call_keeps, rule ok)
      (use ok in \<open>auto dest!: active_session_changes start_session_changes decide_consent_changes record_answer_changes
         review_changes cancel_session_changes transition_handoff_changes
         add_schema_changes publish_schema_changes intro: complete_told create_or_get_told simp: only_sessions_def\<close>)
qed

lemma choice_absent: "dict_get payload key = None \<Longrightarrow> choice_of payload key choices = ''normal''"
  by (simp add: choice_of_def)

text \<open>
  C36. Every event the qualification and handoff stores emit, whatever they do and in
  whatever order, becomes a staff message: rendering its delivery never fails. A queued case is
  announced with its identifier and its priority when that is a known one; a qualified lead is
  always announced with normal priority, whatever its grade, because the event does not carry one.
\<close>

theorem qualification_notices_render:
  assumes "clocked_run exec_call d t d' t'" and "events_told (qd_events d)" and "e \<in> set (qd_events d')"
    and "dc_event_type c = ob_event_type e" and "dc_payload c = ob_payload e"
  shows "(ob_event_type e = ''lead.qualified'' \<and> (\<exists>u. render c = Inr (''A lead has qualified. Lead ID: '' @ uuid_str u
            @ ''. Priority: normal.'')))
       \<or> (ob_event_type e = ''handoff.queued'' \<and> (\<exists>h reason prio. ob_payload e = handoff_payload h reason prio
            \<and> render c = Inr (''A staff handoff is queued. Case ID: '' @ uuid_str (handoff_uuid h) @ ''. Priority: ''
                @ (if prio \<in> set priority_choices then prio else ''normal'') @ ''.'')))"
proof -
  have "qualified_event e \<or> queued_event e"
    using told.run_keeps [OF assms(1,2)] assms(3) by (simp add: events_told_def)
  then show ?thesis
  proof
    assume q: "qualified_event e"
    then obtain u where "dict_get (dc_payload c) ''lead_id'' = Some (JStr (uuid_str u))" "dict_get (dc_payload c) ''priority'' = None"
      using assms(5) by (auto simp: qualified_event_def)
    then have "render c = Inr (''A lead has qualified. Lead ID: '' @ uuid_str u @ ''. Priority: normal.'')"
      using q assms(4) by (simp add: render_def Let_def identifier_uuid choice_absent qualified_event_def)
    then show ?thesis using q by (auto simp: qualified_event_def)
  next
    assume q: "queued_event e"
    then obtain h reason prio where p: "dc_payload c = handoff_payload h reason prio"
      using assms(5) by (auto simp: queued_event_def)
    have "identifier_of (dc_payload c) ''handoff_id'' = Inr (uuid_str (handoff_uuid h))"
      by (rule identifier_uuid) (simp add: p handoff_payload_def)
    moreover have "choice_of (dc_payload c) ''priority'' priority_choices = (if prio \<in> set priority_choices then prio else ''normal'')"
      by (simp add: p handoff_payload_def choice_of_def)
    ultimately have "render c = Inr (''A staff handoff is queued. Case ID: '' @ uuid_str (handoff_uuid h) @ ''. Priority: ''
                @ (if prio \<in> set priority_choices then prio else ''normal'') @ ''.'')"
      using q assms(4) by (simp add: render_def Let_def queued_event_def)
    then show ?thesis using q p assms(5) by (auto simp: queued_event_def)
  qed
qed

lemma request_event: "qd_events (exec_call (request_example ''a'' 1) 0 lead_db)
    = [new_event (TenantId 1) ''handoff'' 1 ''handoff.queued'' ''handoff:a'' (handoff_payload (HandoffId 1) ''help'' ''normal'') 0]"
  by (simp add: request_example_def create_or_get_def run_tx_def lead_db_def lead_who_def insert_handoff_def conversation_of_def
      lead_conversation_def emit_def add_event_def set_conversation_def open_handoff_status_def Let_def)

theorem qualification_notices_render_witness:
  "let e = new_event (TenantId 1) ''handoff'' 1 ''handoff.queued'' ''handoff:a'' (handoff_payload (HandoffId 1) ''help'' ''normal'') 0 in
   e \<in> set (qd_events (exec_call (request_example ''a'' 1) 0 lead_db))
   \<and> (\<exists>message. render \<lparr>dc_id = 1, dc_tenant_id = TenantId 1, dc_event_type = ob_event_type e, dc_channel = CH_TELEGRAM,
        dc_recipient_id = ''42'', dc_payload = ob_payload e, dc_attempts = 1\<rparr> = Inr message)"
proof -
  let ?e = "new_event (TenantId 1) ''handoff'' 1 ''handoff.queued'' ''handoff:a'' (handoff_payload (HandoffId 1) ''help'' ''normal'') 0"
  let ?c = "\<lparr>dc_id = 1, dc_tenant_id = TenantId 1, dc_event_type = ob_event_type ?e, dc_channel = CH_TELEGRAM,
        dc_recipient_id = ''42'', dc_payload = ob_payload ?e, dc_attempts = 1\<rparr>"
  have e: "?e \<in> set (qd_events (exec_call (request_example ''a'' 1) 0 lead_db))" unfolding request_event by simp
  have "events_told (qd_events lead_db)" by (simp add: lead_db_def events_told_def)
  then show ?thesis
    using qualification_notices_render [OF run_one [of lead_db 0 "request_example ''a'' 1"] _ e, of ?c] e by (auto simp: Let_def)
qed

end
