(* ===== verification/Crypto.thy ===== *)
theory Crypto
  imports PyText
begin

unbundle bit_operations_syntax

text \<open>
  The parts of Python's standard library the program signs and encodes with: \<open>str.encode()\<close>
  (UTF-8), \<open>base64.urlsafe_b64encode\<close> and \<open>urlsafe_b64decode\<close> (with the decoder's non-strict
  treatment of foreign characters and padding), \<open>int(text, 36)\<close>, \<open>hashlib.sha256\<close> and
  \<open>hmac.new(key, message, sha256).digest()\<close>. \<open>hmac.compare_digest\<close> is equality.
\<close>

section \<open>Bytes\<close>

type_synonym byte = "8 word"

definition byte_of :: "nat \<Rightarrow> byte" where
  "byte_of n = of_nat n"

lemma unat_byte_of [simp]: "n < 256 \<Longrightarrow> unat (byte_of n) = n"
  by (simp add: byte_of_def unat_of_nat)

lemma unat_byte_bound: "unat (b :: byte) < 256"
  using unsigned_less [of b] by simp

lemma byte_of_unat [simp]: "byte_of (unat b) = b"
  by (simp add: byte_of_def)

definition utf8_char :: "char \<Rightarrow> byte list" where
  "utf8_char c = (let n = code c in
     if n < 128 then [byte_of n] else [byte_of (192 + n div 64), byte_of (128 + n mod 64)])"

definition utf8 :: "string \<Rightarrow> byte list" where
  "utf8 s = concat (map utf8_char s)"

lemma utf8_ascii_length: "isascii s \<Longrightarrow> length (utf8 s) = length s"
  by (induction s) (auto simp: utf8_def utf8_char_def isascii_def Let_def)

text \<open>\<open>UUID.bytes\<close> and \<open>UUID(bytes=b)\<close>: big-endian.\<close>

definition uuid_bytes :: "uuid \<Rightarrow> byte list" where
  "uuid_bytes u = map (\<lambda>i. byte_of ((unat u div 256 ^ i) mod 256)) (rev [0..<16])"

definition uuid_of_bytes :: "byte list \<Rightarrow> uuid" where
  "uuid_of_bytes bs = of_nat (foldl (\<lambda>n b. 256 * n + unat b) 0 bs)"

lemma length_uuid_bytes [simp]: "length (uuid_bytes u) = 16"
  by (simp add: uuid_bytes_def)

lemma big_endian:
  "foldl (\<lambda>n b. 256 * n + unat (b :: byte)) a (map (\<lambda>i. byte_of ((N div 256 ^ i) mod 256)) (rev [0..<k]))
   = a * 256 ^ k + N mod 256 ^ k"
proof (induction k arbitrary: a)
  case (Suc k)
  have "N mod 256 ^ Suc k = 256 ^ k * (N div 256 ^ k mod 256) + N mod 256 ^ k"
    using mod_mult2_eq [of N "256 ^ k" 256] by (simp add: mult.commute)
  then show ?case using Suc by (simp add: algebra_simps)
qed simp

lemma uuid_bytes_roundtrip [simp]: "uuid_of_bytes (uuid_bytes u) = u"
proof -
  have "unat u < 256 ^ 16" using unsigned_less [of u] by simp
  then show ?thesis by (simp add: uuid_of_bytes_def uuid_bytes_def big_endian del: upt_Suc)
qed

section \<open>Base 64\<close>

text \<open>The URL-safe alphabet.\<close>

definition b64_char :: "nat \<Rightarrow> char" where
  "b64_char n = (if n < 26 then char_of (65 + n) else if n < 52 then char_of (71 + n)
     else if n < 62 then char_of (n - 4) else if n = 62 then CHR ''-'' else CHR ''_'')"

text \<open>
  \<open>urlsafe_b64decode\<close> first translates \<open>-_\<close> to \<open>+/\<close>, so it reads both alphabets.
\<close>

definition b64_val :: "char \<Rightarrow> nat option" where
  "b64_val c = (let n = code c in
     if 65 \<le> n \<and> n \<le> 90 then Some (n - 65) else if 97 \<le> n \<and> n \<le> 122 then Some (n - 71)
     else if 48 \<le> n \<and> n \<le> 57 then Some (n + 4) else if n = 45 \<or> n = 43 then Some 62
     else if n = 95 \<or> n = 47 then Some 63 else None)"

fun sextets :: "byte list \<Rightarrow> nat list" where
  "sextets [] = []"
| "sextets [a] = [unat a div 4, (unat a mod 4) * 16]"
| "sextets [a, b] = [unat a div 4, (unat a mod 4) * 16 + unat b div 16, (unat b mod 16) * 4]"
| "sextets (a # b # c # bs) = [unat a div 4, (unat a mod 4) * 16 + unat b div 16,
     (unat b mod 16) * 4 + unat c div 64, unat c mod 64] @ sextets bs"

definition b64_padding :: "nat \<Rightarrow> string" where
  "b64_padding n = (if n mod 3 = 1 then ''=='' else if n mod 3 = 2 then ''='' else '''')"

definition urlsafe_b64encode :: "byte list \<Rightarrow> string" where
  "urlsafe_b64encode bs = map b64_char (sextets bs) @ b64_padding (length bs)"

definition rstrip_eq :: "string \<Rightarrow> string" where
  "rstrip_eq s = rev (dropWhile (\<lambda>c. c = CHR ''='') (rev s))"

text \<open>
  The scan of \<open>binascii.a2b_base64\<close>: the position in the quadruple, the bits left over, the
  padding seen, the bytes so far. Characters outside the alphabet are skipped; a complete padding
  ends the scan.
\<close>

fun b64_scan :: "nat \<Rightarrow> nat \<Rightarrow> nat \<Rightarrow> byte list \<Rightarrow> string \<Rightarrow> byte list res" where
  "b64_scan quad left pads out [] =
     (if quad = 0 then Inr out
      else if quad = 1 then Inl (ValueError ''Invalid base64-encoded string'')
      else Inl (ValueError ''Incorrect padding''))"
| "b64_scan quad left pads out (c # cs) =
     (if c = CHR ''='' then
        (if quad \<ge> 2 then if quad + (pads + 1) \<ge> 4 then Inr out else b64_scan quad left (pads + 1) out cs
         else b64_scan quad left pads out cs)
      else case b64_val c of
        None \<Rightarrow> b64_scan quad left pads out cs
      | Some v \<Rightarrow>
          if quad = 0 then b64_scan 1 v 0 out cs
          else if quad = 1 then b64_scan 2 (v mod 16) 0 (out @ [byte_of (left * 4 + v div 16)]) cs
          else if quad = 2 then b64_scan 3 (v mod 4) 0 (out @ [byte_of (left * 16 + v div 4)]) cs
          else b64_scan 0 0 0 (out @ [byte_of (left * 64 + v)]) cs)"

definition urlsafe_b64decode :: "string \<Rightarrow> byte list res" where
  "urlsafe_b64decode s = b64_scan 0 0 0 [] s"

lemma code_char_of: "n < 256 \<Longrightarrow> code (char_of n) = n"
  by (simp add: code_def)

lemma code_b64_char:
  "n < 64 \<Longrightarrow> code (b64_char n) = (if n < 26 then 65 + n else if n < 52 then 71 + n else if n < 62 then n - 4
     else if n = 62 then 45 else 95)"
  by (auto simp: b64_char_def code_char_of) (simp_all add: code_def)

lemma code_ne: "code c \<noteq> code d \<Longrightarrow> c \<noteq> d"
  by auto

lemma b64_char_facts:
  assumes "n < 64"
  shows "b64_val (b64_char n) = Some n" and "b64_char n \<noteq> CHR ''=''" and "b64_char n \<noteq> CHR ''.''" and "b64_char n \<noteq> CHR ''~''"
    and "code (b64_char n) < 128"
proof -
  have c: "code CHR ''='' = 61" "code CHR ''.'' = 46" "code CHR ''~'' = 126" by (simp_all add: code_def)
  show "b64_val (b64_char n) = Some n" using assms by (auto simp: b64_val_def code_b64_char Let_def)
  show "b64_char n \<noteq> CHR ''=''" by (rule code_ne, use assms c in \<open>simp add: code_b64_char\<close>, arith)
  show "b64_char n \<noteq> CHR ''.''" by (rule code_ne, use assms c in \<open>simp add: code_b64_char\<close>, arith?)
  show "b64_char n \<noteq> CHR ''~''" by (rule code_ne, use assms c in \<open>simp add: code_b64_char\<close>, arith?)
  show "code (b64_char n) < 128" using assms by (simp add: code_b64_char, arith)
qed

lemma sextets_bound: "n \<in> set (sextets bs) \<Longrightarrow> n < 64"
proof (induction bs rule: sextets.induct)
  case (2 a)
  then show ?case using unat_byte_bound [of a] by auto
next
  case (3 a b)
  then show ?case using unat_byte_bound [of a] unat_byte_bound [of b] by auto
next
  case (4 a b c bs)
  then show ?case using unat_byte_bound [of a] unat_byte_bound [of b] unat_byte_bound [of c] by auto
qed simp

lemma b64_text:
  "list_all (\<lambda>c. c \<noteq> CHR ''='' \<and> c \<noteq> CHR ''.'' \<and> c \<noteq> CHR ''~'' \<and> code c < 128) (map b64_char (sextets bs))"
  unfolding list_all_iff set_map by (auto dest!: sextets_bound simp: b64_char_facts)

lemma rstrip_eq_plain: "list_all (\<lambda>c. c \<noteq> CHR ''='') s \<Longrightarrow> rstrip_eq (s @ replicate n CHR ''='') = s"
proof -
  assume s: "list_all (\<lambda>c. c \<noteq> CHR ''='') s"
  have "dropWhile (\<lambda>c. c = CHR ''='') (rev s) = rev s" using s by (cases s rule: rev_cases) simp_all
  then have "dropWhile (\<lambda>c. c = CHR ''='') (replicate n CHR ''='' @ rev s) = rev s" by (induction n) simp_all
  then show ?thesis by (simp add: rstrip_eq_def)
qed

lemma b64encode_stripped: "rstrip_eq (urlsafe_b64encode bs) = map b64_char (sextets bs)"
proof -
  have "\<exists>n. b64_padding (length bs) = replicate n CHR ''=''"
    by (intro exI [of _ "if length bs mod 3 = 1 then 2 else if length bs mod 3 = 2 then 1 else 0"])
       (simp add: b64_padding_def numeral_2_eq_2)
  then obtain n where n: "b64_padding (length bs) = replicate n CHR ''=''" by blast
  have "list_all (\<lambda>c. c \<noteq> CHR ''='') (map b64_char (sextets bs))"
    using b64_text [of bs] by (rule list.pred_mono_strong) simp
  then show ?thesis unfolding urlsafe_b64encode_def n by (rule rstrip_eq_plain)
qed

lemma byte_bits:
  fixes a b c :: byte
  shows "byte_of ((unat a div 4) * 4 + ((unat a mod 4) * 16 + unat b div 16) div 16) = a"
    "byte_of ((((unat a mod 4) * 16 + unat b div 16) mod 16) * 16 + ((unat b mod 16) * 4 + unat c div 64) div 4) = b"
    "byte_of ((((unat b mod 16) * 4 + unat c div 64) mod 4) * 64 + unat c mod 64) = c"
    "byte_of ((unat a div 4) * 4 + (unat a mod 4) * 16 div 16) = a"
    "byte_of ((((unat a mod 4) * 16 + unat b div 16) mod 16) * 16 + (unat b mod 16) * 4 div 4) = b"
proof -
  have "unat b div 16 < 16" "unat c div 64 < 4" using unat_byte_bound [of b] unat_byte_bound [of c] by auto
  then have "(unat a div 4) * 4 + ((unat a mod 4) * 16 + unat b div 16) div 16 = unat a"
    "(((unat a mod 4) * 16 + unat b div 16) mod 16) * 16 + ((unat b mod 16) * 4 + unat c div 64) div 4 = unat b"
    "(((unat b mod 16) * 4 + unat c div 64) mod 4) * 64 + unat c mod 64 = unat c"
    "(unat a div 4) * 4 + (unat a mod 4) * 16 div 16 = unat a"
    "(((unat a mod 4) * 16 + unat b div 16) mod 16) * 16 + (unat b mod 16) * 4 div 4 = unat b"
    by simp_all
  then show "byte_of ((unat a div 4) * 4 + ((unat a mod 4) * 16 + unat b div 16) div 16) = a"
    "byte_of ((((unat a mod 4) * 16 + unat b div 16) mod 16) * 16 + ((unat b mod 16) * 4 + unat c div 64) div 4) = b"
    "byte_of ((((unat b mod 16) * 4 + unat c div 64) mod 4) * 64 + unat c mod 64) = c"
    "byte_of ((unat a div 4) * 4 + (unat a mod 4) * 16 div 16) = a"
    "byte_of ((((unat a mod 4) * 16 + unat b div 16) mod 16) * 16 + (unat b mod 16) * 4 div 4) = b"
    by (simp_all only: byte_of_unat)
qed

lemma b64_scan_sextet:
  assumes "v < 64"
  shows "b64_scan 0 l p out (b64_char v # cs) = b64_scan (Suc 0) v 0 out cs"
    "b64_scan (Suc 0) l p out (b64_char v # cs) = b64_scan 2 (v mod 16) 0 (out @ [byte_of (l * 4 + v div 16)]) cs"
    "b64_scan 2 l p out (b64_char v # cs) = b64_scan 3 (v mod 4) 0 (out @ [byte_of (l * 16 + v div 4)]) cs"
    "b64_scan 3 l p out (b64_char v # cs) = b64_scan 0 0 0 (out @ [byte_of (l * 64 + v)]) cs"
  using b64_char_facts [OF assms] by simp_all

text \<open>The program appends two padding characters before decoding; they never hurt.\<close>

lemma b64_decode_sextets: "b64_scan 0 0 0 out (map b64_char (sextets bs) @ ''=='') = Inr (out @ bs)"
proof (induction bs arbitrary: out rule: sextets.induct)
  case (2 a)
  have "unat a div 4 < 64" "(unat a mod 4) * 16 < 64" using unat_byte_bound [of a] by auto
  then show ?case using byte_bits(4) [of a] by (simp add: b64_scan_sextet del: b64_scan.simps) simp
next
  case (3 a b)
  have "unat a div 4 < 64" "(unat a mod 4) * 16 + unat b div 16 < 64" "(unat b mod 16) * 4 < 64"
    using unat_byte_bound [of a] unat_byte_bound [of b] by auto
  then show ?case using byte_bits(1) [of a b] byte_bits(5) [of a b] by (simp add: b64_scan_sextet del: b64_scan.simps) simp
next
  case (4 a b c bs)
  have "unat a div 4 < 64" "(unat a mod 4) * 16 + unat b div 16 < 64" "(unat b mod 16) * 4 + unat c div 64 < 64" "unat c mod 64 < 64"
    using unat_byte_bound [of a] unat_byte_bound [of b] unat_byte_bound [of c] by auto
  then show ?case using byte_bits(1) [of a b] byte_bits(2) [of a b c] byte_bits(3) [of b c] 4
    by (simp add: b64_scan_sextet del: b64_scan.simps)
qed simp

lemma length_sextets: "length (sextets bs) = (4 * length bs + 2) div 3"
  by (induction bs rule: sextets.induct) auto

section \<open>Base 36\<close>

definition b36_alphabet :: string where
  "b36_alphabet = ''0123456789abcdefghijklmnopqrstuvwxyz''"

definition b36_val :: "char \<Rightarrow> nat option" where
  "b36_val c = (let n = code c in
     if 48 \<le> n \<and> n \<le> 57 then Some (n - 48) else if 97 \<le> n \<and> n \<le> 122 then Some (n - 87)
     else if 65 \<le> n \<and> n \<le> 90 then Some (n - 55) else None)"

text \<open>
  \<open>int(text, 36)\<close> of an ASCII text: white space around, a sign, digits with single underscores
  between them.
\<close>

fun b36_digits :: "bool \<Rightarrow> nat \<Rightarrow> string \<Rightarrow> nat option" where
  "b36_digits after_digit n [] = (if after_digit then Some n else None)"
| "b36_digits after_digit n (c # cs) =
     (if c = CHR ''_'' then if after_digit then b36_digits False n cs else None
      else case b36_val c of None \<Rightarrow> None | Some v \<Rightarrow> b36_digits True (n * 36 + v) cs)"

definition c_space :: "char \<Rightarrow> bool" where
  "c_space c = (9 \<le> code c \<and> code c \<le> 13 \<or> code c = 32)"

definition int36 :: "string \<Rightarrow> int option" where
  "int36 s = (let t = rev (dropWhile c_space (rev (dropWhile c_space s))) in
     case t of
       c # cs \<Rightarrow>
         if c = CHR ''-'' then map_option (\<lambda>n. - int n) (b36_digits False 0 cs)
         else if c = CHR ''+'' then map_option int (b36_digits False 0 cs)
         else map_option int (b36_digits False 0 t)
     | [] \<Rightarrow> None)"

section \<open>SHA-256 and HMAC\<close>

text \<open>
  The constants are the leading fractional bits of roots of the first primes: \<open>root_bits k bits n acc\<close> adds
  to \<open>acc\<close> the bits below \<open>2 ^ bits\<close> of the \<open>k\<close>-th root of \<open>n\<close>, from the highest one on. The roots are below 8,
  so 35 bits are enough, and the 32-bit word drops the integer part.
\<close>

fun root_bits :: "nat \<Rightarrow> nat \<Rightarrow> nat \<Rightarrow> nat \<Rightarrow> nat" where
  "root_bits k 0 n acc = acc"
| "root_bits k (Suc bits) n acc = root_bits k bits n (if (acc + 2 ^ bits) ^ k \<le> n then acc + 2 ^ bits else acc)"

definition sha_primes :: "nat list" where
  "sha_primes = filter (\<lambda>p. list_all (\<lambda>q. p mod q \<noteq> 0) [2..<p]) [2..<312]"

definition sha_k :: "32 word list" where
  "sha_k = map (\<lambda>p. of_nat (root_bits 3 35 (p * 2 ^ 96) 0)) sha_primes"

type_synonym sha_state = "32 word \<times> 32 word \<times> 32 word \<times> 32 word \<times> 32 word \<times> 32 word \<times> 32 word \<times> 32 word"

definition sha_init :: sha_state where
  "sha_init = (case map (\<lambda>p. of_nat (root_bits 2 35 (p * 2 ^ 64) 0)) (take 8 sha_primes) of
     [a, b, c, d, e, f, g, h] \<Rightarrow> (a, b, c, d, e, f, g, h) | _ \<Rightarrow> (0, 0, 0, 0, 0, 0, 0, 0))"

definition be32 :: "byte list \<Rightarrow> 32 word" where
  "be32 bs = foldl (\<lambda>w b. push_bit 8 w OR ucast b) 0 bs"

definition bytes32 :: "32 word \<Rightarrow> byte list" where
  "bytes32 w = [ucast (drop_bit 24 w), ucast (drop_bit 16 w), ucast (drop_bit 8 w), ucast w]"

definition sha_pad :: "byte list \<Rightarrow> byte list" where
  "sha_pad m = m @ [0x80] @ replicate ((119 - length m mod 64) mod 64) 0
     @ map (\<lambda>i. byte_of ((8 * length m) div 256 ^ i mod 256)) (rev [0..<8])"

fun chunks_of :: "nat \<Rightarrow> 'a list \<Rightarrow> 'a list list" where
  "chunks_of k xs = (if k = 0 \<or> xs = [] then [] else take k xs # chunks_of k (drop k xs))"

declare chunks_of.simps [simp del]

definition sha_next :: "32 word list \<Rightarrow> 32 word" where
  "sha_next w = (
     let n = length w; a = w ! (n - 15); b = w ! (n - 2);
         s0 = word_rotr 7 a XOR word_rotr 18 a XOR drop_bit 3 a;
         s1 = word_rotr 17 b XOR word_rotr 19 b XOR drop_bit 10 b
     in w ! (n - 16) + s0 + w ! (n - 7) + s1)"

definition sha_schedule :: "byte list \<Rightarrow> 32 word list" where
  "sha_schedule block = ((\<lambda>w. w @ [sha_next w]) ^^ 48) (map be32 (chunks_of 4 block))"

definition sha_round :: "32 word \<times> 32 word \<Rightarrow> sha_state \<Rightarrow> sha_state" where
  "sha_round kw st = (case (kw, st) of ((k, w), (a, b, c, d, e, f, g, h)) \<Rightarrow>
     let s1 = word_rotr 6 e XOR word_rotr 11 e XOR word_rotr 25 e;
         ch = (e AND f) XOR (NOT e AND g);
         t1 = h + s1 + ch + k + w;
         s0 = word_rotr 2 a XOR word_rotr 13 a XOR word_rotr 22 a;
         maj = (a AND b) XOR (a AND c) XOR (b AND c)
     in (t1 + s0 + maj, a, b, c, d + t1, e, f, g))"

definition sha_block :: "byte list \<Rightarrow> sha_state \<Rightarrow> sha_state" where
  "sha_block block st = (case (st, fold sha_round (zip sha_k (sha_schedule block)) st) of
     ((a, b, c, d, e, f, g, h), (a', b', c', d', e', f', g', h')) \<Rightarrow>
       (a + a', b + b', c + c', d + d', e + e', f + f', g + g', h + h'))"

definition sha256 :: "byte list \<Rightarrow> byte list" where
  "sha256 m = (case fold sha_block (chunks_of 64 (sha_pad m)) sha_init of
     (a, b, c, d, e, f, g, h) \<Rightarrow> concat (map bytes32 [a, b, c, d, e, f, g, h]))"

definition hmac_sha256 :: "byte list \<Rightarrow> byte list \<Rightarrow> byte list" where
  "hmac_sha256 key m = (
     let k = (if length key > 64 then sha256 key else key); k = k @ replicate (64 - length k) 0 in
     sha256 (map (\<lambda>b. b XOR 0x5c) k @ sha256 (map (\<lambda>b. b XOR 0x36) k @ m)))"

lemma length_sha256 [simp]: "length (sha256 m) = 32"
  by (simp add: sha256_def bytes32_def split: prod.split)

lemma length_hmac [simp]: "length (hmac_sha256 key m) = 32"
  by (simp add: hmac_sha256_def Let_def)

end
