(* ===== verification/Callbacks.thy ===== *)
theory Callbacks
  imports Crypto PyTime Shared Lifecycle
begin

text \<open>
  The signed callback tokens of the Telegram buttons: \<open>presentation/telegram/callbacks.py\<close>. A token
  is \<open>version.action.entity[~page].expiry.signature\<close>; the signature is a truncated HMAC over the
  tenant and the body. The clock and the codec's configuration are arguments.
\<close>

section \<open>Actions and tokens\<close>

datatype callback_action = CB_HOME | CB_CATALOG | CB_CATEGORY | CB_SERVICE | CB_HOURS | CB_PRIVACY | CB_HUMAN
  | CB_CANCEL | CB_BOOK | CB_BOOK_SERVICE | CB_BOOK_DATE | CB_BOOK_SLOT | CB_BOOK_CONFIRM | CB_FLOW_CANCEL
  | CB_MY_BOOKING | CB_APPOINTMENT_CANCEL | CB_APPOINTMENT_CANCEL_CONFIRM | CB_RESCHEDULE | CB_QUALIFY
  | CB_QUALIFY_CONSENT_ACCEPT | CB_QUALIFY_CONSENT_DECLINE | CB_QUALIFY_EDIT | CB_QUALIFY_SUBMIT

fun callback_value :: "callback_action \<Rightarrow> string" where
  "callback_value CB_HOME = ''h''"
| "callback_value CB_CATALOG = ''ca''"
| "callback_value CB_CATEGORY = ''ct''"
| "callback_value CB_SERVICE = ''sv''"
| "callback_value CB_HOURS = ''hr''"
| "callback_value CB_PRIVACY = ''pr''"
| "callback_value CB_HUMAN = ''hu''"
| "callback_value CB_CANCEL = ''cx''"
| "callback_value CB_BOOK = ''bk''"
| "callback_value CB_BOOK_SERVICE = ''bs''"
| "callback_value CB_BOOK_DATE = ''bd''"
| "callback_value CB_BOOK_SLOT = ''bt''"
| "callback_value CB_BOOK_CONFIRM = ''bc''"
| "callback_value CB_FLOW_CANCEL = ''fc''"
| "callback_value CB_MY_BOOKING = ''mb''"
| "callback_value CB_APPOINTMENT_CANCEL = ''ac''"
| "callback_value CB_APPOINTMENT_CANCEL_CONFIRM = ''ax''"
| "callback_value CB_RESCHEDULE = ''rs''"
| "callback_value CB_QUALIFY = ''qf''"
| "callback_value CB_QUALIFY_CONSENT_ACCEPT = ''qa''"
| "callback_value CB_QUALIFY_CONSENT_DECLINE = ''qd''"
| "callback_value CB_QUALIFY_EDIT = ''qe''"
| "callback_value CB_QUALIFY_SUBMIT = ''qs''"

definition callback_actions :: "callback_action list" where
  "callback_actions = [CB_HOME, CB_CATALOG, CB_CATEGORY, CB_SERVICE, CB_HOURS, CB_PRIVACY, CB_HUMAN,
     CB_CANCEL, CB_BOOK, CB_BOOK_SERVICE, CB_BOOK_DATE, CB_BOOK_SLOT, CB_BOOK_CONFIRM, CB_FLOW_CANCEL,
     CB_MY_BOOKING, CB_APPOINTMENT_CANCEL, CB_APPOINTMENT_CANCEL_CONFIRM, CB_RESCHEDULE, CB_QUALIFY,
     CB_QUALIFY_CONSENT_ACCEPT, CB_QUALIFY_CONSENT_DECLINE, CB_QUALIFY_EDIT, CB_QUALIFY_SUBMIT]"

text \<open>\<open>CallbackAction(text)\<close>\<close>

definition callback_of :: "string \<Rightarrow> callback_action option" where
  "callback_of s = find (\<lambda>a. callback_value a = s) callback_actions"

record callback_token =
  ct_action :: callback_action
  ct_entity_id :: "uuid option"
  ct_page :: "int option"

text \<open>\<open>CallbackTokenError\<close>, a \<open>ValueError\<close>\<close>

definition token_error :: "string \<Rightarrow> exc" where
  "token_error m = ValueError m"

definition max_callback_bytes :: nat where "max_callback_bytes = 64"
definition max_callback_page :: int where "max_callback_page = 46655"

section \<open>Numbers, entities, dates\<close>

text \<open>The loop of \<open>_base36\<close>: digits are put in front until the value is zero.\<close>

fun base36_loop :: "nat \<Rightarrow> string \<Rightarrow> string" where
  "base36_loop v acc = (if v = 0 then acc else base36_loop (v div 36) (b36_alphabet ! (v mod 36) # acc))"

declare base36_loop.simps [simp del]

definition base36 :: "nat \<Rightarrow> string" where
  "base36 v = (if v = 0 then ''0'' else base36_loop v '''')"

definition from_base36 :: "string \<Rightarrow> int res" where
  "from_base36 s = (case int36 s of None \<Rightarrow> Inl (token_error ''Callback token has an invalid expiry'') | Some n \<Rightarrow> Inr n)"

definition encode_uuid :: "uuid \<Rightarrow> string" where
  "encode_uuid u = rstrip_eq (urlsafe_b64encode (uuid_bytes u))"

definition decode_uuid :: "string \<Rightarrow> uuid res" where
  "decode_uuid s = (case urlsafe_b64decode (s @ ''=='') of
     Inl _ \<Rightarrow> Inl (token_error ''Callback token has an invalid entity'')
   | Inr raw_bytes \<Rightarrow>
       if length raw_bytes \<noteq> 16 then Inl (token_error ''Callback token has an invalid entity'')
       else Inr (uuid_of_bytes raw_bytes))"

definition booking_date_epoch :: date where
  "booking_date_epoch = date_of_ymd 2020 1 1"

definition booking_date_page :: "date \<Rightarrow> int res" where
  "booking_date_page d = (let page = d - booking_date_epoch in
     if \<not> (0 \<le> page \<and> page \<le> max_callback_page) then Inl (ValueError ''Booking date is outside the callback range'')
     else Inr page)"

definition booking_date_from_page :: "int \<Rightarrow> date res" where
  "booking_date_from_page page =
     (if \<not> (0 \<le> page \<and> page \<le> max_callback_page) then Inl (token_error ''Booking date callback is out of range'')
      else Inr (booking_date_epoch + page))"

text \<open>
  The page of a slot is its local minute of the day; the second run of a repeated hour (\<open>fold\<close>) is
  moved by a day.
\<close>

definition fold_of :: "zone \<Rightarrow> instant \<Rightarrow> bool" where
  "fold_of z i = (let offset = offset_at z i in offset_local z False (i + offset) \<noteq> offset)"

definition booking_slot_page :: "instant \<Rightarrow> zone \<Rightarrow> int" where
  "booking_slot_page start z = (let t = wall_time (start + offset_at z start) in
     t div minute_us + (if fold_of z start then 1440 else 0))"

section \<open>The codec\<close>

record codec =
  cc_signing_key :: string
  cc_version :: int
  cc_expiry_seconds :: int

definition codec_init :: "codec \<Rightarrow> codec res" where
  "codec_init k = (if cc_signing_key k = [] then Inl (ValueError ''Callback signing key is required'') else Inr k)"

text \<open>\<open>int(clock.now().timestamp())\<close>: whole seconds, truncated towards zero.\<close>

definition unix_seconds :: "instant \<Rightarrow> int" where
  "unix_seconds now = (if 0 \<le> now then now div second_us else - ((- now) div second_us))"

text \<open>\<open>_signature\<close>\<close>

definition signature :: "codec \<Rightarrow> tenant_id \<Rightarrow> string \<Rightarrow> string" where
  "signature k t body = rstrip_eq (urlsafe_b64encode
     (take 8 (hmac_sha256 (utf8 (cc_signing_key k)) (utf8 (uuid_str (tenant_uuid t) @ '':'' @ body)))))"

definition entity_text :: "uuid option \<Rightarrow> int option \<Rightarrow> string" where
  "entity_text entity page = (
     let entity_part = (case entity of None \<Rightarrow> ''-'' | Some u \<Rightarrow> encode_uuid u) in
     case page of None \<Rightarrow> entity_part | Some p \<Rightarrow> entity_part @ ''~'' @ base36 (nat p))"

definition token_body :: "codec \<Rightarrow> callback_action \<Rightarrow> string \<Rightarrow> nat \<Rightarrow> string" where
  "token_body k action entity expires =
     str_int (cc_version k) @ ''.'' @ callback_value action @ ''.'' @ entity @ ''.'' @ base36 expires"

text \<open>The clock is after 1970, so the expiry is not negative.\<close>

definition encode_callback ::
  "codec \<Rightarrow> instant \<Rightarrow> tenant_id \<Rightarrow> callback_action \<Rightarrow> uuid option \<Rightarrow> int option \<Rightarrow> string res" where
  "encode_callback k now t action entity page =
     (if \<exists>p. page = Some p \<and> \<not> (0 \<le> p \<and> p \<le> max_callback_page) then Inl (ValueError ''Callback page is out of range'')
      else let expires = unix_seconds now + cc_expiry_seconds k;
               body = token_body k action (entity_text entity page) (nat expires);
               token = body @ ''.'' @ signature k t body in
        if length (utf8 token) > max_callback_bytes then Inl (ValueError ''Callback token exceeds Telegram's limit'')
        else Inr token)"

definition entity_actions :: "callback_action set" where
  "entity_actions = {CB_CATEGORY, CB_SERVICE, CB_BOOK_SERVICE, CB_BOOK_DATE, CB_BOOK_SLOT, CB_BOOK_CONFIRM,
     CB_APPOINTMENT_CANCEL, CB_APPOINTMENT_CANCEL_CONFIRM, CB_RESCHEDULE, CB_QUALIFY_CONSENT_ACCEPT,
     CB_QUALIFY_CONSENT_DECLINE, CB_QUALIFY_EDIT, CB_QUALIFY_SUBMIT}"

definition paged_actions :: "callback_action set" where
  "paged_actions = {CB_CATALOG, CB_CATEGORY, CB_BOOK_DATE, CB_BOOK_SLOT, CB_QUALIFY_EDIT}"

text \<open>\<open>s.partition("~")\<close>: the text before the separator, and the text after it if there is one.\<close>

fun partition_tilde :: "string \<Rightarrow> string \<times> string option" where
  "partition_tilde [] = ([], None)"
| "partition_tilde (c # cs) = (if c = CHR ''~'' then ([], Some cs)
     else case partition_tilde cs of (a, b) \<Rightarrow> (c # a, b))"

definition decode_page :: "string option \<Rightarrow> int option res" where
  "decode_page page_text = (case page_text of
     None \<Rightarrow> Inr None
   | Some s \<Rightarrow> res_bind (from_base36 s) (\<lambda>p.
       if \<not> (0 \<le> p \<and> p \<le> max_callback_page) then Inl (token_error ''Callback page is out of range'') else Inr (Some p)))"

text \<open>The checks of \<open>decode\<close> on the parts of a token whose signature is right.\<close>

definition decode_parts :: "instant \<Rightarrow> string \<Rightarrow> string \<Rightarrow> string \<Rightarrow> callback_token res" where
  "decode_parts now action_text entity_part_text expiry_text =
     (case callback_of action_text of
        None \<Rightarrow> Inl (token_error ''Callback action is unsupported'')
      | Some action \<Rightarrow>
          res_bind (from_base36 expiry_text) (\<lambda>expiry.
          if expiry \<le> unix_seconds now then Inl (token_error ''Callback token has expired'')
          else case partition_tilde entity_part_text of (entity_part, page_text) \<Rightarrow>
          res_bind (decode_page page_text) (\<lambda>page.
          res_bind (if entity_part = ''-'' then Inr None else res_bind (decode_uuid entity_part) (\<lambda>u. Inr (Some u))) (\<lambda>entity.
          if action \<in> entity_actions \<and> entity = None then Inl (token_error ''Callback entity is required'')
          else if action \<notin> entity_actions \<and> entity \<noteq> None then Inl (token_error ''Callback entity is not allowed'')
          else if action \<notin> paged_actions \<and> page \<noteq> None then Inl (token_error ''Callback page is not allowed'')
          else Inr \<lparr>ct_action = action, ct_entity_id = entity, ct_page = page\<rparr>))))"

definition decode_callback :: "codec \<Rightarrow> instant \<Rightarrow> tenant_id \<Rightarrow> string \<Rightarrow> callback_token res" where
  "decode_callback k now t s =
     (if \<not> isascii s \<or> length (utf8 s) > max_callback_bytes then Inl (token_error ''Callback token is invalid'')
      else case split_char CHR ''.'' s of
        [version_text, action_text, entity_part_text, expiry_text, supplied] \<Rightarrow>
          if version_text \<noteq> str_int (cc_version k) then Inl (token_error ''Callback token version is unsupported'')
          else if supplied \<noteq> signature k t (join ''.'' [version_text, action_text, entity_part_text, expiry_text])
            then Inl (token_error ''Callback token signature is invalid'')
          else decode_parts now action_text entity_part_text expiry_text
      | _ \<Rightarrow> Inl (token_error ''Callback token structure is invalid''))"

end
