(* ===== verification/CallbackFacts.thy ===== *)
theory CallbackFacts
  imports Callbacks PyParse
begin

text \<open>
  The callback tokens: what is encoded fits Telegram's limit and is decoded as it was given until it
  expires; what is decoded carries the signature of its tenant and has the shape its action needs.
\<close>

section \<open>Base 36\<close>

definition plain_char :: "char \<Rightarrow> bool" where
  "plain_char c = (c \<noteq> CHR ''.'' \<and> c \<noteq> CHR ''~'' \<and> code c < 128)"

lemma b36_digit_table: "list_all (\<lambda>d. b36_val (b36_alphabet ! d) = Some d \<and> plain_char (b36_alphabet ! d)
    \<and> b36_alphabet ! d \<noteq> CHR ''_'' \<and> b36_alphabet ! d \<noteq> CHR ''-'' \<and> b36_alphabet ! d \<noteq> CHR ''+''
    \<and> \<not> c_space (b36_alphabet ! d)) [0..<36]"
  by code_simp

lemma b36_digit:
  assumes "d < 36"
  shows "b36_val (b36_alphabet ! d) = Some d \<and> plain_char (b36_alphabet ! d) \<and> b36_alphabet ! d \<noteq> CHR ''_''
    \<and> b36_alphabet ! d \<noteq> CHR ''-'' \<and> b36_alphabet ! d \<noteq> CHR ''+'' \<and> \<not> c_space (b36_alphabet ! d)"
  using b36_digit_table assms by (auto simp: list_all_iff)

fun b36_length :: "nat \<Rightarrow> nat" where
  "b36_length v = (if v = 0 then 0 else Suc (b36_length (v div 36)))"

declare b36_length.simps [simp del]

lemma base36_loop_read:
  "b36_digits f n (base36_loop v acc) = (if v = 0 then b36_digits f n acc else b36_digits True (n * 36 ^ b36_length v + v) acc)"
proof (induction v acc arbitrary: f n rule: base36_loop.induct)
  case (1 v acc)
  show ?case
  proof (cases "v = 0")
    case True
    then show ?thesis by (simp add: base36_loop.simps)
  next
    case False
    let ?d = "b36_alphabet ! (v mod 36)"
    have d: "b36_digits f n (?d # acc) = b36_digits True (n * 36 + v mod 36) acc" for f n
      using b36_digit [of "v mod 36"] by simp
    have "b36_digits f n (base36_loop v acc) = b36_digits f n (base36_loop (v div 36) (?d # acc))"
      using False by (simp add: base36_loop.simps [of v])
    also have "\<dots> = b36_digits True ((if v div 36 = 0 then n else n * 36 ^ b36_length (v div 36) + v div 36) * 36 + v mod 36) acc"
      unfolding 1 [OF False] d by (cases "v div 36 = 0") (simp_all only: if_True if_False simp_thms)
    also have "(if v div 36 = 0 then n else n * 36 ^ b36_length (v div 36) + v div 36) * 36 + v mod 36
        = n * 36 ^ b36_length v + v"
    proof (cases "v div 36 = 0")
      case True
      then have "v mod 36 = v" by (simp add: div_eq_0_iff)
      moreover have "b36_length v = Suc 0" using False True by (simp add: b36_length.simps [of v] b36_length.simps [of 0])
      ultimately show ?thesis using True by simp
    next
      case nz: False
      have "(n * 36 ^ b36_length (v div 36) + v div 36) * 36 + v mod 36
          = n * 36 ^ b36_length v + (v div 36 * 36 + v mod 36)"
        using False by (simp add: b36_length.simps [of v] algebra_simps)
      then show ?thesis using nz by simp
    qed
    finally show ?thesis using False by simp
  qed
qed

lemma base36_loop_chars: "list_all P acc \<Longrightarrow> (\<And>d. d < 36 \<Longrightarrow> P (b36_alphabet ! d)) \<Longrightarrow> list_all P (base36_loop v acc)"
proof (induction v acc rule: base36_loop.induct)
  case (1 v acc)
  then show ?case by (subst base36_loop.simps) simp
qed

lemma base36_chars: "(\<And>d. d < 36 \<Longrightarrow> P (b36_alphabet ! d)) \<Longrightarrow> list_all P (base36 v)"
proof -
  assume P: "\<And>d. d < 36 \<Longrightarrow> P (b36_alphabet ! d)"
  have "P CHR ''0''" using P [of 0] by (simp add: b36_alphabet_def)
  then show ?thesis using base36_loop_chars [of P "''''" v] P by (simp add: base36_def)
qed

lemma base36_loop_length: "v < 36 ^ m \<Longrightarrow> length (base36_loop v acc) \<le> m + length acc"
proof (induction v acc arbitrary: m rule: base36_loop.induct)
  case (1 v acc)
  show ?case
  proof (cases "v = 0")
    case True
    then show ?thesis by (simp add: base36_loop.simps)
  next
    case False
    then obtain k where m: "m = Suc k" using 1(2) by (cases m) auto
    then have "v div 36 < 36 ^ k" using 1(2) by (simp add: less_mult_imp_div_less mult.commute)
    then show ?thesis using 1(1) [OF False] False m by (subst base36_loop.simps) fastforce
  qed
qed

lemma base36_length: "v < 36 ^ m \<Longrightarrow> 0 < m \<Longrightarrow> length (base36 v) \<le> m"
  using base36_loop_length [of v m "''''"] by (auto simp: base36_def)

lemma base36_nonempty: "base36 v \<noteq> []"
proof -
  have "b36_digits False 0 (base36 v) \<noteq> None"
    using base36_loop_read [of False 0 v "''''"] by (auto simp: base36_def b36_val_def code_def)
  then show ?thesis by (cases "base36 v") auto
qed

lemma int36_base36 [simp]: "int36 (base36 v) = Some (int v)"
proof -
  have sp: "list_all (\<lambda>c. \<not> c_space c) (base36 v)" using b36_digit by (intro base36_chars) blast
  have sg: "list_all (\<lambda>c. c \<noteq> CHR ''-'' \<and> c \<noteq> CHR ''+'') (base36 v)" using b36_digit by (intro base36_chars) blast
  obtain c cs where v: "base36 v = c # cs" using base36_nonempty by (cases "base36 v") auto
  have "dropWhile c_space (rev (c # cs)) = rev (c # cs)"
    using sp unfolding v by (cases cs rule: rev_cases) (simp_all add: list_all_iff)
  then have "rev (dropWhile c_space (rev (dropWhile c_space (c # cs)))) = c # cs" using sp by (simp add: v)
  moreover have "b36_digits False 0 (c # cs) = Some v"
    using base36_loop_read [of False 0 v "''''"] by (auto simp: v [symmetric] base36_def b36_val_def code_def)
  ultimately show ?thesis using sg by (simp add: int36_def v del: dropWhile.simps)
qed

section \<open>The parts of a token\<close>

lemma split_last: "sep \<notin> set a \<Longrightarrow> split_char_acc sep w a = [w @ a]"
  by (induction a arbitrary: w) auto

lemma split_part: "sep \<notin> set a \<Longrightarrow> split_char_acc sep w (a @ sep # r) = (w @ a) # split_char_acc sep [] r"
  by (induction a arbitrary: w) auto

lemma partition_plain: "list_all plain_char a \<Longrightarrow> partition_tilde a = (a, None)"
  by (induction a) (auto simp: plain_char_def)

lemma partition_page: "list_all plain_char a \<Longrightarrow> partition_tilde (a @ CHR ''~'' # b) = (a, Some b)"
  by (induction a) (auto simp: plain_char_def)

lemma encode_uuid_text: "encode_uuid u = map b64_char (sextets (uuid_bytes u))"
  by (simp add: encode_uuid_def b64encode_stripped)

lemma encode_uuid_plain: "list_all plain_char (encode_uuid u)"
  unfolding encode_uuid_text using b64_text by (rule list.pred_mono_strong) (simp add: plain_char_def)

lemma length_encode_uuid [simp]: "length (encode_uuid u) = 22"
  by (simp add: encode_uuid_text length_sextets)

lemma decode_encode_uuid [simp]: "decode_uuid (encode_uuid u) = Inr u"
  using b64_decode_sextets [of "[]" "uuid_bytes u"]
  by (simp add: decode_uuid_def encode_uuid_text urlsafe_b64decode_def)

lemma signature_plain: "list_all plain_char (signature k t body)"
  unfolding signature_def b64encode_stripped using b64_text by (rule list.pred_mono_strong) (simp add: plain_char_def)

lemma length_signature [simp]: "length (signature k t body) = 11"
  by (simp add: signature_def b64encode_stripped length_sextets)

lemma base36_plain: "list_all plain_char (base36 v)"
  using b36_digit by (intro base36_chars) blast

lemma callback_value_plain: "list_all plain_char (callback_value a)" "length (callback_value a) \<le> 2"
  by (cases a; simp add: plain_char_def code_def)+

lemma callback_of_value [simp]: "callback_of (callback_value a) = Some a"
  by (cases a) (simp_all add: callback_of_def callback_actions_def)

lemma callback_of_Some: "callback_of s = Some a \<Longrightarrow> callback_value a = s"
  by (auto simp: callback_of_def dest: find_SomeD)

lemma digit_plain: "is_digit c \<Longrightarrow> plain_char c"
  by (auto simp: is_digit_def plain_char_def code_def)


lemma str_int_plain: "list_all plain_char (str_int i)"
proof -
  have "list_all plain_char (digits_of n)" for n
    using digits_of_digits [of n] by (rule list.pred_mono_strong) (simp add: digit_plain)
  then show ?thesis by (simp add: str_int_def plain_char_def code_def)
qed

lemma length_digits_of: "n < 10 ^ Suc w \<Longrightarrow> length (digits_of n) \<le> Suc w"
proof (induction w arbitrary: n)
  case 0
  then show ?case by (simp add: digits_of.simps [of n])
next
  case (Suc w)
  then have "n div 10 < 10 ^ Suc w" by (simp add: div_less_iff_less_mult mult.commute)
  from Suc.IH [OF this] show ?case by (subst digits_of.simps) simp
qed

lemma plain_no: "list_all plain_char a \<Longrightarrow> CHR ''.'' \<notin> set a \<and> CHR ''~'' \<notin> set a"
  by (auto simp: list_all_iff plain_char_def)

lemma plain_ascii: "list_all plain_char a \<Longrightarrow> isascii a"
  by (auto simp: list_all_iff plain_char_def isascii_def)

lemma isascii_append [simp]: "isascii (a @ b) = (isascii a \<and> isascii b)"
  by (auto simp: isascii_def)

lemma isascii_dot [simp]: "isascii (CHR ''.'' # b) = isascii b"
  by (simp add: isascii_def code_def)


section \<open>Encoding and decoding\<close>

text \<open>What a caller passes: an entity exactly for the actions that need one, a page only where pages are read.\<close>

definition token_shape :: "callback_action \<Rightarrow> uuid option \<Rightarrow> int option \<Rightarrow> bool" where
  "token_shape a entity page = ((entity \<noteq> None) = (a \<in> entity_actions) \<and> (page \<noteq> None \<longrightarrow> a \<in> paged_actions)
     \<and> (\<forall>p. page = Some p \<longrightarrow> 0 \<le> p \<and> p \<le> max_callback_page))"

lemma decode_page_base36: "0 \<le> p \<Longrightarrow> p \<le> max_callback_page \<Longrightarrow> decode_page (Some (base36 (nat p))) = Inr (Some p)"
  by (simp add: decode_page_def from_base36_def)

lemma entity_dash: "encode_uuid u \<noteq> ''-''"
proof
  assume "encode_uuid u = ''-''"
  then have "length (encode_uuid u) = length ''-''" by (rule arg_cong)
  then show False by simp
qed

lemma entity_part_plain: "list_all plain_char (case entity of None \<Rightarrow> ''-'' | Some u \<Rightarrow> encode_uuid u)"
  by (cases entity) (simp_all add: encode_uuid_plain plain_char_def code_def)

lemma entity_part_decodes:
  "(if (case entity of None \<Rightarrow> ''-'' | Some u \<Rightarrow> encode_uuid u) = ''-'' then Inr None
    else res_bind (decode_uuid (case entity of None \<Rightarrow> ''-'' | Some u \<Rightarrow> encode_uuid u)) (\<lambda>u. Inr (Some u))) = Inr entity"
  by (cases entity) (simp_all add: entity_dash)

lemma entity_text_parts:
  "partition_tilde (entity_text entity page)
    = (case entity of None \<Rightarrow> ''-'' | Some u \<Rightarrow> encode_uuid u, map_option (\<lambda>p. base36 (nat p)) page)"
  by (cases page) (simp_all add: entity_text_def Let_def partition_plain partition_page entity_part_plain)

lemma token_chars:
  "CHR ''.'' \<notin> set (entity_text entity page)" "isascii (entity_text entity page)"
  "CHR ''.'' \<notin> set (str_int i)" "isascii (str_int i)"
  "CHR ''.'' \<notin> set (callback_value a)" "isascii (callback_value a)"
  "CHR ''.'' \<notin> set (base36 v)" "isascii (base36 v)"
  "CHR ''.'' \<notin> set (signature k t body)" "isascii (signature k t body)"
  using plain_no [OF entity_part_plain [of entity]] plain_ascii [OF entity_part_plain [of entity]]
    plain_no [OF str_int_plain [of i]] plain_ascii [OF str_int_plain [of i]]
    plain_no [OF callback_value_plain(1) [of a]] plain_ascii [OF callback_value_plain(1) [of a]]
    plain_no [OF base36_plain] plain_ascii [OF base36_plain]
    plain_no [OF signature_plain] plain_ascii [OF signature_plain]
  by (auto simp: entity_text_def Let_def isascii_def code_def split: option.split)

lemma length_entity_text:
  assumes "token_shape a entity page"
  shows "length (entity_text entity page) \<le> 26"
proof -
  have "length (case entity of None \<Rightarrow> ''-'' | Some u \<Rightarrow> encode_uuid u) \<le> 22" by (cases entity) simp_all
  moreover have "length (base36 (nat p)) \<le> 3" if "page = Some p" for p
    using assms that by (intro base36_length) (auto simp: token_shape_def max_callback_page_def)
  ultimately show ?thesis by (cases page) (fastforce simp: entity_text_def Let_def)+
qed

lemma decode_parts_encoded:
  assumes "token_shape a entity page"
  shows "decode_parts later (callback_value a) (entity_text entity page) (base36 expires)
    = (if int expires \<le> unix_seconds later then Inl (token_error ''Callback token has expired'')
       else Inr \<lparr>ct_action = a, ct_entity_id = entity, ct_page = page\<rparr>)"
proof -
  have page: "decode_page (map_option (\<lambda>p. base36 (nat p)) page) = Inr page"
    using assms by (cases page) (auto simp: token_shape_def decode_page_base36 decode_page_def [of None])
  show ?thesis using assms
    by (auto simp: decode_parts_def entity_text_parts page entity_part_decodes from_base36_def token_shape_def)
qed

lemma length_str_int: "0 \<le> i \<Longrightarrow> i < 10 ^ Suc w \<Longrightarrow> length (str_int i) \<le> Suc w"
  by (simp add: str_int_def length_digits_of nat_less_iff del: power_Suc)

lemma encode_decode:
  fixes now :: instant
  defines "expires k \<equiv> unix_seconds now + cc_expiry_seconds k"
  assumes k: "0 \<le> cc_version k" "cc_version k < 10 ^ 9" and e: "0 \<le> expires k" "expires k < 36 ^ 8"
    and shape: "token_shape a entity page"
  obtains token where "encode_callback k now t a entity page = Inr token" "length (utf8 token) \<le> max_callback_bytes"
    "decode_callback k later t token = (if expires k \<le> unix_seconds later then Inl (token_error ''Callback token has expired'')
       else Inr \<lparr>ct_action = a, ct_entity_id = entity, ct_page = page\<rparr>)"
proof -
  define x where "x = nat (expires k)"
  define body where "body = token_body k a (entity_text entity page) x"
  define token where "token = body @ ''.'' @ signature k t body"
  have pg: "\<not> (\<exists>p. page = Some p \<and> \<not> (0 \<le> p \<and> p \<le> max_callback_page))" using shape by (auto simp: token_shape_def)
  have ascii: "isascii token" by (simp add: token_def body_def token_body_def token_chars)
  have "length (str_int (cc_version k)) \<le> 9" using length_str_int [of "cc_version k" 8] k by simp
  moreover have "x < 36 ^ 8" using e by (simp add: x_def nat_less_iff)
  then have "length (base36 x) \<le> 8" by (rule base36_length) simp
  ultimately have len: "length token \<le> 64"
    using length_entity_text [OF shape] callback_value_plain(2) [of a] by (simp add: token_def body_def token_body_def)
  have enc: "encode_callback k now t a entity page = Inr token"
    unfolding encode_callback_def if_not_P [OF pg]
    using len utf8_ascii_length [OF ascii]
    by (simp add: Let_def expires_def [symmetric] x_def [symmetric] body_def [symmetric] token_def [symmetric] max_callback_bytes_def del: append.simps)
  have split: "split_char CHR ''.'' token
      = [str_int (cc_version k), callback_value a, entity_text entity page, base36 x, signature k t body]"
    by (simp add: token_def body_def token_body_def split_char_def split_part split_last token_chars)
  have join: "join ''.'' [str_int (cc_version k), callback_value a, entity_text entity page, base36 x] = body"
    by (simp add: body_def token_body_def)
  have dec: "decode_callback k later t token = decode_parts later (callback_value a) (entity_text entity page) (base36 x)"
    using len utf8_ascii_length [OF ascii] ascii by (simp add: decode_callback_def split join max_callback_bytes_def del: join.simps)
  show thesis
  proof (rule that [OF enc])
    show "length (utf8 token) \<le> max_callback_bytes" using len utf8_ascii_length [OF ascii] by (simp add: max_callback_bytes_def)
    show "decode_callback k later t token = (if expires k \<le> unix_seconds later then Inl (token_error ''Callback token has expired'')
       else Inr \<lparr>ct_action = a, ct_entity_id = entity, ct_page = page\<rparr>)"
      unfolding dec decode_parts_encoded [OF shape] using e by (simp add: x_def)
  qed
qed


text \<open>C24. A callback token round-trips: for a version below a billion and an expiry below
  36^8, encoding an action with the entity and the page its kind allows succeeds, the token fits
  Telegram's 64 bytes, and decoding it for the same tenant at any later clock gives back the action, the
  entity and the page until the token's expiry, and the expiry error from then on.\<close>

theorem callback_roundtrip:
  assumes "0 \<le> cc_version k" "cc_version k < 10 ^ 9"
    and "0 \<le> unix_seconds now + cc_expiry_seconds k" "unix_seconds now + cc_expiry_seconds k < 36 ^ 8"
    and "token_shape a entity page"
  shows "\<exists>token. encode_callback k now t a entity page = Inr token \<and> length (utf8 token) \<le> max_callback_bytes
    \<and> decode_callback k later t token
      = (if unix_seconds now + cc_expiry_seconds k \<le> unix_seconds later then Inl (token_error ''Callback token has expired'')
         else Inr \<lparr>ct_action = a, ct_entity_id = entity, ct_page = page\<rparr>)"
  using encode_decode [OF assms, of t later thesis for thesis] by blast

definition sample_codec :: codec where
  "sample_codec = \<lparr>cc_signing_key = ''secret'', cc_version = 1, cc_expiry_seconds = 600\<rparr>"

theorem callback_roundtrip_witness:
  "\<exists>token. encode_callback sample_codec 1700000000000000 (TenantId 1) CB_BOOK_SLOT (Some 7) (Some 605) = Inr token
    \<and> length (utf8 token) \<le> max_callback_bytes
    \<and> decode_callback sample_codec 1700000060000000 (TenantId 1) token
      = Inr \<lparr>ct_action = CB_BOOK_SLOT, ct_entity_id = Some 7, ct_page = Some 605\<rparr>"
  using callback_roundtrip [of sample_codec 1700000000000000 CB_BOOK_SLOT "Some 7" "Some 605" "TenantId 1" 1700000060000000]
  by (simp add: sample_codec_def unix_seconds_def second_us_def token_shape_def entity_actions_def paged_actions_def max_callback_page_def)

section \<open>What a decoded token guarantees\<close>

lemma split_char_join: "split_char sep s = parts \<Longrightarrow> join [sep] parts = s"
proof -
  have "split_char_acc sep w s \<noteq> [] \<and> join [sep] (split_char_acc sep w s) = w @ s" for w
  proof (induction s arbitrary: w)
    case Nil
    show ?case by simp
  next
    case (Cons c s)
    obtain h r where r: "split_char_acc sep [] s = h # r" using Cons.IH [of "[]"] by (cases "split_char_acc sep [] s") auto
    show ?case using Cons.IH [of "[]"] Cons.IH [of "w @ [c]"] r by simp
  qed
  then show "split_char sep s = parts \<Longrightarrow> join [sep] parts = s" by (auto simp: split_char_def)
qed

text \<open>The token has the codec's version, an action, an unexpired expiry, and the tenant's signature over them.\<close>

definition signed_for :: "codec \<Rightarrow> tenant_id \<Rightarrow> instant \<Rightarrow> callback_action \<Rightarrow> string \<Rightarrow> bool" where
  "signed_for k t now a s = (\<exists>ent expiry n.
     s = (let body = str_int (cc_version k) @ ''.'' @ callback_value a @ ''.'' @ ent @ ''.'' @ expiry in body @ ''.'' @ signature k t body)
     \<and> int36 expiry = Some n \<and> unix_seconds now < n)"

lemma decode_parts_shape:
  assumes "decode_parts now a_text ent expiry = Inr tok"
  shows "callback_value (ct_action tok) = a_text" "\<exists>n. int36 expiry = Some n \<and> unix_seconds now < n"
    "token_shape (ct_action tok) (ct_entity_id tok) (ct_page tok)"
  using assms
  by (auto simp: decode_parts_def decode_page_def from_base36_def token_shape_def res_bind_def callback_of_Some
      split: option.splits sum.splits prod.splits if_splits)

lemma decode_callback_parts:
  assumes "decode_callback k now t s = Inr tok"
  obtains a_text ent expiry where "length (utf8 s) \<le> max_callback_bytes"
    "s = (let body = str_int (cc_version k) @ ''.'' @ a_text @ ''.'' @ ent @ ''.'' @ expiry in body @ ''.'' @ signature k t body)"
    "decode_parts now a_text ent expiry = Inr tok"
proof -
  obtain v a_text ent expiry sig where parts: "split_char CHR ''.'' s = [v, a_text, ent, expiry, sig]"
    and v: "v = str_int (cc_version k)" and sig: "sig = signature k t (join ''.'' [v, a_text, ent, expiry])"
    and d: "decode_parts now a_text ent expiry = Inr tok" and l: "length (utf8 s) \<le> max_callback_bytes"
    using assms unfolding decode_callback_def by (auto split: list.splits if_splits)
  show thesis using that [OF l _ d] split_char_join [OF parts] by (simp add: Let_def v sig)
qed

text \<open>C25. A token that decodes is authentic and well formed: it is at most 64 bytes, its text is
  the version, the action's code, the entity and the expiry followed by this tenant's signature over
  exactly that text, its expiry is in the future, it carries an entity precisely when its action is
  one of the entity actions, and a page only for a paged action and within 0..46655.\<close>

theorem callback_decode_sound:
  assumes "decode_callback k now t s = Inr tok"
  shows "length (utf8 s) \<le> max_callback_bytes \<and> signed_for k t now (ct_action tok) s
    \<and> token_shape (ct_action tok) (ct_entity_id tok) (ct_page tok)"
proof -
  obtain a_text ent expiry where l: "length (utf8 s) \<le> max_callback_bytes"
    and s: "s = (let body = str_int (cc_version k) @ ''.'' @ a_text @ ''.'' @ ent @ ''.'' @ expiry in body @ ''.'' @ signature k t body)"
    and d: "decode_parts now a_text ent expiry = Inr tok"
    using assms by (rule decode_callback_parts)
  show ?thesis using l s decode_parts_shape [OF d] unfolding signed_for_def by blast
qed

theorem callback_decode_sound_witness:
  "\<exists>token tok. decode_callback sample_codec 1700000060000000 (TenantId 1) token = Inr tok
    \<and> tok = \<lparr>ct_action = CB_SERVICE, ct_entity_id = Some 7, ct_page = None\<rparr>
    \<and> signed_for sample_codec (TenantId 1) 1700000060000000 CB_SERVICE token"
proof -
  have shape: "token_shape CB_SERVICE (Some 7) None" by (simp add: token_shape_def entity_actions_def)
  obtain token where "decode_callback sample_codec 1700000060000000 (TenantId 1) token
      = Inr \<lparr>ct_action = CB_SERVICE, ct_entity_id = Some 7, ct_page = None\<rparr>"
    using encode_decode [of sample_codec 1700000000000000 CB_SERVICE "Some 7" None "TenantId 1" 1700000060000000, OF _ _ _ _ shape]
    by (fastforce simp: sample_codec_def unix_seconds_def second_us_def)
  with callback_decode_sound [OF this] show ?thesis by fastforce
qed

end
