(* ===== verification/TelegramStore.thy ===== *)
theory TelegramStore
  imports Tables ScheduleQueries
begin

text \<open>
  Telegram identities and updates: the adapters of \<open>infrastructure/persistence/telegram.py\<close>, the
  use case of \<open>application/telegram/identity.py\<close> and the middleware of
  \<open>presentation/telegram/middleware.py\<close> that claims an update before its handler runs and settles
  it afterwards. A store method is one transaction on \<open>telegram_db\<close>; the values of \<open>uuid4()\<close>, of the
  application's clock and of the database clock are arguments. The advisory lock of \<open>resolve\<close> and
  the row lock of \<open>claim\<close> make each of them one atomic step. Logging and metrics are not modelled.
\<close>

section \<open>Models (application/telegram/models.py)\<close>

record telegram_bot_binding =
  tb_bot_id :: int
  tb_tenant_id :: tenant_id

definition bot_binding_post_init :: "telegram_bot_binding \<Rightarrow> telegram_bot_binding res" where [ctor_defs]:
  "bot_binding_post_init b =
     (if tb_bot_id b \<le> 0 then Inl (ValueError ''Telegram bot ID must be positive'') else Inr b)"

datatype claim_result = CL_FIRST | CL_RETRY | CL_DUPLICATE | CL_IN_PROGRESS

fun claim_result_value :: "claim_result \<Rightarrow> string" where
  "claim_result_value CL_FIRST = ''first''"
| "claim_result_value CL_RETRY = ''retry''"
| "claim_result_value CL_DUPLICATE = ''duplicate''"
| "claim_result_value CL_IN_PROGRESS = ''in_progress''"

record telegram_update_claim =
  uc_result :: claim_result
  uc_attempts :: int
  uc_claimed_at :: instant

section \<open>Rows\<close>

record telegram_tenant_row =
  tt_id :: tenant_id
  tt_status :: tenant_status
  tt_default_locale :: string
  tt_supported_locales :: "string list"

datatype customer_row_status = CR_ACTIVE | CR_BLOCKED | CR_ANONYMIZED

record customer_row =
  cm_id :: customer_id
  cm_tenant_id :: tenant_id
  cm_display_name :: "string option"
  cm_phone_raw :: "string option"
  cm_phone_e164 :: "string option"
  cm_phone_verified :: bool
  cm_email :: "string option"
  cm_locale :: string
  cm_privacy_notice_version :: "string option"
  cm_privacy_accepted_at :: "instant option"
  cm_contact_consent_at :: "instant option"
  cm_status :: customer_row_status

record channel_identity_row =
  ci_id :: uuid
  ci_tenant_id :: tenant_id
  ci_customer_id :: customer_id
  ci_channel :: string
  ci_external_user_id :: string
  ci_external_chat_id :: string

text \<open>The columns of \<open>conversations\<close> the identity store reads and writes, beside those of the shared row.\<close>

record telegram_conversation_row = conversation_row +
  cw_channel_identity_id :: "uuid option"
  cw_locale :: string
  cw_last_message_at :: "instant option"
  cw_summary_version :: int
  cw_created_at :: instant

datatype update_status = U_PROCESSING | U_COMPLETED | U_FAILED

record telegram_update_row =
  tu_tenant_id :: tenant_id
  tu_bot_id :: int
  tu_update_id :: int
  tu_status :: update_status
  tu_attempts :: int
  tu_claimed_at :: instant
  tu_completed_at :: "instant option"
  tu_last_error_code :: "string option"
  tu_created_at :: instant

record telegram_db =
  td_tenants :: "telegram_tenant_row list"
  td_customers :: "customer_row list"
  td_identities :: "channel_identity_row list"
  td_conversations :: "telegram_conversation_row list"
  td_updates :: "telegram_update_row list"

section \<open>Identities (SQLAlchemyTelegramIdentityStore)\<close>

text \<open>The three values of \<open>uuid4()\<close> a call of \<open>resolve\<close> may draw.\<close>

record new_ids =
  id_customer :: uuid
  id_identity :: uuid
  id_conversation :: uuid

text \<open>\<open>Locale(value)\<close>\<close>

definition locale_from :: "string \<Rightarrow> locale_t res" where
  "locale_from s = (case locale_of s of None \<Rightarrow> Inl (ValueError (CHR 0x27 # s @ CHR 0x27 # '' is not a valid Locale''))
     | Some l \<Rightarrow> Inr l)"

definition supported_set :: "string list \<Rightarrow> locale_t set res" where
  "supported_set values = res_bind (res_map locale_from values) (\<lambda>ls. Inr (set ls))"

definition tenant_locale :: "telegram_tenant_row \<Rightarrow> string option \<Rightarrow> locale_t res" where
  "tenant_locale tenant requested =
     res_bind (supported_set (tt_supported_locales tenant)) (\<lambda>supported.
     res_bind (locale_from (tt_default_locale tenant)) (\<lambda>default_locale.
     first_candidate (locale_candidates requested default_locale supported)))"

definition new_customer :: "uuid \<Rightarrow> tenant_id \<Rightarrow> locale_t \<Rightarrow> customer_row" where
  "new_customer u t locale = \<lparr>cm_id = CustomerId u, cm_tenant_id = t, cm_display_name = None, cm_phone_raw = None,
     cm_phone_e164 = None, cm_phone_verified = False, cm_email = None, cm_locale = locale_value locale,
     cm_privacy_notice_version = None, cm_privacy_accepted_at = None, cm_contact_consent_at = None,
     cm_status = CR_ACTIVE\<rparr>"

definition identity_matches :: "tenant_id \<Rightarrow> string \<Rightarrow> channel_identity_row \<Rightarrow> bool" where
  "identity_matches t user r = (ci_tenant_id r = t \<and> ci_channel r = ''telegram'' \<and> ci_external_user_id r = user)"

text \<open>The identity of the user: the stored one with its chat brought up to date, or a new one with a new customer.\<close>

definition identity_for ::
  "new_ids \<Rightarrow> tenant_id \<Rightarrow> string \<Rightarrow> string \<Rightarrow> locale_t \<Rightarrow> (telegram_db, channel_identity_row) tx" where
  "identity_for ids t user chat locale db =
     (case find (identity_matches t user) (td_identities db) of
        None \<Rightarrow>
          let customer = new_customer (id_customer ids) t locale;
              identity = \<lparr>ci_id = id_identity ids, ci_tenant_id = t, ci_customer_id = cm_id customer,
                ci_channel = ''telegram'', ci_external_user_id = user, ci_external_chat_id = chat\<rparr> in
          if cm_id customer \<in> cm_id ` set (td_customers db) \<or> ci_id identity \<in> ci_id ` set (td_identities db)
          then Inl integrity_error
          else Inr (db\<lparr>td_customers := td_customers db @ [customer], td_identities := td_identities db @ [identity]\<rparr>, identity)
      | Some identity \<Rightarrow>
          Inr (if ci_external_chat_id identity \<noteq> chat
               then (db\<lparr>td_identities := map (\<lambda>r. if ci_id r = ci_id identity then r\<lparr>ci_external_chat_id := chat\<rparr> else r)
                     (td_identities db)\<rparr>, identity\<lparr>ci_external_chat_id := chat\<rparr>)
               else (db, identity)))"

definition open_conversation :: "tenant_id \<Rightarrow> uuid \<Rightarrow> telegram_conversation_row \<Rightarrow> bool" where
  "open_conversation t identity r = (cw_tenant_id r = t \<and> cw_channel_identity_id r = Some identity \<and> cw_status r \<noteq> C_CLOSED)"

text \<open>\<open>order_by(created_at.desc()).limit(1)\<close>\<close>

definition newest_conversation :: "telegram_conversation_row list \<Rightarrow> telegram_conversation_row option" where
  "newest_conversation rows = (case rows of [] \<Rightarrow> None | r # rs \<Rightarrow> Some (max_by cw_created_at r rs))"

definition conversation_for ::
  "new_ids \<Rightarrow> tenant_id \<Rightarrow> channel_identity_row \<Rightarrow> locale_t \<Rightarrow> instant \<Rightarrow> instant \<Rightarrow> (telegram_db, conversation_id) tx" where
  "conversation_for ids t identity locale now db_now db =
     (case newest_conversation (filter (open_conversation t (ci_id identity)) (td_conversations db)) of
        None \<Rightarrow>
          let conversation = \<lparr>cw_id = ConversationId (id_conversation ids), cw_tenant_id = t,
                cw_customer_id = ci_customer_id identity, cw_status = ACTIVE_BOT, cw_active_workflow = None,
                cw_channel_identity_id = Some (ci_id identity), cw_locale = locale_value locale,
                cw_last_message_at = Some now, cw_summary_version = 0, cw_created_at = db_now\<rparr> in
          if cw_id conversation \<in> cw_id ` set (td_conversations db) then Inl integrity_error
          else Inr (db\<lparr>td_conversations := td_conversations db @ [conversation]\<rparr>, cw_id conversation)
      | Some conversation \<Rightarrow>
          Inr (db\<lparr>td_conversations := map (\<lambda>r. if cw_id r = cw_id conversation then r\<lparr>cw_last_message_at := Some now\<rparr> else r)
                 (td_conversations db)\<rparr>, cw_id conversation))"

definition resolve_identity ::
  "new_ids \<Rightarrow> tenant_id \<Rightarrow> string \<Rightarrow> string \<Rightarrow> string option \<Rightarrow> instant \<Rightarrow> instant \<Rightarrow> (telegram_db, telegram_identity) tx" where
  "resolve_identity ids t user chat requested now db_now db =
     (case find (\<lambda>r. tt_id r = t) (td_tenants db) of
        None \<Rightarrow> Inl TelegramIdentityUnavailableError
      | Some tenant \<Rightarrow>
          if tt_status tenant \<noteq> T_ACTIVE then Inl TelegramIdentityUnavailableError
          else res_bind (tenant_locale tenant requested) (\<lambda>locale.
          res_bind (identity_for ids t user chat locale db) (\<lambda>(db1, identity).
          res_bind (conversation_for ids t identity locale now db_now db1) (\<lambda>(db2, conversation).
          Inr (db2, \<lparr>ti_tenant_id = t, ti_customer_id = ci_customer_id identity,
                ti_conversation_id = conversation, ti_locale = locale\<rparr>)))))"

text \<open>\<open>ResolveTelegramIdentity.execute\<close> (application/telegram/identity.py)\<close>

definition resolve_telegram_identity ::
  "new_ids \<Rightarrow> tenant_id \<Rightarrow> int \<Rightarrow> int \<Rightarrow> string option \<Rightarrow> instant \<Rightarrow> instant \<Rightarrow> (telegram_db, telegram_identity) tx" where
  "resolve_telegram_identity ids t user chat requested now db_now db =
     (if user \<le> 0 then Inl (ValidationError ''Telegram user ID must be positive'')
      else if chat = 0 then Inl (ValidationError ''Telegram chat ID must be nonzero'')
      else resolve_identity ids t (str_int user) (str_int chat) requested now db_now db)"

section \<open>Updates (SQLAlchemyTelegramUpdateStore)\<close>

type_synonym update_key = "tenant_id \<times> int \<times> int"

definition update_key :: "telegram_update_row \<Rightarrow> update_key" where
  "update_key r = (tu_tenant_id r, tu_bot_id r, tu_update_id r)"

definition new_update :: "update_key \<Rightarrow> instant \<Rightarrow> instant \<Rightarrow> telegram_update_row" where
  "new_update k now db_now = (case k of (t, b, u) \<Rightarrow>
     \<lparr>tu_tenant_id = t, tu_bot_id = b, tu_update_id = u, tu_status = U_PROCESSING, tu_attempts = 1,
      tu_claimed_at = now, tu_completed_at = None, tu_last_error_code = None, tu_created_at = db_now\<rparr>)"

definition put_update :: "update_key \<Rightarrow> (telegram_update_row \<Rightarrow> telegram_update_row) \<Rightarrow> telegram_db \<Rightarrow> telegram_db" where
  "put_update k f db = db\<lparr>td_updates := map (\<lambda>r. if update_key r = k then f r else r) (td_updates db)\<rparr>"

definition reclaimed :: "instant \<Rightarrow> telegram_update_row \<Rightarrow> telegram_update_row" where
  "reclaimed now r = r\<lparr>tu_status := U_PROCESSING, tu_attempts := tu_attempts r + 1, tu_claimed_at := now,
     tu_completed_at := None, tu_last_error_code := None\<rparr>"

text \<open>
  The checks of the table hold for the row to insert before its key is looked up. The row that
  conflicted is there when it is read again, since nothing else runs in between.
\<close>

definition claim_update ::
  "update_key \<Rightarrow> instant \<Rightarrow> instant \<Rightarrow> int \<Rightarrow> (telegram_db, telegram_update_claim) tx" where
  "claim_update k now db_now stale_after db =
     (if \<not> (0 < fst (snd k) \<and> 0 \<le> snd (snd k)) then Inl integrity_error
      else if \<not> list_ex (\<lambda>r. update_key r = k) (td_updates db)
      then Inr (db\<lparr>td_updates := td_updates db @ [new_update k now db_now]\<rparr>,
            \<lparr>uc_result = CL_FIRST, uc_attempts = 1, uc_claimed_at = now\<rparr>)
      else case find (\<lambda>r. update_key r = k) (td_updates db) of
        None \<Rightarrow> Inl (RuntimeError ''Telegram update claim disappeared'')
      | Some r \<Rightarrow>
          if tu_status r = U_COMPLETED
          then Inr (db, \<lparr>uc_result = CL_DUPLICATE, uc_attempts = tu_attempts r, uc_claimed_at = tu_claimed_at r\<rparr>)
          else if tu_status r = U_PROCESSING \<and> now - stale_after * second_us < tu_claimed_at r
          then Inr (db, \<lparr>uc_result = CL_IN_PROGRESS, uc_attempts = tu_attempts r, uc_claimed_at = tu_claimed_at r\<rparr>)
          else Inr (put_update k (reclaimed now) db,
                \<lparr>uc_result = CL_RETRY, uc_attempts = tu_attempts r + 1, uc_claimed_at = now\<rparr>))"

definition completed_update :: "instant \<Rightarrow> telegram_update_row \<Rightarrow> telegram_update_row" where
  "completed_update now r = (if tu_status r = U_PROCESSING
     then r\<lparr>tu_status := U_COMPLETED, tu_completed_at := Some now, tu_last_error_code := None\<rparr> else r)"

definition complete_update :: "update_key \<Rightarrow> instant \<Rightarrow> telegram_db \<Rightarrow> telegram_db" where
  "complete_update k now db = put_update k (completed_update now) db"

definition safe_code :: "string \<Rightarrow> string" where
  "safe_code error_code = (if isascii error_code \<and> length error_code \<le> 64 then error_code else ''internal.error'')"

definition failed_update :: "instant \<Rightarrow> string \<Rightarrow> telegram_update_row \<Rightarrow> telegram_update_row" where
  "failed_update now error_code r = (if tu_status r = U_PROCESSING
     then r\<lparr>tu_status := U_FAILED, tu_completed_at := Some now, tu_last_error_code := Some (safe_code error_code)\<rparr> else r)"

definition fail_update :: "update_key \<Rightarrow> instant \<Rightarrow> string \<Rightarrow> telegram_db \<Rightarrow> telegram_db" where
  "fail_update k now error_code db = put_update k (failed_update now error_code) db"

definition update_expired :: "instant \<Rightarrow> telegram_update_row \<Rightarrow> bool" where
  "update_expired before r = ((tu_status r = U_COMPLETED \<or> tu_status r = U_FAILED) \<and> tu_created_at r < before)"

definition delete_completed_before :: "instant \<Rightarrow> telegram_db \<Rightarrow> telegram_db \<times> int" where
  "delete_completed_before before db =
     (db\<lparr>td_updates := filter (\<lambda>r. \<not> update_expired before r) (td_updates db)\<rparr>,
      int (length (filter (update_expired before) (td_updates db))))"

section \<open>The middleware (UpdateDeduplicationMiddleware)\<close>

text \<open>
  The code of the exception a handler raised: of an \<open>ApplicationError\<close> its own. The state \<open>'w\<close> is
  everything the handler may change; it cannot touch the update table, so the two are kept apart.
\<close>

definition handler_error_code :: "exc \<Rightarrow> string" where
  "handler_error_code e = (case application_error e of Some (error_code, _) \<Rightarrow> error_code | None \<Rightarrow> ''internal.error'')"

text \<open>The instants a call reads: of the claim (application and database clock) and of the settlement.\<close>

record call_times =
  tc_now :: instant
  tc_db_now :: instant
  tc_end :: instant

text \<open>The port \<open>TelegramUpdateStore\<close> the middleware is given (application/telegram/ports.py).\<close>

record 'd update_store =
  us_claim :: "update_key \<Rightarrow> instant \<Rightarrow> instant \<Rightarrow> int \<Rightarrow> ('d, telegram_update_claim) tx"
  us_complete :: "update_key \<Rightarrow> instant \<Rightarrow> 'd \<Rightarrow> 'd"
  us_fail :: "update_key \<Rightarrow> instant \<Rightarrow> string \<Rightarrow> 'd \<Rightarrow> 'd"

definition telegram_updates :: "telegram_db update_store" where
  "telegram_updates = \<lparr>us_claim = claim_update, us_complete = complete_update, us_fail = fail_update\<rparr>"

definition process_update ::
  "'d update_store \<Rightarrow> telegram_bot_binding \<Rightarrow> int \<Rightarrow> ('w \<Rightarrow> 'w \<times> unit res) \<Rightarrow> int option \<Rightarrow> int \<Rightarrow> bool
   \<Rightarrow> call_times \<Rightarrow> ('d \<times> 'w, string) act" where
  "process_update store binding stale_after handler bot_id update_id known time d =
     (let k = (tb_tenant_id binding, tb_bot_id binding, update_id) in
      if bot_id \<noteq> Some (tb_bot_id binding)
      then (d, Inl (RuntimeError ''Configured Telegram bot does not match the trusted binding''))
      else case run_tx (us_claim store k (tc_now time) (tc_db_now time) stale_after) (fst d) of
        (db, Inl e) \<Rightarrow> ((db, snd d), Inl e)
      | (db, Inr claim) \<Rightarrow>
          if uc_result claim = CL_DUPLICATE \<or> uc_result claim = CL_IN_PROGRESS
          then ((db, snd d), Inr (claim_result_value (uc_result claim)))
          else if \<not> known then ((us_complete store k (tc_end time) db, snd d), Inr ''processed'')
          else case handler (snd d) of
            (w, Inl e) \<Rightarrow>
              ((if is_Exception e then us_fail store k (tc_end time) (handler_error_code e) db else db, w), Inl e)
          | (w, Inr _) \<Rightarrow> ((us_complete store k (tc_end time) db, w), Inr ''processed''))"

end
