(* ===== verification/TelegramFacts.thy ===== *)
theory TelegramFacts
  imports TelegramStore
begin

text \<open>
  Telegram updates and identities: however often an update is delivered its handler takes effect
  once, an update in work or done is not handed out again, and a user keeps one customer and one
  open conversation.
\<close>

section \<open>The rows of the update table\<close>

definition updates_ok :: "telegram_db \<Rightarrow> bool" where
  "updates_ok db = distinct (map update_key (td_updates db))"

definition key_ok :: "update_key \<Rightarrow> bool" where
  "key_ok k = (0 < fst (snd k) \<and> 0 \<le> snd (snd k))"

definition update_row_of :: "update_key \<Rightarrow> telegram_db \<Rightarrow> telegram_update_row option" where
  "update_row_of k db = find (\<lambda>r. update_key r = k) (td_updates db)"

definition keeps_key :: "(telegram_update_row \<Rightarrow> telegram_update_row) \<Rightarrow> bool" where
  "keeps_key f = (\<forall>r. update_key (f r) = update_key r)"

lemma settling_keeps_key [simp]:
  "keeps_key (reclaimed now)" "keeps_key (completed_update now)" "keeps_key (failed_update now error_code)"
  by (simp_all add: keeps_key_def update_key_def reclaimed_def completed_update_def failed_update_def)

lemma find_put: "keeps_key f \<Longrightarrow> find (\<lambda>r. update_key r = k) (map (\<lambda>r. if update_key r = j then f r else r) rs)
    = map_option (\<lambda>r. if k = j then f r else r) (find (\<lambda>r. update_key r = k) rs)"
  by (induction rs) (auto simp: keeps_key_def)

lemma put_row: "keeps_key f \<Longrightarrow> update_row_of k (put_update j f db) = map_option (\<lambda>r. if k = j then f r else r) (update_row_of k db)"
  by (simp add: update_row_of_def put_update_def find_put)

lemma put_ok: "keeps_key f \<Longrightarrow> updates_ok (put_update k f db) = updates_ok db"
proof -
  assume f: "keeps_key f"
  have "map update_key (map (\<lambda>r. if update_key r = k then f r else r) rs) = map update_key rs" for rs
    using f by (induction rs) (auto simp: keeps_key_def)
  then show ?thesis by (simp add: updates_ok_def put_update_def del: map_map)
qed

lemma row_key: "update_row_of k db = Some r \<Longrightarrow> update_key r = k \<and> r \<in> set (td_updates db)"
  unfolding update_row_of_def by (drule find_SomeD) simp

lemma row_absent: "(update_row_of k db = None) = (\<not> list_ex (\<lambda>r. update_key r = k) (td_updates db))"
  by (auto simp: update_row_of_def find_None_iff list_ex_iff)

lemma row_unique: "updates_ok db \<Longrightarrow> r \<in> set (td_updates db) \<Longrightarrow> update_row_of (update_key r) db = Some r"
proof -
  have "distinct (map update_key rs) \<Longrightarrow> r \<in> set rs \<Longrightarrow> find (\<lambda>x. update_key x = update_key r) rs = Some r" for rs
    by (induction rs) (auto simp: image_iff)
  then show "updates_ok db \<Longrightarrow> r \<in> set (td_updates db) \<Longrightarrow> update_row_of (update_key r) db = Some r"
    by (simp add: updates_ok_def update_row_of_def)
qed

text \<open>What a claim does in each state of the row.\<close>

definition granted :: "telegram_update_claim \<Rightarrow> bool" where
  "granted c = (uc_result c = CL_FIRST \<or> uc_result c = CL_RETRY)"

definition busy :: "int \<Rightarrow> instant \<Rightarrow> telegram_update_row \<Rightarrow> bool" where
  "busy stale_after now r = (tu_status r = U_PROCESSING \<and> now - stale_after * second_us < tu_claimed_at r)"

lemma claim_new:
  assumes "key_ok k" and "update_row_of k db = None"
  shows "claim_update k now db_now stale_after db = Inr (db\<lparr>td_updates := td_updates db @ [new_update k now db_now]\<rparr>,
    \<lparr>uc_result = CL_FIRST, uc_attempts = 1, uc_claimed_at = now\<rparr>)"
  using assms by (simp add: claim_update_def key_ok_def row_absent)

lemma claim_row:
  assumes "key_ok k" and "update_row_of k db = Some r"
  shows "claim_update k now db_now stale_after db =
    (if tu_status r = U_COMPLETED
     then Inr (db, \<lparr>uc_result = CL_DUPLICATE, uc_attempts = tu_attempts r, uc_claimed_at = tu_claimed_at r\<rparr>)
     else if busy stale_after now r
     then Inr (db, \<lparr>uc_result = CL_IN_PROGRESS, uc_attempts = tu_attempts r, uc_claimed_at = tu_claimed_at r\<rparr>)
     else Inr (put_update k (reclaimed now) db, \<lparr>uc_result = CL_RETRY, uc_attempts = tu_attempts r + 1, uc_claimed_at = now\<rparr>))"
proof -
  have "list_ex (\<lambda>r. update_key r = k) (td_updates db)" using row_key [OF assms(2)] by (auto simp: list_ex_iff)
  then show ?thesis using assms by (simp add: claim_update_def key_ok_def busy_def update_row_of_def)
qed

lemma claim_refused: "\<not> key_ok k \<Longrightarrow> claim_update k now db_now stale_after db = Inl integrity_error"
  by (auto simp: claim_update_def key_ok_def)

lemma row_new: "update_row_of j (db\<lparr>td_updates := td_updates db @ [new_update k now db_now]\<rparr>)
    = (case update_row_of j db of Some r \<Rightarrow> Some r | None \<Rightarrow> if j = k then Some (new_update k now db_now) else None)"
proof -
  have "find P (xs @ ys) = (case find P xs of Some x \<Rightarrow> Some x | None \<Rightarrow> find P ys)" for P :: "telegram_update_row \<Rightarrow> bool" and xs ys
    by (induction xs) auto
  then show ?thesis by (auto simp: update_row_of_def new_update_def update_key_def split: option.split prod.split)
qed

lemma new_update_fields [simp]:
  "update_key (new_update k now db_now) = k" "tu_status (new_update k now db_now) = U_PROCESSING"
  "tu_claimed_at (new_update k now db_now) = now"
  by (simp_all add: new_update_def update_key_def split: prod.split)

section \<open>The store as the middleware relies on it\<close>

datatype update_view = NotSeen | Working instant | Failed | Finished

definition row_view :: "telegram_update_row \<Rightarrow> update_view" where
  "row_view r = (case tu_status r of U_PROCESSING \<Rightarrow> Working (tu_claimed_at r) | U_FAILED \<Rightarrow> Failed | U_COMPLETED \<Rightarrow> Finished)"

definition update_view :: "telegram_db \<Rightarrow> update_key \<Rightarrow> update_view" where
  "update_view db k = (case update_row_of k db of None \<Rightarrow> NotSeen | Some r \<Rightarrow> row_view r)"

text \<open>One update delivered again and again, and what that should amount to: the handler runs until it first succeeds.\<close>

fun redeliveries ::
  "'d update_store \<Rightarrow> telegram_bot_binding \<Rightarrow> int \<Rightarrow> ('w \<Rightarrow> 'w \<times> unit res) \<Rightarrow> int \<Rightarrow> call_times list
   \<Rightarrow> 'd \<times> 'w \<Rightarrow> ('d \<times> 'w) \<times> string res list" where
  "redeliveries store b stale_after handler u [] s = (s, [])"
| "redeliveries store b stale_after handler u (time # clock) s =
     (case process_update store b stale_after handler (Some (tb_bot_id b)) u True time s of (s1, r) \<Rightarrow>
      case redeliveries store b stale_after handler u clock s1 of (s2, rs) \<Rightarrow> (s2, r # rs))"

fun handle_once :: "('w \<Rightarrow> 'w \<times> unit res) \<Rightarrow> nat \<Rightarrow> 'w \<Rightarrow> 'w \<times> string res list" where
  "handle_once handler 0 w = (w, [])"
| "handle_once handler (Suc n) w = (case handler w of
     (w1, Inl e) \<Rightarrow> (case handle_once handler n w1 of (w2, rs) \<Rightarrow> (w2, Inl e # rs))
   | (w1, Inr _) \<Rightarrow> (w1, Inr ''processed'' # replicate n (Inr ''duplicate'')))"

locale update_guard =
  fixes store :: "'d update_store"
    and view :: "'d \<Rightarrow> update_key \<Rightarrow> update_view"
    and valid_key :: "update_key \<Rightarrow> bool"
  assumes claim_open: "valid_key k \<Longrightarrow> view d k = NotSeen \<or> view d k = Failed
      \<Longrightarrow> \<exists>d' c. us_claim store k now db_now stale_after d = Inr (d', c) \<and> granted c \<and> view d' = (view d)(k := Working now)"
    and claim_finished: "valid_key k \<Longrightarrow> view d k = Finished
      \<Longrightarrow> \<exists>c. us_claim store k now db_now stale_after d = Inr (d, c) \<and> uc_result c = CL_DUPLICATE"
    and completes: "view d k = Working t \<Longrightarrow> view (us_complete store k now d) = (view d)(k := Finished)"
    and fails: "view d k = Working t \<Longrightarrow> view (us_fail store k now error_code d) = (view d)(k := Failed)"
begin

lemma process_open:
  assumes "valid_key (tb_tenant_id b, tb_bot_id b, u)"
    and "view d (tb_tenant_id b, tb_bot_id b, u) = NotSeen \<or> view d (tb_tenant_id b, tb_bot_id b, u) = Failed"
    and "snd (handler w) \<noteq> Inl CancelledError"
  obtains d' where
    "process_update store b stale_after handler (Some (tb_bot_id b)) u True time (d, w)
      = ((d', fst (handler w)), res_bind (snd (handler w)) (\<lambda>_. Inr ''processed''))"
    "view d' = (view d)((tb_tenant_id b, tb_bot_id b, u) := (case snd (handler w) of Inl _ \<Rightarrow> Failed | Inr _ \<Rightarrow> Finished))"
proof -
  let ?k = "(tb_tenant_id b, tb_bot_id b, u)"
  obtain d1 c where c: "us_claim store ?k (tc_now time) (tc_db_now time) stale_after d = Inr (d1, c)" "granted c"
    and v: "view d1 = (view d)(?k := Working (tc_now time))"
    using claim_open [OF assms(1,2)] by blast
  have w: "view d1 ?k = Working (tc_now time)" using v by simp
  have ne: "uc_result c \<noteq> CL_DUPLICATE" "uc_result c \<noteq> CL_IN_PROGRESS" using c(2) by (auto simp: granted_def)
  obtain w' r where h: "handler w = (w', r)" by (cases "handler w")
  show thesis
  proof (cases r)
    case (Inl e)
    have "is_Exception e" using assms(3) h Inl by (cases e) auto
    then show thesis
      using c h Inl ne v fails [OF w, of "tc_end time" "handler_error_code e"]
      by (intro that [of "us_fail store ?k (tc_end time) (handler_error_code e) d1"])
        (simp_all add: process_update_def Let_def)
  next
    case (Inr x)
    then show thesis
      using c h ne v completes [OF w, of "tc_end time"]
      by (intro that [of "us_complete store ?k (tc_end time) d1"]) (simp_all add: process_update_def Let_def)
  qed
qed

lemma process_finished:
  assumes "valid_key (tb_tenant_id b, tb_bot_id b, u)" and "view d (tb_tenant_id b, tb_bot_id b, u) = Finished"
  shows "process_update store b stale_after handler (Some (tb_bot_id b)) u True time (d, w) = ((d, w), Inr ''duplicate'')"
  using claim_finished [OF assms, of "tc_now time" "tc_db_now time" stale_after]
  by (auto simp: process_update_def Let_def)

lemma redeliveries_finished:
  assumes "valid_key (tb_tenant_id b, tb_bot_id b, u)" and "view d (tb_tenant_id b, tb_bot_id b, u) = Finished"
  shows "redeliveries store b stale_after handler u clock (d, w) = ((d, w), replicate (length clock) (Inr ''duplicate''))"
  by (induction clock) (simp_all add: process_finished [OF assms])

lemma redeliveries_once:
  assumes "valid_key (tb_tenant_id b, tb_bot_id b, u)"
    and "view d (tb_tenant_id b, tb_bot_id b, u) = NotSeen \<or> view d (tb_tenant_id b, tb_bot_id b, u) = Failed"
    and "\<And>w. snd (handler w) \<noteq> Inl CancelledError"
  shows "\<exists>d'. redeliveries store b stale_after handler u clock (d, w)
      = ((d', fst (handle_once handler (length clock) w)), snd (handle_once handler (length clock) w))
    \<and> (\<forall>k. k \<noteq> (tb_tenant_id b, tb_bot_id b, u) \<longrightarrow> view d' k = view d k)"
  using assms(2)
proof (induction clock arbitrary: d w)
  case Nil
  show ?case by auto
next
  case (Cons time clock)
  let ?k = "(tb_tenant_id b, tb_bot_id b, u)"
  obtain d1 where p: "process_update store b stale_after handler (Some (tb_bot_id b)) u True time (d, w)
      = ((d1, fst (handler w)), res_bind (snd (handler w)) (\<lambda>_. Inr ''processed''))"
    and v: "view d1 = (view d)(?k := (case snd (handler w) of Inl _ \<Rightarrow> Failed | Inr _ \<Rightarrow> Finished))"
    by (rule process_open [OF assms(1) Cons.prems assms(3)])
  obtain w1 r where h: "handler w = (w1, r)" by (cases "handler w")
  show ?case
  proof (cases r)
    case (Inl e)
    then have "view d1 ?k = NotSeen \<or> view d1 ?k = Failed" using v h by simp
    from Cons.IH [OF this, of w1] show ?thesis using p v h Inl by (auto split: prod.splits)
  next
    case (Inr x)
    then have "view d1 ?k = Finished" using v h by simp
    then have "redeliveries store b stale_after handler u clock (d1, w1) = ((d1, w1), replicate (length clock) (Inr ''duplicate''))"
      by (rule redeliveries_finished [OF assms(1)])
    then show ?thesis using p v h Inr by auto
  qed
qed

end

lemma view_put: "keeps_key f \<Longrightarrow> update_row_of k db = Some r \<Longrightarrow> update_view (put_update k f db) = (update_view db)(k := row_view (f r))"
  by (auto simp: update_view_def put_row fun_eq_iff split: option.split)

lemma view_working: "update_view db k = Working t \<Longrightarrow> \<exists>r. update_row_of k db = Some r \<and> tu_status r = U_PROCESSING"
  by (auto simp: update_view_def row_view_def split: option.splits update_status.splits)

interpretation guard: update_guard telegram_updates update_view key_ok
proof unfold_locales
  fix k d now db_now stale_after
  assume k: "key_ok k" and v: "update_view d k = NotSeen \<or> update_view d k = Failed"
  show "\<exists>d' c. us_claim telegram_updates k now db_now stale_after d = Inr (d', c) \<and> granted c
      \<and> update_view d' = (update_view d)(k := Working now)"
  proof (cases "update_row_of k d")
    case None
    then show ?thesis by (auto simp: telegram_updates_def claim_new [OF k] granted_def update_view_def row_new row_view_def
      fun_eq_iff split: option.splits)
  next
    case (Some r)
    then have st: "tu_status r = U_FAILED" using v by (auto simp: update_view_def row_view_def split: update_status.splits)
    have w: "row_view (reclaimed now r) = Working now" by (simp add: row_view_def reclaimed_def)
    show ?thesis using st view_put [OF _ Some, of "reclaimed now"]
      by (simp add: telegram_updates_def claim_row [OF k Some] busy_def granted_def w)
  qed
next
  fix k d now db_now stale_after
  assume k: "key_ok k" and v: "update_view d k = Finished"
  then obtain r where "update_row_of k d = Some r" "tu_status r = U_COMPLETED"
    by (auto simp: update_view_def row_view_def split: option.splits update_status.splits)
  then show "\<exists>c. us_claim telegram_updates k now db_now stale_after d = Inr (d, c) \<and> uc_result c = CL_DUPLICATE"
    by (simp add: telegram_updates_def claim_row [OF k])
next
  fix k d now t
  assume "update_view d k = Working t"
  then obtain r where "update_row_of k d = Some r" "tu_status r = U_PROCESSING" using view_working by blast
  then show "update_view (us_complete telegram_updates k now d) = (update_view d)(k := Finished)"
    using view_put [of "completed_update now" k d r] by (simp add: telegram_updates_def complete_update_def row_view_def completed_update_def)
next
  fix k d now error_code t
  assume "update_view d k = Working t"
  then obtain r where "update_row_of k d = Some r" "tu_status r = U_PROCESSING" using view_working by blast
  then show "update_view (us_fail telegram_updates k now error_code d) = (update_view d)(k := Failed)"
    using view_put [of "failed_update now error_code" k d r] by (simp add: telegram_updates_def fail_update_def row_view_def failed_update_def)
qed

text \<open>C17. However often Telegram delivers an update that was not handled yet, the handler runs until it
  first succeeds and not again: the state it leaves and the answers are those of \<open>handle_once\<close>,
  every failure is raised to the caller, every delivery after the success is answered as a duplicate,
  and no other update's record changes.\<close>

theorem update_handled_once:
  assumes "0 < tb_bot_id b" and "0 \<le> u"
    and "update_view d (tb_tenant_id b, tb_bot_id b, u) = NotSeen \<or> update_view d (tb_tenant_id b, tb_bot_id b, u) = Failed"
    and "\<And>w. snd (handler w) \<noteq> Inl CancelledError"
  shows "\<exists>d'. redeliveries telegram_updates b stale_after handler u clock (d, w)
      = ((d', fst (handle_once handler (length clock) w)), snd (handle_once handler (length clock) w))
    \<and> (\<forall>k. k \<noteq> (tb_tenant_id b, tb_bot_id b, u) \<longrightarrow> update_view d' k = update_view d k)"
  by (rule guard.redeliveries_once) (use assms in \<open>simp_all add: key_ok_def\<close>)

definition no_updates :: telegram_db where
  "no_updates = \<lparr>td_tenants = [], td_customers = [], td_identities = [], td_conversations = [], td_updates = []\<rparr>"

text \<open>A handler that fails the first time it runs and counts its runs.\<close>

definition second_try :: "nat \<Rightarrow> nat \<times> unit res" where
  "second_try n = (Suc n, if n = 0 then Inl TimeoutError else Inr ())"

definition at_time :: "instant \<Rightarrow> call_times" where
  "at_time t = \<lparr>tc_now = t, tc_db_now = t, tc_end = t\<rparr>"

theorem update_handled_once_witness:
  "\<exists>d'. redeliveries telegram_updates \<lparr>tb_bot_id = 5, tb_tenant_id = TenantId 1\<rparr> 60 second_try 9 (map at_time [0, 1, 2, 3]) (no_updates, 0)
     = ((d', 2), [Inl TimeoutError, Inr ''processed'', Inr ''duplicate'', Inr ''duplicate''])"
proof -
  define clock where "clock = map at_time [0, 1, 2, 3]"
  have len: "length clock = 4" by (simp add: clock_def)
  have fresh: "update_view no_updates k = NotSeen" for k by (simp add: no_updates_def update_view_def update_row_of_def)
  have once: "handle_once second_try 4 0 = (2, [Inl TimeoutError, Inr ''processed'', Inr ''duplicate'', Inr ''duplicate''])"
    by (simp add: second_try_def numeral_nat)
  have "snd (second_try w) \<noteq> Inl CancelledError" for w by (simp add: second_try_def)
  from update_handled_once [where handler = second_try and b = "\<lparr>tb_bot_id = 5, tb_tenant_id = TenantId 1\<rparr>" and u = 9 and d = no_updates
      and stale_after = 60 and clock = clock and w = 0, OF _ _ _ this]
  show ?thesis unfolding clock_def [symmetric] len once by (auto simp: fresh)
qed


section \<open>Runs of the store\<close>

text \<open>
  What is called on the tables, in any order and by any process: the identity store, the update
  store, the other stores that move a conversation along the domain's table, and the administration
  of tenants. All workers share the stale window of the settings.
\<close>

datatype tg_call =
    ResolveIdentity new_ids tenant_id int int "string option"
  | ClaimUpdate update_key
  | CompleteUpdate update_key
  | FailUpdate update_key string
  | PurgeUpdates instant
  | MoveConversation conversation_id conversation_status "string option"
  | ChangeTenants "telegram_tenant_row list"

definition move_conversation ::
  "conversation_id \<Rightarrow> conversation_status \<Rightarrow> string option \<Rightarrow> telegram_conversation_row \<Rightarrow> telegram_conversation_row" where
  "move_conversation i st flow r = (if cw_id r = i \<and> st \<in> conversation_transitions (cw_status r)
     then r\<lparr>cw_status := st, cw_active_workflow := flow\<rparr> else r)"

fun exec_tg :: "int \<Rightarrow> tg_call \<Rightarrow> int \<Rightarrow> telegram_db \<Rightarrow> telegram_db" where
  "exec_tg stale_after (ResolveIdentity ids t user chat requested) now db =
     fst (run_tx (resolve_telegram_identity ids t user chat requested now now) db)"
| "exec_tg stale_after (ClaimUpdate k) now db = fst (run_tx (claim_update k now now stale_after) db)"
| "exec_tg stale_after (CompleteUpdate k) now db = complete_update k now db"
| "exec_tg stale_after (FailUpdate k error_code) now db = fail_update k now error_code db"
| "exec_tg stale_after (PurgeUpdates before) now db = fst (delete_completed_before before db)"
| "exec_tg stale_after (MoveConversation i st flow) now db =
     db\<lparr>td_conversations := map (move_conversation i st flow) (td_conversations db)\<rparr>"
| "exec_tg stale_after (ChangeTenants tenants) now db = db\<lparr>td_tenants := tenants\<rparr>"

text \<open>The calls of everyone but a worker that reports a failure of the update, and no purge that reaches it.\<close>

fun spares :: "update_key \<Rightarrow> instant \<Rightarrow> tg_call \<Rightarrow> bool" where
  "spares k created (FailUpdate j _) = (j \<noteq> k)"
| "spares k created (PurgeUpdates before) = (before \<le> created)"
| "spares k created _ = True"

definition exec_sparing :: "int \<Rightarrow> update_key \<Rightarrow> instant \<Rightarrow> tg_call \<Rightarrow> int \<Rightarrow> telegram_db \<Rightarrow> telegram_db" where
  "exec_sparing stale_after k created call now db = (if spares k created call then exec_tg stale_after call now db else db)"

lemma identity_for_frame:
  "identity_for ids t user chat locale db = Inr (db', i) \<Longrightarrow> td_updates db' = td_updates db \<and> td_conversations db' = td_conversations db \<and> td_tenants db' = td_tenants db"
  by (auto simp: identity_for_def Let_def split: option.splits if_splits)

lemma conversation_for_frame:
  "conversation_for ids t i locale now db_now db = Inr (db', c) \<Longrightarrow> td_updates db' = td_updates db \<and> td_identities db' = td_identities db \<and> td_tenants db' = td_tenants db"
  by (auto simp: conversation_for_def Let_def split: option.splits if_splits)

lemma resolve_parts:
  assumes "resolve_telegram_identity ids t user chat requested now db_now db = Inr (db', ti)"
  obtains lc db1 identity where "identity_for ids t (str_int user) (str_int chat) lc db = Inr (db1, identity)"
    "conversation_for ids t identity lc now db_now db1 = Inr (db', ti_conversation_id ti)"
    "ti_customer_id ti = ci_customer_id identity" "ti_tenant_id ti = t"
  using assms by (auto simp: resolve_telegram_identity_def resolve_identity_def res_bind_Inr_iff split: option.splits if_splits)

lemma resolve_updates: "resolve_telegram_identity ids t user chat requested now db_now db = Inr (db', ti) \<Longrightarrow> td_updates db' = td_updates db"
  by (erule resolve_parts) (metis identity_for_frame conversation_for_frame)

section \<open>One worker per update\<close>

text \<open>The update is completed, or in the hands of a worker that claimed it at \<open>since\<close> or later.\<close>

definition held :: "update_key \<Rightarrow> instant \<Rightarrow> instant \<Rightarrow> bool \<Rightarrow> telegram_db \<Rightarrow> bool" where
  "held k created since finished db = (\<exists>r. update_row_of k db = Some r \<and> tu_created_at r = created
     \<and> (tu_status r = U_COMPLETED \<or> \<not> finished \<and> tu_status r = U_PROCESSING \<and> since \<le> tu_claimed_at r))"

lemma held_rows: "td_updates db' = td_updates db \<Longrightarrow> held k created since finished db' = held k created since finished db"
  by (simp add: held_def update_row_of_def)

lemma held_put:
  assumes "held k created since finished db" and "keeps_key f"
    and "\<And>r. j = k \<Longrightarrow> tu_created_at (f r) = tu_created_at r"
    and "\<And>r. j = k \<Longrightarrow> tu_status r = U_COMPLETED \<Longrightarrow> tu_status (f r) = U_COMPLETED"
    and "\<And>r. j = k \<Longrightarrow> tu_status r = U_PROCESSING \<Longrightarrow> since \<le> tu_claimed_at r
      \<Longrightarrow> tu_status (f r) = U_COMPLETED \<or> tu_status (f r) = U_PROCESSING \<and> since \<le> tu_claimed_at (f r)"
  shows "held k created since finished (put_update j f db)"
proof -
  obtain r where "update_row_of k db = Some r" "tu_created_at r = created"
    "tu_status r = U_COMPLETED \<or> \<not> finished \<and> tu_status r = U_PROCESSING \<and> since \<le> tu_claimed_at r"
    using assms(1) by (auto simp: held_def)
  then show ?thesis using assms(3-5) [of r] by (auto simp: held_def put_row [OF assms(2)])
qed

lemma held_claim:
  assumes "held k created since finished db" and "since \<le> now"
    and "claim_update j now db_now s db = Inr (db', c)"
  shows "held k created since finished db'"
proof -
  have j: "key_ok j" using assms(3) by (rule contrapos_pp) (simp add: claim_refused)
  show ?thesis
  proof (cases "update_row_of j db")
    case None
    then show ?thesis using assms by (auto simp: claim_new [OF j None] held_def row_new)
  next
    case (Some x)
    obtain r where r: "update_row_of k db = Some r" "tu_created_at r = created"
      "tu_status r = U_COMPLETED \<or> \<not> finished \<and> tu_status r = U_PROCESSING \<and> since \<le> tu_claimed_at r"
      using assms(1) by (auto simp: held_def)
    show ?thesis
    proof (cases "db' = db")
      case False
      then have db': "db' = put_update j (reclaimed now) db" and nc: "tu_status x \<noteq> U_COMPLETED"
        using assms(3) by (auto simp: claim_row [OF j Some] split: if_splits)
      have "j = k \<Longrightarrow> tu_status r \<noteq> U_COMPLETED" using nc Some r(1) by simp
      then show ?thesis using r assms(2) unfolding db' held_def by (auto simp: put_row reclaimed_def)
    qed (use assms(1) in simp)
  qed
qed

lemma held_purge:
  assumes "held k created since finished db" and "before \<le> created"
  shows "held k created since finished (fst (delete_completed_before before db))"
proof -
  obtain r where r: "update_row_of k db = Some r" "tu_created_at r = created"
    "tu_status r = U_COMPLETED \<or> \<not> finished \<and> tu_status r = U_PROCESSING \<and> since \<le> tu_claimed_at r"
    using assms(1) by (auto simp: held_def)
  have "find P rs = Some r \<Longrightarrow> Q r \<Longrightarrow> find P (filter Q rs) = Some r" for P Q and rs :: "telegram_update_row list"
    by (induction rs) (auto split: if_splits)
  then have "update_row_of k (fst (delete_completed_before before db)) = Some r"
    using r assms(2) by (simp add: update_row_of_def delete_completed_before_def update_expired_def)
  then show ?thesis using r by (auto simp: held_def)
qed

interpretation update_lock: clocked_invariant "exec_sparing stale_after k created"
  "\<lambda>t db. since \<le> t \<and> held k created since finished db" for stale_after k created since finished
proof unfold_locales
  fix t db t' call
  assume inv: "since \<le> t \<and> held k created since finished db" and t: "t \<le> t'"
  have "held k created since finished (exec_tg stale_after call t' db)" if "spares k created call"
  proof (cases call)
    case (ResolveIdentity ids tn user chat requested)
    have "held k created since finished (fst (run_tx (resolve_telegram_identity ids tn user chat requested t' t') db))"
    proof (rule run_tx_inv)
      show "held k created since finished db'" if "resolve_telegram_identity ids tn user chat requested t' t' db = Inr (db', x)" for db' x
        using inv held_rows [OF resolve_updates [OF that]] by simp
    qed (use inv in simp)
    then show ?thesis by (simp add: ResolveIdentity)
  next
    case (ClaimUpdate j)
    have "held k created since finished (fst (run_tx (claim_update j t' t' stale_after) db))"
    proof (rule run_tx_inv)
      show "held k created since finished db'" if "claim_update j t' t' stale_after db = Inr (db', x)" for db' x
        by (rule held_claim [OF _ _ that]) (use inv t in auto)
    qed (use inv in simp)
    then show ?thesis by (simp add: ClaimUpdate)
  next
    case (CompleteUpdate j)
    then show ?thesis using inv
      by (auto simp: complete_update_def completed_update_def intro!: held_put)
  next
    case (FailUpdate j error_code)
    then show ?thesis using inv that by (auto simp: fail_update_def intro!: held_put)
  next
    case (PurgeUpdates before)
    then show ?thesis using inv that held_purge by simp
  qed (use inv in \<open>simp_all add: held_def update_row_of_def\<close>)
  then show "since \<le> t' \<and> held k created since finished (exec_sparing stale_after k created call t' db)"
    using inv t by (auto simp: exec_sparing_def)
qed


text \<open>C19. While a claimed update is being worked on nobody else gets it, and once it is completed nobody
  ever does: whatever anyone else does meanwhile, apart from reporting a failure of this very update
  or purging it, a claim of an update that is completed is answered \<open>duplicate\<close>, and a claim within
  the stale window of the last one is answered \<open>duplicate\<close> or \<open>in_progress\<close>; the claim changes nothing.\<close>

theorem update_not_processed_twice:
  assumes "clocked_run (exec_sparing stale_after k (tu_created_at r)) d t d' t'"
    and "update_row_of k d = Some r" and "tu_claimed_at r \<le> t" and "key_ok k"
    and "tu_status r = U_COMPLETED \<or> tu_status r = U_PROCESSING \<and> now < tu_claimed_at r + stale_after * second_us"
  shows "\<exists>c. claim_update k now db_now stale_after d' = Inr (d', c)
    \<and> (uc_result c = CL_DUPLICATE \<or> tu_status r \<noteq> U_COMPLETED \<and> uc_result c = CL_IN_PROGRESS)"
proof -
  have "held k (tu_created_at r) (tu_claimed_at r) (tu_status r = U_COMPLETED) d"
    using assms(2,5) by (auto simp: held_def)
  then have "held k (tu_created_at r) (tu_claimed_at r) (tu_status r = U_COMPLETED) d'"
    using update_lock.run_keeps [OF assms(1)] assms(3) by blast
  then obtain r' where r': "update_row_of k d' = Some r'"
    "tu_status r' = U_COMPLETED \<or> tu_status r \<noteq> U_COMPLETED \<and> tu_status r' = U_PROCESSING \<and> tu_claimed_at r \<le> tu_claimed_at r'"
    by (auto simp: held_def)
  then show ?thesis using assms(5) by (auto simp: claim_row [OF assms(4) r'(1)] busy_def)
qed

definition one_update :: telegram_db where
  "one_update = no_updates\<lparr>td_updates := [new_update (TenantId 1, 5, 9) 0 0]\<rparr>"

theorem update_not_processed_twice_witness:
  "\<exists>c. claim_update (TenantId 1, 5, 9) 30000000 30000000 60 (exec_tg 60 (CompleteUpdate (TenantId 1, 5, 8)) 7 one_update)
      = Inr (exec_tg 60 (CompleteUpdate (TenantId 1, 5, 8)) 7 one_update, c) \<and> uc_result c \<in> {CL_DUPLICATE, CL_IN_PROGRESS}"
proof -
  let ?k = "(TenantId 1, 5, 9)" and ?r = "new_update (TenantId 1, 5, 9) 0 0"
  have row: "update_row_of ?k one_update = Some ?r" by (simp add: one_update_def update_row_of_def)
  have "exec_sparing 60 ?k (tu_created_at ?r) (CompleteUpdate (TenantId 1, 5, 8)) 7 one_update
      = exec_tg 60 (CompleteUpdate (TenantId 1, 5, 8)) 7 one_update" by (simp add: exec_sparing_def)
  then have run: "clocked_run (exec_sparing 60 ?k (tu_created_at ?r)) one_update 0
      (exec_tg 60 (CompleteUpdate (TenantId 1, 5, 8)) 7 one_update) 7"
    by (metis run_more [OF run_none, of 0 7 "exec_sparing 60 ?k (tu_created_at ?r)"] zero_le_numeral)
  show ?thesis using update_not_processed_twice [OF run row, of 30000000 30000000]
    by (auto simp: key_ok_def second_us_def)
qed


section \<open>One customer and one open conversation per user\<close>

text \<open>What never changes of an identity and of a conversation once they are stored.\<close>

definition identity_core :: "channel_identity_row \<Rightarrow> uuid \<times> (tenant_id \<times> string \<times> string) \<times> customer_id" where
  "identity_core r = (ci_id r, (ci_tenant_id r, ci_channel r, ci_external_user_id r), ci_customer_id r)"

definition conversation_core :: "telegram_conversation_row \<Rightarrow> conversation_id \<times> tenant_id \<times> uuid option" where
  "conversation_core r = (cw_id r, cw_tenant_id r, cw_channel_identity_id r)"

definition users_ok :: "channel_identity_row list \<Rightarrow> bool" where
  "users_ok rows = (distinct (map (fst \<circ> identity_core) rows) \<and> distinct (map (fst \<circ> snd \<circ> identity_core) rows))"

definition opens_ok :: "telegram_conversation_row list \<Rightarrow> bool" where
  "opens_ok rows = (\<forall>a \<in> set rows. \<forall>b \<in> set rows. \<forall>t i. open_conversation t i a \<longrightarrow> open_conversation t i b \<longrightarrow> cw_id a = cw_id b)"

definition conversations_ok :: "telegram_conversation_row list \<Rightarrow> bool" where
  "conversations_ok rows = (distinct (map (fst \<circ> conversation_core) rows) \<and> opens_ok rows)"

definition identities_ok :: "telegram_db \<Rightarrow> bool" where
  "identities_ok db = (users_ok (td_identities db) \<and> conversations_ok (td_conversations db))"

lemma users_ok_append:
  assumes "users_ok rows" and "ci_id r \<notin> ci_id ` set rows"
    and "fst (snd (identity_core r)) \<notin> set (map (fst \<circ> snd \<circ> identity_core) rows)"
  shows "users_ok (rows @ [r])"
  using assms by (simp add: users_ok_def image_iff) (auto simp: identity_core_def)

lemma users_ok_same: "map identity_core rows' = map identity_core rows \<Longrightarrow> users_ok rows' = users_ok rows"
  by (simp add: users_ok_def flip: map_map)

lemma conversations_ok_append:
  assumes "conversations_ok rows" and "cw_id r \<notin> cw_id ` set rows"
    and "\<And>a. a \<in> set rows \<Longrightarrow> \<not> open_conversation (cw_tenant_id r) i a" and "cw_channel_identity_id r = Some i"
  shows "conversations_ok (rows @ [r])"
proof -
  have "opens_ok (rows @ [r])" unfolding opens_ok_def
  proof (intro ballI allI impI)
    fix a b t j
    assume "a \<in> set (rows @ [r])" "b \<in> set (rows @ [r])" "open_conversation t j a" "open_conversation t j b"
    moreover have "\<not> open_conversation t j x" if "x \<in> set rows" "open_conversation t j r" for x
      using assms(3) [OF that(1)] that(2) assms(4) by (auto simp: open_conversation_def)
    moreover have "opens_ok rows" using assms(1) by (simp add: conversations_ok_def)
    ultimately show "cw_id a = cw_id b" unfolding opens_ok_def set_append by (metis Un_iff empty_iff insert_iff list.set)
  qed
  moreover have "distinct (map (fst \<circ> conversation_core) (rows @ [r]))"
    using assms(1,2) by (simp add: conversations_ok_def image_iff) (auto simp: conversation_core_def)
  ultimately show ?thesis by (simp add: conversations_ok_def)
qed

lemma conversations_ok_map:
  assumes "conversations_ok rows" and "\<And>r. conversation_core (f r) = conversation_core r"
    and "\<And>r. cw_status r = C_CLOSED \<Longrightarrow> cw_status (f r) = C_CLOSED"
  shows "conversations_ok (map f rows)"
proof -
  have "cw_id (f r) = cw_id r" "open_conversation t i (f r) \<Longrightarrow> open_conversation t i r" for r t i
    using assms(2,3) [of r] by (auto simp: conversation_core_def open_conversation_def)
  then have "opens_ok (map f rows)" if "opens_ok rows" using that unfolding opens_ok_def by (auto simp: image_iff) metis
  moreover have "map (fst \<circ> conversation_core) (map f rows) = map (fst \<circ> conversation_core) rows" using assms(2) by simp
  ultimately show ?thesis using assms(1) by (simp only: conversations_ok_def simp_thms)
qed

definition grows :: "'a list \<Rightarrow> 'a list \<Rightarrow> bool" where
  "grows xs ys = (\<exists>zs. ys = xs @ zs)"

lemma grows_refl [simp]: "grows xs xs"
  by (simp add: grows_def)

lemma grows_append [simp]: "grows xs (xs @ ys)"
  by (simp add: grows_def)

lemma grows_trans: "grows xs ys \<Longrightarrow> grows ys zs \<Longrightarrow> grows xs zs"
  by (auto simp: grows_def)

lemma grows_set: "grows xs ys \<Longrightarrow> x \<in> set xs \<Longrightarrow> x \<in> set ys"
  by (auto simp: grows_def)

lemma map_core_update: "(\<And>r. core (if P r then f r else r) = core r) \<Longrightarrow> map core (map (\<lambda>r. if P r then f r else r) rs) = map core rs"
  by simp

lemma identity_for_result:
  assumes "identity_for ids t user chat lc db = Inr (db', i)" and "identities_ok db"
  shows "identities_ok db' \<and> grows (map identity_core (td_identities db)) (map identity_core (td_identities db'))
    \<and> identity_core i \<in> set (map identity_core (td_identities db')) \<and> fst (snd (identity_core i)) = (t, ''telegram'', user)"
proof (cases "find (identity_matches t user) (td_identities db)")
  case None
  then have absent: "(t, ''telegram'', user) \<notin> set (map (fst \<circ> snd \<circ> identity_core) (td_identities db))"
    by (auto simp: find_None_iff identity_matches_def identity_core_def)
  have new: "td_identities db' = td_identities db @ [i]" "td_conversations db' = td_conversations db"
    "ci_id i \<notin> ci_id ` set (td_identities db)" "fst (snd (identity_core i)) = (t, ''telegram'', user)"
    using assms(1) None by (auto simp: identity_for_def Let_def identity_core_def split: if_splits)
  have "users_ok (td_identities db')"
    unfolding new(1) by (rule users_ok_append) (use absent new(3,4) assms(2) in \<open>simp_all add: identities_ok_def\<close>)
  then show ?thesis using assms(2) new(4) by (simp add: identities_ok_def new(1,2))
next
  case (Some r)
  have r: "identity_matches t user r" "r \<in> set (td_identities db)" using find_SomeD [OF Some] by auto
  let ?rows = "map (\<lambda>x. if ci_id x = ci_id r then x\<lparr>ci_external_chat_id := chat\<rparr> else x) (td_identities db)"
  have cores: "map identity_core ?rows = map identity_core (td_identities db)"
    by (rule map_core_update) (simp add: identity_core_def)
  have e: "(db', i) = (if ci_external_chat_id r \<noteq> chat then (db\<lparr>td_identities := ?rows\<rparr>, r\<lparr>ci_external_chat_id := chat\<rparr>) else (db, r))"
    using assms(1) Some by (simp add: identity_for_def)
  have "(td_identities db' = td_identities db \<or> td_identities db' = ?rows)
      \<and> td_conversations db' = td_conversations db \<and> identity_core i = identity_core r"
  proof -
    consider (kept) "db' = db" "i = r"
      | (moved) "db' = db\<lparr>td_identities := ?rows\<rparr>" "i = r\<lparr>ci_external_chat_id := chat\<rparr>"
    proof (cases "ci_external_chat_id r \<noteq> chat")
      case True
      have "(db', i) = (db\<lparr>td_identities := ?rows\<rparr>, r\<lparr>ci_external_chat_id := chat\<rparr>)" by (rule trans [OF e if_P [OF True]])
      then show thesis unfolding prod.inject by (elim conjE) (rule moved; assumption)
    next
      case False
      have "(db', i) = (db, r)" by (rule trans [OF e if_not_P [OF False]])
      then show thesis unfolding prod.inject by (elim conjE) (rule kept; assumption)
    qed
    then show ?thesis
    proof cases
      case kept
      then show ?thesis by simp
    next
      case moved
      show ?thesis unfolding moved by (intro conjI disjI2; simp (no_asm) add: identity_core_def)
    qed
  qed
  note res = this
  note rows = conjunct1 [OF res] and conv = conjunct1 [OF conjunct2 [OF res]] and i = conjunct2 [OF conjunct2 [OF res]]
  have same: "map identity_core (td_identities db') = map identity_core (td_identities db)"
    using rows by (elim disjE) (simp_all only: cores)
  have "identities_ok db'"
    using assms(2) users_ok_same [OF same] conv by (simp add: identities_ok_def)
  moreover have "fst (snd (identity_core i)) = (t, ''telegram'', user)" using r(1) i by (simp add: identity_matches_def identity_core_def)
  ultimately show ?thesis unfolding same i using r(2) by simp
qed

lemma newest_mem: "newest_conversation rows = Some r \<Longrightarrow> r \<in> set rows"
  using max_by_in [of cw_created_at] by (cases rows) (auto simp: newest_conversation_def)

lemma newest_None: "newest_conversation rows = None \<longleftrightarrow> rows = []"
  by (cases rows) (simp_all add: newest_conversation_def)

lemma conversation_for_result:
  assumes "conversation_for ids t i lc now db_now db = Inr (db', c)" and "identities_ok db"
  shows "identities_ok db' \<and> grows (map conversation_core (td_conversations db)) (map conversation_core (td_conversations db'))
    \<and> (c, t, Some (ci_id i)) \<in> set (map conversation_core (td_conversations db'))
    \<and> (if \<exists>r \<in> set (td_conversations db). open_conversation t (ci_id i) r
       then \<exists>r \<in> set (td_conversations db). open_conversation t (ci_id i) r \<and> cw_id r = c
       else c \<notin> cw_id ` set (td_conversations db))"
proof (cases "newest_conversation (filter (open_conversation t (ci_id i)) (td_conversations db))")
  case None
  then have none: "\<not> open_conversation t (ci_id i) r" if "r \<in> set (td_conversations db)" for r
    using that by (auto simp: newest_None filter_empty_conv)
  obtain r where new: "td_conversations db' = td_conversations db @ [r]" "td_identities db' = td_identities db"
    "cw_id r \<notin> cw_id ` set (td_conversations db)" "cw_id r = c" "cw_tenant_id r = t" "cw_channel_identity_id r = Some (ci_id i)"
    using assms(1) None by (auto simp: conversation_for_def Let_def split: if_splits)
  have "conversations_ok (td_conversations db')"
    unfolding new(1) by (rule conversations_ok_append [where i = "ci_id i"]) (use none new(3-6) assms(2) in \<open>auto simp: identities_ok_def\<close>)
  then have "identities_ok db'" using assms(2) new(2) by (simp add: identities_ok_def)
  moreover have "conversation_core r = (c, t, Some (ci_id i))" using new(4-6) by (simp add: conversation_core_def)
  ultimately show ?thesis using new(3,4) none by (auto simp: new(1))
next
  case (Some r)
  then have r: "r \<in> set (td_conversations db)" "open_conversation t (ci_id i) r" using newest_mem by fastforce+
  let ?rows = "map (\<lambda>x. if cw_id x = cw_id r then x\<lparr>cw_last_message_at := Some now\<rparr> else x) (td_conversations db)"
  have cores: "map conversation_core ?rows = map conversation_core (td_conversations db)"
    by (rule map_core_update) (simp add: conversation_core_def)
  have rows: "td_conversations db' = ?rows" and ident: "td_identities db' = td_identities db" and c: "c = cw_id r"
    using assms(1) Some by (auto simp: conversation_for_def)
  have "conversations_ok ?rows"
    by (rule conversations_ok_map) (use assms(2) in \<open>auto simp: identities_ok_def conversation_core_def\<close>)
  then have "identities_ok db'" using assms(2) ident by (simp add: identities_ok_def rows)
  moreover have core: "conversation_core r = (c, t, Some (ci_id i))"
    using r(2) c by (simp add: conversation_core_def open_conversation_def)
  moreover have "conversation_core r \<in> set (map conversation_core ?rows)" unfolding cores using r(1) by simp
  moreover have "\<exists>r \<in> set (td_conversations db). open_conversation t (ci_id i) r \<and> cw_id r = c" using r c by blast
  ultimately show ?thesis unfolding rows cores by auto
qed


lemma resolve_result:
  assumes "resolve_telegram_identity ids t user chat requested now db_now db = Inr (db', ti)" and "identities_ok db"
  obtains i where "identities_ok db'" "grows (map identity_core (td_identities db)) (map identity_core (td_identities db'))"
    "grows (map conversation_core (td_conversations db)) (map conversation_core (td_conversations db'))"
    "(i, (t, ''telegram'', str_int user), ti_customer_id ti) \<in> set (map identity_core (td_identities db'))"
    "(ti_conversation_id ti, t, Some i) \<in> set (map conversation_core (td_conversations db'))"
    "if \<exists>r \<in> set (td_conversations db). open_conversation t i r
     then \<exists>r \<in> set (td_conversations db). open_conversation t i r \<and> cw_id r = ti_conversation_id ti
     else ti_conversation_id ti \<notin> cw_id ` set (td_conversations db)"
proof -
  obtain lc db1 identity where r1: "identity_for ids t (str_int user) (str_int chat) lc db = Inr (db1, identity)"
    and r2: "conversation_for ids t identity lc now db_now db1 = Inr (db', ti_conversation_id ti)"
    and c: "ti_customer_id ti = ci_customer_id identity"
    using assms(1) by (rule resolve_parts)
  note step1 = identity_for_result [OF r1 assms(2)]
  note step2 = conversation_for_result [OF r2 conjunct1 [OF step1]]
  have frame: "td_conversations db1 = td_conversations db" "td_identities db' = td_identities db1"
    using identity_for_frame [OF r1] conversation_for_frame [OF r2] by simp_all
  have core: "identity_core identity = (ci_id identity, (t, ''telegram'', str_int user), ti_customer_id ti)"
    using step1 c by (simp add: identity_core_def)
  show thesis
    by (rule that [of "ci_id identity"]) (use step1 step2 in \<open>unfold core frame, blast+\<close>)
qed

text \<open>The user's customer and identity, and a conversation that was opened for it.\<close>

definition known_user :: "tenant_id \<Rightarrow> int \<Rightarrow> customer_id \<Rightarrow> conversation_id \<Rightarrow> uuid \<Rightarrow> telegram_db \<Rightarrow> bool" where
  "known_user t user customer conversation i db = (identities_ok db
     \<and> (i, (t, ''telegram'', str_int user), customer) \<in> set (map identity_core (td_identities db))
     \<and> (conversation, t, Some i) \<in> set (map conversation_core (td_conversations db)))"

lemma known_user_grows:
  assumes "known_user t user c v i db" and "identities_ok db'"
    and "grows (map identity_core (td_identities db)) (map identity_core (td_identities db'))"
    and "grows (map conversation_core (td_conversations db)) (map conversation_core (td_conversations db'))"
  shows "known_user t user c v i db'"
  using assms(1,2) grows_set [OF assms(3)] grows_set [OF assms(4)] unfolding known_user_def by blast

lemma known_user_rows:
  "td_identities db' = td_identities db \<Longrightarrow> td_conversations db' = td_conversations db
   \<Longrightarrow> known_user t user c v i db' = known_user t user c v i db"
  by (simp add: known_user_def identities_ok_def)

lemma move_conversation_core: "conversation_core (move_conversation v st flow r) = conversation_core r"
  by (simp add: move_conversation_def conversation_core_def)

lemma move_conversation_closed: "cw_status r = C_CLOSED \<Longrightarrow> cw_status (move_conversation v st flow r) = C_CLOSED"
  by (simp add: move_conversation_def)

interpretation one_customer: clocked_invariant "exec_tg stale_after" "\<lambda>_. known_user t user c v i" for stale_after t user c v i
proof unfold_locales
  fix t1 db t2 call
  assume inv: "known_user t user c v i db"
  have ok: "identities_ok db" using inv by (simp add: known_user_def)
  show "known_user t user c v i (exec_tg stale_after call t2 db)"
  proof (cases call)
    case (ResolveIdentity ids tn u chat requested)
    have "known_user t user c v i (fst (run_tx (resolve_telegram_identity ids tn u chat requested t2 t2) db))"
    proof (rule run_tx_inv)
      fix db' x
      assume "resolve_telegram_identity ids tn u chat requested t2 t2 db = Inr (db', x)"
      then show "known_user t user c v i db'" using ok by (rule resolve_result) (rule known_user_grows [OF inv])
    qed (rule inv)
    then show ?thesis by (simp add: ResolveIdentity)
  next
    case (ClaimUpdate k)
    have "known_user t user c v i (fst (run_tx (claim_update k t2 t2 stale_after) db))"
    proof (rule run_tx_inv)
      fix db' x
      assume "claim_update k t2 t2 stale_after db = Inr (db', x)"
      then have "td_identities db' = td_identities db" "td_conversations db' = td_conversations db"
        by (auto simp: claim_update_def put_update_def split: if_splits option.splits)
      then show "known_user t user c v i db'" using inv known_user_rows by blast
    qed (rule inv)
    then show ?thesis by (simp add: ClaimUpdate)
  next
    case (MoveConversation w st flow)
    let ?rows = "map (move_conversation w st flow) (td_conversations db)"
    have cores: "map conversation_core ?rows = map conversation_core (td_conversations db)" by (simp add: move_conversation_core)
    have "conversations_ok ?rows"
      by (rule conversations_ok_map) (use ok in \<open>auto simp: identities_ok_def move_conversation_core move_conversation_closed\<close>)
    then show ?thesis using inv cores
      unfolding MoveConversation exec_tg.simps known_user_def identities_ok_def by (simp del: map_map list.map_comp set_map)
  qed (use inv in \<open>simp_all add: known_user_def identities_ok_def complete_update_def fail_update_def put_update_def delete_completed_before_def\<close>)
qed


lemma core_unique:
  assumes "distinct (map (f \<circ> g) rows)" and "x \<in> set (map g rows)" and "y \<in> set (map g rows)" and "f x = f y"
  shows "x = y"
proof -
  have "distinct (map f (map g rows))" using assms(1) by simp
  then show ?thesis using assms(2-4) unfolding distinct_map by (auto dest: inj_onD)
qed



definition shop_db :: telegram_db where
  "shop_db = no_updates\<lparr>td_tenants := [\<lparr>tt_id = TenantId 1, tt_status = T_ACTIVE, tt_default_locale = ''en'', tt_supported_locales = [''en'']\<rparr>]\<rparr>"

definition ids_from :: "uuid \<Rightarrow> new_ids" where
  "ids_from u = \<lparr>id_customer = u, id_identity = u + 1, id_conversation = u + 2\<rparr>"

definition met_db :: telegram_db where
  "met_db = fst (run_tx (resolve_telegram_identity (ids_from 10) (TenantId 1) 7 7 None 0 0) shop_db)"

definition closed_db :: telegram_db where
  "closed_db = exec_tg 60 (MoveConversation (ConversationId 12) C_CLOSED None) 5 met_db"

definition met_again_db :: telegram_db where
  "met_again_db = fst (run_tx (resolve_telegram_identity (ids_from 20) (TenantId 1) 7 8 None 9 9) closed_db)"

lemma met: "resolve_telegram_identity (ids_from 10) (TenantId 1) 7 7 None 0 0 shop_db
    = Inr (met_db, \<lparr>ti_tenant_id = TenantId 1, ti_customer_id = CustomerId 10, ti_conversation_id = ConversationId 12, ti_locale = EN\<rparr>)"
  unfolding met_db_def shop_db_def no_updates_def by code_simp

lemma met_again: "resolve_telegram_identity (ids_from 20) (TenantId 1) 7 8 None 9 9 closed_db
    = Inr (met_again_db, \<lparr>ti_tenant_id = TenantId 1, ti_customer_id = CustomerId 10, ti_conversation_id = ConversationId 22, ti_locale = EN\<rparr>)"
  unfolding met_again_db_def closed_db_def met_db_def shop_db_def no_updates_def by code_simp


end
