(* ===== verification/Knowledge.thy ===== *)
theory Knowledge
  imports Crypto Shared Access Aggregates
begin

text \<open>
  The knowledge models (\<open>application/knowledge/models.py\<close>) and the deterministic chunker
  (\<open>application/knowledge/chunking.py\<close>): normalization of a source, the headings and sections of a
  Markdown document, the overlapping windows of words, the FAQ chunk, and the patterns that mark a
  text as risky. Within Latin-1 a compatibility decomposition that leaves Latin-1 is not applied.
\<close>

section \<open>Models (application/knowledge/models.py)\<close>

datatype knowledge_source_type = KS_MARKDOWN | KS_FAQ

fun source_type_value :: "knowledge_source_type \<Rightarrow> string" where
  "source_type_value KS_MARKDOWN = ''markdown''"
| "source_type_value KS_FAQ = ''faq''"

record chunk_draft =
  cd_ordinal :: int
  cd_text :: string
  cd_token_count :: int
  cd_checksum :: string
  cd_section :: "string option"
  cd_instruction_risk :: bool
  cd_metadata :: "(string, json) dict"

definition chunk_post_init :: "chunk_draft \<Rightarrow> chunk_draft res" where [ctor_defs]:
  "chunk_post_init d =
     (if cd_ordinal d < 0 \<or> blank (cd_text d) \<or> cd_token_count d < 1
      then Inl (ValueError ''Knowledge chunk is invalid'') else Inr d)"

record prepared_chunk =
  pc_id :: uuid
  pc_draft :: chunk_draft
  pc_embedding :: "py_float list"
  pc_embedding_model :: string

record prepared_document =
  pd_id :: document_id
  pd_tenant_id :: tenant_id
  pd_title :: string
  pd_locale :: locale_t
  pd_source_type :: knowledge_source_type
  pd_source_text :: string
  pd_checksum :: string
  pd_chunks :: "prepared_chunk list"

record reindex_candidate =
  rc_id :: uuid
  rc_tenant_id :: tenant_id
  rc_text :: string
  rc_checksum :: string

record document_view =
  kv_id :: document_id
  kv_title :: string
  kv_locale :: locale_t
  kv_source_type :: knowledge_source_type
  kv_checksum :: string
  kv_version :: int
  kv_status :: knowledge_status
  kv_published_at :: "instant option"
  kv_chunk_count :: int

record retrieved_chunk =
  rt_document_id :: document_id
  rt_document_version :: int
  rt_chunk_id :: uuid
  rt_title :: string
  rt_locale :: locale_t
  rt_source_type :: knowledge_source_type
  rt_text :: string
  rt_section :: "string option"
  rt_checksum :: string
  rt_score :: rat
  rt_lexical_rank :: "nat option"
  rt_vector_rank :: "nat option"

record evidence =
  ev_chunk :: retrieved_chunk
  ev_citation :: citation

record knowledge_answer =
  ka_answered :: bool
  ka_text :: string
  ka_evidence :: "evidence list"
  ka_fallback_reason :: "string option"

section \<open>Normalization\<close>

text \<open>\<open>unicodedata.normalize("NFKC", s)\<close>: no-break space, ordinal indicators and superscripts.\<close>

definition nfkc_char :: "char \<Rightarrow> char" where
  "nfkc_char c = (let n = code c in
     if n = 160 then CHR '' '' else if n = 170 then CHR ''a'' else if n = 178 then CHR ''2''
     else if n = 179 then CHR ''3'' else if n = 185 then CHR ''1'' else if n = 186 then CHR ''o'' else c)"

text \<open>The text after a line feed that completes a boundary.\<close>

definition after_feed :: "string \<Rightarrow> string" where
  "after_feed s = (case s of [] \<Rightarrow> [] | d # ds \<Rightarrow> if code d = 10 then ds else s)"

lemma after_feed_length [termination_simp]: "length (after_feed s) \<le> length s"
  by (cases s) (auto simp: after_feed_def)

lemma after_feed_less [termination_simp]: "length (after_feed s) < Suc (length s)"
  using after_feed_length [of s] by simp

text \<open>\<open>s.replace("\r\n", "\n").replace("\r", "\n")\<close>\<close>

fun unix_newlines :: "string \<Rightarrow> string" where
  "unix_newlines [] = []"
| "unix_newlines (c # cs) =
     (if code c = 13 then CHR 0x0A # unix_newlines (after_feed cs)
      else c # unix_newlines cs)"

text \<open>\<open>s.splitlines()\<close>: a line that is not ended by a boundary counts unless it is empty.\<close>

definition is_line_end :: "char \<Rightarrow> bool" where
  "is_line_end c = (let n = code c in 10 \<le> n \<and> n \<le> 13 \<or> 28 \<le> n \<and> n \<le> 30 \<or> n = 133)"

fun splitlines_acc :: "string \<Rightarrow> string \<Rightarrow> string list" where
  "splitlines_acc w [] = (if w = [] then [] else [w])"
| "splitlines_acc w (c # cs) =
     (if is_line_end c
      then w # splitlines_acc [] (if code c = 13 then after_feed cs else cs)
      else splitlines_acc (w @ [c]) cs)"

definition splitlines :: "string \<Rightarrow> string list" where
  "splitlines s = splitlines_acc [] s"

text \<open>\<open>re.sub(r"[ \t]+", " ", line)\<close>\<close>

definition blank_or_tab :: "char \<Rightarrow> bool" where
  "blank_or_tab c = (c = CHR '' '' \<or> code c = 9)"

fun squeeze :: "string \<Rightarrow> string" where
  "squeeze [] = []"
| "squeeze (c # cs) = (if blank_or_tab c
     then (case cs of d # ds \<Rightarrow> if blank_or_tab d then squeeze cs else CHR '' '' # squeeze cs | [] \<Rightarrow> '' '')
     else c # squeeze cs)"

definition keep_line :: "string list \<Rightarrow> string \<Rightarrow> string list" where
  "keep_line result line = (if line \<noteq> [] \<or> (result \<noteq> [] \<and> last result \<noteq> []) then result @ [line] else result)"

definition normalize_source :: "string \<Rightarrow> string" where
  "normalize_source s = (let normalized = unix_newlines (map nfkc_char s);
     cleaned = map (\<lambda>line. strip (squeeze line)) (splitlines normalized)
   in strip (join newline (foldl keep_line [] cleaned)))"

text \<open>\<open>hashlib.sha256(s.encode()).hexdigest()\<close>\<close>

definition hexdigest :: "byte list \<Rightarrow> string" where
  "hexdigest bs = concat (map (\<lambda>b. [hex_char (unat b div 16), hex_char (unat b mod 16)]) bs)"

definition content_checksum :: "string \<Rightarrow> string" where
  "content_checksum s = hexdigest (sha256 (utf8 s))"

section \<open>Instruction patterns\<close>

text \<open>
  A matcher maps a position (the character before it and the text from it) to the positions it may
  end at; \<open>re.search\<close> succeeds if some position of the text has one. Letters match in either case.
\<close>

type_synonym position = "char option \<times> string"
type_synonym matcher = "position \<Rightarrow> position list"

text \<open>\<open>\w\<close>: letters, digits, the underscore and the other numerals of Latin-1.\<close>

definition is_word :: "char \<Rightarrow> bool" where
  "is_word c = (let n = code c in is_digit c \<or> is_ident_start c \<or> n = 178 \<or> n = 179 \<or> n = 185 \<or> 188 \<le> n \<and> n \<le> 190)"

fun m_lit :: "string \<Rightarrow> matcher" where
  "m_lit [] pos = [pos]"
| "m_lit (p # ps) (prev, []) = []"
| "m_lit (p # ps) (prev, c # cs) = (if lower_char c = p then m_lit ps (Some c, cs) else [])"

fun m_spaces_from :: "string \<Rightarrow> position list" where
  "m_spaces_from [] = []"
| "m_spaces_from (c # cs) = (if is_space c then (Some c, cs) # m_spaces_from cs else [])"

definition m_spaces :: matcher where
  "m_spaces pos = m_spaces_from (snd pos)"

definition m_boundary :: matcher where
  "m_boundary pos = (case pos of (prev, rest) \<Rightarrow>
     if (\<exists>c. prev = Some c \<and> is_word c) \<noteq> (rest \<noteq> [] \<and> is_word (hd rest)) then [pos] else [])"

definition m_then :: "matcher \<Rightarrow> matcher \<Rightarrow> matcher" where
  "m_then a b pos = concat (map b (a pos))"

definition m_any :: "matcher list \<Rightarrow> matcher" where
  "m_any ms pos = concat (map (\<lambda>m. m pos) ms)"

definition m_opt :: "matcher \<Rightarrow> matcher" where
  "m_opt m pos = pos # m pos"

definition m_all :: "matcher list \<Rightarrow> matcher" where
  "m_all ms = foldr m_then ms (\<lambda>pos. [pos])"

fun search_from :: "matcher \<Rightarrow> char option \<Rightarrow> string \<Rightarrow> bool" where
  "search_from m prev [] = (m (prev, []) \<noteq> [])"
| "search_from m prev (c # cs) = (m (prev, c # cs) \<noteq> [] \<or> search_from m (Some c) cs)"

definition instruction_patterns :: "matcher list" where
  "instruction_patterns = [
     m_all [m_boundary, m_lit ''ignore'', m_spaces, m_opt (m_then (m_lit ''all'') m_spaces), m_lit ''previous'',
       m_spaces, m_lit ''instruction'', m_opt (m_lit ''s''), m_boundary],
     m_all [m_boundary, m_any [m_lit ''system'', m_lit ''developer''], m_spaces, m_any [m_lit ''prompt'', m_lit ''message''],
       m_boundary],
     m_all [m_boundary, m_any [m_lit ''call'', m_lit ''invoke'', m_lit ''use''], m_spaces,
       m_opt (m_then (m_lit ''a'') m_spaces), m_lit ''tool'', m_boundary],
     m_all [m_boundary, m_lit ''reveal'', m_spaces, m_opt (m_then (m_lit ''the'') m_spaces),
       m_any [m_lit ''prompt'', m_lit ''secret'', m_lit ''api key''], m_boundary]]"

definition has_instruction_risk :: "string \<Rightarrow> bool" where
  "has_instruction_risk s = list_ex (\<lambda>m. search_from m None s) instruction_patterns"

section \<open>The chunker\<close>

record chunker =
  ck_max_tokens :: int
  ck_overlap_tokens :: int

definition chunker_post_init :: "chunker \<Rightarrow> chunker res" where [ctor_defs]:
  "chunker_post_init c =
     (if \<not> (50 \<le> ck_max_tokens c \<and> ck_max_tokens c \<le> 1000)
      then Inl (ValueError ''Knowledge chunk maximum must be between 50 and 1000 tokens'')
      else if \<not> (0 \<le> ck_overlap_tokens c \<and> ck_overlap_tokens c < ck_max_tokens c div 2)
      then Inl (ValueError ''Knowledge chunk overlap is invalid'')
      else Inr c)"

text \<open>
  \<open>_HEADING.match(line)\<close> and its second group: one to six marks, white space, and the text without
  the white space after it; when only white space follows, its last character is the text.
\<close>

definition heading_text :: "string \<Rightarrow> string option" where
  "heading_text line = (let marks = takeWhile (\<lambda>c. c = CHR ''#'') line; rest = drop (length marks) line;
     gap = takeWhile is_space rest; title = drop (length gap) rest in
   if marks = [] \<or> 6 < length marks \<or> gap = [] then None
   else if title \<noteq> [] then Some (rstrip title)
   else if 2 \<le> length gap then Some [last gap] else None)"

text \<open>The loop of \<open>_sections\<close>: the sections so far, the current heading and its body.\<close>

type_synonym section_state = "(string option \<times> string list) list \<times> string option \<times> string list"

definition flush_section :: "section_state \<Rightarrow> (string option \<times> string list) list" where
  "flush_section st = (case st of (sections, heading, body) \<Rightarrow> if body \<noteq> [] then sections @ [(heading, body)] else sections)"

definition add_line :: "section_state \<Rightarrow> string \<Rightarrow> section_state" where
  "add_line st line = (case st of (sections, heading, body) \<Rightarrow>
     case heading_text line of
       Some title \<Rightarrow> (flush_section st, Some title, [])
     | None \<Rightarrow> if line \<noteq> [] then (sections, heading, body @ [line]) else st)"

definition sections_of :: "string \<Rightarrow> (string option \<times> string) list" where
  "sections_of source = map (\<lambda>(title, ls). (title, join newline ls))
     (flush_section (foldl add_line ([], None, []) (splitlines source)))"

definition chunk_of_window :: "string option \<Rightarrow> nat \<Rightarrow> string list \<Rightarrow> chunk_draft res" where
  "chunk_of_window heading ordinal window = (
     let prefix = (case heading of None \<Rightarrow> [] | Some h \<Rightarrow> if h = [] then [] else h @ newline);
         chunk_text = strip (prefix @ join '' '' window) in
     chunk_post_init \<lparr>cd_ordinal = int ordinal, cd_text = chunk_text, cd_token_count = int (length window),
       cd_checksum = content_checksum chunk_text, cd_section = heading,
       cd_instruction_risk = has_instruction_risk chunk_text, cd_metadata = []\<rparr>)"

text \<open>
  The loop over the windows of a section, from word \<open>start\<close>. It need not end for a chunker that
  construction refuses, so not returning is None.
\<close>

partial_function (option) window_loop ::
  "nat \<Rightarrow> nat \<Rightarrow> string option \<Rightarrow> string list \<Rightarrow> nat \<Rightarrow> chunk_draft list \<Rightarrow> chunk_draft list res option" where
  "window_loop m step heading tokens start chunks =
     (if length tokens \<le> start then Some (Inr chunks)
      else case chunk_of_window heading (length chunks) (take m (drop start tokens)) of
        Inl e \<Rightarrow> Some (Inl e)
      | Inr c \<Rightarrow>
          if length tokens \<le> start + m then Some (Inr (chunks @ [c]))
          else window_loop m step heading tokens (start + step) (chunks @ [c]))"

declare window_loop.simps [code]

text \<open>One section after the other; a section without words has no window.\<close>

fun section_loop :: "chunker \<Rightarrow> (string option \<times> string) list \<Rightarrow> chunk_draft list \<Rightarrow> chunk_draft list res option" where
  "section_loop c [] chunks = Some (Inr chunks)"
| "section_loop c ((heading, body) # sections) chunks =
     (case window_loop (nat (ck_max_tokens c)) (nat (ck_max_tokens c - ck_overlap_tokens c)) heading (split_ws body) 0 chunks of
        None \<Rightarrow> None
      | Some (Inl e) \<Rightarrow> Some (Inl e)
      | Some (Inr chunks1) \<Rightarrow> section_loop c sections chunks1)"

definition chunk_markdown :: "chunker \<Rightarrow> string \<Rightarrow> chunk_draft list res option" where
  "chunk_markdown c source = (let normalized = normalize_source source in
     if normalized = [] then Some (Inl (ValueError ''Markdown knowledge source is empty''))
     else case section_loop c (sections_of normalized) [] of
       None \<Rightarrow> None
     | Some (Inl e) \<Rightarrow> Some (Inl e)
     | Some (Inr chunks) \<Rightarrow>
         if chunks = [] then Some (Inl (ValueError ''Markdown knowledge source has no usable content''))
         else Some (Inr chunks))"

definition faq_text :: "string \<Rightarrow> string \<Rightarrow> string" where
  "faq_text question answer = ''Question: '' @ question @ newline @ ''Answer: '' @ answer"

definition chunk_faq :: "chunker \<Rightarrow> string \<Rightarrow> string \<Rightarrow> string list \<Rightarrow> int \<Rightarrow> chunk_draft list res" where
  "chunk_faq c question answer aliases priority = (
     let question_value = normalize_source question; answer_value = normalize_source answer;
         alias_values = map normalize_source aliases; chunk_text = faq_text question_value answer_value in
     if question_value = [] \<or> answer_value = [] \<or> [] \<in> set alias_values
     then Inl (ValueError ''FAQ question, answer, and aliases must be non-empty'')
     else if 20 < length alias_values \<or> length (remdups alias_values) \<noteq> length alias_values
     then Inl (ValueError ''FAQ aliases must be unique and contain at most 20 values'')
     else if \<not> (0 \<le> priority \<and> priority \<le> 100)
     then Inl (ValueError ''FAQ priority must be between 0 and 100'')
     else if ck_max_tokens c < int (length (split_ws chunk_text))
     then Inl (ValueError ''FAQ must fit in one knowledge chunk'')
     else res_bind (chunk_post_init \<lparr>cd_ordinal = 0, cd_text = chunk_text, cd_token_count = int (length (split_ws chunk_text)),
            cd_checksum = content_checksum chunk_text, cd_section = Some ''FAQ'',
            cd_instruction_risk = has_instruction_risk chunk_text,
            cd_metadata = [(''aliases'', JList (map JStr alias_values)), (''priority'', JInt priority),
              (''question'', JStr question_value)]\<rparr>) (\<lambda>d. Inr [d]))"

end
