(* ===== verification/KnowledgeStore.thy ===== *)
theory KnowledgeStore
  imports Knowledge Tables
begin

text \<open>
  The knowledge adapter (\<open>infrastructure/persistence/knowledge.py\<close>) over the rows of documents and
  chunks, and the use cases of \<open>application/knowledge/service.py\<close>. PostgreSQL's text ranking and
  pgvector's distance are arguments of the search, and so is the embedding provider; nothing but the
  order and the sign of what they return is used. Scores are rational numbers here and rounded
  floats in the code. Metrics are not modelled.
\<close>

section \<open>Rows\<close>

record document_row =
  dw_id :: document_id
  dw_tenant_id :: tenant_id
  dw_title :: string
  dw_locale :: locale_t
  dw_source_type :: knowledge_source_type
  dw_checksum :: string
  dw_source_text :: string
  dw_version :: int
  dw_status :: knowledge_status
  dw_published_at :: "instant option"
  dw_effective_from :: "instant option"
  dw_effective_until :: "instant option"

record chunk_row =
  kw_id :: uuid
  kw_tenant_id :: tenant_id
  kw_document_id :: document_id
  kw_document_version :: int
  kw_ordinal :: int
  kw_text :: string
  kw_token_count :: int
  kw_embedding :: "py_float list option"
  kw_embedding_model :: "string option"
  kw_embedding_dimensions :: "int option"
  kw_instruction_risk :: bool
  kw_metadata :: "(string, json) dict"
  kw_checksum :: string

record knowledge_db =
  kb_documents :: "document_row list"
  kb_chunks :: "chunk_row list"

definition chunk_of_document :: "document_row \<Rightarrow> chunk_row \<Rightarrow> bool" where
  "chunk_of_document d k = (dw_tenant_id d = kw_tenant_id k \<and> dw_id d = kw_document_id k \<and> dw_version d = kw_document_version k)"

text \<open>The join of both tables, in the order of the chunks.\<close>

definition joined :: "knowledge_db \<Rightarrow> (chunk_row \<times> document_row) list" where
  "joined db = concat (map (\<lambda>k. map (\<lambda>d. (k, d)) (filter (\<lambda>d. chunk_of_document d k) (kb_documents db))) (kb_chunks db))"

section \<open>The store (SQLAlchemyKnowledgeStore)\<close>

definition stale_embedding :: "string \<Rightarrow> int \<Rightarrow> chunk_row \<Rightarrow> bool" where
  "stale_embedding model dimensions k = (kw_embedding k = None \<or> kw_embedding_model k \<noteq> Some model
     \<or> kw_embedding_dimensions k \<noteq> Some dimensions)"

definition list_reindex_candidates :: "string \<Rightarrow> int \<Rightarrow> nat \<Rightarrow> knowledge_db \<Rightarrow> reindex_candidate list" where
  "list_reindex_candidates model dimensions limit db =
     map (\<lambda>k. \<lparr>rc_id = kw_id k, rc_tenant_id = kw_tenant_id k, rc_text = kw_text k, rc_checksum = kw_checksum k\<rparr>)
       (take limit (sorted_by (\<lambda>k. (tenant_uuid (kw_tenant_id k), kw_id k))
         (map fst (filter (\<lambda>(k, d). dw_status d = K_READY \<and> \<not> kw_instruction_risk k \<and> stale_embedding model dimensions k)
            (joined db)))))"

definition candidate_row :: "reindex_candidate \<Rightarrow> chunk_row \<Rightarrow> bool" where
  "candidate_row c k = (kw_tenant_id k = rc_tenant_id c \<and> kw_id k = rc_id c \<and> kw_checksum k = rc_checksum c)"

definition update_embedding :: "reindex_candidate \<Rightarrow> py_float list \<Rightarrow> string \<Rightarrow> knowledge_db \<Rightarrow> knowledge_db \<times> bool" where
  "update_embedding c embedding model db =
     (db\<lparr>kb_chunks := map (\<lambda>k. if candidate_row c k then k\<lparr>kw_embedding := Some embedding, kw_embedding_model := Some model,
        kw_embedding_dimensions := Some (int (length embedding))\<rparr> else k) (kb_chunks db)\<rparr>,
      list_ex (candidate_row c) (kb_chunks db))"

definition document_view_of :: "knowledge_db \<Rightarrow> document_row \<Rightarrow> document_view" where
  "document_view_of db d = \<lparr>kv_id = dw_id d, kv_title = dw_title d, kv_locale = dw_locale d, kv_source_type = dw_source_type d,
     kv_checksum = dw_checksum d, kv_version = dw_version d, kv_status = dw_status d, kv_published_at = dw_published_at d,
     kv_chunk_count = int (length (filter (chunk_of_document d) (kb_chunks db)))\<rparr>"

definition find_by_checksum :: "tenant_id \<Rightarrow> string \<Rightarrow> knowledge_db \<Rightarrow> document_view option" where
  "find_by_checksum t checksum db =
     map_option (document_view_of db) (find (\<lambda>d. dw_tenant_id d = t \<and> dw_checksum d = checksum) (kb_documents db))"

definition row_of_document :: "prepared_document \<Rightarrow> document_row" where
  "row_of_document p = \<lparr>dw_id = pd_id p, dw_tenant_id = pd_tenant_id p, dw_title = pd_title p, dw_locale = pd_locale p,
     dw_source_type = pd_source_type p, dw_checksum = pd_checksum p, dw_source_text = pd_source_text p, dw_version = 1,
     dw_status = K_READY, dw_published_at = None, dw_effective_from = None, dw_effective_until = None\<rparr>"

definition row_of_chunk :: "prepared_document \<Rightarrow> prepared_chunk \<Rightarrow> chunk_row" where
  "row_of_chunk p c = \<lparr>kw_id = pc_id c, kw_tenant_id = pd_tenant_id p, kw_document_id = pd_id p, kw_document_version = 1,
     kw_ordinal = cd_ordinal (pc_draft c), kw_text = cd_text (pc_draft c), kw_token_count = cd_token_count (pc_draft c),
     kw_embedding = Some (pc_embedding c), kw_embedding_model = Some (pc_embedding_model c),
     kw_embedding_dimensions = Some (int (length (pc_embedding c))),
     kw_instruction_risk = cd_instruction_risk (pc_draft c),
     kw_metadata = dict_set ''section'' (json_opt JStr (cd_section (pc_draft c))) (cd_metadata (pc_draft c)),
     kw_checksum = cd_checksum (pc_draft c)\<rparr>"

definition document_key :: "document_row \<Rightarrow> tenant_id \<times> string \<times> int" where
  "document_key d = (dw_tenant_id d, dw_checksum d, dw_version d)"

definition chunk_key :: "chunk_row \<Rightarrow> tenant_id \<times> document_id \<times> int \<times> int" where
  "chunk_key k = (kw_tenant_id k, kw_document_id k, kw_document_version k, kw_ordinal k)"

text \<open>The unique constraints of both tables stop the insertion of a document or of one of its chunks.\<close>

definition ingest_document :: "prepared_document \<Rightarrow> (knowledge_db, document_view) tx" where
  "ingest_document p db = (
     let d = row_of_document p; new = map (row_of_chunk p) (pd_chunks p);
         db' = \<lparr>kb_documents = kb_documents db @ [d], kb_chunks = kb_chunks db @ new\<rparr> in
     if dw_id d \<in> dw_id ` set (kb_documents db) \<or> document_key d \<in> document_key ` set (kb_documents db)
     then Inl integrity_error
     else if \<not> distinct (map kw_id (kb_chunks db')) \<or> \<not> distinct (map chunk_key new) \<or> chunk_key ` set new \<inter> chunk_key ` set (kb_chunks db) \<noteq> {}
     then Inl integrity_error
     else Inr (db', document_view_of db' d))"

definition locked_document :: "tenant_id \<Rightarrow> document_id \<Rightarrow> knowledge_db \<Rightarrow> document_row res" where
  "locked_document t i db = (case find (\<lambda>d. dw_tenant_id d = t \<and> dw_id d = i) (kb_documents db) of
     None \<Rightarrow> Inl (KnowledgeError ''Knowledge document was not found'') | Some d \<Rightarrow> Inr d)"

definition put_document :: "tenant_id \<Rightarrow> document_id \<Rightarrow> (document_row \<Rightarrow> document_row) \<Rightarrow> knowledge_db \<Rightarrow> knowledge_db" where
  "put_document t i f db = db\<lparr>kb_documents := map (\<lambda>d. if dw_tenant_id d = t \<and> dw_id d = i then f d else d) (kb_documents db)\<rparr>"

definition publish_document :: "tenant_id \<Rightarrow> document_id \<Rightarrow> instant \<Rightarrow> (knowledge_db, document_view) tx" where
  "publish_document t i now db = res_bind (locked_document t i db) (\<lambda>d.
     if dw_status d \<noteq> K_READY then Inl (KnowledgeError ''Only ready knowledge can be published'')
     else let f = (\<lambda>d. d\<lparr>dw_published_at := Some now\<rparr>); db' = put_document t i f db in Inr (db', document_view_of db' (f d)))"

definition archive_document :: "tenant_id \<Rightarrow> document_id \<Rightarrow> (knowledge_db, document_view) tx" where
  "archive_document t i db = res_bind (locked_document t i db) (\<lambda>d.
     if dw_status d \<noteq> K_READY then Inl (KnowledgeError ''Only ready knowledge can be archived'')
     else let f = (\<lambda>d. d\<lparr>dw_status := K_ARCHIVED, dw_published_at := None\<rparr>); db' = put_document t i f db
          in Inr (db', document_view_of db' (f d)))"

section \<open>Hybrid search\<close>

definition stop_words :: "string list" where
  "stop_words = [''a'', ''an'', ''and'', ''are'', ''can'', ''do'', ''does'', ''for'', ''how'', ''i'', ''is'', ''it'', ''of'',
     ''the'', ''to'', ''what'', ''when'', ''where'', ''you'']"

text \<open>\<open>re.findall(r"[A-Za-z0-9]+", s)\<close>\<close>

fun alnum_words :: "string \<Rightarrow> string \<Rightarrow> string list" where
  "alnum_words w [] = (if w = [] then [] else [w])"
| "alnum_words w (c # cs) =
     (if is_digit c \<or> is_upper_az c \<or> is_lower_az c then alnum_words (w @ [c]) cs
      else if w = [] then alnum_words [] cs else w # alnum_words [] cs)"

definition lexical_terms :: "string \<Rightarrow> string list" where
  "lexical_terms s = filter (\<lambda>w. w \<notin> set stop_words) (alnum_words [] (map lower_char s))"

definition lexical_query :: "string \<Rightarrow> string" where
  "lexical_query s = (let terms = take 50 (lexical_terms s) in if terms \<noteq> [] then join '' | '' terms else ''unmatchable'')"

definition searchable :: "tenant_id \<Rightarrow> locale_t \<Rightarrow> instant \<Rightarrow> chunk_row \<times> document_row \<Rightarrow> bool" where
  "searchable t l now kd = (case kd of (k, d) \<Rightarrow>
     dw_tenant_id d = t \<and> kw_tenant_id k = t \<and> dw_locale d = l \<and> dw_status d = K_READY
     \<and> (case dw_published_at d of None \<Rightarrow> False | Some p \<Rightarrow> p \<le> now)
     \<and> (case dw_effective_from d of None \<Rightarrow> True | Some e \<Rightarrow> e \<le> now)
     \<and> (case dw_effective_until d of None \<Rightarrow> True | Some e \<Rightarrow> now < e)
     \<and> \<not> kw_instruction_risk k)"

text \<open>The place, from 1 on, of a chunk in a ranking.\<close>

definition rank_in :: "(chunk_row \<times> document_row) list \<Rightarrow> uuid \<Rightarrow> nat option" where
  "rank_in ranking u = map_option (\<lambda>(i, _). i) (find (\<lambda>(i, k, d). kw_id k = u) (rev (enumerate 1 ranking)))"

definition reciprocal :: "nat option \<Rightarrow> nat option \<Rightarrow> rat" where
  "reciprocal l v = sum_list (map (\<lambda>r. case r of None \<Rightarrow> 0 | Some n \<Rightarrow> 1 / (60 + of_nat n)) [l, v])"

definition coverage :: "string \<Rightarrow> string \<Rightarrow> rat" where
  "coverage query chunk_text = (let q = remdups (lexical_terms query); c = lexical_terms chunk_text in
     if q = [] then 0 else of_nat (length (filter (\<lambda>w. w \<in> set c) q)) / of_nat (length q))"

definition fused_score :: "string \<Rightarrow> nat option \<Rightarrow> nat option \<Rightarrow> chunk_row \<Rightarrow> document_row \<Rightarrow> rat" where
  "fused_score query l v k d = (
     let s1 = min 1 (reciprocal l v * (61 / 2));
         s2 = (if l \<noteq> None then min 1 (s1 + coverage query (kw_text k) / 5) else s1) in
     if dw_source_type d = KS_FAQ
     then (case dict_get (kw_metadata k) ''priority'' of
             None \<Rightarrow> min 1 s2
           | Some (JInt p) \<Rightarrow> min 1 (s2 + of_int (min p 100) / 2000)
           | Some _ \<Rightarrow> s2)
     else s2)"

definition retrieved :: "string \<Rightarrow> (chunk_row \<times> document_row) list \<Rightarrow> (chunk_row \<times> document_row) list \<Rightarrow> chunk_row \<times> document_row \<Rightarrow> retrieved_chunk" where
  "retrieved query lexical vector kd = (case kd of (k, d) \<Rightarrow>
     let l = rank_in lexical (kw_id k); v = rank_in vector (kw_id k) in
     \<lparr>rt_document_id = dw_id d, rt_document_version = dw_version d, rt_chunk_id = kw_id k, rt_title = dw_title d,
      rt_locale = dw_locale d, rt_source_type = dw_source_type d, rt_text = kw_text k,
      rt_section = (case dict_get (kw_metadata k) ''section'' of Some (JStr s) \<Rightarrow> Some s | _ \<Rightarrow> None),
      rt_checksum = kw_checksum k, rt_score = fused_score query l v k d, rt_lexical_rank = l, rt_vector_rank = v\<rparr>)"

text \<open>\<open>rows\<close>: one entry per chunk, at the place it first came up, with the rows that came last.\<close>

definition fused_rows :: "(chunk_row \<times> document_row) list \<Rightarrow> (uuid, chunk_row \<times> document_row) dict" where
  "fused_rows ranked = foldl (\<lambda>rows (k, d). dict_set (kw_id k) (k, d) rows) [] ranked"

text \<open>The first result of each checksum, up to the limit.\<close>

fun first_by_checksum :: "string list \<Rightarrow> retrieved_chunk list \<Rightarrow> retrieved_chunk list" where
  "first_by_checksum seen [] = []"
| "first_by_checksum seen (r # rs) = (if rt_checksum r \<in> set seen then first_by_checksum seen rs
     else r # first_by_checksum (rt_checksum r # seen) rs)"

definition fuse :: "(chunk_row \<times> document_row) list \<Rightarrow> (chunk_row \<times> document_row) list \<Rightarrow> nat \<Rightarrow> string \<Rightarrow> retrieved_chunk list" where
  "fuse lexical vector limit query =
     take limit (first_by_checksum [] (sorted_by (\<lambda>r. (- rt_score r, uuid_str (rt_chunk_id r)))
       (map (retrieved query lexical vector) (map snd (fused_rows (lexical @ vector))))))"

text \<open>\<open>ts_rank\<close> and \<open>distance\<close> are PostgreSQL's.\<close>

record ranking_functions =
  rf_ts_rank :: "string \<Rightarrow> chunk_row \<Rightarrow> rat"
  rf_distance :: "py_float list \<Rightarrow> py_float list \<Rightarrow> rat"

definition hybrid_search ::
  "ranking_functions \<Rightarrow> tenant_id \<Rightarrow> string \<Rightarrow> py_float list \<Rightarrow> locale_t \<Rightarrow> string \<Rightarrow> nat \<Rightarrow> nat \<Rightarrow> instant
   \<Rightarrow> knowledge_db \<Rightarrow> retrieved_chunk list" where
  "hybrid_search rf t query query_embedding l model candidate_limit result_limit now db = (
     let rows = filter (searchable t l now) (joined db);
         score = (\<lambda>kd. rf_ts_rank rf (lexical_query query) (fst kd));
         lexical = take candidate_limit (sorted_by (\<lambda>kd. (- score kd, kw_id (fst kd))) (filter (\<lambda>kd. 0 < score kd) rows));
         comparable = (\<lambda>kd. kw_embedding (fst kd) \<noteq> None \<and> kw_embedding_model (fst kd) = Some model
           \<and> kw_embedding_dimensions (fst kd) = Some (int (length query_embedding)));
         vector = take candidate_limit (sorted_by (\<lambda>kd. (rf_distance rf (the (kw_embedding (fst kd))) query_embedding, kw_id (fst kd)))
           (filter comparable rows)) in
     fuse lexical vector result_limit query)"

end
