(* ===== verification/KnowledgeUse.thy ===== *)
theory KnowledgeUse
  imports KnowledgeStore
begin

text \<open>
  The use cases of \<open>application/knowledge/service.py\<close>: ingestion, publication, extractive answers
  and re-indexing. The embedding provider is an argument, as is the clock.
\<close>

section \<open>Policy and checks\<close>

record knowledge_policy =
  kp_embedding_model :: string
  kp_embedding_dimensions :: int
  kp_candidate_limit :: int
  kp_result_limit :: int
  kp_minimum_relevance :: rat
  kp_maximum_answer_characters :: int
  kp_maximum_source_bytes :: int

definition knowledge_policy_post_init :: "knowledge_policy \<Rightarrow> knowledge_policy res" where [ctor_defs]:
  "knowledge_policy_post_init p =
     (if blank (kp_embedding_model p) \<or> \<not> (1 \<le> kp_embedding_dimensions p \<and> kp_embedding_dimensions p \<le> 4096)
      then Inl (ValueError ''Knowledge embedding policy is invalid'')
      else if \<not> (1 \<le> kp_result_limit p \<and> kp_result_limit p \<le> kp_candidate_limit p \<and> kp_candidate_limit p \<le> 100)
      then Inl (ValueError ''Knowledge retrieval limits are invalid'')
      else if \<not> (1 / 2 \<le> kp_minimum_relevance p \<and> kp_minimum_relevance p \<le> 1)
      then Inl (ValueError ''Knowledge relevance threshold is invalid'')
      else if \<not> (200 \<le> kp_maximum_answer_characters p \<and> kp_maximum_answer_characters p \<le> 4000)
      then Inl (ValueError ''Knowledge answer limit is invalid'')
      else if \<not> (1024 \<le> kp_maximum_source_bytes p \<and> kp_maximum_source_bytes p \<le> 1073741824)
      then Inl (ValueError ''Knowledge source limit is invalid'')
      else Inr p)"

type_synonym embedder = "string list \<Rightarrow> string \<Rightarrow> int \<Rightarrow> py_float list list res"

text \<open>\<open>_locale\<close>: whatever is asked for, English.\<close>

definition knowledge_locale :: "string \<Rightarrow> locale_t" where
  "knowledge_locale s = EN"

fun is_finite :: "py_float \<Rightarrow> bool" where
  "is_finite (Fin _) = True"
| "is_finite _ = False"

definition validate_embeddings :: "py_float list list \<Rightarrow> nat \<Rightarrow> int \<Rightarrow> unit res" where
  "validate_embeddings vectors expected dimensions =
     (if length vectors \<noteq> expected \<or> list_ex (\<lambda>v. int (length v) \<noteq> dimensions) vectors
      then Inl (KnowledgeError ''Embedding response shape is invalid'')
      else if list_ex (list_ex (\<lambda>x. \<not> is_finite x)) vectors
      then Inl (KnowledgeError ''Embedding response contains invalid values'')
      else Inr ())"

section \<open>Ingestion\<close>

text \<open>The values of \<open>uuid4()\<close>: of the document, and of its chunks by position.\<close>

record document_ids =
  di_document :: uuid
  di_chunk :: "nat \<Rightarrow> uuid"

definition embedding_error :: "exc \<Rightarrow> exc" where
  "embedding_error e = (case e of AIProviderError _ _ \<Rightarrow> KnowledgeError ''Knowledge embedding is temporarily unavailable'' | _ \<Rightarrow> e)"

fun follow :: "knowledge_status list \<Rightarrow> knowledge_document \<Rightarrow> knowledge_document res" where
  "follow [] k = Inr k"
| "follow (s # ss) k = res_bind (knowledge_transition_to k s ()) (follow ss)"

definition prepare_document ::
  "embedder \<Rightarrow> knowledge_policy \<Rightarrow> document_ids \<Rightarrow> principal \<Rightarrow> string \<Rightarrow> string \<Rightarrow> locale_t
   \<Rightarrow> knowledge_source_type \<Rightarrow> chunk_draft list \<Rightarrow> prepared_document res" where
  "prepare_document provider policy ids p title source l st drafts = (
     let checksum = content_checksum source in
     res_bind (knowledge_post_init \<lparr>kd_id = DocumentId (di_document ids), kd_tenant_id = pr_tenant_id p, kd_title = title,
        kd_locale = l, kd_source_type = source_type_value st, kd_checksum = checksum, kd_version = 1,
        kd_status = K_UPLOADED, kd_published_at = None\<rparr>) (\<lambda>lifecycle.
     res_bind (follow [K_PARSING, K_CHUNKING, K_EMBEDDING] lifecycle) (\<lambda>embedding.
     case provider (map cd_text drafts) (kp_embedding_model policy) (kp_embedding_dimensions policy) of
       Inl e \<Rightarrow> Inl (embedding_error e)
     | Inr vectors \<Rightarrow>
         res_bind (validate_embeddings vectors (length drafts) (kp_embedding_dimensions policy)) (\<lambda>_.
         res_bind (follow [K_READY] embedding) (\<lambda>_.
         Inr \<lparr>pd_id = DocumentId (di_document ids), pd_tenant_id = pr_tenant_id p, pd_title = strip title, pd_locale = l,
           pd_source_type = st, pd_source_text = source, pd_checksum = checksum,
           pd_chunks = map (\<lambda>(i, d, v). \<lparr>pc_id = di_chunk ids i, pc_draft = d, pc_embedding = v,
             pc_embedding_model = kp_embedding_model policy\<rparr>) (enumerate 0 (zip drafts vectors))\<rparr>)))))"

definition ingest_source ::
  "embedder \<Rightarrow> knowledge_policy \<Rightarrow> document_ids \<Rightarrow> principal \<Rightarrow> string \<Rightarrow> string \<Rightarrow> locale_t
   \<Rightarrow> knowledge_source_type \<Rightarrow> chunk_draft list \<Rightarrow> (knowledge_db, document_view) act" where
  "ingest_source provider policy ids p title source l st drafts db =
     (if blank title \<or> 300 < length title \<or> kp_maximum_source_bytes policy < int (length (utf8 source))
      then (db, Inl (KnowledgeError ''Knowledge source title or size is invalid''))
      else case find_by_checksum (pr_tenant_id p) (content_checksum source) db of
        Some existing \<Rightarrow> (db, Inr existing)
      | None \<Rightarrow> (case prepare_document provider policy ids p title source l st drafts of
          Inl e \<Rightarrow> (db, Inl e)
        | Inr prepared \<Rightarrow> run_tx (ingest_document prepared) db))"

text \<open>None: the chunker does not return.\<close>

definition ingest_markdown ::
  "chunker \<Rightarrow> embedder \<Rightarrow> knowledge_policy \<Rightarrow> document_ids \<Rightarrow> principal \<Rightarrow> string \<Rightarrow> string \<Rightarrow> string
   \<Rightarrow> knowledge_db \<Rightarrow> (knowledge_db \<times> document_view res) option" where
  "ingest_markdown c provider policy ids p title markdown l db =
     (case require p KNOWLEDGE_WRITE of
        Inl e \<Rightarrow> Some (db, Inl e)
      | Inr _ \<Rightarrow> let source = normalize_source markdown in
          (case chunk_markdown c source of
             None \<Rightarrow> None
           | Some (Inl e) \<Rightarrow> Some (db, Inl e)
           | Some (Inr drafts) \<Rightarrow> Some (ingest_source provider policy ids p title source (knowledge_locale l) KS_MARKDOWN drafts db)))"

definition ingest_faq ::
  "chunker \<Rightarrow> embedder \<Rightarrow> knowledge_policy \<Rightarrow> document_ids \<Rightarrow> principal \<Rightarrow> string \<Rightarrow> string \<Rightarrow> string list \<Rightarrow> int \<Rightarrow> string
   \<Rightarrow> (knowledge_db, document_view) act" where
  "ingest_faq c provider policy ids p question answer aliases priority l =
     act_bind (act_res (require p KNOWLEDGE_WRITE)) (\<lambda>_.
     act_bind (act_res (chunk_faq c question answer aliases priority)) (\<lambda>drafts.
     ingest_source provider policy ids p (normalize_source question) (cd_text (hd drafts)) (knowledge_locale l) KS_FAQ drafts))"

definition publish_knowledge :: "datetime \<Rightarrow> principal \<Rightarrow> document_id \<Rightarrow> datetime option \<Rightarrow> (knowledge_db, document_view) act" where
  "publish_knowledge now p i at_opt =
     act_bind (act_res (require p KNOWLEDGE_WRITE)) (\<lambda>_.
     let published_at = (case at_opt of None \<Rightarrow> now | Some t \<Rightarrow> t) in
     if \<not> aware published_at then act_res (Inl (KnowledgeError ''Knowledge publication time must be timezone-aware''))
     else run_tx (publish_document (pr_tenant_id p) i (utc published_at)))"

definition archive_knowledge :: "principal \<Rightarrow> document_id \<Rightarrow> (knowledge_db, document_view) act" where
  "archive_knowledge p i = act_bind (act_res (require p KNOWLEDGE_WRITE)) (\<lambda>_. run_tx (archive_document (pr_tenant_id p) i))"

section \<open>Answers\<close>

definition knowledge_fallback :: "string \<Rightarrow> knowledge_answer" where
  "knowledge_fallback reason = \<lparr>ka_answered = False,
     ka_text = ''I don't have enough approved information to answer that reliably. Please ask a more specific question or contact the team.'',
     ka_evidence = [], ka_fallback_reason = Some reason\<rparr>"

text \<open>\<open>s.rsplit(" ", 1)[0]\<close>\<close>

definition before_last_space :: "string \<Rightarrow> string" where
  "before_last_space s = (if CHR '' '' \<in> set s then rev (tl (dropWhile (\<lambda>c. c \<noteq> CHR '' '') (rev s))) else s)"

definition cut_text :: "nat \<Rightarrow> string \<Rightarrow> string" where
  "cut_text available s = (if length s \<le> available then s else rstrip (before_last_space (take available s)))"

text \<open>The loop of \<open>_extractive_answer\<close>: the parts so far and their length with the separators.\<close>

fun answer_parts :: "int \<Rightarrow> string list \<Rightarrow> int \<Rightarrow> string list \<Rightarrow> string list" where
  "answer_parts maximum parts used [] = parts"
| "answer_parts maximum parts used (chunk_text # rest) = (
     let s = strip chunk_text; separator = (if parts \<noteq> [] then 2 else 0); available = maximum - used - separator in
     if available \<le> 0 then parts
     else let part = cut_text (nat available) s;
              parts' = (if part \<noteq> [] then parts @ [part] else parts);
              used1 = (if part \<noteq> [] then used + separator + int (length part) else used) in
       if available < int (length s) then parts' else answer_parts maximum parts' used1 rest)"

definition extractive_answer :: "evidence list \<Rightarrow> int \<Rightarrow> string" where
  "extractive_answer evidence maximum = join (newline @ newline) (answer_parts maximum [] 0 (map (\<lambda>e. rt_text (ev_chunk e)) evidence))"

definition evidence_of :: "retrieved_chunk \<Rightarrow> evidence res" where
  "evidence_of r = res_bind (mk_confidence (Fin (min 1 (max 0 (rt_score r))))) (\<lambda>score.
     res_bind (mk_citation (rt_document_id r) (rt_document_version r) (uuid_str (rt_chunk_id r)) score (rt_checksum r)) (\<lambda>c.
     Inr \<lparr>ev_chunk = r, ev_citation = c\<rparr>))"

definition retrieval_error :: "exc \<Rightarrow> bool" where
  "retrieval_error e = (case e of KnowledgeError _ \<Rightarrow> True | AIProviderError _ _ \<Rightarrow> True | _ \<Rightarrow> is_ValueError e)"

text \<open>The body of the \<open>try\<close>: one embedding of the query, and the search.\<close>

definition retrieve ::
  "embedder \<Rightarrow> ranking_functions \<Rightarrow> knowledge_policy \<Rightarrow> instant \<Rightarrow> tenant_id \<Rightarrow> string \<Rightarrow> string \<Rightarrow> knowledge_db
   \<Rightarrow> retrieved_chunk list res" where
  "retrieve provider rf policy now t query l db =
     res_bind (provider [query] (kp_embedding_model policy) (kp_embedding_dimensions policy)) (\<lambda>vectors.
     res_bind (validate_embeddings vectors 1 (kp_embedding_dimensions policy)) (\<lambda>_.
     Inr (hybrid_search rf t query (hd vectors) (knowledge_locale l) (kp_embedding_model policy)
       (nat (kp_candidate_limit policy)) (nat (kp_result_limit policy)) now db)))"

definition answer_for_tenant ::
  "embedder \<Rightarrow> ranking_functions \<Rightarrow> knowledge_policy \<Rightarrow> instant \<Rightarrow> tenant_id \<Rightarrow> string \<Rightarrow> string \<Rightarrow> knowledge_db
   \<Rightarrow> knowledge_answer res" where
  "answer_for_tenant provider rf policy now t query l db = (
     let query_value = normalize_source query in
     if query_value = [] \<or> 2000 < length query_value
     then Inl (KnowledgeError ''Knowledge query must contain 1-2000 characters'')
     else case retrieve provider rf policy now t query_value l db of
       Inl e \<Rightarrow> if retrieval_error e then Inr (knowledge_fallback ''retrieval_unavailable'') else Inl e
     | Inr candidates \<Rightarrow>
         let eligible = filter (\<lambda>r. kp_minimum_relevance policy \<le> rt_score r) candidates in
         if eligible = [] then Inr (knowledge_fallback ''insufficient_evidence'')
         else res_bind (res_map evidence_of eligible) (\<lambda>evidence.
           Inr \<lparr>ka_answered = True, ka_text = extractive_answer evidence (kp_maximum_answer_characters policy),
             ka_evidence = evidence, ka_fallback_reason = None\<rparr>))"

definition answer_knowledge ::
  "embedder \<Rightarrow> ranking_functions \<Rightarrow> knowledge_policy \<Rightarrow> instant \<Rightarrow> principal \<Rightarrow> string \<Rightarrow> string \<Rightarrow> knowledge_db
   \<Rightarrow> knowledge_answer res" where
  "answer_knowledge provider rf policy now p query l db =
     res_bind (require p KNOWLEDGE_READ) (\<lambda>_. answer_for_tenant provider rf policy now (pr_tenant_id p) query l db)"

section \<open>Re-indexing\<close>

fun update_embeddings :: "string \<Rightarrow> (reindex_candidate \<times> py_float list) list \<Rightarrow> knowledge_db \<Rightarrow> int \<Rightarrow> knowledge_db \<times> int" where
  "update_embeddings model [] db n = (db, n)"
| "update_embeddings model ((c, v) # rest) db n = (case update_embedding c v model db of (db', found) \<Rightarrow>
     update_embeddings model rest db' (n + of_bool found))"

definition reindex :: "embedder \<Rightarrow> knowledge_policy \<Rightarrow> int \<Rightarrow> (knowledge_db, int) act" where
  "reindex provider policy limit db =
     (if \<not> (1 \<le> limit \<and> limit \<le> 1000) then (db, Inl (KnowledgeError ''Knowledge re-index batch size is invalid''))
      else let candidates = list_reindex_candidates (kp_embedding_model policy) (kp_embedding_dimensions policy) (nat limit) db in
        if candidates = [] then (db, Inr 0)
        else case res_bind (provider (map rc_text candidates) (kp_embedding_model policy) (kp_embedding_dimensions policy)) (\<lambda>vectors.
            res_bind (validate_embeddings vectors (length candidates) (kp_embedding_dimensions policy)) (\<lambda>_. Inr vectors)) of
          Inl e \<Rightarrow> (db, Inl e)
        | Inr vectors \<Rightarrow> (case update_embeddings (kp_embedding_model policy) (zip candidates vectors) db 0 of (db', n) \<Rightarrow> (db', Inr n)))"

end
