(* ===== verification/KnowledgeFacts.thy ===== *)
theory KnowledgeFacts
  imports KnowledgeUse
begin

text \<open>
  The knowledge base: chunking ends and loses no word, an answer is made of what was published, and
  the rows follow the document aggregate of the domain.
\<close>

section \<open>The windows of a section\<close>

function window_list :: "nat \<Rightarrow> nat \<Rightarrow> 'a list \<Rightarrow> nat \<Rightarrow> 'a list list" where
  "window_list m step ws start =
     (if step = 0 \<or> length ws \<le> start then []
      else take m (drop start ws) # (if length ws \<le> start + m then [] else window_list m step ws (start + step)))"
  by pat_completeness auto
termination by (relation "measure (\<lambda>(m, step, ws, start). length ws - start)") auto

declare window_list.simps [simp del]

text \<open>The words of consecutive windows put together again: all but the first repeat \<open>ov\<close> words.\<close>

fun stitch :: "nat \<Rightarrow> 'a list list \<Rightarrow> 'a list" where
  "stitch ov [] = []"
| "stitch ov (w # ws) = w @ concat (map (drop ov) ws)"

lemma windows_rest:
  assumes "0 < step" and "start < length ws"
  shows "concat (map (drop ov) (window_list (step + ov) step ws start)) = drop (start + ov) ws"
  using assms
proof (induction "step + ov" step ws start rule: window_list.induct)
  case (1 step ws start)
  have cut: "drop ov (take (step + ov) (drop start ws)) = take step (drop (start + ov) ws)"
    by (simp add: drop_take add.commute)
  show ?case
  proof (cases "length ws \<le> start + (step + ov)")
    case True
    then show ?thesis using 1(2,3) cut by (subst window_list.simps) (simp add: add.commute)
  next
    case False
    then have "concat (map (drop ov) (window_list (step + ov) step ws (start + step))) = drop (start + step + ov) ws"
      using 1(2,3) by (intro 1(1)) auto
    moreover have "take step (drop (start + ov) ws) @ drop (start + step + ov) ws = drop (start + ov) ws"
      by (metis append_take_drop_id drop_drop add.assoc add.commute)
    ultimately show ?thesis using False 1(2,3) cut by (subst window_list.simps) simp
  qed
qed

lemma windows_cover:
  assumes "0 < step"
  shows "stitch ov (window_list (step + ov) step ws 0) = ws"
proof (cases "ws = []")
  case True
  then show ?thesis by (simp add: window_list.simps)
next
  case False
  show ?thesis
  proof (cases "length ws \<le> step + ov")
    case True
    then show ?thesis using False assms by (subst window_list.simps) simp
  next
    case long: False
    then have "concat (map (drop ov) (window_list (step + ov) step ws step)) = drop (step + ov) ws"
      using assms by (intro windows_rest) auto
    then show ?thesis using False long assms by (subst window_list.simps) simp
  qed
qed

lemma windows_bounds: "w \<in> set (window_list m step ws start) \<Longrightarrow> 0 < m \<Longrightarrow> 0 < length w \<and> length w \<le> m \<and> set w \<subseteq> set ws"
proof (induction m step ws start rule: window_list.induct)
  case (1 m step ws start)
  then show ?case
    by (subst (asm) window_list.simps) (auto split: if_splits dest: in_set_takeD in_set_dropD)
qed

section \<open>The chunk of a window\<close>

definition word :: "string \<Rightarrow> bool" where
  "word w = (w \<noteq> [] \<and> list_all (\<lambda>c. \<not> is_space c) w)"

definition chunk_text :: "string option \<Rightarrow> string list \<Rightarrow> string" where
  "chunk_text heading window = strip ((case heading of None \<Rightarrow> [] | Some h \<Rightarrow> if h = [] then [] else h @ newline) @ join '' '' window)"

definition draft_of :: "string option \<Rightarrow> nat \<Rightarrow> string list \<Rightarrow> chunk_draft" where
  "draft_of heading ordinal window = \<lparr>cd_ordinal = int ordinal, cd_text = chunk_text heading window,
     cd_token_count = int (length window), cd_checksum = content_checksum (chunk_text heading window), cd_section = heading,
     cd_instruction_risk = has_instruction_risk (chunk_text heading window), cd_metadata = []\<rparr>"


lemma window_not_blank:
  assumes "window \<noteq> []" and "list_all word window"
  shows "\<not> blank (chunk_text heading window)"
proof -
  obtain w rest where window: "window = w # rest" using assms(1) by (cases window) auto
  then obtain c cs where "w = c # cs" "\<not> is_space c" using assms(2) by (cases w) (auto simp: word_def)
  then have "c \<in> set (join '' '' window)" using window by (cases rest) simp_all
  then have "\<not> list_all is_space (p @ join '' '' window)" for p using \<open>\<not> is_space c\<close> by (auto simp: list_all_iff)
  moreover have "blank (strip s) = blank s" for s
  proof
    assume b: "blank (strip s)"
    show "blank s"
    proof (rule ccontr)
      assume n: "\<not> blank s"
      then have ne: "dropWhile is_space s \<noteq> []" by (auto simp: blank_iff list_all_iff dropWhile_eq_Nil_conv)
      let ?t = "dropWhile is_space s"
      have "\<not> is_space (hd ?t)" using ne by (rule hd_dropWhile)
      then have "\<exists>x \<in> set ?t. \<not> is_space x" using ne hd_in_set by blast
      then have "dropWhile is_space (rev ?t) \<noteq> []" by (rule dropWhile_rev_nonempty)
      then have "\<not> is_space (hd (dropWhile is_space (rev ?t)))" "hd (dropWhile is_space (rev ?t)) \<in> set (strip s)"
        using hd_dropWhile [of is_space "rev ?t"] by (simp_all add: strip_def lstrip_def rstrip_def)
      then show False using b by (auto simp: blank_iff list_all_iff)
    qed
  next
    assume "blank s"
    then show "blank (strip s)" by (simp add: blank_def)
  qed
  ultimately show ?thesis by (simp add: chunk_text_def blank_iff)
qed

lemma chunk_of_words:
  assumes "window \<noteq> []" and "list_all word window"
  shows "chunk_of_window heading ordinal window = Inr (draft_of heading ordinal window)"
  using window_not_blank [OF assms, of heading] assms(1)
  by (simp add: chunk_of_window_def Let_def draft_of_def chunk_post_init_def chunk_text_def [symmetric] Suc_le_eq)

lemma words_of_split: "list_all word (split_ws s)"
  using split_ws_words by (auto simp: list_all_iff word_def)

text \<open>Drafts numbered from \<open>n\<close> on.\<close>

definition numbered :: "string option \<Rightarrow> nat \<Rightarrow> string list list \<Rightarrow> chunk_draft list" where
  "numbered heading n windows = map (\<lambda>(i, w). draft_of heading i w) (enumerate n windows)"

lemma numbered_simps [simp]:
  "numbered h n [] = []" "numbered h n (w # ws) = draft_of h n w # numbered h (Suc n) ws" "length (numbered h n ws) = length ws"
  by (simp_all add: numbered_def)

lemma window_loop_ends:
  assumes "0 < step" and "0 < m" and "list_all word tokens"
  shows "window_loop m step heading tokens start chunks
    = Some (Inr (chunks @ numbered heading (length chunks) (window_list m step tokens start)))"
  using assms
proof (induction m step tokens start arbitrary: chunks rule: window_list.induct)
  case (1 m step tokens start)
  show ?case
  proof (cases "length tokens \<le> start")
    case True
    then show ?thesis by (simp add: window_loop.simps [of m step] window_list.simps)
  next
    case False
    let ?w = "take m (drop start tokens)"
    have "list_all word ?w" using 1(4) by (auto simp: list_all_iff dest: in_set_takeD in_set_dropD)
    moreover have "?w \<noteq> []" using False 1(3) by simp
    ultimately have c: "chunk_of_window heading (length chunks) ?w = Inr (draft_of heading (length chunks) ?w)"
      by (intro chunk_of_words)
    show ?thesis
    proof (cases "length tokens \<le> start + m")
      case True
      have "window_list m step tokens start = [?w]" using True False 1(2) by (subst window_list.simps) simp
      then show ?thesis using True False c by (subst window_loop.simps) simp
    next
      case long: False
      let ?d = "draft_of heading (length chunks) ?w"
      have w: "window_list m step tokens start = ?w # window_list m step tokens (start + step)"
        using long False 1(2) by (subst window_list.simps) simp
      have "window_loop m step heading tokens start chunks = window_loop m step heading tokens (start + step) (chunks @ [?d])"
        using long False c by (subst window_loop.simps) simp
      also have "\<dots> = Some (Inr ((chunks @ [?d]) @ numbered heading (length (chunks @ [?d])) (window_list m step tokens (start + step))))"
        by (rule 1(1)) (use long False 1(2-4) in auto)
      finally show ?thesis unfolding w by simp
    qed
  qed
qed


section \<open>The chunks of a document\<close>

fun chunk_groups :: "chunker \<Rightarrow> (string option \<times> string) list \<Rightarrow> nat \<Rightarrow> chunk_draft list list" where
  "chunk_groups c [] n = []"
| "chunk_groups c ((heading, body) # sections) n = (
     let windows = window_list (nat (ck_max_tokens c)) (nat (ck_max_tokens c - ck_overlap_tokens c)) (split_ws body) 0
     in numbered heading n windows # chunk_groups c sections (n + length windows))"

lemma chunker_valid:
  assumes "chunker_post_init c = Inr c"
  obtains step ov where "nat (ck_max_tokens c - ck_overlap_tokens c) = step" "nat (ck_max_tokens c) = step + ov"
    "ov = nat (ck_overlap_tokens c)" "0 < step"
proof
  show "nat (ck_max_tokens c - ck_overlap_tokens c) = nat (ck_max_tokens c - ck_overlap_tokens c)" "nat (ck_overlap_tokens c) = nat (ck_overlap_tokens c)"
    by simp_all
  show "nat (ck_max_tokens c) = nat (ck_max_tokens c - ck_overlap_tokens c) + nat (ck_overlap_tokens c)" "0 < nat (ck_max_tokens c - ck_overlap_tokens c)"
    using assms by (auto simp: chunker_post_init_def split: if_splits)
qed

lemma section_loop_ends:
  assumes "chunker_post_init c = Inr c"
  shows "section_loop c sections chunks = Some (Inr (chunks @ concat (chunk_groups c sections (length chunks))))"
proof (induction sections arbitrary: chunks)
  case (Cons sec0 sections)
  obtain heading body where sec: "sec0 = (heading, body)" by (cases sec0)
  obtain step ov where v: "nat (ck_max_tokens c - ck_overlap_tokens c) = step" "nat (ck_max_tokens c) = step + ov" "0 < step"
    using assms by (rule chunker_valid)
  let ?ws = "window_list (step + ov) step (split_ws body) 0"
  have "window_loop (step + ov) step heading (split_ws body) 0 chunks = Some (Inr (chunks @ numbered heading (length chunks) ?ws))"
    by (rule window_loop_ends) (use v words_of_split in auto)
  then show ?case by (simp add: sec v Let_def Cons.IH)
qed simp

text \<open>
  A section is chunked: the chunks are windows of its words with its heading, none empty and none
  longer than allowed, and the windows put together again are the words.
\<close>

definition section_chunked :: "chunker \<Rightarrow> string option \<times> string \<Rightarrow> chunk_draft list \<Rightarrow> bool" where
  "section_chunked c sec chunks = (\<exists>windows. map cd_text chunks = map (chunk_text (fst sec)) windows
     \<and> map cd_token_count chunks = map (int \<circ> length) windows
     \<and> (\<forall>d \<in> set chunks. cd_section d = fst sec \<and> 1 \<le> cd_token_count d \<and> cd_token_count d \<le> ck_max_tokens c
          \<and> cd_checksum d = content_checksum (cd_text d) \<and> cd_instruction_risk d = has_instruction_risk (cd_text d))
     \<and> stitch (nat (ck_overlap_tokens c)) windows = split_ws (snd sec))"

lemma numbered_maps:
  "map cd_text (numbered h n ws) = map (chunk_text h) ws" "map cd_token_count (numbered h n ws) = map (int \<circ> length) ws"
  "map cd_ordinal (numbered h n ws) = map int [n..<n + length ws]"
  by (induction ws arbitrary: n) (simp_all add: draft_of_def upt_conv_Cons del: upt_Suc)

lemma numbered_member: "d \<in> set (numbered h n ws) \<Longrightarrow> \<exists>i. \<exists>w \<in> set ws. d = draft_of h i w"
  by (induction ws arbitrary: n) (simp, fastforce)

lemma section_is_chunked:
  assumes "chunker_post_init c = Inr c"
  shows "section_chunked c (h, body)
    (numbered h n (window_list (nat (ck_max_tokens c)) (nat (ck_max_tokens c - ck_overlap_tokens c)) (split_ws body) 0))"
proof -
  obtain step ov where v: "nat (ck_max_tokens c - ck_overlap_tokens c) = step" "nat (ck_max_tokens c) = step + ov"
    "ov = nat (ck_overlap_tokens c)" "0 < step"
    using assms by (rule chunker_valid)
  let ?ws = "window_list (step + ov) step (split_ws body) 0"
  have fields: "cd_section d = h \<and> 1 \<le> cd_token_count d \<and> cd_token_count d \<le> ck_max_tokens c
      \<and> cd_checksum d = content_checksum (cd_text d) \<and> cd_instruction_risk d = has_instruction_risk (cd_text d)"
    if d: "d \<in> set (numbered h n ?ws)" for d
  proof -
    obtain i w where w: "w \<in> set ?ws" "d = draft_of h i w" using numbered_member [OF d] by blast
    have "0 < length w \<and> length w \<le> step + ov" using windows_bounds [OF w(1)] v(4) by simp
    then have "1 \<le> int (length w)" "int (length w) \<le> ck_max_tokens c" using v(2) by linarith+
    then show ?thesis by (simp add: w(2) draft_of_def)
  qed
  show ?thesis
    unfolding section_chunked_def v(1,2) fst_conv snd_conv
    by (intro exI [of _ ?ws] conjI ballI numbered_maps fields) (simp_all only: v(3) [symmetric] windows_cover [OF v(4)])
qed

lemma groups_chunked: "chunker_post_init c = Inr c \<Longrightarrow> list_all2 (section_chunked c) sections (chunk_groups c sections n)"
proof (induction sections arbitrary: n)
  case (Cons sec sections)
  then show ?case by (cases sec) (simp add: Let_def section_is_chunked)
qed simp

lemma groups_ordinals: "map cd_ordinal (concat (chunk_groups c sections n)) = map int [n..<n + length (concat (chunk_groups c sections n))]"
proof (induction sections arbitrary: n)
  case (Cons sec sections)
  obtain h body where sec: "sec = (h, body)" by (cases sec)
  let ?ws = "window_list (nat (ck_max_tokens c)) (nat (ck_max_tokens c - ck_overlap_tokens c)) (split_ws body) 0"
  have "[n..<n + (length ?ws + k)] = [n..<n + length ?ws] @ [n + length ?ws..<n + length ?ws + k]" for k
    using upt_add_eq_append [of n "n + length ?ws" k] by (simp add: add.assoc)
  then show ?case using Cons.IH [of "n + length ?ws"] by (simp add: sec Let_def numbered_maps(3))
qed simp

lemma groups_empty:
  assumes "chunker_post_init c = Inr c" and "concat (chunk_groups c sections n) = []" and "sec \<in> set sections"
  shows "split_ws (snd sec) = []"
proof -
  obtain g where g: "g \<in> set (chunk_groups c sections n)" "section_chunked c sec g"
    using groups_chunked [OF assms(1), of sections n] assms(3) by (metis in_set_conv_nth list_all2_conv_all_nth)
  then have "g = []" using assms(2) by auto
  then show ?thesis using g(2) by (auto simp: section_chunked_def)
qed

text \<open>C7. Chunking a Markdown source always ends, for every chunker that can be constructed: either it
  raises a ValueError, and then no section of the source has a word, or it returns chunks numbered
  from 0, section by section in order, where the chunks of a section are windows of its words with
  its heading, of 1 to the maximum number of words, that give back exactly the words of the section
  when the repeated words are dropped: no word is lost and none is added.\<close>

theorem markdown_chunks_cover:
  assumes "chunker_post_init c = Inr c"
  shows "\<exists>r. chunk_markdown c source = Some r \<and> (case r of
      Inl e \<Rightarrow> is_ValueError e \<and> (\<forall>sec \<in> set (sections_of (normalize_source source)). split_ws (snd sec) = [])
    | Inr chunks \<Rightarrow> chunks \<noteq> [] \<and> map cd_ordinal chunks = map int [0..<length chunks]
        \<and> (\<exists>groups. concat groups = chunks \<and> list_all2 (section_chunked c) (sections_of (normalize_source source)) groups))"
proof (cases "normalize_source source = []")
  case True
  then show ?thesis by (simp add: chunk_markdown_def sections_of_def splitlines_def flush_section_def)
next
  case False
  let ?groups = "chunk_groups c (sections_of (normalize_source source)) 0"
  have loop: "section_loop c (sections_of (normalize_source source)) [] = Some (Inr (concat ?groups))"
    using section_loop_ends [OF assms, of "sections_of (normalize_source source)" "[]"] by simp
  show ?thesis
  proof (cases "concat ?groups = []")
    case True
    then have "\<forall>sec \<in> set (sections_of (normalize_source source)). split_ws (snd sec) = []" using groups_empty [OF assms True] by blast
    then show ?thesis using False loop True by (simp add: chunk_markdown_def)
  next
    case some: False
    have r: "chunk_markdown c source = Some (Inr (concat ?groups))"
      using False loop some by (simp add: chunk_markdown_def del: concat_eq_Nil_conv)
    show ?thesis
      unfolding r using some groups_ordinals [of c "sections_of (normalize_source source)" 0] groups_chunked [OF assms]
      by (intro exI [of _ "Inr (concat ?groups)"] conjI refl) auto
  qed
qed

definition default_chunker :: chunker where
  "default_chunker = \<lparr>ck_max_tokens = 500, ck_overlap_tokens = 50\<rparr>"

theorem markdown_chunks_cover_witness:
  "\<exists>r. chunk_markdown default_chunker (''# Hours'' @ newline @ ''open daily'') = Some r"
proof -
  have "chunker_post_init default_chunker = Inr default_chunker" by (simp add: chunker_post_init_def default_chunker_def)
  from markdown_chunks_cover [OF this] show ?thesis by blast
qed

end
