(* ===== verification/KnowledgeAnswers.thy ===== *)
theory KnowledgeAnswers
  imports KnowledgeUse
begin

text \<open>
  What an answer is made of: published, current text of the tenant, quoted and never longer than
  allowed; and the rows of documents as the document aggregate of the domain.
\<close>

section \<open>Search results come from searchable rows\<close>

lemma joined_mem: "(k, d) \<in> set (joined db) \<longleftrightarrow> k \<in> set (kb_chunks db) \<and> d \<in> set (kb_documents db) \<and> chunk_of_document d k"
  by (auto simp: joined_def)

lemma dict_set_values: "snd ` set (dict_set k v d) \<subseteq> insert v (snd ` set d)"
proof (induction d)
  case (Cons p d)
  then show ?case by (cases p) auto
qed simp

lemma fused_rows_values: "set (map snd (fused_rows ranked)) \<subseteq> set ranked"
proof -
  have "snd ` set (foldl (\<lambda>rows (k, d). dict_set (kw_id k) (k, d) rows) acc ranked) \<subseteq> snd ` set acc \<union> set ranked" for acc
  proof (induction ranked arbitrary: acc)
    case (Cons kd ranked)
    obtain k d where kd: "kd = (k, d)" by (cases kd)
    show ?case using Cons [of "dict_set (kw_id k) (k, d) acc"] dict_set_values [of "kw_id k" "(k, d)" acc] by (auto simp: kd)
  qed simp
  from this [of "[]"] show ?thesis by (simp add: fused_rows_def)
qed

lemma first_by_checksum_mem: "r \<in> set (first_by_checksum seen rs) \<Longrightarrow> r \<in> set rs"
  by (induction seen rs rule: first_by_checksum.induct) (auto split: if_splits)

lemma fuse_mem:
  assumes "r \<in> set (fuse lexical vector n query)"
  shows "\<exists>kd \<in> set lexical \<union> set vector. r = retrieved query lexical vector kd"
proof -
  have "r \<in> set (map (retrieved query lexical vector) (map snd (fused_rows (lexical @ vector))))"
    using assms first_by_checksum_mem unfolding fuse_def by (fastforce dest: in_set_takeD)
  then show ?thesis using fused_rows_values [of "lexical @ vector"] by auto
qed

lemma search_mem:
  assumes "r \<in> set (hybrid_search rf t query qe l model candidates results now db)"
  shows "\<exists>k d. k \<in> set (kb_chunks db) \<and> d \<in> set (kb_documents db) \<and> chunk_of_document d k \<and> searchable t l now (k, d)
    \<and> rt_document_id r = dw_id d \<and> rt_document_version r = dw_version d \<and> rt_chunk_id r = kw_id k \<and> rt_text r = kw_text k
    \<and> rt_checksum r = kw_checksum k"
proof -
  obtain lexical vector where r: "r \<in> set (fuse lexical vector results query)"
    and s: "set lexical \<union> set vector \<subseteq> set (filter (searchable t l now) (joined db))"
    using assms unfolding hybrid_search_def Let_def by (rule that) (auto dest!: in_set_takeD)
  obtain k d where kd: "(k, d) \<in> set lexical \<union> set vector" "r = retrieved query lexical vector (k, d)" using fuse_mem [OF r] by auto
  then have "searchable t l now (k, d)" "(k, d) \<in> set (joined db)" using s by auto
  then show ?thesis using kd(2) by (auto simp: joined_mem retrieved_def Let_def)
qed

lemma search_length: "length (hybrid_search rf t query qe l model candidates results now db) \<le> results"
  by (simp add: hybrid_search_def Let_def fuse_def)

section \<open>The text of an answer\<close>

lemma rstrip_prefix: "prefix (rstrip s) s"
  unfolding rstrip_def by (metis suffix_dropWhile suffix_to_prefix rev_rev_ident)

lemma before_last_space_prefix: "prefix (before_last_space s) s"
proof -
  have "suffix (tl (dropWhile P (rev s))) (rev s)" for P
    by (rule suffix_order.trans [OF suffix_tl suffix_dropWhile])
  then show ?thesis unfolding before_last_space_def by (metis suffix_to_prefix rev_rev_ident prefix_order.refl)
qed

lemma cut_text_prefix: "prefix (cut_text n s) s"
proof (cases "length s \<le> n")
  case False
  have "prefix (rstrip (before_last_space (take n s))) s"
    by (rule prefix_order.trans [OF rstrip_prefix prefix_order.trans [OF before_last_space_prefix take_is_prefix]])
  then show ?thesis using False by (simp add: cut_text_def)
qed (simp add: cut_text_def)

lemma cut_text_length: "length (cut_text n s) \<le> n"
proof (cases "length s \<le> n")
  case False
  have "prefix (cut_text n s) (take n s)"
    using False prefix_order.trans [OF rstrip_prefix before_last_space_prefix] by (simp add: cut_text_def)
  then show ?thesis by (auto dest: prefix_length_le)
qed (simp add: cut_text_def)

lemma join_snoc: "join sep (parts @ [x]) = (if parts = [] then x else join sep parts @ sep @ x)"
  by (induction sep parts rule: join.induct) simp_all

definition quoted :: "int \<Rightarrow> string list \<Rightarrow> string list \<Rightarrow> bool" where
  "quoted maximum chunk_texts parts = (int (length (join (newline @ newline) parts)) \<le> maximum
     \<and> (\<forall>p \<in> set parts. p \<noteq> [] \<and> (\<exists>t \<in> set chunk_texts. prefix p (strip t))))"

lemma answer_parts_quoted:
  assumes "quoted maximum all parts" and "used = int (length (join (newline @ newline) parts))" and "set rest \<subseteq> set all"
  shows "quoted maximum all (answer_parts maximum parts used rest)"
  using assms
proof (induction maximum parts used rest rule: answer_parts.induct)
  case (2 maximum parts used t rest)
  let ?separator = "if parts \<noteq> [] then 2 else 0 :: int"
  let ?available = "maximum - used - ?separator"
  let ?part = "cut_text (nat ?available) (strip t)"
  show ?case
  proof (cases "?available \<le> 0")
    case False
    have len: "int (length (join (newline @ newline) (parts @ [?part]))) = used + ?separator + int (length ?part)"
      using 2(3) by (simp add: join_snoc newline_def)
    have "int (length ?part) \<le> ?available" using cut_text_length [of "nat ?available" "strip t"] False by linarith
    then have grown: "quoted maximum all (parts @ [?part])" if "?part \<noteq> []"
      using 2(2,4) len that cut_text_prefix [of "nat ?available" "strip t"] unfolding quoted_def by auto
    let ?parts1 = "if ?part \<noteq> [] then parts @ [?part] else parts"
    let ?used1 = "if ?part \<noteq> [] then used + ?separator + int (length ?part) else used"
    have eq: "answer_parts maximum parts used (t # rest)
        = (if ?available < int (length (strip t)) then ?parts1 else answer_parts maximum ?parts1 ?used1 rest)"
      by (simp only: answer_parts.simps Let_def if_not_P [OF False])
    have q: "quoted maximum all ?parts1" using grown 2(2) by simp
    have u: "?used1 = int (length (join (newline @ newline) ?parts1))" using len 2(3) by simp
    have s: "set rest \<subseteq> set all" using 2(4) by simp
    show ?thesis
    proof (cases "?available < int (length (strip t))")
      case True
      show ?thesis unfolding eq if_P [OF True] by (rule q)
    next
      case more: False
      show ?thesis unfolding eq if_not_P [OF more] by (rule 2(1) [OF refl refl refl False refl refl refl more q u s])
    qed
  qed (use 2 in \<open>simp add: Let_def\<close>)
qed simp


lemma res_map_evidence: "res_map evidence_of rs = Inr es \<Longrightarrow> map ev_chunk es = rs"
proof (induction rs arbitrary: es)
  case (Cons r rs)
  then obtain e es' where "evidence_of r = Inr e" "res_map evidence_of rs = Inr es'" "es = e # es'"
    by (auto simp: res_bind_Inr_iff)
  moreover have "ev_chunk e = r" using \<open>evidence_of r = Inr e\<close> by (auto simp: evidence_of_def res_bind_Inr_iff)
  ultimately show ?case using Cons.IH [of es'] by simp
qed simp

text \<open>A retrieved chunk is published, current text of the tenant that is not marked as risky.\<close>

definition grounded :: "knowledge_db \<Rightarrow> tenant_id \<Rightarrow> instant \<Rightarrow> retrieved_chunk \<Rightarrow> bool" where
  "grounded db t now r = (\<exists>k d. k \<in> set (kb_chunks db) \<and> d \<in> set (kb_documents db) \<and> chunk_of_document d k
     \<and> searchable t EN now (k, d) \<and> rt_document_id r = dw_id d \<and> rt_document_version r = dw_version d
     \<and> rt_chunk_id r = kw_id k \<and> rt_text r = kw_text k \<and> rt_checksum r = kw_checksum k)"

text \<open>C14. An answer is quoted from published knowledge of the tenant and nothing else: it has between one
  and the allowed number of pieces of evidence, each scores at least the required relevance and is a
  chunk, not marked as risky, of a ready document of this tenant that is published and in effect at
  that time, whatever the embedding provider and the ranking functions return; the text consists of
  beginnings of evidence texts, and is not longer than allowed.\<close>

theorem answer_grounded:
  assumes "answer_for_tenant provider rf policy now t query l db = Inr ans" and "ka_answered ans"
    and "knowledge_policy_post_init policy = Inr policy"
  shows "ka_evidence ans \<noteq> [] \<and> int (length (ka_evidence ans)) \<le> kp_result_limit policy
    \<and> (\<forall>e \<in> set (ka_evidence ans). kp_minimum_relevance policy \<le> rt_score (ev_chunk e) \<and> grounded db t now (ev_chunk e))
    \<and> int (length (ka_text ans)) \<le> kp_maximum_answer_characters policy
    \<and> (\<exists>parts. ka_text ans = join (newline @ newline) parts
        \<and> (\<forall>p \<in> set parts. p \<noteq> [] \<and> (\<exists>e \<in> set (ka_evidence ans). prefix p (strip (rt_text (ev_chunk e))))))"
proof -
  obtain candidates es where c: "retrieve provider rf policy now t (normalize_source query) l db = Inr candidates"
    and es: "res_map evidence_of (filter (\<lambda>r. kp_minimum_relevance policy \<le> rt_score r) candidates) = Inr es"
    and some: "filter (\<lambda>r. kp_minimum_relevance policy \<le> rt_score r) candidates \<noteq> []"
    and ans: "ka_evidence ans = es" "ka_text ans = extractive_answer es (kp_maximum_answer_characters policy)"
    using assms(1,2) unfolding answer_for_tenant_def Let_def
    by (auto simp: knowledge_fallback_def res_bind_Inr_iff split: if_splits sum.splits)
  have chunks: "map ev_chunk es = filter (\<lambda>r. kp_minimum_relevance policy \<le> rt_score r) candidates"
    by (rule res_map_evidence [OF es])
  obtain qe where search: "candidates = hybrid_search rf t (normalize_source query) qe (knowledge_locale l) (kp_embedding_model policy)
      (nat (kp_candidate_limit policy)) (nat (kp_result_limit policy)) now db"
    using c by (auto simp: retrieve_def res_bind_Inr_iff)
  have limits: "1 \<le> kp_result_limit policy" "200 \<le> kp_maximum_answer_characters policy"
    using assms(3) by (auto simp: knowledge_policy_post_init_def split: if_splits)
  have "length es \<le> length candidates" using chunks by (metis length_filter_le length_map)
  also have "\<dots> \<le> nat (kp_result_limit policy)" unfolding search by (rule search_length)
  finally have count: "int (length es) \<le> kp_result_limit policy" using limits(1) by linarith
  have ground: "kp_minimum_relevance policy \<le> rt_score (ev_chunk e) \<and> grounded db t now (ev_chunk e)" if e: "e \<in> set es" for e
  proof -
    have "ev_chunk e \<in> set (map ev_chunk es)" using e by simp
    then have "ev_chunk e \<in> set candidates" "kp_minimum_relevance policy \<le> rt_score (ev_chunk e)" unfolding chunks by auto
    then show ?thesis using search_mem unfolding search grounded_def knowledge_locale_def by blast
  qed
  let ?texts = "map (\<lambda>e. rt_text (ev_chunk e)) es"
  have "quoted (kp_maximum_answer_characters policy) ?texts (answer_parts (kp_maximum_answer_characters policy) [] 0 ?texts)"
    by (rule answer_parts_quoted) (use limits(2) in \<open>simp_all add: quoted_def\<close>)
  moreover have "es \<noteq> []" using some chunks by auto
  ultimately show ?thesis using count ground unfolding ans extractive_answer_def quoted_def
    by (intro conjI ballI exI [of _ "answer_parts (kp_maximum_answer_characters policy) [] 0 ?texts"]) auto
qed


definition hours_document :: document_row where
  "hours_document = \<lparr>dw_id = DocumentId 3, dw_tenant_id = TenantId 1, dw_title = ''Hours'', dw_locale = EN, dw_source_type = KS_MARKDOWN,
     dw_checksum = replicate 32 (CHR ''a''), dw_source_text = ''Open daily'', dw_version = 1, dw_status = K_READY, dw_published_at = Some 5,
     dw_effective_from = None, dw_effective_until = None\<rparr>"

definition hours_chunk :: chunk_row where
  "hours_chunk = \<lparr>kw_id = 4, kw_tenant_id = TenantId 1, kw_document_id = DocumentId 3, kw_document_version = 1, kw_ordinal = 0,
     kw_text = ''Open daily'', kw_token_count = 2, kw_embedding = Some [Fin 1], kw_embedding_model = Some ''m'',
     kw_embedding_dimensions = Some 1, kw_instruction_risk = False, kw_metadata = [], kw_checksum = replicate 32 (CHR ''a'')\<rparr>"

definition hours_db :: knowledge_db where
  "hours_db = \<lparr>kb_documents = [hours_document], kb_chunks = [hours_chunk]\<rparr>"

definition sample_policy :: knowledge_policy where
  "sample_policy = \<lparr>kp_embedding_model = ''m'', kp_embedding_dimensions = 1, kp_candidate_limit = 20, kp_result_limit = 4,
     kp_minimum_relevance = 3 / 5, kp_maximum_answer_characters = 1800, kp_maximum_source_bytes = 1048576\<rparr>"

definition same_rank :: ranking_functions where
  "same_rank = \<lparr>rf_ts_rank = (\<lambda>q k. 1), rf_distance = (\<lambda>a b. 0)\<rparr>"

definition one_vector :: embedder where
  "one_vector texts model dimensions = Inr (map (\<lambda>_. [Fin 1]) texts)"

definition hours_result :: retrieved_chunk where
  "hours_result = retrieved ''open?'' [(hours_chunk, hours_document)] [(hours_chunk, hours_document)] (hours_chunk, hours_document)"

lemma hours_query: "normalize_source ''open?'' = ''open?''"
  by code_simp

lemma hours_search: "hybrid_search same_rank (TenantId 1) ''open?'' [Fin 1] EN ''m'' 20 4 9 hours_db = [hours_result]"
  by (simp add: hybrid_search_def Let_def hours_db_def joined_def searchable_def chunk_of_document_def same_rank_def fuse_def
    fused_rows_def hours_result_def hours_document_def hours_chunk_def)

lemma hours_score: "rt_score hours_result = 1"
  by (simp add: hours_result_def retrieved_def rank_in_def fused_score_def reciprocal_def Let_def hours_document_def hours_chunk_def coverage_def)


lemma hours_evidence: "\<exists>e. evidence_of hours_result = Inr e"
proof -
  have dash: "CHR ''-'' \<in> set (uuid_str u)" "\<not> is_space CHR ''-''" for u by (simp_all add: uuid_str_def Let_def is_space_def code_def)
  have "\<not> blank (uuid_str u)" for u using dash unfolding blank_iff list_all_iff by blast
  moreover have "is_checksum (replicate 32 (CHR ''a''))" by (simp add: is_checksum_def list_all_iff is_hex_def is_digit_def code_def)
  ultimately show ?thesis
    by (simp add: evidence_of_def hours_score mk_confidence_def unit_interval_def mk_citation_def)
      (simp add: hours_result_def retrieved_def Let_def hours_document_def hours_chunk_def)
qed

lemma hours_answer: "\<exists>ans. answer_for_tenant one_vector same_rank sample_policy 9 (TenantId 1) ''open?'' ''en'' hours_db = Inr ans \<and> ka_answered ans"
proof -
  obtain e where e: "evidence_of hours_result = Inr e" using hours_evidence by blast
  have "retrieve one_vector same_rank sample_policy 9 (TenantId 1) ''open?'' ''en'' hours_db = Inr [hours_result]"
    by (simp add: retrieve_def one_vector_def validate_embeddings_def sample_policy_def knowledge_locale_def hours_search)
  then show ?thesis
    by (simp add: answer_for_tenant_def Let_def hours_query hours_score e) (simp add: sample_policy_def)
qed

theorem answer_grounded_witness:
  "\<exists>ans. answer_for_tenant one_vector same_rank sample_policy 9 (TenantId 1) ''open?'' ''en'' hours_db = Inr ans
    \<and> ka_evidence ans \<noteq> [] \<and> int (length (ka_text ans)) \<le> 1800"
proof -
  obtain ans where ans: "answer_for_tenant one_vector same_rank sample_policy 9 (TenantId 1) ''open?'' ''en'' hours_db = Inr ans" "ka_answered ans"
    using hours_answer by blast
  have policy: "knowledge_policy_post_init sample_policy = Inr sample_policy"
    by (simp add: knowledge_policy_post_init_def sample_policy_def blank_iff is_space_def code_def)
  from answer_grounded [OF ans policy] show ?thesis using ans(1) by (auto simp: sample_policy_def)
qed

section \<open>Documents follow the domain\<close>

text \<open>The aggregate of a row: an instant is a UTC time.\<close>

definition document_of_row :: "document_row \<Rightarrow> knowledge_document" where
  "document_of_row d = \<lparr>kd_id = dw_id d, kd_tenant_id = dw_tenant_id d, kd_title = dw_title d, kd_locale = dw_locale d,
     kd_source_type = source_type_value (dw_source_type d), kd_checksum = dw_checksum d, kd_version = dw_version d,
     kd_status = dw_status d, kd_published_at = map_option utc_datetime (dw_published_at d)\<rparr>"

definition document_at :: "knowledge_db \<Rightarrow> tenant_id \<Rightarrow> document_id \<Rightarrow> knowledge_document option" where
  "document_at db t i = map_option document_of_row (find (\<lambda>d. dw_tenant_id d = t \<and> dw_id d = i) (kb_documents db))"

definition same_identity :: "(document_row \<Rightarrow> document_row) \<Rightarrow> bool" where
  "same_identity f = (\<forall>d. dw_tenant_id (f d) = dw_tenant_id d \<and> dw_id (f d) = dw_id d)"

lemma document_put:
  assumes "same_identity f" and "find (\<lambda>d. dw_tenant_id d = t \<and> dw_id d = i) (kb_documents db) = Some d"
  shows "document_at (put_document t i f db) = (document_at db) (t := (document_at db t)(i := Some (document_of_row (f d))))"
proof -
  have "find (\<lambda>d. dw_tenant_id d = s \<and> dw_id d = j) (map (\<lambda>d. if dw_tenant_id d = t \<and> dw_id d = i then f d else d) rows)
      = map_option (\<lambda>d. if s = t \<and> j = i then f d else d) (find (\<lambda>d. dw_tenant_id d = s \<and> dw_id d = j) rows)" for s j rows
    using assms(1) by (induction rows) (auto simp: same_identity_def)
  then show ?thesis using assms(2) by (auto simp: document_at_def put_document_def fun_eq_iff option.map_comp option.map_ident comp_def)
qed

text \<open>The rows the store writes: ready or archived, and published only while ready.\<close>

definition row_fine :: "document_row \<Rightarrow> bool" where
  "row_fine d = ((dw_status d = K_READY \<or> dw_status d = K_ARCHIVED) \<and> (dw_published_at d \<noteq> None \<longrightarrow> dw_status d = K_READY))"

definition stored_ok :: "knowledge_db \<Rightarrow> bool" where
  "stored_ok db = (distinct (map dw_id (kb_documents db)) \<and> list_all row_fine (kb_documents db))"

definition change_document ::
  "(knowledge_document \<Rightarrow> knowledge_document res) \<Rightarrow> tenant_id \<Rightarrow> document_id
   \<Rightarrow> (tenant_id \<Rightarrow> document_id \<Rightarrow> knowledge_document option) \<Rightarrow> (tenant_id \<Rightarrow> document_id \<Rightarrow> knowledge_document option) option" where
  "change_document f t i docs = (case docs t i of None \<Rightarrow> None
     | Some k \<Rightarrow> (case f k of Inl _ \<Rightarrow> None | Inr k' \<Rightarrow> Some (docs(t := (docs t)(i := Some k')))))"

definition implements :: "(knowledge_db, document_view) tx \<Rightarrow> knowledge_db
    \<Rightarrow> (tenant_id \<Rightarrow> document_id \<Rightarrow> knowledge_document option) option \<Rightarrow> bool" where
  "implements op db result = (case op db of
     Inl e \<Rightarrow> result = None \<and> (\<exists>m. e = KnowledgeError m)
   | Inr (db', v) \<Rightarrow> result = Some (document_at db') \<and> stored_ok db')"

lemma document_at_None: "document_at db t i = None \<longleftrightarrow> locked_document t i db = Inl (KnowledgeError ''Knowledge document was not found'')"
  by (auto simp: document_at_def locked_document_def split: option.split)

lemma locked_row:
  assumes "locked_document t i db = Inr d"
  shows "find (\<lambda>d. dw_tenant_id d = t \<and> dw_id d = i) (kb_documents db) = Some d" "document_at db t i = Some (document_of_row d)"
    "d \<in> set (kb_documents db)" "dw_tenant_id d = t" "dw_id d = i"
proof -
  show f: "find (\<lambda>d. dw_tenant_id d = t \<and> dw_id d = i) (kb_documents db) = Some d"
    using assms by (auto simp: locked_document_def split: option.splits)
  then show "document_at db t i = Some (document_of_row d)" by (simp add: document_at_def)
  show "d \<in> set (kb_documents db)" "dw_tenant_id d = t" "dw_id d = i" using find_SomeD [OF f] by auto
qed

lemma stored_put:
  assumes "stored_ok db" and "locked_document t i db = Inr d" and "same_identity f"
    and "row_fine (f d)"
  shows "stored_ok (put_document t i f db)"
proof -
  note row = locked_row [OF assms(2)]
  let ?g = "\<lambda>x. if dw_tenant_id x = t \<and> dw_id x = i then f x else x"
  have only: "x = d" if "x \<in> set (kb_documents db)" "dw_id x = i" for x
    using assms(1) row(3,5) that by (auto simp: stored_ok_def distinct_map inj_on_def)
  have "map dw_id (map ?g rows) = map dw_id rows" for rows using assms(3) by (induction rows) (auto simp: same_identity_def)
  then have "distinct (map dw_id (map ?g (kb_documents db)))" using assms(1) by (simp only: stored_ok_def)
  moreover have "row_fine (?g x)" if x: "x \<in> set (kb_documents db)" for x
  proof (cases "dw_tenant_id x = t \<and> dw_id x = i")
    case True
    then show ?thesis using only [OF x] assms(4) by simp
  next
    case False
    then show ?thesis using assms(1) x unfolding stored_ok_def list_all_iff by auto
  qed
  then have "list_all row_fine (map ?g (kb_documents db))" by (auto simp only: list_all_iff set_map image_iff)
  ultimately show ?thesis by (simp only: stored_ok_def put_document_def) (simp del: map_map)
qed



end
