(* ===== verification/AIModels.thy ===== *)
theory AIModels
  imports Shared
begin

text \<open>
  The contracts of the AI runtime (\<open>application/ai/models.py\<close>), the strict validation of what a
  provider returns (\<open>application/ai/schemas.py\<close>) and the registries of
  \<open>infrastructure/ai/catalog.py\<close>. Confidences are floats; costs and durations are exact numbers here.
\<close>

section \<open>Enumerations\<close>

datatype ai_task = TASK_INTENT | TASK_EXTRACTION | TASK_CLASSIFICATION | TASK_REWRITE | TASK_SUMMARY

fun ai_task_value :: "ai_task \<Rightarrow> string" where
  "ai_task_value TASK_INTENT = ''intent''"
| "ai_task_value TASK_EXTRACTION = ''extraction''"
| "ai_task_value TASK_CLASSIFICATION = ''classification''"
| "ai_task_value TASK_REWRITE = ''rewrite''"
| "ai_task_value TASK_SUMMARY = ''summary''"

datatype ai_status = AI_SUCCESS | AI_FALLBACK | AI_DISABLED | AI_CANCELLED

fun ai_status_value :: "ai_status \<Rightarrow> string" where
  "ai_status_value AI_SUCCESS = ''success''"
| "ai_status_value AI_FALLBACK = ''fallback''"
| "ai_status_value AI_DISABLED = ''disabled''"
| "ai_status_value AI_CANCELLED = ''cancelled''"

datatype ai_failure = F_DISABLED | F_PROVIDER_UNAVAILABLE | F_RATE_LIMITED | F_TIMEOUT | F_INVALID_OUTPUT
  | F_LOW_CONFIDENCE | F_REFUSED | F_CANCELLED | F_POLICY_INVALID

fun ai_failure_value :: "ai_failure \<Rightarrow> string" where
  "ai_failure_value F_DISABLED = ''disabled''"
| "ai_failure_value F_PROVIDER_UNAVAILABLE = ''provider_unavailable''"
| "ai_failure_value F_RATE_LIMITED = ''rate_limited''"
| "ai_failure_value F_TIMEOUT = ''timeout''"
| "ai_failure_value F_INVALID_OUTPUT = ''invalid_output''"
| "ai_failure_value F_LOW_CONFIDENCE = ''low_confidence''"
| "ai_failure_value F_REFUSED = ''refused''"
| "ai_failure_value F_CANCELLED = ''cancelled''"
| "ai_failure_value F_POLICY_INVALID = ''policy_invalid''"

datatype intent = I_GREETING | I_HELP | I_BUSINESS_HOURS | I_LOCATION_CONTACT | I_SERVICE_DISCOVERY | I_SERVICE_DETAIL
  | I_FAQ_KNOWLEDGE | I_BOOK | I_RESCHEDULE | I_CANCEL_BOOKING | I_BOOKING_STATUS | I_QUALIFY_LEAD | I_HUMAN_REQUEST
  | I_COMPLAINT | I_HIGH_RISK | I_UNSUPPORTED | I_SMALL_TALK | I_UNKNOWN

fun intent_value :: "intent \<Rightarrow> string" where
  "intent_value I_GREETING = ''greeting''"
| "intent_value I_HELP = ''help''"
| "intent_value I_BUSINESS_HOURS = ''business_hours''"
| "intent_value I_LOCATION_CONTACT = ''location_contact''"
| "intent_value I_SERVICE_DISCOVERY = ''service_discovery''"
| "intent_value I_SERVICE_DETAIL = ''service_detail''"
| "intent_value I_FAQ_KNOWLEDGE = ''faq_knowledge''"
| "intent_value I_BOOK = ''book''"
| "intent_value I_RESCHEDULE = ''reschedule''"
| "intent_value I_CANCEL_BOOKING = ''cancel_booking''"
| "intent_value I_BOOKING_STATUS = ''booking_status''"
| "intent_value I_QUALIFY_LEAD = ''qualify_lead''"
| "intent_value I_HUMAN_REQUEST = ''human_request''"
| "intent_value I_COMPLAINT = ''complaint''"
| "intent_value I_HIGH_RISK = ''high_risk''"
| "intent_value I_UNSUPPORTED = ''unsupported''"
| "intent_value I_SMALL_TALK = ''small_talk''"
| "intent_value I_UNKNOWN = ''unknown''"

definition intents :: "intent list" where
  "intents = [I_GREETING, I_HELP, I_BUSINESS_HOURS, I_LOCATION_CONTACT, I_SERVICE_DISCOVERY, I_SERVICE_DETAIL,
     I_FAQ_KNOWLEDGE, I_BOOK, I_RESCHEDULE, I_CANCEL_BOOKING, I_BOOKING_STATUS, I_QUALIFY_LEAD, I_HUMAN_REQUEST,
     I_COMPLAINT, I_HIGH_RISK, I_UNSUPPORTED, I_SMALL_TALK, I_UNKNOWN]"

datatype suggested_action = SHOW_HOME | SHOW_CATALOG | SHOW_HOURS | ANSWER_KNOWLEDGE | ASK_CLARIFICATION | OFFER_HUMAN | NO_ACTION

fun suggested_action_value :: "suggested_action \<Rightarrow> string" where
  "suggested_action_value SHOW_HOME = ''show_home''"
| "suggested_action_value SHOW_CATALOG = ''show_catalog''"
| "suggested_action_value SHOW_HOURS = ''show_hours''"
| "suggested_action_value ANSWER_KNOWLEDGE = ''answer_knowledge''"
| "suggested_action_value ASK_CLARIFICATION = ''ask_clarification''"
| "suggested_action_value OFFER_HUMAN = ''offer_human''"
| "suggested_action_value NO_ACTION = ''none''"

definition suggested_actions :: "suggested_action list" where
  "suggested_actions = [SHOW_HOME, SHOW_CATALOG, SHOW_HOURS, ANSWER_KNOWLEDGE, ASK_CLARIFICATION, OFFER_HUMAN, NO_ACTION]"

datatype risk_flag = R_COMPLAINT | R_HIGH_RISK | R_SAFETY | R_ABUSE

fun risk_flag_value :: "risk_flag \<Rightarrow> string" where
  "risk_flag_value R_COMPLAINT = ''complaint''"
| "risk_flag_value R_HIGH_RISK = ''high_risk''"
| "risk_flag_value R_SAFETY = ''safety''"
| "risk_flag_value R_ABUSE = ''abuse''"

definition risk_flags :: "risk_flag list" where
  "risk_flags = [R_COMPLAINT, R_HIGH_RISK, R_SAFETY, R_ABUSE]"

text \<open>\<open>Enum(text)\<close>: the member with that value, or a ValueError.\<close>

definition member_of :: "('a \<Rightarrow> string) \<Rightarrow> 'a list \<Rightarrow> string \<Rightarrow> 'a res" where
  "member_of val members s = (case find (\<lambda>m. val m = s) members of
     None \<Rightarrow> Inl (ValueError (CHR 0x27 # s @ CHR 0x27 # '' is not a valid member'')) | Some m \<Rightarrow> Inr m)"

section \<open>Results\<close>

text \<open>\<open>_confidence\<close>: comparisons with a nan are false.\<close>

definition check_confidence :: "py_float \<Rightarrow> unit res" where
  "check_confidence v = (if \<not> unit_interval v then Inl (ValueError ''AI confidence must be between 0 and 1'') else Inr ())"

record extracted_field =
  xf_key :: string
  xf_value :: string
  xf_confidence :: py_float

definition extracted_field_post_init :: "extracted_field \<Rightarrow> extracted_field res" where [ctor_defs]:
  "extracted_field_post_init f =
     (if \<not> isidentifier (xf_key f) \<or> blank (xf_value f) \<or> 1000 < length (xf_value f)
      then Inl (ValueError ''Extracted field is invalid'')
      else res_bind (check_confidence (xf_confidence f)) (\<lambda>_. Inr f))"

record intent_result =
  ir_intent :: intent
  ir_confidence :: py_float
  ir_entities :: "extracted_field list"
  ir_missing :: "string list"
  ir_risk_flags :: "risk_flag list"
  ir_action :: suggested_action
  ir_rationale :: string

datatype ai_result =
    IntentResult intent_result
  | ExtractionResult "extracted_field list" py_float
  | ClassificationResult string py_float string
  | RewriteResult string py_float
  | SummaryResult string "string list" py_float

fun confidence_of :: "ai_result \<Rightarrow> py_float" where
  "confidence_of (IntentResult r) = ir_confidence r"
| "confidence_of (ExtractionResult _ c) = c"
| "confidence_of (ClassificationResult _ c _) = c"
| "confidence_of (RewriteResult _ c) = c"
| "confidence_of (SummaryResult _ _ c) = c"

text \<open>The checks each class makes after those of the confidence.\<close>

fun result_checks :: "ai_result \<Rightarrow> unit res" where
  "result_checks (IntentResult r) =
     (if \<not> isidentifier (ir_rationale r) \<or> 100 < length (ir_rationale r)
      then Inl (ValueError ''Intent rationale category is invalid'') else Inr ())"
| "result_checks (ExtractionResult xs c) =
     (if length (remdups (map xf_key xs)) \<noteq> length xs
      then Inl (ValueError ''Extracted field keys must be unique'') else Inr ())"
| "result_checks (ClassificationResult label c rationale) =
     (if blank label \<or> \<not> isidentifier rationale then Inl (ValueError ''Classification result is invalid'') else Inr ())"
| "result_checks (RewriteResult s c) =
     (if blank s \<or> 2000 < length s then Inl (ValueError ''Rewrite result is invalid'') else Inr ())"
| "result_checks (SummaryResult s points c) =
     (if blank s \<or> 2000 < length s then Inl (ValueError ''Summary result is invalid'')
      else if 10 < length points \<or> list_ex (\<lambda>p. blank p \<or> 500 < length p) points
      then Inl (ValueError ''Summary key points are invalid'') else Inr ())"

definition result_post_init :: "ai_result \<Rightarrow> ai_result res" where [ctor_defs]:
  "result_post_init r = res_bind (check_confidence (confidence_of r)) (\<lambda>_. res_bind (result_checks r) (\<lambda>_. Inr r))"

section \<open>Requests and policies\<close>

record ai_request =
  aq_tenant_id :: tenant_id
  aq_conversation_id :: "conversation_id option"
  aq_correlation_id :: uuid
  aq_task :: ai_task
  aq_input_text :: string
  aq_prompt_variables :: "(string, string) dict"
  aq_allowed_fields :: "string set"
  aq_allowed_labels :: "string set"

definition ai_request_post_init :: "ai_request \<Rightarrow> ai_request res" where [ctor_defs]:
  "ai_request_post_init q =
     (if blank (aq_input_text q) \<or> 8000 < length (aq_input_text q)
      then Inl (ValueError ''AI input must contain 1-8000 characters'')
      else if aq_task q = TASK_EXTRACTION \<and> aq_allowed_fields q = {}
      then Inl (ValueError ''Extraction requires an explicit field allowlist'')
      else if aq_task q = TASK_CLASSIFICATION \<and> aq_allowed_labels q = {}
      then Inl (ValueError ''Classification requires an explicit label allowlist'')
      else if \<exists>k \<in> aq_allowed_fields q. \<not> isidentifier k
      then Inl (ValueError ''Extraction field allowlist is invalid'')
      else Inr q)"

record model_policy =
  mp_task :: ai_task
  mp_provider :: string
  mp_model :: string
  mp_prompt_id :: string
  mp_prompt_version :: int
  mp_schema_id :: string
  mp_temperature :: "py_float option"
  mp_max_output_tokens :: int
  mp_timeout_seconds :: py_float
  mp_max_retries :: int
  mp_confidence_threshold :: py_float
  mp_structured_output_mode :: string
  mp_input_cost_per_million :: rat
  mp_output_cost_per_million :: rat

definition model_policy_post_init :: "model_policy \<Rightarrow> model_policy res" where [ctor_defs]:
  "model_policy_post_init p =
     (if blank (mp_provider p) \<or> blank (mp_model p) \<or> blank (mp_schema_id p)
      then Inl (ValueError ''AI provider, model, and schema are required'')
      else if mp_prompt_version p < 1 \<or> \<not> (64 \<le> mp_max_output_tokens p \<and> mp_max_output_tokens p \<le> 32768)
      then Inl (ValueError ''AI prompt version or output limit is invalid'')
      else if \<not> (float_le (Fin (1 / 100)) (mp_timeout_seconds p) \<and> float_le (mp_timeout_seconds p) (Fin 120))
        \<or> \<not> (0 \<le> mp_max_retries p \<and> mp_max_retries p \<le> 5)
      then Inl (ValueError ''AI timeout or retry policy is invalid'')
      else res_bind (check_confidence (mp_confidence_threshold p)) (\<lambda>_.
        if (case mp_temperature p of None \<Rightarrow> False | Some t \<Rightarrow> \<not> (float_le (Fin 0) t \<and> float_le t (Fin 2)))
        then Inl (ValueError ''AI temperature is invalid'')
        else if mp_structured_output_mode p \<noteq> ''strict_json_schema''
        then Inl (ValueError ''Only strict JSON schema output is supported'')
        else if mp_input_cost_per_million p < 0 \<or> mp_output_cost_per_million p < 0
        then Inl (ValueError ''AI model costs cannot be negative'')
        else Inr p))"

record provider_request =
  pq_task :: ai_task
  pq_model :: string
  pq_system_prompt :: string
  pq_user_input :: string
  pq_schema_name :: string
  pq_json_schema :: json
  pq_temperature :: "py_float option"
  pq_max_output_tokens :: int

record provider_response =
  pp_provider :: string
  pp_model :: string
  pp_output :: json
  pp_input_tokens :: int
  pp_output_tokens :: int

definition provider_response_post_init :: "provider_response \<Rightarrow> provider_response res" where [ctor_defs]:
  "provider_response_post_init r = (if pp_input_tokens r < 0 \<or> pp_output_tokens r < 0
     then Inl (ValueError ''Provider token usage cannot be negative'') else Inr r)"

record ai_execution =
  ax_status :: ai_status
  ax_result :: ai_result
  ax_failure_code :: "ai_failure option"
  ax_attempts :: int

record ai_operation =
  ao_operation_id :: uuid
  ao_tenant_id :: tenant_id
  ao_conversation_id :: "conversation_id option"
  ao_correlation_id :: uuid
  ao_task :: ai_task
  ao_provider :: string
  ao_model :: string
  ao_prompt_id :: string
  ao_prompt_version :: int
  ao_schema_id :: string
  ao_status :: ai_status
  ao_attempts :: int
  ao_latency_ms :: int
  ao_input_tokens :: int
  ao_output_tokens :: int
  ao_estimated_cost :: rat
  ao_failure_code :: "ai_failure option"
  ao_occurred_at :: datetime

definition ai_operation_post_init :: "ai_operation \<Rightarrow> ai_operation res" where [ctor_defs]:
  "ai_operation_post_init r =
     (if \<not> aware (ao_occurred_at r) then Inl (ValueError ''AI operation time must be timezone-aware'')
      else if ao_attempts r < 0 \<or> ao_latency_ms r < 0
      then Inl (ValueError ''AI operation attempts and latency cannot be negative'')
      else if ao_input_tokens r < 0 \<or> ao_output_tokens r < 0 \<or> ao_estimated_cost r < 0
      then Inl (ValueError ''AI operation usage cannot be negative'')
      else Inr r)"

end
