(* ===== verification/AIRuntime.thy ===== *)
theory AIRuntime
  imports AISchemas Tables
begin

text \<open>
  The bounded execution of an AI task (\<open>application/ai/runtime.py\<close>), the advisory routing on top of
  it (\<open>application/ai/orchestration.py\<close>), the policies of \<open>bootstrap/ai.py\<close> and the telemetry adapter
  (\<open>infrastructure/persistence/ai.py\<close>). The state is what an execution leaves behind: the calls to
  the provider, the waits between them and the operations recorded. What the provider answers to its
  n-th call, the clock, the fresh identifiers, and whether a wait is cancelled or the telemetry
  fails are arguments.
\<close>

section \<open>The runtime and its state\<close>

type_synonym ai_provider = "provider_request \<Rightarrow> nat \<Rightarrow> provider_response res"

record ai_runtime =
  ru_enabled :: bool
  ru_providers :: "(string, ai_provider) dict"
  ru_prompts :: "(string \<times> int, prompt_template) dict"
  ru_policies :: "(ai_task, model_policy) dict"
  ru_validator :: "(ai_request \<Rightarrow> ai_result \<Rightarrow> unit res) option"
  ru_telemetry :: "ai_operation \<Rightarrow> unit res"
  ru_sleep :: "nat \<Rightarrow> unit res"
  ru_timer :: "nat \<Rightarrow> rat"
  ru_now :: "nat \<Rightarrow> datetime"
  ru_uuid :: "nat \<Rightarrow> uuid"

text \<open>\<open>as_usage\<close> holds the local variables \<open>input_tokens\<close> and \<open>output_tokens\<close> of the execution.\<close>

record ai_state =
  as_calls :: "provider_request list"
  as_waits :: "rat list"
  as_records :: "ai_operation list"
  as_readings :: nat
  as_usage :: "int \<times> int"

section \<open>Recording (_record, _cost)\<close>

definition ai_cost :: "model_policy option \<Rightarrow> int \<times> int \<Rightarrow> rat" where
  "ai_cost p usage = (case p of None \<Rightarrow> 0 | Some p \<Rightarrow>
     (of_int (fst usage) * mp_input_cost_per_million p + of_int (snd usage) * mp_output_cost_per_million p) / 1000000)"

text \<open>\<open>round(x)\<close>: to the nearest integer, a half to the even one.\<close>

definition py_round :: "rat \<Rightarrow> int" where
  "py_round x = (let f = \<lfloor>x\<rfloor>; d = x - of_int f in
     if d < 1 / 2 \<or> d = 1 / 2 \<and> even f then f else f + 1)"

definition operation_record :: "ai_runtime \<Rightarrow> ai_request \<Rightarrow> model_policy option \<Rightarrow> ai_execution \<Rightarrow> rat \<Rightarrow> ai_state \<Rightarrow> ai_operation" where
  "operation_record ru q p ex started s = (let n = as_readings s in
     \<lparr>ao_operation_id = ru_uuid ru n, ao_tenant_id = aq_tenant_id q, ao_conversation_id = aq_conversation_id q,
      ao_correlation_id = aq_correlation_id q, ao_task = aq_task q,
      ao_provider = (case p of None \<Rightarrow> ''none'' | Some p \<Rightarrow> mp_provider p),
      ao_model = (case p of None \<Rightarrow> ''none'' | Some p \<Rightarrow> mp_model p),
      ao_prompt_id = (case p of None \<Rightarrow> ''none'' | Some p \<Rightarrow> mp_prompt_id p),
      ao_prompt_version = (case p of None \<Rightarrow> 0 | Some p \<Rightarrow> mp_prompt_version p),
      ao_schema_id = (case p of None \<Rightarrow> ''none'' | Some p \<Rightarrow> mp_schema_id p),
      ao_status = ax_status ex, ao_attempts = ax_attempts ex,
      ao_latency_ms = max 0 (py_round ((ru_timer ru n - started) * 1000)),
      ao_input_tokens = fst (as_usage s), ao_output_tokens = snd (as_usage s),
      ao_estimated_cost = ai_cost p (as_usage s), ao_failure_code = ax_failure_code ex, ao_occurred_at = ru_now ru n\<rparr>)"

text \<open>A failure of the telemetry is swallowed, a cancellation is not.\<close>

definition record_operation :: "ai_runtime \<Rightarrow> ai_request \<Rightarrow> model_policy option \<Rightarrow> ai_execution \<Rightarrow> rat \<Rightarrow> (ai_state, unit) act" where
  "record_operation ru q p ex started s = (
     let s1 = s\<lparr>as_readings := as_readings s + 1\<rparr> in
     case ai_operation_post_init (operation_record ru q p ex started s) of
       Inl e \<Rightarrow> (s1, Inl e)
     | Inr r \<Rightarrow> (case ru_telemetry ru r of
         Inr _ \<Rightarrow> (s1\<lparr>as_records := as_records s @ [r]\<rparr>, Inr ())
       | Inl e \<Rightarrow> (s1, if is_Exception e then Inr () else Inl e)))"

definition finish_execution :: "ai_runtime \<Rightarrow> ai_request \<Rightarrow> model_policy option \<Rightarrow> ai_execution \<Rightarrow> rat \<Rightarrow> (ai_state, ai_execution) act" where
  "finish_execution ru q p ex started = act_bind (record_operation ru q p ex started) (\<lambda>_. act_return ex)"

definition degrade :: "ai_runtime \<Rightarrow> ai_request \<Rightarrow> model_policy option \<Rightarrow> ai_failure \<Rightarrow> int \<Rightarrow> rat \<Rightarrow> (ai_state, ai_execution) act" where
  "degrade ru q p failure attempts started = act_bind (act_res (fallback_result q)) (\<lambda>r.
     finish_execution ru q p \<lparr>ax_status = AI_FALLBACK, ax_result = r, ax_failure_code = Some failure, ax_attempts = attempts\<rparr> started)"

section \<open>One attempt\<close>

definition provider_failure :: "string \<Rightarrow> ai_failure" where
  "provider_failure c = (if c = ''rate_limited'' then F_RATE_LIMITED else if c = ''timeout'' then F_TIMEOUT
     else if c = ''refused'' then F_REFUSED else if c \<in> {''invalid_response'', ''incomplete''} then F_INVALID_OUTPUT
     else F_PROVIDER_UNAVAILABLE)"

text \<open>The failure and whether to retry, by the order of the \<open>except\<close> clauses.\<close>

definition failure_of :: "exc \<Rightarrow> ai_failure \<times> bool" where
  "failure_of e = (case e of
     TimeoutError \<Rightarrow> (F_TIMEOUT, True)
   | AISchemaValidationError _ \<Rightarrow> (F_INVALID_OUTPUT, False)
   | AIProviderError c retryable \<Rightarrow> (provider_failure c, retryable)
   | _ \<Rightarrow> (if is_ValueError e then F_INVALID_OUTPUT else F_PROVIDER_UNAVAILABLE, False))"

definition float_less :: "py_float \<Rightarrow> py_float \<Rightarrow> bool" where
  "float_less a b = (float_le a b \<and> a \<noteq> b)"

definition call_provider :: "ai_provider \<Rightarrow> provider_request \<Rightarrow> (ai_state, provider_response) act" where
  "call_provider provider pq s = (
     let s1 = s\<lparr>as_calls := as_calls s @ [pq]\<rparr> in
     case provider pq (length (as_calls s)) of
       Inl e \<Rightarrow> (s1, Inl e)
     | Inr r \<Rightarrow> (s1\<lparr>as_usage := (pp_input_tokens r, pp_output_tokens r)\<rparr>, Inr r))"

definition checked_result :: "ai_runtime \<Rightarrow> ai_request \<Rightarrow> model_policy \<Rightarrow> provider_response \<Rightarrow> ai_result res" where
  "checked_result ru q p r =
     (if pp_provider r \<noteq> mp_provider p \<or> pp_model r \<noteq> mp_model p
      then Inl (AIProviderError ''provider_identity_mismatch'' False)
      else res_bind (parse_result q (pp_output r)) (\<lambda>result.
        res_bind (case ru_validator ru of None \<Rightarrow> Inr () | Some v \<Rightarrow> v q result) (\<lambda>_. Inr result)))"

definition ai_attempt ::
  "ai_runtime \<Rightarrow> ai_request \<Rightarrow> model_policy \<Rightarrow> ai_provider \<Rightarrow> provider_request \<Rightarrow> rat \<Rightarrow> int \<Rightarrow> (ai_state, ai_execution) act" where
  "ai_attempt ru q p provider pq started attempts =
     act_bind (call_provider provider pq) (\<lambda>r.
     act_bind (act_res (checked_result ru q p r)) (\<lambda>result.
     if float_less (confidence_of result) (mp_confidence_threshold p)
     then degrade ru q (Some p) F_LOW_CONFIDENCE attempts started
     else finish_execution ru q (Some p)
       \<lparr>ax_status = AI_SUCCESS, ax_result = result, ax_failure_code = None, ax_attempts = attempts\<rparr> started))"

definition ai_cancelled :: "ai_runtime \<Rightarrow> ai_request \<Rightarrow> model_policy \<Rightarrow> int \<Rightarrow> rat \<Rightarrow> (ai_state, ai_execution) act" where
  "ai_cancelled ru q p attempts started = act_bind (act_res (fallback_result q)) (\<lambda>r.
     act_bind (record_operation ru q (Some p)
       \<lparr>ax_status = AI_CANCELLED, ax_result = r, ax_failure_code = Some F_CANCELLED, ax_attempts = attempts\<rparr> started) (\<lambda>_.
     act_res (Inl CancelledError)))"

section \<open>The retry loop\<close>

definition backoff :: "int \<Rightarrow> rat" where
  "backoff attempts = min (2 ^ nat (attempts - 1) / 10) 2"

definition ai_wait :: "ai_runtime \<Rightarrow> rat \<Rightarrow> (ai_state, unit) act" where
  "ai_wait ru d s = (s\<lparr>as_waits := as_waits s @ [d]\<rparr>, ru_sleep ru (length (as_waits s)))"

function attempt_loop ::
  "ai_runtime \<Rightarrow> ai_request \<Rightarrow> model_policy \<Rightarrow> ai_provider \<Rightarrow> provider_request \<Rightarrow> rat \<Rightarrow> int \<Rightarrow> ai_state
   \<Rightarrow> ai_state \<times> ai_execution res" where
  "attempt_loop ru q p provider pq started attempts s =
     (if mp_max_retries p < attempts then (s, Inl (AssertionError ''AI retry loop must return''))
      else case ai_attempt ru q p provider pq started (attempts + 1) s of
        (s1, Inr ex) \<Rightarrow> (s1, Inr ex)
      | (s1, Inl e) \<Rightarrow>
          if e = CancelledError then ai_cancelled ru q p (attempts + 1) started s1
          else if \<not> snd (failure_of e) \<or> mp_max_retries p < attempts + 1
          then degrade ru q (Some p) (fst (failure_of e)) (attempts + 1) started s1
          else (case ai_wait ru (backoff (attempts + 1)) s1 of
              (s2, Inl e2) \<Rightarrow> (s2, Inl e2)
            | (s2, Inr _) \<Rightarrow> attempt_loop ru q p provider pq started (attempts + 1) s2))"
  by pat_completeness auto
termination
  by (relation "measure (\<lambda>(ru, q, p, provider, pq, started, attempts, s). nat (mp_max_retries p + 1 - attempts))") auto

declare attempt_loop.simps [simp del]

section \<open>Execution (AIRuntime.execute)\<close>

definition provider_request_of :: "ai_request \<Rightarrow> model_policy \<Rightarrow> string \<Rightarrow> provider_request" where
  "provider_request_of q p rendered = \<lparr>pq_task = aq_task q, pq_model = mp_model p, pq_system_prompt = rendered,
     pq_user_input = aq_input_text q, pq_schema_name = mp_schema_id p, pq_json_schema = json_schema_for q,
     pq_temperature = mp_temperature p, pq_max_output_tokens = mp_max_output_tokens p\<rparr>"

definition usable_prompt :: "ai_request \<Rightarrow> model_policy \<Rightarrow> prompt_template \<Rightarrow> bool" where
  "usable_prompt q p t = (\<not> pt_deprecated t \<and> pt_task t = aq_task q \<and> mp_schema_id p \<in> pt_compatible_schemas t)"

definition execute_policy :: "ai_runtime \<Rightarrow> ai_request \<Rightarrow> model_policy \<Rightarrow> rat \<Rightarrow> (ai_state, ai_execution) act" where
  "execute_policy ru q p started =
     (case (dict_get (ru_prompts ru) (mp_prompt_id p, mp_prompt_version p), dict_get (ru_providers ru) (mp_provider p)) of
        (Some t, Some provider) \<Rightarrow>
          if \<not> usable_prompt q p t then degrade ru q (Some p) F_POLICY_INVALID 0 started
          else (case render_prompt t (aq_prompt_variables q) of
              Inl e \<Rightarrow> if is_ValueError e then degrade ru q (Some p) F_POLICY_INVALID 0 started else act_res (Inl e)
            | Inr rendered \<Rightarrow> attempt_loop ru q p provider (provider_request_of q p rendered) started 0)
      | _ \<Rightarrow> degrade ru q (Some p) F_POLICY_INVALID 0 started)"

definition execute_enabled :: "ai_runtime \<Rightarrow> ai_request \<Rightarrow> rat \<Rightarrow> (ai_state, ai_execution) act" where
  "execute_enabled ru q started =
     (if \<not> ru_enabled ru
      then act_bind (act_res (fallback_result q)) (\<lambda>r.
        finish_execution ru q None \<lparr>ax_status = AI_DISABLED, ax_result = r, ax_failure_code = Some F_DISABLED, ax_attempts = 0\<rparr> started)
      else case dict_get (ru_policies ru) (aq_task q) of
        None \<Rightarrow> degrade ru q None F_POLICY_INVALID 0 started
      | Some p \<Rightarrow> execute_policy ru q p started)"

definition execute_ai :: "ai_runtime \<Rightarrow> ai_request \<Rightarrow> (ai_state, ai_execution) act" where
  "execute_ai ru q s =
     execute_enabled ru q (ru_timer ru (as_readings s)) (s\<lparr>as_readings := as_readings s + 1, as_usage := (0, 0)\<rparr>)"

section \<open>Advisory routing (orchestration.py)\<close>

datatype advisory_route = ROUTE_HOME | ROUTE_CATALOG | ROUTE_HOURS | ROUTE_KNOWLEDGE | ROUTE_FALLBACK

fun route_of_action :: "suggested_action \<Rightarrow> advisory_route" where
  "route_of_action SHOW_HOME = ROUTE_HOME"
| "route_of_action SHOW_CATALOG = ROUTE_CATALOG"
| "route_of_action SHOW_HOURS = ROUTE_HOURS"
| "route_of_action ANSWER_KNOWLEDGE = ROUTE_KNOWLEDGE"
| "route_of_action _ = ROUTE_FALLBACK"

definition route_of_execution :: "ai_execution \<Rightarrow> advisory_route" where
  "route_of_execution ex = (case (ax_status ex, ax_result ex) of
     (AI_SUCCESS, IntentResult r) \<Rightarrow> route_of_action (ir_action r) | _ \<Rightarrow> ROUTE_FALLBACK)"

definition route_text :: "ai_runtime \<Rightarrow> telegram_identity \<Rightarrow> string \<Rightarrow> uuid \<Rightarrow> (ai_state, advisory_route) act" where
  "route_text ru i s correlation =
     act_bind (act_res (ai_request_post_init \<lparr>aq_tenant_id = ti_tenant_id i, aq_conversation_id = Some (ti_conversation_id i),
       aq_correlation_id = correlation, aq_task = TASK_INTENT, aq_input_text = s, aq_prompt_variables = [],
       aq_allowed_fields = {}, aq_allowed_labels = {}\<rparr>)) (\<lambda>q.
     act_bind (execute_ai ru q) (\<lambda>ex. act_return (route_of_execution ex)))"

text \<open>\<open>allowed.get(action)\<close>\<close>

fun allowed_intents :: "suggested_action \<Rightarrow> intent set option" where
  "allowed_intents SHOW_HOME = Some {I_GREETING, I_HELP, I_LOCATION_CONTACT}"
| "allowed_intents SHOW_CATALOG = Some {I_SERVICE_DISCOVERY, I_SERVICE_DETAIL}"
| "allowed_intents SHOW_HOURS = Some {I_BUSINESS_HOURS}"
| "allowed_intents ANSWER_KNOWLEDGE = Some {I_FAQ_KNOWLEDGE}"
| "allowed_intents _ = None"

definition validate_routing :: "ai_request \<Rightarrow> ai_result \<Rightarrow> unit res" where
  "validate_routing q result =
     (if aq_task q \<noteq> TASK_INTENT then Inr ()
      else case result of
        IntentResult r \<Rightarrow> (case allowed_intents (ir_action r) of
            Some is' \<Rightarrow> if ir_intent r \<notin> is'
              then Inl (ValueError ''AI advisory route is inconsistent with the classified intent'') else Inr ()
          | None \<Rightarrow> Inr ())
      | _ \<Rightarrow> Inl (ValueError ''Intent routing requires an intent result''))"

section \<open>Composition (bootstrap/ai.py)\<close>

record ai_settings =
  se_enabled :: bool
  se_provider :: string
  se_router_model :: "string option"
  se_response_model :: "string option"
  se_temperature :: "py_float option"
  se_max_output_tokens :: int
  se_timeout_seconds :: py_float
  se_max_retries :: int
  se_confidence_threshold :: py_float
  se_structured_output_mode :: string
  se_input_cost :: rat
  se_output_cost :: rat

definition policy_of :: "ai_settings \<Rightarrow> ai_task \<times> string \<times> string \<times> string \<Rightarrow> model_policy res" where
  "policy_of st x = (case x of (task, prompt, schema, model) \<Rightarrow>
     model_policy_post_init \<lparr>mp_task = task, mp_provider = se_provider st, mp_model = model, mp_prompt_id = prompt,
       mp_prompt_version = 1, mp_schema_id = schema, mp_temperature = se_temperature st,
       mp_max_output_tokens = se_max_output_tokens st, mp_timeout_seconds = se_timeout_seconds st,
       mp_max_retries = se_max_retries st, mp_confidence_threshold = se_confidence_threshold st,
       mp_structured_output_mode = se_structured_output_mode st, mp_input_cost_per_million = se_input_cost st,
       mp_output_cost_per_million = se_output_cost st\<rparr>)"

definition ai_policies :: "ai_settings \<Rightarrow> model_policy list res" where
  "ai_policies st = (case (se_router_model st, se_response_model st) of
     (Some router, Some response) \<Rightarrow> res_map (policy_of st)
       [(TASK_INTENT, ''intent-router'', ''intent-v1'', router),
        (TASK_EXTRACTION, ''field-extractor'', ''extraction-v1'', router),
        (TASK_CLASSIFICATION, ''classifier'', ''classification-v1'', router),
        (TASK_REWRITE, ''rewriter'', ''rewrite-v1'', response),
        (TASK_SUMMARY, ''summarizer'', ''summary-v1'', response)]
   | _ \<Rightarrow> Inl (ValueError ''Enabled AI runtime requires task models''))"

text \<open>
  \<open>client\<close>: the adapter made of the HTTP client and the API key, when both are there. The ports the
  runtime takes its clock, identifiers and telemetry from are those of \<open>base\<close>.
\<close>

definition build_runtime :: "ai_settings \<Rightarrow> (string \<times> ai_provider) option \<Rightarrow> ai_runtime \<Rightarrow> ai_runtime res" where
  "build_runtime st client base =
     res_bind (if \<not> se_enabled st then Inr [] else case client of
         None \<Rightarrow> Inl (ValueError ''Enabled AI runtime requires a configured provider client'') | Some c \<Rightarrow> Inr [c]) (\<lambda>clients.
     res_bind (if se_enabled st then ai_policies st else Inr []) (\<lambda>ps.
     res_bind (registry ''AI provider names must be unique'' fst clients) (\<lambda>providers.
     res_bind default_prompts (\<lambda>ts.
     res_bind (prompt_catalog ts) (\<lambda>prompts.
     res_bind (policy_catalog ps) (\<lambda>policies.
     Inr (base\<lparr>ru_enabled := se_enabled st, ru_providers := map (\<lambda>(k, c). (k, snd c)) providers, ru_prompts := prompts,
       ru_policies := policies, ru_validator := Some validate_routing\<rparr>)))))))"

section \<open>The telemetry adapter (SQLAlchemyAITelemetryStore)\<close>

record ai_operation_row =
  oq_id :: uuid
  oq_tenant_id :: uuid
  oq_conversation_id :: "uuid option"
  oq_correlation_id :: uuid
  oq_task :: string
  oq_provider :: string
  oq_model :: string
  oq_prompt_id :: string
  oq_prompt_version :: int
  oq_schema_id :: string
  oq_status :: string
  oq_attempts :: int
  oq_latency_ms :: int
  oq_input_tokens :: int
  oq_output_tokens :: int
  oq_estimated_cost :: rat
  oq_failure_code :: "string option"
  oq_created_at :: instant

definition ai_operation_row_of :: "ai_operation \<Rightarrow> ai_operation_row" where
  "ai_operation_row_of r = \<lparr>oq_id = ao_operation_id r, oq_tenant_id = tenant_uuid (ao_tenant_id r),
     oq_conversation_id = map_option conversation_uuid (ao_conversation_id r), oq_correlation_id = ao_correlation_id r,
     oq_task = ai_task_value (ao_task r), oq_provider = ao_provider r, oq_model = ao_model r, oq_prompt_id = ao_prompt_id r,
     oq_prompt_version = ao_prompt_version r, oq_schema_id = ao_schema_id r, oq_status = ai_status_value (ao_status r),
     oq_attempts = ao_attempts r, oq_latency_ms = ao_latency_ms r, oq_input_tokens = ao_input_tokens r,
     oq_output_tokens = ao_output_tokens r, oq_estimated_cost = ao_estimated_cost r,
     oq_failure_code = map_option ai_failure_value (ao_failure_code r), oq_created_at = utc (ao_occurred_at r)\<rparr>"

text \<open>The CHECK constraints of the table.\<close>

definition operation_row_ok :: "ai_operation_row \<Rightarrow> bool" where
  "operation_row_ok w = (oq_task w \<in> {''intent'', ''extraction'', ''classification'', ''rewrite'', ''summary''}
     \<and> oq_status w \<in> {''success'', ''fallback'', ''disabled'', ''cancelled''} \<and> 0 \<le> oq_attempts w \<and> 0 \<le> oq_latency_ms w
     \<and> 0 \<le> oq_input_tokens w \<and> 0 \<le> oq_output_tokens w \<and> 0 \<le> oq_estimated_cost w \<and> 0 \<le> oq_prompt_version w)"

text \<open>The other constraints, keys of tenants and conversations, are the database's: \<open>refused\<close>.\<close>

definition record_row :: "(ai_operation_row \<Rightarrow> bool) \<Rightarrow> ai_operation \<Rightarrow> (ai_operation_row list, unit) tx" where
  "record_row refused r rows = (let w = ai_operation_row_of r in
     if \<not> operation_row_ok w \<or> oq_id w \<in> oq_id ` set rows \<or> refused w then Inl integrity_error else Inr (rows @ [w], ()))"

text \<open>What an operation of the runtime passes: the columns' checks repeat those of its constructor.\<close>

lemma recorded_row_ok: "ai_operation_post_init r = Inr r \<Longrightarrow> 0 \<le> ao_prompt_version r \<Longrightarrow> operation_row_ok (ai_operation_row_of r)"
  by (cases "ao_task r"; cases "ao_status r")
    (auto simp: ai_operation_post_init_def operation_row_ok_def ai_operation_row_of_def split: if_splits)

end
