(* ===== verification/AIAdapters.thy ===== *)
theory AIAdapters
  imports AIRuntime KnowledgeUse
begin

text \<open>
  The OpenAI adapters (\<open>infrastructure/ai/openai.py\<close>, \<open>infrastructure/ai/openai_embeddings.py\<close>): what
  they send, and what they make of every answer of the HTTP client. The client's answer to a request,
  \<open>json.loads\<close> on a text of the answer and \<open>float\<close> on a string are arguments.
\<close>

section \<open>The HTTP client\<close>

text \<open>
  What \<open>await client.post(...)\<close> comes to: a timeout, another request error, an exception of another
  kind, or a response with its status and what \<open>response.json()\<close> returns or raises.
\<close>

datatype http_answer = HttpTimeout | HttpRequestError | HttpRaises exc | HttpResponse int "json res"

definition post_status :: "http_answer \<Rightarrow> json res res" where
  "post_status h = (case h of
     HttpTimeout \<Rightarrow> Inl (AIProviderError ''timeout'' True)
   | HttpRequestError \<Rightarrow> Inl (AIProviderError ''unavailable'' True)
   | HttpRaises e \<Rightarrow> Inl e
   | HttpResponse status body \<Rightarrow>
       if status = 429 then Inl (AIProviderError ''rate_limited'' True)
       else if status \<in> {408, 409} \<or> 500 \<le> status then Inl (AIProviderError ''unavailable'' True)
       else if 400 \<le> status then Inl (AIProviderError ''request_rejected'' False)
       else Inr body)"

text \<open>\<open>except (TypeError, ValueError)\<close>\<close>

fun is_TypeError :: "exc \<Rightarrow> bool" where
  "is_TypeError (TypeError _) = True"
| "is_TypeError _ = False"

definition invalid_response :: "'a res \<Rightarrow> 'a res" where
  "invalid_response r = (case r of
     Inr x \<Rightarrow> Inr x
   | Inl e \<Rightarrow> if is_ValueError e \<or> is_TypeError e then Inl (AIProviderError ''invalid_response'' False) else Inl e)"

section \<open>Structured output (OpenAIResponsesAdapter)\<close>

definition responses_payload :: "provider_request \<Rightarrow> (string, json) dict" where
  "responses_payload pq =
     [(''model'', JStr (pq_model pq)),
      (''input'', JList [JObj [(''role'', JStr ''system''), (''content'', JStr (pq_system_prompt pq))],
        JObj [(''role'', JStr ''user''), (''content'', JStr (pq_user_input pq))]]),
      (''max_output_tokens'', JInt (pq_max_output_tokens pq)),
      (''store'', JBool False),
      (''text'', JObj [(''format'', JObj [(''type'', JStr ''json_schema''), (''name'', JStr (pq_schema_name pq)),
        (''strict'', JBool True), (''schema'', pq_json_schema pq)])])]
     @ (case pq_temperature pq of None \<Rightarrow> [] | Some t \<Rightarrow> [(''temperature'', JFloat t)])"

text \<open>The inner loop: the first refusal or text among the contents of a message; None when there is none.\<close>

fun content_output :: "(string \<Rightarrow> json res) \<Rightarrow> json list \<Rightarrow> json res option" where
  "content_output loads [] = None"
| "content_output loads (JObj item # rest) =
     (if dict_get item ''type'' = Some (JStr ''refusal'') then Some (Inl (AIProviderError ''refused'' False))
      else if dict_get item ''type'' \<noteq> Some (JStr ''output_text'') then content_output loads rest
      else case dict_get item ''text'' of
        Some (JStr s) \<Rightarrow> Some (res_bind (loads s) (\<lambda>parsed. case parsed of
            JObj _ \<Rightarrow> Inr parsed | _ \<Rightarrow> Inl (ValueError ''Structured output must be an object'')))
      | _ \<Rightarrow> content_output loads rest)"
| "content_output loads (_ # rest) = content_output loads rest"

fun outputs_output :: "(string \<Rightarrow> json res) \<Rightarrow> json list \<Rightarrow> json res" where
  "outputs_output loads [] = Inl (ValueError ''Provider output text is missing'')"
| "outputs_output loads (JObj output # rest) =
     (if dict_get output ''type'' \<noteq> Some (JStr ''message'') then outputs_output loads rest
      else case dict_get output ''content'' of
        Some (JList content) \<Rightarrow> (case content_output loads content of None \<Rightarrow> outputs_output loads rest | Some r \<Rightarrow> r)
      | _ \<Rightarrow> outputs_output loads rest)"
| "outputs_output loads (_ # rest) = outputs_output loads rest"

definition structured_output :: "(string \<Rightarrow> json res) \<Rightarrow> json option \<Rightarrow> json res" where
  "structured_output loads v = (case v of
     Some (JList outputs) \<Rightarrow> outputs_output loads outputs | _ \<Rightarrow> Inl (ValueError ''Provider output is missing''))"

definition token_usage :: "json option \<Rightarrow> (int \<times> int) res" where
  "token_usage v = (case v of
     Some (JObj u) \<Rightarrow> (case (dict_get u ''input_tokens'', dict_get u ''output_tokens'') of
         (Some (JInt i), Some (JInt n)) \<Rightarrow> if i < 0 \<or> n < 0 then Inl (ValueError ''Provider usage is invalid'') else Inr (i, n)
       | _ \<Rightarrow> Inl (ValueError ''Provider usage is invalid''))
   | _ \<Rightarrow> Inl (ValueError ''Provider usage is missing''))"

definition decoded_response :: "(string \<Rightarrow> json res) \<Rightarrow> provider_request \<Rightarrow> json \<Rightarrow> provider_response res" where
  "decoded_response loads pq decoded = (case decoded of
     JObj body \<Rightarrow>
       if dict_get body ''status'' \<noteq> Some (JStr ''completed'') then Inl (AIProviderError ''incomplete'' False)
       else res_bind (structured_output loads (dict_get body ''output'')) (\<lambda>out.
         res_bind (token_usage (dict_get body ''usage'')) (\<lambda>usage.
         if dict_get body ''model'' \<noteq> Some (JStr (pq_model pq)) then Inl (AIProviderError ''provider_identity_mismatch'' False)
         else provider_response_post_init \<lparr>pp_provider = ''openai'', pp_model = pq_model pq, pp_output = out,
           pp_input_tokens = fst usage, pp_output_tokens = snd usage\<rparr>))
   | _ \<Rightarrow> Inl (ValueError ''Provider response must be an object''))"

text \<open>\<open>post\<close>: the client's answer to the n-th payload posted.\<close>

definition openai_execute ::
  "((string, json) dict \<Rightarrow> nat \<Rightarrow> http_answer) \<Rightarrow> (string \<Rightarrow> json res) \<Rightarrow> provider_request \<Rightarrow> nat \<Rightarrow> provider_response res" where
  "openai_execute post loads pq n =
     res_bind (post_status (post (responses_payload pq) n)) (\<lambda>body. invalid_response (res_bind body (decoded_response loads pq)))"

section \<open>Embeddings (OpenAIEmbeddingsAdapter)\<close>

definition embeddings_payload :: "string list \<Rightarrow> string \<Rightarrow> int \<Rightarrow> (string, json) dict" where
  "embeddings_payload texts model dimensions = [(''model'', JStr model), (''input'', JList (map JStr texts)),
     (''encoding_format'', JStr ''float''), (''dimensions'', JInt dimensions)]"

text \<open>\<open>float(value)\<close>\<close>

definition float_of_json :: "(string \<Rightarrow> py_float res) \<Rightarrow> json \<Rightarrow> py_float res" where
  "float_of_json parse_float v = (case v of
     JInt i \<Rightarrow> float_of_int i
   | JFloat f \<Rightarrow> Inr f
   | JBool b \<Rightarrow> Inr (Fin (of_bool b))
   | JStr s \<Rightarrow> parse_float s
   | _ \<Rightarrow> Inl (TypeError ''float() argument must be a string or a real number''))"

definition embedding_item :: "(string \<Rightarrow> py_float res) \<Rightarrow> int \<Rightarrow> json \<Rightarrow> (int \<times> py_float list) res" where
  "embedding_item parse_float dimensions v = (case v of
     JObj item \<Rightarrow>
       if dict_get item ''object'' \<noteq> Some (JStr ''embedding'') then Inl (ValueError ''Embedding response item is invalid'')
       else (case dict_get item ''index'' of
         Some (JInt i) \<Rightarrow> (case dict_get item ''embedding'' of
             Some (JList vector) \<Rightarrow> res_bind (res_map (float_of_json parse_float) vector) (\<lambda>vs.
               if int (length vs) \<noteq> dimensions \<or> list_ex (\<lambda>x. \<not> is_finite x) vs
               then Inl (ValueError ''Embedding response dimensions are invalid'') else Inr (i, vs))
           | _ \<Rightarrow> Inl (ValueError ''Embedding response vector is invalid''))
       | _ \<Rightarrow> Inl (ValueError ''Embedding response index is invalid''))
   | _ \<Rightarrow> Inl (ValueError ''Embedding response item is invalid''))"

definition index_vectors :: "(string \<Rightarrow> py_float res) \<Rightarrow> int \<Rightarrow> json list \<Rightarrow> (int, py_float list) dict res" where
  "index_vectors parse_float dimensions data =
     res_fold (\<lambda>raw indexed. res_bind (embedding_item parse_float dimensions raw) (\<lambda>(i, vs). Inr (dict_set i vs indexed))) data []"

definition decoded_embeddings ::
  "(string \<Rightarrow> py_float res) \<Rightarrow> string list \<Rightarrow> string \<Rightarrow> int \<Rightarrow> json \<Rightarrow> py_float list list res" where
  "decoded_embeddings parse_float texts model dimensions decoded = (case decoded of
     JObj body \<Rightarrow>
       if dict_get body ''model'' \<noteq> Some (JStr model) then Inl (ValueError ''Embedding response identity is invalid'')
       else (case dict_get body ''data'' of
         Some (JList data) \<Rightarrow> res_bind (index_vectors parse_float dimensions data) (\<lambda>indexed.
           if fst ` set indexed \<noteq> set (map int [0..<length texts]) then Inl (ValueError ''Embedding response batch is incomplete'')
           else Inr (map (\<lambda>i. the (dict_get indexed (int i))) [0..<length texts]))
       | _ \<Rightarrow> Inl (ValueError ''Embedding response data is missing''))
   | _ \<Rightarrow> Inl (ValueError ''Embedding response identity is invalid''))"

definition openai_embed ::
  "((string, json) dict \<Rightarrow> http_answer) \<Rightarrow> (string \<Rightarrow> py_float res) \<Rightarrow> string list \<Rightarrow> string \<Rightarrow> int \<Rightarrow> py_float list list res" where
  "openai_embed post parse_float texts model dimensions =
     (if texts = [] \<or> 100 < length texts \<or> list_ex blank texts then Inl (ValueError ''Embedding input batch is invalid'')
      else res_bind (post_status (post (embeddings_payload texts model dimensions))) (\<lambda>body.
        invalid_response (res_bind body (decoded_embeddings parse_float texts model dimensions))))"

end
