(* ===== verification/AIFacts.thy ===== *)
theory AIFacts
  imports AIAdapters
begin

text \<open>
  What the AI runtime guarantees: how often it calls the provider and how long it waits, that a
  success was checked and that everything else ends in the deterministic fallback, recorded once.
\<close>

section \<open>What each step leaves of the state\<close>

definition same_calls :: "ai_state \<Rightarrow> ai_state \<Rightarrow> bool" where
  "same_calls s s' = (as_calls s' = as_calls s \<and> as_waits s' = as_waits s)"

lemma same_calls_refl [simp]: "same_calls s s"
  by (simp add: same_calls_def)

text \<open>What recording can raise: a refused record, or the cancellation of the telemetry.\<close>

definition stops :: "exc \<Rightarrow> bool" where
  "stops e = (e = CancelledError \<or> is_ValueError e)"

lemma ai_operation_error: "ai_operation_post_init r = Inl e \<Longrightarrow> is_ValueError e"
  by (auto simp: ai_operation_post_init_def split: if_splits)

lemma not_Exception: "\<not> is_Exception e \<longleftrightarrow> e = CancelledError"
  by (cases e) auto

lemma record_operation_state:
  assumes "record_operation ru q p ex started s = (s', r)"
  shows "same_calls s s' \<and> (case r of Inr _ \<Rightarrow> True | Inl e \<Rightarrow> stops e)"
  using assms
  by (auto simp: record_operation_def same_calls_def stops_def not_Exception Let_def
      split: sum.splits if_splits dest: ai_operation_error)

lemma result_post_init_error: "result_post_init r = Inl e \<Longrightarrow> is_ValueError e"
  by (cases r) (auto simp: result_post_init_def check_confidence_def res_bind_Inl_iff split: if_splits)

lemma fallback_error: "fallback_result q = Inl e \<Longrightarrow> is_ValueError e"
  unfolding fallback_result_def by (rule result_post_init_error)

lemma finish_execution_state:
  assumes "finish_execution ru q p ex started s = (s', r)"
  shows "same_calls s s' \<and> (case r of Inr ex' \<Rightarrow> ex' = ex | Inl e \<Rightarrow> stops e)"
  using assms record_operation_state [of ru q p ex started s]
  by (auto simp: finish_execution_def act_bind_def split: prod.splits sum.splits)

definition fell_back :: "ai_request \<Rightarrow> int \<Rightarrow> ai_execution \<Rightarrow> bool" where
  "fell_back q attempts ex = (ax_status ex \<in> {AI_FALLBACK, AI_DISABLED} \<and> ax_failure_code ex \<noteq> None
     \<and> fallback_result q = Inr (ax_result ex) \<and> ax_attempts ex = attempts)"

lemma degrade_state:
  assumes "degrade ru q p failure attempts started s = (s', r)"
  shows "same_calls s s' \<and> (case r of Inr ex \<Rightarrow> fell_back q attempts ex | Inl e \<Rightarrow> stops e)"
proof (cases "fallback_result q")
  case (Inl e)
  then show ?thesis using assms fallback_error [OF Inl] by (auto simp: degrade_def act_bind_def stops_def)
next
  case (Inr f)
  then show ?thesis
    using assms finish_execution_state [of ru q p "\<lparr>ax_status = AI_FALLBACK, ax_result = f, ax_failure_code = Some failure,
      ax_attempts = attempts\<rparr>" started s s' r]
    by (auto simp: degrade_def act_bind_def fell_back_def split: sum.splits)
qed

lemma ai_cancelled_state:
  assumes "ai_cancelled ru q p attempts started s = (s', r)"
  shows "same_calls s s' \<and> (\<exists>e. r = Inl e \<and> stops e)"
proof (cases "fallback_result q")
  case (Inl e)
  then show ?thesis using assms fallback_error [OF Inl] by (auto simp: ai_cancelled_def act_bind_def stops_def)
next
  case (Inr f)
  then show ?thesis
    using assms record_operation_state [of ru q "Some p" "\<lparr>ax_status = AI_CANCELLED, ax_result = f, ax_failure_code = Some F_CANCELLED,
      ax_attempts = attempts\<rparr>" started s]
    by (auto simp: ai_cancelled_def act_bind_def stops_def split: prod.splits sum.splits)
qed

text \<open>A success: what the provider answered passed every check.\<close>

definition succeeded :: "ai_runtime \<Rightarrow> ai_request \<Rightarrow> model_policy \<Rightarrow> ai_provider \<Rightarrow> provider_request \<Rightarrow> int \<Rightarrow> ai_execution \<Rightarrow> bool" where
  "succeeded ru q p provider pq attempts ex = (ax_status ex = AI_SUCCESS \<and> ax_failure_code ex = None \<and> ax_attempts ex = attempts
     \<and> \<not> float_less (confidence_of (ax_result ex)) (mp_confidence_threshold p)
     \<and> (\<exists>n resp. provider pq n = Inr resp \<and> checked_result ru q p resp = Inr (ax_result ex)))"

lemma ai_attempt_state:
  assumes "ai_attempt ru q p provider pq started attempts s = (s', r)"
  shows "as_calls s' = as_calls s @ [pq] \<and> as_waits s' = as_waits s
    \<and> (case r of Inr ex \<Rightarrow> fell_back q attempts ex \<or> succeeded ru q p provider pq attempts ex | Inl _ \<Rightarrow> True)"
proof -
  obtain s1 c where c: "call_provider provider pq s = (s1, c)" by fastforce
  have s1: "as_calls s1 = as_calls s @ [pq]" "as_waits s1 = as_waits s"
    using c by (auto simp: call_provider_def Let_def split: sum.splits)
  show ?thesis
  proof (cases c)
    case (Inl e)
    then show ?thesis using assms c s1 by (auto simp: ai_attempt_def act_bind_def)
  next
    case (Inr resp)
    have resp: "provider pq (length (as_calls s)) = Inr resp"
      using c Inr by (auto simp: call_provider_def Let_def split: sum.splits)
    show ?thesis
    proof (cases "checked_result ru q p resp")
      case (Inl e)
      then show ?thesis using assms c Inr s1 by (auto simp: ai_attempt_def act_bind_def)
    next
      case (Inr result)
      show ?thesis
      proof (cases "float_less (confidence_of result) (mp_confidence_threshold p)")
        case True
        then have "degrade ru q (Some p) F_LOW_CONFIDENCE attempts started s1 = (s', r)"
          using assms c \<open>c = Inr resp\<close> Inr by (simp add: ai_attempt_def act_bind_def)
        from degrade_state [OF this] s1 show ?thesis by (auto simp: same_calls_def split: sum.splits)
      next
        case False
        let ?ex = "\<lparr>ax_status = AI_SUCCESS, ax_result = result, ax_failure_code = None, ax_attempts = attempts\<rparr>"
        have "finish_execution ru q (Some p) ?ex started s1 = (s', r)"
          using assms c \<open>c = Inr resp\<close> Inr False by (simp add: ai_attempt_def act_bind_def)
        from finish_execution_state [OF this] s1 resp Inr False show ?thesis
          by (auto simp: same_calls_def succeeded_def split: sum.splits)
      qed
    qed
  qed
qed

section \<open>The loop\<close>

text \<open>
  A run from \<open>attempts\<close> on: at most the attempts that are left, the waits in their order, and an end
  that is a result or a stop.
\<close>

definition loop_run :: "ai_runtime \<Rightarrow> ai_request \<Rightarrow> model_policy \<Rightarrow> ai_provider \<Rightarrow> provider_request \<Rightarrow> int \<Rightarrow> ai_state
    \<Rightarrow> ai_state \<times> ai_execution res \<Rightarrow> bool" where
  "loop_run ru q p provider pq attempts s sr = (\<exists>n k. as_calls (fst sr) = as_calls s @ replicate n pq
     \<and> as_waits (fst sr) = as_waits s @ map (\<lambda>i. backoff (attempts + 1 + int i)) [0..<k]
     \<and> k \<le> n \<and> int n \<le> mp_max_retries p + 1 - attempts \<and> int k \<le> mp_max_retries p - attempts
     \<and> (case snd sr of
          Inr ex \<Rightarrow> fell_back q (attempts + int n) ex \<or> succeeded ru q p provider pq (attempts + int n) ex
        | Inl e \<Rightarrow> stops e \<or> (\<exists>i. ru_sleep ru i = Inl e)))"

lemma loop_run_end:
  assumes "as_calls s1 = as_calls s @ [pq]" "as_waits s1 = as_waits s" "same_calls s1 s2" "attempts \<le> mp_max_retries p"
    "case r of Inr ex \<Rightarrow> fell_back q (attempts + 1) ex \<or> succeeded ru q p provider pq (attempts + 1) ex
       | Inl e \<Rightarrow> stops e \<or> (\<exists>i. ru_sleep ru i = Inl e)"
  shows "loop_run ru q p provider pq attempts s (s2, r)"
  unfolding loop_run_def
  by (rule exI [of _ 1], rule exI [of _ 0]) (use assms in \<open>auto simp: same_calls_def split: sum.splits\<close>)

lemma map_shift: "f 0 # map (\<lambda>i. f (i + 1)) [0..<k] = map f [0..<Suc k]"
  by (induction k) simp_all

lemma loop_run_step:
  assumes s1: "as_calls s1 = as_calls s @ [pq]" "as_waits s1 = as_waits s @ [backoff (attempts + 1)]"
    and more: "loop_run ru q p provider pq (attempts + 1) s1 sr"
  shows "loop_run ru q p provider pq attempts s sr"
proof -
  obtain n k where nk: "as_calls (fst sr) = as_calls s1 @ replicate n pq"
    "as_waits (fst sr) = as_waits s1 @ map (\<lambda>i. backoff (attempts + 1 + 1 + int i)) [0..<k]"
    "k \<le> n" "int n \<le> mp_max_retries p + 1 - (attempts + 1)" "int k \<le> mp_max_retries p - (attempts + 1)"
    "case snd sr of
          Inr ex \<Rightarrow> fell_back q (attempts + 1 + int n) ex \<or> succeeded ru q p provider pq (attempts + 1 + int n) ex
        | Inl e \<Rightarrow> stops e \<or> (\<exists>i. ru_sleep ru i = Inl e)"
    using more unfolding loop_run_def by blast
  have "backoff (attempts + 1) # map (\<lambda>i. backoff (attempts + 1 + 1 + int i)) [0..<k]
      = map (\<lambda>i. backoff (attempts + 1 + int i)) [0..<Suc k]"
    using map_shift [of "\<lambda>i. backoff (attempts + 1 + int i)" k] by (simp add: algebra_simps)
  with nk s1 show ?thesis
    unfolding loop_run_def
    by (intro exI [of _ "Suc n"] exI [of _ "Suc k"]) (simp add: add.assoc split: sum.splits)
qed

lemma attempt_loop_run:
  assumes "attempts \<le> mp_max_retries p"
  shows "loop_run ru q p provider pq attempts s (attempt_loop ru q p provider pq started attempts s)"
  using assms
proof (induction ru q p provider pq started attempts s rule: attempt_loop.induct)
  case (1 ru q p provider pq started attempts s)
  obtain s1 r1 where a: "ai_attempt ru q p provider pq started (attempts + 1) s = (s1, r1)" by fastforce
  note st = ai_attempt_state [OF a]
  show ?case
  proof (cases r1)
    case (Inr ex)
    then show ?thesis
      using a st "1.prems" by (subst attempt_loop.simps) (simp add: loop_run_end [of s1])
  next
    case (Inl e)
    show ?thesis
    proof (cases "e = CancelledError")
      case True
      obtain s2 r2 where c: "ai_cancelled ru q p (attempts + 1) started s1 = (s2, r2)" by fastforce
      show ?thesis
        using a Inl True c st "1.prems" ai_cancelled_state [OF c]
        by (subst attempt_loop.simps) (auto intro!: loop_run_end [of s1])
    next
      case cont: False
      show ?thesis
      proof (cases "\<not> snd (failure_of e) \<or> mp_max_retries p < attempts + 1")
        case True
        obtain s2 r2 where c: "degrade ru q (Some p) (fst (failure_of e)) (attempts + 1) started s1 = (s2, r2)" by fastforce
        show ?thesis
          using a Inl True cont c st "1.prems" degrade_state [OF c]
          by (subst attempt_loop.simps) (auto intro!: loop_run_end [of s1] split: sum.splits)
      next
        case False
        obtain s2 w where w: "ai_wait ru (backoff (attempts + 1)) s1 = (s2, w)" by fastforce
        have s2: "as_calls s2 = as_calls s @ [pq]" "as_waits s2 = as_waits s @ [backoff (attempts + 1)]"
          using w st by (auto simp: ai_wait_def)
        show ?thesis
        proof (cases w)
          case (Inl e2)
          have "ru_sleep ru (length (as_waits s1)) = Inl e2" using w Inl by (simp add: ai_wait_def)
          then have "loop_run ru q p provider pq attempts s (s2, Inl e2)"
            unfolding loop_run_def using s2 False "1.prems"
            by (intro exI [of _ 1] exI [of _ 1]) auto
          then show ?thesis
            using a \<open>r1 = Inl e\<close> cont False w Inl "1.prems" by (subst attempt_loop.simps) simp
        next
          case (Inr u)
          have "loop_run ru q p provider pq (attempts + 1) s2 (attempt_loop ru q p provider pq started (attempts + 1) s2)"
            using "1.IH" [OF _ a [symmetric] _ _ _ w [symmetric]] "1.prems" \<open>r1 = Inl e\<close> cont False Inr by simp
          from loop_run_step [OF s2 this] show ?thesis
            using a \<open>r1 = Inl e\<close> cont False w Inr "1.prems" by (subst attempt_loop.simps) simp
        qed
      qed
    qed
  qed
qed

section \<open>Prompts and registries\<close>

lemma template_parts_error: "template_parts lit name cs = Inl e \<Longrightarrow> e = template_error"
  by (induction lit name cs rule: template_parts.induct)
    (auto simp: res_bind_Inl_iff split: if_splits list.splits)

lemma template_parts_names: "template_parts lit name cs = Inr ps \<Longrightarrow> Field n \<in> set ps \<Longrightarrow> n \<noteq> [] \<Longrightarrow> n \<in> field_names ps"
  by (force simp: field_names_def)

lemma res_map_error: "res_map f xs = Inl e \<Longrightarrow> \<exists>x \<in> set xs. f x = Inl e"
  by (induction xs) (auto simp: res_bind_Inl_iff)

lemma res_map_source: "res_map f xs = Inr ys \<Longrightarrow> y \<in> set ys \<Longrightarrow> \<exists>x \<in> set xs. f x = Inr y"
  by (induction xs arbitrary: ys) (auto simp: res_bind_Inr_iff)

lemma render_error:
  assumes t: "prompt_template_post_init t = Inr t'" and r: "render_prompt t vars = Inl e"
  shows "is_ValueError e"
proof (cases "fst ` set vars = pt_variables t")
  case False
  then show ?thesis using r by (auto simp: render_prompt_def)
next
  case True
  obtain ps where ps: "template_parts [] None (pt_template t) = Inr ps" "field_names ps = pt_variables t"
    using t by (auto simp: prompt_template_post_init_def res_bind_Inr_iff split: if_splits)
  show ?thesis
  proof (cases "res_map (format_part vars) ps")
    case (Inr texts)
    then show ?thesis using r True ps by (auto simp: render_prompt_def Let_def split: if_splits)
  next
    case (Inl e')
    then have "e' = e" using r True ps by (simp add: render_prompt_def)
    from res_map_error [OF Inl] obtain x where x: "x \<in> set ps" "format_part vars x = Inl e'" by blast
    show ?thesis
    proof (cases x)
      case (Literal s)
      then show ?thesis using x by (simp add: format_part_def)
    next
      case (Field n)
      show ?thesis
      proof (cases "n = []")
        case True
        then show ?thesis using x Field \<open>e' = e\<close> by (auto simp: format_part_def)
      next
        case False
        then have "n \<in> fst ` set vars" using template_parts_names [OF ps(1)] x(1) Field ps(2) True by blast
        then obtain v where "dict_get vars n = Some v" by (metis map_of_eq_None_iff not_None_eq)
        then show ?thesis using x Field False by (simp add: format_part_def)
      qed
    qed
  qed
qed

lemma registry_get:
  assumes "registry m key vs = Inr d" "dict_get d k = Some v"
  shows "v \<in> set vs \<and> key v = k"
proof -
  have "dict_get (foldl (\<lambda>d v. dict_set (key v) v d) [] vs) k = Some v \<Longrightarrow> v \<in> set vs \<and> key v = k"
    by (induction vs rule: rev_induct) (auto split: if_splits)
  then show ?thesis using assms by (auto simp: registry_def Let_def split: if_splits)
qed

lemma prompt_template_post_init_same: "prompt_template_post_init t = Inr t' \<Longrightarrow> t' = t"
  by (auto simp: prompt_template_post_init_def res_bind_Inr_iff split: if_splits)

lemma model_policy_post_init_same: "model_policy_post_init p = Inr p' \<Longrightarrow> p' = p"
  by (auto simp: model_policy_post_init_def res_bind_Inr_iff split: if_splits)

lemma default_prompt_valid: "default_prompt i task s schema purpose = Inr t \<Longrightarrow> prompt_template_post_init t = Inr t"
  unfolding default_prompt_def using prompt_template_post_init_same by metis

lemma default_prompts_valid:
  assumes "default_prompts = Inr ts" "t \<in> set ts"
  shows "prompt_template_post_init t = Inr t"
proof -
  obtain x where "x \<in> set
     [default_prompt ''intent-router'' TASK_INTENT '' Classify intent and risk. Suggested actions are advisory presentation routes only.''
        ''intent-v1'' ''advisory routing'',
      default_prompt ''field-extractor'' TASK_EXTRACTION '' Extract only fields explicitly present and allowed by the output schema.''
        ''extraction-v1'' ''advisory extraction'',
      default_prompt ''classifier'' TASK_CLASSIFICATION '' Choose only an allowlisted classification label.''
        ''classification-v1'' ''advisory classification'',
      default_prompt ''rewriter'' TASK_REWRITE '' Rewrite without adding facts, commitments, diagnosis, or policy claims.''
        ''rewrite-v1'' ''bounded rewrite'',
      default_prompt ''summarizer'' TASK_SUMMARY '' Summarize only supplied content and distinguish missing information.''
        ''summary-v1'' ''bounded summary'']" "id x = Inr t"
    using res_map_source [OF assms(1) [unfolded default_prompts_def] assms(2)] by blast
  then show ?thesis unfolding list.set insert_iff empty_iff id_apply by (elim disjE FalseE) (simp_all add: default_prompt_valid)
qed

section \<open>The composed runtime\<close>

definition policy_from :: "ai_settings \<Rightarrow> ai_task \<Rightarrow> model_policy \<Rightarrow> bool" where
  "policy_from st task p = (model_policy_post_init p = Inr p \<and> mp_task p = task \<and> mp_max_retries p = se_max_retries st
     \<and> mp_confidence_threshold p = se_confidence_threshold st \<and> mp_provider p = se_provider st)"

lemma policy_of_from: "policy_of st x = Inr p \<Longrightarrow> policy_from st (mp_task p) p"
  using model_policy_post_init_same
  by (cases x) (force simp: policy_of_def policy_from_def)

lemma ai_policies_from:
  assumes "ai_policies st = Inr ps" "p \<in> set ps"
  shows "policy_from st (mp_task p) p"
proof -
  obtain xs where "res_map (policy_of st) xs = Inr ps"
    using assms(1) by (auto simp: ai_policies_def simp del: res_map.simps split: option.splits)
  from res_map_source [OF this assms(2)] obtain x where "policy_of st x = Inr p" by blast
  then show ?thesis by (rule policy_of_from)
qed

lemma dict_get_map_snd: "dict_get (map (\<lambda>(k, c). (k, f c)) d) k = map_option f (dict_get d k)"
  by (induction d) auto

lemma build_runtime_parts:
  assumes "build_runtime st client base = Inr ru"
  shows "ru_enabled ru = se_enabled st" "ru_validator ru = Some validate_routing"
    "dict_get (ru_policies ru) task = Some p \<Longrightarrow> policy_from st task p"
    "dict_get (ru_prompts ru) k = Some t \<Longrightarrow> prompt_template_post_init t = Inr t"
    "dict_get (ru_providers ru) name = Some provider \<Longrightarrow> client = Some (name, provider)"
    "ru_telemetry ru = ru_telemetry base" "ru_sleep ru = ru_sleep base" "ru_now ru = ru_now base"
proof -
  obtain clients ps providers ts prompts policies where
    clients: "(if \<not> se_enabled st then Inr [] else case client of
         None \<Rightarrow> Inl (ValueError ''Enabled AI runtime requires a configured provider client'') | Some c \<Rightarrow> Inr [c]) = Inr clients"
    and ps: "(if se_enabled st then ai_policies st else Inr []) = Inr ps"
    and providers: "registry ''AI provider names must be unique'' fst clients = Inr providers"
    and ts: "default_prompts = Inr ts" and prompts: "prompt_catalog ts = Inr prompts"
    and policies: "policy_catalog ps = Inr policies"
    and ru: "ru = base\<lparr>ru_enabled := se_enabled st, ru_providers := map (\<lambda>(k, c). (k, snd c)) providers, ru_prompts := prompts,
       ru_policies := policies, ru_validator := Some validate_routing\<rparr>"
    using assms unfolding build_runtime_def res_bind_Inr_iff by blast
  show "ru_enabled ru = se_enabled st" "ru_validator ru = Some validate_routing"
    "ru_telemetry ru = ru_telemetry base" "ru_sleep ru = ru_sleep base" "ru_now ru = ru_now base"
    by (simp_all add: ru)
  show "policy_from st task p" if "dict_get (ru_policies ru) task = Some p"
  proof -
    have "p \<in> set ps" "mp_task p = task"
      using registry_get [OF policies [unfolded policy_catalog_def]] that by (auto simp: ru)
    then show ?thesis using ps ai_policies_from by (auto split: if_splits)
  qed
  show "prompt_template_post_init t = Inr t" if "dict_get (ru_prompts ru) k = Some t"
    using registry_get [OF prompts [unfolded prompt_catalog_def]] that default_prompts_valid [OF ts] by (simp add: ru)
  show "client = Some (name, provider)" if "dict_get (ru_providers ru) name = Some provider"
  proof -
    have "map_option snd (dict_get providers name) = Some provider"
      using that by (simp add: ru dict_get_map_snd)
    then obtain c where c: "dict_get providers name = Some c" "provider = snd c" by blast
    from registry_get [OF providers c(1)] clients c(2) show ?thesis by (auto split: if_splits option.splits)
  qed
qed

end
