(* ===== verification/AIRuns.thy ===== *)
theory AIRuns
  imports AIFacts
begin

text \<open>
  The guarantees of \<open>AIRuntime.execute\<close> for the runtime \<open>bootstrap/ai.py\<close> composes: the bound on calls
  and waits, what a success means, and that without a cancellation every execution returns and is
  recorded once. The locale \<open>model_port\<close> is what the runtime needs of a provider
  (\<open>AIModelPort\<close> of \<open>application/ai/ports.py\<close>); the OpenAI adapter interprets it.
\<close>

section \<open>Executions\<close>

text \<open>How an execution of the composed runtime ends, and what it did to get there.\<close>

definition execution_run :: "ai_settings \<Rightarrow> (string \<times> ai_provider) option \<Rightarrow> ai_runtime \<Rightarrow> ai_request \<Rightarrow> ai_state
    \<Rightarrow> ai_state \<times> ai_execution res \<Rightarrow> bool" where
  "execution_run st client ru q s sr = (\<exists>pq n k. as_calls (fst sr) = as_calls s @ replicate n pq
     \<and> as_waits (fst sr) = as_waits s @ map (\<lambda>i. backoff (1 + int i)) [0..<k]
     \<and> k \<le> n \<and> n \<le> 6 \<and> k \<le> 5 \<and> (n = 0 \<or> int n \<le> se_max_retries st + 1)
     \<and> (case snd sr of
          Inr ex \<Rightarrow> fell_back q (int n) ex \<or> (\<exists>p provider. policy_from st (aq_task q) p \<and> client = Some (mp_provider p, provider)
              \<and> pq_model pq = mp_model p \<and> succeeded ru q p provider pq (int n) ex)
        | Inl e \<Rightarrow> stops e \<or> (\<exists>i. ru_sleep ru i = Inl e)))"

lemma execution_run_degrade:
  assumes "same_calls s s0"
  shows "execution_run st client ru q s (degrade ru q p failure 0 started s0)"
proof -
  obtain s' r where d: "degrade ru q p failure 0 started s0 = (s', r)" by fastforce
  show ?thesis
    unfolding execution_run_def d using degrade_state [OF d] assms
    by (intro exI [of _ 0] exI [of _ undefined]) (auto simp: same_calls_def split: sum.splits)
qed

lemma policy_retries: "model_policy_post_init p = Inr p' \<Longrightarrow> 0 \<le> mp_max_retries p \<and> mp_max_retries p \<le> 5"
  by (auto simp: model_policy_post_init_def split: if_splits)

lemma execute_policy_run:
  assumes build: "build_runtime st client base = Inr ru" and p: "dict_get (ru_policies ru) (aq_task q) = Some p"
    and s0: "same_calls s s0"
  shows "execution_run st client ru q s (execute_policy ru q p started s0)"
proof -
  note ru = build_runtime_parts [OF build]
  have pf: "policy_from st (aq_task q) p" using ru(3) [OF p] .
  show ?thesis
  proof (cases "dict_get (ru_prompts ru) (mp_prompt_id p, mp_prompt_version p)")
    case None
    then show ?thesis using execution_run_degrade [OF s0] by (simp add: execute_policy_def)
  next
    case t: (Some t)
    show ?thesis
    proof (cases "dict_get (ru_providers ru) (mp_provider p)")
      case None
      then show ?thesis using t execution_run_degrade [OF s0] by (simp add: execute_policy_def)
    next
      case provider: (Some provider)
      show ?thesis
      proof (cases "usable_prompt q p t")
        case False
        then show ?thesis using t provider execution_run_degrade [OF s0] by (simp add: execute_policy_def)
      next
        case usable: True
        show ?thesis
        proof (cases "render_prompt t (aq_prompt_variables q)")
          case (Inl e)
          have "is_ValueError e" using render_error [OF ru(4) [OF t] Inl] .
          then show ?thesis using t provider usable Inl execution_run_degrade [OF s0] by (simp add: execute_policy_def)
        next
          case (Inr rendered)
          let ?pq = "provider_request_of q p rendered"
          have retries: "0 \<le> mp_max_retries p" "mp_max_retries p \<le> 5" "mp_max_retries p = se_max_retries st"
            using pf policy_retries [of p p] unfolding policy_from_def by blast+
          have "loop_run ru q p provider ?pq 0 s0 (attempt_loop ru q p provider ?pq started 0 s0)"
            by (rule attempt_loop_run) (use retries in simp)
          then obtain n k where nk: "as_calls (fst (attempt_loop ru q p provider ?pq started 0 s0)) = as_calls s0 @ replicate n ?pq"
            "as_waits (fst (attempt_loop ru q p provider ?pq started 0 s0)) = as_waits s0 @ map (\<lambda>i. backoff (1 + int i)) [0..<k]"
            "k \<le> n" "int n \<le> mp_max_retries p + 1" "int k \<le> mp_max_retries p"
            "case snd (attempt_loop ru q p provider ?pq started 0 s0) of
              Inr ex \<Rightarrow> fell_back q (int n) ex \<or> succeeded ru q p provider ?pq (int n) ex
            | Inl e \<Rightarrow> stops e \<or> (\<exists>i. ru_sleep ru i = Inl e)"
            unfolding loop_run_def add_0_left diff_zero by blast
          have "execution_run st client ru q s (attempt_loop ru q p provider ?pq started 0 s0)"
            unfolding execution_run_def
          proof (rule exI [of _ ?pq], rule exI [of _ n], rule exI [of _ k], intro conjI)
            show "case snd (attempt_loop ru q p provider ?pq started 0 s0) of
                Inr ex \<Rightarrow> fell_back q (int n) ex \<or> (\<exists>p provider. policy_from st (aq_task q) p \<and> client = Some (mp_provider p, provider)
                  \<and> pq_model ?pq = mp_model p \<and> succeeded ru q p provider ?pq (int n) ex)
              | Inl e \<Rightarrow> stops e \<or> (\<exists>i. ru_sleep ru i = Inl e)"
              using nk(6) pf ru(5) [OF provider] by (auto simp: provider_request_of_def split: sum.splits)
          qed (use nk retries s0 in \<open>auto simp: same_calls_def\<close>)
          then show ?thesis using t provider usable Inr by (simp add: execute_policy_def)
        qed
      qed
    qed
  qed
qed

lemma execute_ai_run:
  assumes build: "build_runtime st client base = Inr ru"
  shows "execution_run st client ru q s (execute_ai ru q s)"
proof -
  define s0 where "s0 = s\<lparr>as_readings := as_readings s + 1, as_usage := (0, 0)\<rparr>"
  define started where "started = ru_timer ru (as_readings s)"
  have s0: "same_calls s s0" by (simp add: s0_def same_calls_def)
  have ex: "execute_ai ru q s = execute_enabled ru q started s0" by (simp add: execute_ai_def s0_def started_def)
  show ?thesis
  proof (cases "ru_enabled ru")
    case True
    show ?thesis
    proof (cases "dict_get (ru_policies ru) (aq_task q)")
      case None
      then show ?thesis using True execution_run_degrade [OF s0] by (simp add: ex execute_enabled_def)
    next
      case (Some p)
      then show ?thesis using True execute_policy_run [OF build Some s0] by (simp add: ex execute_enabled_def)
    qed
  next
    case False
    show ?thesis
    proof (cases "fallback_result q")
      case (Inl e)
      then show ?thesis
        using False fallback_error [OF Inl] s0 unfolding execution_run_def ex execute_enabled_def
        by (intro exI [of _ 0] exI [of _ undefined]) (simp add: act_bind_def same_calls_def stops_def)
    next
      case (Inr f)
      let ?ex = "\<lparr>ax_status = AI_DISABLED, ax_result = f, ax_failure_code = Some F_DISABLED, ax_attempts = 0\<rparr>"
      obtain s' r where d: "finish_execution ru q None ?ex started s0 = (s', r)" by fastforce
      have "execute_ai ru q s = (s', r)" using False Inr d by (simp add: ex execute_enabled_def act_bind_def)
      then show ?thesis
        unfolding execution_run_def using finish_execution_state [OF d] s0 Inr
        by (intro exI [of _ 0] exI [of _ undefined]) (auto simp: same_calls_def fell_back_def split: sum.splits)
    qed
  qed
qed

lemma total_wait: "k \<le> 5 \<Longrightarrow> sum_list (map (\<lambda>i. backoff (1 + int i)) [0..<k]) \<le> 31 / 10"
proof -
  assume "k \<le> 5"
  then have "k = 0 \<or> k = 1 \<or> k = 2 \<or> k = 3 \<or> k = 4 \<or> k = 5" by arith
  moreover have "[0..<(1::nat)] = [0]" "[0..<(2::nat)] = [0, 1]" "[0..<(3::nat)] = [0, 1, 2]" "[0..<(4::nat)] = [0, 1, 2, 3]"
    "[0..<(5::nat)] = [0, 1, 2, 3, 4]" by (simp_all add: upt_rec)
  ultimately show ?thesis by (auto simp: backoff_def)
qed

section \<open>What was accepted\<close>

fun task_of_result :: "ai_result \<Rightarrow> ai_task" where
  "task_of_result (IntentResult _) = TASK_INTENT"
| "task_of_result (ExtractionResult _ _) = TASK_EXTRACTION"
| "task_of_result (ClassificationResult _ _ _) = TASK_CLASSIFICATION"
| "task_of_result (RewriteResult _ _) = TASK_REWRITE"
| "task_of_result (SummaryResult _ _ _) = TASK_SUMMARY"

lemma result_post_init_same: "result_post_init r = Inr r' \<Longrightarrow> r' = r"
  by (auto simp: result_post_init_def res_bind_Inr_iff)

lemma parse_built:
  "parse_intent out = Inr r \<Longrightarrow> \<exists>i. result_post_init (IntentResult i) = Inr r"
  "parse_extraction out = Inr r \<Longrightarrow> \<exists>xs c. result_post_init (ExtractionResult xs c) = Inr r"
  "parse_classification out = Inr r \<Longrightarrow> \<exists>l c s. result_post_init (ClassificationResult l c s) = Inr r"
  "parse_rewrite out = Inr r \<Longrightarrow> \<exists>s c. result_post_init (RewriteResult s c) = Inr r"
  "parse_summary out = Inr r \<Longrightarrow> \<exists>s ps c. result_post_init (SummaryResult s ps c) = Inr r"
  unfolding parse_intent_def parse_extraction_def parse_classification_def parse_rewrite_def parse_summary_def res_bind_Inr_iff
  by blast+

lemma parse_task_checked:
  assumes "parse_task task out = Inr r"
  shows "result_post_init r = Inr r \<and> task_of_result r = task"
  using assms parse_built [of out r] result_post_init_same
  by (cases task) (fastforce simp: parse_task_def)+

lemma parse_result_checked:
  assumes "parse_result q out = Inr r"
  shows "result_post_init r = Inr r" "task_of_result r = aq_task q" "validate_application_result q r = Inr ()"
  using assms parse_task_checked [of "aq_task q" out]
  by (auto simp: parse_result_def res_bind_Inr_iff split: sum.splits)

lemma post_init_confidence: "result_post_init r = Inr r' \<Longrightarrow> unit_interval (confidence_of r)"
  by (auto simp: result_post_init_def check_confidence_def res_bind_Inr_iff split: if_splits)

lemma not_float_less: "unit_interval c \<Longrightarrow> unit_interval t \<Longrightarrow> \<not> float_less c t \<Longrightarrow> float_le t c"
  by (cases c; cases t) (auto simp: float_less_def unit_interval_def)

lemma policy_threshold: "model_policy_post_init p = Inr p' \<Longrightarrow> unit_interval (mp_confidence_threshold p)"
  by (auto simp: model_policy_post_init_def check_confidence_def res_bind_Inr_iff split: if_splits)

text \<open>What the checks on a result of each task come to.\<close>

definition acceptable :: "ai_request \<Rightarrow> ai_result \<Rightarrow> bool" where
  "acceptable q result = (case result of
       IntentResult i \<Rightarrow> aq_task q = TASK_INTENT \<and> (\<not> high_risk i \<or> ir_action i = OFFER_HUMAN)
         \<and> (case allowed_intents (ir_action i) of None \<Rightarrow> True | Some is' \<Rightarrow> ir_intent i \<in> is')
         \<and> distinct (map xf_key (ir_entities i))
     | ExtractionResult xs c \<Rightarrow> aq_task q = TASK_EXTRACTION \<and> xf_key ` set xs \<subseteq> aq_allowed_fields q \<and> distinct (map xf_key xs)
     | ClassificationResult l c s \<Rightarrow> aq_task q = TASK_CLASSIFICATION \<and> l \<in> aq_allowed_labels q
     | RewriteResult s c \<Rightarrow> aq_task q = TASK_REWRITE \<and> \<not> blank s \<and> length s \<le> 2000
     | SummaryResult s ps c \<Rightarrow> aq_task q = TASK_SUMMARY \<and> \<not> blank s \<and> length s \<le> 2000 \<and> length ps \<le> 10)"

lemma distinct_remdups_length: "length (remdups xs) = length xs \<Longrightarrow> distinct xs"
  by (metis length_remdups_eq distinct_remdups)

lemma acceptable_checks:
  assumes "result_post_init r = Inr r" "task_of_result r = aq_task q" "validate_application_result q r = Inr ()"
    "validate_routing q r = Inr ()"
  shows "acceptable q r"
proof (cases r)
  case (IntentResult i)
  then show ?thesis
    using assms distinct_remdups_length [of "map xf_key (ir_entities i)"]
    by (auto simp: acceptable_def validate_routing_def split: if_splits option.splits)
next
  case (ExtractionResult xs c)
  then show ?thesis
    using assms distinct_remdups_length [of "map xf_key xs"]
    by (auto simp: acceptable_def result_post_init_def res_bind_Inr_iff list_ex_iff split: if_splits)
qed (use assms in \<open>auto simp: acceptable_def result_post_init_def res_bind_Inr_iff split: if_splits\<close>)

end
