(* ===== verification/AIGuarantees.thy ===== *)
theory AIGuarantees
  imports AIRuns
begin

text \<open>
  The properties of the AI runtime. The locale \<open>model_port\<close> is what the runtime needs of a provider
  (\<open>AIModelPort\<close> of \<open>application/ai/ports.py\<close>), and the OpenAI adapter interprets it: with it every
  execution that is not cancelled returns and is recorded.
\<close>

section \<open>Executions without a cancellation\<close>

definition uncancelled :: "'a res \<Rightarrow> bool" where
  "uncancelled r = (r \<noteq> Inl CancelledError)"

lemma uncancelled_simps [simp]:
  "uncancelled (Inr x)" "uncancelled (Inl e) \<longleftrightarrow> e \<noteq> CancelledError"
  by (auto simp: uncancelled_def)

lemma uncancelled_bind: "uncancelled m \<Longrightarrow> (\<And>x. uncancelled (f x)) \<Longrightarrow> uncancelled (res_bind m f)"
  by (cases m) (auto simp: uncancelled_def)

lemma uncancelled_map: "(\<And>x. uncancelled (f x)) \<Longrightarrow> uncancelled (res_map f xs)"
  by (induction xs) (auto intro!: uncancelled_bind)

lemma uncancelled_if: "uncancelled a \<Longrightarrow> uncancelled b \<Longrightarrow> uncancelled (if c then a else b)"
  by simp

lemma uncancelled_ValueError: "(\<And>e. r = Inl e \<Longrightarrow> is_ValueError e) \<Longrightarrow> uncancelled r"
  by (auto simp: uncancelled_def)

lemma uncancelled_schema:
  "uncancelled (schema_object ks v)" "uncancelled (item_get d k)" "uncancelled (schema_string n v)"
  "uncancelled (member_of val ms s)" "uncancelled (float_of_int i)" "uncancelled (confidence_range f)"
  by (auto simp: schema_object_def item_get_def schema_string_def member_of_def float_of_int_def confidence_range_def
      split: json.splits option.splits)

lemma uncancelled_post_init: "uncancelled (result_post_init r)" "uncancelled (extracted_field_post_init x)"
  by (rule uncancelled_ValueError, erule result_post_init_error)
    (auto simp: extracted_field_post_init_def check_confidence_def uncancelled_def res_bind_Inl_iff split: if_splits)

lemmas uncancelled_rules = uncancelled_bind uncancelled_map uncancelled_if uncancelled_schema uncancelled_post_init

lemma uncancelled_confidence: "uncancelled (schema_confidence v)"
  by (cases v) (auto simp: schema_confidence_def intro!: uncancelled_rules)

lemma uncancelled_strings: "uncancelled (schema_strings m n v)"
  by (cases v) (auto simp: schema_strings_def intro!: uncancelled_rules)

lemma uncancelled_field_of: "uncancelled (extracted_field_of d)"
  unfolding extracted_field_of_def by (intro uncancelled_rules uncancelled_confidence)

lemma uncancelled_field: "uncancelled (schema_field v)"
  unfolding schema_field_def using uncancelled_field_of
  by (intro uncancelled_rules) (auto simp: uncancelled_def split: sum.splits)

lemma uncancelled_fields: "uncancelled (schema_fields v)"
  by (cases v) (auto simp: schema_fields_def intro!: uncancelled_rules uncancelled_field)

lemmas uncancelled_parts = uncancelled_rules uncancelled_confidence uncancelled_strings uncancelled_fields

lemma uncancelled_task: "uncancelled (parse_task task out)"
proof (cases task)
  case TASK_INTENT
  then show ?thesis by (simp add: parse_task_def parse_intent_def) (intro uncancelled_parts)
next
  case TASK_EXTRACTION
  then show ?thesis by (simp add: parse_task_def parse_extraction_def) (intro uncancelled_parts)
next
  case TASK_CLASSIFICATION
  then show ?thesis by (simp add: parse_task_def parse_classification_def) (intro uncancelled_parts)
next
  case TASK_REWRITE
  then show ?thesis by (simp add: parse_task_def parse_rewrite_def) (intro uncancelled_parts)
next
  case TASK_SUMMARY
  then show ?thesis by (simp add: parse_task_def parse_summary_def) (intro uncancelled_parts)
qed

lemma schema_error_uncancelled: "schema_error e = CancelledError \<longleftrightarrow> e = CancelledError"
  by (cases e) (auto simp: schema_error_def)

lemma uncancelled_parse: "uncancelled (parse_result q out)"
proof (cases "parse_task (aq_task q) out")
  case (Inl e)
  then show ?thesis
    using uncancelled_task [of "aq_task q" out] by (simp add: parse_result_def schema_error_uncancelled)
next
  case (Inr r)
  have "uncancelled (validate_application_result q r)"
    by (cases "(q, r)" rule: validate_application_result.cases) auto
  then show ?thesis using Inr by (simp add: parse_result_def uncancelled_bind)
qed

lemma uncancelled_routing: "uncancelled (validate_routing q r)"
  by (auto simp: validate_routing_def split: ai_result.splits option.splits)

text \<open>Clocks with a time zone, waits that run to their end, a telemetry that fails at most by an exception.\<close>

definition calm :: "ai_runtime \<Rightarrow> bool" where
  "calm ru = ((\<forall>n. aware (ru_now ru n)) \<and> (\<forall>i. ru_sleep ru i = Inr ()) \<and> (\<forall>r. uncancelled (ru_telemetry ru r)))"

definition valid_usage :: "ai_state \<Rightarrow> bool" where
  "valid_usage s = (0 \<le> fst (as_usage s) \<and> 0 \<le> snd (as_usage s))"

definition valid_costs :: "model_policy option \<Rightarrow> bool" where
  "valid_costs p = (case p of None \<Rightarrow> True | Some p \<Rightarrow> 0 \<le> mp_input_cost_per_million p \<and> 0 \<le> mp_output_cost_per_million p)"

text \<open>One operation more was given to the telemetry, and it is stored when the telemetry works.\<close>

definition recorded :: "ai_runtime \<Rightarrow> ai_request \<Rightarrow> ai_execution \<Rightarrow> ai_state \<Rightarrow> ai_state \<Rightarrow> bool" where
  "recorded ru q ex s s' = (\<exists>op. ao_tenant_id op = aq_tenant_id q \<and> ao_task op = aq_task q \<and> ao_status op = ax_status ex
     \<and> ao_attempts op = ax_attempts ex \<and> ao_failure_code op = ax_failure_code ex \<and> ai_operation_post_init op = Inr op
     \<and> as_records s' = as_records s @ (if is_ok (ru_telemetry ru op) then [op] else []))"

lemma ai_cost_nonneg: "valid_costs p \<Longrightarrow> valid_usage s \<Longrightarrow> 0 \<le> ai_cost p (as_usage s)"
  by (auto simp: ai_cost_def valid_costs_def valid_usage_def split: option.splits)

lemma finish_calm:
  assumes "calm ru" "valid_usage s" "valid_costs p" "0 \<le> ax_attempts ex"
  shows "\<exists>s'. finish_execution ru q p ex started s = (s', Inr ex) \<and> recorded ru q ex s s'"
proof -
  let ?op = "operation_record ru q p ex started s"
  have ok: "ai_operation_post_init ?op = Inr ?op"
    using assms ai_cost_nonneg [of p s]
    by (simp add: ai_operation_post_init_def operation_record_def calm_def valid_usage_def Let_def)
  have "uncancelled (ru_telemetry ru ?op)" using assms(1) by (simp add: calm_def)
  then obtain s' where "record_operation ru q p ex started s = (s', Inr ())"
    "as_records s' = as_records s @ (if is_ok (ru_telemetry ru ?op) then [?op] else [])"
    using ok not_Exception by (cases "ru_telemetry ru ?op") (auto simp: record_operation_def Let_def)
  moreover have "ao_tenant_id ?op = aq_tenant_id q" "ao_task ?op = aq_task q" "ao_status ?op = ax_status ex"
    "ao_attempts ?op = ax_attempts ex" "ao_failure_code ?op = ax_failure_code ex"
    by (simp_all add: operation_record_def Let_def)
  ultimately show ?thesis
    using ok by (intro exI [of _ s']) (auto simp: finish_execution_def act_bind_def recorded_def intro!: exI [of _ ?op])
qed

definition settled :: "ai_request \<Rightarrow> ai_execution \<Rightarrow> bool" where
  "settled q ex = (ax_status ex = AI_SUCCESS \<or> (ax_status ex \<in> {AI_FALLBACK, AI_DISABLED} \<and> ax_failure_code ex \<noteq> None
     \<and> fallback_result q = Inr (ax_result ex)))"

lemma degrade_calm:
  assumes "calm ru" "valid_usage s" "valid_costs p" "0 \<le> attempts" "fallback_result q = Inr f"
  shows "\<exists>s' ex. degrade ru q p failure attempts started s = (s', Inr ex) \<and> recorded ru q ex s s' \<and> settled q ex"
proof -
  let ?ex = "\<lparr>ax_status = AI_FALLBACK, ax_result = f, ax_failure_code = Some failure, ax_attempts = attempts\<rparr>"
  obtain s' where "finish_execution ru q p ?ex started s = (s', Inr ?ex)" "recorded ru q ?ex s s'"
    using finish_calm [OF assms(1-3), of ?ex q started] assms(4) by auto
  then show ?thesis
    using assms(5) by (intro exI [of _ s'] exI [of _ ?ex]) (simp add: degrade_def act_bind_def settled_def)
qed

section \<open>The provider's contract\<close>

locale model_port =
  fixes provider :: ai_provider
  assumes usage: "provider pq n = Inr r \<Longrightarrow> 0 \<le> pp_input_tokens r \<and> 0 \<le> pp_output_tokens r"
begin

lemma attempt_calm:
  assumes calm: "calm ru" and usage0: "valid_usage s" and costs: "valid_costs (Some p)" and n: "0 \<le> attempts"
    and fallback: "fallback_result q = Inr f" and provider: "\<And>pq n. uncancelled (provider pq n)"
    and validator: "ru_validator ru = Some validate_routing"
    and a: "ai_attempt ru q p provider pq started attempts s = (s', r)"
  shows "case r of Inr ex \<Rightarrow> recorded ru q ex s s' \<and> settled q ex
    | Inl e \<Rightarrow> e \<noteq> CancelledError \<and> as_records s' = as_records s \<and> valid_usage s'"
proof -
  obtain s1 c where c: "call_provider provider pq s = (s1, c)" by fastforce
  have s1: "as_records s1 = as_records s" "valid_usage s1"
    using c usage0 usage by (auto simp: call_provider_def valid_usage_def Let_def split: sum.splits)
  show ?thesis
  proof (cases c)
    case (Inl e)
    have "uncancelled (provider pq (length (as_calls s)))" by (rule provider)
    then have "e \<noteq> CancelledError" using c Inl by (auto simp: call_provider_def Let_def split: sum.splits)
    then show ?thesis using a c Inl s1 by (auto simp: ai_attempt_def act_bind_def)
  next
    case c': (Inr resp)
    have unc: "uncancelled (checked_result ru q p resp)"
      unfolding checked_result_def validator by (auto intro!: uncancelled_bind uncancelled_parse uncancelled_routing)
    show ?thesis
    proof (cases "checked_result ru q p resp")
      case (Inl e)
      then show ?thesis using a c c' s1 unc by (auto simp: ai_attempt_def act_bind_def)
    next
      case (Inr result)
      let ?ex = "\<lparr>ax_status = AI_SUCCESS, ax_result = result, ax_failure_code = None, ax_attempts = attempts\<rparr>"
      have eq: "(s', r) = (if float_less (confidence_of result) (mp_confidence_threshold p)
          then degrade ru q (Some p) F_LOW_CONFIDENCE attempts started s1 else finish_execution ru q (Some p) ?ex started s1)"
        using a c c' Inr by (auto simp: ai_attempt_def act_bind_def)
      obtain s2 ex2 where d: "degrade ru q (Some p) F_LOW_CONFIDENCE attempts started s1 = (s2, Inr ex2)"
        "recorded ru q ex2 s1 s2" "settled q ex2"
        using degrade_calm [OF calm s1(2) costs n fallback] by blast
      obtain s3 where fin: "finish_execution ru q (Some p) ?ex started s1 = (s3, Inr ?ex)" "recorded ru q ?ex s1 s3"
        using finish_calm [OF calm s1(2) costs, of ?ex q started] n by auto
      have "settled q ?ex" by (simp add: settled_def)
      then show ?thesis using eq d fin s1(1) by (auto simp: recorded_def split: if_splits)
    qed
  qed
qed

lemma loop_calm:
  assumes "calm ru" "valid_usage s" "valid_costs (Some p)" "0 \<le> attempts" "attempts \<le> mp_max_retries p"
    "fallback_result q = Inr f" "\<forall>pq n. uncancelled (provider pq n)" "ru_validator ru = Some validate_routing"
  shows "\<exists>s' ex. attempt_loop ru q p provider pq started attempts s = (s', Inr ex) \<and> recorded ru q ex s s' \<and> settled q ex"
  using assms
proof (induction "nat (mp_max_retries p - attempts)" arbitrary: attempts s rule: less_induct)
  case less
  note calm = \<open>calm ru\<close> and costs = \<open>valid_costs (Some p)\<close> and fallback = \<open>fallback_result q = Inr f\<close>
  obtain s1 r1 where a: "ai_attempt ru q p provider pq started (attempts + 1) s = (s1, r1)" by fastforce
  have "0 \<le> attempts + 1" using less.prems(4) by simp
  note st = attempt_calm [OF calm less.prems(2) costs this fallback _ less.prems(8) a]
  show ?case
  proof (cases r1)
    case (Inr ex)
    then show ?thesis using a st less.prems(5,7) by (subst attempt_loop.simps) simp
  next
    case (Inl e)
    then have e: "e \<noteq> CancelledError" "as_records s1 = as_records s" "valid_usage s1" using st less.prems(7) by auto
    show ?thesis
    proof (cases "\<not> snd (failure_of e) \<or> mp_max_retries p < attempts + 1")
      case True
      obtain s2 ex where "degrade ru q (Some p) (fst (failure_of e)) (attempts + 1) started s1 = (s2, Inr ex)"
        "recorded ru q ex s1 s2" "settled q ex"
        using degrade_calm [OF calm e(3) costs _ fallback, of "attempts + 1"] less.prems(4) by fastforce
      then show ?thesis
        using a Inl True e less.prems(5) by (subst attempt_loop.simps) (auto simp: recorded_def)
    next
      case False
      define s2 where "s2 = s1\<lparr>as_waits := as_waits s1 @ [backoff (attempts + 1)]\<rparr>"
      have w: "ai_wait ru (backoff (attempts + 1)) s1 = (s2, Inr ())" using calm by (simp add: ai_wait_def s2_def calm_def)
      have "valid_usage s2" using e(3) by (simp add: s2_def valid_usage_def)
      then obtain s' ex where "attempt_loop ru q p provider pq started (attempts + 1) s2 = (s', Inr ex)"
        "recorded ru q ex s2 s'" "settled q ex"
        using less.hyps [of "attempts + 1" s2] less.prems False by auto
      moreover have "as_records s2 = as_records s" using e(2) by (simp add: s2_def)
      ultimately show ?thesis
        using a Inl False e(1) w less.prems(5) by (subst attempt_loop.simps) (auto simp: recorded_def)
    qed
  qed
qed

end

text \<open>The OpenAI adapter keeps it: a response is built only from usage numbers that are not negative.\<close>

lemma invalid_response_Inr: "invalid_response r = Inr x \<longleftrightarrow> r = Inr x"
  by (auto simp: invalid_response_def split: sum.splits)

lemma decoded_response_Inr:
  assumes "decoded_response loads pq decoded = Inr r"
  shows "pp_provider r = ''openai'' \<and> pp_model r = pq_model pq \<and> 0 \<le> pp_input_tokens r \<and> 0 \<le> pp_output_tokens r"
proof (cases decoded)
  case (JObj body)
  then show ?thesis
    using assms by (auto simp: decoded_response_def provider_response_post_init_def res_bind_Inr_iff split: if_splits)
qed (use assms in \<open>auto simp: decoded_response_def\<close>)

lemma openai_response:
  assumes "openai_execute post loads pq n = Inr r"
  shows "pp_provider r = ''openai'' \<and> pp_model r = pq_model pq \<and> 0 \<le> pp_input_tokens r \<and> 0 \<le> pp_output_tokens r"
proof -
  obtain body decoded where "body = Inr decoded" "decoded_response loads pq decoded = Inr r"
    using assms by (auto simp: openai_execute_def invalid_response_Inr res_bind_Inr_iff)
  then show ?thesis by (intro decoded_response_Inr)
qed

interpretation openai: model_port "openai_execute post loads" for post loads
  by unfold_locales (simp add: openai_response)

section \<open>A composed runtime\<close>

text \<open>The service is rate limited at first, then classifies a question about the catalog.\<close>

definition demo_ai_settings :: ai_settings where
  "demo_ai_settings = \<lparr>se_enabled = True, se_provider = ''openai'', se_router_model = Some ''small'', se_response_model = Some ''large'',
     se_temperature = None, se_max_output_tokens = 256, se_timeout_seconds = Fin 10, se_max_retries = 2,
     se_confidence_threshold = Fin (7 / 10), se_structured_output_mode = ''strict_json_schema'', se_input_cost = 1, se_output_cost = 2\<rparr>"

definition demo_answer :: json where
  "demo_answer = JObj [(''intent'', JStr ''service_discovery''), (''confidence'', JFloat (Fin (9 / 10))), (''entities'', JList []),
     (''missing_information'', JList []), (''risk_flags'', JList []), (''suggested_action'', JStr ''show_catalog''),
     (''rationale_category'', JStr ''catalog'')]"

definition demo_post :: "(string, json) dict \<Rightarrow> nat \<Rightarrow> http_answer" where
  "demo_post payload n = (if n = 0 then HttpResponse 429 (Inr JNull) else HttpResponse 200 (Inr (JObj [(''status'', JStr ''completed''),
     (''model'', JStr ''small''), (''usage'', JObj [(''input_tokens'', JInt 120), (''output_tokens'', JInt 30)]),
     (''output'', JList [JObj [(''type'', JStr ''message''), (''content'', JList [JObj [(''type'', JStr ''output_text''),
        (''text'', JStr ''the answer'')]])]])])))"

definition demo_loads :: "string \<Rightarrow> json res" where
  "demo_loads s = (if s = ''the answer'' then Inr demo_answer else Inl (ValueError ''Expecting value''))"

definition demo_ports :: ai_runtime where
  "demo_ports = \<lparr>ru_enabled = False, ru_providers = [], ru_prompts = [], ru_policies = [], ru_validator = None,
     ru_telemetry = (\<lambda>_. Inr ()), ru_sleep = (\<lambda>_. Inr ()), ru_timer = (\<lambda>n. of_nat n / 4),
     ru_now = (\<lambda>n. utc_datetime (int n)), ru_uuid = of_nat\<rparr>"

definition demo_client :: "(string \<times> ai_provider) option" where
  "demo_client = Some (''openai'', openai_execute demo_post demo_loads)"

definition demo_runtime :: ai_runtime where
  "demo_runtime = (case build_runtime demo_ai_settings demo_client demo_ports of Inl _ \<Rightarrow> demo_ports | Inr ru \<Rightarrow> ru)"

definition demo_ai_request :: ai_request where
  "demo_ai_request = \<lparr>aq_tenant_id = TenantId 1, aq_conversation_id = None, aq_correlation_id = 7, aq_task = TASK_INTENT,
     aq_input_text = ''What do you offer?'', aq_prompt_variables = [], aq_allowed_fields = {}, aq_allowed_labels = {}\<rparr>"

definition demo_ai_state :: ai_state where
  "demo_ai_state = \<lparr>as_calls = [], as_waits = [], as_records = [], as_readings = 0, as_usage = (0, 0)\<rparr>"

definition demo_execution :: "ai_state \<times> ai_execution res" where
  "demo_execution = execute_ai demo_runtime demo_ai_request demo_ai_state"

lemma demo_is_built: "is_ok (build_runtime demo_ai_settings demo_client demo_ports)"
  by code_simp

lemma demo_build: "build_runtime demo_ai_settings demo_client demo_ports = Inr demo_runtime"
  using demo_is_built by (auto simp: is_ok_iff demo_runtime_def)

lemma demo_execution_succeeds:
  "case snd demo_execution of Inl _ \<Rightarrow> False | Inr ex \<Rightarrow> ax_status ex = AI_SUCCESS \<and> ax_attempts ex = 2"
  by code_simp

section \<open>Properties\<close>

text \<open>
  C15. An execution always ends, after at most one call more than the policy allows retries
  (so at most six), all with the same request, and after at most five waits that double from a tenth of
  a second and add up to 3.1 seconds at most. It ends with a result that names the number of calls, or
  raises: a cancellation, a value error, or what interrupted a wait. It never runs into the assertion
  behind its loop.
\<close>

theorem execute_bounded:
  assumes "build_runtime st client base = Inr ru" "execute_ai ru q s = (s', r)"
  shows "\<exists>pq n k. as_calls s' = as_calls s @ replicate n pq
     \<and> as_waits s' = as_waits s @ map (\<lambda>i. backoff (1 + int i)) [0..<k]
     \<and> k \<le> n \<and> n \<le> 6 \<and> k \<le> 5 \<and> (n = 0 \<or> int n \<le> se_max_retries st + 1)
     \<and> sum_list (map (\<lambda>i. backoff (1 + int i)) [0..<k]) \<le> 31 / 10
     \<and> (case r of Inr ex \<Rightarrow> ax_attempts ex = int n
        | Inl e \<Rightarrow> e = CancelledError \<or> is_ValueError e \<or> (\<exists>i. ru_sleep base i = Inl e))"
proof -
  have "execution_run st client ru q s (s', r)" using execute_ai_run [OF assms(1), of q s] assms(2) by simp
  then obtain pq n k where run: "as_calls s' = as_calls s @ replicate n pq"
    "as_waits s' = as_waits s @ map (\<lambda>i. backoff (1 + int i)) [0..<k]"
    "k \<le> n" "n \<le> 6" "k \<le> 5" "n = 0 \<or> int n \<le> se_max_retries st + 1"
    "case r of
          Inr ex \<Rightarrow> fell_back q (int n) ex \<or> (\<exists>p provider. policy_from st (aq_task q) p \<and> client = Some (mp_provider p, provider)
              \<and> pq_model pq = mp_model p \<and> succeeded ru q p provider pq (int n) ex)
        | Inl e \<Rightarrow> stops e \<or> (\<exists>i. ru_sleep ru i = Inl e)"
    unfolding execution_run_def fst_conv snd_conv by blast
  have "case r of Inr ex \<Rightarrow> ax_attempts ex = int n
        | Inl e \<Rightarrow> e = CancelledError \<or> is_ValueError e \<or> (\<exists>i. ru_sleep base i = Inl e)"
    using run(7) build_runtime_parts(7) [OF assms(1)] by (auto simp: fell_back_def succeeded_def stops_def split: sum.splits)
  with run total_wait [OF run(5)] show ?thesis by blast
qed

text \<open>
  C13. A success is the answer of the configured provider, for the model asked for,
  that parsed under the strict schema of the task; its confidence reaches the threshold; an extraction
  has only allowed fields and a classification an allowed label; a high-risk intent offers a human, and
  a presentation route fits the intent.
\<close>

theorem execute_success:
  assumes "build_runtime st client base = Inr ru" "execute_ai ru q s = (s', Inr ex)" "ax_status ex = AI_SUCCESS"
  shows "acceptable q (ax_result ex) \<and> unit_interval (confidence_of (ax_result ex))
    \<and> float_le (se_confidence_threshold st) (confidence_of (ax_result ex))
    \<and> (\<exists>provider pq n resp. client = Some (se_provider st, provider) \<and> provider pq n = Inr resp
        \<and> pp_provider resp = se_provider st \<and> pp_model resp = pq_model pq \<and> parse_result q (pp_output resp) = Inr (ax_result ex))"
proof -
  have "execution_run st client ru q s (s', Inr ex)" using execute_ai_run [OF assms(1), of q s] assms(2) by simp
  then obtain p provider pq n where p: "policy_from st (aq_task q) p" "client = Some (mp_provider p, provider)"
    "pq_model pq = mp_model p" "succeeded ru q p provider pq (int n) ex"
    using assms(3) by (auto simp: execution_run_def fell_back_def)
  from p(4) obtain m resp where resp: "provider pq m = Inr resp" "checked_result ru q p resp = Inr (ax_result ex)"
    "\<not> float_less (confidence_of (ax_result ex)) (mp_confidence_threshold p)"
    by (auto simp: succeeded_def)
  have parsed: "parse_result q (pp_output resp) = Inr (ax_result ex)" "pp_provider resp = mp_provider p" "pp_model resp = mp_model p"
    "validate_routing q (ax_result ex) = Inr ()"
    using resp(2) build_runtime_parts(2) [OF assms(1)] by (auto simp: checked_result_def res_bind_Inr_iff split: if_splits)
  note checked = parse_result_checked [OF parsed(1)]
  have unit: "unit_interval (confidence_of (ax_result ex))" using post_init_confidence [OF checked(1)] .
  have "unit_interval (mp_confidence_threshold p)" using p(1) policy_threshold [of p p] unfolding policy_from_def by blast
  from not_float_less [OF unit this resp(3)] have "float_le (mp_confidence_threshold p) (confidence_of (ax_result ex))" .
  moreover have "acceptable q (ax_result ex)" using acceptable_checks [OF checked parsed(4)] .
  moreover have "mp_confidence_threshold p = se_confidence_threshold st" "mp_provider p = se_provider st"
    using p(1) by (simp_all add: policy_from_def)
  ultimately show ?thesis using unit p(2,3) resp(1) parsed by metis
qed

lemma fallback_available:
  assumes "ai_request_post_init q = Inr q" "aq_task q \<noteq> TASK_REWRITE \<or> length (aq_input_text q) \<le> 2000"
  shows "\<exists>f. fallback_result q = Inr f"
proof (cases "aq_task q")
  case TASK_REWRITE
  then show ?thesis
    using assms by (auto simp: ai_request_post_init_def fallback_result_def result_post_init_def check_confidence_def unit_interval_def
        split: if_splits)
next
  case TASK_INTENT
  have "isidentifier ''deterministic_fallback''" by code_simp
  with TASK_INTENT show ?thesis
    by (simp add: fallback_result_def result_post_init_def check_confidence_def unit_interval_def)
next
  case TASK_CLASSIFICATION
  have "isidentifier ''deterministic_fallback''" "\<not> blank ''unknown''" by code_simp+
  with TASK_CLASSIFICATION show ?thesis
    by (simp add: fallback_result_def result_post_init_def check_confidence_def unit_interval_def)
next
  case TASK_SUMMARY
  have "\<not> blank ''A verified summary is unavailable.''" by code_simp
  with TASK_SUMMARY show ?thesis
    by (simp add: fallback_result_def result_post_init_def check_confidence_def unit_interval_def)
qed (simp add: fallback_result_def result_post_init_def check_confidence_def unit_interval_def)

lemma policy_costs: "model_policy_post_init p = Inr p' \<Longrightarrow> valid_costs (Some p)"
  by (auto simp: model_policy_post_init_def valid_costs_def res_bind_Inr_iff split: if_splits)

lemma execute_policy_calm:
  assumes build: "build_runtime st (Some (''openai'', openai_execute post loads)) base = Inr ru"
    and calm: "calm ru" and answers: "\<forall>pq n. uncancelled (openai_execute post loads pq n)"
    and fallback: "fallback_result q = Inr f" and s: "valid_usage s"
    and p: "dict_get (ru_policies ru) (aq_task q) = Some p"
  shows "\<exists>s' ex. execute_policy ru q p started s = (s', Inr ex) \<and> recorded ru q ex s s' \<and> settled q ex"
proof -
  note ru = build_runtime_parts [OF build]
  have pf: "model_policy_post_init p = Inr p" using ru(3) [OF p] unfolding policy_from_def by blast
  have costs: "valid_costs (Some p)" and retries: "0 \<le> mp_max_retries p" using policy_costs [OF pf] policy_retries [OF pf] by auto
  have dg: "\<exists>s' ex. degrade ru q (Some p) F_POLICY_INVALID 0 started s = (s', Inr ex) \<and> recorded ru q ex s s' \<and> settled q ex"
    using degrade_calm [OF calm s costs order_refl fallback] .
  show ?thesis
  proof (cases "dict_get (ru_prompts ru) (mp_prompt_id p, mp_prompt_version p)")
    case None
    then show ?thesis using dg by (simp add: execute_policy_def)
  next
    case t: (Some t)
    show ?thesis
    proof (cases "dict_get (ru_providers ru) (mp_provider p)")
      case None
      then show ?thesis using t dg by (simp add: execute_policy_def)
    next
      case provider: (Some provider)
      then have provider': "provider = openai_execute post loads" using ru(5) by simp
      show ?thesis
      proof (cases "\<not> usable_prompt q p t \<or> (\<exists>e. render_prompt t (aq_prompt_variables q) = Inl e)")
        case True
        then show ?thesis using t provider dg render_error [OF ru(4) [OF t]] by (auto simp: execute_policy_def)
      next
        case False
        then obtain rendered where "usable_prompt q p t" "render_prompt t (aq_prompt_variables q) = Inr rendered"
          by (cases "render_prompt t (aq_prompt_variables q)") auto
        then show ?thesis
          using t provider provider' openai.loop_calm [OF calm s costs order_refl retries fallback answers ru(2)]
          by (simp add: execute_policy_def)
      qed
    qed
  qed
qed

text \<open>
  C16. With the OpenAI adapter, clocks that know their zone and no cancellation, every
  valid request, a rewrite of at most 2000 characters included, gets an execution whatever the service
  answers: a success, or the deterministic fallback with a failure code. Exactly one valid operation with
  the same task, status, attempts and failure code goes to the telemetry; that it fails does not matter.
\<close>

theorem execute_settles:
  assumes "build_runtime st (Some (''openai'', openai_execute post loads)) base = Inr ru" "calm base"
    "\<forall>pq n. uncancelled (openai_execute post loads pq n)"
    "ai_request_post_init q = Inr q" "aq_task q \<noteq> TASK_REWRITE \<or> length (aq_input_text q) \<le> 2000"
  shows "\<exists>s' ex. execute_ai ru q s = (s', Inr ex) \<and> recorded ru q ex s s' \<and> settled q ex"
proof -
  obtain f where fallback: "fallback_result q = Inr f" using fallback_available [OF assms(4,5)] by blast
  note ru = build_runtime_parts [OF assms(1)]
  have calm: "calm ru" using assms(2) ru(6-8) by (simp add: calm_def)
  define s0 where "s0 = s\<lparr>as_readings := as_readings s + 1, as_usage := (0, 0)\<rparr>"
  define started where "started = ru_timer ru (as_readings s)"
  have s0: "valid_usage s0" "as_records s0 = as_records s" by (simp_all add: s0_def valid_usage_def)
  have ex: "execute_ai ru q s = execute_enabled ru q started s0" by (simp add: execute_ai_def s0_def started_def)
  have none: "valid_costs None" by (simp add: valid_costs_def)
  have "\<exists>s' ex. execute_enabled ru q started s0 = (s', Inr ex) \<and> recorded ru q ex s0 s' \<and> settled q ex"
  proof (cases "ru_enabled ru")
    case False
    let ?ex = "\<lparr>ax_status = AI_DISABLED, ax_result = f, ax_failure_code = Some F_DISABLED, ax_attempts = 0\<rparr>"
    from finish_calm [OF calm s0(1) none, of ?ex q started] obtain s' where
      "finish_execution ru q None ?ex started s0 = (s', Inr ?ex)" "recorded ru q ?ex s0 s'" by auto
    moreover have "settled q ?ex" using fallback by (simp add: settled_def)
    ultimately show ?thesis using False fallback by (auto simp: execute_enabled_def act_bind_def)
  next
    case True
    show ?thesis
    proof (cases "dict_get (ru_policies ru) (aq_task q)")
      case None
      then show ?thesis using True degrade_calm [OF calm s0(1) none order_refl fallback] by (simp add: execute_enabled_def)
    next
      case (Some p)
      then show ?thesis
        using True execute_policy_calm [OF assms(1) calm assms(3) fallback s0(1) Some] by (simp add: execute_enabled_def)
    qed
  qed
  then show ?thesis using s0(2) by (simp add: ex recorded_def)
qed

section \<open>Defects\<close>

text \<open>
  The fallback of a rewrite is its input, but a rewrite result holds at most 2000 characters and a
  request 8000: for the texts in between the runtime raises, even when it is disabled.
\<close>

theorem long_rewrite_raises:
  assumes "aq_task q = TASK_REWRITE" "2000 < length (aq_input_text q)" "\<not> ru_enabled ru"
  shows "snd (execute_ai ru q s) = Inl (ValueError ''Rewrite result is invalid'')"
proof -
  have "fallback_result q = Inl (ValueError ''Rewrite result is invalid'')"
    using assms(1,2) by (simp add: fallback_result_def result_post_init_def check_confidence_def unit_interval_def)
  then show ?thesis using assms(3) by (simp add: execute_ai_def execute_enabled_def act_bind_def)
qed

text \<open>
  The embeddings adapter takes at most a hundred texts and refuses more with a plain ValueError, which
  ingestion does not turn into a KnowledgeError: a source of more than a hundred chunks is never ingested.
\<close>

lemma hex_char_is_hex: "d < 16 \<Longrightarrow> is_hex (hex_char d)"
  by (auto simp: is_hex_def is_digit_def hex_char_def code_def of_char_of)

lemma hexdigest_hex: "list_all is_hex (hexdigest bs)"
proof -
  have "unat (b :: byte) div 16 < 16" for b
    using unsigned_less [where ?'a = nat and w = b] by (simp add: less_mult_imp_div_less)
  then show ?thesis by (auto simp: hexdigest_def list_all_iff hex_char_is_hex)
qed

lemma length_hexdigest: "length (hexdigest bs) = 2 * length bs"
  by (induction bs) (simp_all add: hexdigest_def)

lemma content_checksum_valid: "is_checksum (content_checksum s)"
  by (simp add: is_checksum_def content_checksum_def hexdigest_hex length_hexdigest)

theorem large_source_refused:
  assumes "100 < length drafts" "\<not> blank title" "length title \<le> 300"
    "int (length (utf8 source)) \<le> kp_maximum_source_bytes policy"
    "find_by_checksum (pr_tenant_id p) (content_checksum source) db = None"
  shows "ingest_source (openai_embed post parse_float) policy ids p title source l kind drafts db
    = (db, Inl (ValueError ''Embedding input batch is invalid''))"
proof -
  have "openai_embed post parse_float (map cd_text drafts) model dimensions = Inl (ValueError ''Embedding input batch is invalid'')" for model dimensions
    using assms(1) by (auto simp: openai_embed_def)
  moreover have "\<not> blank (source_type_value kind)" by (cases kind) (simp_all add: blank_def strip_def lstrip_def rstrip_def is_space_def code_def)
  ultimately have "prepare_document (openai_embed post parse_float) policy ids p title source l kind drafts
      = Inl (ValueError ''Embedding input batch is invalid'')"
    using assms(2) content_checksum_valid [of source]
    by (simp add: prepare_document_def knowledge_post_init_def knowledge_transition_to_def embedding_error_def Let_def)
  then show ?thesis using assms by (simp add: ingest_source_def)
qed

section \<open>Witnesses\<close>

lemma content_uncancelled: "\<forall>s. uncancelled (loads s) \<Longrightarrow> content_output loads xs = Some r \<Longrightarrow> uncancelled r"
  by (induction loads xs rule: content_output.induct)
    (auto split: if_splits option.splits json.splits intro!: uncancelled_bind)

lemma outputs_uncancelled: "\<forall>s. uncancelled (loads s) \<Longrightarrow> uncancelled (outputs_output loads xs)"
  by (induction loads xs rule: outputs_output.induct)
    (auto split: option.splits json.splits dest: content_uncancelled)

lemma decoded_uncancelled:
  assumes "\<forall>s. uncancelled (loads s)"
  shows "uncancelled (decoded_response loads pq v)"
proof -
  have "uncancelled (structured_output loads w)" for w
    using outputs_uncancelled [OF assms] by (auto simp: structured_output_def split: option.splits json.splits)
  moreover have "uncancelled (token_usage w)" for w
    by (auto simp: token_usage_def split: option.splits json.splits)
  moreover have "uncancelled (provider_response_post_init r)" for r
    by (simp add: provider_response_post_init_def)
  ultimately show ?thesis
    by (cases v) (auto simp: decoded_response_def intro!: uncancelled_bind)
qed

lemma invalid_uncancelled: "uncancelled r \<Longrightarrow> uncancelled (invalid_response r)"
  by (auto simp: invalid_response_def split: sum.splits)

lemma demo_calm: "calm demo_ports" "uncancelled (openai_execute demo_post demo_loads pq n)"
proof -
  show "calm demo_ports" by (simp add: calm_def demo_ports_def utc_datetime_def aware_def)
  have "\<forall>s. uncancelled (demo_loads s)" by (simp add: demo_loads_def)
  from invalid_uncancelled [OF decoded_uncancelled [OF this]]
  show "uncancelled (openai_execute demo_post demo_loads pq n)"
    by (simp add: openai_execute_def demo_post_def post_status_def)
qed

definition demo_result :: ai_execution where
  "demo_result = (case snd demo_execution of Inr ex \<Rightarrow> ex
     | Inl _ \<Rightarrow> \<lparr>ax_status = AI_CANCELLED, ax_result = RewriteResult [] (Fin 0), ax_failure_code = None, ax_attempts = 0\<rparr>)"

lemma demo_executed: "execute_ai demo_runtime demo_ai_request demo_ai_state = (fst demo_execution, Inr demo_result)"
  "ax_status demo_result = AI_SUCCESS" "ax_attempts demo_result = 2"
  using demo_execution_succeeds by (auto simp: demo_result_def demo_execution_def prod_eq_iff split: sum.splits)

lemma demo_state_empty: "as_calls demo_ai_state = []" "as_waits demo_ai_state = []" "as_records demo_ai_state = []"
  by (simp_all add: demo_ai_state_def)

text \<open>The demonstration calls twice, and waits at most twice.\<close>

theorem execute_bounded_witness:
  "\<exists>pq k. as_calls (fst demo_execution) = [pq, pq] \<and> k \<le> 2 \<and> length (as_waits (fst demo_execution)) = k"
proof -
  obtain pq n k where "as_calls (fst demo_execution) = replicate n pq" "k \<le> n" "ax_attempts demo_result = int n"
    "as_waits (fst demo_execution) = map (\<lambda>i. backoff (1 + int i)) [0..<k]"
    using execute_bounded [OF demo_build demo_executed(1)] unfolding demo_state_empty append_Nil sum.case by blast
  moreover from this have "n = 2" using demo_executed(3) by simp
  ultimately show ?thesis by (intro exI [of _ pq] exI [of _ k]) (simp add: numeral_2_eq_2)
qed

theorem execute_success_witness:
  "acceptable demo_ai_request (ax_result demo_result) \<and> float_le (Fin (7 / 10)) (confidence_of (ax_result demo_result))"
  using execute_success [OF demo_build demo_executed(1,2)] by (simp add: demo_ai_settings_def)

lemma demo_request_valid: "ai_request_post_init demo_ai_request = Inr demo_ai_request"
  by (simp add: ai_request_post_init_def demo_ai_request_def blank_def strip_def lstrip_def rstrip_def is_space_def code_def)

theorem execute_settles_witness:
  "recorded demo_runtime demo_ai_request demo_result demo_ai_state (fst demo_execution) \<and> settled demo_ai_request demo_result"
proof -
  obtain s' ex where "execute_ai demo_runtime demo_ai_request demo_ai_state = (s', Inr ex)"
    "recorded demo_runtime demo_ai_request ex demo_ai_state s'" "settled demo_ai_request ex"
    using execute_settles [of demo_ai_settings demo_post demo_loads demo_ports demo_runtime demo_ai_request demo_ai_state]
      demo_build demo_calm demo_request_valid by (auto simp: demo_client_def demo_ai_request_def)
  then show ?thesis using demo_executed(1) by simp
qed

end
