(* ===== verification/Privacy.thy ===== *)
theory Privacy
  imports TelegramStore QualificationStore BookingStore KnowledgeUse AIRuntime
begin

text \<open>
  Privacy and retention (\<open>application/privacy/*.py\<close>, \<open>infrastructure/persistence/privacy.py\<close>): the
  retention policy of a tenant, the anonymization of a customer over every table that holds personal
  data, the retention run with its preview, and their idempotent replay. The tables are those of the
  other components, with the columns \<open>updated_at\<close> and \<open>created_at\<close> that retention reads. \<open>db_now\<close> is the
  database's \<open>now()\<close>; identifiers are arguments; audit identifiers are not modelled.
\<close>

section \<open>Classifications and policies (application/privacy/models.py)\<close>

datatype data_class = OPERATIONAL_METADATA | MESSAGE_CONTENT | CUSTOMER_CONTACT | WORKFLOW_RECORDS | KNOWLEDGE_CLASS
  | AUDIT_SECURITY | AI_TELEMETRY

datatype retention_action = RA_DELETE | RA_ANONYMIZE | RA_PRESERVE

record data_classification =
  dc_data_class :: data_class
  dc_purpose :: string
  dc_sensitivity :: string
  dc_retention_action :: retention_action

definition classifications :: "data_classification list" where
  "classifications =
    [\<lparr>dc_data_class = OPERATIONAL_METADATA, dc_purpose = ''Delivery deduplication, reliability, and bounded operational diagnosis.'',
       dc_sensitivity = ''internal'', dc_retention_action = RA_DELETE\<rparr>,
     \<lparr>dc_data_class = MESSAGE_CONTENT, dc_purpose = ''Customer interaction processing where explicitly persisted.'',
       dc_sensitivity = ''personal'', dc_retention_action = RA_DELETE\<rparr>,
     \<lparr>dc_data_class = CUSTOMER_CONTACT, dc_purpose = ''Identity resolution, requested contact, booking, and lead workflows.'',
       dc_sensitivity = ''personal'', dc_retention_action = RA_ANONYMIZE\<rparr>,
     \<lparr>dc_data_class = WORKFLOW_RECORDS, dc_purpose = ''Booking, lead, qualification, and handoff history.'',
       dc_sensitivity = ''mixed'', dc_retention_action = RA_ANONYMIZE\<rparr>,
     \<lparr>dc_data_class = KNOWLEDGE_CLASS, dc_purpose = ''Approved tenant business information and retrieval lineage.'',
       dc_sensitivity = ''business'', dc_retention_action = RA_DELETE\<rparr>,
     \<lparr>dc_data_class = AUDIT_SECURITY, dc_purpose = ''Accountability for authorized security and business actions.'',
       dc_sensitivity = ''restricted'', dc_retention_action = RA_PRESERVE\<rparr>,
     \<lparr>dc_data_class = AI_TELEMETRY, dc_purpose = ''Provider reliability, latency, usage, and safe failure analysis.'',
       dc_sensitivity = ''internal'', dc_retention_action = RA_DELETE\<rparr>]"

record retention_policy =
  rn_tenant_id :: tenant_id
  rn_version :: int
  rn_operational_metadata_days :: int
  rn_message_content_days :: int
  rn_customer_contact_days :: int
  rn_workflow_records_days :: int
  rn_knowledge_archive_days :: int
  rn_ai_telemetry_days :: int
  rn_automatic_execution_enabled :: bool

definition retention_periods :: "retention_policy \<Rightarrow> int list" where
  "retention_periods p = [rn_operational_metadata_days p, rn_message_content_days p, rn_customer_contact_days p,
     rn_workflow_records_days p, rn_knowledge_archive_days p, rn_ai_telemetry_days p]"

definition retention_policy_post_init :: "retention_policy \<Rightarrow> retention_policy res" where [ctor_defs]:
  "retention_policy_post_init p =
     (if rn_version p < 1 then Inl (ValueError ''Retention policy version must be positive'')
      else if list_ex (\<lambda>d. \<not> (1 \<le> d \<and> d \<le> 3650)) (retention_periods p)
      then Inl (ValueError ''Retention periods must be between 1 and 3650 days'') else Inr p)"

type_synonym counts = "(string, int) dict"

record privacy_result =
  pv_action_id :: "string option"
  pv_action :: string
  pv_dry_run :: bool
  pv_policy_version :: int
  pv_counts :: counts
  pv_replay :: bool

definition privacy_result_post_init :: "privacy_result \<Rightarrow> privacy_result res" where [ctor_defs]:
  "privacy_result_post_init r = (if list_ex (\<lambda>kv. snd kv < 0) (pv_counts r)
     then Inl (ValueError ''Privacy result counts cannot be negative'') else Inr r)"

section \<open>Rows\<close>

record dated_customer = customer_row +
  cq_updated_at :: instant

record dated_conversation = telegram_conversation_row +
  vq_updated_at :: instant

record dated_draft = booking_draft +
  dq_updated_at :: instant

record dated_hold = slot_hold_row +
  hq_updated_at :: instant

record dated_booking = booking_row +
  bq_updated_at :: instant

record dated_session = session_row +
  sq_updated_at :: instant

record dated_handoff = handoff_row +
  fq_updated_at :: instant

record dated_document = document_row +
  kq_updated_at :: instant

record message_row =
  mg_id :: uuid
  mg_tenant_id :: tenant_id
  mg_conversation_id :: conversation_id
  mg_redacted_text :: "string option"
  mg_created_at :: instant

record retention_row =
  rr_policy :: retention_policy
  rr_updated_at :: instant

record privacy_action_row =
  pa_id :: uuid
  pa_tenant_id :: tenant_id
  pa_action_type :: string
  pa_target_type :: "string option"
  pa_target_id :: "string option"
  pa_idempotency_key :: string
  pa_reason_code :: string
  pa_policy_version :: int
  pa_result_counts :: counts
  pa_requested_by :: string
  pa_occurred_at :: instant

record privacy_db =
  pb_tenants :: "telegram_tenant_row list"
  pb_policies :: "retention_row list"
  pb_customers :: "dated_customer list"
  pb_identities :: "channel_identity_row list"
  pb_conversations :: "dated_conversation list"
  pb_messages :: "message_row list"
  pb_updates :: "telegram_update_row list"
  pb_drafts :: "dated_draft list"
  pb_holds :: "dated_hold list"
  pb_bookings :: "dated_booking list"
  pb_leads :: "lead_row list"
  pb_sessions :: "dated_session list"
  pb_handoffs :: "dated_handoff list"
  pb_documents :: "dated_document list"
  pb_chunks :: "chunk_row list"
  pb_operations :: "ai_operation_row list"
  pb_actions :: "privacy_action_row list"
  pb_audit :: "audit_row list"

text \<open>\<open>update(...).where(p).values(f)\<close>, \<open>delete(...).where(p)\<close> and their row counts.\<close>

definition update_where :: "('r \<Rightarrow> bool) \<Rightarrow> ('r \<Rightarrow> 'r) \<Rightarrow> 'r list \<Rightarrow> 'r list" where
  "update_where p f rows = map (\<lambda>r. if p r then f r else r) rows"

definition delete_where :: "('r \<Rightarrow> bool) \<Rightarrow> 'r list \<Rightarrow> 'r list" where
  "delete_where p rows = filter (\<lambda>r. \<not> p r) rows"

definition count_where :: "('r \<Rightarrow> bool) \<Rightarrow> 'r list \<Rightarrow> int" where
  "count_where p rows = int (length (filter p rows))"

section \<open>Policies in the store\<close>

definition find_retention_policy :: "tenant_id \<Rightarrow> privacy_db \<Rightarrow> retention_policy option" where
  "find_retention_policy t db = map_option rr_policy (find (\<lambda>r. rn_tenant_id (rr_policy r) = t) (pb_policies db))"

definition policy_json :: "retention_policy \<Rightarrow> (string, json) dict" where
  "policy_json p = [(''version'', JInt (rn_version p)), (''operational_metadata_days'', JInt (rn_operational_metadata_days p)),
     (''message_content_days'', JInt (rn_message_content_days p)), (''customer_contact_days'', JInt (rn_customer_contact_days p)),
     (''workflow_records_days'', JInt (rn_workflow_records_days p)), (''knowledge_archive_days'', JInt (rn_knowledge_archive_days p)),
     (''ai_telemetry_days'', JInt (rn_ai_telemetry_days p)),
     (''automatic_execution_enabled'', JBool (rn_automatic_execution_enabled p))]"

definition privacy_audit :: "tenant_id \<Rightarrow> string \<Rightarrow> string \<Rightarrow> string \<Rightarrow> string \<Rightarrow> (string, json) dict \<Rightarrow> instant \<Rightarrow> audit_row" where
  "privacy_audit t actor act target_type target diff now = \<lparr>au_tenant_id = t, au_actor_type = ''staff'', au_actor_id = actor,
     au_action = act, au_target_type = target_type, au_target_id = target, au_safe_diff = diff, au_occurred_at = now\<rparr>"

definition tenant_str :: "tenant_id \<Rightarrow> string" where
  "tenant_str t = uuid_str (tenant_uuid t)"

definition update_policy :: "retention_policy \<Rightarrow> int \<Rightarrow> string \<Rightarrow> instant \<Rightarrow> (privacy_db, retention_policy) tx" where
  "update_policy p expected actor now db = (let t = rn_tenant_id p;
       current = (\<lambda>r. rn_tenant_id (rr_policy r) = t \<and> rn_version (rr_policy r) = expected) in
     case find current (pb_policies db) of
       None \<Rightarrow> Inl (PrivacyError ''Retention policy version is stale or missing'' ''privacy.policy_conflict'')
     | Some r \<Rightarrow> Inr (db\<lparr>pb_policies := update_where current (\<lambda>_. \<lparr>rr_policy = p, rr_updated_at = now\<rparr>) (pb_policies db),
           pb_audit := pb_audit db @ [privacy_audit t actor ''privacy.retention_policy_updated'' ''retention_policy'' (tenant_str t)
             [(''before'', JObj (policy_json (rr_policy r))), (''after'', JObj (policy_json p))] now]\<rparr>, p))"

section \<open>Anonymizing a customer (_anonymize_customer_rows)\<close>

definition erased_customer :: "instant \<Rightarrow> dated_customer \<Rightarrow> dated_customer" where
  "erased_customer now r = r\<lparr>cm_display_name := None, cm_phone_raw := None, cm_phone_e164 := None, cm_phone_verified := False,
     cm_email := None, cm_contact_consent_at := None, cm_status := CR_ANONYMIZED, cq_updated_at := now\<rparr>"

definition anonymous_id :: "channel_identity_row \<Rightarrow> string" where
  "anonymous_id r = ''anonymized:'' @ uuid_str (ci_id r)"

definition erased_identity :: "channel_identity_row \<Rightarrow> channel_identity_row" where
  "erased_identity r = r\<lparr>ci_external_user_id := anonymous_id r, ci_external_chat_id := anonymous_id r\<rparr>"

definition erased_conversation :: "instant \<Rightarrow> dated_conversation \<Rightarrow> dated_conversation" where
  "erased_conversation now r = r\<lparr>cw_status := C_CLOSED, cw_active_workflow := None, vq_updated_at := now\<rparr>"

definition erased_draft :: "instant \<Rightarrow> dated_draft \<Rightarrow> dated_draft" where
  "erased_draft now r = r\<lparr>dr_customer_name := None, dr_customer_phone := None, dr_customer_note := None,
     dr_status := (if dr_status r = D_ACTIVE then D_CANCELLED else dr_status r), dq_updated_at := now\<rparr>"

definition released_hold :: "instant \<Rightarrow> dated_hold \<Rightarrow> dated_hold" where
  "released_hold now r = r\<lparr>hr_status := HO_RELEASED, hq_updated_at := now\<rparr>"

definition erased_booking :: "instant \<Rightarrow> dated_booking \<Rightarrow> dated_booking" where
  "erased_booking now r = r\<lparr>br_customer_snapshot := [], br_notes := None, bq_updated_at := now\<rparr>"

definition erased_lead :: "instant \<Rightarrow> lead_row \<Rightarrow> lead_row" where
  "erased_lead now r = r\<lparr>lw_answers := [], lw_qualification_snapshot := None, lw_updated_at := now\<rparr>"

definition erased_session :: "instant \<Rightarrow> dated_session \<Rightarrow> dated_session" where
  "erased_session now r = r\<lparr>qw_answers := [], qw_current_field_key := None,
     qw_status := (if qw_status r \<in> {S_AWAITING_CONSENT, S_IN_PROGRESS, S_REVIEWING} then S_CANCELLED else qw_status r),
     sq_updated_at := now\<rparr>"

definition erased_handoff :: "instant \<Rightarrow> dated_handoff \<Rightarrow> dated_handoff" where
  "erased_handoff now r = r\<lparr>hw_summary := ''Customer data removed by privacy workflow.'', hw_context := [],
     hw_status := (if hw_status r \<in> {H_QUEUED, H_CLAIMED, H_REOPENED} then H_CANCELLED else hw_status r),
     fq_updated_at := now\<rparr>"

text \<open>Which rows belong to the customer.\<close>

definition customer_of :: "tenant_id \<Rightarrow> customer_id \<Rightarrow> ('r \<Rightarrow> tenant_id) \<Rightarrow> ('r \<Rightarrow> customer_id) \<Rightarrow> 'r \<Rightarrow> bool" where
  "customer_of t c tenant customer r = (tenant r = t \<and> customer r = c)"

definition customer_conversations :: "tenant_id \<Rightarrow> customer_id \<Rightarrow> privacy_db \<Rightarrow> conversation_id set" where
  "customer_conversations t c db = cw_id ` set (filter (customer_of t c cw_tenant_id cw_customer_id) (pb_conversations db))"

definition customer_message :: "tenant_id \<Rightarrow> customer_id \<Rightarrow> privacy_db \<Rightarrow> message_row \<Rightarrow> bool" where
  "customer_message t c db m = (mg_tenant_id m = t \<and> mg_conversation_id m \<in> customer_conversations t c db)"

definition customer_handoff :: "tenant_id \<Rightarrow> customer_id \<Rightarrow> dated_handoff \<Rightarrow> bool" where
  "customer_handoff t c r = (hw_tenant_id r = t \<and> hw_customer_id r = Some c)"

definition active_hold :: "tenant_id \<Rightarrow> customer_id \<Rightarrow> dated_hold \<Rightarrow> bool" where
  "active_hold t c r = (customer_of t c hr_tenant_id hr_customer_id r \<and> hr_status r = HO_ACTIVE)"

definition anonymize_rows :: "tenant_id \<Rightarrow> customer_id \<Rightarrow> instant \<Rightarrow> privacy_db \<Rightarrow> privacy_db" where
  "anonymize_rows t c now db = db\<lparr>
     pb_customers := update_where (customer_of t c cm_tenant_id cm_id) (erased_customer now) (pb_customers db),
     pb_identities := update_where (customer_of t c ci_tenant_id ci_customer_id) erased_identity (pb_identities db),
     pb_conversations := update_where (customer_of t c cw_tenant_id cw_customer_id) (erased_conversation now) (pb_conversations db),
     pb_messages := delete_where (customer_message t c db) (pb_messages db),
     pb_drafts := update_where (customer_of t c dr_tenant_id dr_customer_id) (erased_draft now) (pb_drafts db),
     pb_holds := update_where (active_hold t c) (released_hold now) (pb_holds db),
     pb_bookings := update_where (customer_of t c br_tenant_id br_customer_id) (erased_booking now) (pb_bookings db),
     pb_leads := update_where (customer_of t c lw_tenant_id lw_customer_id) (erased_lead now) (pb_leads db),
     pb_sessions := update_where (customer_of t c qw_tenant_id qw_customer_id) (erased_session now) (pb_sessions db),
     pb_handoffs := update_where (customer_handoff t c) (erased_handoff now) (pb_handoffs db)\<rparr>"

definition anonymize_counts :: "tenant_id \<Rightarrow> customer_id \<Rightarrow> privacy_db \<Rightarrow> counts" where
  "anonymize_counts t c db = [
     (''customers_anonymized'', 1),
     (''identities_anonymized'', count_where (customer_of t c ci_tenant_id ci_customer_id) (pb_identities db)),
     (''conversations_closed'', count_where (customer_of t c cw_tenant_id cw_customer_id) (pb_conversations db)),
     (''messages_deleted'', count_where (customer_message t c db) (pb_messages db)),
     (''booking_drafts_anonymized'', count_where (customer_of t c dr_tenant_id dr_customer_id) (pb_drafts db)),
     (''slot_holds_released'', count_where (active_hold t c) (pb_holds db)),
     (''bookings_anonymized'', count_where (customer_of t c br_tenant_id br_customer_id) (pb_bookings db)),
     (''leads_anonymized'', count_where (customer_of t c lw_tenant_id lw_customer_id) (pb_leads db)),
     (''qualification_sessions_anonymized'', count_where (customer_of t c qw_tenant_id qw_customer_id) (pb_sessions db)),
     (''handoffs_anonymized'', count_where (customer_handoff t c) (pb_handoffs db))]"

text \<open>The unique constraint on channel identities.\<close>

definition identity_key :: "channel_identity_row \<Rightarrow> tenant_id \<times> string \<times> string" where
  "identity_key r = (ci_tenant_id r, ci_channel r, ci_external_user_id r)"

section \<open>Actions and their replay\<close>

definition replay_action :: "tenant_id \<Rightarrow> string \<Rightarrow> string \<Rightarrow> string option \<Rightarrow> privacy_db \<Rightarrow> privacy_result option res" where
  "replay_action t key action_type target db = (case find (\<lambda>a. pa_tenant_id a = t \<and> pa_idempotency_key a = key) (pb_actions db) of
     None \<Rightarrow> Inr None
   | Some a \<Rightarrow> if pa_action_type a \<noteq> action_type \<or> pa_target_id a \<noteq> target
       then Inl (PrivacyError ''Privacy idempotency key is already used for another operation'' ''privacy.idempotency_conflict'')
       else map_sum id Some (privacy_result_post_init \<lparr>pv_action_id = Some (uuid_str (pa_id a)), pv_action = pa_action_type a,
         pv_dry_run = False, pv_policy_version = pa_policy_version a, pv_counts = pa_result_counts a, pv_replay = True\<rparr>))"

text \<open>
  Inserting an action: the columns hold 100 (reason, actor) and 200 (key) characters, identifiers and
  keys of a tenant are unique.
\<close>

definition add_action :: "privacy_action_row \<Rightarrow> privacy_db \<Rightarrow> privacy_db res" where
  "add_action a db =
     (if 100 < length (pa_reason_code a) \<or> 100 < length (pa_requested_by a) \<or> 200 < length (pa_idempotency_key a)
      then Inl (OtherException ''DataError'')
      else if list_ex (\<lambda>b. pa_id b = pa_id a \<or> pa_tenant_id b = pa_tenant_id a \<and> pa_idempotency_key b = pa_idempotency_key a) (pb_actions db)
      then Inl integrity_error
      else Inr (db\<lparr>pb_actions := pb_actions db @ [a]\<rparr>))"

definition result_of_action :: "privacy_action_row \<Rightarrow> privacy_result res" where
  "result_of_action a = privacy_result_post_init \<lparr>pv_action_id = Some (uuid_str (pa_id a)), pv_action = pa_action_type a,
     pv_dry_run = False, pv_policy_version = pa_policy_version a, pv_counts = pa_result_counts a, pv_replay = False\<rparr>"

definition customer_str :: "customer_id \<Rightarrow> string" where
  "customer_str c = uuid_str (customer_uuid c)"

definition anonymize_customer ::
  "uuid \<Rightarrow> tenant_id \<Rightarrow> customer_id \<Rightarrow> string \<Rightarrow> string \<Rightarrow> string \<Rightarrow> instant \<Rightarrow> (privacy_db, privacy_result) tx" where
  "anonymize_customer new_id t c key reason actor now db =
     res_bind (replay_action t key ''customer_anonymization'' (Some (customer_str c)) db) (\<lambda>replay.
     case replay of Some r \<Rightarrow> Inr (db, r)
     | None \<Rightarrow> (case find_retention_policy t db of
         None \<Rightarrow> Inl (PrivacyError ''Retention policy was not found'' ''privacy.policy_not_found'')
       | Some p \<Rightarrow>
           if \<not> list_ex (customer_of t c cm_tenant_id cm_id) (pb_customers db)
           then Inl (PrivacyError ''Customer was not found'' ''privacy.customer_not_found'')
           else let db1 = anonymize_rows t c now db;
                    action = \<lparr>pa_id = new_id, pa_tenant_id = t, pa_action_type = ''customer_anonymization'',
                      pa_target_type = Some ''customer'', pa_target_id = Some (customer_str c), pa_idempotency_key = key,
                      pa_reason_code = reason, pa_policy_version = rn_version p, pa_result_counts = anonymize_counts t c db,
                      pa_requested_by = actor, pa_occurred_at = now\<rparr> in
             if \<not> distinct (map identity_key (pb_identities db1)) then Inl integrity_error
             else res_bind (add_action action db1) (\<lambda>db2.
               res_bind (result_of_action action) (\<lambda>r.
               Inr (db2\<lparr>pb_audit := pb_audit db2 @ [privacy_audit t actor ''privacy.customer_anonymized'' ''customer'' (customer_str c)
                 [(''reason_code'', JStr reason), (''action_id'', JStr (uuid_str new_id))] now]\<rparr>, r)))))"

section \<open>Retention\<close>

definition cutoff :: "instant \<Rightarrow> int \<Rightarrow> instant" where
  "cutoff now days = now - days * day_us"

definition due_update :: "tenant_id \<Rightarrow> instant \<Rightarrow> telegram_update_row \<Rightarrow> bool" where
  "due_update t c r = (tu_tenant_id r = t \<and> tu_status r \<in> {U_COMPLETED, U_FAILED} \<and> tu_created_at r < c)"

definition due_message :: "tenant_id \<Rightarrow> instant \<Rightarrow> message_row \<Rightarrow> bool" where
  "due_message t c r = (mg_tenant_id r = t \<and> mg_created_at r < c)"

definition due_document :: "tenant_id \<Rightarrow> instant \<Rightarrow> dated_document \<Rightarrow> bool" where
  "due_document t c r = (dw_tenant_id r = t \<and> dw_status r = K_ARCHIVED \<and> kq_updated_at r < c)"

definition due_operation :: "tenant_id \<Rightarrow> instant \<Rightarrow> ai_operation_row \<Rightarrow> bool" where
  "due_operation t c r = (oq_tenant_id r = tenant_uuid t \<and> oq_created_at r < c)"

text \<open>The five conditions of \<open>_workflow_conditions\<close>.\<close>

definition due_draft :: "tenant_id \<Rightarrow> instant \<Rightarrow> dated_draft \<Rightarrow> bool" where
  "due_draft t c r = (dr_tenant_id r = t \<and> dr_status r \<in> {D_CANCELLED, D_EXPIRED, D_CONFIRMED} \<and> dq_updated_at r < c
     \<and> (dr_customer_name r \<noteq> None \<or> dr_customer_phone r \<noteq> None \<or> dr_customer_note r \<noteq> None))"

definition due_booking :: "tenant_id \<Rightarrow> instant \<Rightarrow> dated_booking \<Rightarrow> bool" where
  "due_booking t c r = (br_tenant_id r = t \<and> br_status r \<in> {B_COMPLETED, B_CANCELLED, B_NO_SHOW, B_EXPIRED} \<and> bq_updated_at r < c
     \<and> (br_customer_snapshot r \<noteq> [] \<or> br_notes r \<noteq> None))"

definition due_lead :: "tenant_id \<Rightarrow> instant \<Rightarrow> lead_row \<Rightarrow> bool" where
  "due_lead t c r = (lw_tenant_id r = t \<and> lw_status r \<in> {L_UNQUALIFIED, L_CLOSED} \<and> lw_updated_at r < c
     \<and> (lw_answers r \<noteq> [] \<or> lw_qualification_snapshot r \<noteq> None))"

definition due_session :: "tenant_id \<Rightarrow> instant \<Rightarrow> dated_session \<Rightarrow> bool" where
  "due_session t c r = (qw_tenant_id r = t \<and> qw_status r \<in> {S_COMPLETED, S_DECLINED, S_CANCELLED, S_EXPIRED} \<and> sq_updated_at r < c
     \<and> (qw_answers r \<noteq> [] \<or> qw_current_field_key r \<noteq> None))"

definition removed_summary :: string where
  "removed_summary = ''Personal content removed by retention policy.''"

definition due_handoff :: "tenant_id \<Rightarrow> instant \<Rightarrow> dated_handoff \<Rightarrow> bool" where
  "due_handoff t c r = (hw_tenant_id r = t \<and> hw_status r \<in> {H_RESOLVED, H_CANCELLED} \<and> fq_updated_at r < c
     \<and> (hw_context r \<noteq> [] \<or> hw_summary r \<noteq> removed_summary))"

text \<open>A customer with nothing under way (\<open>_eligible_customer_ids\<close>).\<close>

definition in_use :: "dated_customer \<Rightarrow> privacy_db \<Rightarrow> bool" where
  "in_use r db = (let t = cm_tenant_id r; c = cm_id r in
     list_ex (\<lambda>v. customer_of t c cw_tenant_id cw_customer_id v \<and> cw_status v \<noteq> C_CLOSED) (pb_conversations db)
     \<or> list_ex (\<lambda>b. customer_of t c br_tenant_id br_customer_id b
         \<and> br_status b \<in> {B_DRAFT, B_HELD, B_CONFIRMED, B_RESCHEDULE_PENDING}) (pb_bookings db)
     \<or> list_ex (\<lambda>l. customer_of t c lw_tenant_id lw_customer_id l
         \<and> lw_status l \<in> {L_NEW, L_QUALIFYING, L_QUALIFIED, L_CONTACTED, L_CONVERTED}) (pb_leads db)
     \<or> list_ex (\<lambda>s. customer_of t c qw_tenant_id qw_customer_id s
         \<and> qw_status s \<in> {S_AWAITING_CONSENT, S_IN_PROGRESS, S_REVIEWING}) (pb_sessions db)
     \<or> list_ex (\<lambda>h. customer_handoff t c h \<and> hw_status h \<in> {H_QUEUED, H_CLAIMED, H_REOPENED}) (pb_handoffs db))"

definition eligible :: "tenant_id \<Rightarrow> instant \<Rightarrow> privacy_db \<Rightarrow> dated_customer \<Rightarrow> bool" where
  "eligible t c db r = (cm_tenant_id r = t \<and> cm_status r \<noteq> CR_ANONYMIZED \<and> cq_updated_at r < c \<and> \<not> in_use r db)"

definition eligible_customers :: "tenant_id \<Rightarrow> instant \<Rightarrow> privacy_db \<Rightarrow> customer_id list" where
  "eligible_customers t c db = map cm_id (filter (eligible t c db) (pb_customers db))"

definition workflow_count :: "tenant_id \<Rightarrow> instant \<Rightarrow> privacy_db \<Rightarrow> int" where
  "workflow_count t c db = count_where (due_draft t c) (pb_drafts db) + count_where (due_booking t c) (pb_bookings db)
     + count_where (due_lead t c) (pb_leads db) + count_where (due_session t c) (pb_sessions db)
     + count_where (due_handoff t c) (pb_handoffs db)"

definition retention_counts :: "tenant_id \<Rightarrow> retention_policy \<Rightarrow> instant \<Rightarrow> privacy_db \<Rightarrow> counts" where
  "retention_counts t p now db = [
     (''operational_metadata_deleted'', count_where (due_update t (cutoff now (rn_operational_metadata_days p))) (pb_updates db)),
     (''messages_deleted'', count_where (due_message t (cutoff now (rn_message_content_days p))) (pb_messages db)),
     (''customers_anonymized'', int (length (eligible_customers t (cutoff now (rn_customer_contact_days p)) db))),
     (''workflow_records_anonymized'', workflow_count t (cutoff now (rn_workflow_records_days p)) db),
     (''knowledge_documents_deleted'', count_where (due_document t (cutoff now (rn_knowledge_archive_days p))) (pb_documents db)),
     (''ai_telemetry_deleted'', count_where (due_operation t (cutoff now (rn_ai_telemetry_days p))) (pb_operations db)),
     (''audit_events_preserved'', count_where (\<lambda>a. au_tenant_id a = t) (pb_audit db))]"

text \<open>The workflow updates set \<open>updated_at\<close> through the column's \<open>onupdate\<close>.\<close>

definition scrub_workflows :: "tenant_id \<Rightarrow> instant \<Rightarrow> instant \<Rightarrow> privacy_db \<Rightarrow> privacy_db" where
  "scrub_workflows t c db_now db = db\<lparr>
     pb_drafts := update_where (due_draft t c) (\<lambda>r. r\<lparr>dr_customer_name := None, dr_customer_phone := None, dr_customer_note := None,
       dq_updated_at := db_now\<rparr>) (pb_drafts db),
     pb_bookings := update_where (due_booking t c) (\<lambda>r. r\<lparr>br_customer_snapshot := [], br_notes := None, bq_updated_at := db_now\<rparr>) (pb_bookings db),
     pb_leads := update_where (due_lead t c) (\<lambda>r. r\<lparr>lw_answers := [], lw_qualification_snapshot := None, lw_updated_at := db_now\<rparr>) (pb_leads db),
     pb_sessions := update_where (due_session t c) (\<lambda>r. r\<lparr>qw_answers := [], qw_current_field_key := None, sq_updated_at := db_now\<rparr>) (pb_sessions db),
     pb_handoffs := update_where (due_handoff t c) (\<lambda>r. r\<lparr>hw_summary := removed_summary, hw_context := [], fq_updated_at := db_now\<rparr>) (pb_handoffs db)\<rparr>"

definition delete_documents :: "tenant_id \<Rightarrow> instant \<Rightarrow> privacy_db \<Rightarrow> privacy_db" where
  "delete_documents t c db = (let ids = dw_id ` set (filter (due_document t c) (pb_documents db)) in
     db\<lparr>pb_chunks := delete_where (\<lambda>k. kw_tenant_id k = t \<and> kw_document_id k \<in> ids) (pb_chunks db),
        pb_documents := delete_where (\<lambda>d. dw_tenant_id d = t \<and> dw_id d \<in> ids) (pb_documents db)\<rparr>)"

text \<open>What is deleted by age: updates and messages before, telemetry after the workflows.\<close>

definition delete_logs :: "tenant_id \<Rightarrow> retention_policy \<Rightarrow> instant \<Rightarrow> privacy_db \<Rightarrow> privacy_db" where
  "delete_logs t p now db = db\<lparr>
     pb_updates := delete_where (due_update t (cutoff now (rn_operational_metadata_days p))) (pb_updates db),
     pb_messages := delete_where (due_message t (cutoff now (rn_message_content_days p))) (pb_messages db)\<rparr>"

definition delete_telemetry :: "tenant_id \<Rightarrow> retention_policy \<Rightarrow> instant \<Rightarrow> privacy_db \<Rightarrow> privacy_db" where
  "delete_telemetry t p now db =
     db\<lparr>pb_operations := delete_where (due_operation t (cutoff now (rn_ai_telemetry_days p))) (pb_operations db)\<rparr>"

definition apply_retention :: "tenant_id \<Rightarrow> retention_policy \<Rightarrow> instant \<Rightarrow> instant \<Rightarrow> privacy_db \<Rightarrow> privacy_db \<times> counts" where
  "apply_retention t p now db_now db = (
     let expected = retention_counts t p now db;
         db1 = fold (\<lambda>c. anonymize_rows t c now) (eligible_customers t (cutoff now (rn_customer_contact_days p)) db) db;
         db2 = delete_logs t p now db1;
         db3 = scrub_workflows t (cutoff now (rn_workflow_records_days p)) db_now db2;
         db4 = delete_documents t (cutoff now (rn_knowledge_archive_days p)) db3 in
     (delete_telemetry t p now db4, expected))"

definition stored_version :: "tenant_id \<Rightarrow> retention_policy \<Rightarrow> privacy_db \<Rightarrow> bool" where
  "stored_version t p db = list_ex (\<lambda>r. rn_tenant_id (rr_policy r) = t \<and> rn_version (rr_policy r) = rn_version p) (pb_policies db)"

definition policy_conflict :: exc where
  "policy_conflict = PrivacyError ''Retention policy changed before execution'' ''privacy.policy_conflict''"

definition preview_retention_tx :: "tenant_id \<Rightarrow> retention_policy \<Rightarrow> instant \<Rightarrow> (privacy_db, privacy_result) tx" where
  "preview_retention_tx t p now db =
     (if \<not> stored_version t p db then Inl policy_conflict
      else res_bind (privacy_result_post_init \<lparr>pv_action_id = None, pv_action = ''retention_preview'', pv_dry_run = True,
        pv_policy_version = rn_version p, pv_counts = retention_counts t p now db, pv_replay = False\<rparr>) (\<lambda>r. Inr (db, r)))"

definition run_retention ::
  "uuid \<Rightarrow> instant \<Rightarrow> tenant_id \<Rightarrow> retention_policy \<Rightarrow> string \<Rightarrow> string \<Rightarrow> instant \<Rightarrow> (privacy_db, privacy_result) tx" where
  "run_retention new_id db_now t p key actor now db =
     res_bind (replay_action t key ''retention_execution'' None db) (\<lambda>replay.
     case replay of Some r \<Rightarrow> Inr (db, r)
     | None \<Rightarrow>
         if \<not> stored_version t p db then Inl policy_conflict
         else (case apply_retention t p now db_now db of (db1, applied) \<Rightarrow>
           let action = \<lparr>pa_id = new_id, pa_tenant_id = t, pa_action_type = ''retention_execution'', pa_target_type = None,
                 pa_target_id = None, pa_idempotency_key = key, pa_reason_code = ''scheduled_retention'',
                 pa_policy_version = rn_version p, pa_result_counts = applied, pa_requested_by = actor, pa_occurred_at = now\<rparr> in
           if \<not> distinct (map identity_key (pb_identities db1)) then Inl integrity_error
           else res_bind (add_action action db1) (\<lambda>db2.
             res_bind (result_of_action action) (\<lambda>r.
             Inr (db2\<lparr>pb_audit := pb_audit db2 @ [privacy_audit t actor ''privacy.retention_executed'' ''retention_policy'' (tenant_str t)
               [(''policy_version'', JInt (rn_version p)), (''action_id'', JStr (uuid_str new_id))] now]\<rparr>, r)))))"

section \<open>Scheduled retention\<close>

definition scheduled_policies :: "nat \<Rightarrow> privacy_db \<Rightarrow> retention_policy list" where
  "scheduled_policies limit db = take limit (sorted_by (\<lambda>p. tenant_uuid (rn_tenant_id p))
     (filter (\<lambda>p. rn_automatic_execution_enabled p \<and> list_ex (\<lambda>w. tt_id w = rn_tenant_id p \<and> tt_status w = T_ACTIVE) (pb_tenants db))
       (map rr_policy (pb_policies db))))"

definition scheduled_key :: "instant \<Rightarrow> retention_policy \<Rightarrow> string" where
  "scheduled_key now p = ''scheduled-retention:'' @ date_iso (wall_date now) @ '':v'' @ str_int (rn_version p)"

text \<open>One transaction per tenant; the first exception ends the loop, what was committed stays.\<close>

fun run_scheduled :: "(nat \<Rightarrow> uuid) \<Rightarrow> instant \<Rightarrow> instant \<Rightarrow> retention_policy list \<Rightarrow> int \<Rightarrow> (privacy_db, int) act" where
  "run_scheduled fresh db_now now [] n = act_return n"
| "run_scheduled fresh db_now now (p # ps) n =
     act_bind (run_tx (run_retention (fresh (length ps)) db_now (rn_tenant_id p) p (scheduled_key now p) ''phase10-worker'' now)) (\<lambda>_.
     run_scheduled fresh db_now now ps (n + 1))"

definition run_scheduled_retention :: "(nat \<Rightarrow> uuid) \<Rightarrow> instant \<Rightarrow> instant \<Rightarrow> nat \<Rightarrow> (privacy_db, int) act" where
  "run_scheduled_retention fresh db_now now limit db = run_scheduled fresh db_now now (scheduled_policies limit db) 0 db"

section \<open>Use cases (application/privacy/service.py)\<close>

text \<open>\<open>[A-Za-z0-9][A-Za-z0-9_.:-]{0,199}\<close>\<close>

definition alnum_ascii :: "char \<Rightarrow> bool" where
  "alnum_ascii c = (is_digit c \<or> is_upper_az c \<or> is_lower_az c)"

definition is_safe_code :: "string \<Rightarrow> bool" where
  "is_safe_code s = (case s of [] \<Rightarrow> False
     | c # cs \<Rightarrow> alnum_ascii c \<and> length cs \<le> 199 \<and> list_all (\<lambda>d. alnum_ascii d \<or> d \<in> set ''_.:-'') cs)"

definition validate_code :: "string \<Rightarrow> string \<Rightarrow> unit res" where
  "validate_code s label = (if \<not> is_safe_code s
     then Inl (PrivacyError (''Privacy '' @ label @ '' is invalid'') ''privacy.invalid'') else Inr ())"

definition app_classifications :: "principal \<Rightarrow> data_classification list res" where
  "app_classifications p = res_bind (require p PRIVACY_READ) (\<lambda>_. Inr classifications)"

definition app_get_policy :: "principal \<Rightarrow> privacy_db \<Rightarrow> retention_policy res" where
  "app_get_policy p db = res_bind (require p PRIVACY_READ) (\<lambda>_. case find_retention_policy (pr_tenant_id p) db of
     None \<Rightarrow> Inl (PrivacyError ''Retention policy was not found'' ''privacy.policy_not_found'') | Some r \<Rightarrow> Inr r)"

definition app_update_policy :: "principal \<Rightarrow> retention_policy \<Rightarrow> int \<Rightarrow> instant \<Rightarrow> (privacy_db, retention_policy) act" where
  "app_update_policy p policy expected now =
     act_bind (act_res (require p PRIVACY_POLICY_WRITE)) (\<lambda>_.
     if rn_tenant_id policy \<noteq> pr_tenant_id p
     then act_res (Inl (PrivacyError ''Retention policy tenant does not match the authenticated tenant'' ''privacy.invalid''))
     else act_bind (act_res (retention_policy_post_init (policy\<lparr>rn_version := expected + 1\<rparr>))) (\<lambda>new.
       run_tx (update_policy new expected (pr_subject p) now)))"

definition app_anonymize :: "uuid \<Rightarrow> principal \<Rightarrow> customer_id \<Rightarrow> bool \<Rightarrow> string \<Rightarrow> string \<Rightarrow> instant \<Rightarrow> (privacy_db, privacy_result) act" where
  "app_anonymize new_id p c confirmed key reason now =
     act_bind (act_res (require p PRIVACY_EXECUTE)) (\<lambda>_.
     if \<not> confirmed then act_res (Inl (PrivacyError ''Customer anonymization requires explicit confirmation'' ''privacy.invalid''))
     else act_bind (act_res (validate_code key ''idempotency key'')) (\<lambda>_.
       act_bind (act_res (validate_code reason ''reason code'')) (\<lambda>_.
       run_tx (anonymize_customer new_id (pr_tenant_id p) c key reason (pr_subject p) now))))"

definition app_preview_retention :: "principal \<Rightarrow> instant \<Rightarrow> (privacy_db, privacy_result) act" where
  "app_preview_retention p now db =
     act_bind (act_res (require p PRIVACY_READ)) (\<lambda>_.
     act_bind (act_res (app_get_policy p db)) (\<lambda>policy.
     run_tx (preview_retention_tx (pr_tenant_id p) policy now))) db"

definition app_execute_retention :: "uuid \<Rightarrow> instant \<Rightarrow> principal \<Rightarrow> bool \<Rightarrow> string \<Rightarrow> instant \<Rightarrow> (privacy_db, privacy_result) act" where
  "app_execute_retention new_id db_now p confirmed key now db =
     act_bind (act_res (require p PRIVACY_EXECUTE)) (\<lambda>_.
     if \<not> confirmed then act_res (Inl (PrivacyError ''Retention execution requires explicit confirmation'' ''privacy.invalid''))
     else act_bind (act_res (validate_code key ''idempotency key'')) (\<lambda>_.
       act_bind (act_res (app_get_policy p db)) (\<lambda>policy.
       run_tx (run_retention new_id db_now (pr_tenant_id p) policy key (pr_subject p) now)))) db"

end
