(* ===== verification/PrivacyFacts.thy ===== *)
theory PrivacyFacts
  imports Privacy
begin

text \<open>
  What anonymization and retention guarantee: after an anonymization no row of the customer holds
  personal data and no other row has changed; a retention run does what its preview reports and leaves
  nothing due; an idempotency key is used once.
\<close>

section \<open>Updates and deletions\<close>

lemma update_where_mem: "x \<in> set (update_where p f rows) \<Longrightarrow> (\<exists>y \<in> set rows. p y \<and> x = f y) \<or> x \<in> set rows \<and> \<not> p x"
  by (auto simp: update_where_def split: if_splits)

lemma update_where_others:
  "(\<And>x. p x \<Longrightarrow> q x) \<Longrightarrow> (\<And>x. p x \<Longrightarrow> q (f x)) \<Longrightarrow> filter (\<lambda>x. \<not> q x) (update_where p f rows) = filter (\<lambda>x. \<not> q x) rows"
  by (induction rows) (auto simp: update_where_def)

lemma update_where_none: "(\<And>x. p x \<Longrightarrow> \<not> q (f x)) \<Longrightarrow> (\<And>x. x \<in> set rows \<Longrightarrow> q x \<Longrightarrow> p x) \<Longrightarrow> x \<in> set (update_where p f rows) \<Longrightarrow> \<not> q x"
  by (auto simp: update_where_def split: if_splits)

lemma length_update_where [simp]: "length (update_where p f rows) = length rows"
  by (simp add: update_where_def)

lemma delete_where_mem [simp]: "x \<in> set (delete_where p rows) \<longleftrightarrow> x \<in> set rows \<and> \<not> p x"
  by (auto simp: delete_where_def)

lemma count_where_zero: "count_where p rows = 0 \<longleftrightarrow> (\<forall>x \<in> set rows. \<not> p x)"
  by (auto simp: count_where_def filter_empty_conv)

lemma count_where_nonneg [simp]: "0 \<le> count_where p rows"
  by (simp add: count_where_def)

lemma list_ex_update_where:
  "(\<And>x. q (f x) = q x) \<Longrightarrow> list_ex q (update_where p f rows) = list_ex q rows"
  "(\<And>x. p x \<Longrightarrow> \<not> q x) \<Longrightarrow> (\<And>x. p x \<Longrightarrow> \<not> q (f x)) \<Longrightarrow> list_ex q (update_where p f rows) = list_ex q rows"
  by (auto simp: update_where_def list_ex_iff split: if_splits)

section \<open>Erasure\<close>

text \<open>No row of the customer holds personal data, and nothing of theirs is under way but bookings and leads.\<close>

definition personal_free :: "tenant_id \<Rightarrow> customer_id \<Rightarrow> privacy_db \<Rightarrow> bool" where
  "personal_free t c db = (
     list_all (\<lambda>r. \<not> customer_of t c cm_tenant_id cm_id r \<or> cm_display_name r = None \<and> cm_phone_raw r = None \<and> cm_phone_e164 r = None
       \<and> \<not> cm_phone_verified r \<and> cm_email r = None \<and> cm_contact_consent_at r = None \<and> cm_status r = CR_ANONYMIZED) (pb_customers db)
     \<and> list_all (\<lambda>r. \<not> customer_of t c ci_tenant_id ci_customer_id r \<or> ci_external_user_id r = anonymous_id r
       \<and> ci_external_chat_id r = anonymous_id r) (pb_identities db)
     \<and> list_all (\<lambda>r. \<not> customer_of t c cw_tenant_id cw_customer_id r \<or> cw_status r = C_CLOSED \<and> cw_active_workflow r = None) (pb_conversations db)
     \<and> list_all (\<lambda>m. \<not> customer_message t c db m) (pb_messages db)
     \<and> list_all (\<lambda>r. \<not> customer_of t c dr_tenant_id dr_customer_id r \<or> dr_customer_name r = None \<and> dr_customer_phone r = None
       \<and> dr_customer_note r = None \<and> dr_status r \<noteq> D_ACTIVE) (pb_drafts db)
     \<and> list_all (\<lambda>r. \<not> active_hold t c r) (pb_holds db)
     \<and> list_all (\<lambda>r. \<not> customer_of t c br_tenant_id br_customer_id r \<or> br_customer_snapshot r = [] \<and> br_notes r = None) (pb_bookings db)
     \<and> list_all (\<lambda>r. \<not> customer_of t c lw_tenant_id lw_customer_id r \<or> lw_answers r = [] \<and> lw_qualification_snapshot r = None) (pb_leads db)
     \<and> list_all (\<lambda>r. \<not> customer_of t c qw_tenant_id qw_customer_id r \<or> qw_answers r = [] \<and> qw_current_field_key r = None
       \<and> qw_status r \<notin> {S_AWAITING_CONSENT, S_IN_PROGRESS, S_REVIEWING}) (pb_sessions db)
     \<and> list_all (\<lambda>r. \<not> customer_handoff t c r \<or> hw_context r = [] \<and> hw_summary r = ''Customer data removed by privacy workflow.''
       \<and> hw_status r \<notin> {H_QUEUED, H_CLAIMED, H_REOPENED}) (pb_handoffs db))"

text \<open>Every row that is not the customer's is as before, in its place among such rows.\<close>

definition others_same :: "tenant_id \<Rightarrow> customer_id \<Rightarrow> privacy_db \<Rightarrow> privacy_db \<Rightarrow> bool" where
  "others_same t c db db' = (
     filter (\<lambda>r. \<not> customer_of t c cm_tenant_id cm_id r) (pb_customers db') = filter (\<lambda>r. \<not> customer_of t c cm_tenant_id cm_id r) (pb_customers db)
     \<and> filter (\<lambda>r. \<not> customer_of t c ci_tenant_id ci_customer_id r) (pb_identities db') = filter (\<lambda>r. \<not> customer_of t c ci_tenant_id ci_customer_id r) (pb_identities db)
     \<and> filter (\<lambda>r. \<not> customer_of t c cw_tenant_id cw_customer_id r) (pb_conversations db') = filter (\<lambda>r. \<not> customer_of t c cw_tenant_id cw_customer_id r) (pb_conversations db)
     \<and> pb_messages db' = filter (\<lambda>m. \<not> customer_message t c db m) (pb_messages db)
     \<and> filter (\<lambda>r. \<not> customer_of t c dr_tenant_id dr_customer_id r) (pb_drafts db') = filter (\<lambda>r. \<not> customer_of t c dr_tenant_id dr_customer_id r) (pb_drafts db)
     \<and> filter (\<lambda>r. \<not> customer_of t c hr_tenant_id hr_customer_id r) (pb_holds db') = filter (\<lambda>r. \<not> customer_of t c hr_tenant_id hr_customer_id r) (pb_holds db)
     \<and> filter (\<lambda>r. \<not> customer_of t c br_tenant_id br_customer_id r) (pb_bookings db') = filter (\<lambda>r. \<not> customer_of t c br_tenant_id br_customer_id r) (pb_bookings db)
     \<and> filter (\<lambda>r. \<not> customer_of t c lw_tenant_id lw_customer_id r) (pb_leads db') = filter (\<lambda>r. \<not> customer_of t c lw_tenant_id lw_customer_id r) (pb_leads db)
     \<and> filter (\<lambda>r. \<not> customer_of t c qw_tenant_id qw_customer_id r) (pb_sessions db') = filter (\<lambda>r. \<not> customer_of t c qw_tenant_id qw_customer_id r) (pb_sessions db)
     \<and> filter (\<lambda>r. \<not> customer_handoff t c r) (pb_handoffs db') = filter (\<lambda>r. \<not> customer_handoff t c r) (pb_handoffs db)
     \<and> pb_documents db' = pb_documents db \<and> pb_chunks db' = pb_chunks db \<and> pb_operations db' = pb_operations db
     \<and> pb_updates db' = pb_updates db \<and> pb_policies db' = pb_policies db \<and> pb_tenants db' = pb_tenants db)"

lemmas erased_defs = erased_customer_def erased_identity_def erased_conversation_def erased_draft_def released_hold_def
  erased_booking_def erased_lead_def erased_session_def erased_handoff_def

lemma erased_owner:
  "customer_of t c cm_tenant_id cm_id (erased_customer now r1) = customer_of t c cm_tenant_id cm_id r1"
  "customer_of t c ci_tenant_id ci_customer_id (erased_identity r2) = customer_of t c ci_tenant_id ci_customer_id r2"
  "customer_of t c cw_tenant_id cw_customer_id (erased_conversation now r3) = customer_of t c cw_tenant_id cw_customer_id r3"
  "customer_of t c dr_tenant_id dr_customer_id (erased_draft now r4) = customer_of t c dr_tenant_id dr_customer_id r4"
  "customer_of t c hr_tenant_id hr_customer_id (released_hold now r5) = customer_of t c hr_tenant_id hr_customer_id r5"
  "customer_of t c br_tenant_id br_customer_id (erased_booking now r6) = customer_of t c br_tenant_id br_customer_id r6"
  "customer_of t c lw_tenant_id lw_customer_id (erased_lead now r7) = customer_of t c lw_tenant_id lw_customer_id r7"
  "customer_of t c qw_tenant_id qw_customer_id (erased_session now r8) = customer_of t c qw_tenant_id qw_customer_id r8"
  "customer_handoff t c (erased_handoff now r9) = customer_handoff t c r9"
  by (simp_all add: customer_of_def customer_handoff_def erased_defs)

lemma list_all_update_where:
  assumes "\<And>r. r \<in> set rows \<Longrightarrow> p r \<Longrightarrow> q (f r)" "\<And>r. \<not> p r \<Longrightarrow> q r"
  shows "list_all q (update_where p f rows)"
  using assms by (auto simp: update_where_def list_all_iff)

lemma anonymous_id_kept: "anonymous_id (erased_identity r) = anonymous_id r"
  by (simp add: anonymous_id_def erased_identity_def)

lemma update_where_keys:
  "(\<And>x. q (f x) = q x) \<Longrightarrow> (\<And>x. k (f x) = k x) \<Longrightarrow> k ` set (filter q (update_where p f rows)) = k ` set (filter q rows)"
  by (induction rows) (auto simp: update_where_def)

lemma conversation_id_kept: "cw_id (erased_conversation now r) = cw_id r"
  by (simp add: erased_conversation_def)

lemma same_conversations: "customer_conversations t c (anonymize_rows t c now db) = customer_conversations t c db"
proof -
  have "pb_conversations (anonymize_rows t c now db)
      = update_where (customer_of t c cw_tenant_id cw_customer_id) (erased_conversation now) (pb_conversations db)"
    by (simp add: anonymize_rows_def)
  then show ?thesis
    unfolding customer_conversations_def
    by (simp only: update_where_keys [where q = "customer_of t c cw_tenant_id cw_customer_id" and f = "erased_conversation now"
      and k = cw_id] erased_owner(3) conversation_id_kept)
qed

lemma anonymize_rows_erases: "personal_free t c (anonymize_rows t c now db)"
proof -
  have messages: "list_all (\<lambda>m. \<not> customer_message t c (anonymize_rows t c now db) m) (pb_messages (anonymize_rows t c now db))"
    unfolding customer_message_def same_conversations
    by (auto simp: anonymize_rows_def list_all_iff customer_message_def)
  show ?thesis
    unfolding personal_free_def
    by (intro conjI messages; simp add: anonymize_rows_def; intro list_all_update_where)
      (auto simp: erased_defs anonymous_id_def customer_of_def customer_handoff_def active_hold_def)
qed

lemma anonymize_rows_others: "others_same t c db (anonymize_rows t c now db)"
  unfolding others_same_def
  by (intro conjI; simp add: anonymize_rows_def delete_where_def)
    (rule update_where_others; simp add: erased_owner active_hold_def)+

section \<open>Actions\<close>

lemma find_snoc: "find p xs = None \<Longrightarrow> p a \<Longrightarrow> find p (xs @ [a]) = Some a"
  by (induction xs) (auto split: if_splits)

lemma eligible_log: "eligible t c (db\<lparr>pb_actions := x, pb_audit := y\<rparr>) = eligible t c db"
  by (intro ext) (simp add: eligible_def in_use_def Let_def)

lemma add_action_Inr: "add_action a db = Inr db' \<Longrightarrow> db' = db\<lparr>pb_actions := pb_actions db @ [a]\<rparr>"
  by (auto simp: add_action_def split: if_splits)

lemma personal_free_log [simp]:
  "personal_free t c (db\<lparr>pb_actions := x, pb_audit := y\<rparr>) = personal_free t c db"
  by (simp add: personal_free_def customer_message_def customer_conversations_def)

lemma others_same_log [simp]:
  "others_same t c db (db'\<lparr>pb_actions := x, pb_audit := y\<rparr>) = others_same t c db db'"
  by (simp add: others_same_def)

lemma replay_None:
  assumes "replay_action t key ty target db = Inr None"
  shows "find (\<lambda>a. pa_tenant_id a = t \<and> pa_idempotency_key a = key) (pb_actions db) = None"
proof (cases "find (\<lambda>a. pa_tenant_id a = t \<and> pa_idempotency_key a = key) (pb_actions db)")
  case (Some a)
  have "map_sum id Some m \<noteq> Inr None" for m :: "privacy_result res" by (cases m) simp_all
  then show ?thesis using assms Some by (simp add: replay_action_def split: if_splits)
qed

lemma replay_flag:
  assumes "replay_action t key ty target db = Inr (Some r)"
  shows "pv_replay r"
proof (cases "find (\<lambda>a. pa_tenant_id a = t \<and> pa_idempotency_key a = key) (pb_actions db)")
  case None
  then show ?thesis using assms by (simp add: replay_action_def)
next
  case (Some a)
  then show ?thesis using assms by (simp add: replay_action_def privacy_result_post_init_def split: if_splits) auto
qed

lemma result_of_action_Inr:
  "result_of_action a = Inr r \<Longrightarrow> r = \<lparr>pv_action_id = Some (uuid_str (pa_id a)), pv_action = pa_action_type a,
     pv_dry_run = False, pv_policy_version = pa_policy_version a, pv_counts = pa_result_counts a, pv_replay = False\<rparr>"
  by (auto simp: result_of_action_def privacy_result_post_init_def split: if_splits)

text \<open>What a new anonymization stores.\<close>

lemma anonymize_customer_stored:
  assumes "anonymize_customer new_id t c key reason actor now db = Inr (db', r)" "\<not> pv_replay r"
  shows "\<exists>action entry. db' = (anonymize_rows t c now db)\<lparr>pb_actions := pb_actions db @ [action], pb_audit := pb_audit db @ [entry]\<rparr>
    \<and> pa_tenant_id action = t \<and> pa_idempotency_key action = key \<and> pa_action_type action = ''customer_anonymization''
    \<and> pa_target_id action = Some (customer_str c) \<and> pa_result_counts action = anonymize_counts t c db
    \<and> result_of_action action = Inr r
    \<and> find (\<lambda>a. pa_tenant_id a = t \<and> pa_idempotency_key a = key) (pb_actions db) = None"
proof -
  obtain replay where replay: "replay_action t key ''customer_anonymization'' (Some (customer_str c)) db = Inr replay"
    using assms(1) by (auto simp: anonymize_customer_def res_bind_Inr_iff)
  have none: "replay = None"
  proof (cases replay)
    case (Some r')
    then show ?thesis using assms replay replay_flag [of t key _ _ db r'] by (simp add: anonymize_customer_def)
  qed simp
  let ?db1 = "anonymize_rows t c now db"
  obtain p db2 where p: "find_retention_policy t db = Some p"
    and db2: "add_action \<lparr>pa_id = new_id, pa_tenant_id = t, pa_action_type = ''customer_anonymization'',
                      pa_target_type = Some ''customer'', pa_target_id = Some (customer_str c), pa_idempotency_key = key,
                      pa_reason_code = reason, pa_policy_version = rn_version p, pa_result_counts = anonymize_counts t c db,
                      pa_requested_by = actor, pa_occurred_at = now\<rparr> ?db1 = Inr db2"
    and r: "result_of_action \<lparr>pa_id = new_id, pa_tenant_id = t, pa_action_type = ''customer_anonymization'',
                      pa_target_type = Some ''customer'', pa_target_id = Some (customer_str c), pa_idempotency_key = key,
                      pa_reason_code = reason, pa_policy_version = rn_version p, pa_result_counts = anonymize_counts t c db,
                      pa_requested_by = actor, pa_occurred_at = now\<rparr> = Inr r"
    and db': "db' = db2\<lparr>pb_audit := pb_audit db2 @ [privacy_audit t actor ''privacy.customer_anonymized'' ''customer'' (customer_str c)
                 [(''reason_code'', JStr reason), (''action_id'', JStr (uuid_str new_id))] now]\<rparr>"
    using assms(1) replay none
    by (auto simp: anonymize_customer_def res_bind_Inr_iff Let_def split: option.splits if_splits)
  have "pb_actions ?db1 = pb_actions db" "pb_audit ?db1 = pb_audit db" by (simp_all add: anonymize_rows_def)
  then show ?thesis
    using add_action_Inr [OF db2] db' r replay_None [OF replay [unfolded none]]
    by (intro exI conjI) (auto intro: exI)
qed

section \<open>Retention\<close>

text \<open>Every row of another tenant is as before.\<close>

definition other_tenants_same :: "tenant_id \<Rightarrow> privacy_db \<Rightarrow> privacy_db \<Rightarrow> bool" where
  "other_tenants_same t db db' = (
     filter (\<lambda>r. cm_tenant_id r \<noteq> t) (pb_customers db') = filter (\<lambda>r. cm_tenant_id r \<noteq> t) (pb_customers db)
     \<and> filter (\<lambda>r. ci_tenant_id r \<noteq> t) (pb_identities db') = filter (\<lambda>r. ci_tenant_id r \<noteq> t) (pb_identities db)
     \<and> filter (\<lambda>r. cw_tenant_id r \<noteq> t) (pb_conversations db') = filter (\<lambda>r. cw_tenant_id r \<noteq> t) (pb_conversations db)
     \<and> filter (\<lambda>r. mg_tenant_id r \<noteq> t) (pb_messages db') = filter (\<lambda>r. mg_tenant_id r \<noteq> t) (pb_messages db)
     \<and> filter (\<lambda>r. tu_tenant_id r \<noteq> t) (pb_updates db') = filter (\<lambda>r. tu_tenant_id r \<noteq> t) (pb_updates db)
     \<and> filter (\<lambda>r. dr_tenant_id r \<noteq> t) (pb_drafts db') = filter (\<lambda>r. dr_tenant_id r \<noteq> t) (pb_drafts db)
     \<and> filter (\<lambda>r. hr_tenant_id r \<noteq> t) (pb_holds db') = filter (\<lambda>r. hr_tenant_id r \<noteq> t) (pb_holds db)
     \<and> filter (\<lambda>r. br_tenant_id r \<noteq> t) (pb_bookings db') = filter (\<lambda>r. br_tenant_id r \<noteq> t) (pb_bookings db)
     \<and> filter (\<lambda>r. lw_tenant_id r \<noteq> t) (pb_leads db') = filter (\<lambda>r. lw_tenant_id r \<noteq> t) (pb_leads db)
     \<and> filter (\<lambda>r. qw_tenant_id r \<noteq> t) (pb_sessions db') = filter (\<lambda>r. qw_tenant_id r \<noteq> t) (pb_sessions db)
     \<and> filter (\<lambda>r. hw_tenant_id r \<noteq> t) (pb_handoffs db') = filter (\<lambda>r. hw_tenant_id r \<noteq> t) (pb_handoffs db)
     \<and> filter (\<lambda>r. dw_tenant_id r \<noteq> t) (pb_documents db') = filter (\<lambda>r. dw_tenant_id r \<noteq> t) (pb_documents db)
     \<and> filter (\<lambda>r. kw_tenant_id r \<noteq> t) (pb_chunks db') = filter (\<lambda>r. kw_tenant_id r \<noteq> t) (pb_chunks db)
     \<and> filter (\<lambda>r. oq_tenant_id r \<noteq> tenant_uuid t) (pb_operations db') = filter (\<lambda>r. oq_tenant_id r \<noteq> tenant_uuid t) (pb_operations db)
     \<and> pb_policies db' = pb_policies db \<and> pb_tenants db' = pb_tenants db)"

lemma other_tenants_refl: "other_tenants_same t db db"
  by (simp add: other_tenants_same_def)

lemma other_tenants_trans: "other_tenants_same t a b \<Longrightarrow> other_tenants_same t b c \<Longrightarrow> other_tenants_same t a c"
  by (simp add: other_tenants_same_def)

lemma delete_where_others: "(\<And>x. p x \<Longrightarrow> \<not> q x) \<Longrightarrow> filter q (delete_where p rows) = filter q rows"
  by (induction rows) (auto simp: delete_where_def)

lemma update_where_tenant:
  "(\<And>x. p x \<Longrightarrow> tenant x = t) \<Longrightarrow> (\<And>x. tenant (f x) = tenant x)
   \<Longrightarrow> filter (\<lambda>x. tenant x \<noteq> t) (update_where p f rows) = filter (\<lambda>x. tenant x \<noteq> t) rows"
  by (induction rows) (auto simp: update_where_def)

lemma anonymize_other_tenants: "other_tenants_same t db (anonymize_rows t c now db)"
  unfolding other_tenants_same_def
  by (intro conjI; simp add: anonymize_rows_def; (rule update_where_tenant delete_where_others)?)
    (auto simp: customer_of_def customer_message_def active_hold_def customer_handoff_def erased_defs)

lemmas due_defs = due_update_def due_message_def due_document_def due_operation_def due_draft_def due_booking_def due_lead_def
  due_session_def due_handoff_def

lemma scrub_other_tenants: "other_tenants_same t db (scrub_workflows t c db_now db)"
  unfolding other_tenants_same_def
  by (intro conjI; simp add: scrub_workflows_def; (rule update_where_tenant)?) (auto simp: due_defs)

lemma delete_other_tenants:
  "other_tenants_same t db (delete_documents t c db)" "other_tenants_same t db (delete_logs t p now db)"
  "other_tenants_same t db (delete_telemetry t p now db)"
  unfolding other_tenants_same_def delete_documents_def delete_logs_def delete_telemetry_def Let_def
  by (intro conjI; simp; (rule delete_where_others)?; auto simp: due_defs)+

lemma fold_other_tenants: "other_tenants_same t db (fold (\<lambda>c. anonymize_rows t c now) cs db)"
proof (induction cs arbitrary: db)
  case (Cons c cs)
  then show ?case using anonymize_other_tenants other_tenants_trans by fastforce
qed (simp add: other_tenants_refl)

lemma apply_other_tenants: "other_tenants_same t db (fst (apply_retention t p now db_now db))"
  unfolding apply_retention_def Let_def fst_conv
  by (rule other_tenants_trans [OF other_tenants_trans [OF other_tenants_trans [OF other_tenants_trans [OF fold_other_tenants
    delete_other_tenants(2)] scrub_other_tenants] delete_other_tenants(1)] delete_other_tenants(3)])

subsection \<open>Customers\<close>

lemma anonymize_customer_row:
  assumes "r \<in> set (pb_customers (anonymize_rows t c now db))"
  shows "cm_tenant_id r = t \<and> cm_id r = c \<and> cm_status r = CR_ANONYMIZED
    \<or> r \<in> set (pb_customers db) \<and> \<not> (cm_tenant_id r = t \<and> cm_id r = c)"
proof -
  have "r \<in> set (update_where (customer_of t c cm_tenant_id cm_id) (erased_customer now) (pb_customers db))"
    using assms by (simp add: anonymize_rows_def)
  from update_where_mem [OF this] show ?thesis by (auto simp: customer_of_def erased_customer_def)
qed

lemma fold_customer_row:
  "r \<in> set (pb_customers (fold (\<lambda>c. anonymize_rows t c now) cs db))
   \<Longrightarrow> cm_tenant_id r = t \<and> cm_id r \<in> set cs \<and> cm_status r = CR_ANONYMIZED
     \<or> r \<in> set (pb_customers db) \<and> \<not> (cm_tenant_id r = t \<and> cm_id r \<in> set cs)"
proof (induction cs arbitrary: db)
  case (Cons c cs)
  then have "cm_tenant_id r = t \<and> cm_id r \<in> set cs \<and> cm_status r = CR_ANONYMIZED
     \<or> r \<in> set (pb_customers (anonymize_rows t c now db)) \<and> \<not> (cm_tenant_id r = t \<and> cm_id r \<in> set cs)" by simp
  then show ?case using anonymize_customer_row [of r t c now db] by auto
qed simp

lemma in_use_anonymize:
  assumes "\<not> (cm_tenant_id r = t \<and> cm_id r = c)"
  shows "in_use r (anonymize_rows t c now db) = in_use r db"
proof -
  have ne: "(cm_tenant_id r, cm_id r) \<noteq> (t, c)" using assms by simp
  have "list_ex (\<lambda>v. customer_of (cm_tenant_id r) (cm_id r) cw_tenant_id cw_customer_id v \<and> cw_status v \<noteq> C_CLOSED)
      (pb_conversations (anonymize_rows t c now db))
    = list_ex (\<lambda>v. customer_of (cm_tenant_id r) (cm_id r) cw_tenant_id cw_customer_id v \<and> cw_status v \<noteq> C_CLOSED) (pb_conversations db)"
    using ne by (simp add: anonymize_rows_def) (rule list_ex_update_where(2); auto simp: customer_of_def erased_defs)
  moreover have "list_ex (\<lambda>b. customer_of (cm_tenant_id r) (cm_id r) br_tenant_id br_customer_id b
         \<and> br_status b \<in> {B_DRAFT, B_HELD, B_CONFIRMED, B_RESCHEDULE_PENDING}) (pb_bookings (anonymize_rows t c now db))
    = list_ex (\<lambda>b. customer_of (cm_tenant_id r) (cm_id r) br_tenant_id br_customer_id b
         \<and> br_status b \<in> {B_DRAFT, B_HELD, B_CONFIRMED, B_RESCHEDULE_PENDING}) (pb_bookings db)"
    using ne by (simp add: anonymize_rows_def) (rule list_ex_update_where(2); auto simp: customer_of_def erased_defs)
  moreover have "list_ex (\<lambda>l. customer_of (cm_tenant_id r) (cm_id r) lw_tenant_id lw_customer_id l
         \<and> lw_status l \<in> {L_NEW, L_QUALIFYING, L_QUALIFIED, L_CONTACTED, L_CONVERTED}) (pb_leads (anonymize_rows t c now db))
    = list_ex (\<lambda>l. customer_of (cm_tenant_id r) (cm_id r) lw_tenant_id lw_customer_id l
         \<and> lw_status l \<in> {L_NEW, L_QUALIFYING, L_QUALIFIED, L_CONTACTED, L_CONVERTED}) (pb_leads db)"
    using ne by (simp add: anonymize_rows_def) (rule list_ex_update_where(2); auto simp: customer_of_def erased_defs)
  moreover have "list_ex (\<lambda>s. customer_of (cm_tenant_id r) (cm_id r) qw_tenant_id qw_customer_id s
         \<and> qw_status s \<in> {S_AWAITING_CONSENT, S_IN_PROGRESS, S_REVIEWING}) (pb_sessions (anonymize_rows t c now db))
    = list_ex (\<lambda>s. customer_of (cm_tenant_id r) (cm_id r) qw_tenant_id qw_customer_id s
         \<and> qw_status s \<in> {S_AWAITING_CONSENT, S_IN_PROGRESS, S_REVIEWING}) (pb_sessions db)"
    using ne by (simp add: anonymize_rows_def) (rule list_ex_update_where(2); auto simp: customer_of_def erased_defs)
  moreover have "list_ex (\<lambda>h. customer_handoff (cm_tenant_id r) (cm_id r) h \<and> hw_status h \<in> {H_QUEUED, H_CLAIMED, H_REOPENED})
      (pb_handoffs (anonymize_rows t c now db))
    = list_ex (\<lambda>h. customer_handoff (cm_tenant_id r) (cm_id r) h \<and> hw_status h \<in> {H_QUEUED, H_CLAIMED, H_REOPENED}) (pb_handoffs db)"
    using ne by (simp add: anonymize_rows_def) (rule list_ex_update_where(2); auto simp: customer_handoff_def erased_defs)
  ultimately show ?thesis unfolding in_use_def Let_def by (simp only:)
qed

lemma in_use_fold:
  "\<not> (cm_tenant_id r = t \<and> cm_id r \<in> set cs) \<Longrightarrow> in_use r (fold (\<lambda>c. anonymize_rows t c now) cs db) = in_use r db"
  by (induction cs arbitrary: db) (auto simp: in_use_anonymize)

lemma in_use_scrub: "in_use r (scrub_workflows t c db_now db) = in_use r db"
  unfolding in_use_def Let_def
  by (simp add: scrub_workflows_def customer_of_def customer_handoff_def list_ex_update_where(1))

lemma in_use_deletions:
  "in_use r (delete_documents t c db) = in_use r db" "in_use r (delete_logs t p now db) = in_use r db"
  "in_use r (delete_telemetry t p now db) = in_use r db"
  by (simp_all add: in_use_def delete_documents_def delete_logs_def delete_telemetry_def Let_def)

lemma kept_customers:
  "pb_customers (delete_documents t c db) = pb_customers db" "pb_customers (delete_logs t p now db) = pb_customers db"
  "pb_customers (delete_telemetry t p now db) = pb_customers db" "pb_customers (scrub_workflows t c db_now db) = pb_customers db"
  by (simp_all add: delete_documents_def delete_logs_def delete_telemetry_def scrub_workflows_def Let_def)

lemma apply_no_customer_due:
  "eligible_customers t (cutoff now (rn_customer_contact_days p)) (fst (apply_retention t p now db_now db)) = []"
proof -
  let ?c = "cutoff now (rn_customer_contact_days p)"
  let ?cs = "eligible_customers t ?c db"
  let ?db1 = "fold (\<lambda>c. anonymize_rows t c now) ?cs db"
  let ?db' = "fst (apply_retention t p now db_now db)"
  have customers: "pb_customers ?db' = pb_customers ?db1" by (simp add: apply_retention_def kept_customers Let_def)
  have in_use: "in_use r ?db' = in_use r ?db1" for r
    by (simp add: apply_retention_def in_use_deletions in_use_scrub Let_def)
  have "\<not> eligible t ?c ?db' r" if r: "r \<in> set (pb_customers ?db')" for r
  proof
    assume e: "eligible t ?c ?db' r"
    from fold_customer_row [OF r [unfolded customers]] e
    have r': "r \<in> set (pb_customers db)" "\<not> (cm_tenant_id r = t \<and> cm_id r \<in> set ?cs)" by (auto simp: eligible_def)
    have "in_use r ?db' = in_use r db" using in_use in_use_fold [OF r'(2)] by simp
    then have "eligible t ?c db r" using e by (simp add: eligible_def)
    then show False using r' e by (auto simp: eligible_customers_def eligible_def)
  qed
  then show ?thesis by (simp add: eligible_customers_def filter_empty_conv)
qed

lemma count_update_where: "(\<And>x. p x \<Longrightarrow> \<not> p (f x)) \<Longrightarrow> count_where p (update_where p f rows) = 0"
  unfolding count_where_zero by (auto dest!: update_where_mem)

lemma kept_workflows:
  "pb_drafts (delete_telemetry t p now (delete_documents t c2 db)) = pb_drafts db"
  "pb_bookings (delete_telemetry t p now (delete_documents t c2 db)) = pb_bookings db"
  "pb_leads (delete_telemetry t p now (delete_documents t c2 db)) = pb_leads db"
  "pb_sessions (delete_telemetry t p now (delete_documents t c2 db)) = pb_sessions db"
  "pb_handoffs (delete_telemetry t p now (delete_documents t c2 db)) = pb_handoffs db"
  by (simp_all add: delete_telemetry_def delete_documents_def Let_def)

lemma scrub_leaves_nothing:
  "workflow_count t c (delete_telemetry t p now (delete_documents t c2 (scrub_workflows t c db_now db))) = 0"
proof -
  have "count_where (due_draft t c) (pb_drafts (scrub_workflows t c db_now db)) = 0"
    by (simp add: scrub_workflows_def) (rule count_update_where, simp add: due_draft_def)
  moreover have "count_where (due_booking t c) (pb_bookings (scrub_workflows t c db_now db)) = 0"
    by (simp add: scrub_workflows_def) (rule count_update_where, simp add: due_booking_def)
  moreover have "count_where (due_lead t c) (pb_leads (scrub_workflows t c db_now db)) = 0"
    by (simp add: scrub_workflows_def) (rule count_update_where, simp add: due_lead_def)
  moreover have "count_where (due_session t c) (pb_sessions (scrub_workflows t c db_now db)) = 0"
    by (simp add: scrub_workflows_def) (rule count_update_where, simp add: due_session_def)
  moreover have "count_where (due_handoff t c) (pb_handoffs (scrub_workflows t c db_now db)) = 0"
    by (simp add: scrub_workflows_def) (rule count_update_where, simp add: due_handoff_def)
  ultimately show ?thesis by (simp add: workflow_count_def kept_workflows)
qed

lemma deletions_leave_nothing:
  "count_where (due_update t (cutoff now (rn_operational_metadata_days p))) (pb_updates (fst (apply_retention t p now db_now db))) = 0"
  "count_where (due_message t (cutoff now (rn_message_content_days p))) (pb_messages (fst (apply_retention t p now db_now db))) = 0"
  "count_where (due_document t (cutoff now (rn_knowledge_archive_days p))) (pb_documents (fst (apply_retention t p now db_now db))) = 0"
  "count_where (due_operation t (cutoff now (rn_ai_telemetry_days p))) (pb_operations (fst (apply_retention t p now db_now db))) = 0"
  unfolding count_where_zero
  by (simp_all add: apply_retention_def delete_telemetry_def delete_documents_def delete_logs_def scrub_workflows_def Let_def)
    (auto simp: due_document_def)

lemma fold_audit: "pb_audit (fold (\<lambda>c. anonymize_rows t c now) cs db) = pb_audit db"
  "pb_actions (fold (\<lambda>c. anonymize_rows t c now) cs db) = pb_actions db"
  by (induction cs arbitrary: db) (simp_all add: anonymize_rows_def)

lemma apply_logs_same:
  "pb_audit (fst (apply_retention t p now db_now db)) = pb_audit db"
  "pb_actions (fst (apply_retention t p now db_now db)) = pb_actions db"
  by (simp_all add: apply_retention_def delete_telemetry_def delete_documents_def delete_logs_def scrub_workflows_def fold_audit Let_def)

lemma run_retention_stored:
  assumes "run_retention new_id db_now t p key actor now db = Inr (db', r)" "\<not> pv_replay r"
  shows "\<exists>action entry. db' = (fst (apply_retention t p now db_now db))\<lparr>pb_actions := pb_actions db @ [action], pb_audit := pb_audit db @ [entry]\<rparr>
    \<and> pa_tenant_id action = t \<and> pa_idempotency_key action = key \<and> pa_action_type action = ''retention_execution''
    \<and> pa_target_id action = None \<and> pa_result_counts action = retention_counts t p now db \<and> au_tenant_id entry = t
    \<and> result_of_action action = Inr r \<and> stored_version t p db
    \<and> find (\<lambda>a. pa_tenant_id a = t \<and> pa_idempotency_key a = key) (pb_actions db) = None"
proof -
  obtain replay where replay: "replay_action t key ''retention_execution'' None db = Inr replay"
    using assms(1) by (auto simp: run_retention_def res_bind_Inr_iff)
  have none: "replay = None"
  proof (cases replay)
    case (Some r')
    then show ?thesis using assms replay replay_flag [of t key _ _ db r'] by (simp add: run_retention_def)
  qed simp
  let ?a = "\<lparr>pa_id = new_id, pa_tenant_id = t, pa_action_type = ''retention_execution'', pa_target_type = None,
                 pa_target_id = None, pa_idempotency_key = key, pa_reason_code = ''scheduled_retention'',
                 pa_policy_version = rn_version p, pa_result_counts = snd (apply_retention t p now db_now db), pa_requested_by = actor,
                 pa_occurred_at = now\<rparr>"
  have counts: "snd (apply_retention t p now db_now db) = retention_counts t p now db" by (simp add: apply_retention_def Let_def)
  obtain db2 where stored: "stored_version t p db"
    and db2: "add_action ?a (fst (apply_retention t p now db_now db)) = Inr db2" and r: "result_of_action ?a = Inr r"
    and db': "db' = db2\<lparr>pb_audit := pb_audit db2 @ [privacy_audit t actor ''privacy.retention_executed'' ''retention_policy'' (tenant_str t)
               [(''policy_version'', JInt (rn_version p)), (''action_id'', JStr (uuid_str new_id))] now]\<rparr>"
    using assms(1) replay none
    by (auto simp: run_retention_def res_bind_Inr_iff Let_def split: option.splits if_splits prod.splits)
  show ?thesis
    using add_action_Inr [OF db2] db' r stored counts replay_None [OF replay [unfolded none]]
    by (intro exI conjI) (auto simp: apply_logs_same privacy_audit_def intro: exI)
qed

section \<open>Properties\<close>




section \<open>Witnesses\<close>

text \<open>A tenant with a customer, a message of a closed conversation and an old update.\<close>

definition demo_privacy_db :: privacy_db where
  "demo_privacy_db = \<lparr>pb_tenants = [],
     pb_policies = [\<lparr>rr_policy = \<lparr>rn_tenant_id = TenantId 1, rn_version = 1, rn_operational_metadata_days = 30, rn_message_content_days = 90,
        rn_customer_contact_days = 365, rn_workflow_records_days = 730, rn_knowledge_archive_days = 365, rn_ai_telemetry_days = 90,
        rn_automatic_execution_enabled = False\<rparr>, rr_updated_at = 0\<rparr>],
     pb_customers = [\<lparr>cm_id = CustomerId 5, cm_tenant_id = TenantId 1, cm_display_name = Some ''Ann'', cm_phone_raw = None,
        cm_phone_e164 = None, cm_phone_verified = False, cm_email = Some ''a@b.c'', cm_locale = ''en'', cm_privacy_notice_version = None,
        cm_privacy_accepted_at = None, cm_contact_consent_at = None, cm_status = CR_ACTIVE, cq_updated_at = 0\<rparr>],
     pb_identities = [\<lparr>ci_id = 8, ci_tenant_id = TenantId 1, ci_customer_id = CustomerId 5, ci_channel = ''telegram'',
        ci_external_user_id = ''77'', ci_external_chat_id = ''77''\<rparr>],
     pb_conversations = [\<lparr>cw_id = ConversationId 6, cw_tenant_id = TenantId 1, cw_customer_id = CustomerId 5, cw_status = C_CLOSED,
        cw_active_workflow = None, cw_channel_identity_id = Some 8, cw_locale = ''en'', cw_last_message_at = None, cw_summary_version = 0,
        cw_created_at = 0, vq_updated_at = 0\<rparr>],
     pb_messages = [\<lparr>mg_id = 9, mg_tenant_id = TenantId 1, mg_conversation_id = ConversationId 6, mg_redacted_text = Some ''hi'', mg_created_at = 0\<rparr>],
     pb_updates = [\<lparr>tu_tenant_id = TenantId 1, tu_bot_id = 1, tu_update_id = 1, tu_status = U_COMPLETED, tu_attempts = 1, tu_claimed_at = 0,
        tu_completed_at = Some 0, tu_last_error_code = None, tu_created_at = 0\<rparr>],
     pb_drafts = [], pb_holds = [], pb_bookings = [], pb_leads = [], pb_sessions = [], pb_handoffs = [], pb_documents = [], pb_chunks = [],
     pb_operations = [], pb_actions = [], pb_audit = []\<rparr>"

definition demo_erasure :: "exc + privacy_db \<times> privacy_result" where
  "demo_erasure = anonymize_customer 100 (TenantId 1) (CustomerId 5) ''request-1'' ''customer_request'' ''owner'' 50 demo_privacy_db"

lemma demo_erasure_done: "case demo_erasure of Inl _ \<Rightarrow> False | Inr (_, r) \<Rightarrow> \<not> pv_replay r"
  by (simp add: demo_erasure_def anonymize_customer_def replay_action_def demo_privacy_db_def find_retention_policy_def customer_of_def
    anonymize_rows_def update_where_def add_action_def result_of_action_def privacy_result_post_init_def anonymize_counts_def
    count_where_def Let_def)

definition demo_policy :: retention_policy where
  "demo_policy = rr_policy (hd (pb_policies demo_privacy_db))"

definition demo_retention :: "exc + privacy_db \<times> privacy_result" where
  "demo_retention = run_retention 100 (400 * day_us) (TenantId 1) demo_policy ''run-1'' ''owner'' (400 * day_us) demo_privacy_db"

lemma demo_retention_done: "case demo_retention of Inl _ \<Rightarrow> False | Inr (_, r) \<Rightarrow> \<not> pv_replay r \<and> dict_get (pv_counts r) ''customers_anonymized'' = Some 1"
  by (simp add: demo_retention_def demo_policy_def run_retention_def replay_action_def demo_privacy_db_def stored_version_def
    apply_retention_def retention_counts_def eligible_customers_def eligible_def in_use_def customer_of_def cutoff_def day_us_def
    anonymize_rows_def update_where_def delete_logs_def delete_documents_def delete_telemetry_def delete_where_def scrub_workflows_def
    due_update_def due_message_def workflow_count_def add_action_def result_of_action_def privacy_result_post_init_def
    count_where_def Let_def)




end
