(* ===== verification/Secrets.thy ===== *)
theory Secrets
  imports Crypto Access PyParse
begin

text \<open>
  The secrets of administrative credentials (\<open>infrastructure/security/credentials.py\<close>) and the static
  API key (\<open>infrastructure/security/api_key.py\<close>), with the parts of the standard library they rest on:
  PBKDF2 over the HMAC of Crypto, \<open>int(text)\<close>, \<open>str.split\<close> with a limit, and \<open>uuid5\<close> over SHA-1. What
  \<open>secrets\<close> draws is an argument. Python strings are Latin-1 here, as in PyText.
\<close>

unbundle bit_operations_syntax

section \<open>SHA-1 and uuid5\<close>

type_synonym sha1_state = "32 word \<times> 32 word \<times> 32 word \<times> 32 word \<times> 32 word"

definition sha1_next :: "32 word list \<Rightarrow> 32 word" where
  "sha1_next w = (let n = length w in
     word_rotl 1 (w ! (n - 3) XOR w ! (n - 8) XOR w ! (n - 14) XOR w ! (n - 16)))"

definition sha1_schedule :: "byte list \<Rightarrow> 32 word list" where
  "sha1_schedule block = ((\<lambda>w. w @ [sha1_next w]) ^^ 64) (map be32 (chunks_of 4 block))"

definition sha1_mix :: "nat \<Rightarrow> 32 word \<Rightarrow> 32 word \<Rightarrow> 32 word \<Rightarrow> 32 word" where
  "sha1_mix t b c d =
     (if t < 20 then ((b AND c) OR (NOT b AND d)) + 0x5a827999
      else if t < 40 then (b XOR c XOR d) + 0x6ed9eba1
      else if t < 60 then ((b AND c) OR (b AND d) OR (c AND d)) + 0x8f1bbcdc
      else (b XOR c XOR d) + 0xca62c1d6)"

definition sha1_round :: "nat \<times> 32 word \<Rightarrow> sha1_state \<Rightarrow> sha1_state" where
  "sha1_round tw st = (case (tw, st) of ((t, w), (a, b, c, d, e)) \<Rightarrow>
     (word_rotl 5 a + sha1_mix t b c d + e + w, a, word_rotl 30 b, c, d))"

definition sha1_block :: "byte list \<Rightarrow> sha1_state \<Rightarrow> sha1_state" where
  "sha1_block block st = (case (st, fold sha1_round (zip [0..<80] (sha1_schedule block)) st) of
     ((a, b, c, d, e), (a', b', c', d', e')) \<Rightarrow> (a + a', b + b', c + c', d + d', e + e'))"

definition sha1 :: "byte list \<Rightarrow> byte list" where
  "sha1 m = (case fold sha1_block (chunks_of 64 (sha_pad m)) (0x67452301, 0xefcdab89, 0x98badcfe, 0x10325476, 0xc3d2e1f0) of
     (a, b, c, d, e) \<Rightarrow> concat (map bytes32 [a, b, c, d, e]))"

text \<open>\<open>uuid5(NAMESPACE_URL, name)\<close>: the version is set to 5 and the variant to RFC 4122.\<close>

definition namespace_url :: uuid where
  "namespace_url = 0x6ba7b8119dad11d180b400c04fd430c8"

definition uuid5_url :: "string \<Rightarrow> uuid" where
  "uuid5_url name = (let u = uuid_of_bytes (take 16 (sha1 (uuid_bytes namespace_url @ utf8 name))) in
     (u AND NOT (push_bit 76 0xf) AND NOT (push_bit 62 3)) OR push_bit 76 5 OR push_bit 62 2)"

section \<open>Text\<close>

text \<open>\<open>s.split(sep, limit)\<close>: at most \<open>limit\<close> cuts, from the left.\<close>

fun split_limit :: "nat \<Rightarrow> char \<Rightarrow> string \<Rightarrow> string list" where
  "split_limit 0 sep s = [s]"
| "split_limit (Suc n) sep s = (if sep \<in> set s
     then takeWhile (\<lambda>c. c \<noteq> sep) s # split_limit n sep (tl (dropWhile (\<lambda>c. c \<noteq> sep) s)) else [s])"

text \<open>\<open>int(text)\<close>: white space around the number and single underscores between digits are allowed.\<close>

definition int_text :: "string \<Rightarrow> int option" where
  "int_text s = (case split_sign (strip s) of (neg, ds) \<Rightarrow>
     if list_all (\<lambda>part. part \<noteq> [] \<and> list_all is_digit part) (split_char CHR ''_'' ds)
     then let n = int (digits_val (filter (\<lambda>c. c \<noteq> CHR ''_'') ds)) in Some (if neg then - n else n)
     else None)"

section \<open>PBKDF2 (hashlib.pbkdf2_hmac with one block of output)\<close>

definition xor_bytes :: "byte list \<Rightarrow> byte list \<Rightarrow> byte list" where
  "xor_bytes xs ys = map (\<lambda>(a, b). a XOR b) (zip xs ys)"

text \<open>The remaining iterations, the last HMAC and the sum so far.\<close>

fun pbkdf2_rounds :: "byte list \<Rightarrow> nat \<Rightarrow> byte list \<Rightarrow> byte list \<Rightarrow> byte list" where
  "pbkdf2_rounds key 0 u acc = acc"
| "pbkdf2_rounds key (Suc n) u acc = (let u' = hmac_sha256 key u in pbkdf2_rounds key n u' (xor_bytes acc u'))"

definition pbkdf2_hmac_sha256 :: "byte list \<Rightarrow> byte list \<Rightarrow> nat \<Rightarrow> byte list" where
  "pbkdf2_hmac_sha256 password salt rounds =
     (let u = hmac_sha256 password (salt @ [0, 0, 0, 1]) in pbkdf2_rounds password (rounds - 1) u u)"

section \<open>PBKDF2CredentialSecrets\<close>

definition pbkdf2_iterations :: nat where
  "pbkdf2_iterations = 310000"

record credential_material =
  mt_prefix :: string
  mt_secret_hash :: string
  mt_plaintext :: string

text \<open>\<open>token_hex\<close> and \<open>token_urlsafe\<close> of the bytes drawn.\<close>

definition byte_hex :: "byte \<Rightarrow> string" where
  "byte_hex b = [hex_char (unat b div 16), hex_char (unat b mod 16)]"

definition token_hex :: "byte list \<Rightarrow> string" where
  "token_hex bs = concat (map byte_hex bs)"

definition token_urlsafe :: "byte list \<Rightarrow> string" where
  "token_urlsafe bs = rstrip_eq (urlsafe_b64encode bs)"

definition hash_secret :: "byte list \<Rightarrow> string \<Rightarrow> string" where
  "hash_secret salt plaintext = join ''$'' [''pbkdf2_sha256'', str_int (int pbkdf2_iterations), urlsafe_b64encode salt,
     urlsafe_b64encode (pbkdf2_hmac_sha256 (utf8 plaintext) salt pbkdf2_iterations)]"

definition issue_secret :: "byte list \<Rightarrow> byte list \<Rightarrow> byte list \<Rightarrow> credential_material" where
  "issue_secret prefix_bytes secret_bytes salt = (
     let prefix = ''atba_'' @ token_hex prefix_bytes; plaintext = prefix @ ''.'' @ token_urlsafe secret_bytes in
     \<lparr>mt_prefix = prefix, mt_secret_hash = hash_secret salt plaintext, mt_plaintext = plaintext\<rparr>)"

text \<open>\<open>verify\<close>: a text that cannot be taken apart, or names other parameters, verifies nothing.\<close>

definition verify_secret :: "string \<Rightarrow> string \<Rightarrow> bool" where
  "verify_secret plaintext encoded = (case split_limit 3 CHR ''$'' encoded of
     [algorithm, iterations, salt_text, expected_text] \<Rightarrow>
       if algorithm \<noteq> ''pbkdf2_sha256'' \<or> int_text iterations \<noteq> Some (int pbkdf2_iterations) then False
       else if \<not> isascii salt_text \<or> \<not> isascii expected_text then False
       else (case (urlsafe_b64decode salt_text, urlsafe_b64decode expected_text) of
         (Inr salt, Inr expected) \<Rightarrow> pbkdf2_hmac_sha256 (utf8 plaintext) salt pbkdf2_iterations = expected
       | _ \<Rightarrow> False)
   | _ \<Rightarrow> False)"

section \<open>StaticApiKeyAuthenticator\<close>

definition static_authenticate :: "string \<Rightarrow> principal \<Rightarrow> string option \<Rightarrow> principal res" where
  "static_authenticate expected_key p provided = (case provided of
     None \<Rightarrow> Inl AuthenticationError
   | Some candidate \<Rightarrow> if candidate = [] \<or> utf8 candidate \<noteq> utf8 expected_key then Inl AuthenticationError else Inr p)"

text \<open>The part of a key before its first full stop, which is how a credential is found.\<close>

definition key_prefix :: "string \<Rightarrow> string" where
  "key_prefix value = (if CHR ''.'' \<in> set value then hd (split_limit 1 CHR ''.'' value) else [])"

section \<open>An issued secret verifies\<close>

lemma b64_decode_encode: "b64_scan 0 0 0 out (map b64_char (sextets bs) @ b64_padding (length bs)) = Inr (out @ bs)"
proof (induction bs arbitrary: out rule: sextets.induct)
  case (2 a)
  have "unat a div 4 < 64" "(unat a mod 4) * 16 < 64" using unat_byte_bound [of a] by auto
  then show ?case using byte_bits(4) [of a] by (simp add: b64_scan_sextet b64_padding_def del: b64_scan.simps) simp
next
  case (3 a b)
  have "unat a div 4 < 64" "(unat a mod 4) * 16 + unat b div 16 < 64" "(unat b mod 16) * 4 < 64"
    using unat_byte_bound [of a] unat_byte_bound [of b] by auto
  then show ?case using byte_bits(1) [of a b] byte_bits(5) [of a b]
    by (simp add: b64_scan_sextet b64_padding_def del: b64_scan.simps) simp
next
  case (4 a b c bs)
  have "unat a div 4 < 64" "(unat a mod 4) * 16 + unat b div 16 < 64" "(unat b mod 16) * 4 + unat c div 64 < 64" "unat c mod 64 < 64"
    using unat_byte_bound [of a] unat_byte_bound [of b] unat_byte_bound [of c] by auto
  moreover have "b64_padding (length (a # b # c # bs)) = b64_padding (length bs)" by (simp add: b64_padding_def mod_Suc)
  ultimately show ?case using byte_bits(1) [of a b] byte_bits(2) [of a b c] byte_bits(3) [of b c] 4
    by (simp add: b64_scan_sextet del: b64_scan.simps)
qed (simp add: b64_padding_def)

lemma b64_roundtrip [simp]: "urlsafe_b64decode (urlsafe_b64encode bs) = Inr bs"
  using b64_decode_encode [of "[]" bs] by (simp add: urlsafe_b64decode_def urlsafe_b64encode_def)

lemma b64_char_dollar: "n < 64 \<Longrightarrow> b64_char n \<noteq> CHR ''$''"
proof (rule code_ne)
  assume n: "n < 64"
  have "code CHR ''$'' = 36" by (simp add: code_def)
  then show "code (b64_char n) \<noteq> code CHR ''$''" using n by (simp add: code_b64_char, arith)
qed

lemma b64_encoded: "c \<in> set (urlsafe_b64encode bs) \<Longrightarrow> c \<noteq> CHR ''$'' \<and> code c < 128"
  by (auto simp: urlsafe_b64encode_def b64_padding_def code_def b64_char_facts(5) [unfolded code_def] b64_char_dollar
      dest!: sextets_bound split: if_splits)

lemma split_limit_cut:
  assumes "sep \<notin> set a"
  shows "split_limit (Suc n) sep (a @ sep # s) = a # split_limit n sep s"
proof -
  have "takeWhile (\<lambda>c. c \<noteq> sep) a = a" "dropWhile (\<lambda>c. c \<noteq> sep) a = []"
    using assms by (auto simp: takeWhile_eq_all_conv dropWhile_eq_Nil_conv)
  then show ?thesis by (simp add: takeWhile_tail dropWhile_append3)
qed

lemma split_limit_last: "sep \<notin> set s \<Longrightarrow> split_limit n sep s = [s]"
  by (cases n) auto

lemma digits_plain: "list_all is_digit s \<Longrightarrow> sep \<in> set s \<Longrightarrow> is_digit sep"
  by (simp add: list_all_iff)

text \<open>Text without white space, signs and underscores is read digit by digit.\<close>

lemma split_char_plain: "sep \<notin> set s \<Longrightarrow> split_char_acc sep w s = [w @ s]"
  by (induction s arbitrary: w) auto

lemma digit_not: "is_digit c \<Longrightarrow> c \<noteq> CHR ''_'' \<and> c \<noteq> CHR ''$'' \<and> c \<noteq> CHR ''-'' \<and> c \<noteq> CHR ''+'' \<and> \<not> is_space c"
  by (auto simp: is_digit_def is_space_def code_def)

lemma int_text_plain:
  assumes d: "list_all is_digit s" and "s \<noteq> []"
  shows "int_text s = Some (int (digits_val s))"
proof -
  have c: "c \<noteq> CHR ''_'' \<and> c \<noteq> CHR ''-'' \<and> c \<noteq> CHR ''+'' \<and> \<not> is_space c" if "c \<in> set s" for c
    using d that digit_not [of c] by (simp add: list_all_iff)
  have "strip s = s" by (rule strip_plain) (use c in \<open>simp add: list_all_iff\<close>)
  moreover have "split_sign s = (False, s)" using c assms(2) by (cases s) simp_all
  moreover have "split_char CHR ''_'' s = [s]" using c split_char_plain [of "CHR ''_''" s "[]"] by (auto simp: split_char_def)
  moreover have "filter (\<lambda>c. c \<noteq> CHR ''_'') s = s" using c by (simp add: filter_id_conv)
  ultimately show ?thesis using assms by (simp add: int_text_def)
qed

lemma int_text_digits: "int_text (digits_of n) = Some (int n)"
  using int_text_plain [OF digits_of_digits digits_of_nonempty] by simp

lemma str_int_nat: "str_int (int n) = digits_of n"
  by (simp add: str_int_def)

lemma verify_hash [simp]: "verify_secret plaintext (hash_secret salt plaintext)"
proof -
  have "CHR ''$'' \<notin> set (digits_of pbkdf2_iterations)"
    using digits_of_digits [of pbkdf2_iterations] digit_not by (auto simp: list_all_iff)
  moreover have "CHR ''$'' \<notin> set (urlsafe_b64encode bs)" "isascii (urlsafe_b64encode bs)" for bs
    using b64_encoded by (auto simp: isascii_def list_all_iff)
  moreover have "CHR ''$'' \<notin> set ''pbkdf2_sha256''" by simp
  moreover have "hash_secret salt plaintext = ''pbkdf2_sha256'' @ CHR ''$'' # (digits_of pbkdf2_iterations @ CHR ''$'' #
      (urlsafe_b64encode salt @ CHR ''$'' # urlsafe_b64encode (pbkdf2_hmac_sha256 (utf8 plaintext) salt pbkdf2_iterations)))"
    by (simp add: hash_secret_def str_int_nat del: digits_of.simps)
  ultimately have "split_limit 3 CHR ''$'' (hash_secret salt plaintext) =
      [''pbkdf2_sha256'', digits_of pbkdf2_iterations, urlsafe_b64encode salt,
       urlsafe_b64encode (pbkdf2_hmac_sha256 (utf8 plaintext) salt pbkdf2_iterations)]"
    unfolding numeral_3_eq_3 by (simp only: split_limit_cut split_limit_last not_False_eq_True)
  then show ?thesis
    using \<open>\<And>bs. isascii (urlsafe_b64encode bs)\<close> by (simp add: verify_secret_def int_text_digits del: split_limit.simps)
qed

lemma hex_no_dot: "n < 16 \<Longrightarrow> hex_char n \<noteq> CHR ''.''"
proof (rule code_ne)
  assume n: "n < 16"
  have "code CHR ''.'' = 46" by (simp add: code_def)
  then show "code (hex_char n) \<noteq> code CHR ''.''" using n by (simp add: hex_char_def code_char_of)
qed

lemma byte_hex_no_dot:
  assumes "c \<in> set (token_hex bs)"
  shows "c \<noteq> CHR ''.''"
proof -
  obtain x :: byte where "c = hex_char (unat x div 16) \<or> c = hex_char (unat x mod 16)"
    using assms by (auto simp: token_hex_def byte_hex_def)
  moreover have "unat x div 16 < 16" using unat_byte_bound [of x] by simp
  ultimately show ?thesis by (elim disjE) (simp_all add: hex_no_dot)
qed

lemma issued_prefix [simp]: "key_prefix (mt_plaintext (issue_secret a b salt)) = mt_prefix (issue_secret a b salt)"
proof -
  let ?p = "''atba_'' @ token_hex a"
  have "CHR ''.'' \<notin> set ?p" using byte_hex_no_dot by auto
  then have "split_limit (Suc 0) CHR ''.'' (?p @ CHR ''.'' # token_urlsafe b) = ?p # split_limit 0 CHR ''.'' (token_urlsafe b)"
    by (rule split_limit_cut)
  then show ?thesis by (simp add: key_prefix_def issue_secret_def Let_def del: split_limit.simps(2))
qed

lemma issued_secret [simp]:
  "startswith ''atba_'' (mt_prefix (issue_secret a b salt))"
  "verify_secret (mt_plaintext (issue_secret a b salt)) (mt_secret_hash (issue_secret a b salt))"
  by (simp_all add: issue_secret_def Let_def startswith_def)

end
