(* ===== verification/Administration.thy ===== *)
theory Administration
  imports Privacy Secrets
begin

text \<open>
  Tenant administration: \<open>application/administration/*.py\<close>, \<open>infrastructure/persistence/administration.py\<close>
  and the database authenticator of \<open>infrastructure/security/database_api_key.py\<close>. A store method is one
  transaction on \<open>admin_db\<close>; the clock, the values of \<open>uuid4()\<close>, the issued secret and the host's time zone
  database are arguments. A row with a version column gets the next version exactly when a flush writes a
  changed column, as SQLAlchemy's \<open>version_id_col\<close> does. Columns that a database default fills and no
  modelled operation reads, the identifiers and the correlation of audit entries are left out.
\<close>

section \<open>Models (application/administration/models.py)\<close>

datatype capability = CAP_TELEGRAM | CAP_BOOKING | CAP_QUALIFICATION | CAP_AI_ROUTING | CAP_KNOWLEDGE_ANSWERS
  | CAP_BACKGROUND_NOTIFICATIONS | CAP_AUTOMATIC_RETENTION

fun capability_value :: "capability \<Rightarrow> string" where
  "capability_value CAP_TELEGRAM = ''telegram''"
| "capability_value CAP_BOOKING = ''booking''"
| "capability_value CAP_QUALIFICATION = ''qualification''"
| "capability_value CAP_AI_ROUTING = ''ai_routing''"
| "capability_value CAP_KNOWLEDGE_ANSWERS = ''knowledge_answers''"
| "capability_value CAP_BACKGROUND_NOTIFICATIONS = ''background_notifications''"
| "capability_value CAP_AUTOMATIC_RETENTION = ''automatic_retention''"

definition capabilities :: "capability list" where
  "capabilities = [CAP_TELEGRAM, CAP_BOOKING, CAP_QUALIFICATION, CAP_AI_ROUTING, CAP_KNOWLEDGE_ANSWERS,
     CAP_BACKGROUND_NOTIFICATIONS, CAP_AUTOMATIC_RETENTION]"

text \<open>\<open>AdministrationError(message, code=...)\<close>; the code is optional.\<close>

definition admin_error :: "string \<Rightarrow> string \<Rightarrow> exc" where
  "admin_error c message = AdministrationError message (''administration.'' @ c)"

record tenant_view =
  tv_id :: tenant_id
  tv_slug :: string
  tv_name :: string
  tv_timezone :: string
  tv_default_locale :: locale_t
  tv_supported_locales :: "locale_t set"
  tv_status :: tenant_status
  tv_settings_version :: int

record business_profile_view =
  bp_description :: string
  bp_public_phone :: "string option"
  bp_public_email :: "string option"
  bp_website_url :: "string option"
  bp_address :: "string option"
  bp_service_area :: "string option"
  bp_parking_guidance :: "string option"
  bp_payment_methods :: "string list"
  bp_warranty_policy :: "string option"
  bp_appointment_policy :: "string option"
  bp_version :: int

record member_view =
  mv_id :: uuid
  mv_tenant_id :: tenant_id
  mv_subject :: string
  mv_role :: role
  mv_active :: bool
  mv_created_at :: instant
  mv_updated_at :: instant

record credential_view =
  adv_id :: uuid
  adv_tenant_id :: tenant_id
  adv_member_id :: uuid
  adv_name :: string
  adv_key_prefix :: string
  adv_role :: role
  adv_expires_at :: "instant option"
  adv_revoked_at :: "instant option"
  adv_last_used_at :: "instant option"
  adv_created_at :: instant

record credential_issue =
  ss_credential :: credential_view
  ss_secret :: "string option"

record entitlement_view =
  ev_capability :: capability
  ev_enabled :: bool
  ev_entitlement_version :: int

record provision_request =
  pt_tenant_id :: tenant_id
  pt_slug :: string
  pt_name :: string
  pt_timezone :: string
  pt_default_locale :: locale_t
  pt_owner_subject :: string
  pt_credential_name :: string
  pt_idempotency_key :: string
  pt_entitlements :: "capability set"

record provisioning_result =
  ps_tenant :: tenant_view
  ps_owner :: member_view
  ps_credential :: credential_issue
  ps_created :: bool

section \<open>Rows\<close>

record admin_tenant_row = telegram_tenant_row +
  ta_slug :: string
  ta_name :: string
  ta_timezone :: string
  ta_status_changed_at :: instant
  ta_archived_at :: "instant option"
  ta_settings_version :: int

record member_row =
  mb_id :: uuid
  mb_tenant_id :: tenant_id
  mb_subject :: string
  mb_role :: role
  mb_active :: bool
  mb_created_at :: instant
  mb_updated_at :: instant

record credential_row =
  adc_id :: uuid
  adc_tenant_id :: tenant_id
  adc_member_id :: uuid
  adc_name :: string
  adc_key_prefix :: string
  adc_secret_hash :: string
  adc_role :: role
  adc_expires_at :: "instant option"
  adc_revoked_at :: "instant option"
  adc_last_used_at :: "instant option"
  adc_rotated_from_id :: "uuid option"
  adc_created_at :: instant

record entitlement_row =
  en_tenant_id :: tenant_id
  en_capability :: capability
  en_enabled :: bool
  en_version :: int

record provisioning_row =
  pn_id :: uuid
  pn_tenant_id :: tenant_id
  pn_idempotency_key :: string
  pn_owner_member_id :: uuid
  pn_credential_id :: uuid
  pn_created_at :: instant

record schedule_head_row =
  sh_id :: uuid
  sh_tenant_id :: tenant_id
  sh_name :: string
  sh_timezone :: string
  sh_active :: bool

text \<open>The localized columns are JSON objects from locale codes to texts.\<close>

record profile_row =
  fp_tenant_id :: tenant_id
  fp_schedule_id :: uuid
  fp_descriptions :: "(string, string) dict"
  fp_public_phone :: "string option"
  fp_public_email :: "string option"
  fp_website_url :: "string option"
  fp_addresses :: "(string, string) dict"
  fp_service_areas :: "(string, string) dict"
  fp_parking_guidance :: "(string, string) dict"
  fp_payment_methods :: "string list"
  fp_warranty_policy :: "(string, string) dict"
  fp_appointment_policy :: "(string, string) dict"
  fp_version :: int

record admin_db =
  ad_tenants :: "admin_tenant_row list"
  ad_schedules :: "schedule_head_row list"
  ad_profiles :: "profile_row list"
  ad_members :: "member_row list"
  ad_credentials :: "credential_row list"
  ad_entitlements :: "entitlement_row list"
  ad_policies :: "retention_row list"
  ad_provisionings :: "provisioning_row list"
  ad_audit :: "audit_row list"

text \<open>
  Inserting a row: a text longer than its column is a \<open>DataError\<close>, a row equal to another in the primary
  key or a unique constraint an \<open>IntegrityError\<close>.
\<close>

definition insert_row :: "('r \<Rightarrow> bool) \<Rightarrow> ('r \<Rightarrow> 'r \<Rightarrow> bool) \<Rightarrow> 'r \<Rightarrow> 'r list \<Rightarrow> 'r list res" where
  "insert_row fit clash r rows =
     (if \<not> fit r then Inl (OtherException ''DataError'')
      else if list_ex (clash r) rows then Inl integrity_error else Inr (rows @ [r]))"

definition tenant_fits :: "admin_tenant_row \<Rightarrow> bool" where
  "tenant_fits r = (length (ta_slug r) \<le> 100 \<and> length (ta_name r) \<le> 200 \<and> length (ta_timezone r) \<le> 100)"

definition tenants_clash :: "admin_tenant_row \<Rightarrow> admin_tenant_row \<Rightarrow> bool" where
  "tenants_clash a b = (tt_id a = tt_id b \<or> ta_slug a = ta_slug b)"

definition members_clash :: "member_row \<Rightarrow> member_row \<Rightarrow> bool" where
  "members_clash a b = (mb_id a = mb_id b \<or> mb_tenant_id a = mb_tenant_id b \<and> mb_subject a = mb_subject b)"

definition credential_fits :: "credential_row \<Rightarrow> bool" where
  "credential_fits r = (length (adc_name r) \<le> 100 \<and> length (adc_key_prefix r) \<le> 40 \<and> length (adc_secret_hash r) \<le> 512)"

definition credentials_clash :: "credential_row \<Rightarrow> credential_row \<Rightarrow> bool" where
  "credentials_clash a b = (adc_id a = adc_id b \<or> adc_key_prefix a = adc_key_prefix b)"

definition provisionings_clash :: "provisioning_row \<Rightarrow> provisioning_row \<Rightarrow> bool" where
  "provisionings_clash a b = (pn_id a = pn_id b \<or> pn_idempotency_key a = pn_idempotency_key b)"

definition schedules_clash :: "schedule_head_row \<Rightarrow> schedule_head_row \<Rightarrow> bool" where
  "schedules_clash a b = (sh_id a = sh_id b \<or> sh_tenant_id a = sh_tenant_id b \<and> sh_name a = sh_name b)"

definition entitlements_clash :: "entitlement_row \<Rightarrow> entitlement_row \<Rightarrow> bool" where
  "entitlements_clash a b = (en_tenant_id a = en_tenant_id b \<and> en_capability a = en_capability b)"

definition policies_clash :: "retention_row \<Rightarrow> retention_row \<Rightarrow> bool" where
  "policies_clash a b = (rn_tenant_id (rr_policy a) = rn_tenant_id (rr_policy b))"

definition profiles_clash :: "profile_row \<Rightarrow> profile_row \<Rightarrow> bool" where
  "profiles_clash a b = (fp_tenant_id a = fp_tenant_id b)"

section \<open>Views of rows\<close>

definition view_tenant :: "admin_tenant_row \<Rightarrow> tenant_view res" where
  "view_tenant r =
     res_bind (locale_from (tt_default_locale r)) (\<lambda>default_locale.
     res_bind (supported_set (tt_supported_locales r)) (\<lambda>supported.
     Inr \<lparr>tv_id = tt_id r, tv_slug = ta_slug r, tv_name = ta_name r, tv_timezone = ta_timezone r,
       tv_default_locale = default_locale, tv_supported_locales = supported, tv_status = tt_status r,
       tv_settings_version = ta_settings_version r\<rparr>))"

definition tenant_entity :: "tzdb \<Rightarrow> admin_tenant_row \<Rightarrow> tenant res" where
  "tenant_entity tzdb r = res_bind (view_tenant r) (\<lambda>v. tenant_post_init tzdb
     \<lparr>tn_id = tv_id v, tn_slug = tv_slug v, tn_name = tv_name v, tn_timezone = tv_timezone v,
      tn_default_locale = tv_default_locale v, tn_supported_locales = tv_supported_locales v,
      tn_status = tv_status v, tn_settings_version = tv_settings_version v\<rparr>)"

definition view_profile :: "profile_row \<Rightarrow> business_profile_view res" where
  "view_profile r = (case dict_get (fp_descriptions r) (locale_value EN) of
     None \<Rightarrow> Inl (KeyError (locale_value EN))
   | Some description \<Rightarrow> let english = (\<lambda>d. dict_get d (locale_value EN)) in
       Inr \<lparr>bp_description = description, bp_public_phone = fp_public_phone r, bp_public_email = fp_public_email r,
         bp_website_url = fp_website_url r, bp_address = english (fp_addresses r), bp_service_area = english (fp_service_areas r),
         bp_parking_guidance = english (fp_parking_guidance r), bp_payment_methods = fp_payment_methods r,
         bp_warranty_policy = english (fp_warranty_policy r), bp_appointment_policy = english (fp_appointment_policy r),
         bp_version = fp_version r\<rparr>)"

definition localized_column :: "localized \<Rightarrow> (string, string) dict" where
  "localized_column vals = map (\<lambda>(l, v). (locale_value l, v)) vals"

definition view_member :: "member_row \<Rightarrow> member_view" where
  "view_member r = \<lparr>mv_id = mb_id r, mv_tenant_id = mb_tenant_id r, mv_subject = mb_subject r, mv_role = mb_role r,
     mv_active = mb_active r, mv_created_at = mb_created_at r, mv_updated_at = mb_updated_at r\<rparr>"

definition view_credential :: "credential_row \<Rightarrow> credential_view" where
  "view_credential r = \<lparr>adv_id = adc_id r, adv_tenant_id = adc_tenant_id r, adv_member_id = adc_member_id r, adv_name = adc_name r,
     adv_key_prefix = adc_key_prefix r, adv_role = adc_role r, adv_expires_at = adc_expires_at r,
     adv_revoked_at = adc_revoked_at r, adv_last_used_at = adc_last_used_at r, adv_created_at = adc_created_at r\<rparr>"

definition view_entitlement :: "entitlement_row \<Rightarrow> entitlement_view" where
  "view_entitlement r = \<lparr>ev_capability = en_capability r, ev_enabled = en_enabled r, ev_entitlement_version = en_version r\<rparr>"

definition admin_audit :: "tenant_id \<Rightarrow> string \<Rightarrow> string \<Rightarrow> string \<Rightarrow> string \<Rightarrow> (string, json) dict \<Rightarrow> instant \<Rightarrow> audit_row" where
  "admin_audit t actor act target_type target diff now = \<lparr>au_tenant_id = t, au_actor_type = ''administrative_principal'',
     au_actor_id = take 100 actor, au_action = act, au_target_type = target_type, au_target_id = take 100 target,
     au_safe_diff = diff, au_occurred_at = now\<rparr>"

section \<open>Looking rows up\<close>

definition admin_tenant :: "tenant_id \<Rightarrow> admin_db \<Rightarrow> admin_tenant_row res" where
  "admin_tenant t db = (case find (\<lambda>r. tt_id r = t) (ad_tenants db) of
     None \<Rightarrow> Inl (admin_error ''not_found'' ''Tenant was not found'') | Some r \<Rightarrow> Inr r)"

definition find_credential :: "tenant_id \<Rightarrow> uuid \<Rightarrow> admin_db \<Rightarrow> credential_row res" where
  "find_credential t i db = (case find (\<lambda>r. adc_tenant_id r = t \<and> adc_id r = i) (ad_credentials db) of
     None \<Rightarrow> Inl (admin_error ''not_found'' ''Credential was not found'') | Some r \<Rightarrow> Inr r)"

definition find_profile :: "tenant_id \<Rightarrow> admin_db \<Rightarrow> profile_row res" where
  "find_profile t db = (case find (\<lambda>r. fp_tenant_id r = t) (ad_profiles db) of
     None \<Rightarrow> Inl (admin_error ''not_found'' ''Business profile was not found'') | Some r \<Rightarrow> Inr r)"

definition other_owners :: "tenant_id \<Rightarrow> uuid \<Rightarrow> member_row \<Rightarrow> bool" where
  "other_owners t excluded m = (mb_tenant_id m = t \<and> mb_role m = OWNER \<and> mb_active m \<and> mb_id m \<noteq> excluded)"

definition require_other_owner :: "tenant_id \<Rightarrow> uuid \<Rightarrow> admin_db \<Rightarrow> unit res" where
  "require_other_owner t excluded db = (if count_where (other_owners t excluded) (ad_members db) = 0
     then Inl (admin_error ''last_owner'' ''The last active owner cannot be removed or demoted'') else Inr ())"

definition validate_expiry :: "datetime option \<Rightarrow> instant \<Rightarrow> unit res" where
  "validate_expiry expires now = (case expires of None \<Rightarrow> Inr ()
   | Some e \<Rightarrow> if \<not> aware e \<or> utc e \<le> now
       then Inl (admin_error ''invalid'' ''Credential expiration must be a future aware timestamp'') else Inr ())"

section \<open>Provisioning\<close>

text \<open>The values of \<open>uuid4()\<close> for the owner, the credential and the record.\<close>

record provision_ids =
  pi_member :: uuid
  pi_credential :: uuid
  pi_record :: uuid

definition provisioned_tenant :: "provision_request \<Rightarrow> instant \<Rightarrow> admin_tenant_row" where
  "provisioned_tenant q now = \<lparr>tt_id = pt_tenant_id q, tt_status = T_SUSPENDED,
     tt_default_locale = locale_value (pt_default_locale q), tt_supported_locales = [locale_value (pt_default_locale q)],
     ta_slug = pt_slug q, ta_name = strip (pt_name q), ta_timezone = pt_timezone q, ta_status_changed_at = now,
     ta_archived_at = None, ta_settings_version = 1\<rparr>"

definition default_schedule_id :: "tenant_id \<Rightarrow> uuid" where
  "default_schedule_id t = uuid5_url (''business-assistant:'' @ tenant_str t @ '':schedule'')"

definition default_schedule :: "provision_request \<Rightarrow> schedule_head_row" where
  "default_schedule q = \<lparr>sh_id = default_schedule_id (pt_tenant_id q), sh_tenant_id = pt_tenant_id q,
     sh_name = ''Default business hours'', sh_timezone = pt_timezone q, sh_active = False\<rparr>"

definition default_profile :: "provision_request \<Rightarrow> profile_row" where
  "default_profile q = \<lparr>fp_tenant_id = pt_tenant_id q, fp_schedule_id = default_schedule_id (pt_tenant_id q),
     fp_descriptions = [(locale_value (pt_default_locale q), ''Business profile pending setup.'')],
     fp_public_phone = None, fp_public_email = None, fp_website_url = None, fp_addresses = [], fp_service_areas = [],
     fp_parking_guidance = [], fp_payment_methods = [], fp_warranty_policy = [], fp_appointment_policy = [], fp_version = 1\<rparr>"

definition new_member :: "uuid \<Rightarrow> tenant_id \<Rightarrow> string \<Rightarrow> role \<Rightarrow> instant \<Rightarrow> member_row" where
  "new_member i t subject r now = \<lparr>mb_id = i, mb_tenant_id = t, mb_subject = subject, mb_role = r, mb_active = True,
     mb_created_at = now, mb_updated_at = now\<rparr>"

definition default_retention :: "provision_request \<Rightarrow> instant \<Rightarrow> retention_row" where
  "default_retention q db_now = \<lparr>rr_policy = \<lparr>rn_tenant_id = pt_tenant_id q, rn_version = 1, rn_operational_metadata_days = 30,
     rn_message_content_days = 90, rn_customer_contact_days = 365, rn_workflow_records_days = 730,
     rn_knowledge_archive_days = 365, rn_ai_telemetry_days = 90,
     rn_automatic_execution_enabled = (CAP_AUTOMATIC_RETENTION \<in> pt_entitlements q)\<rparr>, rr_updated_at = db_now\<rparr>"

definition default_entitlements :: "provision_request \<Rightarrow> entitlement_row list" where
  "default_entitlements q = map (\<lambda>c. \<lparr>en_tenant_id = pt_tenant_id q, en_capability = c,
     en_enabled = (c \<in> pt_entitlements q), en_version = 1\<rparr>) (filter (\<lambda>c. c \<noteq> CAP_AUTOMATIC_RETENTION) capabilities)"

definition new_credential ::
  "uuid \<Rightarrow> tenant_id \<Rightarrow> uuid \<Rightarrow> string \<Rightarrow> role \<Rightarrow> instant option \<Rightarrow> uuid option \<Rightarrow> credential_material \<Rightarrow> instant \<Rightarrow> credential_row" where
  "new_credential i t member name r expires rotated_from material now = \<lparr>adc_id = i, adc_tenant_id = t, adc_member_id = member,
     adc_name = name, adc_key_prefix = mt_prefix material, adc_secret_hash = mt_secret_hash material, adc_role = r,
     adc_expires_at = expires, adc_revoked_at = None, adc_last_used_at = None, adc_rotated_from_id = rotated_from,
     adc_created_at = now\<rparr>"

text \<open>\<open>_provisioning_result\<close>, whose assertion needs the three rows.\<close>

definition result_of_provisioning :: "provisioning_row \<Rightarrow> string option \<Rightarrow> bool \<Rightarrow> admin_db \<Rightarrow> provisioning_result res" where
  "result_of_provisioning p secret created db =
     (case (find (\<lambda>r. tt_id r = pn_tenant_id p) (ad_tenants db), find (\<lambda>r. mb_id r = pn_owner_member_id p) (ad_members db),
            find (\<lambda>r. adc_id r = pn_credential_id p) (ad_credentials db)) of
       (Some tenant, Some owner, Some credential) \<Rightarrow> res_bind (view_tenant tenant) (\<lambda>v.
         Inr \<lparr>ps_tenant = v, ps_owner = view_member owner,
           ps_credential = \<lparr>ss_credential = view_credential credential, ss_secret = secret\<rparr>, ps_created = created\<rparr>)
     | _ \<Rightarrow> Inl (AssertionError ''''))"

definition insert_tenant :: "provision_request \<Rightarrow> instant \<Rightarrow> admin_db \<Rightarrow> admin_db res" where
  "insert_tenant q now db =
     res_bind (insert_row tenant_fits tenants_clash (provisioned_tenant q now) (ad_tenants db)) (\<lambda>rows.
     Inr (db\<lparr>ad_tenants := rows\<rparr>))"

text \<open>The second flush: what depends on the tenant alone.\<close>

definition insert_defaults :: "provision_ids \<Rightarrow> provision_request \<Rightarrow> instant \<Rightarrow> instant \<Rightarrow> admin_db \<Rightarrow> admin_db res" where
  "insert_defaults ids q now db_now db =
     res_bind (insert_row (\<lambda>_. True) schedules_clash (default_schedule q) (ad_schedules db)) (\<lambda>schedules.
     res_bind (insert_row (\<lambda>_. True) profiles_clash (default_profile q) (ad_profiles db)) (\<lambda>profiles.
     res_bind (insert_row (\<lambda>m. length (mb_subject m) \<le> 200) members_clash
       (new_member (pi_member ids) (pt_tenant_id q) (pt_owner_subject q) OWNER now) (ad_members db)) (\<lambda>members.
     res_bind (insert_row (\<lambda>_. True) policies_clash (default_retention q db_now) (ad_policies db)) (\<lambda>policies.
     res_bind (res_fold (insert_row (\<lambda>_. True) entitlements_clash) (default_entitlements q) (ad_entitlements db)) (\<lambda>entitlements.
     Inr (db\<lparr>ad_schedules := schedules, ad_profiles := profiles, ad_members := members, ad_policies := policies,
       ad_entitlements := entitlements\<rparr>))))))"

text \<open>The two last flushes: the credential, then the record of the provisioning with its audit entry.\<close>

definition provisioning_record :: "provision_ids \<Rightarrow> provision_request \<Rightarrow> instant \<Rightarrow> provisioning_row" where
  "provisioning_record ids q now = \<lparr>pn_id = pi_record ids, pn_tenant_id = pt_tenant_id q,
     pn_idempotency_key = pt_idempotency_key q, pn_owner_member_id = pi_member ids,
     pn_credential_id = pi_credential ids, pn_created_at = now\<rparr>"

definition insert_access :: "provision_ids \<Rightarrow> provision_request \<Rightarrow> credential_material \<Rightarrow> instant \<Rightarrow> admin_db \<Rightarrow> admin_db res" where
  "insert_access ids q material now db =
     res_bind (insert_row credential_fits credentials_clash (new_credential (pi_credential ids) (pt_tenant_id q) (pi_member ids)
       (pt_credential_name q) OWNER None None material now) (ad_credentials db)) (\<lambda>credentials.
     res_bind (insert_row (\<lambda>r. length (pn_idempotency_key r) \<le> 200) provisionings_clash (provisioning_record ids q now)
       (ad_provisionings db)) (\<lambda>records.
     Inr (db\<lparr>ad_credentials := credentials, ad_provisionings := records,
       ad_audit := ad_audit db @ [admin_audit (pt_tenant_id q) ''system_bootstrap'' ''tenant.provisioned'' ''tenant''
         (tenant_str (pt_tenant_id q)) [(''status'', JStr (tenant_status_value T_SUSPENDED))] now]\<rparr>)))"

definition provision ::
  "provision_ids \<Rightarrow> provision_request \<Rightarrow> credential_material \<Rightarrow> instant \<Rightarrow> instant \<Rightarrow> (admin_db, provisioning_result) tx" where
  "provision ids q material now db_now db =
     (case find (\<lambda>r. pn_idempotency_key r = pt_idempotency_key q) (ad_provisionings db) of
       Some replay \<Rightarrow>
         if pn_tenant_id replay \<noteq> pt_tenant_id q
         then Inl (admin_error ''idempotency_conflict'' ''Provisioning key conflicts with another tenant'')
         else res_bind (result_of_provisioning replay None False db) (\<lambda>r. Inr (db, r))
     | None \<Rightarrow>
         if list_ex (\<lambda>r. tt_id r = pt_tenant_id q) (ad_tenants db)
         then Inl (admin_error ''tenant_conflict'' ''Tenant already exists'')
         else if list_ex (\<lambda>r. ta_slug r = pt_slug q) (ad_tenants db)
         then Inl (admin_error ''tenant_conflict'' ''Tenant slug already exists'')
         else res_bind (insert_tenant q now db) (\<lambda>db1.
              res_bind (insert_defaults ids q now db_now db1) (\<lambda>db2.
              res_bind (insert_access ids q material now db2) (\<lambda>db3.
              res_bind (result_of_provisioning (provisioning_record ids q now) (Some (mt_plaintext material)) True db3) (\<lambda>r.
              Inr (db3, r))))))"

section \<open>Tenants and profiles\<close>

definition store_tenant :: "tenant_id \<Rightarrow> admin_db \<Rightarrow> tenant_view option res" where
  "store_tenant t db = (case find (\<lambda>r. tt_id r = t) (ad_tenants db) of
     None \<Rightarrow> Inr None | Some r \<Rightarrow> map_sum id Some (view_tenant r))"

definition store_profile :: "tenant_id \<Rightarrow> admin_db \<Rightarrow> business_profile_view res" where
  "store_profile t db = res_bind (find_profile t db) view_profile"

definition optional_text :: "string option \<Rightarrow> localized" where
  "optional_text v = (case v of None \<Rightarrow> [] | Some s \<Rightarrow> [(EN, s)])"

definition profile_entity :: "tenant_id \<Rightarrow> uuid \<Rightarrow> business_profile_view \<Rightarrow> int \<Rightarrow> public_profile" where
  "profile_entity t schedule p version = \<lparr>pf_tenant_id = t, pf_schedule_id = ScheduleId schedule,
     pf_descriptions = [(EN, bp_description p)], pf_public_phone = bp_public_phone p, pf_public_email = bp_public_email p,
     pf_website_url = bp_website_url p, pf_addresses = optional_text (bp_address p),
     pf_service_areas = optional_text (bp_service_area p), pf_parking_guidance = optional_text (bp_parking_guidance p),
     pf_payment_methods = bp_payment_methods p, pf_warranty_policy = optional_text (bp_warranty_policy p),
     pf_appointment_policy = optional_text (bp_appointment_policy p), pf_version = version\<rparr>"

definition written_profile :: "public_profile \<Rightarrow> profile_row \<Rightarrow> profile_row" where
  "written_profile e r = (let r1 = r\<lparr>fp_descriptions := localized_column (pf_descriptions e),
       fp_public_phone := pf_public_phone e, fp_public_email := pf_public_email e, fp_website_url := pf_website_url e,
       fp_addresses := localized_column (pf_addresses e), fp_service_areas := localized_column (pf_service_areas e),
       fp_parking_guidance := localized_column (pf_parking_guidance e), fp_payment_methods := pf_payment_methods e,
       fp_warranty_policy := localized_column (pf_warranty_policy e),
       fp_appointment_policy := localized_column (pf_appointment_policy e)\<rparr> in
     if r1 = r then r else r1\<lparr>fp_version := fp_version r + 1\<rparr>)"

definition update_business_profile ::
  "urlsplit \<Rightarrow> tenant_id \<Rightarrow> business_profile_view \<Rightarrow> int \<Rightarrow> string \<Rightarrow> instant \<Rightarrow> (admin_db, business_profile_view) tx" where
  "update_business_profile urlsplit t p expected actor now db =
     res_bind (find_profile t db) (\<lambda>r.
     if fp_version r \<noteq> expected then Inl (admin_error ''version_conflict'' ''Business profile changed concurrently'')
     else res_bind (profile_post_init urlsplit (profile_entity t (fp_schedule_id r) p expected)) (\<lambda>e.
       res_bind (view_profile (written_profile e r)) (\<lambda>v.
       Inr (db\<lparr>ad_profiles := update_where (\<lambda>x. fp_tenant_id x = t) (\<lambda>_. written_profile e r) (ad_profiles db),
         ad_audit := ad_audit db @ [admin_audit t actor ''tenant.business_profile_updated'' ''tenant_public_profile''
           (tenant_str t) [(''version'', JInt (expected + 1))] now]\<rparr>, v))))"

definition written_tenant :: "admin_tenant_row \<Rightarrow> admin_tenant_row \<Rightarrow> admin_tenant_row" where
  "written_tenant r r1 = (if r1 = r then r else r1\<lparr>ta_settings_version := ta_settings_version r + 1\<rparr>)"

definition update_tenant ::
  "tzdb \<Rightarrow> tenant_id \<Rightarrow> string \<Rightarrow> string \<Rightarrow> locale_t \<Rightarrow> int \<Rightarrow> string \<Rightarrow> instant \<Rightarrow> (admin_db, tenant_view) tx" where
  "update_tenant tzdb t name timezone default_locale expected actor now db =
     res_bind (admin_tenant t db) (\<lambda>r.
     if ta_settings_version r \<noteq> expected then Inl (admin_error ''version_conflict'' ''Tenant settings changed concurrently'')
     else res_bind (tenant_post_init tzdb \<lparr>tn_id = t, tn_slug = ta_slug r, tn_name = name, tn_timezone = timezone,
         tn_default_locale = default_locale, tn_supported_locales = {default_locale}, tn_status = tt_status r,
         tn_settings_version = ta_settings_version r\<rparr>) (\<lambda>_.
       let r1 = written_tenant r (r\<lparr>ta_name := strip name, ta_timezone := timezone,
             tt_default_locale := locale_value default_locale, tt_supported_locales := [locale_value default_locale]\<rparr>) in
       if \<not> tenant_fits r1 then Inl (OtherException ''DataError'')
       else res_bind (view_tenant r1) (\<lambda>v.
         Inr (db\<lparr>ad_tenants := update_where (\<lambda>x. tt_id x = t) (\<lambda>_. r1) (ad_tenants db),
           ad_schedules := update_where (\<lambda>s. sh_tenant_id s = t) (\<lambda>s. s\<lparr>sh_timezone := timezone\<rparr>) (ad_schedules db),
           ad_audit := ad_audit db @ [admin_audit t actor ''tenant.profile_updated'' ''tenant'' (tenant_str t)
             [(''settings_version'', JInt (expected + 1))] now]\<rparr>, v))))"

definition transition_tenant :: "tzdb \<Rightarrow> tenant_id \<Rightarrow> tenant_status \<Rightarrow> string \<Rightarrow> instant \<Rightarrow> (admin_db, tenant_view) tx" where
  "transition_tenant tzdb t target actor now db =
     res_bind (admin_tenant t db) (\<lambda>r.
     res_bind (tenant_entity tzdb r) (\<lambda>entity.
     case tenant_transition_to entity target () of
       Inl _ \<Rightarrow> Inl (admin_error ''invalid_transition'' ''Tenant lifecycle transition is invalid'')
     | Inr _ \<Rightarrow>
         if target = tt_status r then res_bind (view_tenant r) (\<lambda>v. Inr (db, v))
         else let r1 = written_tenant r (r\<lparr>tt_status := target, ta_status_changed_at := now,
                  ta_archived_at := (if target = T_ARCHIVED then Some now else None)\<rparr>) in
           res_bind (view_tenant r1) (\<lambda>v.
           Inr (db\<lparr>ad_tenants := update_where (\<lambda>x. tt_id x = t) (\<lambda>_. r1) (ad_tenants db),
             ad_audit := ad_audit db @ [admin_audit t actor ''tenant.lifecycle_changed'' ''tenant'' (tenant_str t)
               [(''from_status'', JStr (tenant_status_value (tt_status r))), (''to_status'', JStr (tenant_status_value target))]
               now]\<rparr>, v))))"

section \<open>Members\<close>

definition store_members :: "tenant_id \<Rightarrow> admin_db \<Rightarrow> member_view list" where
  "store_members t db = map view_member (sorted_by (\<lambda>r. (mb_created_at r, mb_id r)) (filter (\<lambda>r. mb_tenant_id r = t) (ad_members db)))"

definition unrevoked_of :: "tenant_id \<Rightarrow> uuid \<Rightarrow> credential_row \<Rightarrow> bool" where
  "unrevoked_of t member c = (adc_tenant_id c = t \<and> adc_member_id c = member \<and> adc_revoked_at c = None)"

fun role_value :: "role \<Rightarrow> string" where
  "role_value OWNER = ''owner''"
| "role_value MANAGER = ''manager''"
| "role_value AGENT = ''agent''"
| "role_value KNOWLEDGE_EDITOR = ''knowledge_editor''"
| "role_value VIEWER = ''viewer''"

definition member_audit :: "tenant_id \<Rightarrow> string \<Rightarrow> uuid \<Rightarrow> role \<Rightarrow> role option \<Rightarrow> instant \<Rightarrow> audit_row" where
  "member_audit t actor i r previous now = admin_audit t actor ''tenant.member_changed'' ''tenant_member'' (uuid_str i)
     [(''role'', JStr (role_value r)), (''previous_role'', json_opt (\<lambda>x. JStr (role_value x)) previous), (''active'', JBool True)] now"

definition upsert_member :: "uuid \<Rightarrow> tenant_id \<Rightarrow> string \<Rightarrow> role \<Rightarrow> string \<Rightarrow> instant \<Rightarrow> (admin_db, member_view) tx" where
  "upsert_member new_id t subject new_role actor now db =
     res_bind (admin_tenant t db) (\<lambda>_.
     case find (\<lambda>m. mb_tenant_id m = t \<and> mb_subject m = subject) (ad_members db) of
       None \<Rightarrow> let m = new_member new_id t subject new_role now in
         res_bind (insert_row (\<lambda>m. length (mb_subject m) \<le> 200) members_clash m (ad_members db)) (\<lambda>members.
         Inr (db\<lparr>ad_members := members, ad_audit := ad_audit db @ [member_audit t actor new_id new_role None now]\<rparr>, view_member m))
     | Some m \<Rightarrow>
         res_bind (if mb_active m \<and> mb_role m = OWNER \<and> new_role \<noteq> OWNER then require_other_owner t (mb_id m) db else Inr ()) (\<lambda>_.
         let m1 = m\<lparr>mb_role := new_role, mb_active := True, mb_updated_at := now\<rparr> in
         Inr (db\<lparr>ad_members := update_where (\<lambda>x. mb_id x = mb_id m) (\<lambda>_. m1) (ad_members db),
           ad_credentials := update_where (unrevoked_of t (mb_id m)) (\<lambda>c. c\<lparr>adc_role := new_role\<rparr>) (ad_credentials db),
           ad_audit := ad_audit db @ [member_audit t actor (mb_id m) new_role (Some (mb_role m)) now]\<rparr>, view_member m1)))"

definition revoke_member :: "tenant_id \<Rightarrow> uuid \<Rightarrow> string \<Rightarrow> instant \<Rightarrow> (admin_db, member_view) tx" where
  "revoke_member t i actor now db =
     (case find (\<lambda>m. mb_tenant_id m = t \<and> mb_id m = i) (ad_members db) of
       None \<Rightarrow> Inl (admin_error ''not_found'' ''Member was not found'')
     | Some m \<Rightarrow>
         if \<not> mb_active m then Inr (db, view_member m)
         else res_bind (if mb_role m = OWNER then require_other_owner t i db else Inr ()) (\<lambda>_.
         let m1 = m\<lparr>mb_active := False, mb_updated_at := now\<rparr> in
         Inr (db\<lparr>ad_members := update_where (\<lambda>x. mb_id x = i) (\<lambda>_. m1) (ad_members db),
           ad_credentials := update_where (unrevoked_of t i) (\<lambda>c. c\<lparr>adc_revoked_at := Some now\<rparr>) (ad_credentials db),
           ad_audit := ad_audit db @ [admin_audit t actor ''tenant.member_revoked'' ''tenant_member'' (uuid_str i)
             [(''active'', JBool False)] now]\<rparr>, view_member m1)))"

section \<open>Credentials\<close>

definition store_credentials :: "tenant_id \<Rightarrow> admin_db \<Rightarrow> credential_view list" where
  "store_credentials t db = map view_credential (sorted_by adc_created_at (filter (\<lambda>r. adc_tenant_id r = t) (ad_credentials db)))"

definition create_credential ::
  "uuid \<Rightarrow> tenant_id \<Rightarrow> uuid \<Rightarrow> string \<Rightarrow> datetime option \<Rightarrow> credential_material \<Rightarrow> string \<Rightarrow> instant \<Rightarrow> (admin_db, credential_view) tx" where
  "create_credential new_id t member name expires material actor now db =
     res_bind (validate_expiry expires now) (\<lambda>_.
     case find (\<lambda>m. mb_tenant_id m = t \<and> mb_id m = member \<and> mb_active m) (ad_members db) of
       None \<Rightarrow> Inl (admin_error ''not_found'' ''Active member was not found'')
     | Some m \<Rightarrow> let c = new_credential new_id t (mb_id m) (strip name) (mb_role m) (map_option utc expires) None material now in
         res_bind (insert_row credential_fits credentials_clash c (ad_credentials db)) (\<lambda>credentials.
         Inr (db\<lparr>ad_credentials := credentials,
           ad_audit := ad_audit db @ [admin_audit t actor ''credential.created'' ''credential'' (uuid_str new_id) [] now]\<rparr>,
           view_credential c)))"

definition rotate_credential ::
  "uuid \<Rightarrow> tenant_id \<Rightarrow> uuid \<Rightarrow> datetime option \<Rightarrow> credential_material \<Rightarrow> string \<Rightarrow> instant \<Rightarrow> (admin_db, credential_view) tx" where
  "rotate_credential new_id t i expires material actor now db =
     res_bind (validate_expiry expires now) (\<lambda>_.
     res_bind (find_credential t i db) (\<lambda>previous.
     if adc_revoked_at previous \<noteq> None
     then Inl (admin_error ''credential_revoked'' ''Revoked credential cannot be rotated'')
     else let c = new_credential new_id t (adc_member_id previous) (adc_name previous) (adc_role previous)
              (map_option utc expires) (Some (adc_id previous)) material now in
       res_bind (insert_row credential_fits credentials_clash c
         (update_where (\<lambda>x. adc_id x = i) (\<lambda>x. x\<lparr>adc_revoked_at := Some now\<rparr>) (ad_credentials db))) (\<lambda>credentials.
       Inr (db\<lparr>ad_credentials := credentials,
         ad_audit := ad_audit db @ [admin_audit t actor ''credential.rotated'' ''credential'' (uuid_str new_id)
           [(''rotated_from_id'', JStr (uuid_str (adc_id previous)))] now]\<rparr>, view_credential c))))"

definition revoke_credential :: "tenant_id \<Rightarrow> uuid \<Rightarrow> string \<Rightarrow> instant \<Rightarrow> (admin_db, credential_view) tx" where
  "revoke_credential t i actor now db =
     res_bind (find_credential t i db) (\<lambda>c.
     if adc_revoked_at c = None
     then Inr (db\<lparr>ad_credentials := update_where (\<lambda>x. adc_id x = i) (\<lambda>x. x\<lparr>adc_revoked_at := Some now\<rparr>) (ad_credentials db),
         ad_audit := ad_audit db @ [admin_audit t actor ''credential.revoked'' ''credential'' (uuid_str i) [] now]\<rparr>,
         view_credential (c\<lparr>adc_revoked_at := Some now\<rparr>))
     else Inr (db, view_credential c))"

section \<open>Entitlements\<close>

definition retention_view :: "retention_policy \<Rightarrow> entitlement_view" where
  "retention_view p = \<lparr>ev_capability = CAP_AUTOMATIC_RETENTION, ev_enabled = rn_automatic_execution_enabled p,
     ev_entitlement_version = rn_version p\<rparr>"

definition store_entitlements :: "tenant_id \<Rightarrow> admin_db \<Rightarrow> entitlement_view list" where
  "store_entitlements t db = (let
       rows = sorted_by (\<lambda>r. capability_value (en_capability r)) (filter (\<lambda>r. en_tenant_id r = t) (ad_entitlements db));
       extra = (case find (\<lambda>r. rn_tenant_id (rr_policy r) = t) (ad_policies db) of None \<Rightarrow> [] | Some r \<Rightarrow> [retention_view (rr_policy r)]) in
     sorted_by (\<lambda>v. capability_value (ev_capability v)) (map view_entitlement rows @ extra))"

text \<open>The flush gives a changed policy or entitlement its next version.\<close>

definition written_retention :: "bool \<Rightarrow> instant \<Rightarrow> retention_row \<Rightarrow> retention_row" where
  "written_retention enabled db_now r = (let p = rr_policy r in
     if rn_automatic_execution_enabled p = enabled then r
     else \<lparr>rr_policy = p\<lparr>rn_automatic_execution_enabled := enabled, rn_version := rn_version p + 1\<rparr>, rr_updated_at = db_now\<rparr>)"

definition written_entitlement :: "bool \<Rightarrow> entitlement_row \<Rightarrow> entitlement_row" where
  "written_entitlement enabled r = (if en_enabled r = enabled then r else r\<lparr>en_enabled := enabled, en_version := en_version r + 1\<rparr>)"

definition set_retention_entitlement :: "tenant_id \<Rightarrow> bool \<Rightarrow> int \<Rightarrow> instant \<Rightarrow> (admin_db, entitlement_view) tx" where
  "set_retention_entitlement t enabled expected db_now db =
     (case find (\<lambda>r. rn_tenant_id (rr_policy r) = t) (ad_policies db) of
       None \<Rightarrow> Inl (admin_error ''not_found'' ''Retention policy was not found'')
     | Some r \<Rightarrow>
         if rn_version (rr_policy r) \<noteq> expected
         then Inl (admin_error ''version_conflict'' ''Entitlement changed concurrently'')
         else let r1 = written_retention enabled db_now r in
           Inr (db\<lparr>ad_policies := update_where (\<lambda>x. rn_tenant_id (rr_policy x) = t) (\<lambda>_. r1) (ad_policies db)\<rparr>,
             \<lparr>ev_capability = CAP_AUTOMATIC_RETENTION, ev_enabled = enabled, ev_entitlement_version = rn_version (rr_policy r1)\<rparr>))"

definition set_row_entitlement :: "tenant_id \<Rightarrow> capability \<Rightarrow> bool \<Rightarrow> int \<Rightarrow> (admin_db, entitlement_view) tx" where
  "set_row_entitlement t c enabled expected db =
     (case find (\<lambda>r. en_tenant_id r = t \<and> en_capability r = c) (ad_entitlements db) of
       None \<Rightarrow> Inl (admin_error ''not_found'' ''Entitlement was not found'')
     | Some r \<Rightarrow>
         if en_version r \<noteq> expected then Inl (admin_error ''version_conflict'' ''Entitlement changed concurrently'')
         else let r1 = written_entitlement enabled r in
           Inr (db\<lparr>ad_entitlements := update_where (\<lambda>x. en_tenant_id x = t \<and> en_capability x = c) (\<lambda>_. r1) (ad_entitlements db)\<rparr>,
             view_entitlement r1))"

definition set_entitlement ::
  "tenant_id \<Rightarrow> capability \<Rightarrow> bool \<Rightarrow> int \<Rightarrow> string \<Rightarrow> instant \<Rightarrow> instant \<Rightarrow> (admin_db, entitlement_view) tx" where
  "set_entitlement t c enabled expected actor now db_now db =
     res_bind (if c = CAP_AUTOMATIC_RETENTION then set_retention_entitlement t enabled expected db_now db
       else set_row_entitlement t c enabled expected db) (\<lambda>(db1, v).
     Inr (db1\<lparr>ad_audit := ad_audit db1 @ [admin_audit t actor ''tenant.entitlement_changed'' ''tenant_entitlement''
       (capability_value c) [(''enabled'', JBool enabled), (''version'', JInt (ev_entitlement_version v))] now]\<rparr>, v))"

section \<open>SQLAlchemyTenantAccessPolicy\<close>

definition capability_enabled :: "tenant_id \<Rightarrow> capability \<Rightarrow> admin_db \<Rightarrow> bool option" where
  "capability_enabled t c db = (if c = CAP_AUTOMATIC_RETENTION
     then map_option (\<lambda>r. rn_automatic_execution_enabled (rr_policy r)) (find (\<lambda>r. rn_tenant_id (rr_policy r) = t) (ad_policies db))
     else map_option en_enabled (find (\<lambda>r. en_tenant_id r = t \<and> en_capability r = c) (ad_entitlements db)))"

definition require_active :: "tenant_id \<Rightarrow> capability option \<Rightarrow> admin_db \<Rightarrow> unit res" where
  "require_active t capability db =
     (if map_option tt_status (find (\<lambda>r. tt_id r = t) (ad_tenants db)) \<noteq> Some T_ACTIVE
      then Inl (AdministrationError ''Tenant is unavailable'' ''tenant.unavailable'')
      else case capability of None \<Rightarrow> Inr ()
       | Some c \<Rightarrow> if capability_enabled t c db \<noteq> Some True
           then Inl (AdministrationError ''Capability is disabled'' ''tenant.capability_disabled'') else Inr ())"

section \<open>DatabaseApiKeyAuthenticator\<close>

text \<open>The credentials with the prefix, each joined with its member.\<close>

definition credential_pairs :: "string \<Rightarrow> admin_db \<Rightarrow> (credential_row \<times> member_row) list" where
  "credential_pairs start db = concat (map (\<lambda>c. map (Pair c)
     (filter (\<lambda>m. mb_tenant_id m = adc_tenant_id c \<and> mb_id m = adc_member_id c) (ad_members db)))
     (filter (\<lambda>c. adc_key_prefix c = start) (ad_credentials db)))"

definition key_refused :: "bool \<Rightarrow> credential_row \<Rightarrow> member_row \<Rightarrow> instant \<Rightarrow> bool" where
  "key_refused ok c m now = (\<not> ok \<or> adc_revoked_at c \<noteq> None
     \<or> (case adc_expires_at c of None \<Rightarrow> False | Some e \<Rightarrow> e \<le> now) \<or> \<not> mb_active m \<or> adc_role c \<noteq> mb_role m)"

text \<open>\<open>static_key\<close> is the optional fallback, whose errors and principals pass through.\<close>

definition db_authenticate :: "(string option \<Rightarrow> principal res) option \<Rightarrow> string option \<Rightarrow> instant \<Rightarrow> (admin_db, principal) tx" where
  "db_authenticate static_key provided now db = (let value = (case provided of None \<Rightarrow> [] | Some v \<Rightarrow> v); start = key_prefix value in
     if \<not> startswith ''atba_'' start
     then (case static_key of None \<Rightarrow> Inl AuthenticationError | Some auth \<Rightarrow> map_sum id (Pair db) (auth provided))
     else (case credential_pairs start db of
       [] \<Rightarrow> Inl AuthenticationError
     | [(c, m)] \<Rightarrow>
         if key_refused (verify_secret value (adc_secret_hash c)) c m now then Inl AuthenticationError
         else Inr (db\<lparr>ad_credentials := update_where (\<lambda>x. adc_id x = adc_id c) (\<lambda>x. x\<lparr>adc_last_used_at := Some now\<rparr>) (ad_credentials db)\<rparr>,
           \<lparr>pr_subject = mb_subject m, pr_tenant_id = adc_tenant_id c, pr_role = mb_role m\<rparr>)
     | _ \<Rightarrow> Inl (OtherException ''MultipleResultsFound'')))"

section \<open>Use cases (application/administration/service.py)\<close>

definition validate_admin_text :: "string \<Rightarrow> nat \<Rightarrow> string \<Rightarrow> unit res" where
  "validate_admin_text value maximum label =
     (if blank value \<or> maximum < length value then Inl (ValueError (label @ '' is invalid'')) else Inr ())"

text \<open>A use case checks the principal's permission and its input before the transaction runs.\<close>

definition guarded :: "principal \<Rightarrow> permission \<Rightarrow> unit res \<Rightarrow> (admin_db, 'a) tx \<Rightarrow> (admin_db, 'a) act" where
  "guarded p perm checks op = act_bind (act_res (require p perm)) (\<lambda>_. act_bind (act_res checks) (\<lambda>_. run_tx op))"

definition reading :: "(admin_db \<Rightarrow> 'a res) \<Rightarrow> (admin_db, 'a) tx" where
  "reading q db = map_sum id (Pair db) (q db)"

definition app_provision ::
  "tzdb \<Rightarrow> provision_ids \<Rightarrow> provision_request \<Rightarrow> credential_material \<Rightarrow> instant \<Rightarrow> instant \<Rightarrow> (admin_db, provisioning_result) act" where
  "app_provision tzdb ids q material now db_now =
     act_bind (act_res (validate_admin_text (pt_owner_subject q) 200 ''Owner subject'')) (\<lambda>_.
     act_bind (act_res (validate_admin_text (pt_credential_name q) 100 ''Credential name'')) (\<lambda>_.
     act_bind (act_res (validate_admin_text (pt_idempotency_key q) 200 ''Idempotency key'')) (\<lambda>_.
     act_bind (act_res (tenant_post_init tzdb \<lparr>tn_id = pt_tenant_id q, tn_slug = pt_slug q, tn_name = pt_name q,
       tn_timezone = pt_timezone q, tn_default_locale = pt_default_locale q, tn_supported_locales = {pt_default_locale q},
       tn_status = T_SUSPENDED, tn_settings_version = 1\<rparr>)) (\<lambda>_.
     run_tx (provision ids q material now db_now)))))"

definition app_get_tenant :: "principal \<Rightarrow> (admin_db, tenant_view) act" where
  "app_get_tenant p = guarded p TENANT_ADMIN_READ (Inr ()) (reading (\<lambda>db.
     res_bind (store_tenant (pr_tenant_id p) db) (\<lambda>v.
     case v of None \<Rightarrow> Inl (ValueError ''Tenant was not found'') | Some tenant \<Rightarrow> Inr tenant)))"

definition app_update_tenant :: "tzdb \<Rightarrow> principal \<Rightarrow> string \<Rightarrow> string \<Rightarrow> locale_t \<Rightarrow> int \<Rightarrow> instant \<Rightarrow> (admin_db, tenant_view) act" where
  "app_update_tenant tzdb p name timezone default_locale expected now =
     guarded p TENANT_PROFILE_WRITE (validate_admin_text name 200 ''Tenant name'')
       (update_tenant tzdb (pr_tenant_id p) name timezone default_locale expected (pr_subject p) now)"

definition app_business_profile :: "principal \<Rightarrow> (admin_db, business_profile_view) act" where
  "app_business_profile p = guarded p TENANT_ADMIN_READ (Inr ()) (reading (store_profile (pr_tenant_id p)))"

definition app_update_profile ::
  "urlsplit \<Rightarrow> principal \<Rightarrow> business_profile_view \<Rightarrow> int \<Rightarrow> instant \<Rightarrow> (admin_db, business_profile_view) act" where
  "app_update_profile urlsplit p profile expected now = guarded p TENANT_PROFILE_WRITE (Inr ())
     (update_business_profile urlsplit (pr_tenant_id p) profile expected (pr_subject p) now)"

definition app_transition :: "tzdb \<Rightarrow> principal \<Rightarrow> tenant_status \<Rightarrow> instant \<Rightarrow> (admin_db, tenant_view) act" where
  "app_transition tzdb p target now = guarded p TENANT_LIFECYCLE_WRITE (Inr ())
     (transition_tenant tzdb (pr_tenant_id p) target (pr_subject p) now)"

definition app_members :: "principal \<Rightarrow> (admin_db, member_view list) act" where
  "app_members p = guarded p TENANT_ADMIN_READ (Inr ()) (reading (\<lambda>db. Inr (store_members (pr_tenant_id p) db)))"

definition app_upsert_member :: "uuid \<Rightarrow> principal \<Rightarrow> string \<Rightarrow> role \<Rightarrow> instant \<Rightarrow> (admin_db, member_view) act" where
  "app_upsert_member new_id p subject r now =
     guarded p TENANT_MEMBER_WRITE (validate_admin_text subject 200 ''Member subject'')
       (upsert_member new_id (pr_tenant_id p) subject r (pr_subject p) now)"

definition app_revoke_member :: "principal \<Rightarrow> uuid \<Rightarrow> instant \<Rightarrow> (admin_db, member_view) act" where
  "app_revoke_member p i now = guarded p TENANT_MEMBER_WRITE (Inr ()) (revoke_member (pr_tenant_id p) i (pr_subject p) now)"

definition app_credentials :: "principal \<Rightarrow> (admin_db, credential_view list) act" where
  "app_credentials p = guarded p TENANT_ADMIN_READ (Inr ()) (reading (\<lambda>db. Inr (store_credentials (pr_tenant_id p) db)))"

text \<open>The issued secret is returned with the view, and only here.\<close>

definition with_secret :: "string option \<Rightarrow> (admin_db, credential_view) tx \<Rightarrow> (admin_db, credential_issue) tx" where
  "with_secret secret op db = res_bind (op db) (\<lambda>(db1, v). Inr (db1, \<lparr>ss_credential = v, ss_secret = secret\<rparr>))"

definition app_create_credential ::
  "uuid \<Rightarrow> principal \<Rightarrow> uuid \<Rightarrow> string \<Rightarrow> datetime option \<Rightarrow> credential_material \<Rightarrow> instant \<Rightarrow> (admin_db, credential_issue) act" where
  "app_create_credential new_id p member name expires material now =
     guarded p TENANT_CREDENTIAL_WRITE (validate_admin_text name 100 ''Credential name'') (with_secret (Some (mt_plaintext material))
       (create_credential new_id (pr_tenant_id p) member name expires material (pr_subject p) now))"

definition app_rotate_credential ::
  "uuid \<Rightarrow> principal \<Rightarrow> uuid \<Rightarrow> datetime option \<Rightarrow> credential_material \<Rightarrow> instant \<Rightarrow> (admin_db, credential_issue) act" where
  "app_rotate_credential new_id p i expires material now = guarded p TENANT_CREDENTIAL_WRITE (Inr ())
     (with_secret (Some (mt_plaintext material)) (rotate_credential new_id (pr_tenant_id p) i expires material (pr_subject p) now))"

definition app_revoke_credential :: "principal \<Rightarrow> uuid \<Rightarrow> instant \<Rightarrow> (admin_db, credential_issue) act" where
  "app_revoke_credential p i now = guarded p TENANT_CREDENTIAL_WRITE (Inr ())
     (with_secret None (revoke_credential (pr_tenant_id p) i (pr_subject p) now))"

definition app_entitlements :: "principal \<Rightarrow> (admin_db, entitlement_view list) act" where
  "app_entitlements p = guarded p TENANT_ADMIN_READ (Inr ()) (reading (\<lambda>db. Inr (store_entitlements (pr_tenant_id p) db)))"

definition app_set_entitlement ::
  "principal \<Rightarrow> capability \<Rightarrow> bool \<Rightarrow> int \<Rightarrow> instant \<Rightarrow> instant \<Rightarrow> (admin_db, entitlement_view) act" where
  "app_set_entitlement p c enabled expected now db_now = guarded p TENANT_ENTITLEMENT_WRITE (Inr ())
     (set_entitlement (pr_tenant_id p) c enabled expected (pr_subject p) now db_now)"

end
