(* ===== verification/AdministrationFacts.thy ===== *)
theory AdministrationFacts
  imports Administration
begin

text \<open>
  What tenant administration guarantees over any sequence of its transactions: the rows stay consistent
  (\<open>admin_ok\<close>), no tenant loses its last active owner, an ended credential never authenticates again, an
  issued one authenticates as its member as long as it is valid, and a provisioning key works once.
\<close>

section \<open>Transactions\<close>

inductive admin_step :: "admin_db \<Rightarrow> admin_db \<Rightarrow> bool" where
  step_provision: "provision ids q material now db_now db = Inr (db', r1) \<Longrightarrow> admin_step db db'"
| step_update_tenant: "update_tenant tzdb t name timezone loc expected actor now db = Inr (db', r2) \<Longrightarrow> admin_step db db'"
| step_profile: "update_business_profile urlsplit t p expected actor now db = Inr (db', r3) \<Longrightarrow> admin_step db db'"
| step_transition: "transition_tenant tzdb t target actor now db = Inr (db', r2) \<Longrightarrow> admin_step db db'"
| step_upsert: "upsert_member new_id t subject new_role actor now db = Inr (db', r4) \<Longrightarrow> admin_step db db'"
| step_revoke_member: "revoke_member t i actor now db = Inr (db', r4) \<Longrightarrow> admin_step db db'"
| step_create: "create_credential new_id t member name expires material actor now db = Inr (db', r5) \<Longrightarrow> admin_step db db'"
| step_rotate: "rotate_credential new_id t i expires material actor now db = Inr (db', r5) \<Longrightarrow> admin_step db db'"
| step_revoke: "revoke_credential t i actor now db = Inr (db', r5) \<Longrightarrow> admin_step db db'"
| step_entitlement: "set_entitlement t c enabled expected actor now db_now db = Inr (db', r6) \<Longrightarrow> admin_step db db'"
| step_authenticate: "db_authenticate static_key provided now db = Inr (db', r7) \<Longrightarrow> admin_step db db'"

section \<open>Updates of single rows\<close>

lemma set_update_where: "x \<in> set (update_where p f rows) \<longleftrightarrow> (\<exists>r\<in>set rows. x = (if p r then f r else r))"
  by (auto simp: update_where_def)

lemma update_where_in:
  "r \<in> set rows \<Longrightarrow> \<not> p r \<Longrightarrow> r \<in> set (update_where p f rows)"
  "r \<in> set rows \<Longrightarrow> p r \<Longrightarrow> f r \<in> set (update_where p f rows)"
  by (auto simp: set_update_where)

lemma map_update_where: "(\<And>r. r \<in> set rows \<Longrightarrow> p r \<Longrightarrow> g (f r) = g r) \<Longrightarrow> map g (update_where p f rows) = map g rows"
  by (induction rows) (auto simp: update_where_def)

lemma insert_row_Inr: "insert_row fit clash r rows = Inr rows' \<longleftrightarrow> fit r \<and> (\<forall>x\<in>set rows. \<not> clash r x) \<and> rows' = rows @ [r]"
  by (auto simp: insert_row_def list_ex_iff)

lemma distinct_key: "distinct (map f xs) \<Longrightarrow> x \<in> set xs \<Longrightarrow> y \<in> set xs \<Longrightarrow> f x = f y \<Longrightarrow> x = y"
  by (auto simp: distinct_map dest: inj_onD)

section \<open>Members and credentials agree\<close>

definition holder_of :: "credential_row \<Rightarrow> member_row \<Rightarrow> bool" where
  "holder_of c m = (mb_id m = adc_member_id c \<and> mb_tenant_id m = adc_tenant_id c)"

definition credential_ok :: "member_row list \<Rightarrow> credential_row \<Rightarrow> bool" where
  "credential_ok ms c = (\<exists>m\<in>set ms. holder_of c m \<and> (adc_revoked_at c = None \<longrightarrow> mb_active m \<and> mb_role m = adc_role c))"

definition access_ok :: "member_row list \<Rightarrow> credential_row list \<Rightarrow> bool" where
  "access_ok ms cs = (distinct (map mb_id ms) \<and> distinct (map adc_id cs) \<and> distinct (map adc_key_prefix cs)
     \<and> (\<forall>c\<in>set cs. credential_ok ms c))"

definition credential_core :: "credential_row \<Rightarrow> uuid \<times> tenant_id \<times> uuid \<times> string \<times> string \<times> instant option" where
  "credential_core c = (adc_id c, adc_tenant_id c, adc_member_id c, adc_key_prefix c, adc_secret_hash c, adc_expires_at c)"

text \<open>No credential is lost or changed in what identifies it, and a revocation is final.\<close>

definition credentials_evolve :: "credential_row list \<Rightarrow> credential_row list \<Rightarrow> bool" where
  "credentials_evolve cs cs' = (\<forall>c\<in>set cs. \<exists>c'\<in>set cs'. credential_core c' = credential_core c
     \<and> (adc_revoked_at c \<noteq> None \<longrightarrow> adc_revoked_at c' = adc_revoked_at c))"

definition members_evolve :: "member_row list \<Rightarrow> member_row list \<Rightarrow> bool" where
  "members_evolve ms ms' = (\<forall>m\<in>set ms. \<exists>m'\<in>set ms'. mb_id m' = mb_id m \<and> mb_tenant_id m' = mb_tenant_id m \<and> mb_subject m' = mb_subject m)"

lemma evolve_refl [simp]: "credentials_evolve cs cs" "members_evolve ms ms"
  by (auto simp: credentials_evolve_def members_evolve_def)

lemma evolve_append [simp]: "credentials_evolve cs (cs @ ds)" "members_evolve ms (ms @ ns)"
  by (auto simp: credentials_evolve_def members_evolve_def)

lemma credentials_evolve_trans: "credentials_evolve cs ds \<Longrightarrow> credentials_evolve ds es \<Longrightarrow> credentials_evolve cs es"
  unfolding credentials_evolve_def by metis

lemma members_evolve_trans: "members_evolve ms ns \<Longrightarrow> members_evolve ns os \<Longrightarrow> members_evolve ms os"
  unfolding members_evolve_def by metis

lemma credentials_evolve_update:
  assumes "\<And>c. c \<in> set cs \<Longrightarrow> p c \<Longrightarrow> credential_core (f c) = credential_core c \<and> (adc_revoked_at c \<noteq> None \<longrightarrow> adc_revoked_at (f c) = adc_revoked_at c)"
  shows "credentials_evolve cs (update_where p f cs)"
  unfolding credentials_evolve_def
proof
  fix c assume "c \<in> set cs"
  then show "\<exists>c'\<in>set (update_where p f cs). credential_core c' = credential_core c
      \<and> (adc_revoked_at c \<noteq> None \<longrightarrow> adc_revoked_at c' = adc_revoked_at c)"
    using assms [of c] by (cases "p c") (auto dest: update_where_in)
qed

lemma access_ok_member: "access_ok ms cs \<Longrightarrow> mb_id m \<notin> mb_id ` set ms \<Longrightarrow> access_ok (ms @ [m]) cs"
  by (auto simp: access_ok_def credential_ok_def)

lemma access_ok_credential:
  assumes "access_ok ms cs" and "m \<in> set ms" "holder_of c m" "mb_active m" "mb_role m = adc_role c"
    and "\<forall>x\<in>set cs. \<not> credentials_clash c x"
  shows "access_ok ms (cs @ [c])"
  using assms by (force simp: access_ok_def credential_ok_def credentials_clash_def)

text \<open>Credentials change one by one: they keep their member and only a valid one stays valid with its role.\<close>

lemma access_ok_update:
  assumes "access_ok ms cs"
    and "\<And>c. c \<in> set cs \<Longrightarrow> p c \<Longrightarrow> credential_core (f c) = credential_core c
      \<and> (adc_revoked_at (f c) = None \<longrightarrow> adc_revoked_at c = None \<and> adc_role (f c) = adc_role c)"
  shows "access_ok ms (update_where p f cs)"
proof -
  have "map adc_id (update_where p f cs) = map adc_id cs" "map adc_key_prefix (update_where p f cs) = map adc_key_prefix cs"
    using assms(2) by (auto intro!: map_update_where simp: credential_core_def)
  moreover have "credential_ok ms (if p c then f c else c)" if "c \<in> set cs" for c
    using assms(1) assms(2) [OF that] that by (force simp: access_ok_def credential_ok_def holder_of_def credential_core_def)
  ultimately show ?thesis using assms(1) by (auto simp: access_ok_def set_update_where)
qed

text \<open>A member changes together with its valid credentials.\<close>

lemma access_ok_change:
  assumes ok: "access_ok ms cs" and m: "m \<in> set ms" and m1: "mb_id m1 = mb_id m" "mb_tenant_id m1 = mb_tenant_id m"
    and f: "\<And>c. credential_core (f c) = credential_core c \<and> (adc_revoked_at (f c) = None \<longrightarrow> mb_active m1 \<and> mb_role m1 = adc_role (f c))"
  shows "access_ok (update_where (\<lambda>x. mb_id x = mb_id m) (\<lambda>_. m1) ms) (update_where (unrevoked_of (mb_tenant_id m) (mb_id m)) f cs)"
    (is "access_ok ?ms ?cs")
proof -
  have ids: "map mb_id ?ms = map mb_id ms" "map adc_id ?cs = map adc_id cs" "map adc_key_prefix ?cs = map adc_key_prefix cs"
    using m1 f by (auto intro!: map_update_where simp: credential_core_def)
  have mine: "m1 \<in> set ?ms" using m by (auto simp: set_update_where)
  have "credential_ok ?ms (if unrevoked_of (mb_tenant_id m) (mb_id m) c then f c else c)" if c: "c \<in> set cs" for c
  proof -
    obtain k where k: "k \<in> set ms" "holder_of c k" "adc_revoked_at c = None \<longrightarrow> mb_active k \<and> mb_role k = adc_role c"
      using ok c by (auto simp: access_ok_def credential_ok_def)
    show ?thesis
    proof (cases "mb_id k = mb_id m")
      case True
      then have "k = m" using ok m k(1) distinct_key unfolding access_ok_def by metis
      then show ?thesis using mine f [of c] m1 k(2)
        by (auto simp: credential_ok_def holder_of_def credential_core_def unrevoked_of_def intro!: bexI [of _ m1])
    next
      case False
      then have "k \<in> set ?ms" "\<not> unrevoked_of (mb_tenant_id m) (mb_id m) c"
        using k by (auto simp: unrevoked_of_def holder_of_def intro: update_where_in)
      then show ?thesis using k by (auto simp: credential_ok_def)
    qed
  qed
  then show ?thesis using ok ids by (auto simp: access_ok_def set_update_where)
qed

lemma members_evolve_change:
  assumes "distinct (map mb_id ms)" "m \<in> set ms" "mb_id m1 = mb_id m" "mb_tenant_id m1 = mb_tenant_id m" "mb_subject m1 = mb_subject m"
  shows "members_evolve ms (update_where (\<lambda>x. mb_id x = mb_id m) (\<lambda>_. m1) ms)"
  unfolding members_evolve_def
proof
  fix x assume x: "x \<in> set ms"
  then have "mb_id x = mb_id m \<Longrightarrow> x = m" using assms distinct_key by metis
  then show "\<exists>m'\<in>set (update_where (\<lambda>x. mb_id x = mb_id m) (\<lambda>_. m1) ms).
      mb_id m' = mb_id x \<and> mb_tenant_id m' = mb_tenant_id x \<and> mb_subject m' = mb_subject x"
    using x assms(2-5) by (cases "mb_id x = mb_id m") (force simp: set_update_where)+
qed

section \<open>Owners\<close>

definition owner_of :: "tenant_id \<Rightarrow> member_row \<Rightarrow> bool" where
  "owner_of t m = (mb_tenant_id m = t \<and> mb_role m = OWNER \<and> mb_active m)"

definition owned :: "tenant_id \<Rightarrow> member_row list \<Rightarrow> bool" where
  "owned t ms = (\<exists>m\<in>set ms. owner_of t m)"

lemma owned_append [simp]: "owned t (ms @ ns) \<longleftrightarrow> owned t ms \<or> owned t ns"
  by (auto simp: owned_def)

lemma other_owner: "require_other_owner t i db = Inr u \<Longrightarrow> \<exists>o'\<in>set (ad_members db). owner_of t o' \<and> mb_id o' \<noteq> i"
  by (auto simp: require_other_owner_def count_where_def other_owners_def owner_of_def filter_empty_conv split: if_splits)

lemma owned_change:
  assumes "distinct (map mb_id ms)" "m \<in> set ms" "mb_tenant_id m1 = mb_tenant_id m"
    and keep: "owner_of (mb_tenant_id m) m \<Longrightarrow> owner_of (mb_tenant_id m) m1 \<or> (\<exists>o'\<in>set ms. owner_of (mb_tenant_id m) o' \<and> mb_id o' \<noteq> mb_id m)"
    and "owned t ms"
  shows "owned t (update_where (\<lambda>x. mb_id x = mb_id m) (\<lambda>_. m1) ms)"
proof -
  obtain x where x: "x \<in> set ms" "owner_of t x" using assms(5) by (auto simp: owned_def)
  have m1: "m1 \<in> set (update_where (\<lambda>x. mb_id x = mb_id m) (\<lambda>_. m1) ms)" using assms(2) by (auto simp: set_update_where)
  have stays: "owned t (update_where (\<lambda>x. mb_id x = mb_id m) (\<lambda>_. m1) ms)" if "y \<in> set ms" "owner_of t y" "mb_id y \<noteq> mb_id m" for y
    using that by (force simp: owned_def set_update_where)
  show ?thesis
  proof (cases "mb_id x = mb_id m")
    case True
    then have "x = m" using assms(1,2) x(1) distinct_key by metis
    moreover have "t = mb_tenant_id m" using x(2) \<open>x = m\<close> by (simp add: owner_of_def)
    ultimately show ?thesis using keep x(2) m1 stays by (auto simp: owned_def)
  qed (use x stays in blast)
qed

section \<open>Consistent databases and how they evolve\<close>

definition tenants_ok :: "admin_tenant_row list \<Rightarrow> bool" where
  "tenants_ok ts = (distinct (map tt_id ts) \<and> (\<forall>r\<in>set ts. is_ok (view_tenant r)))"

definition ledger_ok :: "admin_db \<Rightarrow> bool" where
  "ledger_ok db = (distinct (map pn_idempotency_key (ad_provisionings db))
     \<and> (\<forall>p\<in>set (ad_provisionings db). pn_tenant_id p \<in> tt_id ` set (ad_tenants db)
        \<and> pn_owner_member_id p \<in> mb_id ` set (ad_members db) \<and> pn_credential_id p \<in> adc_id ` set (ad_credentials db)))"

definition admin_ok :: "admin_db \<Rightarrow> bool" where
  "admin_ok db = (access_ok (ad_members db) (ad_credentials db) \<and> tenants_ok (ad_tenants db) \<and> ledger_ok db)"

text \<open>Every tenant there is keeps an owner once it has one, and a new tenant has one.\<close>

definition evolves :: "admin_db \<Rightarrow> admin_db \<Rightarrow> bool" where
  "evolves db db' = (credentials_evolve (ad_credentials db) (ad_credentials db') \<and> members_evolve (ad_members db) (ad_members db')
     \<and> tt_id ` set (ad_tenants db) \<subseteq> tt_id ` set (ad_tenants db') \<and> set (ad_provisionings db) \<subseteq> set (ad_provisionings db')
     \<and> (\<forall>t. owned t (ad_members db) \<or> t \<in> tt_id ` set (ad_tenants db') - tt_id ` set (ad_tenants db) \<longrightarrow> owned t (ad_members db')))"

lemma evolves_refl [simp]: "evolves db db"
  by (simp add: evolves_def)

lemma evolvesD:
  assumes "evolves db db'"
  shows "credentials_evolve (ad_credentials db) (ad_credentials db')" "members_evolve (ad_members db) (ad_members db')"
    "tt_id ` set (ad_tenants db) \<subseteq> tt_id ` set (ad_tenants db')" "set (ad_provisionings db) \<subseteq> set (ad_provisionings db')"
    "owned t (ad_members db) \<or> t \<in> tt_id ` set (ad_tenants db') - tt_id ` set (ad_tenants db) \<Longrightarrow> owned t (ad_members db')"
  using assms unfolding evolves_def by (simp_all only:)

lemma evolves_trans:
  assumes "evolves a b" "evolves b c"
  shows "evolves a c"
  unfolding evolves_def
proof (intro conjI allI impI)
  show "credentials_evolve (ad_credentials a) (ad_credentials c)"
    by (rule credentials_evolve_trans [OF evolvesD(1) [OF assms(1)] evolvesD(1) [OF assms(2)]])
  show "members_evolve (ad_members a) (ad_members c)"
    by (rule members_evolve_trans [OF evolvesD(2) [OF assms(1)] evolvesD(2) [OF assms(2)]])
  show "tt_id ` set (ad_tenants a) \<subseteq> tt_id ` set (ad_tenants c)"
    by (rule subset_trans [OF evolvesD(3) [OF assms(1)] evolvesD(3) [OF assms(2)]])
  show "set (ad_provisionings a) \<subseteq> set (ad_provisionings c)"
    by (rule subset_trans [OF evolvesD(4) [OF assms(1)] evolvesD(4) [OF assms(2)]])
  fix t assume "owned t (ad_members a) \<or> t \<in> tt_id ` set (ad_tenants c) - tt_id ` set (ad_tenants a)"
  then have "owned t (ad_members b) \<or> t \<in> tt_id ` set (ad_tenants c) - tt_id ` set (ad_tenants b)"
    using evolvesD(5) [OF assms(1), of t] by (simp only: Diff_iff) blast
  then show "owned t (ad_members c)" by (rule evolvesD(5) [OF assms(2)])
qed

lemma evolve_ids:
  "members_evolve ms ms' \<Longrightarrow> mb_id ` set ms \<subseteq> mb_id ` set ms'"
  "credentials_evolve cs cs' \<Longrightarrow> adc_id ` set cs \<subseteq> adc_id ` set cs'"
proof -
  show "mb_id ` set ms \<subseteq> mb_id ` set ms'" if e: "members_evolve ms ms'"
  proof
    fix i assume "i \<in> mb_id ` set ms"
    then obtain m where "m \<in> set ms" "i = mb_id m" by auto
    then obtain m' where "m' \<in> set ms'" "mb_id m' = mb_id m" using e by (auto simp: members_evolve_def)
    then show "i \<in> mb_id ` set ms'" using \<open>i = mb_id m\<close> by (metis image_eqI)
  qed
  show "adc_id ` set cs \<subseteq> adc_id ` set cs'" if e: "credentials_evolve cs cs'"
  proof
    fix i assume "i \<in> adc_id ` set cs"
    then obtain c where "c \<in> set cs" "i = adc_id c" by auto
    then obtain c' where "c' \<in> set cs'" "credential_core c' = credential_core c"
      using e by (auto simp: credentials_evolve_def)
    then show "i \<in> adc_id ` set cs'" using \<open>i = adc_id c\<close> by (metis credential_core_def image_eqI prod.inject)
  qed
qed

text \<open>A step that changes only members and credentials.\<close>

lemma access_step:
  assumes "admin_ok db" and "access_ok (ad_members db') (ad_credentials db')"
    and "ad_tenants db' = ad_tenants db" "ad_provisionings db' = ad_provisionings db"
    and "credentials_evolve (ad_credentials db) (ad_credentials db')" "members_evolve (ad_members db) (ad_members db')"
    and "\<And>t. owned t (ad_members db) \<Longrightarrow> owned t (ad_members db')"
  shows "admin_ok db' \<and> evolves db db'"
  using assms evolve_ids(1) [OF assms(6)] evolve_ids(2) [OF assms(5)]
  by (auto simp: admin_ok_def ledger_ok_def evolves_def)

lemma tenant_step:
  assumes "admin_ok db" and "ad_members db' = ad_members db" "ad_credentials db' = ad_credentials db"
    "ad_provisionings db' = ad_provisionings db"
    and "ad_tenants db' = update_where (\<lambda>x. tt_id x = t) (\<lambda>_. r) (ad_tenants db)" "tt_id r = t" "is_ok (view_tenant r)"
  shows "admin_ok db' \<and> evolves db db'"
proof -
  have "map tt_id (ad_tenants db') = map tt_id (ad_tenants db)" using assms(5,6) by (auto intro: map_update_where)
  then have "tt_id ` set (ad_tenants db') = tt_id ` set (ad_tenants db)" "distinct (map tt_id (ad_tenants db'))"
    using assms(1) unfolding admin_ok_def tenants_ok_def by (metis list.set_map, simp)
  moreover have "\<forall>x\<in>set (ad_tenants db'). is_ok (view_tenant x)"
    using assms(1,5,7) by (auto simp: admin_ok_def tenants_ok_def set_update_where)
  ultimately show ?thesis using assms(1-4) by (simp add: admin_ok_def tenants_ok_def ledger_ok_def evolves_def)
qed

lemma nothing_step:
  assumes "admin_ok db" and "ad_members db' = ad_members db" "ad_credentials db' = ad_credentials db"
    "ad_provisionings db' = ad_provisionings db" "ad_tenants db' = ad_tenants db"
  shows "admin_ok db' \<and> evolves db db'"
  using assms by (intro access_step) (simp_all add: admin_ok_def)

section \<open>Each transaction keeps the database consistent\<close>

lemma written_tenant_id: "tt_id r1 = tt_id r \<Longrightarrow> tt_id (written_tenant r r1) = tt_id r"
  by (simp add: written_tenant_def)

lemma admin_tenant_Inr: "admin_tenant t db = Inr r \<longleftrightarrow> find (\<lambda>r. tt_id r = t) (ad_tenants db) = Some r"
  by (auto simp: admin_tenant_def split: option.splits)

lemma update_tenant_step:
  assumes "admin_ok db" and "update_tenant tzdb t name timezone loc expected actor now db = Inr (db', v)"
  shows "admin_ok db' \<and> evolves db db'"
proof -
  let ?w = "\<lambda>r. written_tenant r (r\<lparr>ta_name := strip name, ta_timezone := timezone,
      tt_default_locale := locale_value loc, tt_supported_locales := [locale_value loc]\<rparr>)"
  obtain r where r: "tt_id r = t" and v: "view_tenant (?w r) = Inr v"
    and db': "ad_tenants db' = update_where (\<lambda>x. tt_id x = t) (\<lambda>_. ?w r) (ad_tenants db)"
      "ad_members db' = ad_members db" "ad_credentials db' = ad_credentials db" "ad_provisionings db' = ad_provisionings db"
    using assms(2) by (auto simp: update_tenant_def res_bind_Inr_iff admin_tenant_Inr Let_def dest!: find_SomeD split: if_splits)
  show ?thesis by (rule tenant_step [OF assms(1) db'(2-4,1)]) (simp_all add: r v written_tenant_id)
qed

lemma transition_step:
  assumes "admin_ok db" and "transition_tenant tzdb t target actor now db = Inr (db', v)"
  shows "admin_ok db' \<and> evolves db db'"
proof -
  let ?w = "\<lambda>r. written_tenant r (r\<lparr>tt_status := target, ta_status_changed_at := now,
      ta_archived_at := (if target = T_ARCHIVED then Some now else None)\<rparr>)"
  obtain r entity where r: "tt_id r = t" and e: "tenant_entity tzdb r = Inr entity" and rest: "(case tenant_transition_to entity target () of
      Inl _ \<Rightarrow> Inl (admin_error ''invalid_transition'' ''Tenant lifecycle transition is invalid'')
    | Inr _ \<Rightarrow> if target = tt_status r then res_bind (view_tenant r) (\<lambda>v. Inr (db, v))
        else res_bind (view_tenant (?w r)) (\<lambda>v. Inr (db\<lparr>ad_tenants := update_where (\<lambda>x. tt_id x = t) (\<lambda>_. ?w r) (ad_tenants db),
          ad_audit := ad_audit db @ [admin_audit t actor ''tenant.lifecycle_changed'' ''tenant'' (tenant_str t)
            [(''from_status'', JStr (tenant_status_value (tt_status r))), (''to_status'', JStr (tenant_status_value target))] now]\<rparr>, v))) = Inr (db', v)"
    using assms(2) unfolding transition_tenant_def res_bind_Inr_iff admin_tenant_Inr Let_def by (auto dest!: find_SomeD)
  have "db' = db \<or> view_tenant (?w r) = Inr v \<and> ad_tenants db' = update_where (\<lambda>x. tt_id x = t) (\<lambda>_. ?w r) (ad_tenants db)
      \<and> ad_members db' = ad_members db \<and> ad_credentials db' = ad_credentials db \<and> ad_provisionings db' = ad_provisionings db"
  proof (cases "tenant_transition_to entity target ()")
    case (Inr e')
    show ?thesis
    proof (cases "target = tt_status r")
      case True
      then show ?thesis using rest unfolding Inr by (auto simp: res_bind_Inr_iff)
    next
      case False
      then show ?thesis using rest unfolding Inr sum.case if_not_P [OF False] res_bind_Inr_iff by auto
    qed
  qed (use rest in simp)
  then consider "db' = db" | "view_tenant (?w r) = Inr v" "ad_tenants db' = update_where (\<lambda>x. tt_id x = t) (\<lambda>_. ?w r) (ad_tenants db)"
      "ad_members db' = ad_members db" "ad_credentials db' = ad_credentials db" "ad_provisionings db' = ad_provisionings db"
    by blast
  then show ?thesis
  proof cases
    case 1
    then show ?thesis using assms(1) by simp
  next
    case 2
    show ?thesis by (rule tenant_step [OF assms(1) 2(3-5,2)]) (simp_all add: r 2(1) written_tenant_id)
  qed
qed

lemma profile_step:
  "admin_ok db \<Longrightarrow> update_business_profile urlsplit t p expected actor now db = Inr (db', v) \<Longrightarrow> admin_ok db' \<and> evolves db db'"
  by (rule nothing_step) (auto simp: update_business_profile_def res_bind_Inr_iff split: if_splits)

lemma entitlement_step:
  "admin_ok db \<Longrightarrow> set_entitlement t c enabled expected actor now db_now db = Inr (db', v) \<Longrightarrow> admin_ok db' \<and> evolves db db'"
  by (rule nothing_step) (auto simp: set_entitlement_def set_retention_entitlement_def set_row_entitlement_def Let_def
      res_bind_Inr_iff split: if_splits option.splits)

lemma upsert_step:
  assumes ok: "admin_ok db" and up: "upsert_member new_id t subject new_role actor now db = Inr (db', v)"
  shows "admin_ok db' \<and> evolves db db'"
proof (cases "find (\<lambda>m. mb_tenant_id m = t \<and> mb_subject m = subject) (ad_members db)")
  case None
  then have db': "ad_members db' = ad_members db @ [new_member new_id t subject new_role now]"
      "ad_credentials db' = ad_credentials db" "ad_tenants db' = ad_tenants db" "ad_provisionings db' = ad_provisionings db"
    and new: "\<forall>x\<in>set (ad_members db). \<not> members_clash (new_member new_id t subject new_role now) x"
    using up by (auto simp: upsert_member_def res_bind_Inr_iff Let_def insert_row_Inr)
  have "new_id \<notin> mb_id ` set (ad_members db)" using new by (auto simp: members_clash_def new_member_def)
  then show ?thesis using ok by (intro access_step) (simp_all add: db' access_ok_member admin_ok_def new_member_def)
next
  case (Some m)
  let ?m = "m\<lparr>mb_role := new_role, mb_active := True, mb_updated_at := now\<rparr>"
  have m: "m \<in> set (ad_members db)" "mb_tenant_id m = t" using find_SomeD [OF Some] by auto
  have db': "ad_members db' = update_where (\<lambda>x. mb_id x = mb_id m) (\<lambda>_. ?m) (ad_members db)"
      "ad_credentials db' = update_where (unrevoked_of (mb_tenant_id m) (mb_id m)) (\<lambda>c. c\<lparr>adc_role := new_role\<rparr>) (ad_credentials db)"
      "ad_tenants db' = ad_tenants db" "ad_provisionings db' = ad_provisionings db"
    and other: "mb_active m \<and> mb_role m = OWNER \<and> new_role \<noteq> OWNER \<longrightarrow> require_other_owner t (mb_id m) db = Inr ()"
    using up m(2) by (auto simp: upsert_member_def Some res_bind_Inr_iff Let_def split: if_splits)
  have ids: "distinct (map mb_id (ad_members db))" and acc: "access_ok (ad_members db) (ad_credentials db)"
    using ok by (simp_all add: admin_ok_def access_ok_def)
  show ?thesis
  proof (rule access_step [OF ok _ db'(3,4)])
    show "access_ok (ad_members db') (ad_credentials db')"
      unfolding db' by (rule access_ok_change [OF acc m(1)]) (simp_all add: credential_core_def)
    show "credentials_evolve (ad_credentials db) (ad_credentials db')"
      unfolding db' by (rule credentials_evolve_update) (simp add: credential_core_def)
    show "members_evolve (ad_members db) (ad_members db')"
      unfolding db' by (rule members_evolve_change [OF ids m(1)]) simp_all
    show "owned u (ad_members db')" if "owned u (ad_members db)" for u
      unfolding db'
    proof (rule owned_change [OF ids m(1) _ _ that])
      assume "owner_of (mb_tenant_id m) m"
      then show "owner_of (mb_tenant_id m) ?m \<or> (\<exists>o'\<in>set (ad_members db). owner_of (mb_tenant_id m) o' \<and> mb_id o' \<noteq> mb_id m)"
        using other other_owner [of t "mb_id m" db "()"] m(2) by (cases "new_role = OWNER") (auto simp: owner_of_def)
    qed simp
  qed
qed

lemma revoke_member_step:
  assumes ok: "admin_ok db" and rev: "revoke_member t i actor now db = Inr (db', v)"
  shows "admin_ok db' \<and> evolves db db'"
proof -
  obtain m where f: "find (\<lambda>m. mb_tenant_id m = t \<and> mb_id m = i) (ad_members db) = Some m"
    using rev by (auto simp: revoke_member_def split: option.splits)
  have m: "m \<in> set (ad_members db)" "mb_tenant_id m = t" "mb_id m = i" using find_SomeD [OF f] by auto
  let ?m = "m\<lparr>mb_active := False, mb_updated_at := now\<rparr>"
  show ?thesis
  proof (cases "mb_active m")
    case False
    then show ?thesis using rev f ok by (simp add: revoke_member_def)
  next
    case True
    have db': "ad_members db' = update_where (\<lambda>x. mb_id x = mb_id m) (\<lambda>_. ?m) (ad_members db)"
        "ad_credentials db' = update_where (unrevoked_of (mb_tenant_id m) (mb_id m)) (\<lambda>c. c\<lparr>adc_revoked_at := Some now\<rparr>) (ad_credentials db)"
        "ad_tenants db' = ad_tenants db" "ad_provisionings db' = ad_provisionings db"
      and other: "mb_role m = OWNER \<longrightarrow> require_other_owner t i db = Inr ()"
      using rev f True m(2,3) by (auto simp: revoke_member_def res_bind_Inr_iff Let_def split: if_splits)
    have ids: "distinct (map mb_id (ad_members db))" and acc: "access_ok (ad_members db) (ad_credentials db)"
      using ok by (simp_all add: admin_ok_def access_ok_def)
    show ?thesis
    proof (rule access_step [OF ok _ db'(3,4)])
      show "access_ok (ad_members db') (ad_credentials db')"
        unfolding db' by (rule access_ok_change [OF acc m(1)]) (simp_all add: credential_core_def)
      show "credentials_evolve (ad_credentials db) (ad_credentials db')"
        unfolding db' by (rule credentials_evolve_update) (simp add: credential_core_def unrevoked_of_def)
      show "members_evolve (ad_members db) (ad_members db')"
        unfolding db' by (rule members_evolve_change [OF ids m(1)]) simp_all
      show "owned u (ad_members db')" if "owned u (ad_members db)" for u
        unfolding db'
      proof (rule owned_change [OF ids m(1) _ _ that])
        assume "owner_of (mb_tenant_id m) m"
        then show "owner_of (mb_tenant_id m) ?m \<or> (\<exists>o'\<in>set (ad_members db). owner_of (mb_tenant_id m) o' \<and> mb_id o' \<noteq> mb_id m)"
          using other other_owner [of t i db "()"] m(2,3) by (auto simp: owner_of_def)
      qed simp
    qed
  qed
qed

text \<open>A step that changes only credentials.\<close>

lemma credential_step:
  assumes "admin_ok db" and "access_ok (ad_members db) (ad_credentials db')"
    and "credentials_evolve (ad_credentials db) (ad_credentials db')"
    and "ad_members db' = ad_members db" "ad_tenants db' = ad_tenants db" "ad_provisionings db' = ad_provisionings db"
  shows "admin_ok db' \<and> evolves db db'"
  using assms by (intro access_step) simp_all

lemma new_credential_fields [simp]:
  "adc_id (new_credential i t m n r e f mat now) = i" "adc_tenant_id (new_credential i t m n r e f mat now) = t"
  "adc_member_id (new_credential i t m n r e f mat now) = m" "adc_role (new_credential i t m n r e f mat now) = r"
  "adc_key_prefix (new_credential i t m n r e f mat now) = mt_prefix mat"
  "adc_secret_hash (new_credential i t m n r e f mat now) = mt_secret_hash mat"
  "adc_expires_at (new_credential i t m n r e f mat now) = e" "adc_revoked_at (new_credential i t m n r e f mat now) = None"
  by (simp_all add: new_credential_def)

lemma create_parts:
  assumes "create_credential new_id t member name expires material actor now db = Inr (db', v)"
  obtains m where "m \<in> set (ad_members db)" "mb_tenant_id m = t" "mb_id m = member" "mb_active m"
    "v = view_credential (new_credential new_id t member (strip name) (mb_role m) (map_option utc expires) None material now)"
    "ad_credentials db' = ad_credentials db @ [new_credential new_id t member (strip name) (mb_role m) (map_option utc expires) None material now]"
    "\<forall>x\<in>set (ad_credentials db). \<not> credentials_clash (new_credential new_id t member (strip name) (mb_role m) (map_option utc expires) None material now) x"
    "ad_members db' = ad_members db" "ad_tenants db' = ad_tenants db" "ad_provisionings db' = ad_provisionings db"
  using assms by (auto simp: create_credential_def res_bind_Inr_iff Let_def insert_row_Inr dest!: find_SomeD split: option.splits)

lemma create_step:
  assumes ok: "admin_ok db" and c: "create_credential new_id t member name expires material actor now db = Inr (db', v)"
  shows "admin_ok db' \<and> evolves db db'"
proof -
  obtain m c where m: "m \<in> set (ad_members db)" "holder_of c m" "mb_active m" "mb_role m = adc_role c"
    and cs: "ad_credentials db' = ad_credentials db @ [c]" "\<forall>x\<in>set (ad_credentials db). \<not> credentials_clash c x"
    and same: "ad_members db' = ad_members db" "ad_tenants db' = ad_tenants db" "ad_provisionings db' = ad_provisionings db"
    using c by (rule create_parts) (force simp: holder_of_def)
  have acc: "access_ok (ad_members db) (ad_credentials db)" using ok by (simp add: admin_ok_def)
  show ?thesis
    by (rule credential_step [OF ok _ _ same]) (simp_all add: cs(1) access_ok_credential [OF acc m cs(2)])
qed

lemma revoking_keeps:
  assumes "access_ok ms cs"
  shows "access_ok ms (update_where p (\<lambda>x. x\<lparr>adc_revoked_at := Some now\<rparr>) cs)"
  by (rule access_ok_update [OF assms]) (simp add: credential_core_def)

lemma find_credential_Inr:
  "find_credential t i db = Inr c \<longleftrightarrow> find (\<lambda>r. adc_tenant_id r = t \<and> adc_id r = i) (ad_credentials db) = Some c"
  by (auto simp: find_credential_def split: option.splits)

lemma only_credential:
  assumes "access_ok ms cs" "c \<in> set cs" "x \<in> set cs" "adc_id x = adc_id c"
  shows "x = c"
  using assms distinct_key unfolding access_ok_def by metis

lemma revoking_evolves:
  assumes "access_ok ms cs" "c \<in> set cs" "adc_revoked_at c = None"
  shows "credentials_evolve cs (update_where (\<lambda>x. adc_id x = adc_id c) (\<lambda>x. x\<lparr>adc_revoked_at := Some now\<rparr>) cs)"
proof (rule credentials_evolve_update)
  fix x assume "x \<in> set cs" "adc_id x = adc_id c"
  then have "x = c" by (rule only_credential [OF assms(1,2)])
  then show "credential_core (x\<lparr>adc_revoked_at := Some now\<rparr>) = credential_core x
      \<and> (adc_revoked_at x \<noteq> None \<longrightarrow> adc_revoked_at (x\<lparr>adc_revoked_at := Some now\<rparr>) = adc_revoked_at x)"
    using assms(3) by (simp add: credential_core_def)
qed

lemma revoke_step:
  assumes ok: "admin_ok db" and rev: "revoke_credential t i actor now db = Inr (db', v)"
  shows "admin_ok db' \<and> evolves db db'"
proof -
  obtain c where c: "c \<in> set (ad_credentials db)" "adc_id c = i"
    and db': "db' = (if adc_revoked_at c = None
      then db\<lparr>ad_credentials := update_where (\<lambda>x. adc_id x = i) (\<lambda>x. x\<lparr>adc_revoked_at := Some now\<rparr>) (ad_credentials db),
        ad_audit := ad_audit db @ [admin_audit t actor ''credential.revoked'' ''credential'' (uuid_str i) [] now]\<rparr> else db)"
    using rev by (auto simp: revoke_credential_def res_bind_Inr_iff find_credential_Inr dest!: find_SomeD split: if_splits)
  have acc: "access_ok (ad_members db) (ad_credentials db)" using ok by (simp add: admin_ok_def)
  show ?thesis
  proof (cases "adc_revoked_at c = None")
    case True
    show ?thesis
      using revoking_evolves [OF acc c(1) True] revoking_keeps [OF acc] c(2)
      by (intro credential_step [OF ok]) (simp_all add: db' True)
  next
    case False
    show ?thesis using ok unfolding db' if_not_P [OF False] by simp
  qed
qed

lemma rotate_step:
  assumes ok: "admin_ok db" and rot: "rotate_credential new_id t i expires material actor now db = Inr (db', v)"
  shows "admin_ok db' \<and> evolves db db'"
proof -
  let ?cs = "update_where (\<lambda>x. adc_id x = i) (\<lambda>x. x\<lparr>adc_revoked_at := Some now\<rparr>) (ad_credentials db)"
  obtain p c where p: "p \<in> set (ad_credentials db)" "adc_tenant_id p = t" "adc_id p = i" "adc_revoked_at p = None"
    and c: "c = new_credential new_id t (adc_member_id p) (adc_name p) (adc_role p) (map_option utc expires) (Some (adc_id p)) material now"
    and cs: "ad_credentials db' = ?cs @ [c]" and new: "\<forall>x\<in>set ?cs. \<not> credentials_clash c x"
    and same: "ad_members db' = ad_members db" "ad_tenants db' = ad_tenants db" "ad_provisionings db' = ad_provisionings db"
    using rot by (auto simp: rotate_credential_def res_bind_Inr_iff find_credential_Inr Let_def insert_row_Inr dest!: find_SomeD split: if_splits)
  have acc: "access_ok (ad_members db) (ad_credentials db)" using ok by (simp add: admin_ok_def)
  obtain m where m: "m \<in> set (ad_members db)" "holder_of p m" "mb_active m" "mb_role m = adc_role p"
    using acc p by (auto simp: access_ok_def credential_ok_def)
  have "holder_of c m" using m(2) p(2) by (simp add: holder_of_def c)
  then have "access_ok (ad_members db) (?cs @ [c])"
    using m by (intro access_ok_credential [OF revoking_keeps [OF acc] m(1) _ _ _ new]) (simp_all add: c)
  moreover have "credentials_evolve (ad_credentials db) (?cs @ [c])"
    using revoking_evolves [OF acc p(1,4)] p(3) by (intro credentials_evolve_trans [OF _ evolve_append(1)]) simp
  ultimately show ?thesis by (intro credential_step [OF ok]) (simp_all add: cs same)
qed

lemma map_sum_Inr: "map_sum id f r = Inr y \<longleftrightarrow> (\<exists>x. r = Inr x \<and> y = f x)"
  by (cases r) auto

lemma authenticate_step:
  assumes ok: "admin_ok db" and au: "db_authenticate static_key provided now db = Inr (db', p)"
  shows "admin_ok db' \<and> evolves db db'"
proof -
  have acc: "access_ok (ad_members db) (ad_credentials db)" using ok by (simp add: admin_ok_def)
  have "db' = db \<or> (\<exists>i. db' = db\<lparr>ad_credentials := update_where (\<lambda>x. adc_id x = i) (\<lambda>x. x\<lparr>adc_last_used_at := Some now\<rparr>) (ad_credentials db)\<rparr>)"
    using au by (auto simp: db_authenticate_def Let_def map_sum_Inr split: if_splits option.splits list.splits)
  then consider "db' = db" | i where "db' = db\<lparr>ad_credentials := update_where (\<lambda>x. adc_id x = i) (\<lambda>x. x\<lparr>adc_last_used_at := Some now\<rparr>) (ad_credentials db)\<rparr>"
    by blast
  then show ?thesis
  proof cases
    case (2 i)
    show ?thesis
      unfolding 2
      by (rule credential_step [OF ok])
        (auto intro!: access_ok_update [OF acc] credentials_evolve_update simp: credential_core_def)
  qed (simp add: ok)
qed

text \<open>A provisioning either replays or adds one row for the tenant and for each of its dependents.\<close>

lemma provision_parts:
  assumes "provision ids q material now db_now db = Inr (db', r)"
  obtains
    (replay) p where "find (\<lambda>r. pn_idempotency_key r = pt_idempotency_key q) (ad_provisionings db) = Some p"
      "pn_tenant_id p = pt_tenant_id q" "db' = db" "result_of_provisioning p None False db = Inr r"
  | (new) "pt_idempotency_key q \<notin> pn_idempotency_key ` set (ad_provisionings db)" "pt_tenant_id q \<notin> tt_id ` set (ad_tenants db)"
      "pi_member ids \<notin> mb_id ` set (ad_members db)"
      "\<forall>x\<in>set (ad_credentials db). \<not> credentials_clash (new_credential (pi_credential ids) (pt_tenant_id q) (pi_member ids)
         (pt_credential_name q) OWNER None None material now) x"
      "ad_tenants db' = ad_tenants db @ [provisioned_tenant q now]"
      "ad_members db' = ad_members db @ [new_member (pi_member ids) (pt_tenant_id q) (pt_owner_subject q) OWNER now]"
      "ad_credentials db' = ad_credentials db @ [new_credential (pi_credential ids) (pt_tenant_id q) (pi_member ids)
         (pt_credential_name q) OWNER None None material now]"
      "ad_provisionings db' = ad_provisionings db @ [provisioning_record ids q now]"
      "result_of_provisioning (provisioning_record ids q now) (Some (mt_plaintext material)) True db' = Inr r"
proof (cases "find (\<lambda>r. pn_idempotency_key r = pt_idempotency_key q) (ad_provisionings db)")
  case (Some p)
  then show ?thesis using assms by (intro replay [of p]) (auto simp: provision_def res_bind_Inr_iff split: if_splits)
next
  case None
  then obtain db1 db2 where
      t: "\<not> list_ex (\<lambda>r. tt_id r = pt_tenant_id q) (ad_tenants db)" and d1: "insert_tenant q now db = Inr db1"
      and d2: "insert_defaults ids q now db_now db1 = Inr db2" and d3: "insert_access ids q material now db2 = Inr db'"
      and r: "result_of_provisioning (provisioning_record ids q now) (Some (mt_plaintext material)) True db' = Inr r"
    using assms by (auto simp: provision_def res_bind_Inr_iff split: if_splits)
  have db1: "ad_tenants db1 = ad_tenants db @ [provisioned_tenant q now]" "ad_members db1 = ad_members db"
      "ad_credentials db1 = ad_credentials db" "ad_provisionings db1 = ad_provisionings db"
    using d1 by (auto simp: insert_tenant_def res_bind_Inr_iff insert_row_Inr)
  have db2: "ad_tenants db2 = ad_tenants db1" "ad_members db2 = ad_members db1 @ [new_member (pi_member ids) (pt_tenant_id q) (pt_owner_subject q) OWNER now]"
      "ad_credentials db2 = ad_credentials db1" "ad_provisionings db2 = ad_provisionings db1"
    and fresh: "\<forall>x\<in>set (ad_members db1). \<not> members_clash (new_member (pi_member ids) (pt_tenant_id q) (pt_owner_subject q) OWNER now) x"
    using d2 by (auto simp: insert_defaults_def res_bind_Inr_iff insert_row_Inr)
  let ?c = "new_credential (pi_credential ids) (pt_tenant_id q) (pi_member ids) (pt_credential_name q) OWNER None None material now"
  have db3: "ad_tenants db' = ad_tenants db2" "ad_members db' = ad_members db2" "ad_credentials db' = ad_credentials db2 @ [?c]"
      "ad_provisionings db' = ad_provisionings db2 @ [provisioning_record ids q now]"
    and freshc: "\<forall>x\<in>set (ad_credentials db2). \<not> credentials_clash ?c x"
    using d3 by (auto simp: insert_access_def res_bind_Inr_iff insert_row_Inr)
  show ?thesis
  proof (rule new)
    show "pt_idempotency_key q \<notin> pn_idempotency_key ` set (ad_provisionings db)" using None by (auto simp: find_None_iff)
    show "pt_tenant_id q \<notin> tt_id ` set (ad_tenants db)" using t by (auto simp: list_ex_iff)
    show "pi_member ids \<notin> mb_id ` set (ad_members db)" using fresh db1 by (auto simp: members_clash_def new_member_def)
  qed (use db1 db2 db3 freshc r in simp_all)
qed

lemma view_locale [simp]: "locale_from (locale_value l) = Inr l"
  by (simp add: locale_from_def)

lemma provision_step:
  assumes ok: "admin_ok db" and pr: "provision ids q material now db_now db = Inr (db', r)"
  shows "admin_ok db' \<and> evolves db db'"
  using pr
proof (cases rule: provision_parts)
  case (replay p)
  then show ?thesis using ok by simp
next
  case new
  let ?m = "new_member (pi_member ids) (pt_tenant_id q) (pt_owner_subject q) OWNER now"
  have acc: "access_ok (ad_members db @ [?m]) (ad_credentials db)"
    using ok new(3) by (intro access_ok_member) (simp_all add: admin_ok_def new_member_def)
  have "access_ok (ad_members db') (ad_credentials db')"
    unfolding new(6,7) by (rule access_ok_credential [OF acc, of ?m]) (use new(4) in \<open>auto simp: holder_of_def new_member_def\<close>)
  moreover have "tenants_ok (ad_tenants db')"
    using ok new(2) by (auto simp: admin_ok_def tenants_ok_def new(5) provisioned_tenant_def view_tenant_def supported_set_def)
  moreover have "ledger_ok db'"
    using ok new(1) unfolding admin_ok_def ledger_ok_def new(5-8)
    by (auto simp: provisioning_record_def provisioned_tenant_def new_member_def)
  moreover have "owned (pt_tenant_id q) (ad_members db')"
    by (auto simp: new(6) owned_def owner_of_def new_member_def)
  then have "evolves db db'"
    by (auto simp: evolves_def new(5-8) provisioned_tenant_def)
  ultimately show ?thesis by (simp add: admin_ok_def)
qed

lemmas operation_steps = provision_step update_tenant_step profile_step transition_step upsert_step revoke_member_step
  create_step rotate_step revoke_step entitlement_step authenticate_step

lemma admin_step_keeps: "admin_step db db' \<Longrightarrow> admin_ok db \<Longrightarrow> admin_ok db' \<and> evolves db db'"
  by (induction rule: admin_step.induct) (blast dest: operation_steps)+

lemma admin_run_keeps: "admin_step\<^sup>*\<^sup>* db db' \<Longrightarrow> admin_ok db \<Longrightarrow> admin_ok db' \<and> evolves db db'"
proof (induction rule: rtranclp_induct)
  case (step b c)
  then show ?case using admin_step_keeps evolves_trans by blast
qed simp

section \<open>Authentication\<close>

lemma filter_single:
  assumes "distinct (map f xs)" "x \<in> set xs" "P x" "\<And>y. y \<in> set xs \<Longrightarrow> P y \<Longrightarrow> f y = f x"
  shows "filter P xs = [x]"
  using assms
proof (induction xs)
  case (Cons a xs)
  show ?case
  proof (cases "a = x")
    case True
    have "\<not> P y" if y: "y \<in> set xs" for y
    proof
      assume "P y"
      then have "f y = f x" using Cons.prems(4) y by simp
      then have "f x \<in> f ` set xs" using y by (metis image_eqI)
      then show False using Cons.prems(1) True by simp
    qed
    then show ?thesis using True Cons.prems(3) by (simp add: filter_empty_conv)
  next
    case False
    then have x: "x \<in> set xs" using Cons.prems(2) by simp
    then have "f x \<in> f ` set xs" by (rule imageI)
    then have "f a \<noteq> f x" using Cons.prems(1) by auto
    then have "\<not> P a" using Cons.prems(4) [of a] list.set_intros(1) [of a xs] by blast
    moreover have "filter P xs = [x]"
    proof (rule Cons.IH [OF _ x Cons.prems(3)])
      show "distinct (map f xs)" using Cons.prems(1) by simp
    qed (rule Cons.prems(4), simp_all)
    ultimately show ?thesis by simp
  qed
qed simp

lemma pairs_of_credential:
  assumes "access_ok (ad_members db) (ad_credentials db)" "c \<in> set (ad_credentials db)" "m \<in> set (ad_members db)" "holder_of c m"
  shows "credential_pairs (adc_key_prefix c) db = [(c, m)]"
proof -
  have "filter (\<lambda>x. adc_key_prefix x = adc_key_prefix c) (ad_credentials db) = [c]"
    using assms(1,2) by (intro filter_single [where f = adc_key_prefix]) (auto simp: access_ok_def)
  moreover have "filter (\<lambda>x. mb_tenant_id x = adc_tenant_id c \<and> mb_id x = adc_member_id c) (ad_members db) = [m]"
    using assms(1,3,4) by (intro filter_single [where f = mb_id]) (auto simp: access_ok_def holder_of_def)
  ultimately show ?thesis by (simp add: credential_pairs_def)
qed

lemma authenticate_pair:
  assumes "admin_ok db" "c \<in> set (ad_credentials db)" "m \<in> set (ad_members db)" "holder_of c m"
    and "key_prefix key = adc_key_prefix c" "startswith ''atba_'' (adc_key_prefix c)"
  shows "db_authenticate static_key (Some key) now db =
    (if key_refused (verify_secret key (adc_secret_hash c)) c m now then Inl AuthenticationError
     else Inr (db\<lparr>ad_credentials := update_where (\<lambda>x. adc_id x = adc_id c) (\<lambda>x. x\<lparr>adc_last_used_at := Some now\<rparr>) (ad_credentials db)\<rparr>,
       \<lparr>pr_subject = mb_subject m, pr_tenant_id = adc_tenant_id c, pr_role = mb_role m\<rparr>))"
  using assms pairs_of_credential [of db c m] by (simp add: db_authenticate_def admin_ok_def)

lemma member_of_credential:
  assumes "admin_ok db" "c \<in> set (ad_credentials db)"
  obtains m where "m \<in> set (ad_members db)" "holder_of c m" "adc_revoked_at c = None \<longrightarrow> mb_active m \<and> mb_role m = adc_role c"
  using assms by (auto simp: admin_ok_def access_ok_def credential_ok_def)

text \<open>A revoked credential is refused in every later database.\<close>

lemma revoked_refused:
  assumes "admin_ok db" "admin_step\<^sup>*\<^sup>* db db'" "c \<in> set (ad_credentials db)" "adc_revoked_at c \<noteq> None"
    and "key_prefix key = adc_key_prefix c" "startswith ''atba_'' (adc_key_prefix c)"
  shows "db_authenticate static_key (Some key) later db' = Inl AuthenticationError"
proof -
  have ok: "admin_ok db'" and ev: "evolves db db'" using admin_run_keeps [OF assms(2,1)] by auto
  obtain c' where c': "c' \<in> set (ad_credentials db')" "credential_core c' = credential_core c" "adc_revoked_at c' \<noteq> None"
    using evolvesD(1) [OF ev] assms(3,4) by (auto simp: credentials_evolve_def)
  obtain m where m: "m \<in> set (ad_members db')" "holder_of c' m" using ok c'(1) by (rule member_of_credential)
  have p: "adc_key_prefix c' = adc_key_prefix c" using c'(2) by (simp add: credential_core_def)
  show ?thesis
    using authenticate_pair [OF ok c'(1) m, of key static_key later] assms(5,6) c'(3) by (simp add: p key_refused_def)
qed

lemma revoked_inactive:
  assumes ok: "admin_ok db" and rev: "revoke_member t i actor now db = Inr (db', v)" and x: "x \<in> set (ad_members db')" "mb_id x = i"
  shows "\<not> mb_active x"
proof -
  obtain m where f: "find (\<lambda>m. mb_tenant_id m = t \<and> mb_id m = i) (ad_members db) = Some m"
    using rev by (auto simp: revoke_member_def split: option.splits)
  have m: "m \<in> set (ad_members db)" "mb_id m = i" using find_SomeD [OF f] by auto
  show ?thesis
  proof (cases "mb_active m")
    case False
    then have "x \<in> set (ad_members db)" using rev f x(1) by (simp add: revoke_member_def)
    then have "x = m" using ok m x(2) distinct_key unfolding admin_ok_def access_ok_def by metis
    then show ?thesis using False by simp
  next
    case True
    then have "ad_members db' = update_where (\<lambda>x. mb_id x = i) (\<lambda>_. m\<lparr>mb_active := False, mb_updated_at := now\<rparr>) (ad_members db)"
      using rev f by (auto simp: revoke_member_def res_bind_Inr_iff Let_def)
    then show ?thesis using x by (auto simp: set_update_where split: if_splits)
  qed
qed

section \<open>What administration guarantees\<close>

text \<open>
  C12. A tenant that has an active owner has one after any sequence of administrative
  transactions, whatever they grant, change or revoke, and a tenant that was provisioned meanwhile has one too.
\<close>

theorem tenant_keeps_owner:
  assumes "admin_ok db" and "admin_step\<^sup>*\<^sup>* db db'"
    and "owned t (ad_members db) \<or> t \<in> tt_id ` set (ad_tenants db') - tt_id ` set (ad_tenants db)"
  shows "\<exists>m\<in>set (ad_members db'). mb_tenant_id m = t \<and> mb_role m = OWNER \<and> mb_active m"
proof -
  have "evolves db db'" using admin_run_keeps [OF assms(2,1)] by simp
  then have "owned t (ad_members db')" by (rule evolvesD(5)) (rule assms(3))
  then show ?thesis by (simp add: owned_def owner_of_def)
qed

text \<open>
  C11. After the removal of a member no key of theirs authenticates again: not later, not after
  the member was invited again, and whatever other transactions ran.
\<close>

theorem revoked_key_dead:
  assumes "admin_ok db" and "revoke_member t i actor now db = Inr (db1, v)" and "admin_step\<^sup>*\<^sup>* db1 db2"
    and "c \<in> set (ad_credentials db1)" "adc_tenant_id c = t" "adc_member_id c = i"
    and "key_prefix key = adc_key_prefix c" "startswith ''atba_'' (adc_key_prefix c)"
  shows "db_authenticate static_key (Some key) later db2 = Inl AuthenticationError"
proof -
  have ok: "admin_ok db1" using revoke_member_step [OF assms(1,2)] by simp
  obtain m where m: "m \<in> set (ad_members db1)" "holder_of c m" "adc_revoked_at c = None \<longrightarrow> mb_active m \<and> mb_role m = adc_role c"
    using ok assms(4) by (rule member_of_credential)
  have "\<not> mb_active m" if "mb_id m = i" using revoked_inactive [OF assms(1,2) m(1) that] .
  then have "adc_revoked_at c \<noteq> None" using m assms(6) by (auto simp: holder_of_def)
  then show ?thesis using revoked_refused [OF ok assms(3,4) _ assms(7,8)] by blast
qed

text \<open>
  C21. The key of a new credential authenticates, after any other transactions, as the member it was issued
  to, with the role this member has by then, until the credential is revoked or expires.
\<close>

theorem issued_key_authenticates:
  assumes "admin_ok db"
    and "create_credential new_id t member name expires (issue_secret a b salt) actor now db = Inr (db1, v)"
    and "admin_step\<^sup>*\<^sup>* db1 db2"
    and "c \<in> set (ad_credentials db2)" "adc_id c = adv_id v" "adc_revoked_at c = None"
    and "case expires of None \<Rightarrow> True | Some e \<Rightarrow> later < utc e"
  shows "\<exists>m\<in>set (ad_members db2). mb_id m = member \<and> mb_tenant_id m = t \<and> mb_active m
    \<and> (\<exists>db3. db_authenticate static_key (Some (mt_plaintext (issue_secret a b salt))) later db2
        = Inr (db3, \<lparr>pr_subject = mb_subject m, pr_tenant_id = t, pr_role = mb_role m\<rparr>))"
proof -
  have "\<exists>c0\<in>set (ad_credentials db1). adc_id c0 = adv_id v \<and> adc_tenant_id c0 = t \<and> adc_member_id c0 = member
      \<and> adc_key_prefix c0 = mt_prefix (issue_secret a b salt) \<and> adc_secret_hash c0 = mt_secret_hash (issue_secret a b salt)
      \<and> adc_expires_at c0 = map_option utc expires"
    using assms(2) by (rule create_parts) (simp add: view_credential_def)
  then obtain c0 where c0: "c0 \<in> set (ad_credentials db1)" "adc_id c0 = adv_id v" "adc_tenant_id c0 = t" "adc_member_id c0 = member"
      "adc_key_prefix c0 = mt_prefix (issue_secret a b salt)" "adc_secret_hash c0 = mt_secret_hash (issue_secret a b salt)"
      "adc_expires_at c0 = map_option utc expires" by blast
  have ok1: "admin_ok db1" using create_step [OF assms(1,2)] by simp
  have ok: "admin_ok db2" and ev: "evolves db1 db2" using admin_run_keeps [OF assms(3) ok1] by auto
  obtain c' where c': "c' \<in> set (ad_credentials db2)" "credential_core c' = credential_core c0"
    using evolvesD(1) [OF ev] c0(1) by (auto simp: credentials_evolve_def)
  have acc: "access_ok (ad_members db2) (ad_credentials db2)" using ok by (simp add: admin_ok_def)
  have "c' = c" using c'(2) c0(2) assms(5) by (intro only_credential [OF acc assms(4) c'(1)]) (simp add: credential_core_def)
  then have c: "adc_tenant_id c = t" "adc_member_id c = member" "adc_key_prefix c = mt_prefix (issue_secret a b salt)"
      "adc_secret_hash c = mt_secret_hash (issue_secret a b salt)" "adc_expires_at c = map_option utc expires"
    using c'(2) c0 by (simp_all add: credential_core_def)
  obtain m where m: "m \<in> set (ad_members db2)" "holder_of c m" "adc_revoked_at c = None \<longrightarrow> mb_active m \<and> mb_role m = adc_role c"
    using ok assms(4) by (rule member_of_credential)
  have "\<not> key_refused (verify_secret (mt_plaintext (issue_secret a b salt)) (adc_secret_hash c)) c m later"
    using m(3) assms(6,7) by (auto simp: key_refused_def c split: option.splits)
  then have "\<exists>db3. db_authenticate static_key (Some (mt_plaintext (issue_secret a b salt))) later db2
      = Inr (db3, \<lparr>pr_subject = mb_subject m, pr_tenant_id = t, pr_role = mb_role m\<rparr>)"
    using authenticate_pair [OF ok assms(4) m(1,2), of "mt_plaintext (issue_secret a b salt)" static_key later]
    by (simp add: c)
  then show ?thesis using m assms(6) c by (intro bexI [of _ m]) (simp_all add: holder_of_def)
qed

lemma result_ids:
  assumes "result_of_provisioning p secret created db = Inr r"
  shows "tv_id (ps_tenant r) = pn_tenant_id p" "mv_id (ps_owner r) = pn_owner_member_id p"
    "adv_id (ss_credential (ps_credential r)) = pn_credential_id p" "ss_secret (ps_credential r) = secret" "ps_created r = created"
  using assms by (auto simp: result_of_provisioning_def res_bind_Inr_iff view_tenant_def view_member_def view_credential_def
      dest!: find_SomeD split: option.splits)

lemma find_key: "k \<in> f ` set xs \<Longrightarrow> \<exists>x. find (\<lambda>x. f x = k) xs = Some x \<and> x \<in> set xs"
  by (cases "find (\<lambda>x. f x = k) xs") (auto simp: find_None_iff dest: find_SomeD)

lemma result_exists:
  assumes "admin_ok db" "p \<in> set (ad_provisionings db)"
  shows "\<exists>r. result_of_provisioning p secret created db = Inr r"
proof -
  have ids: "pn_tenant_id p \<in> tt_id ` set (ad_tenants db)" "pn_owner_member_id p \<in> mb_id ` set (ad_members db)"
      "pn_credential_id p \<in> adc_id ` set (ad_credentials db)"
    using assms unfolding admin_ok_def ledger_ok_def by blast+
  obtain tr where tr: "find (\<lambda>r. tt_id r = pn_tenant_id p) (ad_tenants db) = Some tr" "tr \<in> set (ad_tenants db)"
    using find_key [OF ids(1)] by blast
  obtain ow where ow: "find (\<lambda>r. mb_id r = pn_owner_member_id p) (ad_members db) = Some ow" using find_key [OF ids(2)] by blast
  obtain cr where cr: "find (\<lambda>r. adc_id r = pn_credential_id p) (ad_credentials db) = Some cr" using find_key [OF ids(3)] by blast
  have "is_ok (view_tenant tr)" using assms(1) tr(2) by (simp add: admin_ok_def tenants_ok_def)
  then show ?thesis by (auto simp: result_of_provisioning_def tr ow cr is_ok_iff)
qed

text \<open>
  C22. A provisioning key works once: presented again, after any other transactions, it changes
  nothing; for the same tenant it returns the same tenant, owner and credential without the secret, for
  another tenant it is refused.
\<close>

theorem provision_replays:
  assumes "admin_ok db" and "provision ids q material now db_now db = Inr (db1, r)" and "admin_step\<^sup>*\<^sup>* db1 db2"
    and "pt_idempotency_key q' = pt_idempotency_key q"
  shows "if pt_tenant_id q' = pt_tenant_id q
    then \<exists>r'. provision ids' q' material' now' db_now' db2 = Inr (db2, r') \<and> ss_secret (ps_credential r') = None \<and> \<not> ps_created r'
      \<and> tv_id (ps_tenant r') = tv_id (ps_tenant r) \<and> mv_id (ps_owner r') = mv_id (ps_owner r)
      \<and> adv_id (ss_credential (ps_credential r')) = adv_id (ss_credential (ps_credential r))
    else provision ids' q' material' now' db_now' db2
      = Inl (AdministrationError ''Provisioning key conflicts with another tenant'' ''administration.idempotency_conflict'')"
proof -
  obtain p where p: "p \<in> set (ad_provisionings db1)" "pn_idempotency_key p = pt_idempotency_key q" "pn_tenant_id p = pt_tenant_id q"
    and r: "\<exists>secret created d. result_of_provisioning p secret created d = Inr r"
    using assms(2)
  proof (cases rule: provision_parts)
    case (replay p)
    then show ?thesis using find_SomeD [OF replay(1)] that [of p] by blast
  next
    case new
    show ?thesis by (rule that [of "provisioning_record ids q now"]) (use new(8,9) in \<open>auto simp: provisioning_record_def\<close>)
  qed
  have ok1: "admin_ok db1" using provision_step [OF assms(1,2)] by simp
  have ok: "admin_ok db2" and ev: "evolves db1 db2" using admin_run_keeps [OF assms(3) ok1] by auto
  have p2: "p \<in> set (ad_provisionings db2)" using evolvesD(4) [OF ev] p(1) by blast
  obtain p' where f: "find (\<lambda>r. pn_idempotency_key r = pt_idempotency_key q') (ad_provisionings db2) = Some p'"
      "p' \<in> set (ad_provisionings db2)"
    using find_key [of "pt_idempotency_key q'" pn_idempotency_key "ad_provisionings db2"] p2 p(2) assms(4) by force
  have "pn_idempotency_key p' = pn_idempotency_key p" using find_SomeD [OF f(1)] p(2) assms(4) by simp
  then have p': "p' = p" using ok f(2) p2 distinct_key unfolding admin_ok_def ledger_ok_def by metis
  obtain r' where r': "result_of_provisioning p None False db2 = Inr r'" using result_exists [OF ok p2] by blast
  show ?thesis
  proof (cases "pt_tenant_id q' = pt_tenant_id q")
    case True
    then have "provision ids' q' material' now' db_now' db2 = Inr (db2, r')"
      using f(1) p(3) r' by (simp add: provision_def p')
    then show ?thesis using True r result_ids [OF r'] result_ids by auto
  next
    case False
    then show ?thesis using f(1) p(3) by (simp add: provision_def p' admin_error_def)
  qed
qed

section \<open>Provisioning and activation\<close>

lemma insert_rows_Inr:
  "res_fold (insert_row fit clash) xs rows = Inr rows' \<Longrightarrow> rows' = rows @ xs \<and> (\<forall>x\<in>set xs. \<forall>r\<in>set rows. \<not> clash x r)"
proof (induction xs arbitrary: rows)
  case (Cons x xs)
  then show ?case by (fastforce simp: res_bind_Inr_iff insert_row_Inr)
qed simp

lemma find_append_absent: "\<forall>x\<in>set xs. \<not> p x \<Longrightarrow> find p (xs @ ys) = find p ys"
  by (induction xs) auto

lemma provision_grants:
  assumes "provision ids q material now db_now db = Inr (db1, r)" "ps_created r"
  shows "find (\<lambda>r. tt_id r = pt_tenant_id q) (ad_tenants db1) = Some (provisioned_tenant q now)
    \<and> capability_enabled (pt_tenant_id q) c db1 = Some (c \<in> pt_entitlements q)"
  using assms(1)
proof (cases rule: provision_parts)
  case (replay p)
  then have "\<not> ps_created r" using result_ids(5) by blast
  then show ?thesis using assms(2) by simp
next
  case new
  have "\<forall>x\<in>set (ad_tenants db). tt_id x \<noteq> pt_tenant_id q" using new(2) by (metis image_eqI)
  then have tenant: "find (\<lambda>r. tt_id r = pt_tenant_id q) (ad_tenants db1) = Some (provisioned_tenant q now)"
    unfolding new(5) by (simp add: find_append_absent) (simp add: provisioned_tenant_def)
  have none: "find (\<lambda>r. pn_idempotency_key r = pt_idempotency_key q) (ad_provisionings db) = None"
    using new(1) unfolding find_None_iff by (metis image_eqI)
  obtain da d2 where d: "insert_tenant q now db = Inr da" "insert_defaults ids q now db_now da = Inr d2" "insert_access ids q material now d2 = Inr db1"
    using assms(1) none by (auto simp: provision_def res_bind_Inr_iff split: if_splits)
  have e: "ad_entitlements db1 = ad_entitlements da @ default_entitlements q"
      "\<forall>x\<in>set (default_entitlements q). \<forall>r\<in>set (ad_entitlements da). \<not> entitlements_clash x r"
      "ad_policies db1 = ad_policies da @ [default_retention q db_now]" "\<forall>r\<in>set (ad_policies da). \<not> policies_clash (default_retention q db_now) r"
    using d(2,3) by (auto simp: insert_defaults_def insert_access_def res_bind_Inr_iff insert_row_Inr dest!: insert_rows_Inr)
  have "capability_enabled (pt_tenant_id q) c db1 = Some (c \<in> pt_entitlements q)"
  proof (cases "c = CAP_AUTOMATIC_RETENTION")
    case True
    have "\<forall>r\<in>set (ad_policies da). rn_tenant_id (rr_policy r) \<noteq> pt_tenant_id q"
      using e(4) by (auto simp: policies_clash_def default_retention_def)
    then show ?thesis by (simp add: capability_enabled_def True e(3) find_append_absent) (simp add: default_retention_def)
  next
    case False
    let ?new = "\<lparr>en_tenant_id = pt_tenant_id q, en_capability = c, en_enabled = (c \<in> pt_entitlements q), en_version = 1\<rparr>"
    have "?new \<in> set (default_entitlements q)" using False by (cases c) (auto simp: default_entitlements_def capabilities_def)
    then have "\<forall>r\<in>set (ad_entitlements da). \<not> (en_tenant_id r = pt_tenant_id q \<and> en_capability r = c)"
      using e(2) by (force simp: entitlements_clash_def)
    moreover have "find (\<lambda>r. en_tenant_id r = pt_tenant_id q \<and> en_capability r = c) (default_entitlements q) = Some ?new"
      using False by (cases c) (simp_all add: default_entitlements_def capabilities_def)
    ultimately show ?thesis using False by (simp add: capability_enabled_def e(1) find_append_absent)
  qed
  then show ?thesis using tenant by simp
qed

lemma find_updated: "find (\<lambda>r. f r = k) rows = Some r0 \<Longrightarrow> f r1 = k \<Longrightarrow> find (\<lambda>r. f r = k) (update_where (\<lambda>x. f x = k) (\<lambda>_. r1) rows) = Some r1"
  by (induction rows) (auto simp: update_where_def split: if_splits)

text \<open>
  C23. A tenant just provisioned is unavailable for every capability; its activation makes exactly
  the capabilities available that the provisioning asked for.
\<close>

theorem activation_grants:
  assumes "provision ids q material now db_now db = Inr (db1, r)" and "ps_created r"
    and "transition_tenant tzdb (pt_tenant_id q) T_ACTIVE actor later db1 = Inr (db2, v)"
  shows "require_active (pt_tenant_id q) wanted db1 = Inl (AdministrationError ''Tenant is unavailable'' ''tenant.unavailable'')
    \<and> require_active (pt_tenant_id q) (Some c) db2 = (if c \<in> pt_entitlements q then Inr ()
      else Inl (AdministrationError ''Capability is disabled'' ''tenant.capability_disabled''))"
proof -
  note f = provision_grants [OF assms(1,2), THEN conjunct1] and g = provision_grants [OF assms(1,2), THEN conjunct2]
  have closed: "require_active (pt_tenant_id q) wanted db1 = Inl (AdministrationError ''Tenant is unavailable'' ''tenant.unavailable'')"
    by (simp add: require_active_def f) (simp add: provisioned_tenant_def)
  let ?t = "written_tenant (provisioned_tenant q now) (provisioned_tenant q now\<lparr>tt_status := T_ACTIVE, ta_status_changed_at := later,
      ta_archived_at := None\<rparr>)"
  have s: "tt_status (provisioned_tenant q now) = T_SUSPENDED" "tt_id (provisioned_tenant q now) = pt_tenant_id q"
    by (simp_all add: provisioned_tenant_def)
  have db2: "ad_tenants db2 = update_where (\<lambda>x. tt_id x = pt_tenant_id q) (\<lambda>_. ?t) (ad_tenants db1)"
      "ad_entitlements db2 = ad_entitlements db1" "ad_policies db2 = ad_policies db1"
    using assms(3) by (auto simp: transition_tenant_def admin_tenant_def f res_bind_Inr_iff Let_def s split: sum.splits) (metis obj_sumE)+
  have "tt_status ?t = T_ACTIVE" "tt_id ?t = pt_tenant_id q"
    by (auto simp: written_tenant_def s dest: arg_cong [where f = tt_status])
  then have "map_option tt_status (find (\<lambda>r. tt_id r = pt_tenant_id q) (ad_tenants db2)) = Some T_ACTIVE"
    unfolding db2(1) by (simp add: find_updated [OF f])
  moreover have "capability_enabled (pt_tenant_id q) c db2 = Some (c \<in> pt_entitlements q)"
    using g [of c] unfolding capability_enabled_def db2(2,3) .
  ultimately have "require_active (pt_tenant_id q) (Some c) db2 = (if c \<in> pt_entitlements q then Inr ()
      else Inl (AdministrationError ''Capability is disabled'' ''tenant.capability_disabled''))"
    by (simp add: require_active_def)
  then show ?thesis using closed by simp
qed

section \<open>Witnesses\<close>

text \<open>How long an issued secret is.\<close>

lemma length_pbkdf2: "length (pbkdf2_hmac_sha256 password salt n) = 32"
proof -
  have "length acc = 32 \<Longrightarrow> length (pbkdf2_rounds key k u acc) = 32" for key k u acc
    by (induction k arbitrary: u acc) (simp_all add: xor_bytes_def Let_def)
  then show ?thesis by (simp add: pbkdf2_hmac_sha256_def Let_def)
qed

lemma length_token_hex: "length (token_hex xs) = 2 * length xs"
  by (induction xs) (simp_all add: token_hex_def byte_hex_def)

lemma issued_fits:
  assumes "length a = 8" "length salt = 32" "length (adc_name c) \<le> 100"
    and "adc_key_prefix c = mt_prefix (issue_secret a b salt)" "adc_secret_hash c = mt_secret_hash (issue_secret a b salt)"
  shows "credential_fits c"
proof -
  have "length (adc_key_prefix c) \<le> 40" using assms by (simp add: issue_secret_def Let_def length_token_hex)
  moreover have "length (adc_secret_hash c) \<le> 512"
  proof -
    have enc: "length (urlsafe_b64encode bs) \<le> 100" if "length bs = 32" for bs
      using that by (simp add: urlsafe_b64encode_def length_sextets b64_padding_def)
    have "length (str_int (int pbkdf2_iterations)) = 6" by (simp only: str_int_nat) (simp add: pbkdf2_iterations_def digits_of.simps)
    then show ?thesis
      using enc [OF assms(2)] enc [OF length_pbkdf2 [of "utf8 (mt_plaintext (issue_secret a b salt))" salt pbkdf2_iterations]]
      by (simp add: assms(5) issue_secret_def Let_def hash_secret_def)
  qed
  ultimately show ?thesis using assms(3) by (simp add: credential_fits_def)
qed

text \<open>A tenant with an owner and a manager, who has one credential.\<close>

definition demo_manager_key :: credential_row where
  "demo_manager_key = \<lparr>adc_id = 20, adc_tenant_id = TenantId 1, adc_member_id = 11, adc_name = ''Laptop'', adc_key_prefix = ''atba_1'',
     adc_secret_hash = ''x'', adc_role = MANAGER, adc_expires_at = None, adc_revoked_at = None, adc_last_used_at = None,
     adc_rotated_from_id = None, adc_created_at = 0\<rparr>"

definition demo_admin_db :: admin_db where
  "demo_admin_db = \<lparr>
     ad_tenants = [\<lparr>tt_id = TenantId 1, tt_status = T_ACTIVE, tt_default_locale = ''en'', tt_supported_locales = [''en''],
        ta_slug = ''acme'', ta_name = ''Acme'', ta_timezone = ''UTC'', ta_status_changed_at = 0, ta_archived_at = None,
        ta_settings_version = 1\<rparr>],
     ad_schedules = [], ad_profiles = [],
     ad_members = [new_member 10 (TenantId 1) ''olga'' OWNER 0, new_member 11 (TenantId 1) ''max'' MANAGER 0],
     ad_credentials = [demo_manager_key], ad_entitlements = [], ad_policies = [], ad_provisionings = [], ad_audit = []\<rparr>"

lemma demo_admin_ok: "admin_ok demo_admin_db"
  by (simp add: admin_ok_def access_ok_def tenants_ok_def ledger_ok_def demo_admin_db_def demo_manager_key_def new_member_def
      credential_ok_def holder_of_def view_tenant_def locale_from_def locale_of_def supported_set_def)

definition demo_removal :: "exc + admin_db \<times> member_view" where
  "demo_removal = revoke_member (TenantId 1) 11 ''olga'' 5 demo_admin_db"

lemma demo_removal_done: "case demo_removal of Inl _ \<Rightarrow> False | Inr (db1, _) \<Rightarrow> demo_manager_key\<lparr>adc_revoked_at := Some 5\<rparr> \<in> set (ad_credentials db1)"
  by (simp add: demo_removal_def revoke_member_def demo_admin_db_def new_member_def update_where_def unrevoked_of_def demo_manager_key_def Let_def)

lemma demo_removal_parts:
  obtains db1 v where "revoke_member (TenantId 1) 11 ''olga'' 5 demo_admin_db = Inr (db1, v)" "demo_removal = Inr (db1, v)"
    "demo_manager_key\<lparr>adc_revoked_at := Some 5\<rparr> \<in> set (ad_credentials db1)"
  using demo_removal_done unfolding demo_removal_def by (auto split: sum.splits)

theorem tenant_keeps_owner_witness:
  "case demo_removal of Inl _ \<Rightarrow> False
   | Inr (db1, _) \<Rightarrow> \<exists>m\<in>set (ad_members db1). mb_tenant_id m = TenantId 1 \<and> mb_role m = OWNER \<and> mb_active m"
proof (rule demo_removal_parts)
  fix db1 v assume d: "revoke_member (TenantId 1) 11 ''olga'' 5 demo_admin_db = Inr (db1, v)" "demo_removal = Inr (db1, v)"
  have "owned (TenantId 1) (ad_members demo_admin_db)"
    by (simp add: owned_def owner_of_def demo_admin_db_def new_member_def)
  then have "\<exists>m\<in>set (ad_members db1). mb_tenant_id m = TenantId 1 \<and> mb_role m = OWNER \<and> mb_active m"
    by (intro tenant_keeps_owner [OF demo_admin_ok r_into_rtranclp [of admin_step, OF step_revoke_member [OF d(1)]]]) simp
  then show ?thesis by (simp add: d(2))
qed

theorem revoked_key_dead_witness:
  "case demo_removal of Inl _ \<Rightarrow> False
   | Inr (db1, _) \<Rightarrow> db_authenticate None (Some ''atba_1.secret'') 6 db1 = Inl AuthenticationError"
proof (rule demo_removal_parts)
  fix db1 v assume d: "revoke_member (TenantId 1) 11 ''olga'' 5 demo_admin_db = Inr (db1, v)" "demo_removal = Inr (db1, v)"
    "demo_manager_key\<lparr>adc_revoked_at := Some 5\<rparr> \<in> set (ad_credentials db1)"
  have "db_authenticate None (Some ''atba_1.secret'') 6 db1 = Inl AuthenticationError"
    by (rule revoked_key_dead [OF demo_admin_ok d(1) rtranclp.rtrancl_refl d(3)])
      (simp_all add: demo_manager_key_def key_prefix_def startswith_def)
  then show ?thesis by (simp add: d(2))
qed

text \<open>A second key of the manager.\<close>

definition demo_secret :: credential_material where
  "demo_secret = issue_secret (replicate 8 7) (replicate 32 8) (replicate 32 9)"

definition demo_issue :: "exc + admin_db \<times> credential_view" where
  "demo_issue = create_credential 30 (TenantId 1) 11 ''CI'' None demo_secret ''olga'' 5 demo_admin_db"

lemma demo_prefix: "mt_prefix demo_secret \<noteq> ''atba_1''"
proof
  assume "mt_prefix demo_secret = ''atba_1''"
  then have "length (mt_prefix demo_secret) = 6" by simp
  moreover have "length (mt_prefix demo_secret) = 21" by (simp add: demo_secret_def issue_secret_def Let_def length_token_hex)
  ultimately show False by simp
qed

lemma demo_issue_parts:
  obtains db1 v c where "create_credential 30 (TenantId 1) 11 ''CI'' None demo_secret ''olga'' 5 demo_admin_db = Inr (db1, v)"
    "demo_issue = Inr (db1, v)" "c \<in> set (ad_credentials db1)" "adc_id c = adv_id v" "adc_revoked_at c = None"
    "ad_members db1 = ad_members demo_admin_db"
proof -
  let ?c = "new_credential 30 (TenantId 1) 11 ''CI'' MANAGER None None demo_secret 5"
  have "credential_fits ?c"
    by (rule issued_fits [of "replicate 8 7" "replicate 32 9" _ "replicate 32 8"]) (simp_all add: demo_secret_def new_credential_def)
  then have e: "demo_issue = Inr (demo_admin_db\<lparr>ad_credentials := [demo_manager_key, ?c],
      ad_audit := [admin_audit (TenantId 1) ''olga'' ''credential.created'' ''credential'' (uuid_str 30) [] 5]\<rparr>, view_credential ?c)"
    using demo_prefix
    by (simp add: demo_issue_def create_credential_def validate_expiry_def demo_admin_db_def new_member_def Let_def insert_row_def
        credentials_clash_def demo_manager_key_def strip_def lstrip_def rstrip_def is_space_def code_def)
  show ?thesis by (rule that [where c = ?c, OF e [unfolded demo_issue_def] e]) (simp_all add: view_credential_def)
qed

theorem issued_key_authenticates_witness:
  "case demo_issue of Inl _ \<Rightarrow> False
   | Inr (db1, _) \<Rightarrow> map_sum id snd (db_authenticate None (Some (mt_plaintext demo_secret)) 6 db1)
       = Inr \<lparr>pr_subject = ''max'', pr_tenant_id = TenantId 1, pr_role = MANAGER\<rparr>"
proof (rule demo_issue_parts)
  fix db1 v c assume d: "create_credential 30 (TenantId 1) 11 ''CI'' None demo_secret ''olga'' 5 demo_admin_db = Inr (db1, v)"
    "demo_issue = Inr (db1, v)" "c \<in> set (ad_credentials db1)" "adc_id c = adv_id v" "adc_revoked_at c = None"
    "ad_members db1 = ad_members demo_admin_db"
  have "\<exists>m\<in>set (ad_members db1). mb_id m = 11 \<and> mb_tenant_id m = TenantId 1 \<and> mb_active m
    \<and> (\<exists>db3. db_authenticate None (Some (mt_plaintext demo_secret)) 6 db1
        = Inr (db3, \<lparr>pr_subject = mb_subject m, pr_tenant_id = TenantId 1, pr_role = mb_role m\<rparr>))"
    using issued_key_authenticates [OF demo_admin_ok d(1) [unfolded demo_secret_def] rtranclp.rtrancl_refl d(3-5), of 6 None]
    unfolding demo_secret_def by simp
  then show ?thesis by (auto simp: d(2,6) demo_admin_db_def new_member_def)
qed

text \<open>Another tenant is provisioned and activated.\<close>

definition demo_request :: provision_request where
  "demo_request = \<lparr>pt_tenant_id = TenantId 2, pt_slug = ''beta'', pt_name = ''Beta'', pt_timezone = ''UTC'', pt_default_locale = EN,
     pt_owner_subject = ''bea'', pt_credential_name = ''First'', pt_idempotency_key = ''k'', pt_entitlements = {CAP_BOOKING}\<rparr>"

definition demo_ids :: provision_ids where
  "demo_ids = \<lparr>pi_member = 40, pi_credential = 41, pi_record = 42\<rparr>"

definition demo_provision :: "exc + admin_db \<times> provisioning_result" where
  "demo_provision = provision demo_ids demo_request demo_secret 5 5 demo_admin_db"

lemma demo_provision_parts:
  obtains db1 r where "provision demo_ids demo_request demo_secret 5 5 demo_admin_db = Inr (db1, r)" "demo_provision = Inr (db1, r)"
    "ps_created r" "tv_id (ps_tenant r) = TenantId 2"
proof -
  have "credential_fits (new_credential 41 (TenantId 2) 40 ''First'' OWNER None None demo_secret 5)"
    by (rule issued_fits [of "replicate 8 7" "replicate 32 9" _ "replicate 32 8"]) (simp_all add: demo_secret_def new_credential_def)
  then have "case demo_provision of Inl _ \<Rightarrow> False | Inr (db1, r) \<Rightarrow> ps_created r \<and> tv_id (ps_tenant r) = TenantId 2"
    using demo_prefix
    by (simp add: demo_provision_def provision_def demo_ids_def demo_request_def demo_admin_db_def new_member_def insert_tenant_def
        insert_defaults_def insert_access_def insert_row_def tenant_fits_def provisioned_tenant_def tenants_clash_def members_clash_def
        default_entitlements_def capabilities_def entitlements_clash_def credentials_clash_def demo_manager_key_def
        provisioning_record_def result_of_provisioning_def view_tenant_def supported_set_def locale_from_def locale_of_def
        strip_def lstrip_def rstrip_def is_space_def code_def)
  then show ?thesis unfolding demo_provision_def by (auto split: sum.splits intro: that [unfolded demo_provision_def])
qed

theorem provision_replays_witness:
  "case demo_provision of Inl _ \<Rightarrow> False
   | Inr (db1, r) \<Rightarrow> map_sum id fst (provision demo_ids demo_request demo_secret 9 9 db1) = Inr db1
     \<and> map_sum id fst (provision demo_ids (demo_request\<lparr>pt_tenant_id := TenantId 3\<rparr>) demo_secret 9 9 db1)
       = Inl (AdministrationError ''Provisioning key conflicts with another tenant'' ''administration.idempotency_conflict'')"
proof (rule demo_provision_parts)
  fix db1 r assume d: "provision demo_ids demo_request demo_secret 5 5 demo_admin_db = Inr (db1, r)" "demo_provision = Inr (db1, r)"
  note p = provision_replays [OF demo_admin_ok d(1) rtranclp.rtrancl_refl, where ids' = demo_ids and material' = demo_secret and now' = 9 and db_now' = 9]
  show ?thesis
    using p [of demo_request] p [of "demo_request\<lparr>pt_tenant_id := TenantId 3\<rparr>"]
    by (auto simp: d(2) demo_request_def)
qed

definition demo_activation :: "exc + admin_db \<times> tenant_view" where
  "demo_activation = (case demo_provision of Inl e \<Rightarrow> Inl e
     | Inr (db1, _) \<Rightarrow> transition_tenant (\<lambda>_. Some example_zone) (TenantId 2) T_ACTIVE ''bea'' 6 db1)"

lemma demo_activation_done: "case demo_activation of Inl _ \<Rightarrow> False | Inr _ \<Rightarrow> True"
proof (rule demo_provision_parts)
  fix db1 r assume d: "provision demo_ids demo_request demo_secret 5 5 demo_admin_db = Inr (db1, r)" "demo_provision = Inr (db1, r)" "ps_created r"
  note f = provision_grants [OF d(1,3), THEN conjunct1]
  have "pt_tenant_id demo_request = TenantId 2" by (simp add: demo_request_def)
  then show ?thesis using f
    by (simp add: demo_activation_def d(2) transition_tenant_def admin_tenant_def tenant_entity_def view_tenant_def provisioned_tenant_def
        supported_set_def tenant_post_init_def tenant_transition_to_def written_tenant_def Let_def demo_request_def locale_from_def
        locale_of_def slug_char_def is_lower_az_def is_digit_def isascii_def strip_def lstrip_def rstrip_def blank_def is_space_def code_def)
qed

theorem activation_grants_witness:
  "case demo_activation of Inl _ \<Rightarrow> False
   | Inr (db2, _) \<Rightarrow> require_active (TenantId 2) (Some CAP_BOOKING) db2 = Inr ()
     \<and> require_active (TenantId 2) (Some CAP_TELEGRAM) db2
       = Inl (AdministrationError ''Capability is disabled'' ''tenant.capability_disabled'')"
proof (rule demo_provision_parts)
  fix db1 r assume d: "provision demo_ids demo_request demo_secret 5 5 demo_admin_db = Inr (db1, r)" "demo_provision = Inr (db1, r)" "ps_created r"
  have t: "pt_tenant_id demo_request = TenantId 2" "pt_entitlements demo_request = {CAP_BOOKING}" by (simp_all add: demo_request_def)
  obtain db2 v where x: "transition_tenant (\<lambda>_. Some example_zone) (TenantId 2) T_ACTIVE ''bea'' 6 db1 = Inr (db2, v)"
      "demo_activation = Inr (db2, v)"
    using demo_activation_done by (auto simp: demo_activation_def d(2) split: sum.splits)
  show ?thesis
    using activation_grants [OF d(1,3), unfolded t, OF x(1), of None CAP_BOOKING]
      activation_grants [OF d(1,3), unfolded t, OF x(1), of None CAP_TELEGRAM]
    by (simp add: x(2))
qed

end
