(* ===== verification/Spec2Isabelle.thy ===== *)
theory Spec2Isabelle
  imports ScheduleQueries BookingFacts QualificationUse Notices CallbackFacts TelegramFacts KnowledgeFacts KnowledgeAnswers AIGuarantees PrivacyFacts AdministrationFacts
begin

text \<open>
  A verification library for the business assistant under \<open>src/src/business_assistant\<close>: a multi-tenant
  back end for customers who write to a business over Telegram or HTTP. This theory imports all others and
  documents the development. Paths below are relative to that directory.

  \<^bold>\<open>The program.\<close> \<open>domain/\<close> holds aggregates with their validation and state machines, \<open>application/\<close> the use
  cases with the ports they need, \<open>infrastructure/\<close> the adapters: PostgreSQL stores, model providers, API keys.
  A customer's Telegram update is claimed once (telegram store), resolves to a customer and an open
  conversation, and leads to bookings, questionnaires, knowledge answers or a handoff to staff. Stores write
  events into an outbox in the transaction of their change; background workers project the outbox into
  deliveries and send these. Every store method is one database transaction.

  \<^bold>\<open>How code becomes definitions.\<close> A class is a record, an enum a datatype, an exception a value of \<open>exc\<close>; what
  may raise returns \<open>exc + 'a\<close> (\<open>'a res\<close>), so every raise is a branch. A store is a record of lists of rows, a
  store method a function \<open>db \<Rightarrow> (db \<times> result) res\<close> (\<open>tx\<close>); \<open>run_tx\<close> keeps the old tables when it raises, as
  \<open>session.begin()\<close> does; a use case that runs several transactions is an \<open>act\<close>. Unique and exclusion constraints
  are explicit branches. Row locks and advisory locks appear as the atomicity of a transaction: runs are
  sequences of transactions of any number of clients in any order. Clocks, \<open>uuid4()\<close>, random bytes, the time
  zone database, \<open>urlsplit\<close>, the HTTP client, the model and embedding providers and the ranking functions of
  PostgreSQL are arguments. Times are microseconds in \<open>int\<close>, Python integers \<open>int\<close>, UUIDs 128-bit words, hashes
  bytes of 8 bits. Text is Latin-1 (PyText), where Python has Unicode.

  \<^bold>\<open>Foundations.\<close> Prelude (sorting, dictionaries, optional values), PyErrors (exceptions and sequencing), PyText, PyTime,
  PyParse (text, zones, numbers and dates as the standard library reads them), Crypto (base 64, SHA-256, HMAC), Shared
  (\<open>domain/shared\<close>), Lifecycle (the locales of state machines and of invariants under a clock), Tables (transactions,
  the outbox and conversations).

  \<^bold>\<open>Domain.\<close> Aggregates: bookings, conversations, handoffs, knowledge documents, leads and tenants with their transition
  tables, each an interpretation of the locale \<open>lifecycle\<close>. Catalog: catalogue, customers, profiles and their queries.
  Access: roles, permissions and \<open>Principal.require\<close> (\<open>application/common/security.py\<close>).

  \<^bold>\<open>Schedules and bookings.\<close> Schedule (\<open>domain/scheduling/model.py\<close>, \<open>application/scheduling/engine.py\<close>): effective days, status,
  next opening, business time; \<open>business_due_at_exact\<close> says that the due time consumes exactly the requested open
  time. Its search for open days stops after 370 days (\<open>due_horizon\<close>) as the source's does. ScheduleQueries: the read
  services. Availability (\<open>application/bookings/availability.py\<close>): slots; \<open>availability_exact\<close> characterises them. BookingStore
  (\<open>infrastructure/persistence/booking.py\<close>): drafts, holds, confirmation, rescheduling, cancellation, expiry. BookingFacts: claims
  on a one-capacity resource never overlap, histories are runs of the domain's table, a repeated confirmation returns
  the same booking.

  \<^bold>\<open>Qualification and handoff.\<close> Qualification (\<open>application/leads/engine.py\<close> and models), QualificationStore
  (\<open>infrastructure/persistence/qualification.py\<close>, \<open>application/leads/service.py\<close>, \<open>application/handoffs/service.py\<close>), QualificationFacts (answers,
  scores, escalation, stored forms), QualificationRuns (sequences of \<open>store_call\<close>), QualificationUse (sequences of use cases):
  consent before completion, one active session, cases along their table.

  \<^bold>\<open>Background delivery.\<close> Background (\<open>application/background\<close>, \<open>infrastructure/persistence/background.py\<close>, \<open>infrastructure/notifications.py\<close>),
  BackgroundFacts (retries, the outbox as a refinement of an operation on sets, draining), BackgroundRuns (interleavings of
  workers: one notice for an event and subscription, exclusive leases, final outcomes), Notices (what the
  qualification store emits can be rendered).

  \<^bold>\<open>Telegram.\<close> Callbacks and CallbackFacts (\<open>presentation/telegram/callbacks.py\<close>: signed tokens), TelegramStore
  (\<open>infrastructure/persistence/telegram.py\<close>, \<open>application/telegram/identity.py\<close>, the middleware) and TelegramFacts, whose locale
  \<open>update_guard\<close> gives the effect of redelivered updates and is interpreted by the store.

  \<^bold>\<open>Knowledge.\<close> Knowledge (chunking, \<open>application/knowledge/chunking.py\<close>; its window loop is a \<open>partial_function (option)\<close>, and
  \<open>markdown_chunks_cover\<close> proves that it returns), KnowledgeStore, KnowledgeUse (ingestion, publication, hybrid search,
  extractive answers, re-indexing), KnowledgeFacts, KnowledgeAnswers (answers are grounded; the store refines the
  lifecycle of the aggregate).

  \<^bold>\<open>AI.\<close> AIModels, AISchemas (strict validation), AIRuntime (\<open>application/ai/runtime.py\<close> and the telemetry store; the attempt
  loop ends by a measure on the retries left), AIAdapters (\<open>infrastructure/ai\<close>), AIFacts, AIRuns and AIGuarantees, whose locale
  \<open>model_port\<close> states what the runtime relies on and is interpreted by the OpenAI adapter for every HTTP client.

  \<^bold>\<open>Privacy.\<close> Privacy (\<open>application/privacy\<close>, \<open>infrastructure/persistence/privacy.py\<close>) over the tables of all components, and
  PrivacyFacts: erasure is complete and touches no one else, a retention run settles what its preview counts,
  keys are replayed.

  \<^bold>\<open>Administration.\<close> Secrets (\<open>infrastructure/security/credentials.py\<close>, \<open>api_key.py\<close>; PBKDF2, SHA-1 and \<open>uuid5\<close> are executable),
  Administration (\<open>application/administration\<close>, \<open>infrastructure/persistence/administration.py\<close>, \<open>infrastructure/security/database_api_key.py\<close>)
  and AdministrationFacts: every transaction keeps \<open>admin_ok\<close> and \<open>evolves\<close>, from which follow that a tenant keeps an owner,
  that a revoked key is dead and an issued one works, and that provisioning happens once.

  \<^bold>\<open>Not modelled.\<close> The HTTP interface (\<open>presentation/http\<close>), the Telegram dispatcher and renderer and the process entry
  points are written in FastAPI, pydantic, aiogram and Celery, which are not in the repository; they translate
  between those frameworks and the use cases modelled here. Configuration (\<open>config/settings.py\<close>) reads environment
  variables. Observability (metrics, logs, health probes) and the correlation of log records change no
  modelled state. Persistence plumbing (sessions, the engine, generic repositories), the demonstration data of
  \<open>seed.py\<close> and the schema migrations are SQLAlchemy and Alembic code; the constraints of the tables are modelled
  where a store can violate them. Interleavings inside one transaction are not modelled, apart from what its locks
  exclude; where a missing lock matters, a finding of the manifest says so.
\<close>

end
